(* ===== verification/Fn_Prelude.thy ===== *)
theory Fn_Prelude
  imports Complex_Main "HOL-Library.Sublist" "HOL-Library.Word"
begin

section \<open>Prelude: JavaScript values, insertion-ordered objects, effects\<close>

text \<open>
  What every component of the development shares.
  \<^item> \<open>json\<close>: the values that \<^verbatim>\<open>JSON.parse\<close> and \<^verbatim>\<open>res.json()\<close> produce. A number is an
    integer (\<open>JInt\<close>) or a non-integer kept as the decimal text that \<^verbatim>\<open>String(v)\<close> prints
    (\<open>JDec\<close>); an object is its list of entries in the order \<^verbatim>\<open>Object.entries\<close> yields them.
    A missing property (\<^verbatim>\<open>undefined\<close>) is \<open>None\<close>.
  \<^item> string operations of the language that the sources use (\<^verbatim>\<open>startsWith\<close>, \<^verbatim>\<open>split\<close>,
    \<^verbatim>\<open>trim\<close>, \<^verbatim>\<open>join\<close>, \<^verbatim>\<open>String(v)\<close>).
  \<^item> effects: a computation takes the world (a function from the events so far to the reply
    of the outside to the last of them) and the events so far, and returns a thrown value or
    a result, with the events extended. The world may answer as it likes: nothing is assumed
    of it unless a theorem says so.
\<close>

named_theorems io_simps \<open>unfolding of the effect combinators\<close>
named_theorems io_appends \<open>a computation only appends to the events\<close>

type_synonym byte = "8 word"

subsection \<open>JSON values\<close>

datatype json =
    JNull
  | JBool bool
  | JInt int
  | JDec string
  | JStr string
  | JArr "json list"
  | JObj "(string \<times> json) list"

text \<open>Reading a property of a value that is not null; a null or undefined base throws.\<close>

fun jget :: "json \<Rightarrow> string \<Rightarrow> json option" where
  "jget (JObj kvs) k = map_of kvs k"
| "jget _ k = None"

text \<open>\<^verbatim>\<open>a ?? b\<close>: the right side when the left is undefined or null.\<close>

fun nullish_or :: "json option \<Rightarrow> json \<Rightarrow> json" where
  "nullish_or None d = d"
| "nullish_or (Some JNull) d = d"
| "nullish_or (Some v) d = v"

text \<open>JavaScript truthiness of a value.\<close>

fun truthy :: "json option \<Rightarrow> bool" where
  "truthy None = False"
| "truthy (Some JNull) = False"
| "truthy (Some (JBool b)) = b"
| "truthy (Some (JInt i)) = (i \<noteq> 0)"
| "truthy (Some (JStr s)) = (s \<noteq> [])"
| "truthy (Some _) = True"

text \<open>An object literal whose undefined members are dropped by \<^verbatim>\<open>JSON.stringify\<close>.\<close>

definition jobj :: "(string \<times> json option) list \<Rightarrow> json" where
  "jobj kvs = JObj (List.map_filter (\<lambda>(k, v). map_option (\<lambda>x. (k, x)) v) kvs)"

lemma nullish_or_cases:
  "nullish_or v d = (if v = None \<or> v = Some JNull then d else the v)"
  by (cases "(v, d)" rule: nullish_or.cases) auto

lemma jget_jobj:
  "distinct (map fst kvs) \<Longrightarrow> jget (jobj kvs) k = Option.bind (map_of kvs k) id"
proof (induction kvs)
  case (Cons x kvs)
  obtain a v where x: "x = (a, v)" by (cases x)
  have "map_of (List.map_filter (\<lambda>(k, v). map_option (Pair k) v) ys) b = None"
    if "b \<notin> fst ` set ys" for b and ys :: "(string \<times> json option) list"
    using that by (induction ys) (auto simp: map_filter_simps split: option.splits)
  with Cons x show ?case
    by (cases v) (auto simp: jobj_def map_filter_simps)
qed (simp add: jobj_def map_filter_simps)

subsection \<open>Objects as insertion-ordered entries\<close>

text \<open>\<^verbatim>\<open>obj[k] = v\<close>: replace in place, or append a new property.\<close>

fun put :: "'k \<Rightarrow> 'v \<Rightarrow> ('k \<times> 'v) list \<Rightarrow> ('k \<times> 'v) list" where
  "put k v [] = [(k, v)]"
| "put k v ((k', v') # xs) = (if k = k' then (k, v) # xs else (k', v') # put k v xs)"

text \<open>\<^verbatim>\<open>Object.fromEntries\<close>, and a \<^verbatim>\<open>Map\<close> or \<^verbatim>\<open>URLSearchParams\<close> filled by \<^verbatim>\<open>set\<close>.\<close>

definition from_entries :: "('k \<times> 'v) list \<Rightarrow> ('k \<times> 'v) list" where
  "from_entries kvs = fold (\<lambda>(k, v). put k v) kvs []"

lemma map_of_put [simp]: "map_of (put k v xs) = (map_of xs)(k \<mapsto> v)"
  by (induction xs) auto

lemma keys_put [simp]: "fst ` set (put k v xs) = insert k (fst ` set xs)"
  by (induction k v xs rule: put.induct) (simp_all add: insert_commute)

lemma distinct_put: "distinct (map fst xs) \<Longrightarrow> distinct (map fst (put k v xs))"
proof (induction xs)
  case (Cons x xs)
  then show ?case
    using keys_put [of k v xs] by (cases x) (auto simp: image_iff)
qed simp

lemma put_new: "k \<notin> fst ` set xs \<Longrightarrow> put k v xs = xs @ [(k, v)]"
  by (induction xs) auto

lemma fold_put_distinct:
  "distinct (map fst acc) \<Longrightarrow> distinct (map fst (fold (\<lambda>(k, v). put k v) kvs acc))"
  by (induction kvs arbitrary: acc) (auto simp: distinct_put split: prod.splits)

lemma from_entries_distinct: "distinct (map fst (from_entries kvs))"
  by (simp add: from_entries_def fold_put_distinct)

lemma fold_put_new:
  "distinct (map fst kvs) \<Longrightarrow> fst ` set kvs \<inter> fst ` set acc = {} \<Longrightarrow>
   fold (\<lambda>(k, v). put k v) kvs acc = acc @ kvs"
proof (induction kvs arbitrary: acc)
  case (Cons x kvs)
  then show ?case
    by (cases x) (auto simp: put_new)
qed simp

lemma from_entries_id: "distinct (map fst kvs) \<Longrightarrow> from_entries kvs = kvs"
  by (simp add: from_entries_def fold_put_new)

lemma fold_put_map_of:
  "map_of (fold (\<lambda>(k, v). put k v) kvs acc) = map_of acc ++ map_of (rev kvs)"
proof (induction kvs arbitrary: acc)
  case (Cons x kvs)
  obtain k v where x: "x = (k, v)" by (cases x)
  show ?case
    by (simp add: x Cons.IH) (auto simp: fun_eq_iff map_add_def split: option.splits)
qed simp

text \<open>The last entry with a key wins.\<close>

lemma from_entries_map_of: "map_of (from_entries kvs) = map_of (rev kvs)"
  by (simp add: from_entries_def fold_put_map_of)

lemma fold_put_keys:
  "fst ` set (fold (\<lambda>(k, v). put k v) kvs acc) = fst ` set kvs \<union> fst ` set acc"
  by (induction kvs arbitrary: acc) (auto split: prod.splits)

lemma from_entries_keys: "fst ` set (from_entries kvs) = fst ` set kvs"
  by (simp add: from_entries_def fold_put_keys)

lemma fold_put_vals:
  "snd ` set (fold (\<lambda>(k, v). put k v) kvs acc) \<subseteq> snd ` set kvs \<union> snd ` set acc"
proof (induction kvs arbitrary: acc)
  case (Cons x kvs)
  obtain k v where x: "x = (k, v)" by (cases x)
  have "snd ` set (put k v acc) \<subseteq> insert v (snd ` set acc)"
    by (induction k v acc rule: put.induct) (simp_all, blast)
  with Cons.IH [of "put k v acc"] show ?case by (auto simp: x)
qed simp

lemma from_entries_vals: "snd ` set (from_entries kvs) \<subseteq> snd ` set kvs"
  using fold_put_vals [of kvs "[]"] by (simp add: from_entries_def)

text \<open>\<^verbatim>\<open>[...new Set(xs)]\<close>: the first occurrence of each element, in order.\<close>

fun js_set_add :: "'a list \<Rightarrow> 'a \<Rightarrow> 'a list" where
  "js_set_add s x = (if x \<in> set s then s else s @ [x])"

definition js_set :: "'a list \<Rightarrow> 'a list" where
  "js_set xs = foldl js_set_add [] xs"

lemma foldl_js_set_add:
  "distinct s \<Longrightarrow> distinct (foldl js_set_add s xs) \<and> set (foldl js_set_add s xs) = set s \<union> set xs"
  by (induction xs arbitrary: s) (auto simp: insert_absorb)

lemma set_js_set [simp]: "set (js_set xs) = set xs"
  using foldl_js_set_add [of "[]" xs] by (simp add: js_set_def)

lemma distinct_js_set [simp]: "distinct (js_set xs)"
  using foldl_js_set_add [of "[]" xs] by (simp add: js_set_def)

subsection \<open>String operations\<close>

definition starts_with :: "string \<Rightarrow> string \<Rightarrow> bool" where
  "starts_with s p = prefix p s"

text \<open>\<^verbatim>\<open>s.split(c)\<close> for a one-character separator; never empty.\<close>

fun split_on :: "char \<Rightarrow> string \<Rightarrow> string list" where
  "split_on c [] = [[]]"
| "split_on c (x # xs) =
     (if x = c then [] # split_on c xs
      else case split_on c xs of [] \<Rightarrow> [[x]] | w # ws \<Rightarrow> (x # w) # ws)"

text \<open>\<^verbatim>\<open>xs.join(sep)\<close>.\<close>

fun join_with :: "string \<Rightarrow> string list \<Rightarrow> string" where
  "join_with sep [] = []"
| "join_with sep [x] = x"
| "join_with sep (x # y # ys) = x @ sep @ join_with sep (y # ys)"

text \<open>The ASCII white space that \<^verbatim>\<open>trim\<close> removes on both sides.\<close>

definition js_space :: "char \<Rightarrow> bool" where
  "js_space c = (c \<in> {CHR '' '', CHR 0x09, CHR 0x0A, CHR 0x0B, CHR 0x0C, CHR 0x0D})"

definition trim :: "string \<Rightarrow> string" where
  "trim s = rev (dropWhile js_space (rev (dropWhile js_space s)))"

text \<open>\<^verbatim>\<open>s.replace(/X$/, "")\<close> for a single character \<open>X\<close>.\<close>

definition strip_suffix_char :: "char \<Rightarrow> string \<Rightarrow> string" where
  "strip_suffix_char c s = (if s \<noteq> [] \<and> last s = c then butlast s else s)"

lemma split_on_ne: "split_on c s \<noteq> []"
  by (induction s) (auto split: list.splits)

lemma starts_with_append [simp]: "starts_with (p @ s) p"
  by (simp add: starts_with_def)

lemma starts_withD: "starts_with s p \<Longrightarrow> s = p @ drop (length p) s"
  by (auto simp: starts_with_def prefix_def)

text \<open>Decimal notation of an integer, and \<^verbatim>\<open>String(v)\<close>.\<close>

fun show_nat :: "nat \<Rightarrow> string" where
  "show_nat n = (if n < 10 then [char_of (48 + n)] else show_nat (n div 10) @ [char_of (48 + n mod 10)])"

declare show_nat.simps [simp del]

definition show_int :: "int \<Rightarrow> string" where
  "show_int i = (if i < 0 then ''-'' @ show_nat (nat (- i)) else show_nat (nat i))"

text \<open>\<^verbatim>\<open>{ ...j, k: v, ... }\<close>: arrays and strings spread by index, other values have nothing to spread.\<close>

definition own_entries :: "json \<Rightarrow> (string \<times> json) list" where
  "own_entries j = (case j of JObj os \<Rightarrow> os
     | JArr vs \<Rightarrow> zip (map show_nat [0..<length vs]) vs
     | JStr s \<Rightarrow> zip (map show_nat [0..<length s]) (map (\<lambda>c. JStr [c]) s)
     | _ \<Rightarrow> [])"

definition spread :: "json \<Rightarrow> (string \<times> json) list \<Rightarrow> json" where
  "spread j kvs = JObj (fold (\<lambda>(k, v). put k v) kvs (own_entries j))"

fun js_string :: "json \<Rightarrow> string" where
  "js_string JNull = ''null''"
| "js_string (JBool b) = (if b then ''true'' else ''false'')"
| "js_string (JInt i) = show_int i"
| "js_string (JDec d) = d"
| "js_string (JStr s) = s"
| "js_string (JArr vs) =
     join_with '','' (map (\<lambda>v. case v of JNull \<Rightarrow> [] | _ \<Rightarrow> js_string v) vs)"
| "js_string (JObj _) = ''[object Object]''"

text \<open>A template literal \<^verbatim>\<open>${x}\<close> of a possibly undefined value.\<close>

definition interp :: "json option \<Rightarrow> string" where
  "interp v = (case v of None \<Rightarrow> ''undefined'' | Some x \<Rightarrow> js_string x)"

text \<open>
  \<^verbatim>\<open>Math.round((a / b) * 100)\<close> for whole \<open>a\<close> and \<open>b > 0\<close>: the nearest integer, halves up,
  of the exact quotient (the double-precision rounding of the quotient is not modelled).
\<close>

definition round_pct :: "nat \<Rightarrow> nat \<Rightarrow> nat" where
  "round_pct a b = (200 * a + b) div (2 * b)"

lemma round_pct_0 [simp]: "0 < b \<Longrightarrow> round_pct 0 b = 0"
  by (simp add: round_pct_def)

lemma round_pct_full [simp]: "0 < b \<Longrightarrow> round_pct b b = 100"
  by (simp add: round_pct_def div_nat_eqI)

lemma round_pct_mono: "a \<le> a' \<Longrightarrow> round_pct a b \<le> round_pct a' b"
  unfolding round_pct_def by (intro div_le_mono) simp

lemma round_pct_le: "0 < b \<Longrightarrow> a \<le> b \<Longrightarrow> round_pct a b \<le> 100"
  using round_pct_mono [of a b b] by simp

text \<open>\<^verbatim>\<open>Math.ceil(n / c)\<close>.\<close>

definition ceil_div :: "nat \<Rightarrow> nat \<Rightarrow> nat" where
  "ceil_div n c = (n + c - 1) div c"

lemma ceil_div_0 [simp]: "ceil_div 0 c = 0"
  by (cases c) (auto simp: ceil_div_def)

lemma ceil_div_cover: "0 < c \<Longrightarrow> n \<le> ceil_div n c * c"
proof -
  assume c: "0 < c"
  have "n + c - 1 < (n + c - 1) div c * c + c"
    using c by (metis add.commute div_mult_mod_eq mod_less_divisor nat_add_left_cancel_less)
  then show "n \<le> ceil_div n c * c" using c by (simp add: ceil_div_def)
qed

lemma less_ceil_div: "0 < c \<Longrightarrow> i < ceil_div n c \<longleftrightarrow> i * c < n"
proof -
  assume c: "0 < c"
  have "i < ceil_div n c \<longleftrightarrow> Suc i * c \<le> n + c - 1"
    using c by (simp add: ceil_div_def less_eq_div_iff_mult_less_eq Suc_le_eq [symmetric])
  also have "\<dots> \<longleftrightarrow> i * c < n" using c by auto
  finally show ?thesis .
qed

subsection \<open>Route handlers\<close>

text \<open>What a route handler ends with: a response with its status and JSON, or an uncaught error.\<close>

datatype route_result = Reply nat json | Crash

definition err_json :: "string \<Rightarrow> json" where
  "err_json m = JObj [(''error'', JStr m)]"

subsection \<open>Effectful computations\<close>

type_synonym ('e, 'r) world = "'e list \<Rightarrow> 'r"

type_synonym ('e, 'r, 'x, 'a) io = "('e, 'r) world \<Rightarrow> 'e list \<Rightarrow> ('x + 'a) \<times> 'e list"

definition ret :: "'a \<Rightarrow> ('e, 'r, 'x, 'a) io" where
  "ret a = (\<lambda>w h. (Inr a, h))"

definition throw :: "'x \<Rightarrow> ('e, 'r, 'x, 'a) io" where
  "throw x = (\<lambda>w h. (Inl x, h))"

definition andThen :: "('e, 'r, 'x, 'a) io \<Rightarrow> ('a \<Rightarrow> ('e, 'r, 'x, 'b) io) \<Rightarrow> ('e, 'r, 'x, 'b) io" where
  "andThen m f = (\<lambda>w h. case m w h of (Inl x, h') \<Rightarrow> (Inl x, h') | (Inr a, h') \<Rightarrow> f a w h')"

text \<open>\<^verbatim>\<open>try { m } catch (x) { f x }\<close>.\<close>

definition catching :: "('e, 'r, 'x, 'a) io \<Rightarrow> ('x \<Rightarrow> ('e, 'r, 'y, 'a) io) \<Rightarrow> ('e, 'r, 'y, 'a) io" where
  "catching m f = (\<lambda>w h. case m w h of (Inl x, h') \<Rightarrow> f x w h' | (Inr a, h') \<Rightarrow> (Inr a, h'))"

text \<open>Both outcomes continued: \<open>f\<close> after a throw of \<open>m\<close>, \<open>g\<close> after its result.\<close>

definition handling ::
    "('e, 'r, 'x, 'a) io \<Rightarrow> ('x \<Rightarrow> ('e, 'r, 'y, 'b) io) \<Rightarrow> ('a \<Rightarrow> ('e, 'r, 'y, 'b) io) \<Rightarrow>
     ('e, 'r, 'y, 'b) io" where
  "handling m f g = (\<lambda>w h. case m w h of (Inl x, h') \<Rightarrow> f x w h' | (Inr a, h') \<Rightarrow> g a w h')"

text \<open>An event without a reply (a log line, a callback, a timer), and one with a reply.\<close>

definition emit :: "'e \<Rightarrow> ('e, 'r, 'x, unit) io" where
  "emit e = (\<lambda>w h. (Inr (), h @ [e]))"

definition ask :: "'e \<Rightarrow> ('e, 'r, 'x, 'r) io" where
  "ask e = (\<lambda>w h. (Inr (w (h @ [e])), h @ [e]))"

definition run :: "('e, 'r, 'x, 'a) io \<Rightarrow> ('e, 'r) world \<Rightarrow> ('x + 'a) \<times> 'e list" where
  "run m w = m w []"

lemma andThen_apply [io_simps]:
  "andThen m f w h = (case m w h of (Inl x, h') \<Rightarrow> (Inl x, h') | (Inr a, h') \<Rightarrow> f a w h')"
  by (simp add: andThen_def)

lemma catching_apply [io_simps]:
  "catching m f w h = (case m w h of (Inl x, h') \<Rightarrow> f x w h' | (Inr a, h') \<Rightarrow> (Inr a, h'))"
  by (simp add: catching_def)

lemma ret_apply [io_simps]: "ret a w h = (Inr a, h)"
  by (simp add: ret_def)

lemma throw_apply [io_simps]: "throw x w h = (Inl x, h)"
  by (simp add: throw_def)

lemma emit_apply [io_simps]: "emit e w h = (Inr (), h @ [e])"
  by (simp add: emit_def)

lemma ask_apply [io_simps]: "ask e w h = (Inr (w (h @ [e])), h @ [e])"
  by (simp add: ask_def)

lemma andThen_ret [simp]: "andThen (ret a) f = f a"
  by (simp add: fun_eq_iff io_simps)

lemma andThen_throw [simp]: "andThen (throw x) f = throw x"
  by (simp add: fun_eq_iff io_simps)

lemma andThen_ret_right [simp]: "andThen m ret = m"
  by (simp add: fun_eq_iff io_simps split: prod.splits sum.splits)

lemma andThen_assoc: "andThen (andThen m f) g = andThen m (\<lambda>a. andThen (f a) g)"
  by (simp add: fun_eq_iff io_simps split: prod.splits sum.splits)

text \<open>No computation rewrites history.\<close>

definition appends :: "('e, 'r, 'x, 'a) io \<Rightarrow> bool" where
  "appends m = (\<forall>w h. prefix h (snd (m w h)))"

lemma appends_ret [io_appends]: "appends (ret a)"
  by (simp add: appends_def io_simps)

lemma appends_throw [io_appends]: "appends (throw x)"
  by (simp add: appends_def io_simps)

lemma appends_emit [io_appends]: "appends (emit e)"
  by (simp add: appends_def io_simps)

lemma appends_ask [io_appends]: "appends (ask e)"
  by (simp add: appends_def io_simps)

lemma appends_andThen [io_appends]:
  assumes "appends m" and "\<And>a. appends (f a)"
  shows "appends (andThen m f)"
  unfolding appends_def
proof (intro allI)
  fix w h
  have m: "prefix h (snd (m w h))" using assms(1) by (simp add: appends_def)
  show "prefix h (snd (andThen m f w h))"
  proof (cases "m w h")
    case (Pair r h')
    have "prefix h' (snd (f a w h'))" for a using assms(2) by (simp add: appends_def)
    with Pair m show ?thesis
      by (auto simp: io_simps split: sum.splits intro: prefix_order.trans)
  qed
qed

subsection \<open>What a computation yields\<close>

text \<open>
  \<open>yields w m Q\<close>: whatever happened before, \<open>m\<close> run in the world \<open>w\<close> adds events to the history
  such that its outcome and the added events satisfy \<open>Q\<close>.
\<close>

definition yields :: "('e, 'r) world \<Rightarrow> ('e, 'r, 'x, 'a) io \<Rightarrow> ('x + 'a \<Rightarrow> 'e list \<Rightarrow> bool) \<Rightarrow> bool" where
  "yields w m Q = (\<forall>h. \<exists>es. snd (m w h) = h @ es \<and> Q (fst (m w h)) es)"

lemma yieldsD: "yields w m Q \<Longrightarrow> Q (fst (m w [])) (snd (m w []))"
  by (auto simp: yields_def dest: spec [of _ "[]"])

lemma yields_weaken: "yields w m P \<Longrightarrow> (\<And>r es. P r es \<Longrightarrow> Q r es) \<Longrightarrow> yields w m Q"
  unfolding yields_def by blast

lemma yields_ret: "Q (Inr a) [] \<Longrightarrow> yields w (ret a) Q"
  by (simp add: yields_def io_simps)

lemma yields_throw: "Q (Inl x) [] \<Longrightarrow> yields w (throw x) Q"
  by (simp add: yields_def io_simps)

lemma yields_emit: "Q (Inr ()) [e] \<Longrightarrow> yields w (emit e) Q"
  by (simp add: yields_def io_simps)

lemma yields_ask: "(\<And>h. Q (Inr (w h)) [e]) \<Longrightarrow> yields w (ask e) Q"
  by (simp add: yields_def io_simps)

lemma yields_handling:
  assumes "yields w m P"
    and "\<And>x es. P (Inl x) es \<Longrightarrow> yields w (f x) (\<lambda>r fs. Q r (es @ fs))"
    and "\<And>a es. P (Inr a) es \<Longrightarrow> yields w (g a) (\<lambda>r fs. Q r (es @ fs))"
  shows "yields w (handling m f g) Q"
  unfolding yields_def
proof
  fix h
  from assms(1) obtain es where es: "snd (m w h) = h @ es" "P (fst (m w h)) es"
    unfolding yields_def by blast
  define k where "k = (case fst (m w h) of Inl x \<Rightarrow> f x | Inr a \<Rightarrow> g a)"
  have "yields w k (\<lambda>r fs. Q r (es @ fs))"
    using es(2) assms(2,3) by (cases "fst (m w h)") (simp_all add: k_def)
  then obtain fs where "snd (k w (h @ es)) = (h @ es) @ fs" "Q (fst (k w (h @ es))) (es @ fs)"
    unfolding yields_def by blast
  moreover have "handling m f g w h = k w (h @ es)"
    using es(1) by (cases "m w h") (auto simp: handling_def k_def split: sum.splits)
  ultimately show "\<exists>es. snd (handling m f g w h) = h @ es \<and> Q (fst (handling m f g w h)) es"
    by auto
qed

lemma andThen_handling: "andThen m f = handling m throw f"
  by (auto simp: fun_eq_iff andThen_def handling_def throw_def split: prod.splits sum.splits)

lemma catching_handling: "catching m f = handling m f ret"
  by (auto simp: fun_eq_iff catching_def handling_def ret_def split: prod.splits sum.splits)

lemma yields_andThen:
  assumes "yields w m P"
    and "\<And>x es. P (Inl x) es \<Longrightarrow> Q (Inl x) es"
    and "\<And>a es. P (Inr a) es \<Longrightarrow> yields w (f a) (\<lambda>r fs. Q r (es @ fs))"
  shows "yields w (andThen m f) Q"
  unfolding andThen_handling
  by (rule yields_handling [OF assms(1)]) (auto intro!: yields_throw simp: assms(2,3))

lemma yields_catching:
  assumes "yields w m P"
    and "\<And>x es. P (Inl x) es \<Longrightarrow> yields w (f x) (\<lambda>r fs. Q r (es @ fs))"
    and "\<And>a es. P (Inr a) es \<Longrightarrow> Q (Inr a) es"
  shows "yields w (catching m f) Q"
  unfolding catching_handling
  by (rule yields_handling [OF assms(1)]) (auto intro!: yields_ret simp: assms(2,3))

end
