(* ===== verification/Sdk_Errors.thy ===== *)
theory Sdk_Errors
  imports Fn_Prelude
begin

text \<open>
  The error hierarchy of \<^verbatim>\<open>@filenest/core\<close> (\<^verbatim>\<open>sdks/core/src/errors/index.ts\<close>). An error object is
  the record of its fields; its class is a value of \<open>err_class\<close>, and \<open>instance_of\<close> is the
  \<^verbatim>\<open>extends\<close> relation, which is what \<^verbatim>\<open>instanceof\<close> tests. Each constructor of the source is one
  definition, default arguments included. \<open>exn\<close> is what SDK code can throw: an error of the
  hierarchy, or one of the language's own errors.
\<close>

datatype err_class =
    CFileNestError | CAuthenticationError | CAuthorizationError | CNotFoundError
  | CFileNotFoundError | CConflictError | CWORMViolationError | CLegalHoldError
  | CValidationError | CMetadataValidationError | CRateLimitError | CNetworkError
  | CStorageError

record fn_error =
  err_class :: err_class
  message :: json
  code :: json
  statusCode :: int
  requiredScope :: "json option"
  fileId :: "string option"
  reason :: "string option"
  validationErrors :: json
  retryAfter :: "json option"
  cause :: "string option"

definition fileNestError :: "json \<Rightarrow> json \<Rightarrow> int \<Rightarrow> fn_error" where
  "fileNestError m c st =
     \<lparr>err_class = CFileNestError, message = m, code = c, statusCode = st,
      requiredScope = None, fileId = None, reason = None, validationErrors = JArr [],
      retryAfter = None, cause = None\<rparr>"

abbreviation dflt :: "json option \<Rightarrow> string \<Rightarrow> json" where
  "dflt m d \<equiv> (case m of None \<Rightarrow> JStr d | Some v \<Rightarrow> v)"

definition authenticationError :: "json option \<Rightarrow> fn_error" where
  "authenticationError m =
     (fileNestError (dflt m ''Invalid or missing API key'') (JStr ''authentication_required'') 401)
       \<lparr>err_class := CAuthenticationError\<rparr>"

definition authorizationError :: "json option \<Rightarrow> json option \<Rightarrow> fn_error" where
  "authorizationError m scope =
     (fileNestError (dflt m ''Insufficient scope'') (JStr ''insufficient_scope'') 403)
       \<lparr>err_class := CAuthorizationError, requiredScope := scope\<rparr>"

definition notFoundError :: "json option \<Rightarrow> fn_error" where
  "notFoundError m =
     (fileNestError (dflt m ''Resource not found'') (JStr ''not_found'') 404)
       \<lparr>err_class := CNotFoundError\<rparr>"

text \<open>\<^verbatim>\<open>fileId ? ... : ...\<close>: the empty string counts as no id for the message.\<close>

definition fileNotFoundError :: "string option \<Rightarrow> fn_error" where
  "fileNotFoundError fid =
     (notFoundError (Some (JStr (case fid of None \<Rightarrow> ''File not found''
        | Some i \<Rightarrow> if i = [] then ''File not found'' else ''File '' @ i @ '' not found''))))
       \<lparr>err_class := CFileNotFoundError, fileId := fid\<rparr>"

definition conflictError :: "json option \<Rightarrow> fn_error" where
  "conflictError m =
     (fileNestError (dflt m ''Resource conflict'') (JStr ''conflict'') 409)
       \<lparr>err_class := CConflictError\<rparr>"

definition wormViolationError :: "json option \<Rightarrow> fn_error" where
  "wormViolationError m =
     (fileNestError (dflt m ''File is WORM-committed and cannot be modified'')
        (JStr ''worm_violation'') 409)
       \<lparr>err_class := CWORMViolationError\<rparr>"

definition legalHoldError :: "json option \<Rightarrow> string option \<Rightarrow> fn_error" where
  "legalHoldError m r =
     (fileNestError (dflt m ''File is under legal hold'') (JStr ''legal_hold_active'') 409)
       \<lparr>err_class := CLegalHoldError, reason := r\<rparr>"

definition validationError :: "json option \<Rightarrow> json option \<Rightarrow> json option \<Rightarrow> fn_error" where
  "validationError m ves c =
     (fileNestError (dflt m ''Validation failed'') (dflt c ''validation_error'') 422)
       \<lparr>err_class := CValidationError,
        validationErrors := (case ves of None \<Rightarrow> JArr [] | Some v \<Rightarrow> v)\<rparr>"

definition metadataValidationError :: "json option \<Rightarrow> fn_error" where
  "metadataValidationError ves =
     (validationError (Some (JStr ''Metadata validation failed'')) ves
        (Some (JStr ''metadata_validation_error'')))
       \<lparr>err_class := CMetadataValidationError\<rparr>"

definition rateLimitError :: "json option \<Rightarrow> json option \<Rightarrow> fn_error" where
  "rateLimitError m ra =
     (fileNestError (dflt m ''Rate limit exceeded'') (JStr ''rate_limited'') 429)
       \<lparr>err_class := CRateLimitError, retryAfter := ra\<rparr>"

definition networkError :: "json option \<Rightarrow> string option \<Rightarrow> fn_error" where
  "networkError m c =
     (fileNestError (dflt m ''Network error'') (JStr ''network_error'') 0)
       \<lparr>err_class := CNetworkError, cause := c\<rparr>"

definition storageError :: "json option \<Rightarrow> fn_error" where
  "storageError m =
     (fileNestError (dflt m ''Storage provider error'') (JStr ''storage_error'') 502)
       \<lparr>err_class := CStorageError\<rparr>"

text \<open>The class each class \<^verbatim>\<open>extends\<close>, and \<^verbatim>\<open>instanceof\<close>.\<close>

fun parent_class :: "err_class \<Rightarrow> err_class" where
  "parent_class CFileNotFoundError = CNotFoundError"
| "parent_class CMetadataValidationError = CValidationError"
| "parent_class _ = CFileNestError"

definition instance_of :: "fn_error \<Rightarrow> err_class \<Rightarrow> bool" where
  "instance_of e c =
     (c = err_class e \<or> c = parent_class (err_class e) \<or> c = CFileNestError)"

lemmas error_defs =
  fileNestError_def authenticationError_def authorizationError_def notFoundError_def
  fileNotFoundError_def conflictError_def wormViolationError_def legalHoldError_def
  validationError_def metadataValidationError_def rateLimitError_def networkError_def
  storageError_def

text \<open>What can be thrown: the hierarchy above, the language's errors, a rejected global fetch.\<close>

datatype exn = Thrown fn_error | TypeErr | SyntaxErr | PlainErr string | FetchRejected

text \<open>The status code each class of the hierarchy stands for.\<close>

fun class_status :: "err_class \<Rightarrow> int option" where
  "class_status CFileNestError = None"
| "class_status CAuthenticationError = Some 401"
| "class_status CAuthorizationError = Some 403"
| "class_status CNotFoundError = Some 404"
| "class_status CFileNotFoundError = Some 404"
| "class_status CConflictError = Some 409"
| "class_status CWORMViolationError = Some 409"
| "class_status CLegalHoldError = Some 409"
| "class_status CValidationError = Some 422"
| "class_status CMetadataValidationError = Some 422"
| "class_status CRateLimitError = Some 429"
| "class_status CNetworkError = Some 0"
| "class_status CStorageError = Some 502"

lemma parent_class_status:
  "class_status (parent_class c) = None \<or> class_status (parent_class c) = class_status c"
  by (cases c) auto

end
