(* ===== verification/Sdk_Http.thy ===== *)
theory Sdk_Http
  imports Sdk_Errors "HOL-Library.Word"
begin

text \<open>
  The shared HTTP client (\<^verbatim>\<open>sdks/core/src/http/client.ts\<close>): response key conversion
  (\<open>snakeToCamel\<close>, \<open>camelizeKeys\<close>), the mapping of a failed response to the error
  hierarchy (\<open>mapResponseError\<close>), the retry loop (\<open>fetchWithRetry\<close>) and the five verbs.

  The network is the world of the effect type: the reply to the event \<open>Fetch r\<close> is a response,
  an abort by the client's timer, or a rejection. The timer events themselves are not events;
  \<open>Sleep\<close> is the back-off. A request's URL is kept as its text before percent-encoding, with
  the query parameters as a list of pairs; \<^verbatim>\<open>JSON.stringify\<close> of a body is kept as the value.
\<close>

subsection \<open>Requests, responses, events\<close>

datatype body = NoBody | JsonBody json | BytesBody "byte list"

record request =
  rq_method :: string
  rq_url :: string
  rq_query :: "(string \<times> string) list"
  rq_headers :: "(string \<times> string) list"
  rq_body :: body

text \<open>\<open>rs_json\<close> is what \<^verbatim>\<open>res.json()\<close> resolves to, \<open>None\<close> when it rejects.\<close>

record response =
  rs_status :: nat
  rs_statusText :: string
  rs_headers :: "(string \<times> string) list"
  rs_json :: "json option"

definition rs_ok :: "response \<Rightarrow> bool" where
  "rs_ok r = (200 \<le> rs_status r \<and> rs_status r < 300)"

text \<open>The reply to a fetch: a response, an \<^verbatim>\<open>AbortError\<close>, or another rejection.\<close>

datatype reply = Responded response | Aborted | NetFailed string

record progress =
  bytesUploaded :: nat
  totalBytes :: nat
  percentage :: nat
  chunkNumber :: nat
  totalChunks :: nat

datatype event = Fetch request | Sleep nat | Progress progress

type_synonym 'a sdk = "(event, reply, exn, 'a) io"

subsection \<open>Key conversion\<close>

text \<open>
  \<^verbatim>\<open>s.replace(/_([a-z])/g, (_, c) => c.toUpperCase())\<close>: left to right, an underscore and the
  lower-case letter after it become the upper-case letter.
\<close>

definition is_lower :: "char \<Rightarrow> bool" where
  "is_lower c = (97 \<le> (of_char c :: nat) \<and> (of_char c :: nat) \<le> 122)"

definition to_upper :: "char \<Rightarrow> char" where
  "to_upper c = (if is_lower c then char_of ((of_char c :: nat) - 32) else c)"

fun snakeToCamel :: "string \<Rightarrow> string" where
  "snakeToCamel [] = []"
| "snakeToCamel [c] = [c]"
| "snakeToCamel (c # d # s) =
     (if c = CHR ''_'' \<and> is_lower d then to_upper d # snakeToCamel s
      else c # snakeToCamel (d # s))"

fun camelizeKeys :: "json \<Rightarrow> json" where
  "camelizeKeys (JArr vs) = JArr (map camelizeKeys vs)"
| "camelizeKeys (JObj kvs) =
     JObj (from_entries (map (\<lambda>(k, v). (snakeToCamel k, camelizeKeys v)) kvs))"
| "camelizeKeys v = v"

subsection \<open>Failed responses\<close>

text \<open>
  The body is \<open>{}\<close> when it is not JSON. Reading \<^verbatim>\<open>.error\<close> of a body that is the JSON value
  \<^verbatim>\<open>null\<close> throws a \<^verbatim>\<open>TypeError\<close>; the properties of the other values that are no objects are
  undefined.
\<close>

definition mapResponseError :: "nat \<Rightarrow> response \<Rightarrow> exn" where
  "mapResponseError status r =
     (let body = (case rs_json r of None \<Rightarrow> JObj [] | Some b \<Rightarrow> b) in
      if body = JNull then TypeErr
      else
        let err = nullish_or (jget body ''error'') (JObj []);
            msg = nullish_or (jget err ''message'') (JStr (rs_statusText r));
            verrs = nullish_or (jget err ''validation_errors'') (JArr []);
            cd = jget err ''code''
        in Thrown
          (if status = 401 then authenticationError (Some msg)
           else if status = 403 then authorizationError (Some msg) (jget err ''required_scope'')
           else if status = 404 then notFoundError (Some msg)
           else if status = 409 then
             (if cd = Some (JStr ''worm_violation'') then wormViolationError (Some msg)
              else if cd = Some (JStr ''legal_hold_active'') then legalHoldError (Some msg) None
              else conflictError (Some msg))
           else if status = 422 then
             (if cd = Some (JStr ''metadata_validation_error'')
              then metadataValidationError (Some verrs)
              else validationError (Some msg) (Some verrs) None)
           else if status = 429 then rateLimitError (Some msg) (jget err ''retry_after'')
           else fileNestError msg (nullish_or cd (JStr ''server_error'')) (int status)))"

subsection \<open>The client\<close>

record http_config =
  cfg_apiKey :: string
  cfg_projectId :: "string option"
  cfg_baseUrl :: "string option"
  cfg_timeout :: "nat option"
  cfg_maxRetries :: "int option"
  cfg_apiVersion :: "string option"

record http_client =
  apiKey :: string
  projectId :: "string option"
  baseUrl :: string
  timeout :: nat
  maxRetries :: int
  hdrs :: "(string \<times> string) list"

definition DEFAULT_BASE_URL :: string where
  "DEFAULT_BASE_URL = ''https://api.filenest.io''"

definition DEFAULT_TIMEOUT :: nat where "DEFAULT_TIMEOUT = 30000"

definition DEFAULT_MAX_RETRIES :: int where "DEFAULT_MAX_RETRIES = 3"

definition bearer :: "string \<Rightarrow> string" where
  "bearer t = ''Bearer '' @ t"

definition new_http_client :: "http_config \<Rightarrow> http_client" where
  "new_http_client cfg =
     \<lparr>apiKey = cfg_apiKey cfg,
      projectId = cfg_projectId cfg,
      baseUrl = strip_suffix_char (CHR ''/'')
        (case cfg_baseUrl cfg of None \<Rightarrow> DEFAULT_BASE_URL | Some u \<Rightarrow> u),
      timeout = (case cfg_timeout cfg of None \<Rightarrow> DEFAULT_TIMEOUT | Some t \<Rightarrow> t),
      maxRetries = (case cfg_maxRetries cfg of None \<Rightarrow> DEFAULT_MAX_RETRIES | Some n \<Rightarrow> n),
      hdrs = [(''Authorization'', bearer (cfg_apiKey cfg)),
              (''Content-Type'', ''application/json''),
              (''Accept'', ''application/json'')]
             @ (case cfg_apiVersion cfg of None \<Rightarrow> []
                | Some v \<Rightarrow> if v = [] then [] else [(''FileNest-Version'', v)])\<rparr>"

definition url :: "http_client \<Rightarrow> string \<Rightarrow> string" where
  "url c path = baseUrl c @ path"

definition backoff :: "nat \<Rightarrow> nat" where
  "backoff attempt = min (1000 * 2 ^ attempt) 8000"

function fetchWithRetry :: "http_client \<Rightarrow> request \<Rightarrow> nat \<Rightarrow> response sdk" where
  "fetchWithRetry c rq attempt =
     andThen (ask (Fetch rq)) (\<lambda>rp. case rp of
       Responded r \<Rightarrow>
         (if 500 \<le> rs_status r \<and> int attempt < maxRetries c
          then andThen (emit (Sleep (backoff attempt))) (\<lambda>_. fetchWithRetry c rq (attempt + 1))
          else ret r)
     | Aborted \<Rightarrow>
         throw (Thrown (networkError
           (Some (JStr (''Request timed out after '' @ show_nat (timeout c) @ ''ms''))) None))
     | NetFailed e \<Rightarrow>
         (if int attempt < maxRetries c
          then andThen (emit (Sleep (backoff attempt))) (\<lambda>_. fetchWithRetry c rq (attempt + 1))
          else throw (Thrown (networkError (Some (JStr ''Network request failed'')) (Some e)))))"
  by pat_completeness auto
termination
  by (relation "measure (\<lambda>(c, rq, attempt). nat (maxRetries c - int attempt))") auto

declare fetchWithRetry.simps [simp del]

subsection \<open>The verbs\<close>

text \<open>\<^verbatim>\<open>url.searchParams.set(k, String(v))\<close> for the parameters that are defined.\<close>

definition search_params :: "(string \<times> json option) list \<Rightarrow> (string \<times> string) list" where
  "search_params ps =
     from_entries (List.map_filter (\<lambda>(k, v). map_option (\<lambda>x. (k, js_string x)) v) ps)"

definition res_json :: "response \<Rightarrow> json sdk" where
  "res_json r = (case rs_json r of None \<Rightarrow> throw SyntaxErr | Some v \<Rightarrow> ret v)"

definition check_ok :: "response \<Rightarrow> unit sdk" where
  "check_ok r = (if rs_ok r then ret () else throw (mapResponseError (rs_status r) r))"

text \<open>\<^verbatim>\<open>res.headers.get("content-length") === "0"\<close>; header names are compared in lower case.\<close>

definition is_empty_response :: "response \<Rightarrow> bool" where
  "is_empty_response r =
     (rs_status r = 204 \<or> map_of (rs_headers r) ''content-length'' = Some ''0'')"

definition get_request :: "http_client \<Rightarrow> string \<Rightarrow> (string \<times> json option) list \<Rightarrow> request" where
  "get_request c path params =
     \<lparr>rq_method = ''GET'', rq_url = url c path, rq_query = search_params params,
      rq_headers = hdrs c, rq_body = NoBody\<rparr>"

definition send_request :: "http_client \<Rightarrow> string \<Rightarrow> string \<Rightarrow> json option \<Rightarrow> request" where
  "send_request c meth path body =
     \<lparr>rq_method = meth, rq_url = url c path, rq_query = [], rq_headers = hdrs c,
      rq_body = (case body of None \<Rightarrow> NoBody | Some b \<Rightarrow> JsonBody b)\<rparr>"

definition get :: "http_client \<Rightarrow> string \<Rightarrow> (string \<times> json option) list \<Rightarrow> json option sdk" where
  "get c path params =
     andThen (fetchWithRetry c (get_request c path params) 0) (\<lambda>res.
     andThen (check_ok res) (\<lambda>_.
     andThen (res_json res) (\<lambda>v. ret (Some (camelizeKeys v)))))"

definition post :: "http_client \<Rightarrow> string \<Rightarrow> json option \<Rightarrow> json option sdk" where
  "post c path body =
     andThen (fetchWithRetry c (send_request c ''POST'' path body) 0) (\<lambda>res.
     andThen (check_ok res) (\<lambda>_.
       if is_empty_response res then ret None
       else andThen (res_json res) (\<lambda>v. ret (Some (camelizeKeys v)))))"

definition patch :: "http_client \<Rightarrow> string \<Rightarrow> json option \<Rightarrow> json option sdk" where
  "patch c path body =
     andThen (fetchWithRetry c (send_request c ''PATCH'' path body) 0) (\<lambda>res.
     andThen (check_ok res) (\<lambda>_.
     andThen (res_json res) (\<lambda>v. ret (Some (camelizeKeys v)))))"

definition delete :: "http_client \<Rightarrow> string \<Rightarrow> json option sdk" where
  "delete c path =
     andThen (fetchWithRetry c (send_request c ''DELETE'' path None) 0) (\<lambda>res.
     andThen (check_ok res) (\<lambda>_.
       if is_empty_response res then ret None
       else andThen (res_json res) (\<lambda>v. ret (Some (camelizeKeys v)))))"

text \<open>\<^verbatim>\<open>rawFetch\<close>: the caller's own method, body and headers, over the client's authorization.\<close>

definition rawFetch :: "http_client \<Rightarrow> string \<Rightarrow> request \<Rightarrow> response sdk" where
  "rawFetch c path init =
     andThen (fetchWithRetry c
         (init\<lparr>rq_url := url c path,
               rq_headers := from_entries ((''Authorization'', bearer (apiKey c)) # rq_headers init)\<rparr>) 0)
       (\<lambda>res. andThen (check_ok res) (\<lambda>_. ret res))"

subsection \<open>Key conversion: normal form and lookup\<close>

text \<open>No underscore is followed by a lower-case letter.\<close>

fun camel_normal :: "string \<Rightarrow> bool" where
  "camel_normal [] = True"
| "camel_normal [c] = True"
| "camel_normal (c # d # s) = (\<not> (c = CHR ''_'' \<and> is_lower d) \<and> camel_normal (d # s))"

fun all_camel :: "json \<Rightarrow> bool" where
  "all_camel (JArr vs) = list_all all_camel vs"
| "all_camel (JObj kvs) =
     (distinct (map fst kvs) \<and> list_all (\<lambda>(k, v). camel_normal k \<and> all_camel v) kvs)"
| "all_camel _ = True"

lemma to_upper_not_lower: "is_lower c \<Longrightarrow> \<not> is_lower (to_upper c)"
  by (auto simp: is_lower_def to_upper_def of_char_of)

lemma to_upper_not_underscore: "is_lower c \<Longrightarrow> to_upper c \<noteq> CHR ''_''"
proof
  assume c: "is_lower c" and eq: "to_upper c = CHR ''_''"
  have "(of_char (to_upper c) :: nat) = 95" by (simp add: eq)
  with c show False by (auto simp: is_lower_def to_upper_def of_char_of)
qed

lemma hd_snakeToCamel: "\<not> is_lower d \<Longrightarrow> \<exists>e t. snakeToCamel (d # s) = e # t \<and> \<not> is_lower e"
  by (cases s) (auto simp: to_upper_not_lower)

lemma snakeToCamel_normal: "camel_normal (snakeToCamel s)"
proof (induction s rule: snakeToCamel.induct)
  case (3 c d s)
  show ?case
  proof (cases "c = CHR ''_'' \<and> is_lower d")
    case True
    with "3.IH"(1) have "camel_normal (to_upper d # snakeToCamel s)"
      by (cases "snakeToCamel s") (auto simp: to_upper_not_underscore)
    with True show ?thesis by simp
  next
    case False
    then have "c # snakeToCamel (d # s) = snakeToCamel (c # d # s)" by auto
    moreover have "camel_normal (c # snakeToCamel (d # s))"
    proof (cases "c = CHR ''_''")
      case True
      with False have "\<not> is_lower d" by simp
      then obtain e t where "snakeToCamel (d # s) = e # t" "\<not> is_lower e"
        using hd_snakeToCamel by blast
      with "3.IH"(2) [OF False] show ?thesis by simp
    next
      case False
      with "3.IH"(2) show ?thesis by (cases "snakeToCamel (d # s)") auto
    qed
    ultimately show ?thesis by simp
  qed
qed auto

lemma snakeToCamel_id: "camel_normal s \<Longrightarrow> snakeToCamel s = s"
  by (induction s rule: snakeToCamel.induct) auto

lemma camelizeKeys_all_camel: "all_camel (camelizeKeys v)"
proof (induction v rule: camelizeKeys.induct)
  case (2 kvs)
  let ?es = "map (\<lambda>(k, v). (snakeToCamel k, camelizeKeys v)) kvs"
  have "camel_normal k \<and> all_camel v" if "(k, v) \<in> set (from_entries ?es)" for k v
  proof
    have "k \<in> fst ` set ?es" using that from_entries_keys [of ?es] by force
    then show "camel_normal k" by (auto simp: snakeToCamel_normal)
    have "v \<in> snd ` set ?es" using that from_entries_vals [of ?es] by force
    then show "all_camel v" using "2" by (auto split: prod.splits)
  qed
  then show ?case by (auto simp: list_all_iff from_entries_distinct)
qed (auto simp: list_all_iff)

lemma camelizeKeys_id: "all_camel v \<Longrightarrow> camelizeKeys v = v"
proof (induction v rule: camelizeKeys.induct)
  case (1 vs)
  then show ?case by (auto simp: list_all_iff intro: map_idI)
next
  case (2 kvs)
  have "map (\<lambda>(k, v). (snakeToCamel k, camelizeKeys v)) kvs = kvs"
    using "2" by (intro map_idI) (auto simp: list_all_iff snakeToCamel_id split: prod.splits)
  with "2.prems" show ?case by (simp add: from_entries_id)
qed auto

lemma jget_camelizeKeys:
  assumes "inj_on snakeToCamel (fst ` set kvs)" and "distinct (map fst kvs)"
    and "map_of kvs k = Some v"
  shows "jget (camelizeKeys (JObj kvs)) (snakeToCamel k) = Some (camelizeKeys v)"
proof -
  let ?f = "\<lambda>(k, v). (snakeToCamel k, camelizeKeys v)"
  have "distinct (map fst (map ?f kvs))"
  proof -
    have "map fst (map ?f kvs) = map snakeToCamel (map fst kvs)" by auto
    then show ?thesis using assms(1,2) by (metis distinct_map list.set_map)
  qed
  moreover have "(snakeToCamel k, camelizeKeys v) \<in> set (map ?f kvs)"
    using map_of_SomeD [OF assms(3)] by force
  ultimately show ?thesis by (simp add: from_entries_id)
qed

lemma jget_not_camel: "\<not> camel_normal k \<Longrightarrow> jget (camelizeKeys (JObj kvs)) k = None"
proof -
  assume k: "\<not> camel_normal k"
  obtain kvs' where kvs': "camelizeKeys (JObj kvs) = JObj kvs'" by simp
  have "all_camel (JObj kvs')" using camelizeKeys_all_camel kvs' by metis
  with k have "k \<notin> fst ` set kvs'" by (auto simp: list_all_iff)
  then show ?thesis unfolding kvs' by (simp add: map_of_eq_None_iff)
qed

subsection \<open>The retry loop: the specification it implements\<close>

text \<open>A reply ends the loop at attempt \<open>k\<close>, and the value the loop then returns or throws.\<close>

definition final_reply :: "http_client \<Rightarrow> nat \<Rightarrow> reply \<Rightarrow> bool" where
  "final_reply c k rp = (case rp of
     Responded r \<Rightarrow> rs_status r < 500 \<or> maxRetries c \<le> int k
   | Aborted \<Rightarrow> True
   | NetFailed _ \<Rightarrow> maxRetries c \<le> int k)"

definition reply_result :: "http_client \<Rightarrow> reply \<Rightarrow> exn + response" where
  "reply_result c rp = (case rp of
     Responded r \<Rightarrow> Inr r
   | Aborted \<Rightarrow> Inl (Thrown (networkError
       (Some (JStr (''Request timed out after '' @ show_nat (timeout c) @ ''ms''))) None))
   | NetFailed e \<Rightarrow> Inl (Thrown (networkError (Some (JStr ''Network request failed'')) (Some e))))"

text \<open>The events up to and with the fetch of attempt \<open>n\<close>, when the loop starts at \<open>a\<close>.\<close>

definition retry_events :: "request \<Rightarrow> nat \<Rightarrow> nat \<Rightarrow> event list" where
  "retry_events rq a n = concat (map (\<lambda>i. [Fetch rq, Sleep (backoff i)]) [a..<n]) @ [Fetch rq]"

lemma retry_events_same [simp]: "retry_events rq a a = [Fetch rq]"
  by (simp add: retry_events_def)

lemma retry_events_Suc:
  "a < n \<Longrightarrow> retry_events rq a n = Fetch rq # Sleep (backoff a) # retry_events rq (Suc a) n"
  by (simp add: retry_events_def upt_conv_Cons)

definition retries_until ::
    "http_client \<Rightarrow> request \<Rightarrow> (event, reply) world \<Rightarrow> event list \<Rightarrow> nat \<Rightarrow> nat \<Rightarrow> bool" where
  "retries_until c rq w h a n =
     (a \<le> n \<and> (\<forall>i. a \<le> i \<and> i < n \<longrightarrow> \<not> final_reply c i (w (h @ retry_events rq a i))) \<and>
      final_reply c n (w (h @ retry_events rq a n)))"

lemma retries_until_Suc:
  assumes "\<not> final_reply c a (w (h @ [Fetch rq]))"
    and "retries_until c rq w (h @ [Fetch rq, Sleep (backoff a)]) (Suc a) n"
  shows "retries_until c rq w h a n"
  unfolding retries_until_def
proof (intro conjI allI impI)
  show "a \<le> n" using assms(2) by (simp add: retries_until_def)
  fix i assume "a \<le> i \<and> i < n"
  then show "\<not> final_reply c i (w (h @ retry_events rq a i))"
    using assms by (cases "i = a") (auto simp: retries_until_def retry_events_Suc)
next
  show "final_reply c n (w (h @ retry_events rq a n))"
    using assms(2) by (auto simp: retries_until_def retry_events_Suc)
qed

lemma fetchWithRetry_final:
  assumes "final_reply c a (w (h @ [Fetch rq]))"
  shows "fetchWithRetry c rq a w h = (reply_result c (w (h @ [Fetch rq])), h @ [Fetch rq])"
  using assms
  by (auto simp: fetchWithRetry.simps [of c rq a] io_simps final_reply_def reply_result_def
      split: reply.splits)

lemma fetchWithRetry_retry:
  assumes "\<not> final_reply c a (w (h @ [Fetch rq]))"
  shows "fetchWithRetry c rq a w h =
    fetchWithRetry c rq (Suc a) w (h @ [Fetch rq, Sleep (backoff a)])"
  using assms
  by (auto simp: fetchWithRetry.simps [of c rq a] io_simps final_reply_def split: reply.splits)

lemma final_reply_bound: "\<not> final_reply c k rp \<Longrightarrow> int k < maxRetries c"
  by (auto simp: final_reply_def split: reply.splits)

lemma fetchWithRetry_events:
  "\<exists>n. retries_until c rq w h a n \<and> int n \<le> max (int a) (maxRetries c) \<and>
     fetchWithRetry c rq a w h =
       (reply_result c (w (h @ retry_events rq a n)), h @ retry_events rq a n)"
proof (induction "nat (maxRetries c - int a)" arbitrary: a h rule: less_induct)
  case less
  show ?case
  proof (cases "final_reply c a (w (h @ [Fetch rq]))")
    case True
    then show ?thesis
      by (intro exI [of _ a]) (auto simp: retries_until_def fetchWithRetry_final)
  next
    case False
    let ?h = "h @ [Fetch rq, Sleep (backoff a)]"
    from False have lt: "int a < maxRetries c" by (rule final_reply_bound)
    then obtain n where n: "retries_until c rq w ?h (Suc a) n"
        "int n \<le> max (int (Suc a)) (maxRetries c)"
        "fetchWithRetry c rq (Suc a) w ?h =
          (reply_result c (w (?h @ retry_events rq (Suc a) n)), ?h @ retry_events rq (Suc a) n)"
      using less [of "Suc a" ?h] by auto
    then have "a < n" by (simp add: retries_until_def)
    with n lt False show ?thesis
      by (intro exI [of _ n])
        (auto simp: retries_until_Suc fetchWithRetry_retry retry_events_Suc)
  qed
qed

lemma retries_until_unique:
  assumes "retries_until c rq w h a n" and "retries_until c rq w h a m"
  shows "n = m"
proof (rule ccontr)
  assume "n \<noteq> m"
  then have "n < m \<or> m < n" by auto
  with assms show False by (auto simp: retries_until_def)
qed

lemma appends_fetchWithRetry [io_appends]: "appends (fetchWithRetry c rq a)"
  unfolding appends_def
proof (intro allI)
  fix w h
  obtain n where "fetchWithRetry c rq a w h =
      (reply_result c (w (h @ retry_events rq a n)), h @ retry_events rq a n)"
    using fetchWithRetry_events by blast
  then show "prefix h (snd (fetchWithRetry c rq a w h))" by simp
qed

text \<open>The events of one call: the fetches, the pauses.\<close>

fun is_fetch :: "event \<Rightarrow> bool" where
  "is_fetch (Fetch _) = True"
| "is_fetch _ = False"

lemma length_retry_fetches:
  "a \<le> n \<Longrightarrow> length (List.filter is_fetch (retry_events rq a n)) = Suc (n - a)"
  by (simp add: retry_events_def filter_concat o_def length_concat sum_list_triv)

lemma retry_events_mem:
  "e \<in> set (retry_events rq a n) \<Longrightarrow> e = Fetch rq \<or> (\<exists>i. a \<le> i \<and> i < n \<and> e = Sleep (backoff i))"
  by (auto simp: retry_events_def split: if_splits)

lemma backoff_le: "backoff i \<le> 8000"
  by (simp add: backoff_def)

subsection \<open>Failed responses: what is thrown\<close>

lemma statusCode_mapResponseError:
  assumes "mapResponseError st r = Thrown e"
  shows "statusCode e = int st"
  using assms
  by (auto simp: mapResponseError_def Let_def error_defs split: if_splits option.splits)

lemma mapResponseError_TypeErr: "mapResponseError st r = TypeErr \<longleftrightarrow> rs_json r = Some JNull"
  by (auto simp: mapResponseError_def Let_def split: if_splits option.splits)

lemma mapResponseError_cases:
  "mapResponseError st r = TypeErr \<or> (\<exists>e. mapResponseError st r = Thrown e)"
  by (auto simp: mapResponseError_def Let_def)

lemma mapResponseError_class:
  assumes "mapResponseError st r = Thrown e" and "class_status (err_class e) = Some s"
  shows "s = int st"
  using assms
  by (auto simp: mapResponseError_def Let_def error_defs split: if_splits option.splits)

subsection \<open>The verbs as functions of the last reply\<close>

definition get_outcome :: "http_client \<Rightarrow> reply \<Rightarrow> exn + json option" where
  "get_outcome c rp = (case reply_result c rp of
     Inl x \<Rightarrow> Inl x
   | Inr r \<Rightarrow> (if \<not> rs_ok r then Inl (mapResponseError (rs_status r) r)
              else case rs_json r of None \<Rightarrow> Inl SyntaxErr | Some v \<Rightarrow> Inr (Some (camelizeKeys v))))"

definition send_outcome :: "http_client \<Rightarrow> reply \<Rightarrow> exn + json option" where
  "send_outcome c rp = (case reply_result c rp of
     Inl x \<Rightarrow> Inl x
   | Inr r \<Rightarrow> (if rs_ok r \<and> is_empty_response r then Inr None else get_outcome c rp))"

lemma fetchWithRetry_result:
  "fst (fetchWithRetry c rq 0 w h) = reply_result c (w (snd (fetchWithRetry c rq 0 w h)))"
proof -
  obtain n where "fetchWithRetry c rq 0 w h =
      (reply_result c (w (h @ retry_events rq 0 n)), h @ retry_events rq 0 n)"
    using fetchWithRetry_events by blast
  then show ?thesis by simp
qed

lemma fetchWithRetry_pair:
  "fetchWithRetry c rq 0 w h = (x, h') \<Longrightarrow> x = reply_result c (w h')"
  using fetchWithRetry_result [of c rq w h] by simp

lemmas verb_defs = get_def post_def patch_def delete_def check_ok_def res_json_def
lemmas outcome_defs = get_outcome_def send_outcome_def

lemma get_outcome_eq: "fst (get c path ps w h) = get_outcome c (w (snd (get c path ps w h)))"
  unfolding verb_defs outcome_defs
  by (auto simp: io_simps dest!: fetchWithRetry_pair
      split: prod.splits sum.splits option.splits)

lemma patch_outcome_eq: "fst (patch c path b w h) = get_outcome c (w (snd (patch c path b w h)))"
  unfolding verb_defs outcome_defs
  by (auto simp: io_simps dest!: fetchWithRetry_pair
      split: prod.splits sum.splits option.splits)

lemma post_outcome_eq: "fst (post c path b w h) = send_outcome c (w (snd (post c path b w h)))"
  unfolding verb_defs outcome_defs
  by (auto simp: io_simps dest!: fetchWithRetry_pair
      split: prod.splits sum.splits option.splits if_splits)

lemma delete_outcome_eq: "fst (delete c path w h) = send_outcome c (w (snd (delete c path w h)))"
  unfolding verb_defs outcome_defs
  by (auto simp: io_simps dest!: fetchWithRetry_pair
      split: prod.splits sum.splits option.splits if_splits)

lemma snd_get: "snd (get c path ps w h) = snd (fetchWithRetry c (get_request c path ps) 0 w h)"
  unfolding verb_defs by (auto simp: io_simps split: prod.splits sum.splits option.splits)

lemma snd_post:
  "snd (post c path b w h) = snd (fetchWithRetry c (send_request c ''POST'' path b) 0 w h)"
  unfolding verb_defs by (auto simp: io_simps split: prod.splits sum.splits option.splits)

lemma get_pair: "get c path ps w h = (x, h') \<Longrightarrow> x = get_outcome c (w h')"
  using get_outcome_eq [of c path ps w h] by simp

lemma post_pair: "post c path b w h = (x, h') \<Longrightarrow> x = send_outcome c (w h')"
  using post_outcome_eq [of c path b w h] by simp

lemma appends_verbs [io_appends]:
  "appends (get c path ps)" "appends (patch c path b)" "appends (post c path b)"
  "appends (delete c path)"
  unfolding verb_defs by (auto intro!: io_appends split: option.splits)

lemma get_outcome_Inr:
  "get_outcome c rp = Inr v \<Longrightarrow>
   \<exists>r b. rp = Responded r \<and> rs_ok r \<and> rs_json r = Some b \<and> v = Some (camelizeKeys b)"
  by (auto simp: get_outcome_def reply_result_def split: reply.splits option.splits if_splits)

lemma get_outcome_Thrown_status:
  "get_outcome c (Responded r) = Inl (Thrown e) \<Longrightarrow> statusCode e = int (rs_status r)"
  by (auto simp: get_outcome_def reply_result_def dest: statusCode_mapResponseError
      split: option.splits if_splits)

subsection \<open>Properties\<close>

text \<open>
  C1: \<open>fetchWithRetry\<close> implements its specification in every world: it sends the same request at
  attempts 0, 1, ..., n, where n is the first attempt whose reply is final (a response below
  500, a timeout, or any reply once the retries are used up), sleeps the back-off between two
  attempts and returns or throws what the final reply says. It always stops, with n at most
  \<open>maxRetries\<close>.
\<close>

theorem fetch_retry_refines:
  "\<exists>n. retries_until c rq w h 0 n \<and> int n \<le> max 0 (maxRetries c) \<and>
     fetchWithRetry c rq 0 w h =
       (reply_result c (w (h @ retry_events rq 0 n)), h @ retry_events rq 0 n)"
  using fetchWithRetry_events [of c rq w h 0] by simp

text \<open>
  One call sends at most \<open>maxRetries + 1\<close> requests, all of them the request it was given,
  and every pause between them is at most 8 seconds.
\<close>

lemma fetch_retry_bounded:
  "\<exists>es. snd (fetchWithRetry c rq 0 w h) = h @ es \<and>
     int (length (List.filter is_fetch es)) \<le> max 0 (maxRetries c) + 1 \<and>
     set es \<subseteq> insert (Fetch rq) (Sleep ` {..8000})"
proof -
  obtain n where n: "int n \<le> max 0 (maxRetries c)"
      "snd (fetchWithRetry c rq 0 w h) = h @ retry_events rq 0 n"
    using fetchWithRetry_events [of c rq w h 0] by auto
  have "set (retry_events rq 0 n) \<subseteq> insert (Fetch rq) (Sleep ` {..8000})"
    using retry_events_mem backoff_le by fastforce
  then show ?thesis
    using n length_retry_fetches [of 0 n rq] by (intro exI [of _ "retry_events rq 0 n"]) auto
qed

text \<open>
  A failed response is always turned into an error of the hierarchy that carries the
  response's status code, and whose class stands for exactly that status if it stands for
  one; the only exception is a body that is the JSON value null, which makes the mapping itself
  throw a TypeError.
\<close>

lemma error_mapping_keeps_status:
  "(if rs_json r = Some JNull then mapResponseError st r = TypeErr
    else \<exists>e. mapResponseError st r = Thrown e \<and> statusCode e = int st \<and>
           class_status (err_class e) \<in> {None, Some (int st)})"
proof (cases "rs_json r = Some JNull")
  case True
  then show ?thesis by (simp add: mapResponseError_TypeErr)
next
  case False
  then obtain e where e: "mapResponseError st r = Thrown e"
    using mapResponseError_cases [of st r] by (auto simp: mapResponseError_TypeErr)
  then have "class_status (err_class e) \<in> {None, Some (int st)}"
    using mapResponseError_class [OF e] by (cases "class_status (err_class e)") auto
  with False e show ?thesis by (simp add: statusCode_mapResponseError)
qed

text \<open>
  What each verb returns or throws is a function of the last reply alone: the camel-cased JSON
  of a 2xx response (nothing for an empty response to POST or DELETE), the mapped error of any
  other response, a network error otherwise. In particular no verb returns a value for a
  response outside 200 to 299.
\<close>

lemma verbs_follow_last_reply:
  "fst (get c path ps w h) = get_outcome c (w (snd (get c path ps w h))) \<and>
   fst (patch c path b w h) = get_outcome c (w (snd (patch c path b w h))) \<and>
   fst (post c path b w h) = send_outcome c (w (snd (post c path b w h))) \<and>
   fst (delete c path w h) = send_outcome c (w (snd (delete c path w h)))"
  by (intro conjI get_outcome_eq patch_outcome_eq post_outcome_eq delete_outcome_eq)

text \<open>
  The key conversion of responses is a normal form: every object in the result has distinct
  keys without an underscore before a lower-case letter, at every depth, and converting again
  changes nothing.
\<close>

lemma camelizeKeys_normal_form:
  "all_camel (camelizeKeys v) \<and> camelizeKeys (camelizeKeys v) = camelizeKeys v"
  using camelizeKeys_all_camel camelizeKeys_id by blast

text \<open>
  If no two keys of an object convert to the same name, the converted object holds, under the
  converted name of each key, the converted value of that key.
\<close>

lemma camelizeKeys_lookup:
  assumes "inj_on snakeToCamel (fst ` set kvs)" and "distinct (map fst kvs)"
    and "map_of kvs k = Some v"
  shows "jget (camelizeKeys (JObj kvs)) (snakeToCamel k) = Some (camelizeKeys v)"
  using assms by (rule jget_camelizeKeys)

lemma camelizeKeys_lookup_witness:
  "jget (camelizeKeys (JObj [(''file_id'', JStr ''f1''), (''size_bytes'', JInt 7)])) ''sizeBytes''
     = Some (JInt 7)"
proof -
  let ?kvs = "[(''file_id'', JStr ''f1''), (''size_bytes'', JInt 7)]"
  have k: "snakeToCamel ''size_bytes'' = ''sizeBytes''" by code_simp
  have "inj_on snakeToCamel (fst ` set ?kvs)" by (simp add: is_lower_def to_upper_def)
  then show ?thesis
    using camelizeKeys_lookup [of ?kvs "''size_bytes''" "JInt 7"] unfolding k by simp
qed

text \<open>
  The conversion also rewrites the keys of the user's own metadata: a metadata key with an
  underscore before a lower-case letter is never found in the response's metadata, whatever
  the server stored.
\<close>

lemma metadata_snake_keys_lost:
  assumes "\<not> camel_normal k"
  shows "jget (camelizeKeys (JObj [(''metadata'', JObj md)])) ''metadata''
           = Some (camelizeKeys (JObj md)) \<and> jget (camelizeKeys (JObj md)) k = None"
proof
  have "snakeToCamel ''metadata'' = ''metadata''" by (simp add: is_lower_def)
  then show "jget (camelizeKeys (JObj [(''metadata'', JObj md)])) ''metadata''
      = Some (camelizeKeys (JObj md))"
    by (simp add: from_entries_def)
  show "jget (camelizeKeys (JObj md)) k = None" using assms by (rule jget_not_camel)
qed

lemma metadata_snake_keys_lost_witness:
  "\<not> camel_normal ''patient_id'' \<and>
   jget (JObj [(''patient_id'', JInt 7)]) ''patient_id'' = Some (JInt 7) \<and>
   jget (camelizeKeys (JObj [(''patient_id'', JInt 7)])) ''patient_id'' = None"
proof -
  have k: "\<not> camel_normal ''patient_id''" by (simp add: is_lower_def)
  show ?thesis using k metadata_snake_keys_lost [OF k, of "[(''patient_id'', JInt 7)]"] by simp
qed

text \<open>
  The backend answers a failure with the envelope of a code string under \<^verbatim>\<open>error\<close> and the
  text under \<^verbatim>\<open>message\<close>. For every such body the thrown error carries the HTTP status text
  and never the envelope's message, and a WORM, legal hold or metadata failure is not told
  apart from the generic error of its status.
\<close>

lemma error_envelope_lost:
  "\<exists>e. mapResponseError st
        (r\<lparr>rs_json := Some (JObj [(''error'', JStr c), (''message'', JStr m), (''detail'', d)])\<rparr>)
       = Thrown e \<and> message e = JStr (rs_statusText r) \<and>
     err_class e \<notin> {CWORMViolationError, CLegalHoldError, CMetadataValidationError}"
  by (simp add: mapResponseError_def Let_def error_defs)

end
