(* ===== verification/Chunking.thy ===== *)
theory Chunking
  imports Fn_Prelude "HOL-Library.Word"
begin

text \<open>
  Cutting a file into the parts of a multipart upload. The Node SDK cuts
  \<^verbatim>\<open>data.slice(i * CHUNK_SIZE, i * CHUNK_SIZE + CHUNK_SIZE)\<close> and leaves the end of the last part to
  \<^verbatim>\<open>slice\<close>; the console clamps the end itself. The locale states what either owes its upload loop,
  and the lemmas that the loops use are proved once from it.
\<close>

text \<open>\<^verbatim>\<open>xs.slice(a, b)\<close> for indices that are not negative.\<close>

definition js_slice :: "nat \<Rightarrow> nat \<Rightarrow> 'a list \<Rightarrow> 'a list" where
  "js_slice a b xs = take (b - a) (drop a xs)"

definition CHUNK_SIZE :: nat where
  "CHUNK_SIZE = 5 * 1024 * 1024"

definition MULTIPART_THRESHOLD :: nat where
  "MULTIPART_THRESHOLD = 5 * 1024 * 1024"

lemma CHUNK_SIZE_pos [simp]: "0 < CHUNK_SIZE"
  by (simp add: CHUNK_SIZE_def)

definition totalChunks_of :: "nat \<Rightarrow> nat" where
  "totalChunks_of n = ceil_div n CHUNK_SIZE"

locale chunker =
  fixes chunk :: "nat \<Rightarrow> 'b list \<Rightarrow> nat \<Rightarrow> 'b list"
  assumes chunk_slice: "chunk c data i = take c (drop (i * c) data)"
begin

lemma concat_chunks_take:
  "concat (map (chunk c data) [0..<n]) = take (n * c) data"
proof (induction n)
  case (Suc n)
  have "concat (map (chunk c data) [0..<Suc n]) = take (n * c) data @ take c (drop (n * c) data)"
    by (simp add: Suc) (simp add: chunk_slice)
  also have "\<dots> = take (n * c + c) data" by (simp only: take_add)
  finally show ?case by (simp add: add.commute)
qed simp

text \<open>The parts put back together are the file.\<close>

lemma concat_chunks:
  "0 < c \<Longrightarrow> concat (map (chunk c data) [0..<ceil_div (length data) c]) = data"
  using ceil_div_cover [of c "length data"] by (simp add: concat_chunks_take)

lemma length_chunk_le: "length (chunk c data i) \<le> c"
  by (simp add: chunk_slice)

text \<open>Every part but the last is full, and no part is empty.\<close>

lemma length_chunk_full:
  assumes "0 < c" and "Suc i < ceil_div (length data) c"
  shows "length (chunk c data i) = c"
  using assms less_ceil_div [of c "Suc i" "length data"] by (simp add: chunk_slice)

lemma chunk_nonempty:
  assumes "0 < c" and "i < ceil_div (length data) c"
  shows "chunk c data i \<noteq> []"
  using assms less_ceil_div [of c i "length data"] by (auto simp: chunk_slice)

end

definition sdk_chunk :: "nat \<Rightarrow> 'b list \<Rightarrow> nat \<Rightarrow> 'b list" where
  "sdk_chunk c data i = (let start = i * c in js_slice start (start + c) data)"

definition console_chunk :: "nat \<Rightarrow> 'b list \<Rightarrow> nat \<Rightarrow> 'b list" where
  "console_chunk c data i =
     (let startByte = i * c; endByte = min (startByte + c) (length data)
      in js_slice startByte endByte data)"

interpretation sdk: chunker sdk_chunk
  by unfold_locales (simp add: sdk_chunk_def js_slice_def)

interpretation console: chunker console_chunk
proof
  fix c i :: nat and data :: "'b list"
  show "console_chunk c data i = take c (drop (i * c) data)"
    by (auto simp: console_chunk_def js_slice_def Let_def min_def)
qed

lemma totalChunks_pos: "0 < totalChunks_of n \<longleftrightarrow> 0 < n"
  using less_ceil_div [of CHUNK_SIZE 0 n] by (simp add: totalChunks_of_def)

text \<open>
  C3: the parts of a multipart upload are the file. For the SDK's and for the console's way of
  cutting, the parts in order put back together give exactly the bytes of the file, every part
  but the last has exactly the part size, and no part is empty or larger.
\<close>

theorem parts_reassemble:
  "concat (map (sdk_chunk CHUNK_SIZE data) [0..<totalChunks_of (length data)]) = data \<and>
   concat (map (console_chunk CHUNK_SIZE data) [0..<totalChunks_of (length data)]) = data \<and>
   list_all (\<lambda>i. length (sdk_chunk CHUNK_SIZE data i) = CHUNK_SIZE \<and>
                 length (console_chunk CHUNK_SIZE data i) = CHUNK_SIZE)
     [0..<totalChunks_of (length data) - 1] \<and>
   list_all (\<lambda>i. length (sdk_chunk CHUNK_SIZE data i) \<in> {1..CHUNK_SIZE} \<and>
                 length (console_chunk CHUNK_SIZE data i) \<in> {1..CHUNK_SIZE})
     [0..<totalChunks_of (length data)]"
  using sdk.chunk_nonempty [of CHUNK_SIZE _ data] console.chunk_nonempty [of CHUNK_SIZE _ data]
  by (auto simp: totalChunks_of_def sdk.concat_chunks console.concat_chunks list_all_iff
      sdk.length_chunk_full console.length_chunk_full sdk.length_chunk_le console.length_chunk_le
      Suc_le_eq)

end
