(* ===== verification/Sdk_Files.thy ===== *)
theory Sdk_Files
  imports Sdk_Http Chunking
begin

text \<open>
  The file and upload namespaces of the Node SDK (\<^verbatim>\<open>sdks/node/src/namespaces/files.ts\<close> and
  \<^verbatim>\<open>uploads.ts\<close>). A namespace object holds the HTTP client and the project id, which every
  operation takes as its first two arguments. The global \<^verbatim>\<open>fetch\<close> that moves the bytes to the
  storage provider is the same event as the client's fetch, without retries.
\<close>

subsection \<open>Helpers\<close>

definition v1 :: "string \<Rightarrow> string \<Rightarrow> string" where
  "v1 pid rest = ''/v1/projects/'' @ pid @ rest"

text \<open>A property of the value a verb resolved to; undefined and null have none.\<close>

definition prop_of :: "json option \<Rightarrow> string \<Rightarrow> json option sdk" where
  "prop_of v k = (case v of None \<Rightarrow> throw TypeErr | Some JNull \<Rightarrow> throw TypeErr
                  | Some x \<Rightarrow> ret (jget x k))"

text \<open>The global \<^verbatim>\<open>fetch\<close>: rejects, or resolves whatever the status.\<close>

definition global_fetch :: "request \<Rightarrow> response sdk" where
  "global_fetch rq = andThen (ask (Fetch rq)) (\<lambda>rp. case rp of
     Responded r \<Rightarrow> ret r | _ \<Rightarrow> throw FetchRejected)"

definition put_request :: "string \<Rightarrow> (string \<times> string) list \<Rightarrow> byte list \<Rightarrow> request" where
  "put_request u hs data =
     \<lparr>rq_method = ''PUT'', rq_url = u, rq_query = [], rq_headers = hs, rq_body = BytesBody data\<rparr>"

datatype upload_data = BufferData "byte list" | StreamData "byte list list"

record upload_options =
  o_filename :: string
  o_data :: upload_data
  o_mimeType :: "string option"
  o_folderId :: "string option"
  o_metadata :: "json option"
  o_tags :: "string list option"
  o_onProgress :: bool

definition streamToBuffer :: "byte list list \<Rightarrow> byte list" where
  "streamToBuffer chunks = concat chunks"

definition content_type :: "string option \<Rightarrow> string" where
  "content_type m = (case m of None \<Rightarrow> ''application/octet-stream'' | Some t \<Rightarrow> t)"

definition jstrings :: "string list \<Rightarrow> json" where
  "jstrings xs = JArr (map JStr xs)"

definition init_body :: "string \<Rightarrow> string \<Rightarrow> string \<Rightarrow> nat \<Rightarrow> string option \<Rightarrow> json option \<Rightarrow>
    string list option \<Rightarrow> json" where
  "init_body size_key fname ctype n folder meta tags =
     JObj [(''filename'', JStr fname), (''content_type'', JStr ctype), (size_key, JInt (int n)),
           (''folder_id'', (case folder of None \<Rightarrow> JNull | Some f \<Rightarrow> JStr f)),
           (''metadata'', nullish_or meta (JObj [])),
           (''tags'', (case tags of None \<Rightarrow> JArr [] | Some ts \<Rightarrow> jstrings ts))]"

definition report :: "bool \<Rightarrow> progress \<Rightarrow> unit sdk" where
  "report cb p = (if cb then emit (Progress p) else ret ())"

subsection \<open>Single upload\<close>

definition singleUpload :: "http_client \<Rightarrow> string \<Rightarrow> byte list \<Rightarrow> upload_options \<Rightarrow> json option sdk" where
  "singleUpload c pid data opts =
     (let contentType = content_type (o_mimeType opts); n = length data in
      andThen (post c (v1 pid ''/files/upload'')
        (Some (init_body ''size_bytes'' (o_filename opts) contentType n (o_folderId opts)
           (o_metadata opts) (o_tags opts)))) (\<lambda>init.
      andThen (report (o_onProgress opts)
        \<lparr>bytesUploaded = 0, totalBytes = n, percentage = 0, chunkNumber = 1, totalChunks = 1\<rparr>) (\<lambda>_.
      andThen (prop_of init ''uploadUrl'') (\<lambda>uploadUrl.
      andThen (global_fetch
        (put_request (interp uploadUrl) [(''Content-Type'', contentType)] data)) (\<lambda>_.
      andThen (report (o_onProgress opts)
        \<lparr>bytesUploaded = n, totalBytes = n, percentage = 100, chunkNumber = 1, totalChunks = 1\<rparr>) (\<lambda>_.
      andThen (prop_of init ''fileId'') (\<lambda>fid.
      andThen (post c (v1 pid (''/files/'' @ interp fid @ ''/confirm'')) None) (\<lambda>_.
      get c (v1 pid (''/files/'' @ interp fid)) []))))))))"

subsection \<open>Multipart upload\<close>

definition part_progress :: "nat \<Rightarrow> nat \<Rightarrow> nat \<Rightarrow> progress" where
  "part_progress n tot i =
     \<lparr>bytesUploaded = min ((i + 1) * CHUNK_SIZE) n, totalBytes = n,
      percentage = round_pct (i + 1) tot, chunkNumber = i + 1, totalChunks = tot\<rparr>"

definition upload_part ::
    "http_client \<Rightarrow> string \<Rightarrow> string \<Rightarrow> byte list \<Rightarrow> bool \<Rightarrow> nat \<Rightarrow> (nat \<times> string) sdk" where
  "upload_part c pid uploadId data cb i =
     andThen (get c (v1 pid (''/files/upload/multipart/'' @ uploadId @ ''/part-url''))
        [(''part'', Some (JInt (int (i + 1))))]) (\<lambda>v.
     andThen (prop_of v ''url'') (\<lambda>u.
     andThen (global_fetch (put_request (interp u) [] (sdk_chunk CHUNK_SIZE data i))) (\<lambda>partRes.
     let etag = (case map_of (rs_headers partRes) ''etag'' of None \<Rightarrow> [] | Some e \<Rightarrow> e) in
     andThen (report cb (part_progress (length data) (totalChunks_of (length data)) i)) (\<lambda>_.
     ret (i + 1, etag)))))"

fun upload_parts ::
    "http_client \<Rightarrow> string \<Rightarrow> string \<Rightarrow> byte list \<Rightarrow> bool \<Rightarrow> nat list \<Rightarrow> (nat \<times> string) list \<Rightarrow>
     (nat \<times> string) list sdk" where
  "upload_parts c pid uploadId data cb [] parts = ret parts"
| "upload_parts c pid uploadId data cb (i # is) parts =
     andThen (upload_part c pid uploadId data cb i)
       (\<lambda>p. upload_parts c pid uploadId data cb is (parts @ [p]))"

definition parts_json :: "(nat \<times> string) list \<Rightarrow> json" where
  "parts_json parts = JObj [(''parts'', JArr (map (\<lambda>(n, e).
     JObj [(''part_number'', JInt (int n)), (''etag'', JStr e)]) parts))]"

definition complete_parts ::
    "http_client \<Rightarrow> string \<Rightarrow> string \<Rightarrow> (nat \<times> string) list \<Rightarrow> json option sdk" where
  "complete_parts c pid uploadId parts =
     andThen (post c (v1 pid (''/files/upload/multipart/'' @ uploadId @ ''/complete''))
        (Some (parts_json parts))) (\<lambda>result.
     andThen (prop_of result ''fileId'') (\<lambda>fid.
     get c (v1 pid (''/files/'' @ interp fid)) []))"

definition transfer_parts ::
    "http_client \<Rightarrow> string \<Rightarrow> string \<Rightarrow> byte list \<Rightarrow> bool \<Rightarrow> json option sdk" where
  "transfer_parts c pid uploadId data cb =
     andThen (upload_parts c pid uploadId data cb [0..<totalChunks_of (length data)] [])
       (complete_parts c pid uploadId)"

definition multipartUpload ::
    "http_client \<Rightarrow> string \<Rightarrow> byte list \<Rightarrow> upload_options \<Rightarrow> json option sdk" where
  "multipartUpload c pid data opts =
     andThen (post c (v1 pid ''/files/upload/multipart/start'')
        (Some (init_body ''total_size_bytes'' (o_filename opts) (content_type (o_mimeType opts))
           (length data) (o_folderId opts) (o_metadata opts) (o_tags opts)))) (\<lambda>session.
     andThen (prop_of session ''uploadId'') (\<lambda>uid.
     transfer_parts c pid (interp uid) data (o_onProgress opts)))"

definition buffer_of :: "upload_data \<Rightarrow> byte list" where
  "buffer_of d = (case d of BufferData b \<Rightarrow> b | StreamData s \<Rightarrow> streamToBuffer s)"

definition upload :: "http_client \<Rightarrow> string \<Rightarrow> upload_options \<Rightarrow> json option sdk" where
  "upload c pid opts =
     (let data = buffer_of (o_data opts) in
      if MULTIPART_THRESHOLD \<le> length data then multipartUpload c pid data opts
      else singleUpload c pid data opts)"

subsection \<open>The resumable namespace\<close>

definition create_session ::
    "http_client \<Rightarrow> string \<Rightarrow> string \<Rightarrow> nat \<Rightarrow> string option \<Rightarrow> string option \<Rightarrow> json option \<Rightarrow>
     string list option \<Rightarrow> json option sdk" where
  "create_session c pid fname n mime folder meta tags =
     post c (v1 pid ''/files/upload/multipart/start'')
       (Some (init_body ''total_size_bytes'' fname (content_type mime) n folder meta tags))"

definition resume :: "http_client \<Rightarrow> string \<Rightarrow> string \<Rightarrow> upload_data \<Rightarrow> bool \<Rightarrow> json option sdk" where
  "resume c pid uploadId d cb = transfer_parts c pid uploadId (buffer_of d) cb"

definition abort_session :: "http_client \<Rightarrow> string \<Rightarrow> string \<Rightarrow> unit sdk" where
  "abort_session c pid uploadId =
     andThen (delete c (v1 pid (''/files/upload/multipart/'' @ uploadId))) (\<lambda>_. ret ())"

subsection \<open>The other file operations\<close>

record list_filters =
  f_folderId :: "string option"
  f_mimeType :: "string option"
  f_status :: "string option"
  f_tags :: "string list option"
  f_limit :: "int option"
  f_offset :: "int option"
  f_sortBy :: "string option"
  f_sortOrder :: "string option"
  f_metadata :: "string option"

definition ostr :: "string option \<Rightarrow> json option" where
  "ostr = map_option JStr"

definition oint :: "int option \<Rightarrow> json option" where
  "oint = map_option JInt"

text \<open>
  \<^verbatim>\<open>list\<close>: the remaining filters go out under their own names; \<open>f_metadata\<close> is the text
  \<^verbatim>\<open>JSON.stringify(metadata)\<close>.
\<close>

definition list_files :: "http_client \<Rightarrow> string \<Rightarrow> list_filters \<Rightarrow> json option sdk" where
  "list_files c pid f = get c (v1 pid ''/files'')
     [(''folderId'', ostr (f_folderId f)), (''mimeType'', ostr (f_mimeType f)),
      (''status'', ostr (f_status f)), (''limit'', oint (f_limit f)),
      (''offset'', oint (f_offset f)), (''sortBy'', ostr (f_sortBy f)),
      (''sortOrder'', ostr (f_sortOrder f)), (''metadata'', ostr (f_metadata f)),
      (''tags'', ostr (map_option (join_with '','') (f_tags f)))]"

definition getDownloadUrl ::
    "http_client \<Rightarrow> string \<Rightarrow> string \<Rightarrow> int option \<Rightarrow> string option \<Rightarrow> json option sdk" where
  "getDownloadUrl c pid fid ttl disposition =
     get c (v1 pid (''/files/'' @ fid @ ''/download''))
       ((''ttl'', oint ttl) #
        (if disposition = Some ''inline'' then [(''inline'', Some (JBool True))] else []))"

definition download :: "http_client \<Rightarrow> string \<Rightarrow> string \<Rightarrow> response sdk" where
  "download c pid fid =
     andThen (getDownloadUrl c pid fid None None) (\<lambda>v.
     andThen (prop_of v ''url'') (\<lambda>u.
     andThen (global_fetch \<lparr>rq_method = ''GET'', rq_url = interp u, rq_query = [],
         rq_headers = [], rq_body = NoBody\<rparr>) (\<lambda>res.
     if \<not> rs_ok res
     then throw (PlainErr (''Storage download failed: '' @ show_nat (rs_status res)))
     else ret res)))"

definition get_file :: "http_client \<Rightarrow> string \<Rightarrow> string \<Rightarrow> json option sdk" where
  "get_file c pid fid = get c (v1 pid (''/files/'' @ fid)) []"

definition update_file ::
    "http_client \<Rightarrow> string \<Rightarrow> string \<Rightarrow> string list option \<Rightarrow> json option \<Rightarrow> string option \<Rightarrow>
     json option sdk" where
  "update_file c pid fid tags meta fname = patch c (v1 pid (''/files/'' @ fid))
     (Some (jobj [(''tags'', map_option jstrings tags), (''metadata'', meta),
                  (''filename'', ostr fname)]))"

definition delete_file :: "http_client \<Rightarrow> string \<Rightarrow> string \<Rightarrow> json option sdk" where
  "delete_file c pid fid = delete c (v1 pid (''/files/'' @ fid))"

definition restore_file :: "http_client \<Rightarrow> string \<Rightarrow> string \<Rightarrow> json option sdk" where
  "restore_file c pid fid = post c (v1 pid (''/files/'' @ fid @ ''/restore'')) None"

definition list_versions :: "http_client \<Rightarrow> string \<Rightarrow> string \<Rightarrow> json option sdk" where
  "list_versions c pid fid = get c (v1 pid (''/files/'' @ fid @ ''/versions'')) []"

definition restore_version :: "http_client \<Rightarrow> string \<Rightarrow> string \<Rightarrow> string \<Rightarrow> json option sdk" where
  "restore_version c pid fid vid =
     post c (v1 pid (''/files/'' @ fid @ ''/versions/'' @ vid @ ''/restore'')) None"

subsection \<open>What a run sends: bytes and progress reports\<close>

fun event_bytes :: "event \<Rightarrow> byte list option" where
  "event_bytes (Fetch rq) = (case rq_body rq of BytesBody b \<Rightarrow> Some b | _ \<Rightarrow> None)"
| "event_bytes _ = None"

fun event_progress :: "event \<Rightarrow> progress option" where
  "event_progress (Progress p) = Some p"
| "event_progress _ = None"

definition sent_bytes :: "event list \<Rightarrow> byte list list" where
  "sent_bytes es = List.map_filter event_bytes es"

definition reports :: "event list \<Rightarrow> progress list" where
  "reports es = List.map_filter event_progress es"

lemma sent_bytes_simps [simp]:
  "sent_bytes [] = []"
  "sent_bytes (e # es) = (case event_bytes e of None \<Rightarrow> [] | Some b \<Rightarrow> [b]) @ sent_bytes es"
  "sent_bytes (es @ fs) = sent_bytes es @ sent_bytes fs"
  by (auto simp: sent_bytes_def List.map_filter_def split: option.splits)

lemma reports_simps [simp]:
  "reports [] = []"
  "reports (e # es) = (case event_progress e of None \<Rightarrow> [] | Some b \<Rightarrow> [b]) @ reports es"
  "reports (es @ fs) = reports es @ reports fs"
  by (auto simp: reports_def List.map_filter_def split: option.splits)

text \<open>A call of the client sends no bytes to storage and reports no progress.\<close>

definition silent :: "event list \<Rightarrow> bool" where
  "silent es = (sent_bytes es = [] \<and> reports es = [])"

lemma silent_retry_events:
  "event_bytes (Fetch rq) = None \<Longrightarrow> silent (retry_events rq a n)"
proof -
  assume rq: "event_bytes (Fetch rq) = None"
  have "sent_bytes (concat (map (\<lambda>i. [Fetch rq, Sleep (backoff i)]) xs)) = [] \<and>
        reports (concat (map (\<lambda>i. [Fetch rq, Sleep (backoff i)]) xs)) = []" for xs
    using rq by (induction xs) auto
  with rq show ?thesis by (auto simp: silent_def retry_events_def)
qed

lemma silent_fetchWithRetry:
  assumes "event_bytes (Fetch rq) = None"
  shows "\<exists>es. snd (fetchWithRetry c rq a w h) = h @ es \<and> silent es"
  using fetchWithRetry_events [of c rq w h a] silent_retry_events [OF assms] by auto

lemma silent_get: "get c path ps w h = (x, h') \<Longrightarrow> \<exists>es. h' = h @ es \<and> silent es"
  using snd_get [of c path ps w h] silent_fetchWithRetry [of "get_request c path ps" c 0 w h]
  by (auto simp: get_request_def)

lemma silent_post: "post c path b w h = (x, h') \<Longrightarrow> \<exists>es. h' = h @ es \<and> silent es"
  using snd_post [of c path b w h] silent_fetchWithRetry [of "send_request c ''POST'' path b" c 0 w h]
  by (auto simp: send_request_def split: option.splits)

lemma prop_of_pair: "prop_of v k w h = (x, h') \<Longrightarrow> h' = h"
  by (auto simp: prop_of_def io_simps split: option.splits json.splits)

lemma global_fetch_ok:
  "global_fetch rq w h = (Inr r, h') \<Longrightarrow> h' = h @ [Fetch rq] \<and> w h' = Responded r"
  by (auto simp: global_fetch_def io_simps split: reply.splits)

lemma upload_part_ok:
  assumes "upload_part c pid u data cb i w h = (Inr (k, e), h')"
  shows "k = i + 1 \<and> (\<exists>es. h' = h @ es \<and> sent_bytes es = [sdk_chunk CHUNK_SIZE data i] \<and>
    reports es =
      (if cb then [part_progress (length data) (totalChunks_of (length data)) i] else []))"
proof -
  let ?p = "part_progress (length data) (totalChunks_of (length data)) i"
  from assms obtain v h1 uv h2 r h3 where
      1: "get c (v1 pid (''/files/upload/multipart/'' @ u @ ''/part-url''))
            [(''part'', Some (JInt (int (i + 1))))] w h = (Inr v, h1)"
    and 2: "prop_of v ''url'' w h1 = (Inr uv, h2)"
    and 3: "global_fetch (put_request (interp uv) [] (sdk_chunk CHUNK_SIZE data i)) w h2 = (Inr r, h3)"
    and 4: "k = i + 1" "h' = h3 @ (if cb then [Progress ?p] else [])"
    by (auto simp: upload_part_def io_simps report_def Let_def
        split: prod.splits sum.splits if_splits)
  from silent_get [OF 1] obtain es where es: "h1 = h @ es" "silent es" by blast
  from prop_of_pair [OF 2] global_fetch_ok [OF 3] have
    "h3 = h @ es @ [Fetch (put_request (interp uv) [] (sdk_chunk CHUNK_SIZE data i))]"
    by (simp add: es)
  with 4 es show ?thesis
    by (intro conjI exI [of _ "es @ Fetch (put_request (interp uv) [] (sdk_chunk CHUNK_SIZE data i))
          # (if cb then [Progress ?p] else [])"])
      (auto simp: silent_def put_request_def)
qed

lemma upload_parts_ok:
  assumes "upload_parts c pid u data cb is acc w h = (Inr parts, h')"
  shows "map fst parts = map fst acc @ map Suc is \<and>
    (\<exists>es. h' = h @ es \<and> sent_bytes es = map (sdk_chunk CHUNK_SIZE data) is \<and>
      reports es = (if cb then map (part_progress (length data) (totalChunks_of (length data))) is
                    else []))"
  using assms
proof (induction "is" arbitrary: acc h)
  case Nil
  then show ?case by (auto simp: io_simps)
next
  case (Cons i "is")
  from Cons.prems obtain k e h1 where
      1: "upload_part c pid u data cb i w h = (Inr (k, e), h1)"
    and 2: "upload_parts c pid u data cb is (acc @ [(k, e)]) w h1 = (Inr parts, h')"
    by (auto simp: io_simps split: prod.splits sum.splits)
  from upload_part_ok [OF 1] Cons.IH [OF 2] show ?case
    by (auto split: if_splits)
qed

lemma complete_parts_ok:
  assumes "complete_parts c pid u parts w h = (Inr v, h')"
  shows "\<exists>es. h' = h @ es \<and> silent es \<and>
    Fetch (send_request c ''POST'' (v1 pid (''/files/upload/multipart/'' @ u @ ''/complete''))
      (Some (parts_json parts))) \<in> set es"
proof -
  let ?path = "v1 pid (''/files/upload/multipart/'' @ u @ ''/complete'')"
  from assms obtain r h1 f h2 where
      1: "post c ?path (Some (parts_json parts)) w h = (Inr r, h1)"
    and 2: "prop_of r ''fileId'' w h1 = (Inr f, h2)"
    and 3: "get c (v1 pid (''/files/'' @ interp f)) [] w h2 = (Inr v, h')"
    by (auto simp: complete_parts_def io_simps split: prod.splits sum.splits)
  obtain n where "h1 = h @ retry_events (send_request c ''POST'' ?path (Some (parts_json parts))) 0 n"
    using fetchWithRetry_events [of c "send_request c ''POST'' ?path (Some (parts_json parts))" w h 0]
      snd_post [of c ?path "Some (parts_json parts)" w h] 1 by auto
  moreover have "Fetch rq \<in> set (retry_events rq 0 n)" for rq by (simp add: retry_events_def)
  moreover have "\<exists>es. h1 = h @ es \<and> silent es" using silent_post [OF 1] .
  moreover have "\<exists>es. h' = h1 @ es \<and> silent es"
    using silent_get [OF 3] prop_of_pair [OF 2] by simp
  ultimately show ?thesis by (auto simp: silent_def)
qed

lemma transfer_parts_ok:
  assumes "transfer_parts c pid u data cb w h = (Inr v, h')"
  shows "\<exists>es parts. h' = h @ es \<and>
    sent_bytes es = map (sdk_chunk CHUNK_SIZE data) [0..<totalChunks_of (length data)] \<and>
    reports es = (if cb then map (part_progress (length data) (totalChunks_of (length data)))
                                [0..<totalChunks_of (length data)] else []) \<and>
    map fst parts = [1..<totalChunks_of (length data) + 1] \<and>
    Fetch (send_request c ''POST'' (v1 pid (''/files/upload/multipart/'' @ u @ ''/complete''))
      (Some (parts_json parts))) \<in> set es"
proof -
  from assms obtain parts h1 where
      1: "upload_parts c pid u data cb [0..<totalChunks_of (length data)] [] w h = (Inr parts, h1)"
    and 2: "complete_parts c pid u parts w h1 = (Inr v, h')"
    by (auto simp: transfer_parts_def io_simps split: prod.splits sum.splits)
  from upload_parts_ok [OF 1] complete_parts_ok [OF 2] show ?thesis
    by (fastforce simp: silent_def map_Suc_upt)
qed

subsection \<open>The storage provider's status\<close>

text \<open>The world \<open>w\<close> with status \<open>st\<close> as the answer to every PUT.\<close>

definition storage_status :: "nat \<Rightarrow> (event, reply) world \<Rightarrow> (event, reply) world" where
  "storage_status st w = (\<lambda>es. case rev es of
     Fetch rq # _ \<Rightarrow> (if rq_method rq = ''PUT''
        then (case w es of Responded r \<Rightarrow> Responded (r\<lparr>rs_status := st\<rparr>) | rp \<Rightarrow> rp) else w es)
   | _ \<Rightarrow> w es)"

lemma fetchWithRetry_cong:
  assumes "\<And>h. w' (h @ [Fetch rq]) = w (h @ [Fetch rq])"
  shows "fetchWithRetry c rq a w' h = fetchWithRetry c rq a w h"
proof (induction "nat (maxRetries c - int a)" arbitrary: a h rule: less_induct)
  case less
  show ?case
  proof (cases "final_reply c a (w (h @ [Fetch rq]))")
    case True
    then show ?thesis using assms by (simp add: fetchWithRetry_final)
  next
    case False
    then have "int a < maxRetries c" by (rule final_reply_bound)
    then have "fetchWithRetry c rq (Suc a) w' (h @ [Fetch rq, Sleep (backoff a)]) =
        fetchWithRetry c rq (Suc a) w (h @ [Fetch rq, Sleep (backoff a)])"
      by (intro less) simp
    with False show ?thesis using assms by (simp add: fetchWithRetry_retry)
  qed
qed

lemma fetchWithRetry_storage_status:
  "rq_method rq \<noteq> ''PUT'' \<Longrightarrow>
   fetchWithRetry c rq a (storage_status st w) h = fetchWithRetry c rq a w h"
  by (rule fetchWithRetry_cong) (simp add: storage_status_def)

lemma get_storage_status [simp]: "get c path ps (storage_status st w) h = get c path ps w h"
  by (simp add: get_def io_simps fetchWithRetry_storage_status get_request_def check_ok_def
      res_json_def split: prod.splits sum.splits option.splits)

lemma post_storage_status [simp]: "post c path b (storage_status st w) h = post c path b w h"
  by (simp add: post_def io_simps fetchWithRetry_storage_status send_request_def check_ok_def
      res_json_def split: prod.splits sum.splits option.splits)

lemma prop_of_world: "prop_of v k w' h = prop_of v k w h"
  by (auto simp: prop_of_def io_simps split: option.splits json.splits)

lemma global_put_storage_status:
  "global_fetch (put_request u hs d) (storage_status st w) h =
     (case global_fetch (put_request u hs d) w h of
        (Inr r, h') \<Rightarrow> (Inr (r\<lparr>rs_status := st\<rparr>), h') | (Inl x, h') \<Rightarrow> (Inl x, h'))"
  by (auto simp: global_fetch_def io_simps storage_status_def put_request_def split: reply.splits)

lemma upload_part_storage_status:
  "upload_part c pid u data cb i (storage_status st w) h = upload_part c pid u data cb i w h"
  by (auto simp: upload_part_def io_simps global_put_storage_status report_def Let_def
      prop_of_world [where w' = "storage_status st w" and w = w]
      split: prod.splits sum.splits if_splits)

lemma upload_parts_storage_status:
  "upload_parts c pid u data cb is acc (storage_status st w) h = upload_parts c pid u data cb is acc w h"
  by (induction "is" arbitrary: acc h)
    (auto simp: io_simps upload_part_storage_status split: prod.splits sum.splits)

lemma complete_parts_storage_status:
  "complete_parts c pid u parts (storage_status st w) h = complete_parts c pid u parts w h"
  by (auto simp: complete_parts_def io_simps
      prop_of_world [where w' = "storage_status st w" and w = w]
      split: prod.splits sum.splits)

lemma transfer_parts_storage_status:
  "transfer_parts c pid u data cb (storage_status st w) h = transfer_parts c pid u data cb w h"
  by (auto simp: transfer_parts_def io_simps upload_parts_storage_status
      complete_parts_storage_status split: prod.splits sum.splits)

lemma singleUpload_storage_status:
  "singleUpload c pid data opts (storage_status st w) h = singleUpload c pid data opts w h"
  by (auto simp: singleUpload_def io_simps global_put_storage_status report_def Let_def
      prop_of_world [where w' = "storage_status st w" and w = w]
      split: prod.splits sum.splits if_splits)

lemma multipartUpload_storage_status:
  "multipartUpload c pid data opts (storage_status st w) h = multipartUpload c pid data opts w h"
  by (auto simp: multipartUpload_def io_simps transfer_parts_storage_status
      prop_of_world [where w' = "storage_status st w" and w = w]
      split: prod.splits sum.splits)

subsection \<open>Progress\<close>

lemma part_progress_bounds:
  assumes "i < totalChunks_of n"
  shows "percentage (part_progress n (totalChunks_of n) i) \<le> 100"
  using assms by (simp add: part_progress_def round_pct_le Suc_le_eq)

lemma part_progress_last:
  assumes "totalChunks_of n = Suc m"
  shows "part_progress n (totalChunks_of n) m =
    \<lparr>bytesUploaded = n, totalBytes = n, percentage = 100, chunkNumber = Suc m, totalChunks = Suc m\<rparr>"
proof -
  have "n \<le> Suc m * CHUNK_SIZE"
    using ceil_div_cover [of CHUNK_SIZE n] assms by (simp add: totalChunks_of_def)
  with assms show ?thesis by (simp add: part_progress_def min_def)
qed

lemma part_progress_mono:
  assumes "i \<le> j"
  shows "percentage (part_progress n t i) \<le> percentage (part_progress n t j) \<and>
         bytesUploaded (part_progress n t i) \<le> bytesUploaded (part_progress n t j)"
proof -
  have "(i + 1) * CHUNK_SIZE \<le> (j + 1) * CHUNK_SIZE"
    using assms by (intro mult_le_mono1) simp
  then have "min ((i + 1) * CHUNK_SIZE) n \<le> min ((j + 1) * CHUNK_SIZE) n"
    by (rule min.mono) simp
  with assms show ?thesis
    unfolding part_progress_def progress.simps by (intro conjI round_pct_mono) simp_all
qed

subsection \<open>Properties\<close>

text \<open>
  C2: when the transfer of a multipart upload returns (in \<open>upload\<close> of a large file and in
  \<open>resume\<close>), the bytes sent to storage, part after part, are exactly the bytes of the file; the
  parts are reported as 1, 2, ..., n in the request that completes the upload; and with a progress
  callback there was exactly one report per part, in order.
\<close>

theorem multipart_sends_file:
  assumes "transfer_parts c pid u data cb w h = (Inr v, h')"
  shows "\<exists>es parts. h' = h @ es \<and> concat (sent_bytes es) = data \<and>
    map fst parts = [1..<totalChunks_of (length data) + 1] \<and>
    Fetch (send_request c ''POST'' (v1 pid (''/files/upload/multipart/'' @ u @ ''/complete''))
      (Some (parts_json parts))) \<in> set es \<and>
    reports es = (if cb then map (part_progress (length data) (totalChunks_of (length data)))
                                [0..<totalChunks_of (length data)] else [])"
proof -
  have cc: "concat (map (sdk_chunk CHUNK_SIZE data) [0..<totalChunks_of (length data)]) = data"
    by (simp add: sdk.concat_chunks totalChunks_of_def)
  from transfer_parts_ok [OF assms] show ?thesis
    by (elim exE conjE, intro exI conjI) (assumption | simp add: cc)+
qed

definition demo_client :: http_client where
  "demo_client = new_http_client
     \<lparr>cfg_apiKey = ''fn_test_k'', cfg_projectId = None, cfg_baseUrl = Some ''http://h/'',
      cfg_timeout = None, cfg_maxRetries = None, cfg_apiVersion = None\<rparr>"

definition demo_world :: "(event, reply) world" where
  "demo_world = (\<lambda>_. Responded \<lparr>rs_status = 200, rs_statusText = ''OK'',
     rs_headers = [(''etag'', ''e'')],
     rs_json = Some (JObj [(''url'', JStr ''u''), (''fileId'', JStr ''f'')])\<rparr>)"

lemma multipart_sends_file_witness:
  "\<exists>v h'. transfer_parts demo_client ''p'' ''s'' [1, 2, 3] True demo_world [] = (Inr v, h') \<and>
     concat (sent_bytes h') = [1, 2, 3]"
proof -
  have n: "ceil_div (Suc (Suc (Suc 0))) CHUNK_SIZE = 1" by (simp add: ceil_div_def CHUNK_SIZE_def)
  have "\<exists>v h'. transfer_parts demo_client ''p'' ''s'' [1, 2, 3] True demo_world [] = (Inr v, h')"
    by (simp add: transfer_parts_def totalChunks_of_def n upload_part_def complete_parts_def io_simps
        get_def post_def fetchWithRetry.simps demo_world_def check_ok_def rs_ok_def res_json_def
        is_empty_response_def from_entries_def prop_of_def global_fetch_def report_def Let_def
        is_lower_def)
  then obtain v h' where
      r: "transfer_parts demo_client ''p'' ''s'' [1, 2, 3] True demo_world [] = (Inr v, h')"
    by blast
  from r multipart_sends_file [OF r] show ?thesis by auto
qed

text \<open>
  An upload does not look at the status of the storage provider's answer. Whatever status
  storage gives to the PUT of the file or of its parts (403, 500, ...), the upload sends the
  same requests, confirms the file and returns the same result.
\<close>

lemma upload_ignores_storage_status:
  "upload c pid opts (storage_status st w) h = upload c pid opts w h \<and>
   resume c pid u d cb (storage_status st w) h = resume c pid u d cb w h"
  by (simp add: upload_def resume_def Let_def singleUpload_storage_status
      multipartUpload_storage_status transfer_parts_storage_status)

text \<open>
  The progress reports of a multipart transfer never go back (bytes and percentage), never
  pass 100 percent, and the report of the last part says 100 percent and all bytes.
\<close>

lemma progress_reports_monotone:
  "sorted (map percentage (map (part_progress n (totalChunks_of n)) [0..<totalChunks_of n])) \<and>
   sorted (map bytesUploaded (map (part_progress n (totalChunks_of n)) [0..<totalChunks_of n])) \<and>
   list_all (\<lambda>p. percentage p \<le> 100 \<and> bytesUploaded p \<le> n)
     (map (part_progress n (totalChunks_of n)) [0..<totalChunks_of n]) \<and>
   (case totalChunks_of n of 0 \<Rightarrow> n = 0
    | Suc m \<Rightarrow> percentage (part_progress n (totalChunks_of n) m) = 100 \<and>
              bytesUploaded (part_progress n (totalChunks_of n) m) = n)"
proof (intro conjI)
  let ?ps = "map (part_progress n (totalChunks_of n)) [0..<totalChunks_of n]"
  show "sorted (map percentage ?ps)" "sorted (map bytesUploaded ?ps)"
    using part_progress_mono [of _ _ n "totalChunks_of n"]
    by (auto simp: sorted_iff_nth_mono)
  show "list_all (\<lambda>p. percentage p \<le> 100 \<and> bytesUploaded p \<le> n) ?ps"
    using part_progress_bounds by (auto simp: list_all_iff) (simp add: part_progress_def)
  show "case totalChunks_of n of 0 \<Rightarrow> n = 0
    | Suc m \<Rightarrow> percentage (part_progress n (totalChunks_of n) m) = 100 \<and>
              bytesUploaded (part_progress n (totalChunks_of n) m) = n"
    using totalChunks_pos [of n] part_progress_last [of n] by (auto split: nat.splits)
qed

end
