(* ===== verification/Sdk_Namespaces.thy ===== *)
theory Sdk_Namespaces
  imports Sdk_Files
begin

text \<open>
  The other namespaces of the Node SDK: \<^verbatim>\<open>folders.ts\<close>, \<^verbatim>\<open>search.ts\<close>, \<^verbatim>\<open>upload-tokens.ts\<close>, the
  calls of \<^verbatim>\<open>webhooks.ts\<close>, and the client object of \<^verbatim>\<open>client.ts\<close>. The search iterator is a
  generator with an endless loop; the model consumes it to its end with fuel, and \<open>None\<close> means that
  the fuel did not suffice.
\<close>

subsection \<open>The client object\<close>

record filenest =
  fn_http :: http_client
  fn_projectId :: string

text \<open>The constructor hands the client and the project id to every namespace.\<close>

definition new_filenest :: "http_config \<Rightarrow> string \<Rightarrow> filenest" where
  "new_filenest cfg pid =
     \<lparr>fn_http = new_http_client (cfg\<lparr>cfg_projectId := Some pid\<rparr>), fn_projectId = pid\<rparr>"

subsection \<open>Folders\<close>

definition create_folder ::
    "http_client \<Rightarrow> string \<Rightarrow> string \<Rightarrow> string option \<Rightarrow> json option \<Rightarrow> json option sdk" where
  "create_folder c pid name parent meta = post c (v1 pid ''/folders'')
     (Some (jobj [(''name'', Some (JStr name)), (''parent_folder_id'', ostr parent),
                  (''metadata'', meta)]))"

definition list_folders :: "http_client \<Rightarrow> string \<Rightarrow> string option \<Rightarrow> json option sdk" where
  "list_folders c pid name = get c (v1 pid ''/folders'') [(''name'', ostr name)]"

definition get_folder :: "http_client \<Rightarrow> string \<Rightarrow> string \<Rightarrow> json option sdk" where
  "get_folder c pid fid = get c (v1 pid (''/folders/'' @ fid)) []"

text \<open>
  The property \<^verbatim>\<open>status\<close> of what was thrown: the errors of the hierarchy have \<^verbatim>\<open>statusCode\<close> and
  no \<^verbatim>\<open>status\<close>, and the language's errors have neither.
\<close>

fun exn_status :: "exn \<Rightarrow> int option" where
  "exn_status (Thrown e) = None"
| "exn_status TypeErr = None"
| "exn_status SyntaxErr = None"
| "exn_status (PlainErr m) = None"
| "exn_status FetchRejected = None"

definition getByPath :: "http_client \<Rightarrow> string \<Rightarrow> string \<Rightarrow> json option sdk" where
  "getByPath c pid path =
     catching (get c (v1 pid ''/folders/by-path'') [(''path'', Some (JStr path))])
       (\<lambda>err. if exn_status err = Some 404 then ret (Some JNull) else throw err)"

definition ensurePath :: "http_client \<Rightarrow> string \<Rightarrow> string \<Rightarrow> json option sdk" where
  "ensurePath c pid path =
     post c (v1 pid ''/folders/ensure-path'') (Some (JObj [(''path'', JStr path)]))"

record folder_file_filters =
  ff_q :: "string option"
  ff_tags :: "string list option"
  ff_category :: "string option"
  ff_status :: "string option"
  ff_limit :: "int option"
  ff_offset :: "int option"
  ff_cursor :: "string option"

definition list_folder_files ::
    "http_client \<Rightarrow> string \<Rightarrow> string \<Rightarrow> folder_file_filters \<Rightarrow> json option sdk" where
  "list_folder_files c pid fid f = get c (v1 pid (''/folders/'' @ fid @ ''/files''))
     [(''q'', ostr (ff_q f)), (''tags'', ostr (map_option (join_with '','') (ff_tags f))),
      (''category'', ostr (ff_category f)), (''status'', ostr (ff_status f)),
      (''limit'', oint (ff_limit f)), (''offset'', oint (ff_offset f)),
      (''cursor'', ostr (ff_cursor f))]"

definition delete_folder :: "http_client \<Rightarrow> string \<Rightarrow> string \<Rightarrow> json option sdk" where
  "delete_folder c pid fid = delete c (v1 pid (''/folders/'' @ fid))"

subsection \<open>Upload tokens\<close>

record token_options =
  t_maxSize :: "int option"
  t_allowedMimeTypes :: "string list option"
  t_maxFiles :: "int option"
  t_folderId :: "string option"
  t_metadata :: "json option"
  t_tags :: "string list option"
  t_expiresIn :: "int option"
  t_ownerUserId :: "string option"
  t_ownerOrgId :: "string option"

definition token_body :: "token_options \<Rightarrow> json" where
  "token_body t = jobj
     [(''max_size'', oint (t_maxSize t)),
      (''allowed_mime_types'', map_option jstrings (t_allowedMimeTypes t)),
      (''max_files'', oint (t_maxFiles t)), (''folder_id'', ostr (t_folderId t)),
      (''metadata'', t_metadata t), (''tags'', map_option jstrings (t_tags t)),
      (''expires_in'', oint (t_expiresIn t)), (''owner_user_id'', ostr (t_ownerUserId t)),
      (''owner_org_id'', ostr (t_ownerOrgId t))]"

definition create_upload_token :: "http_client \<Rightarrow> string \<Rightarrow> token_options \<Rightarrow> json option sdk" where
  "create_upload_token c pid t = post c (v1 pid ''/upload-tokens'') (Some (token_body t))"

text \<open>The server entry of the Next.js SDK (\<^verbatim>\<open>sdks/nextjs/src/server/index.ts\<close>): the same client, and one token of it.\<close>

definition filenestServer :: "http_config \<Rightarrow> string \<Rightarrow> filenest" where
  "filenestServer cfg pid = new_filenest cfg pid"

definition createUploadToken :: "string \<Rightarrow> string \<Rightarrow> string option \<Rightarrow> token_options \<Rightarrow> json option sdk" where
  "createUploadToken key pid base opts =
     (let fn = new_filenest \<lparr>cfg_apiKey = key, cfg_projectId = Some pid, cfg_baseUrl = base, cfg_timeout = None,
          cfg_maxRetries = None, cfg_apiVersion = None\<rparr> pid
      in create_upload_token (fn_http fn) (fn_projectId fn) opts)"

subsection \<open>Webhooks\<close>

definition create_webhook ::
    "http_client \<Rightarrow> string \<Rightarrow> string \<Rightarrow> string \<Rightarrow> string list \<Rightarrow> json option sdk" where
  "create_webhook c pid name u events = post c (v1 pid ''/webhooks'')
     (Some (JObj [(''name'', JStr name), (''url'', JStr u), (''events'', jstrings events)]))"

definition list_webhooks :: "http_client \<Rightarrow> string \<Rightarrow> json option sdk" where
  "list_webhooks c pid = get c (v1 pid ''/webhooks'') []"

definition get_webhook :: "http_client \<Rightarrow> string \<Rightarrow> string \<Rightarrow> json option sdk" where
  "get_webhook c pid wid = get c (v1 pid (''/webhooks/'' @ wid)) []"

definition update_webhook ::
    "http_client \<Rightarrow> string \<Rightarrow> string \<Rightarrow> string option \<Rightarrow> string option \<Rightarrow> string list option \<Rightarrow>
     string option \<Rightarrow> json option sdk" where
  "update_webhook c pid wid name u events st = patch c (v1 pid (''/webhooks/'' @ wid))
     (Some (jobj [(''name'', ostr name), (''url'', ostr u),
                  (''events'', map_option jstrings events), (''status'', ostr st)]))"

definition delete_webhook :: "http_client \<Rightarrow> string \<Rightarrow> string \<Rightarrow> json option sdk" where
  "delete_webhook c pid wid = delete c (v1 pid (''/webhooks/'' @ wid))"

definition list_deliveries ::
    "http_client \<Rightarrow> string \<Rightarrow> string \<Rightarrow> int option \<Rightarrow> int option \<Rightarrow> json option sdk" where
  "list_deliveries c pid wid lm off = get c (v1 pid (''/webhooks/'' @ wid @ ''/deliveries''))
     [(''limit'', oint lm), (''offset'', oint off)]"

subsection \<open>Search\<close>

record search_options =
  s_q :: "string option"
  s_filters :: "json option"
  s_facets :: "string list option"
  s_limit :: "nat option"
  s_offset :: "nat option"
  s_sortBy :: "string option"
  s_sortOrder :: "string option"

datatype search_input = Text string | Options search_options

definition onat :: "nat option \<Rightarrow> json option" where
  "onat = map_option (\<lambda>n. JInt (int n))"

definition search_body :: "search_options \<Rightarrow> json" where
  "search_body s = jobj
     [(''q'', ostr (s_q s)), (''filters'', s_filters s),
      (''facets'', map_option jstrings (s_facets s)), (''limit'', onat (s_limit s)),
      (''offset'', onat (s_offset s)), (''sortBy'', ostr (s_sortBy s)),
      (''sortOrder'', ostr (s_sortOrder s))]"

definition no_search :: search_options where
  "no_search = \<lparr>s_q = None, s_filters = None, s_facets = None, s_limit = None, s_offset = None,
                s_sortBy = None, s_sortOrder = None\<rparr>"

definition query :: "http_client \<Rightarrow> string \<Rightarrow> search_input \<Rightarrow> json option sdk" where
  "query c pid inp =
     (let options = (case inp of Text q \<Rightarrow> no_search\<lparr>s_q := Some q\<rparr> | Options s \<Rightarrow> s)
      in post c (v1 pid ''/search'') (Some (search_body options)))"

text \<open>\<^verbatim>\<open>hit.file\<close> for every hit; an iteration over a value that is no array throws.\<close>

fun hit_files :: "json list \<Rightarrow> json option list option" where
  "hit_files [] = Some []"
| "hit_files (JNull # hs) = None"
| "hit_files (h # hs) = map_option ((#) (jget h ''file'')) (hit_files hs)"

definition hits_of :: "json option \<Rightarrow> json list sdk" where
  "hits_of res = andThen (prop_of res ''hits'')
     (\<lambda>hs. case hs of Some (JArr xs) \<Rightarrow> ret xs | _ \<Rightarrow> throw TypeErr)"

fun iterate_from :: "nat \<Rightarrow> http_client \<Rightarrow> string \<Rightarrow> search_options \<Rightarrow> nat \<Rightarrow> nat \<Rightarrow>
    json option list \<Rightarrow> json option list option sdk" where
  "iterate_from 0 c pid opts limit offset acc = ret None"
| "iterate_from (Suc fuel) c pid opts limit offset acc =
     andThen (query c pid (Options (opts\<lparr>s_limit := Some limit, s_offset := Some offset\<rparr>))) (\<lambda>results.
     andThen (hits_of results) (\<lambda>hits.
     case hit_files hits of None \<Rightarrow> throw TypeErr
     | Some files \<Rightarrow>
         (if length hits < limit then ret (Some (acc @ files))
          else iterate_from fuel c pid opts limit (offset + limit) (acc @ files))))"

definition iterate :: "nat \<Rightarrow> http_client \<Rightarrow> string \<Rightarrow> search_options \<Rightarrow> json option list option sdk" where
  "iterate fuel c pid opts =
     iterate_from fuel c pid opts (case s_limit opts of None \<Rightarrow> 50 | Some n \<Rightarrow> n) 0 []"

subsection \<open>Lemmas\<close>

lemma exn_status_None [simp]: "exn_status x = None"
  by (cases x) auto

lemma hit_files_length: "hit_files hs = Some fs \<Longrightarrow> length fs = length hs"
  by (induction hs arbitrary: fs rule: hit_files.induct) auto

lemma hit_files_objs: "JNull \<notin> set hs \<Longrightarrow> hit_files hs = Some (map (\<lambda>h. jget h ''file'') hs)"
  by (induction hs rule: hit_files.induct) auto

text \<open>
  A server that holds the list \<open>rows\<close> of hits and answers every search, whatever came before, with
  the page of \<open>rows\<close> that the limit and offset ask for.
\<close>

definition serves_pages ::
    "http_client \<Rightarrow> string \<Rightarrow> search_options \<Rightarrow> json list \<Rightarrow> (event, reply) world \<Rightarrow> bool" where
  "serves_pages c pid opts rows w \<longleftrightarrow> (\<forall>lm off h. \<exists>kvs h'.
     query c pid (Options (opts\<lparr>s_limit := Some lm, s_offset := Some off\<rparr>)) w h =
       (Inr (Some (JObj ((''hits'', JArr (take lm (drop off rows))) # kvs))), h'))"

lemma iterate_from_step:
  assumes "serves_pages c pid opts rows w" and "JNull \<notin> set rows"
  shows "\<exists>h'. iterate_from (Suc fuel) c pid opts lm off acc w h =
    (let page = take lm (drop off rows); acc' = acc @ map (\<lambda>r. jget r ''file'') page in
     if length page < lm then (Inr (Some acc'), h')
     else iterate_from fuel c pid opts lm (off + lm) acc' w h')"
proof -
  let ?page = "take lm (drop off rows)"
  obtain kvs h' where q: "query c pid (Options (opts\<lparr>s_limit := Some lm, s_offset := Some off\<rparr>)) w h =
       (Inr (Some (JObj ((''hits'', JArr ?page) # kvs))), h')"
    using assms(1) unfolding serves_pages_def by blast
  have "JNull \<notin> set ?page" using assms(2) by (meson in_set_dropD in_set_takeD)
  then have "hit_files ?page = Some (map (\<lambda>h. jget h ''file'') ?page)" by (rule hit_files_objs)
  with q show ?thesis
    by (intro exI [of _ h'])
      (simp add: io_simps hits_of_def prop_of_def Let_def del: length_take)
qed

lemma iterate_from_complete:
  assumes "serves_pages c pid opts rows w" and "JNull \<notin> set rows" and "0 < lm"
    and "length rows - off < fuel * lm"
  shows "fst (iterate_from fuel c pid opts lm off acc w h)
    = Inr (Some (acc @ map (\<lambda>r. jget r ''file'') (drop off rows)))"
  using assms(4)
proof (induction fuel arbitrary: off acc h)
  case (Suc fuel)
  obtain h' where step: "iterate_from (Suc fuel) c pid opts lm off acc w h =
    (let page = take lm (drop off rows); acc' = acc @ map (\<lambda>r. jget r ''file'') page in
     if length page < lm then (Inr (Some acc'), h')
     else iterate_from fuel c pid opts lm (off + lm) acc' w h')"
    using iterate_from_step [OF assms(1,2)] by blast
  show ?case
  proof (cases "length (take lm (drop off rows)) < lm")
    case True
    then have "take lm (drop off rows) = drop off rows" by (auto simp: min_def split: if_splits)
    with True step show ?thesis by (simp add: Let_def)
  next
    case False
    have "drop off rows = take lm (drop off rows) @ drop (off + lm) rows"
      by (metis add.commute append_take_drop_id drop_drop)
    moreover have "length rows - (off + lm) < fuel * lm"
      using Suc.prems False assms(3) by (cases fuel) auto
    ultimately show ?thesis
      using False step Suc.IH [of "off + lm" _ h'] by (simp add: Let_def) (metis map_append)
  qed
qed simp

lemma iterate_from_limit_0:
  assumes "serves_pages c pid opts rows w"
  shows "fst (iterate_from fuel c pid opts 0 off acc w h) = Inr None"
proof (induction fuel arbitrary: off acc h)
  case (Suc fuel)
  obtain kvs h' where "query c pid (Options (opts\<lparr>s_limit := Some 0, s_offset := Some off\<rparr>)) w h =
       (Inr (Some (JObj ((''hits'', JArr (take 0 (drop off rows))) # kvs))), h')"
    using assms unfolding serves_pages_def by blast
  then show ?case by (simp add: io_simps hits_of_def prop_of_def Suc.IH)
qed (simp add: io_simps)

subsection \<open>A concrete search server\<close>

definition page_reply :: "json list \<Rightarrow> reply" where
  "page_reply page = Responded \<lparr>rs_status = 200, rs_statusText = ''OK'', rs_headers = [],
     rs_json = Some (JObj [(''hits'', JArr page)])\<rparr>"

definition search_world :: "json list \<Rightarrow> (event, reply) world" where
  "search_world rows = (\<lambda>es. case rev es of
     Fetch rq # _ \<Rightarrow> (case rq_body rq of
        JsonBody b \<Rightarrow> (case (jget b ''limit'', jget b ''offset'') of
            (Some (JInt l), Some (JInt off)) \<Rightarrow> page_reply (take (nat l) (drop (nat off) rows))
          | _ \<Rightarrow> NetFailed [])
      | _ \<Rightarrow> NetFailed [])
   | _ \<Rightarrow> NetFailed [])"

lemma search_world_serves:
  assumes "list_all all_camel rows"
  shows "serves_pages demo_client pid opts rows (search_world rows)"
  unfolding serves_pages_def
proof (intro allI)
  fix lm off h
  let ?opts = "opts\<lparr>s_limit := Some lm, s_offset := Some off\<rparr>"
  let ?page = "take lm (drop off rows)"
  let ?rq = "send_request demo_client ''POST'' (v1 pid ''/search'') (Some (search_body ?opts))"
  have "jget (search_body ?opts) ''limit'' = Some (JInt (int lm))"
       "jget (search_body ?opts) ''offset'' = Some (JInt (int off))"
    by (simp_all add: search_body_def jget_jobj onat_def)
  then have w: "search_world rows (h @ [Fetch ?rq]) = page_reply ?page"
    by (simp add: search_world_def send_request_def)
  have "list_all all_camel ?page"
    using assms by (auto simp: list_all_iff dest: in_set_takeD in_set_dropD)
  then have "all_camel (JObj [(''hits'', JArr ?page)])" by (simp add: is_lower_def)
  then have "camelizeKeys (JObj [(''hits'', JArr ?page)]) = JObj [(''hits'', JArr ?page)]"
    by (rule camelizeKeys_id)
  moreover have "fetchWithRetry demo_client ?rq 0 (search_world rows) h =
      (reply_result demo_client (page_reply ?page), h @ [Fetch ?rq])"
    using fetchWithRetry_final [of demo_client 0 "search_world rows" h ?rq]
    by (simp only: w) (simp add: final_reply_def page_reply_def)
  ultimately have "query demo_client pid (Options ?opts) (search_world rows) h =
      (Inr (Some (JObj [(''hits'', JArr ?page)])), h @ [Fetch ?rq])"
    by (simp only: query_def Let_def search_input.case post_def io_simps)
      (simp add: reply_result_def page_reply_def io_simps
        check_ok_def rs_ok_def is_empty_response_def res_json_def del: camelizeKeys.simps)
  then show "\<exists>kvs h'. query demo_client pid (Options ?opts) (search_world rows) h =
      (Inr (Some (JObj ((''hits'', JArr ?page) # kvs))), h')"
    by blast
qed

definition demo_rows :: "json list" where
  "demo_rows = [JObj [(''file'', JInt 1)], JObj [(''file'', JInt 2)], JObj [(''file'', JInt 3)]]"

lemma demo_rows_ok: "list_all all_camel demo_rows" "JNull \<notin> set demo_rows" "length demo_rows = 3"
  by (auto simp: demo_rows_def is_lower_def)

subsection \<open>Properties\<close>

text \<open>
  C4: on a server that pages a fixed list of hits, the search iterator yields the files of all hits,
  each once and in order, for every page size above zero, and it ends: more rounds than there
  are hits are never needed.
\<close>

theorem iterate_yields_all:
  assumes "serves_pages c pid opts rows w" and "JNull \<notin> set rows"
    and "s_limit opts \<noteq> Some 0" and "length rows < fuel"
  shows "fst (iterate fuel c pid opts w h) = Inr (Some (map (\<lambda>r. jget r ''file'') rows))"
proof -
  let ?lm = "case s_limit opts of None \<Rightarrow> 50 | Some n \<Rightarrow> n"
  have lm: "0 < ?lm" using assms(3) by (auto split: option.splits)
  then have "fuel \<le> fuel * ?lm" by (cases ?lm) auto
  with assms(4) have "length rows - 0 < fuel * ?lm" by linarith
  from iterate_from_complete [OF assms(1,2) lm this] show ?thesis by (simp add: iterate_def)
qed

lemma iterate_yields_all_witness:
  "fst (iterate 4 demo_client ''p'' (no_search\<lparr>s_limit := Some 2\<rparr>) (search_world demo_rows) [])
     = Inr (Some [Some (JInt 1), Some (JInt 2), Some (JInt 3)])"
  using iterate_yields_all [OF search_world_serves [OF demo_rows_ok(1), of "''p''"
      "no_search\<lparr>s_limit := Some 2\<rparr>"] demo_rows_ok(2), of 4 "[]"] demo_rows_ok(3)
  by (simp add: demo_rows_def no_search_def)

text \<open>
  With a page size of zero the iterator never ends on such a server: no number of rounds is
  enough, because a page of no hits is not shorter than the limit.
\<close>

lemma iterate_limit_zero_diverges:
  assumes "serves_pages c pid opts rows w" and "s_limit opts = Some 0"
  shows "fst (iterate fuel c pid opts w h) = Inr None"
  using iterate_from_limit_0 [OF assms(1)] assms(2) by (simp add: iterate_def)

lemma iterate_limit_zero_diverges_witness:
  "fst (iterate 1000 demo_client ''p'' (no_search\<lparr>s_limit := Some 0\<rparr>) (search_world demo_rows) [])
     = Inr None"
  by (rule iterate_limit_zero_diverges [OF search_world_serves [OF demo_rows_ok(1)]]) simp

text \<open>
  \<open>getByPath\<close> never reports a missing folder as null. When the server answers 404 it throws
  a NotFoundError, although its contract is to return null: the handler looks for a property
  that no error of the SDK has.
\<close>

lemma getByPath_missing_folder_throws:
  assumes "w (snd (getByPath c pid path w h)) = Responded r" and "rs_status r = 404"
    and "rs_json r \<noteq> Some JNull"
  shows "\<exists>e. fst (getByPath c pid path w h) = Inl (Thrown e) \<and> instance_of e CNotFoundError"
proof -
  let ?g = "get c (v1 pid ''/folders/by-path'') [(''path'', Some (JStr path))]"
  have eq: "getByPath c pid path w h = ?g w h"
    by (simp add: getByPath_def io_simps split: prod.splits sum.splits)
  have "fst (?g w h) = get_outcome c (Responded r)"
    using get_outcome_eq [of c _ _ w h] assms(1) by (simp add: eq)
  then show ?thesis
    using assms(2,3)
    by (auto simp: eq get_outcome_def reply_result_def rs_ok_def mapResponseError_def Let_def
        error_defs instance_of_def split: option.splits)
qed

lemma getByPath_missing_folder_throws_witness:
  "\<exists>e. fst (getByPath demo_client ''p'' ''a/b''
     (\<lambda>_. Responded \<lparr>rs_status = 404, rs_statusText = ''Not Found'', rs_headers = [], rs_json = None\<rparr>) [])
     = Inl (Thrown e) \<and> instance_of e CNotFoundError"
  by (rule getByPath_missing_folder_throws) auto

end
