(* ===== verification/Sdk_Signatures.thy ===== *)
theory Sdk_Signatures
  imports Sdk_Http
begin

text \<open>
  Webhook signatures: the four verifiers (\<^verbatim>\<open>sdks/node/src/namespaces/webhooks.ts\<close> and \<^verbatim>\<open>files.ts\<close>,
  \<^verbatim>\<open>sdks/nextjs/src/server/index.ts\<close>, \<^verbatim>\<open>frontend/web/src/app/api/webhooks/filenest/route.ts\<close>) and the
  console's webhook route. HMAC-SHA256 is the runtime's: the parameter \<open>mac\<close> takes the secret and
  the bytes of the body. A string stands for its UTF-8 bytes.
\<close>

subsection \<open>Hexadecimal\<close>

definition hex_val :: "char \<Rightarrow> nat option" where
  "hex_val c = (let n = (of_char c :: nat) in
     if 48 \<le> n \<and> n \<le> 57 then Some (n - 48)
     else if 97 \<le> n \<and> n \<le> 102 then Some (n - 87)
     else if 65 \<le> n \<and> n \<le> 70 then Some (n - 55)
     else None)"

definition hex_digit :: "nat \<Rightarrow> char" where
  "hex_digit n = char_of (if n < 10 then 48 + n else 87 + n)"

text \<open>\<^verbatim>\<open>Buffer.from(s, "hex")\<close> decodes pairs of digits up to the first pair that is not one.\<close>

fun hex_decode :: "string \<Rightarrow> byte list" where
  "hex_decode (a # b # s) = (case (hex_val a, hex_val b) of
     (Some x, Some y) \<Rightarrow> word_of_nat (16 * x + y) # hex_decode s | _ \<Rightarrow> [])"
| "hex_decode _ = []"

text \<open>\<^verbatim>\<open>digest("hex")\<close>.\<close>

definition hex_encode :: "byte list \<Rightarrow> string" where
  "hex_encode bs = concat (map (\<lambda>b. [hex_digit (unat b div 16), hex_digit (unat b mod 16)]) bs)"

text \<open>\<^verbatim>\<open>timingSafeEqual\<close> throws when the lengths differ.\<close>

definition timingSafeEqual :: "'a list \<Rightarrow> 'a list \<Rightarrow> bool option" where
  "timingSafeEqual a b = (if length a = length b then Some (a = b) else None)"

type_synonym mac = "string \<Rightarrow> string \<Rightarrow> byte list"

subsection \<open>The verifiers\<close>

datatype raw_body = RawBuffer string | RawText string

definition strip_sha256 :: "string \<Rightarrow> string" where
  "strip_sha256 s = (if starts_with s ''sha256='' then drop 7 s else s)"

definition webhook_verify :: "mac \<Rightarrow> raw_body \<Rightarrow> string \<Rightarrow> string \<Rightarrow> bool" where
  "webhook_verify mac rawBody signature secret =
     (let body = (case rawBody of RawBuffer b \<Rightarrow> b | RawText t \<Rightarrow> t);
          sig = strip_sha256 signature;
          expected = hex_encode (mac secret body)
      in case timingSafeEqual (hex_decode expected) (hex_decode sig) of
           None \<Rightarrow> False | Some eq \<Rightarrow> eq)"

definition verifyWebhookSignature :: "mac \<Rightarrow> string \<Rightarrow> string \<Rightarrow> string \<Rightarrow> bool" where
  "verifyWebhookSignature mac body signature secret =
     (let sig = strip_sha256 signature;
          expected = hex_encode (mac secret body)
      in case timingSafeEqual (hex_decode expected) (hex_decode sig) of
           None \<Rightarrow> False | Some eq \<Rightarrow> eq)"

definition verifySignature :: "mac \<Rightarrow> string \<Rightarrow> string \<Rightarrow> string \<Rightarrow> bool" where
  "verifySignature mac rawBody signature secret =
     (let expected = hex_encode (mac secret rawBody)
      in case timingSafeEqual (hex_decode signature) (hex_decode expected) of
           None \<Rightarrow> False | Some eq \<Rightarrow> eq)"

text \<open>\<^verbatim>\<open>s.replace(p, "")\<close> for a string \<open>p\<close>: the first occurrence.\<close>

fun remove_first :: "string \<Rightarrow> string \<Rightarrow> string" where
  "remove_first p [] = []"
| "remove_first p (c # s) =
     (if starts_with (c # s) p then drop (length p) (c # s) else c # remove_first p s)"

definition files_verifyWebhookSignature :: "mac \<Rightarrow> string \<Rightarrow> string \<Rightarrow> string \<Rightarrow> bool" where
  "files_verifyWebhookSignature mac rawBody signature secret =
     (hex_encode (mac secret rawBody) = remove_first ''sha256='' signature)"

subsection \<open>The console's route\<close>

text \<open>
  \<open>parse\<close> is \<^verbatim>\<open>JSON.parse\<close>; the handler reads \<^verbatim>\<open>event.type\<close>, which throws for null. No event type has
  an effect.
\<close>

definition webhook_route ::
    "mac \<Rightarrow> (string \<Rightarrow> json option) \<Rightarrow> string option \<Rightarrow> string \<Rightarrow> string option \<Rightarrow> route_result" where
  "webhook_route mac parse env_secret rawBody sig_header =
     (let signature = (case sig_header of None \<Rightarrow> [] | Some s \<Rightarrow> s);
          secret = (case env_secret of None \<Rightarrow> [] | Some s \<Rightarrow> s)
      in if secret = [] then Reply 500 (err_json ''Webhook secret not configured'')
         else if \<not> verifySignature mac rawBody signature secret
         then Reply 401 (err_json ''Invalid signature'')
         else case parse rawBody of
           None \<Rightarrow> Reply 400 (err_json ''Invalid JSON payload'')
         | Some JNull \<Rightarrow> Crash
         | Some event \<Rightarrow> Reply 200 (JObj [(''received'', JBool True)]))"

subsection \<open>Hexadecimal round trip\<close>

lemma hex_val_digit: "n < 16 \<Longrightarrow> hex_val (hex_digit n) = Some n"
  by (auto simp: hex_val_def hex_digit_def Let_def)

lemma unat_byte_less: "unat (b :: byte) < 256"
  using unsigned_less [of b, where 'a = nat] by simp

lemma hex_decode_encode_append:
  "hex_decode (hex_encode bs @ s) = bs @ hex_decode s"
proof (induction bs)
  case Nil
  then show ?case by (simp add: hex_encode_def)
next
  case (Cons b bs)
  have "unat b div 16 < 16" using unat_byte_less [of b] by simp
  moreover have "word_of_nat (unat b div 16 * 16 + unat b mod 16) = b"
    by (simp only: div_mult_mod_eq) simp
  ultimately show ?case
    using Cons by (simp add: hex_encode_def hex_val_digit mult.commute)
qed

lemma hex_decode_encode [simp]: "hex_decode (hex_encode bs) = bs"
  using hex_decode_encode_append [of bs "[]"] by simp

lemma hex_decode_bad_head: "hex_val c = None \<Longrightarrow> hex_decode (c # s) = []"
  by (cases s) auto

lemma hd_hex_encode: "bs \<noteq> [] \<Longrightarrow> hex_val (hd (hex_encode bs)) \<noteq> None"
proof -
  assume "bs \<noteq> []"
  then obtain b r where "bs = b # r" by (cases bs) auto
  moreover have "unat b div 16 < 16" using unat_byte_less [of b] by simp
  ultimately show ?thesis by (simp add: hex_encode_def hex_val_digit)
qed

lemma hex_encode_Nil_iff [simp]: "hex_encode bs = [] \<longleftrightarrow> bs = []"
  by (cases bs) (auto simp: hex_encode_def)

lemma timingSafeEqual_eq:
  "(case timingSafeEqual a b of None \<Rightarrow> False | Some eq \<Rightarrow> eq) \<longleftrightarrow> a = b"
  by (auto simp: timingSafeEqual_def)

subsection \<open>The contract of a verifier\<close>

text \<open>
  What a handler relies on: the signature is accepted exactly when, after an optional scheme prefix
  is taken off, it decodes to the MAC of the body. A signature that does not begin with the
  prefix's letter is taken as it is.
\<close>

locale hex_verifier =
  fixes verify :: "mac \<Rightarrow> string \<Rightarrow> string \<Rightarrow> string \<Rightarrow> bool"
    and strip :: "string \<Rightarrow> string"
  assumes verify_iff: "verify m body s secret \<longleftrightarrow> hex_decode (strip s) = m secret body"
    and strip_other: "s = [] \<or> hd s \<noteq> CHR ''s'' \<Longrightarrow> strip s = s"
begin

lemma hex_not_prefix: "hex_val c \<noteq> None \<Longrightarrow> c \<noteq> CHR ''s''"
  by (auto simp: hex_val_def Let_def)

lemma strip_digest: "strip (hex_encode bs) = hex_encode bs"
  using hd_hex_encode [of bs] hex_not_prefix by (intro strip_other) (auto simp: hex_encode_def)

lemma digest_accepted: "verify m body (hex_encode (m secret body)) secret"
  by (simp add: verify_iff strip_digest)

text \<open>Anything after the digest that is not a hexadecimal digit ends the decoding.\<close>

lemma digest_suffix_accepted:
  assumes "m secret body \<noteq> []" and "hex_val c = None"
  shows "verify m body (hex_encode (m secret body) @ c # junk) secret"
proof -
  have "hd (hex_encode (m secret body) @ c # junk) \<noteq> CHR ''s''"
    using assms(1) hd_hex_encode [of "m secret body"] hex_not_prefix by auto
  then have "strip (hex_encode (m secret body) @ c # junk) = hex_encode (m secret body) @ c # junk"
    by (intro strip_other) simp
  with assms(2) show ?thesis
    by (simp add: verify_iff hex_decode_encode_append hex_decode_bad_head)
qed

lemma timestamped_rejected:
  assumes "m secret body \<noteq> []"
  shows "\<not> verify m body (''t='' @ rest) secret"
proof -
  have "strip (''t='' @ rest) = ''t='' @ rest" by (intro strip_other) simp
  moreover have "hex_val (CHR ''t'') = None" by (simp add: hex_val_def)
  ultimately show ?thesis using assms by (simp add: verify_iff)
qed

lemma other_body_rejected:
  "verify m body s secret \<Longrightarrow> m secret body' \<noteq> m secret body \<Longrightarrow> \<not> verify m body' s secret"
  by (simp add: verify_iff)

end

lemma strip_sha256_other: "s = [] \<or> hd s \<noteq> CHR ''s'' \<Longrightarrow> strip_sha256 s = s"
  by (cases s) (auto simp: strip_sha256_def starts_with_def)

lemmas verifier_defs = webhook_verify_def verifyWebhookSignature_def verifySignature_def Let_def
  timingSafeEqual_eq

interpretation node: hex_verifier "\<lambda>m b. webhook_verify m (RawText b)" strip_sha256
  by unfold_locales (auto simp: verifier_defs strip_sha256_other)

interpretation node_buffer: hex_verifier "\<lambda>m b. webhook_verify m (RawBuffer b)" strip_sha256
  by unfold_locales (auto simp: verifier_defs strip_sha256_other)

interpretation nextjs: hex_verifier verifyWebhookSignature strip_sha256
  by unfold_locales (auto simp: verifier_defs strip_sha256_other)

interpretation console: hex_verifier verifySignature "\<lambda>s. s"
  by unfold_locales (auto simp: verifier_defs)

lemma remove_first_head: "c \<noteq> CHR ''s'' \<Longrightarrow> remove_first ''sha256='' (c # s) = c # remove_first ''sha256='' s"
  by (auto simp: starts_with_def)

subsection \<open>Properties\<close>

text \<open>
  C5: each timing-safe verifier accepts a signature exactly when it decodes, without the
  \<^verbatim>\<open>sha256=\<close> prefix where the prefix is known, to the MAC of the body under the secret; the hex
  digest itself is always accepted, and a signature accepted for one body is rejected for every
  body with another MAC.
\<close>

theorem verifiers_accept_iff_mac:
  "(webhook_verify m (RawText b) s k \<longleftrightarrow> hex_decode (strip_sha256 s) = m k b) \<and>
   (verifyWebhookSignature m b s k \<longleftrightarrow> hex_decode (strip_sha256 s) = m k b) \<and>
   (verifySignature m b s k \<longleftrightarrow> hex_decode s = m k b) \<and>
   webhook_verify m (RawBuffer b) (hex_encode (m k b)) k \<and>
   verifyWebhookSignature m b (hex_encode (m k b)) k \<and>
   verifySignature m b (hex_encode (m k b)) k"
  by (intro conjI node.verify_iff nextjs.verify_iff console.verify_iff node_buffer.digest_accepted
      nextjs.digest_accepted console.digest_accepted)

text \<open>
  No verifier accepts what the backend sends. The backend's header is
  \<^verbatim>\<open>t=<timestamp>,v1=<hex digest>\<close>; whatever follows the \<^verbatim>\<open>t=\<close>, all four verifiers reject it, for
  every body and secret (a MAC is never empty).
\<close>

lemma backend_header_rejected:
  assumes "m k b \<noteq> []"
  shows "\<not> webhook_verify m (RawText b) (''t='' @ rest) k \<and>
         \<not> webhook_verify m (RawBuffer b) (''t='' @ rest) k \<and>
         \<not> verifyWebhookSignature m b (''t='' @ rest) k \<and>
         \<not> verifySignature m b (''t='' @ rest) k \<and>
         \<not> files_verifyWebhookSignature m b (''t='' @ rest) k"
proof -
  have "hex_val (CHR ''t'') = None" by (simp add: hex_val_def)
  then have "hd (hex_encode (m k b)) \<noteq> CHR ''t''"
    using hd_hex_encode [OF assms] by auto
  then have "hex_encode (m k b) \<noteq> CHR ''t'' # remove_first ''sha256='' (CHR ''='' # rest)" by auto
  then have "\<not> files_verifyWebhookSignature m b (''t='' @ rest) k"
    by (simp add: files_verifyWebhookSignature_def remove_first_head del: remove_first.simps)
  then show ?thesis
    using node.timestamped_rejected [of m k b, OF assms] node_buffer.timestamped_rejected [of m k b, OF assms]
      nextjs.timestamped_rejected [of m k b, OF assms] console.timestamped_rejected [of m k b, OF assms]
    by blast
qed

lemma backend_header_rejected_witness:
  "\<not> verifySignature (\<lambda>k b. [1, 2, 3]) ''body'' (''t='' @ ''1700000000,v1=010203'') ''secret''"
  using backend_header_rejected [of "\<lambda>k b. [1, 2, 3]" "''secret''" "''body''"
      "''1700000000,v1=010203''"] by simp

text \<open>
  The timing-safe verifiers accept a valid digest followed by any text that does not begin
  with a hexadecimal digit, so an accepted signature is not unique; the string comparison in the
  files namespace accepts no such extension.
\<close>

lemma digest_extension_accepted:
  assumes "m k b \<noteq> []" and "hex_val c = None" and "c \<noteq> CHR ''s''"
  shows "webhook_verify m (RawText b) (hex_encode (m k b) @ c # junk) k \<and>
         verifyWebhookSignature m b (hex_encode (m k b) @ c # junk) k \<and>
         verifySignature m b (hex_encode (m k b) @ c # junk) k \<and>
         files_verifyWebhookSignature m b (hex_encode (m k b)) k"
proof -
  have "remove_first ''sha256='' (hex_encode bs) = hex_encode bs" for bs
  proof (induction bs)
    case (Cons b bs)
    have "hex_digit n \<noteq> CHR ''s''" if "n < 16" for n
      using hex_val_digit [OF that] by (auto simp: hex_val_def)
    moreover have "unat b div 16 < 16" using unat_byte_less [of b] by simp
    ultimately show ?case
      using Cons by (simp add: hex_encode_def remove_first_head del: remove_first.simps)
  qed (simp add: hex_encode_def)
  then show ?thesis
    using assms by (simp add: node.digest_suffix_accepted nextjs.digest_suffix_accepted
        console.digest_suffix_accepted files_verifyWebhookSignature_def)
qed

lemma digest_extension_accepted_witness:
  "verifySignature (\<lambda>k b. [255]) ''body'' (hex_encode [255] @ CHR ''-'' # ''anything'') ''secret''"
  using digest_extension_accepted [of "\<lambda>k b. [255]" "''secret''" "''body''" "CHR ''-''" "''anything''"]
  by (simp add: hex_val_def)

text \<open>
  C6: the console's webhook route answers 200 only when a secret is configured, the signature header
  decodes to the MAC of the raw body under it, and the body is JSON; without a secret it
  answers 500 whatever the request.
\<close>

theorem webhook_route_authenticates:
  "(case webhook_route m parse env body hdr of
      Reply st _ \<Rightarrow> st = 200 \<longleftrightarrow>
        (\<exists>secret s v. env = Some secret \<and> secret \<noteq> [] \<and> parse body = Some v \<and> v \<noteq> JNull \<and>
           hex_decode s = m secret body \<and> s = (case hdr of None \<Rightarrow> [] | Some h \<Rightarrow> h))
    | Crash \<Rightarrow> parse body = Some JNull) \<and>
   webhook_route m parse None body hdr = Reply 500 (err_json ''Webhook secret not configured'')"
  by (auto simp: webhook_route_def Let_def console.verify_iff split: option.splits json.splits)

end
