(* ===== verification/Item_Store.thy ===== *)
theory Item_Store
  imports Fn_Prelude
begin

text \<open>
  Lists of keyed items that the user interfaces keep in React state and change with
  \<^verbatim>\<open>prev.map(item => item.id === id ? { ...item, ...patch } : item)\<close>, and the interleaving of the
  updates that several running uploads make. The locale states what an update by key owes its
  callers; the lemmas that let the updates of different uploads be reordered are proved in it.
\<close>

subsection \<open>Interleavings of several sequences\<close>

text \<open>\<open>merges ts t\<close>: the sequence \<open>t\<close> takes the steps of the threads \<open>ts\<close>, each in its own order.\<close>

inductive merges :: "('k \<times> 'e list) list \<Rightarrow> ('k \<times> 'e) list \<Rightarrow> bool" where
  merges_done: "list_all (\<lambda>(k, es). es = []) ts \<Longrightarrow> merges ts []"
| merges_step: "merges (pre @ (k, es) # post) t \<Longrightarrow> merges (pre @ (k, e # es) # post) ((k, e) # t)"

inductive_cases merges_NilE: "merges ts []"

definition steps_of :: "'k \<Rightarrow> ('k \<times> 'e) list \<Rightarrow> 'e list" where
  "steps_of k t = map snd (filter (\<lambda>(k', e). k' = k) t)"

lemma steps_of_simps [simp]:
  "steps_of k [] = []"
  "steps_of k ((k', e) # t) = (if k' = k then e # steps_of k t else steps_of k t)"
  by (simp_all add: steps_of_def)

text \<open>In an interleaving of threads with distinct keys, every thread keeps its own steps.\<close>

lemma merges_steps_of:
  assumes "merges ts t" and "distinct (map fst ts)" and "(k, es) \<in> set ts"
  shows "steps_of k t = es"
  using assms
proof (induction arbitrary: es rule: merges.induct)
  case (merges_done ts)
  then show ?case by (auto simp: list_all_iff)
next
  case (merges_step pre k' es' post t e)
  show ?case
  proof (cases "k = k'")
    case True
    have "(k, e # es') \<in> set (pre @ (k', e # es') # post)" using True by simp
    with merges_step.prems have "es = e # es'" by (blast intro: eq_key_imp_eq_value)
    moreover have "steps_of k t = es'" using merges_step True by auto
    ultimately show ?thesis using True by simp
  next
    case False
    with merges_step show ?thesis by auto
  qed
qed

lemma merges_steps_of_other:
  assumes "merges ts t" and "k \<notin> fst ` set ts"
  shows "steps_of k t = []"
  using assms by (induction rule: merges.induct) auto

text \<open>There is an interleaving: the threads one after the other.\<close>

lemma merges_empty_thread: "merges ts t \<Longrightarrow> merges ((k, []) # ts) t"
proof (induction rule: merges.induct)
  case (merges_done ts)
  then show ?case by (intro merges.merges_done) simp
next
  case (merges_step pre k' es post t e)
  then show ?case using merges.merges_step [of "(k, []) # pre" k' es post t e] by simp
qed

lemma merges_exists: "\<exists>t. merges ts t"
proof (induction ts)
  case Nil
  show ?case by (intro exI [of _ "[]"] merges.merges_done) simp
next
  case (Cons x ts)
  obtain k es where x: "x = (k, es)" by (cases x)
  from Cons obtain t where "merges ts t" by blast
  then have "merges ((k, es) # ts) (map (Pair k) es @ t)"
  proof (induction es)
    case Nil
    then show ?case by (simp add: merges_empty_thread)
  next
    case (Cons e es)
    then show ?case using merges_step [of "[]" k es ts] by simp
  qed
  then show ?case unfolding x by blast
qed

subsection \<open>Update by key\<close>

locale item_store =
  fixes key :: "'i \<Rightarrow> string"
    and upd :: "string \<Rightarrow> 'p \<Rightarrow> 'i list \<Rightarrow> 'i list"
    and app :: "'p \<Rightarrow> 'i \<Rightarrow> 'i"
  assumes upd_map: "upd k p xs = map (\<lambda>x. if key x = k then app p x else x) xs"
    and key_app [simp]: "key (app p x) = key x"
begin

definition apply_all :: "(string \<times> 'p) list \<Rightarrow> 'i list \<Rightarrow> 'i list" where
  "apply_all us xs = fold (\<lambda>(k, p). upd k p) us xs"

definition app_all :: "'p list \<Rightarrow> 'i \<Rightarrow> 'i" where
  "app_all ps x = fold app ps x"

lemma keys_upd [simp]: "map key (upd k p xs) = map key xs"
  by (simp add: upd_map)

lemma upd_commute: "k \<noteq> k' \<Longrightarrow> upd k p (upd k' p' xs) = upd k' p' (upd k p xs)"
  by (simp add: upd_map)

lemma upd_absent: "k \<notin> key ` set xs \<Longrightarrow> upd k p xs = xs"
  unfolding upd_map by (intro map_idI) auto

lemma key_app_all [simp]: "key (app_all ps x) = key x"
  unfolding app_all_def by (induction ps arbitrary: x) simp_all

text \<open>What a sequence of updates leaves of an item depends on the updates with its key only.\<close>

lemma apply_all_map: "apply_all us xs = map (\<lambda>x. app_all (steps_of (key x) us) x) xs"
proof (induction us arbitrary: xs)
  case Nil
  show ?case by (simp add: apply_all_def app_all_def)
next
  case (Cons u us)
  obtain k p where u: "u = (k, p)" by (cases u)
  have "apply_all (u # us) xs = apply_all us (upd k p xs)" by (simp add: apply_all_def u)
  also have "\<dots> = map (\<lambda>x. app_all (steps_of (key x) us) x) (upd k p xs)" by (rule Cons)
  also have "\<dots> = map (\<lambda>x. app_all (steps_of (key x) (u # us)) x) xs"
    by (auto simp: upd_map u app_all_def)
  finally show ?case .
qed

lemma keys_apply_all [simp]: "map key (apply_all us xs) = map key xs"
  by (simp add: apply_all_map comp_def)

text \<open>Any two interleavings of the same threads leave the same items.\<close>

lemma interleaving_independent:
  assumes "merges ts t" and "merges ts t'" and "distinct (map fst ts)"
  shows "apply_all t xs = apply_all t' xs"
proof -
  have "steps_of k t = steps_of k t'" for k
  proof (cases "k \<in> fst ` set ts")
    case True
    then obtain es where "(k, es) \<in> set ts" by force
    with assms show ?thesis by (simp add: merges_steps_of)
  next
    case False
    with assms show ?thesis by (simp add: merges_steps_of_other)
  qed
  then show ?thesis by (simp add: apply_all_map)
qed

lemma apply_merged:
  assumes "merges ts t" and "distinct (map fst ts)"
  shows "apply_all t xs =
    map (\<lambda>x. case map_of ts (key x) of None \<Rightarrow> x | Some ps \<Rightarrow> app_all ps x) xs"
proof -
  have "app_all (steps_of (key x) t) x =
      (case map_of ts (key x) of None \<Rightarrow> x | Some ps \<Rightarrow> app_all ps x)" for x
  proof (cases "map_of ts (key x)")
    case None
    then have "steps_of (key x) t = []"
      using merges_steps_of_other [OF assms(1)] by (simp add: map_of_eq_None_iff)
    with None show ?thesis by (simp add: app_all_def)
  next
    case (Some ps)
    then have "steps_of (key x) t = ps"
      using merges_steps_of [OF assms] map_of_SomeD by fast
    with Some show ?thesis by simp
  qed
  then show ?thesis by (simp add: apply_all_map)
qed

end

end
