(* ===== verification/Console_Upload.thy ===== *)
theory Console_Upload
  imports Item_Store Chunking
begin

text \<open>
  The upload hook of the console (\<^verbatim>\<open>frontend/web/src/modules/client/files/hooks/useFileUpload.ts\<close>):
  the items, the three upload routines and the hook's operations. An upload routine is a
  computation whose events are its state patches and the calls it makes; the patches of the
  routines that \<^verbatim>\<open>startUpload\<close> runs at the same time reach the items in any interleaving.
\<close>

subsection \<open>Items\<close>

datatype upload_status = Queued | Uploading | Confirming | Done | Failed

record browser_file =
  bf_name :: string
  bf_type :: string
  bf_bytes :: "byte list"

text \<open>The text of a caught error: written by the code, or by the engine.\<close>

datatype err_text = Text string | EngineText

record upload_item =
  it_id :: string
  it_file :: browser_file
  it_status :: upload_status
  it_progress :: int
  it_fileId :: "json option"
  it_uploadId :: "json option"
  it_error :: "err_text option"
  it_isMultipart :: bool

text \<open>\<^verbatim>\<open>Partial<UploadItem>\<close>: the fields that the hook patches.\<close>

record item_patch =
  p_status :: "upload_status option"
  p_progress :: "int option"
  p_fileId :: "json option option"
  p_uploadId :: "json option option"
  p_error :: "err_text option"

definition no_patch :: item_patch where
  "no_patch = \<lparr>p_status = None, p_progress = None, p_fileId = None, p_uploadId = None, p_error = None\<rparr>"

definition or_old :: "'a option \<Rightarrow> 'a \<Rightarrow> 'a" where
  "or_old n d = (case n of None \<Rightarrow> d | Some x \<Rightarrow> x)"

definition apply_patch :: "item_patch \<Rightarrow> upload_item \<Rightarrow> upload_item" where
  "apply_patch p it = it\<lparr>
     it_status := or_old (p_status p) (it_status it),
     it_progress := or_old (p_progress p) (it_progress it),
     it_fileId := or_old (p_fileId p) (it_fileId it),
     it_uploadId := or_old (p_uploadId p) (it_uploadId it),
     it_error := (case p_error p of None \<Rightarrow> it_error it | e \<Rightarrow> e)\<rparr>"

definition updateItem :: "string \<Rightarrow> item_patch \<Rightarrow> upload_item list \<Rightarrow> upload_item list" where
  "updateItem k p items = map (\<lambda>it. if it_id it = k then apply_patch p it else it) items"

text \<open>\<open>ids\<close> are the values of \<^verbatim>\<open>crypto.randomUUID()\<close>, one for each file.\<close>

definition new_item :: "string \<Rightarrow> browser_file \<Rightarrow> upload_item" where
  "new_item k f = \<lparr>it_id = k, it_file = f, it_status = Queued, it_progress = 0,
     it_fileId = Some JNull, it_uploadId = Some JNull, it_error = None,
     it_isMultipart = (MULTIPART_THRESHOLD \<le> length (bf_bytes f))\<rparr>"

definition addFiles :: "string list \<Rightarrow> browser_file list \<Rightarrow> upload_item list \<Rightarrow> upload_item list" where
  "addFiles ids files items = items @ map2 new_item ids files"

definition removeFile :: "string \<Rightarrow> upload_item list \<Rightarrow> upload_item list" where
  "removeFile k items = filter (\<lambda>it. it_id it \<noteq> k) items"

definition clearAll :: "upload_item list \<Rightarrow> upload_item list" where
  "clearAll items = []"

definition isUploading :: "upload_item list \<Rightarrow> bool" where
  "isUploading items = list_ex (\<lambda>it. it_status it = Uploading \<or> it_status it = Confirming) items"

definition allDone :: "upload_item list \<Rightarrow> bool" where
  "allDone items =
     (items \<noteq> [] \<and> list_all (\<lambda>it. it_status it = Done \<or> it_status it = Failed) items)"

definition hasQueued :: "upload_item list \<Rightarrow> bool" where
  "hasQueued items = list_ex (\<lambda>it. it_status it = Queued) items"

subsection \<open>Events of an upload\<close>

datatype form_value = FormFile browser_file | FormText string | FormJson json

text \<open>
  A patch of the item; a server action with its payload; a PUT to storage by XHR (URL, body,
  content type); a POST of a form to the console's own upload route.
\<close>

datatype up_event =
    Patch item_patch
  | Action string json
  | XhrPut string "byte list" string
  | PostForm string "(string \<times> form_value) list"

text \<open>
  How an XHR ends: a response with its status, \<^verbatim>\<open>ETag\<close> header and text; a network error; a timeout.
  Before it ends it has fired progress events, each with \<^verbatim>\<open>loaded\<close> and \<^verbatim>\<open>total\<close>; the length is
  computable when the total is not 0.
\<close>

datatype xhr_end = Loaded nat "string option" string | XhrError | XhrTimeout

text \<open>A thrown value: an \<^verbatim>\<open>Error\<close> with its text, or anything else.\<close>

datatype up_exn = ErrorObj err_text | OtherThrown

datatype up_reply =
    ActionResult "json option" "json option"
  | Xhr "(nat \<times> nat) list" xhr_end
  | HttpReply nat "json option"
  | Rejects up_exn

type_synonym 'a up = "(up_event, up_reply, up_exn, 'a) io"

definition emitPatch :: "item_patch \<Rightarrow> unit up" where
  "emitPatch p = emit (Patch p)"

text \<open>\<^verbatim>\<open>await someAction({ payload })\<close>: the pair of data and error, or a rejection.\<close>

definition action :: "string \<Rightarrow> json \<Rightarrow> (json option \<times> json option) up" where
  "action name payload = andThen (ask (Action name payload)) (\<lambda>r. case r of
     ActionResult d e \<Rightarrow> ret (d, e) | Rejects x \<Rightarrow> throw x | _ \<Rightarrow> throw (ErrorObj EngineText))"

text \<open>\<^verbatim>\<open>err?.message ?? d\<close>.\<close>

definition message_or :: "json option \<Rightarrow> string \<Rightarrow> string" where
  "message_or e d = (case e of None \<Rightarrow> d | Some j \<Rightarrow>
     (case jget j ''message'' of None \<Rightarrow> d | Some JNull \<Rightarrow> d | Some v \<Rightarrow> js_string v))"

definition fail :: "string \<Rightarrow> 'a up" where
  "fail m = throw (ErrorObj (Text m))"

subsection \<open>The storage PUT\<close>

text \<open>\<^verbatim>\<open>raw.replace(/^"|"$/g, "")\<close>.\<close>

definition strip_quotes :: "string \<Rightarrow> string" where
  "strip_quotes s = strip_suffix_char (CHR 0x22)
     (case s of c # r \<Rightarrow> if c = CHR 0x22 then r else s | [] \<Rightarrow> [])"

definition etag_of :: "string option \<Rightarrow> string option" where
  "etag_of h = (case h of None \<Rightarrow> None
     | Some raw \<Rightarrow> if raw = [] then None else Some (strip_quotes raw))"

fun report_all :: "(nat \<Rightarrow> item_patch) \<Rightarrow> (nat \<times> nat) list \<Rightarrow> unit up" where
  "report_all onp [] = ret ()"
| "report_all onp ((loaded, tot) # evs) =
     (if tot \<noteq> 0
      then andThen (emitPatch (onp (round_pct loaded tot))) (\<lambda>_. report_all onp evs)
      else report_all onp evs)"

definition xhrPut :: "string \<Rightarrow> byte list \<Rightarrow> string \<Rightarrow> (nat \<Rightarrow> item_patch) \<Rightarrow> string option up" where
  "xhrPut u body ctype onp = andThen (ask (XhrPut u body ctype)) (\<lambda>r. case r of
     Xhr evs fin \<Rightarrow> andThen (report_all onp evs) (\<lambda>_. case fin of
         Loaded st etag txt \<Rightarrow>
           if 200 \<le> st \<and> st < 300 then ret (etag_of etag)
           else fail (''S3 PUT failed: '' @ show_nat st @
                      '' '' @ [CHR 0xE2, CHR 0x80, CHR 0x94] @ '' '' @ txt)
       | XhrError \<Rightarrow> fail ''Network error during S3 PUT''
       | XhrTimeout \<Rightarrow> fail ''Upload timed out'')
   | Rejects x \<Rightarrow> throw x | _ \<Rightarrow> throw (ErrorObj EngineText))"

subsection \<open>The three upload routines\<close>

datatype upload_mode = Presigned | Server

record upload_config =
  uc_projectId :: string
  uc_uploadMode :: upload_mode
  uc_folderId :: "string option"
  uc_tags :: "string list option"
  uc_metadata :: "json option"

definition file_type :: "browser_file \<Rightarrow> string" where
  "file_type f = (if bf_type f = [] then ''application/octet-stream'' else bf_type f)"

text \<open>\<^verbatim>\<open>config.folderId ? ... : ...\<close>.\<close>

definition folder_set :: "upload_config \<Rightarrow> string option" where
  "folder_set cfg = (case uc_folderId cfg of Some (c # f) \<Rightarrow> Some (c # f) | _ \<Rightarrow> None)"

definition tags_json :: "upload_config \<Rightarrow> json" where
  "tags_json cfg = JArr (case uc_tags cfg of None \<Rightarrow> [] | Some ts \<Rightarrow> map JStr ts)"

definition init_payload :: "string \<Rightarrow> browser_file \<Rightarrow> upload_config \<Rightarrow> json" where
  "init_payload size_key f cfg = jobj
     [(''projectId'', Some (JStr (uc_projectId cfg))), (''filename'', Some (JStr (bf_name f))),
      (''content_type'', Some (JStr (file_type f))),
      (size_key, Some (JInt (int (length (bf_bytes f))))),
      (''folder_id'', map_option JStr (folder_set cfg)),
      (''tags'', Some (tags_json cfg)), (''metadata'', Some (nullish_or (uc_metadata cfg) (JObj [])))]"

definition failure_patch :: "up_exn \<Rightarrow> item_patch" where
  "failure_patch x = no_patch\<lparr>p_status := Some Failed,
     p_error := Some (case x of ErrorObj t \<Rightarrow> t | OtherThrown \<Rightarrow> Text ''Upload failed'')\<rparr>"

definition progress_patch :: "nat \<Rightarrow> item_patch" where
  "progress_patch pct = no_patch\<lparr>p_progress := Some (int pct)\<rparr>"

definition the_field :: "json option \<Rightarrow> string \<Rightarrow> json option" where
  "the_field v k = (case v of None \<Rightarrow> None | Some j \<Rightarrow> jget j k)"

definition single_body :: "upload_item \<Rightarrow> upload_config \<Rightarrow> unit up" where
  "single_body item cfg =
     andThen (emitPatch (no_patch\<lparr>p_status := Some Uploading, p_progress := Some 0\<rparr>)) (\<lambda>_.
     andThen (action ''initiateUpload'' (init_payload ''size_bytes'' (it_file item) cfg)) (\<lambda>(init, initErr).
     if truthy initErr \<or> \<not> truthy init then fail (message_or initErr ''Failed to initiate upload'')
     else
     andThen (emitPatch (no_patch\<lparr>p_fileId := Some (the_field init ''file_id'')\<rparr>)) (\<lambda>_.
     andThen (xhrPut (interp (the_field init ''upload_url'')) (bf_bytes (it_file item))
        (file_type (it_file item)) progress_patch) (\<lambda>_.
     andThen (emitPatch (no_patch\<lparr>p_status := Some Confirming, p_progress := Some 100\<rparr>)) (\<lambda>_.
     andThen (action ''confirmUpload'' (jobj [(''projectId'', Some (JStr (uc_projectId cfg))),
         (''fileId'', the_field init ''file_id'')])) (\<lambda>(confirmed, confirmErr).
     if truthy confirmErr then fail (message_or confirmErr ''Failed to confirm upload'')
     else emitPatch (no_patch\<lparr>p_status := Some Done\<rparr>)))))))"

definition uploadSingle :: "upload_item \<Rightarrow> upload_config \<Rightarrow> unit up" where
  "uploadSingle item cfg = catching (single_body item cfg) (\<lambda>x. emitPatch (failure_patch x))"

text \<open>\<^verbatim>\<open>Math.round((pct / 100) * (100 / chunkCount))\<close>, in exact arithmetic.\<close>

definition part_share :: "nat \<Rightarrow> nat \<Rightarrow> nat" where
  "part_share pct chunkCount = (2 * pct + chunkCount) div (2 * chunkCount)"

definition overall_patch :: "nat \<Rightarrow> nat \<Rightarrow> nat \<Rightarrow> item_patch" where
  "overall_patch i chunkCount pct =
     progress_patch (min (round_pct i chunkCount + part_share pct chunkCount) 99)"

definition upload_chunk ::
    "upload_item \<Rightarrow> upload_config \<Rightarrow> json option \<Rightarrow> nat \<Rightarrow> nat \<Rightarrow> (nat \<times> string) up" where
  "upload_chunk item cfg uploadId chunkCount i =
     andThen (action ''getPartUrl'' (jobj [(''projectId'', Some (JStr (uc_projectId cfg))),
        (''uploadId'', uploadId), (''part'', Some (JInt (int (i + 1))))])) (\<lambda>(partData, partErr).
     if truthy partErr \<or> \<not> truthy partData
     then fail (message_or partErr (''Failed to get URL for part '' @ show_nat (i + 1)))
     else
     andThen (xhrPut (interp (the_field partData ''url''))
        (console_chunk CHUNK_SIZE (bf_bytes (it_file item)) i)
        (file_type (it_file item)) (overall_patch i chunkCount)) (\<lambda>etag.
     case etag of
       Some (c # e) \<Rightarrow> ret (i + 1, c # e)
     | _ \<Rightarrow> fail (''Part '' @ show_nat (i + 1) @ '' upload succeeded but ETag was missing. '' @
             ''Ensure the S3 bucket CORS policy includes ExposeHeaders: ['' @
             [CHR 0x22] @ ''ETag'' @ [CHR 0x22] @ ''].'')))"

fun upload_chunks ::
    "upload_item \<Rightarrow> upload_config \<Rightarrow> json option \<Rightarrow> nat \<Rightarrow> nat list \<Rightarrow> (nat \<times> string) list \<Rightarrow>
     (nat \<times> string) list up" where
  "upload_chunks item cfg uploadId n [] parts = ret parts"
| "upload_chunks item cfg uploadId n (i # is) parts =
     andThen (upload_chunk item cfg uploadId n i)
       (\<lambda>p. upload_chunks item cfg uploadId n is (parts @ [p]))"

definition completed_json :: "(nat \<times> string) list \<Rightarrow> json" where
  "completed_json parts = JArr (map (\<lambda>(n, e).
     JObj [(''part_number'', JInt (int n)), (''etag'', JStr e)]) parts)"

text \<open>
  The part of \<^verbatim>\<open>uploadMultipart\<close> before the session id is known, and the part after it, which the
  handler aborts on an error.
\<close>

definition start_session :: "upload_item \<Rightarrow> upload_config \<Rightarrow> json option up" where
  "start_session item cfg =
     andThen (emitPatch (no_patch\<lparr>p_status := Some Uploading, p_progress := Some 0\<rparr>)) (\<lambda>_.
     andThen (action ''initiateMultipart'' (init_payload ''total_size_bytes'' (it_file item) cfg))
       (\<lambda>(start, startErr).
     if truthy startErr \<or> \<not> truthy start
     then fail (message_or startErr ''Failed to start multipart upload'')
     else andThen (emitPatch (no_patch\<lparr>p_uploadId := Some (the_field start ''upload_id''),
         p_fileId := Some (the_field start ''file_id'')\<rparr>))
       (\<lambda>_. ret (the_field start ''upload_id''))))"

definition transfer :: "upload_item \<Rightarrow> upload_config \<Rightarrow> json option \<Rightarrow> unit up" where
  "transfer item cfg uploadId =
     (let chunkCount = totalChunks_of (length (bf_bytes (it_file item))) in
     andThen (upload_chunks item cfg uploadId chunkCount [0..<chunkCount] []) (\<lambda>completedParts.
     andThen (emitPatch (no_patch\<lparr>p_status := Some Confirming, p_progress := Some 99\<rparr>)) (\<lambda>_.
     andThen (action ''completeMultipart'' (jobj [(''projectId'', Some (JStr (uc_projectId cfg))),
        (''uploadId'', uploadId), (''parts'', Some (completed_json completedParts))]))
        (\<lambda>(completed, completeErr).
     if truthy completeErr
     then fail (message_or completeErr ''Failed to complete multipart upload'')
     else emitPatch (no_patch\<lparr>p_status := Some Done, p_progress := Some 100\<rparr>)))))"

definition abort_payload :: "upload_config \<Rightarrow> json option \<Rightarrow> json" where
  "abort_payload cfg uploadId =
     jobj [(''projectId'', Some (JStr (uc_projectId cfg))), (''uploadId'', uploadId)]"

definition abort_and_fail :: "upload_config \<Rightarrow> json option \<Rightarrow> up_exn \<Rightarrow> unit up" where
  "abort_and_fail cfg uploadId x =
     (if truthy uploadId
      then andThen (ask (Action ''abortMultipart'' (abort_payload cfg uploadId)))
        (\<lambda>_. emitPatch (failure_patch x))
      else emitPatch (failure_patch x))"

text \<open>The variable \<^verbatim>\<open>uploadId\<close> is null in the handler unless the session has started.\<close>

definition uploadMultipart :: "upload_item \<Rightarrow> upload_config \<Rightarrow> unit up" where
  "uploadMultipart item cfg =
     handling (start_session item cfg) (abort_and_fail cfg (Some JNull))
       (\<lambda>uploadId. catching (transfer item cfg uploadId) (abort_and_fail cfg uploadId))"

definition server_form :: "browser_file \<Rightarrow> upload_config \<Rightarrow> (string \<times> form_value) list" where
  "server_form f cfg = [(''file'', FormFile f), (''projectId'', FormText (uc_projectId cfg))] @
     (case folder_set cfg of None \<Rightarrow> [] | Some d \<Rightarrow> [(''folderId'', FormText d)]) @
     [(''tags'', FormJson (tags_json cfg)),
      (''metadata'', FormJson (nullish_or (uc_metadata cfg) (JObj [])))]"

text \<open>\<open>HttpReply st j\<close>: the JSON body is \<open>None\<close> when it does not parse.\<close>

definition server_body :: "upload_item \<Rightarrow> upload_config \<Rightarrow> unit up" where
  "server_body item cfg =
     andThen (emitPatch (no_patch\<lparr>p_status := Some Uploading, p_progress := Some (- 1)\<rparr>)) (\<lambda>_.
     andThen (ask (PostForm ''/api/upload'' (server_form (it_file item) cfg))) (\<lambda>r. case r of
       HttpReply st j \<Rightarrow>
         if \<not> (200 \<le> st \<and> st < 300) then
           (case j of
              Some JNull \<Rightarrow> throw (ErrorObj EngineText)
            | _ \<Rightarrow> fail (case the_field j ''error'' of
                 None \<Rightarrow> ''Server upload failed: '' @ show_nat st
               | Some JNull \<Rightarrow> ''Server upload failed: '' @ show_nat st
               | Some e \<Rightarrow> js_string e))
         else (case j of None \<Rightarrow> throw (ErrorObj EngineText)
               | Some _ \<Rightarrow> emitPatch (no_patch\<lparr>p_status := Some Done, p_progress := Some 100\<rparr>))
     | Rejects x \<Rightarrow> throw x | _ \<Rightarrow> throw (ErrorObj EngineText)))"

definition uploadServerSide :: "upload_item \<Rightarrow> upload_config \<Rightarrow> unit up" where
  "uploadServerSide item cfg = catching (server_body item cfg) (\<lambda>x. emitPatch (failure_patch x))"

text \<open>The routine that \<^verbatim>\<open>startUpload\<close> picks for a queued item.\<close>

definition upload_routine :: "upload_config \<Rightarrow> upload_item \<Rightarrow> unit up" where
  "upload_routine cfg item = (case uc_uploadMode cfg of
     Server \<Rightarrow> uploadServerSide item cfg
   | Presigned \<Rightarrow> if it_isMultipart item then uploadMultipart item cfg else uploadSingle item cfg)"

definition queued_items :: "upload_item list \<Rightarrow> upload_item list" where
  "queued_items items = filter (\<lambda>it. it_status it = Queued) items"

fun patch_of :: "up_event \<Rightarrow> item_patch option" where
  "patch_of (Patch p) = Some p"
| "patch_of _ = None"

definition patches :: "up_event list \<Rightarrow> item_patch list" where
  "patches es = concat (map (\<lambda>e. case patch_of e of None \<Rightarrow> [] | Some p \<Rightarrow> [p]) es)"

text \<open>
  The updates that \<^verbatim>\<open>startUpload\<close> sets going: one thread for each queued item, in the world \<open>w k\<close> that
  answers the calls of item \<open>k\<close>.
\<close>

definition startUpload ::
    "upload_config \<Rightarrow> (string \<Rightarrow> (up_event, up_reply) world) \<Rightarrow> upload_item list \<Rightarrow>
     (string \<times> item_patch list) list" where
  "startUpload cfg w items = map (\<lambda>it. (it_id it,
     patches (snd (run (upload_routine cfg it) (w (it_id it)))))) (queued_items items)"

subsection \<open>The order of statuses\<close>

fun status_rank :: "upload_status \<Rightarrow> nat" where
  "status_rank Queued = 0"
| "status_rank Uploading = 1"
| "status_rank Confirming = 2"
| "status_rank Done = 3"
| "status_rank Failed = 4"

lemma status_rank_inj: "status_rank a = status_rank b \<Longrightarrow> a = b"
  by (cases a; cases b) simp_all

instantiation upload_status :: linorder
begin

definition less_eq_upload_status :: "upload_status \<Rightarrow> upload_status \<Rightarrow> bool" where
  "less_eq_upload_status a b = (status_rank a \<le> status_rank b)"

definition less_upload_status :: "upload_status \<Rightarrow> upload_status \<Rightarrow> bool" where
  "less_upload_status a b = (status_rank a < status_rank b)"

instance
  by standard (auto simp: less_eq_upload_status_def less_upload_status_def intro: status_rank_inj)

end

subsection \<open>What a run shows: statuses, bytes, sessions, aborts\<close>

fun event_status :: "up_event \<Rightarrow> upload_status list" where
  "event_status (Patch p) = (case p_status p of None \<Rightarrow> [] | Some s \<Rightarrow> [s])"
| "event_status _ = []"

fun event_put :: "up_event \<Rightarrow> byte list list" where
  "event_put (XhrPut u b t) = [b]"
| "event_put _ = []"

fun event_session :: "up_event \<Rightarrow> json option list" where
  "event_session (Patch p) = (case p_uploadId p of None \<Rightarrow> [] | Some u \<Rightarrow> [u])"
| "event_session _ = []"

fun event_abort :: "up_event \<Rightarrow> json list" where
  "event_abort (Action n j) = (if n = ''abortMultipart'' then [j] else [])"
| "event_abort _ = []"

definition statuses :: "up_event list \<Rightarrow> upload_status list" where
  "statuses es = concat (map event_status es)"

definition puts :: "up_event list \<Rightarrow> byte list list" where
  "puts es = concat (map event_put es)"

definition sessions :: "up_event list \<Rightarrow> json option list" where
  "sessions es = concat (map event_session es)"

definition aborts :: "up_event list \<Rightarrow> json list" where
  "aborts es = concat (map event_abort es)"

lemma patches_simps [simp]:
  "patches [] = []"
  "patches (e # es) = (case patch_of e of None \<Rightarrow> [] | Some p \<Rightarrow> [p]) @ patches es"
  "patches (es @ fs) = patches es @ patches fs"
  by (simp_all add: patches_def)

lemma trace_simps [simp]:
  "statuses [] = []" "statuses (e # es) = event_status e @ statuses es"
  "statuses (es @ fs) = statuses es @ statuses fs"
  "puts [] = []" "puts (e # es) = event_put e @ puts es" "puts (es @ fs) = puts es @ puts fs"
  "sessions [] = []" "sessions (e # es) = event_session e @ sessions es"
  "sessions (es @ fs) = sessions es @ sessions fs"
  "aborts [] = []" "aborts (e # es) = event_abort e @ aborts es"
  "aborts (es @ fs) = aborts es @ aborts fs"
  by (simp_all add: statuses_def puts_def sessions_def aborts_def)

text \<open>A patch sets an error exactly when it sets the status \<open>Failed\<close>; progress stays in its range.\<close>

definition error_paired :: "item_patch \<Rightarrow> bool" where
  "error_paired p = (p_status p = Some Failed \<longleftrightarrow> p_error p \<noteq> None)"

definition progress_ok :: "item_patch \<Rightarrow> bool" where
  "progress_ok p = (case p_progress p of None \<Rightarrow> True | Some n \<Rightarrow> - 1 \<le> n \<and> n \<le> 100)"

text \<open>A world whose progress events never report more bytes than there are.\<close>

definition honest :: "(up_event, up_reply) world \<Rightarrow> bool" where
  "honest w = (\<forall>h. case w h of Xhr evs fin \<Rightarrow> list_all (\<lambda>(loaded, tot). loaded \<le> tot) evs | _ \<Rightarrow> True)"

definition event_ok :: "(up_event, up_reply) world \<Rightarrow> up_event \<Rightarrow> bool" where
  "event_ok w e = (case patch_of e of None \<Rightarrow> True
     | Some p \<Rightarrow> error_paired p \<and> (honest w \<longrightarrow> progress_ok p))"

definition patches_ok :: "(up_event, up_reply) world \<Rightarrow> up_event list \<Rightarrow> bool" where
  "patches_ok w es = list_all (event_ok w) es"

lemma patches_ok_simps [simp]:
  "patches_ok w []"
  "patches_ok w (e # es) \<longleftrightarrow> event_ok w e \<and> patches_ok w es"
  "patches_ok w (es @ fs) \<longleftrightarrow> patches_ok w es \<and> patches_ok w fs"
  "event_ok w (Action n j)" "event_ok w (XhrPut u b t)" "event_ok w (PostForm s fm)"
  by (auto simp: patches_ok_def event_ok_def)

lemma event_ok_Patch:
  "event_ok w (Patch p) \<longleftrightarrow> error_paired p \<and> (honest w \<longrightarrow> progress_ok p)"
  by (simp add: event_ok_def)

lemma patches_okD:
  "patches_ok w es \<Longrightarrow> list_all error_paired (patches es) \<and>
     (honest w \<longrightarrow> list_all progress_ok (patches es))"
  by (induction es) (auto simp: event_ok_def split: option.splits)

text \<open>Events in the middle of a transfer: no status, no session, no abort.\<close>

definition inner :: "(up_event, up_reply) world \<Rightarrow> up_event list \<Rightarrow> bool" where
  "inner w es = (statuses es = [] \<and> sessions es = [] \<and> aborts es = [] \<and> patches_ok w es)"

lemma inner_simps [simp]:
  "inner w []" "inner w (es @ fs) \<longleftrightarrow> inner w es \<and> inner w fs"
  by (auto simp: inner_def)

lemmas patch_defs = no_patch_def error_paired_def progress_ok_def event_ok_Patch

subsection \<open>The routines\<close>

lemma report_all_yields:
  assumes "honest w \<Longrightarrow> list_all (\<lambda>(loaded, tot). loaded \<le> tot) evs"
    and "\<And>l t. 0 < t \<Longrightarrow> (honest w \<Longrightarrow> l \<le> t) \<Longrightarrow> inner w [Patch (onp (round_pct l t))]"
  shows "yields w (report_all onp evs) (\<lambda>r es. r = Inr () \<and> inner w es \<and> puts es = [])"
  using assms(1)
proof (induction evs)
  case Nil
  then show ?case by (simp add: yields_ret)
next
  case (Cons e evs)
  obtain l t where e: "e = (l, t)" by (cases e)
  have IH: "yields w (report_all onp evs) (\<lambda>r es. r = Inr () \<and> inner w es \<and> puts es = [])"
    using Cons by simp
  show ?case
  proof (cases "t = 0")
    case True
    with IH e show ?thesis by simp
  next
    case False
    with Cons.prems e have "inner w [Patch (onp (round_pct l t))]" by (intro assms(2)) auto
    then have "yields w (emitPatch (onp (round_pct l t)))
        (\<lambda>r es. r = Inr () \<and> inner w es \<and> puts es = [])"
      unfolding emitPatch_def by (intro yields_emit) simp
    from yields_andThen [OF this, of "\<lambda>r es. r = Inr () \<and> inner w es \<and> puts es = []"] IH
    show ?thesis unfolding e using False by (simp add: yields_weaken)
  qed
qed

text \<open>Continuing a computation whose events are known to be inner ones.\<close>

abbreviation calm :: "(up_event, up_reply) world \<Rightarrow> byte list list \<Rightarrow> up_event list \<Rightarrow> bool" where
  "calm w bs es \<equiv> inner w es \<and> puts es = bs"

lemma xhrPut_yields:
  assumes "\<And>l t. 0 < t \<Longrightarrow> (honest w \<Longrightarrow> l \<le> t) \<Longrightarrow> inner w [Patch (onp (round_pct l t))]"
  shows "yields w (xhrPut u b t onp) (\<lambda>r es. calm w [b] es)"
  unfolding xhrPut_def
proof (rule yields_andThen [OF yields_ask [where Q = "\<lambda>r es. es = [XhrPut u b t] \<and>
    (\<exists>rep. r = Inr rep \<and> (\<exists>h. rep = w h))"]])
  fix rep es
  assume "es = [XhrPut u b t] \<and> (\<exists>rep'. Inr rep = (Inr rep' :: up_exn + up_reply) \<and> (\<exists>h. rep' = w h))"
  then obtain h where es: "es = [XhrPut u b t]" and rep: "rep = w h" by auto
  have base: "calm w [b] es" using es by (simp add: inner_def)
  show "yields w (case rep of
       Xhr evs fin \<Rightarrow> andThen (report_all onp evs) (\<lambda>_. case fin of
         Loaded st etag txt \<Rightarrow>
           if 200 \<le> st \<and> st < 300 then ret (etag_of etag)
           else fail (''S3 PUT failed: '' @ show_nat st @
                      '' '' @ [CHR 0xE2, CHR 0x80, CHR 0x94] @ '' '' @ txt)
       | XhrError \<Rightarrow> fail ''Network error during S3 PUT''
       | XhrTimeout \<Rightarrow> fail ''Upload timed out'')
     | Rejects x \<Rightarrow> throw x | _ \<Rightarrow> throw (ErrorObj EngineText))
     (\<lambda>r fs. calm w [b] (es @ fs))"
  proof (cases rep)
    case (Xhr evs fin)
    have "honest w \<Longrightarrow> list_all (\<lambda>(loaded, tot). loaded \<le> tot) evs"
      using Xhr rep by (auto simp: honest_def dest: spec [of _ h] split: up_reply.splits)
    then have r: "yields w (report_all onp evs) (\<lambda>r es. r = Inr () \<and> calm w [] es)"
      by (rule report_all_yields) (assumption, erule assms)
    show ?thesis unfolding Xhr up_reply.case
      by (rule yields_andThen [OF r])
        (use base in \<open>auto simp: fail_def intro!: yields_ret yields_throw split: xhr_end.splits\<close>)
  qed (use base in \<open>auto intro!: yields_throw\<close>)
qed auto

lemma action_yields:
  "name \<noteq> ''abortMultipart'' \<Longrightarrow> yields w (action name payload) (\<lambda>r es. calm w [] es)"
  unfolding action_def
  by (rule yields_andThen [OF yields_ask [where Q = "\<lambda>r es. calm w [] es"]])
    (auto simp: inner_def intro!: yields_ret yields_throw split: up_reply.splits)

lemma progress_patch_inner:
  "(honest w \<Longrightarrow> n \<le> 100) \<Longrightarrow> inner w [Patch (progress_patch n)]"
  by (auto simp: inner_def progress_patch_def patch_defs)

lemma overall_patch_inner: "inner w [Patch (overall_patch i n pct)]"
  unfolding overall_patch_def by (rule progress_patch_inner) simp

lemma upload_chunk_yields:
  "yields w (upload_chunk item cfg u n i) (\<lambda>r es. inner w es \<and>
     (case r of Inl x \<Rightarrow> True | Inr (k, e) \<Rightarrow> k = i + 1 \<and> e \<noteq> [] \<and>
        puts es = [console_chunk CHUNK_SIZE (bf_bytes (it_file item)) i]))"
  unfolding upload_chunk_def
proof (rule yields_andThen [OF action_yields], goal_cases)
  case (3 a es)
  obtain d e where a: "a = (d, e)" by (cases a)
  show ?case
  proof (cases "truthy e \<or> \<not> truthy d")
    case True
    with 3 show ?thesis by (auto simp: a fail_def intro!: yields_throw)
  next
    case False
    have x: "yields w (xhrPut (interp (the_field d ''url''))
        (console_chunk CHUNK_SIZE (bf_bytes (it_file item)) i) (file_type (it_file item))
        (overall_patch i n))
        (\<lambda>r es. calm w [console_chunk CHUNK_SIZE (bf_bytes (it_file item)) i] es)"
      by (rule xhrPut_yields) (rule overall_patch_inner)
    show ?thesis unfolding a prod.case using False
      by (simp only: if_False, intro yields_andThen [OF x])
        (use 3 in \<open>auto simp: fail_def intro!: yields_ret yields_throw split: option.splits list.splits\<close>)
  qed
qed auto

lemma upload_chunks_yields:
  "yields w (upload_chunks item cfg u n is acc) (\<lambda>r es. inner w es \<and>
     (case r of Inl x \<Rightarrow> True | Inr parts \<Rightarrow> map fst parts = map fst acc @ map Suc is \<and>
        puts es = map (console_chunk CHUNK_SIZE (bf_bytes (it_file item))) is))"
proof (induction "is" arbitrary: acc)
  case Nil
  then show ?case by (simp add: yields_ret)
next
  case (Cons i "is")
  show ?case unfolding upload_chunks.simps
  proof (rule yields_andThen [OF upload_chunk_yields], goal_cases)
    case (2 p es)
    show ?case
      by (rule yields_weaken [OF Cons.IH]) (use 2 in \<open>auto split: sum.splits prod.splits\<close>)
  qed simp
qed

lemma emitPatch_yields: "yields w (emitPatch p) (\<lambda>r es. r = Inr () \<and> es = [Patch p])"
  unfolding emitPatch_def by (rule yields_emit) simp

lemma failure_patch_trace [simp]:
  "p_status (failure_patch x) = Some Failed"
  "p_uploadId (failure_patch x) = None"
  "event_ok w (Patch (failure_patch x))"
  by (simp_all add: failure_patch_def patch_defs)

lemma start_session_yields:
  "yields w (start_session item cfg) (\<lambda>r es. patches_ok w es \<and> statuses es = [Uploading] \<and>
     puts es = [] \<and> aborts es = [] \<and>
     sessions es = (case r of Inl x \<Rightarrow> [] | Inr u \<Rightarrow> [u]))"
  unfolding start_session_def
proof (rule yields_andThen [OF emitPatch_yields], simp, rule yields_andThen [OF action_yields], goal_cases)
  case (3 a b c d)
  obtain st e where d: "c = (st, e)" by (cases c)
  show ?case
  proof (cases "truthy e \<or> \<not> truthy st")
    case True
    with 3 show ?thesis
      by (auto simp: d fail_def inner_def patch_defs intro!: yields_throw)
  next
    case False
    then show ?thesis unfolding d prod.case
      by (simp only: if_False, intro yields_andThen [OF emitPatch_yields])
        (use 3 in \<open>auto simp: inner_def patch_defs intro!: yields_ret\<close>)
  qed
qed (auto simp: inner_def patch_defs)

lemma concat_console_chunks:
  "concat (map (console_chunk CHUNK_SIZE xs) [0..<totalChunks_of (length xs)]) = xs"
  by (simp add: totalChunks_of_def console.concat_chunks)

lemma transfer_yields:
  "yields w (transfer item cfg u) (\<lambda>r es. patches_ok w es \<and> sessions es = [] \<and> aborts es = [] \<and>
     (case r of Inl x \<Rightarrow> statuses es \<in> {[], [Confirming]}
      | Inr _ \<Rightarrow> statuses es = [Confirming, Done] \<and> concat (puts es) = bf_bytes (it_file item)))"
  unfolding transfer_def Let_def
proof (rule yields_andThen [OF upload_chunks_yields], goal_cases)
  case (1 x es)
  then show ?case by (simp add: inner_def)
next
  case (2 parts es)
  then have es: "inner w es" "concat (puts es) = bf_bytes (it_file item)"
    by (auto simp: concat_console_chunks)
  show ?case
  proof (rule yields_andThen [OF emitPatch_yields], simp, rule yields_andThen [OF action_yields], goal_cases)
    case (3 _ _ c fs)
    obtain d e where c: "c = (d, e)" by (cases c)
    show ?case
    proof (cases "truthy e")
      case True
      with es 3 show ?thesis
        by (auto simp: c fail_def inner_def patch_defs intro!: yields_throw)
    next
      case False
      with es 3 show ?thesis
        by (auto simp: c inner_def patch_defs intro!: yields_weaken [OF emitPatch_yields])
    qed
  qed (use es in \<open>auto simp: inner_def patch_defs\<close>)
qed

text \<open>The trace that every routine leaves.\<close>

definition settled :: "(up_event, up_reply) world \<Rightarrow> upload_config \<Rightarrow> upload_item \<Rightarrow> up_event list \<Rightarrow> bool" where
  "settled w cfg item es = (patches_ok w es \<and>
     statuses es \<in> {[Uploading, Confirming, Done], [Uploading, Done], [Uploading, Failed],
                     [Uploading, Confirming, Failed]} \<and>
     (uc_uploadMode cfg = Presigned \<and> Done \<in> set (statuses es) \<longrightarrow>
        concat (puts es) = bf_bytes (it_file item)) \<and>
     aborts es = (if Failed \<in> set (statuses es)
        then map (abort_payload cfg) (filter truthy (sessions es)) else []))"

lemma abort_and_fail_yields:
  "yields w (abort_and_fail cfg u x) (\<lambda>r es. r = Inr () \<and> patches_ok w es \<and>
     statuses es = [Failed] \<and> sessions es = [] \<and> puts es = [] \<and>
     aborts es = (if truthy u then [abort_payload cfg u] else []))"
  unfolding abort_and_fail_def
  by (auto intro!: yields_weaken [OF emitPatch_yields]
      yields_andThen [OF yields_ask
        [where Q = "\<lambda>r es. es = [Action ''abortMultipart'' (abort_payload cfg u)] \<and> (\<exists>a. r = Inr a)"]])

lemma uploadMultipart_settles:
  "yields w (uploadMultipart item cfg) (\<lambda>r es. r = Inr () \<and> settled w cfg item es)"
  unfolding uploadMultipart_def
proof (rule yields_handling [OF start_session_yields], goal_cases)
  case (1 x es)
  then show ?case
    by (intro yields_weaken [OF abort_and_fail_yields]) (auto simp: settled_def)
next
  case (2 u es)
  show ?case
  proof (rule yields_catching [OF transfer_yields], goal_cases)
    case (1 x fs)
    with 2 show ?case
      by (intro yields_weaken [OF abort_and_fail_yields]) (auto simp: settled_def)
  next
    case (2 a fs)
    with \<open>patches_ok w es \<and> _\<close> show ?case by (auto simp: settled_def)
  qed
qed

lemma single_body_yields:
  "yields w (single_body item cfg) (\<lambda>r es. patches_ok w es \<and> sessions es = [] \<and> aborts es = [] \<and>
     (case r of Inl x \<Rightarrow> statuses es \<in> {[Uploading], [Uploading, Confirming]}
      | Inr _ \<Rightarrow> statuses es = [Uploading, Confirming, Done] \<and>
          concat (puts es) = bf_bytes (it_file item)))"
  unfolding single_body_def
proof (rule yields_andThen [OF emitPatch_yields], simp, rule yields_andThen [OF action_yields], goal_cases)
  case (3 a es c fs)
  obtain d e where c: "c = (d, e)" by (cases c)
  have x: "yields w (xhrPut (interp (the_field d ''upload_url'')) (bf_bytes (it_file item))
        (file_type (it_file item)) progress_patch) (\<lambda>r es. calm w [bf_bytes (it_file item)] es)"
    by (rule xhrPut_yields) (rule progress_patch_inner, simp add: round_pct_le)
  show ?case
  proof (cases "truthy e \<or> \<not> truthy d")
    case True
    with 3 show ?thesis
      by (auto simp: c fail_def inner_def patch_defs intro!: yields_throw)
  next
    case False
    show ?thesis unfolding c prod.case using False
      apply (simp only: if_False)
      apply (rule yields_andThen [OF emitPatch_yields], simp)
      apply (rule yields_andThen [OF x], use 3 in \<open>simp add: inner_def patch_defs\<close>)
      apply (rule yields_andThen [OF emitPatch_yields], simp)
      apply (rule yields_andThen [OF action_yields], simp, use 3 in \<open>simp add: inner_def patch_defs\<close>)
      using 3 by (auto simp: fail_def inner_def patch_defs split: prod.splits
            intro!: yields_throw yields_weaken [OF emitPatch_yields])
  qed
qed (auto simp: inner_def patch_defs)

lemma uploadSingle_settles:
  "yields w (uploadSingle item cfg) (\<lambda>r es. r = Inr () \<and> settled w cfg item es)"
  unfolding uploadSingle_def
  by (rule yields_catching [OF single_body_yields])
    (auto simp: settled_def intro!: yields_weaken [OF emitPatch_yields])

lemma server_body_yields:
  "yields w (server_body item cfg) (\<lambda>r es. patches_ok w es \<and> sessions es = [] \<and> aborts es = [] \<and>
     statuses es = (case r of Inl x \<Rightarrow> [Uploading] | Inr _ \<Rightarrow> [Uploading, Done]))"
  unfolding server_body_def
proof (rule yields_andThen [OF emitPatch_yields], simp,
    rule yields_andThen [OF yields_ask [where Q = "\<lambda>r es. \<exists>f u a. r = Inr a \<and> es = [PostForm u f]"]],
    goal_cases)
  case (3 a es rep fs)
  show ?case
  proof (cases rep)
    case (HttpReply st j)
    from 3 show ?thesis unfolding HttpReply up_reply.case
      by (cases j; cases "the j"; cases "200 \<le> st \<and> st < 300")
        (auto simp: patch_defs fail_def intro!: yields_throw yields_weaken [OF emitPatch_yields])
  qed (use 3 in \<open>auto simp: patch_defs intro!: yields_throw\<close>)
qed auto

lemma uploadServerSide_settles:
  "uc_uploadMode cfg = Server \<Longrightarrow>
   yields w (uploadServerSide item cfg) (\<lambda>r es. r = Inr () \<and> settled w cfg item es)"
  unfolding uploadServerSide_def
  by (rule yields_catching [OF server_body_yields])
    (auto simp: settled_def intro!: yields_weaken [OF emitPatch_yields])

lemma upload_routine_settles:
  "yields w (upload_routine cfg item) (\<lambda>r es. r = Inr () \<and> settled w cfg item es)"
  unfolding upload_routine_def
  by (cases "uc_uploadMode cfg")
    (auto intro: uploadServerSide_settles uploadMultipart_settles uploadSingle_settles)

lemma run_upload_routine:
  "fst (run (upload_routine cfg item) w) = Inr () \<and>
   settled w cfg item (snd (run (upload_routine cfg item) w))"
  using yieldsD [OF upload_routine_settles] by (simp add: run_def)

subsection \<open>The items while uploads run\<close>

definition apply_updates :: "(string \<times> item_patch) list \<Rightarrow> upload_item list \<Rightarrow> upload_item list" where
  "apply_updates us items = fold (\<lambda>(k, p). updateItem k p) us items"

interpretation upload_items: item_store it_id updateItem apply_patch
  by unfold_locales (auto simp: updateItem_def apply_patch_def)

lemma apply_updates_eq: "apply_updates = upload_items.apply_all"
  by (simp add: fun_eq_iff apply_updates_def upload_items.apply_all_def)

lemma apply_patch_simps [simp]:
  "it_status (apply_patch p it) = or_old (p_status p) (it_status it)"
  "it_progress (apply_patch p it) = or_old (p_progress p) (it_progress it)"
  "it_error (apply_patch p it) = (case p_error p of None \<Rightarrow> it_error it | e \<Rightarrow> e)"
  "it_id (apply_patch p it) = it_id it"
  "it_file (apply_patch p it) = it_file it"
  "it_isMultipart (apply_patch p it) = it_isMultipart it"
  by (simp_all add: apply_patch_def)

lemma app_all_status:
  "it_status (upload_items.app_all (patches es) it) =
     (if statuses es = [] then it_status it else last (statuses es))"
proof (induction es arbitrary: it)
  case Nil
  show ?case by (simp add: upload_items.app_all_def)
next
  case (Cons e es)
  show ?case
  proof (cases "patch_of e")
    case None
    then have "event_status e = []" by (cases e) auto
    with None Cons show ?thesis by simp
  next
    case (Some p)
    then have "e = Patch p" by (cases e) auto
    with Cons [of "apply_patch p it"] show ?thesis
      by (auto simp: upload_items.app_all_def or_old_def split: option.splits)
  qed
qed

lemma settled_last: "settled w cfg item es \<Longrightarrow> statuses es \<noteq> [] \<and> last (statuses es) \<in> {Done, Failed}"
  by (auto simp: settled_def)

lemma map_of_keyed:
  "distinct (map f xs) \<Longrightarrow> x \<in> set xs \<Longrightarrow> map_of (map (\<lambda>x. (f x, g x)) xs) (f x) = Some (g x)"
  by (simp add: map_of_eq_Some_iff comp_def)

text \<open>The items when every started upload has come to its end.\<close>

lemma finished_status:
  assumes "distinct (map it_id items)" and "merges (startUpload cfg w items) t"
  shows "apply_updates t items = map (\<lambda>it. if it_status it = Queued
      then upload_items.app_all
        (patches (snd (run (upload_routine cfg it) (w (it_id it))))) it else it) items"
proof -
  have d: "distinct (map it_id (queued_items items))"
    using assms(1) by (auto simp: queued_items_def intro: distinct_map_filter)
  have "(case map_of (startUpload cfg w items) (it_id it) of None \<Rightarrow> it
          | Some ps \<Rightarrow> upload_items.app_all ps it) =
        (if it_status it = Queued then upload_items.app_all
          (patches (snd (run (upload_routine cfg it) (w (it_id it))))) it else it)"
    if it: "it \<in> set items" for it
  proof (cases "it_status it = Queued")
    case True
    with it have "it \<in> set (queued_items items)" by (simp add: queued_items_def)
    with True show ?thesis unfolding startUpload_def by (simp add: map_of_keyed [OF d])
  next
    case False
    have "it_id it \<notin> it_id ` set (queued_items items)"
      using assms(1) it False unfolding queued_items_def distinct_map
      by (auto simp: inj_on_def)
    then have "map_of (startUpload cfg w items) (it_id it) = None"
      by (auto simp: startUpload_def map_of_eq_None_iff)
    with False show ?thesis by simp
  qed
  moreover have "distinct (map fst (startUpload cfg w items))"
    using d by (simp add: startUpload_def comp_def)
  ultimately show ?thesis
    unfolding apply_updates_eq by (simp add: upload_items.apply_merged [OF assms(2)])
qed

subsection \<open>The hook as a transition system\<close>

record ui =
  ui_items :: "upload_item list"
  ui_running :: "(string \<times> item_patch list) list"

text \<open>
  What can happen next: the user adds files (under fresh ids), removes one, clears the list or
  starts the queued ones, or a running upload makes its next update. Several starts may overlap,
  also of the same item.
\<close>

inductive ui_step :: "ui \<Rightarrow> ui \<Rightarrow> bool" where
  ui_add: "length ids = length files \<Longrightarrow> distinct ids \<Longrightarrow>
     set ids \<inter> it_id ` set (ui_items s) = {} \<Longrightarrow>
     ui_step s (s\<lparr>ui_items := addFiles ids files (ui_items s)\<rparr>)"
| ui_remove: "ui_step s (s\<lparr>ui_items := removeFile k (ui_items s)\<rparr>)"
| ui_clear: "ui_step s (s\<lparr>ui_items := clearAll (ui_items s)\<rparr>)"
| ui_start: "(\<And>k. honest (w k)) \<Longrightarrow>
     ui_step s (s\<lparr>ui_running := ui_running s @ startUpload cfg w (ui_items s)\<rparr>)"
| ui_run: "ui_running s = pre @ (k, p # ps) # post \<Longrightarrow>
     ui_step s (s\<lparr>ui_items := updateItem k p (ui_items s), ui_running := pre @ (k, ps) # post\<rparr>)"

inductive_cases ui_stepE: "ui_step s s'"

definition ui_init :: ui where
  "ui_init = \<lparr>ui_items = [], ui_running = []\<rparr>"

definition item_ok :: "upload_item \<Rightarrow> bool" where
  "item_ok it = ((it_isMultipart it \<longleftrightarrow> MULTIPART_THRESHOLD \<le> length (bf_bytes (it_file it))) \<and>
     - 1 \<le> it_progress it \<and> it_progress it \<le> 100 \<and>
     (it_status it = Failed \<longrightarrow> it_error it \<noteq> None))"

definition ui_ok :: "ui \<Rightarrow> bool" where
  "ui_ok s = (distinct (map it_id (ui_items s)) \<and> list_all item_ok (ui_items s) \<and>
     list_all (\<lambda>(k, ps). list_all error_paired ps \<and> list_all progress_ok ps) (ui_running s))"

lemma item_ok_patch:
  "item_ok it \<Longrightarrow> error_paired p \<Longrightarrow> progress_ok p \<Longrightarrow> item_ok (apply_patch p it)"
  by (auto simp: item_ok_def error_paired_def progress_ok_def or_old_def split: option.splits)

lemma ids_updateItem [simp]: "map it_id (updateItem k p items) = map it_id items"
  by (rule upload_items.keys_upd)

lemma ids_addFiles: "length ids = length files \<Longrightarrow>
    map it_id (addFiles ids files items) = map it_id items @ ids"
  by (induction ids files rule: list_induct2) (simp_all add: addFiles_def new_item_def)

lemma startUpload_ok:
  "honest (w k) \<Longrightarrow> (k, ps) \<in> set (startUpload cfg w items) \<Longrightarrow>
   list_all error_paired ps \<and> list_all progress_ok ps"
  using run_upload_routine by (auto simp: startUpload_def settled_def dest!: patches_okD)

lemma ui_step_ok: "ui_step s s' \<Longrightarrow> ui_ok s \<Longrightarrow> ui_ok s'"
proof (induction rule: ui_step.induct)
  case (ui_add ids files s)
  then show ?case
    by (auto simp: ui_ok_def ids_addFiles) (auto simp: addFiles_def list_all_iff new_item_def item_ok_def
        dest!: set_zip_leftD set_zip_rightD)
next
  case (ui_remove s k)
  then show ?case by (auto simp: ui_ok_def removeFile_def list_all_iff intro: distinct_map_filter)
next
  case (ui_clear s)
  then show ?case by (simp add: ui_ok_def clearAll_def)
next
  case (ui_start w s cfg)
  then show ?case using startUpload_ok by (fastforce simp: ui_ok_def list_all_iff)
next
  case (ui_run s pre k p ps post)
  then have p: "error_paired p" "progress_ok p" and ok: "list_all item_ok (ui_items s)"
    by (auto simp: ui_ok_def)
  have "list_all item_ok (updateItem k p (ui_items s))"
    using ok p by (auto simp: updateItem_def list_all_iff intro!: item_ok_patch)
  with ui_run show ?case by (auto simp: ui_ok_def)
qed

lemma ui_init_ok: "ui_ok ui_init"
  by (simp add: ui_init_def ui_ok_def)

lemma ui_reachable_ok: "ui_step\<^sup>*\<^sup>* ui_init s \<Longrightarrow> ui_ok s"
  by (induction rule: rtranclp_induct) (simp add: ui_init_ok, rule ui_step_ok)

subsection \<open>Properties\<close>

definition demo_item :: upload_item where
  "demo_item = new_item ''i'' \<lparr>bf_name = ''a.txt'', bf_type = [], bf_bytes = [7, 8]\<rparr>"

definition demo_config :: upload_config where
  "demo_config = \<lparr>uc_projectId = ''p'', uc_uploadMode = Presigned, uc_folderId = None,
     uc_tags = None, uc_metadata = None\<rparr>"

definition demo_up :: "(up_event, up_reply) world" where
  "demo_up h = (case rev h of
     XhrPut u b t # _ \<Rightarrow> Xhr [(1, 2), (2, 2)] (Loaded 200 None [])
   | _ \<Rightarrow> ActionResult (Some (JObj [(''file_id'', JStr ''f''), (''upload_url'', JStr ''u'')])) None)"

lemma demo_honest: "honest demo_up"
  by (auto simp: honest_def demo_up_def split: list.splits up_event.splits)

lemma demo_not_multipart: "\<not> it_isMultipart demo_item"
  by (simp add: demo_item_def new_item_def MULTIPART_THRESHOLD_def)

lemma demo_statuses:
  "statuses (snd (run (upload_routine demo_config demo_item) demo_up)) = [Uploading, Confirming, Done]"
proof -
  have m: "uc_uploadMode demo_config = Presigned" by (simp add: demo_config_def)
  have t: "truthy (Some (JObj [(''file_id'', JStr ''f''), (''upload_url'', JStr ''u'')]))" "\<not> truthy None"
    by simp_all
  show ?thesis
    unfolding upload_routine_def m using demo_not_multipart t
    by (simp add: uploadSingle_def single_body_def run_def io_simps emitPatch_def action_def
        demo_up_def xhrPut_def patch_defs progress_patch_def)
qed

text \<open>
  C7: every upload settles. Whatever the server and storage answer, each of the three routines
  (server side, single, multipart) returns without throwing; the statuses it sets begin with
  \<open>Uploading\<close>, never go back in the order of \<open>Queued\<close>, \<open>Uploading\<close>, \<open>Confirming\<close>, \<open>Done\<close>, \<open>Failed\<close>,
  and end with \<open>Done\<close> or \<open>Failed\<close>; an error text is set exactly with \<open>Failed\<close>; and the multipart
  session is aborted, once, exactly when the upload failed after the session id had arrived.
\<close>

theorem upload_run_settles:
  "(let (r, es) = run (upload_routine cfg item) w in
     r = Inr () \<and> sorted (statuses es) \<and> hd (statuses es) = Uploading \<and>
     last (statuses es) \<in> {Done, Failed} \<and> list_all error_paired (patches es) \<and>
     aborts es = (if Failed \<in> set (statuses es)
       then map (abort_payload cfg) (filter truthy (sessions es)) else []))"
proof -
  obtain r es where res: "run (upload_routine cfg item) w = (r, es)" by fastforce
  have s: "settled w cfg item es" and r: "r = Inr ()"
    using run_upload_routine [of cfg item w] by (simp_all add: res)
  then have st: "statuses es \<in> {[Uploading, Confirming, Done], [Uploading, Done], [Uploading, Failed],
       [Uploading, Confirming, Failed]}" and ok: "list_all error_paired (patches es)"
    and ab: "aborts es = (if Failed \<in> set (statuses es)
       then map (abort_payload cfg) (filter truthy (sessions es)) else [])"
    using patches_okD by (auto simp: settled_def)
  from st have "sorted (statuses es) \<and> hd (statuses es) = Uploading \<and>
      last (statuses es) \<in> {Done, Failed}"
    by (auto simp: less_eq_upload_status_def)
  with r ok ab show ?thesis by (simp add: res)
qed

text \<open>
  C9: a file that the browser uploads itself (not through the console's server) is shown as done
  only when the bytes that were PUT to storage, in order, are exactly the bytes of the file.
\<close>

theorem done_means_all_bytes_sent:
  assumes "uc_uploadMode cfg = Presigned"
    and "Done \<in> set (statuses (snd (run (upload_routine cfg item) w)))"
  shows "concat (puts (snd (run (upload_routine cfg item) w))) = bf_bytes (it_file item)"
  using run_upload_routine [of cfg item w] assms by (simp add: settled_def)

lemma done_means_all_bytes_sent_witness:
  "concat (puts (snd (run (upload_routine demo_config demo_item) demo_up))) = [7, 8]"
  using done_means_all_bytes_sent [of demo_config demo_item demo_up]
  by (simp add: demo_statuses) (simp add: demo_config_def demo_item_def new_item_def)

text \<open>
  C8: uploads that run at the same time do not disturb each other. For items with distinct ids
  and any interleaving of the updates of the uploads that one start sets going, the items keep
  their ids and order, no item is left queued, exactly the uploads that were running before are
  still running, each started item ends \<open>Done\<close> or \<open>Failed\<close> as its own run says, and another
  interleaving leaves the same items.
\<close>

theorem concurrent_uploads_settle:
  assumes "distinct (map it_id items)" and "merges (startUpload cfg w items) t"
    and "merges (startUpload cfg w items) t'"
  shows "map it_id (apply_updates t items) = map it_id items \<and>
    map it_status (apply_updates t items) = map (\<lambda>it. if it_status it = Queued
      then last (statuses (snd (run (upload_routine cfg it) (w (it_id it))))) else it_status it) items \<and>
    \<not> hasQueued (apply_updates t items) \<and>
    isUploading (apply_updates t items) = isUploading items \<and>
    apply_updates t' items = apply_updates t items"
proof -
  let ?run = "\<lambda>it. snd (run (upload_routine cfg it) (w (it_id it)))"
  have last: "statuses (?run it) \<noteq> []" "last (statuses (?run it)) \<in> {Done, Failed}" for it
    using run_upload_routine [of cfg it "w (it_id it)"] settled_last by blast+
  note fin = finished_status [OF assms(1) assms(2)]
  have ids: "map it_id (apply_updates t items) = map it_id items"
    by (simp add: apply_updates_eq)
  have st: "map it_status (apply_updates t items) = map (\<lambda>it. if it_status it = Queued
      then last (statuses (?run it)) else it_status it) items"
    unfolding fin using last(1) by (simp add: app_all_status)
  have "\<not> hasQueued (apply_updates t items)"
  proof -
    have "last (statuses (?run it)) \<noteq> Queued" for it using last(2) [of it] by auto
    with last(1) show ?thesis by (auto simp: hasQueued_def fin list_ex_iff app_all_status)
  qed
  moreover have "isUploading (apply_updates t items) = isUploading items"
    unfolding isUploading_def fin list_ex_iff using last
    by (auto simp: app_all_status split: if_splits) (metis upload_status.distinct)+
  moreover have "apply_updates t' items = apply_updates t items"
    using finished_status [OF assms(1) assms(3)] fin by simp
  ultimately show ?thesis using ids st by blast
qed

text \<open>
  C10: in every reachable state of the hook, with any number of uploads running and any
  interleaving, items have distinct ids, an item is multipart exactly when its file reaches the
  threshold, progress is -1 (indeterminate) or a percentage, and a failed item carries an error.
\<close>

theorem upload_items_invariant:
  assumes "ui_step\<^sup>*\<^sup>* ui_init s"
  shows "distinct (map it_id (ui_items s)) \<and> list_all item_ok (ui_items s)"
  using ui_reachable_ok [OF assms] by (simp add: ui_ok_def)

lemma concurrent_uploads_settle_witness:
  "\<exists>t. map it_status (apply_updates t [demo_item]) = [Done]"
proof -
  obtain t where t: "merges (startUpload demo_config (\<lambda>k. demo_up) [demo_item]) t"
    using merges_exists by blast
  have "map it_status (apply_updates t [demo_item]) = [Done]"
    using concurrent_uploads_settle [OF _ t t] demo_statuses
    by (simp add: demo_item_def new_item_def)
  then show ?thesis by (rule exI)
qed

lemma upload_items_invariant_witness:
  "list_all item_ok (ui_items (ui_init\<lparr>ui_items := [demo_item]\<rparr>))"
proof -
  have "ui_step ui_init (ui_init\<lparr>ui_items := addFiles [''i''] [it_file demo_item] (ui_items ui_init)\<rparr>)"
    by (rule ui_add) (simp_all add: ui_init_def)
  then have "ui_step\<^sup>*\<^sup>* ui_init (ui_init\<lparr>ui_items := [demo_item]\<rparr>)"
    by (simp add: addFiles_def ui_init_def demo_item_def new_item_def)
  from upload_items_invariant [OF this] show ?thesis by simp
qed

end
