(* ===== verification/React_Sdk.thy ===== *)
theory React_Sdk
  imports Sdk_Http Chunking
begin

text \<open>
  The provider of the React SDK (\<^verbatim>\<open>sdks/react/src/context/FileNestContext.tsx\<close>): the token cache with
  its retrying fetch, \<^verbatim>\<open>callApi\<close> and the imperative methods. The refs and the state of the
  component are read off the history: \<open>SetTokenRef\<close> is the assignment of \<^verbatim>\<open>tokenRef.current\<close>, and the
  cached token is the last one assigned.
\<close>

subsection \<open>Events and replies\<close>

text \<open>What SDK code of the provider throws; \<open>ROther s\<close> is a thrown value that is not an \<^verbatim>\<open>Error\<close>.\<close>

datatype r_exn =
    RError string | RStatusError string nat | RSyntaxErr | RTypeErr | RFetchRejected | ROther string

text \<open>The argument of \<^verbatim>\<open>new Date(...)\<close>: a value of the reply, or the text of a time.\<close>

datatype date_arg = DateValue "json option" | DateOf int

record cached_token =
  ct_token :: "json option"
  ct_expiresAt :: "int option"

datatype r_event =
    RFetch request
  | TokenFetcher
  | Now
  | SetTokenRef "cached_token option"
  | SetToken "json option"
  | SetTokenError "r_exn option"
  | ClearRefresh
  | ArmRefresh int
  | RSleep nat
  | SetLoading bool
  | XhrSend string "byte list" string
  | RProgress progress

datatype r_reply =
    RResponded response
  | Rejected r_exn
  | TokenData "json option" "json option"
  | Clock int
  | XhrDone "(nat \<times> nat) list" "nat option"

type_synonym 'a rsdk = "(r_event, r_reply, r_exn, 'a) io"

text \<open>
  The provider's props. \<open>date_ms\<close> is \<^verbatim>\<open>new Date(v).getTime()\<close> for a value of the token endpoint, with
  None for NaN.
\<close>

record provider =
  pr_projectId :: string
  pr_baseUrl :: string
  pr_tokenEndpoint :: string
  pr_tokenFetcher :: bool
  pr_fetchInitialToken :: bool
  pr_tokenRefreshBuffer :: int
  pr_tokenRetry :: nat
  pr_date_ms :: "json option \<Rightarrow> int option"

definition api_base :: "provider \<Rightarrow> string" where
  "api_base p = strip_suffix_char (CHR ''/'') (pr_baseUrl p)"

definition getTime :: "provider \<Rightarrow> date_arg \<Rightarrow> int option" where
  "getTime p d = (case d of DateOf t \<Rightarrow> Some t | DateValue v \<Rightarrow> pr_date_ms p v)"

definition r_fetch :: "request \<Rightarrow> response rsdk" where
  "r_fetch rq = andThen (ask (RFetch rq)) (\<lambda>r. case r of
     RResponded rs \<Rightarrow> ret rs | Rejected x \<Rightarrow> throw x | _ \<Rightarrow> throw RFetchRejected)"

definition now :: "int rsdk" where
  "now = andThen (ask Now) (\<lambda>r. case r of Clock t \<Rightarrow> ret t | _ \<Rightarrow> ret 0)"

definition r_json :: "response \<Rightarrow> json rsdk" where
  "r_json r = (case rs_json r of None \<Rightarrow> throw RSyntaxErr | Some v \<Rightarrow> ret v)"

definition r_prop :: "json option \<Rightarrow> string \<Rightarrow> json option rsdk" where
  "r_prop v k = (case v of None \<Rightarrow> throw RTypeErr | Some JNull \<Rightarrow> throw RTypeErr
                 | Some x \<Rightarrow> ret (jget x k))"

subsection \<open>The token cache\<close>

fun event_ref :: "r_event \<Rightarrow> cached_token option list" where
  "event_ref (SetTokenRef c) = [c]"
| "event_ref _ = []"

definition ref_updates :: "r_event list \<Rightarrow> cached_token option list" where
  "ref_updates es = concat (map event_ref es)"

definition tokenRef :: "r_event list \<Rightarrow> cached_token option" where
  "tokenRef h = (if ref_updates h = [] then None else last (ref_updates h))"

definition read_tokenRef :: "cached_token option rsdk" where
  "read_tokenRef = (\<lambda>w h. (Inr (tokenRef h), h))"

definition token_request :: "provider \<Rightarrow> request" where
  "token_request p = \<lparr>rq_method = ''POST'', rq_url = pr_tokenEndpoint p, rq_query = [],
     rq_headers = [(''Content-Type'', ''application/json'')], rq_body = JsonBody (JObj [])\<rparr>"

definition doFetch :: "provider \<Rightarrow> (json option \<times> date_arg) rsdk" where
  "doFetch p =
     (if pr_tokenFetcher p then andThen (ask TokenFetcher) (\<lambda>r. case r of
          TokenData t e \<Rightarrow> ret (t, DateValue e) | Rejected x \<Rightarrow> throw x | _ \<Rightarrow> throw RTypeErr)
      else if pr_tokenEndpoint p \<noteq> [] then
        andThen (r_fetch (token_request p)) (\<lambda>res.
        if \<not> rs_ok res then throw (RError (''Token endpoint returned '' @ show_nat (rs_status res)))
        else andThen (r_json res) (\<lambda>v.
          andThen (r_prop (Some v) ''expiresAt'') (\<lambda>e.
          andThen (r_prop (Some v) ''token'') (\<lambda>t. ret (t, DateValue e)))))
      else andThen now (\<lambda>t. ret (Some (JStr []), DateOf (t + 3600000))))"

text \<open>The body of the \<^verbatim>\<open>try\<close> of the loop.\<close>

definition take_token :: "provider \<Rightarrow> json option rsdk" where
  "take_token p =
     andThen (doFetch p) (\<lambda>(tok, e).
     let expiresAt = getTime p e in
     andThen (emit (SetTokenRef (Some \<lparr>ct_token = tok, ct_expiresAt = expiresAt\<rparr>))) (\<lambda>_.
     andThen (emit (SetToken tok)) (\<lambda>_.
     andThen (emit (SetTokenError None)) (\<lambda>_.
     andThen now (\<lambda>t.
     andThen (emit ClearRefresh) (\<lambda>_.
     andThen (case expiresAt of
         None \<Rightarrow> ret ()
       | Some x \<Rightarrow> let ttl = x - t - pr_tokenRefreshBuffer p * 1000 in
           if 0 < ttl then emit (ArmRefresh ttl) else ret ()) (\<lambda>_.
     ret tok)))))))"

text \<open>\<^verbatim>\<open>err instanceof Error ? err : new Error(String(err))\<close>.\<close>

fun as_error :: "r_exn \<Rightarrow> r_exn" where
  "as_error (ROther s) = RError s"
| "as_error x = x"

text \<open>The loop: \<open>n\<close> attempts are left of \<open>tokenRetry\<close>, \<open>attempt\<close> have failed.\<close>

fun fetch_loop :: "provider \<Rightarrow> nat \<Rightarrow> nat \<Rightarrow> r_exn \<Rightarrow> json option rsdk" where
  "fetch_loop p 0 attempt lastErr =
     andThen (emit (SetTokenError (Some lastErr))) (\<lambda>_. throw lastErr)"
| "fetch_loop p (Suc n) attempt lastErr =
     handling (take_token p)
       (\<lambda>err. andThen (if Suc attempt < pr_tokenRetry p then emit (RSleep (Suc attempt * 500)) else ret ())
          (\<lambda>_. fetch_loop p n (Suc attempt) (as_error err)))
       ret"

definition fetchToken :: "provider \<Rightarrow> json option rsdk" where
  "fetchToken p = fetch_loop p (pr_tokenRetry p) 0 (RError ''Unknown error'')"

definition token_fresh :: "provider \<Rightarrow> int \<Rightarrow> cached_token \<Rightarrow> bool" where
  "token_fresh p t c = (case ct_expiresAt c of None \<Rightarrow> False
     | Some x \<Rightarrow> pr_tokenRefreshBuffer p * 1000 < x - t)"

definition getToken :: "provider \<Rightarrow> json option rsdk" where
  "getToken p = andThen read_tokenRef (\<lambda>c.
     let refresh = andThen (emit (SetLoading True)) (\<lambda>_.
           handling (fetchToken p)
             (\<lambda>x. andThen (emit (SetLoading False)) (\<lambda>_. throw x))
             (\<lambda>t. andThen (emit (SetLoading False)) (\<lambda>_. ret t))) in
     case c of None \<Rightarrow> refresh
     | Some cached \<Rightarrow> andThen now (\<lambda>t.
         if token_fresh p t cached then ret (ct_token cached) else refresh))"

subsection \<open>callApi\<close>

definition buildUrl :: "string \<Rightarrow> (string \<times> json option) list option \<Rightarrow> string \<times> (string \<times> string) list" where
  "buildUrl base params = (base, case params of None \<Rightarrow> [] | Some ps \<Rightarrow> search_params ps)"

record api_options =
  ao_body :: "json option"
  ao_params :: "(string \<times> json option) list option"

definition no_options :: api_options where
  "no_options = \<lparr>ao_body = None, ao_params = None\<rparr>"

definition api_request :: "provider \<Rightarrow> string \<Rightarrow> string \<Rightarrow> api_options \<Rightarrow> json option \<Rightarrow> request" where
  "api_request p meth path opts tok =
     (let (u, q) = buildUrl (api_base p @ ''/v1/projects/'' @ pr_projectId p @ path) (ao_params opts) in
      \<lparr>rq_method = meth, rq_url = u, rq_query = q,
       rq_headers = (''Authorization'', ''Bearer '' @ interp tok) #
         (case ao_body opts of None \<Rightarrow> [] | Some _ \<Rightarrow> [(''Content-Type'', ''application/json'')]),
       rq_body = (case ao_body opts of None \<Rightarrow> NoBody | Some b \<Rightarrow> JsonBody b)\<rparr>)"

text \<open>The error of a failed response: the backend's message when there is one.\<close>

definition api_error :: "string \<Rightarrow> string \<Rightarrow> response \<Rightarrow> r_exn" where
  "api_error meth path res =
     (let dflt = meth @ '' '' @ path @ '' failed: '' @ rs_statusText res;
          message = (case rs_json res of None \<Rightarrow> dflt | Some JNull \<Rightarrow> dflt
            | Some b \<Rightarrow> if truthy (jget b ''message'') then interp (jget b ''message'') else dflt)
      in RStatusError message (rs_status res))"

definition callApi :: "provider \<Rightarrow> string \<Rightarrow> string \<Rightarrow> api_options \<Rightarrow> json option rsdk" where
  "callApi p meth path opts =
     andThen (getToken p) (\<lambda>tok.
     andThen (r_fetch (api_request p meth path opts tok)) (\<lambda>res1.
     andThen (if rs_status res1 = 401
        then andThen (emit (SetTokenRef None)) (\<lambda>_.
             andThen (fetchToken p) (\<lambda>freshToken.
             r_fetch (api_request p meth path opts freshToken)))
        else ret res1) (\<lambda>res.
     if rs_status res = 204 then ret None
     else if \<not> rs_ok res then throw (api_error meth path res)
     else andThen (r_json res) (\<lambda>v. ret (Some v)))))"

subsection \<open>Uploads\<close>

record web_file =
  wf_name :: string
  wf_type :: string
  wf_bytes :: "byte list"

record init_options =
  io_filename :: string
  io_contentType :: "string option"
  io_sizeBytes :: nat
  io_folderId :: "string option"
  io_metadata :: "json option"
  io_tags :: "string list option"

definition or_octets :: "string \<Rightarrow> string" where
  "or_octets t = (if t = [] then ''application/octet-stream'' else t)"

definition str_or_null :: "string option \<Rightarrow> json" where
  "str_or_null s = (case s of None \<Rightarrow> JNull | Some x \<Rightarrow> JStr x)"

definition initUpload :: "provider \<Rightarrow> init_options \<Rightarrow> (json option \<times> json option \<times> json option) rsdk" where
  "initUpload p opts =
     andThen (callApi p ''POST'' ''/files/upload'' (no_options\<lparr>ao_body := Some (JObj
        [(''filename'', JStr (io_filename opts)),
         (''content_type'', JStr (or_octets (case io_contentType opts of None \<Rightarrow> [] | Some t \<Rightarrow> t))),
         (''size_bytes'', JInt (int (io_sizeBytes opts))),
         (''folder_id'', str_or_null (io_folderId opts)),
         (''metadata'', nullish_or (io_metadata opts) (JObj [])),
         (''tags'', JArr (case io_tags opts of None \<Rightarrow> [] | Some ts \<Rightarrow> map JStr ts))])\<rparr>)) (\<lambda>raw.
     andThen (r_prop raw ''file_id'') (\<lambda>f.
     andThen (r_prop raw ''upload_url'') (\<lambda>u.
     andThen (r_prop raw ''expires_at'') (\<lambda>e. ret (f, u, e)))))"

fun progress_events :: "bool \<Rightarrow> (nat \<times> nat) list \<Rightarrow> unit rsdk" where
  "progress_events cb [] = ret ()"
| "progress_events cb ((loaded, tot) # evs) = andThen
     (if tot \<noteq> 0 \<and> cb then emit (RProgress \<lparr>bytesUploaded = loaded, totalBytes = tot,
        percentage = round_pct loaded tot, chunkNumber = 1, totalChunks = 1\<rparr>) else ret ())
     (\<lambda>_. progress_events cb evs)"

text \<open>\<open>XhrDone evs st\<close>: the progress events and the status, None for a network error.\<close>

definition uploadToStorage :: "string \<Rightarrow> web_file \<Rightarrow> bool \<Rightarrow> unit rsdk" where
  "uploadToStorage u f cb =
     andThen (ask (XhrSend u (wf_bytes f) (or_octets (wf_type f)))) (\<lambda>r. case r of
       XhrDone evs st \<Rightarrow> andThen (progress_events cb evs) (\<lambda>_. case st of
           Some s \<Rightarrow> if 200 \<le> s \<and> s < 300 then ret ()
                     else throw (RError (''Storage upload failed: '' @ show_nat s))
         | None \<Rightarrow> throw (RError ''Network error during storage upload''))
     | Rejected x \<Rightarrow> throw x | _ \<Rightarrow> throw RTypeErr)"

definition confirmUpload :: "provider \<Rightarrow> string \<Rightarrow> json option rsdk" where
  "confirmUpload p fid = callApi p ''POST'' (''/files/'' @ fid @ ''/confirm'') no_options"

record r_upload_options =
  ro_folderId :: "string option"
  ro_metadata :: "json option"
  ro_tags :: "string list option"
  ro_onProgress :: bool

definition r_upload :: "provider \<Rightarrow> web_file \<Rightarrow> r_upload_options \<Rightarrow> json option rsdk" where
  "r_upload p f opts =
     andThen (initUpload p \<lparr>io_filename = wf_name f, io_contentType = Some (or_octets (wf_type f)),
        io_sizeBytes = length (wf_bytes f), io_folderId = ro_folderId opts,
        io_metadata = ro_metadata opts, io_tags = ro_tags opts\<rparr>) (\<lambda>(fid, u, e).
     andThen (uploadToStorage (interp u) f (ro_onProgress opts)) (\<lambda>_.
     andThen (confirmUpload p (interp fid)) (\<lambda>_.
     callApi p ''GET'' (''/files/'' @ interp fid) no_options)))"

subsection \<open>Files, folders, search\<close>

record r_file_filters =
  rf_folderId :: "string option option"
  rf_mimeType :: "string option"
  rf_status :: "string option"
  rf_tags :: "string list option"
  rf_limit :: "int option"
  rf_offset :: "int option"
  rf_sortBy :: "string option"
  rf_sortOrder :: "string option"
  rf_metadata :: "string option"

definition no_filters :: r_file_filters where
  "no_filters = \<lparr>rf_folderId = None, rf_mimeType = None, rf_status = None, rf_tags = None,
     rf_limit = None, rf_offset = None, rf_sortBy = None, rf_sortOrder = None, rf_metadata = None\<rparr>"

text \<open>\<open>Some None\<close> is the folder id null, which asks for the root.\<close>

definition file_params :: "r_file_filters \<Rightarrow> (string \<times> json option) list" where
  "file_params f =
     [(''folder_id'', map_option (\<lambda>x. JStr (case x of None \<Rightarrow> ''root'' | Some d \<Rightarrow> d)) (rf_folderId f)),
      (''mime_type'', map_option JStr (rf_mimeType f)), (''status'', map_option JStr (rf_status f)),
      (''sort_by'', map_option JStr (rf_sortBy f)), (''sort_order'', map_option JStr (rf_sortOrder f)),
      (''limit'', map_option JInt (rf_limit f)), (''offset'', map_option JInt (rf_offset f)),
      (''tags'', map_option (\<lambda>ts. JStr (join_with '','' ts)) (rf_tags f)),
      (''metadata'', map_option JStr (rf_metadata f))]"

definition with_params :: "(string \<times> json option) list \<Rightarrow> api_options" where
  "with_params ps = no_options\<lparr>ao_params := Some ps\<rparr>"

definition with_body :: "json \<Rightarrow> api_options" where
  "with_body b = no_options\<lparr>ao_body := Some b\<rparr>"

definition listFiles :: "provider \<Rightarrow> r_file_filters \<Rightarrow> json option rsdk" where
  "listFiles p f = callApi p ''GET'' ''/files'' (with_params (file_params f))"

definition r_getFile :: "provider \<Rightarrow> string \<Rightarrow> json option rsdk" where
  "r_getFile p fid = callApi p ''GET'' (''/files/'' @ fid) no_options"

definition r_deleteFile :: "provider \<Rightarrow> string \<Rightarrow> json option rsdk" where
  "r_deleteFile p fid = callApi p ''DELETE'' (''/files/'' @ fid) no_options"

definition r_updateFile :: "provider \<Rightarrow> string \<Rightarrow> json \<Rightarrow> json option rsdk" where
  "r_updateFile p fid opts = callApi p ''PATCH'' (''/files/'' @ fid) (with_body opts)"

definition r_getDownloadUrl :: "provider \<Rightarrow> string \<Rightarrow> int option \<Rightarrow> string option \<Rightarrow> json option rsdk" where
  "r_getDownloadUrl p fid ttl disposition = callApi p ''GET'' (''/files/'' @ fid @ ''/download'')
     (with_params [(''ttl'', map_option JInt ttl), (''disposition'', map_option JStr disposition)])"

text \<open>A parent folder of null is sent like an absent one.\<close>

definition listFolders ::
    "provider \<Rightarrow> string option \<Rightarrow> string option \<Rightarrow> int option \<Rightarrow> int option \<Rightarrow> json option rsdk" where
  "listFolders p parent nm lm off = callApi p ''GET'' ''/folders'' (with_params
     [(''parent_folder_id'', map_option JStr parent), (''name'', map_option JStr nm),
      (''limit'', map_option JInt lm), (''offset'', map_option JInt off)])"

definition r_createFolder :: "provider \<Rightarrow> string \<Rightarrow> string option \<Rightarrow> json option rsdk" where
  "r_createFolder p nm parent = callApi p ''POST'' ''/folders''
     (with_body (JObj [(''name'', JStr nm), (''parent_folder_id'', str_or_null parent)]))"

definition r_getFolder :: "provider \<Rightarrow> string \<Rightarrow> json option rsdk" where
  "r_getFolder p fid = callApi p ''GET'' (''/folders/'' @ fid) no_options"

fun r_status :: "r_exn \<Rightarrow> nat option" where
  "r_status (RStatusError m s) = Some s"
| "r_status _ = None"

definition getFolderByPath :: "provider \<Rightarrow> string \<Rightarrow> json option rsdk" where
  "getFolderByPath p path =
     catching (callApi p ''GET'' ''/folders/by-path'' (with_params [(''path'', Some (JStr path))]))
       (\<lambda>x. if r_status x = Some 404 then ret (Some JNull) else throw x)"

definition r_deleteFolder :: "provider \<Rightarrow> string \<Rightarrow> json option rsdk" where
  "r_deleteFolder p fid = callApi p ''DELETE'' (''/folders/'' @ fid) no_options"

definition r_ensurePath :: "provider \<Rightarrow> string \<Rightarrow> json option rsdk" where
  "r_ensurePath p path =
     callApi p ''POST'' ''/folders/ensure-path'' (with_body (JObj [(''path'', JStr path)]))"

text \<open>
  \<^verbatim>\<open>search\<close>: the query's own entries, with the limit, then the time taken. \<open>query\<close> holds the
  entries of the query object.
\<close>

definition r_search :: "provider \<Rightarrow> (string \<times> json) list \<Rightarrow> json option rsdk" where
  "r_search p query =
     andThen now (\<lambda>t0.
     andThen (callApi p ''POST'' ''/search'' (with_body
        (JObj (put ''limit'' (nullish_or (map_of query ''limit'') (JInt 20)) query)))) (\<lambda>v.
     andThen now (\<lambda>t1.
     ret (Some (JObj (put ''queryTimeMs'' (JInt (t1 - t0))
        (case v of Some (JObj kvs) \<Rightarrow> kvs | _ \<Rightarrow> [])))))))"

text \<open>On mount: a first token, whatever comes of it; afterwards the provider is ready.\<close>

definition initial_fetch :: "provider \<Rightarrow> bool rsdk" where
  "initial_fetch p =
     (if \<not> pr_fetchInitialToken p then ret True
      else handling (getToken p) (\<lambda>_. ret True) (\<lambda>_. ret True))"

subsection \<open>Only appending\<close>

lemma appends_handling [io_appends]:
  assumes "appends m" and "\<And>x. appends (f x)" and "\<And>a. appends (g a)"
  shows "appends (handling m f g)"
  unfolding appends_def
proof (intro allI)
  fix w h
  have "prefix h (snd (m w h))" using assms(1) by (simp add: appends_def)
  moreover have "prefix h' (snd (f x w h'))" "prefix h' (snd (g a w h'))" for x a h'
    using assms(2,3) by (simp_all add: appends_def)
  ultimately show "prefix h (snd (handling m f g w h))"
    by (auto simp: handling_def split: prod.splits sum.splits intro: prefix_order.trans)
qed

lemma appends_read_tokenRef [io_appends]: "appends read_tokenRef"
  by (simp add: appends_def read_tokenRef_def)

lemma appends_r_fetch [io_appends]: "appends (r_fetch rq)"
  unfolding r_fetch_def by (intro io_appends) (auto split: r_reply.splits intro!: io_appends)

lemma appends_now [io_appends]: "appends now"
  unfolding now_def by (intro io_appends) (auto split: r_reply.splits intro!: io_appends)

lemma appends_r_json [io_appends]: "appends (r_json r)"
  unfolding r_json_def by (auto split: option.splits intro!: io_appends)

lemma appends_r_prop [io_appends]: "appends (r_prop v k)"
  unfolding r_prop_def by (auto split: option.splits json.splits intro!: io_appends)

lemma appends_doFetch [io_appends]: "appends (doFetch p)"
  unfolding doFetch_def by (auto split: r_reply.splits intro!: io_appends)

lemma appends_take_token [io_appends]: "appends (take_token p)"
  unfolding take_token_def Let_def by (auto split: prod.splits option.splits intro!: io_appends)

lemma appends_fetch_loop [io_appends]: "appends (fetch_loop p n a x)"
  by (induction n arbitrary: a x) (auto intro!: io_appends)

lemma appends_fetchToken [io_appends]: "appends (fetchToken p)"
  unfolding fetchToken_def by (rule io_appends)

lemma appends_getToken [io_appends]: "appends (getToken p)"
  unfolding getToken_def Let_def by (auto split: option.splits intro!: io_appends)

lemma appends_callApi [io_appends]: "appends (callApi p m path opts)"
  unfolding callApi_def by (auto intro!: io_appends)

lemma appends_progress_events [io_appends]: "appends (progress_events cb evs)"
  by (induction cb evs rule: progress_events.induct) (auto intro!: io_appends)

subsection \<open>What a run shows\<close>

fun event_sleep :: "r_event \<Rightarrow> nat list" where
  "event_sleep (RSleep n) = [n]"
| "event_sleep _ = []"

text \<open>The requests that carry an \<^verbatim>\<open>Authorization\<close> header: those of \<open>callApi\<close>.\<close>

fun event_api :: "r_event \<Rightarrow> request list" where
  "event_api (RFetch rq) = (if map_of (rq_headers rq) ''Authorization'' = None then [] else [rq])"
| "event_api _ = []"

definition r_sleeps :: "r_event list \<Rightarrow> nat list" where
  "r_sleeps es = concat (map event_sleep es)"

definition api_calls :: "r_event list \<Rightarrow> request list" where
  "api_calls es = concat (map event_api es)"

lemma run_simps [simp]:
  "r_sleeps [] = []" "r_sleeps (e # es) = event_sleep e @ r_sleeps es"
  "r_sleeps (es @ fs) = r_sleeps es @ r_sleeps fs"
  "api_calls [] = []" "api_calls (e # es) = event_api e @ api_calls es"
  "api_calls (es @ fs) = api_calls es @ api_calls fs"
  "ref_updates [] = []" "ref_updates (e # es) = event_ref e @ ref_updates es"
  "ref_updates (es @ fs) = ref_updates es @ ref_updates fs"
  by (simp_all add: r_sleeps_def api_calls_def ref_updates_def)

text \<open>Events that neither pause, nor call the API, nor touch the cache.\<close>

definition plain :: "r_event list \<Rightarrow> bool" where
  "plain es = (r_sleeps es = [] \<and> api_calls es = [] \<and> ref_updates es = [])"

lemma plain_simps [simp]:
  "plain []" "plain (es @ fs) \<longleftrightarrow> plain es \<and> plain fs"
  by (auto simp: plain_def)

lemma api_request_api [simp]: "event_api (RFetch (api_request p m path opts tok)) = [api_request p m path opts tok]"
  by (simp add: api_request_def buildUrl_def split: option.splits)

lemma api_request_header [simp]:
  "map_of (rq_headers (api_request p m path opts tok)) ''Authorization'' = Some (''Bearer '' @ interp tok)"
  by (simp add: api_request_def buildUrl_def)

lemma r_fetch_yields: "yields w (r_fetch rq) (\<lambda>r es. es = [RFetch rq])"
  unfolding r_fetch_def
  by (rule yields_andThen [OF yields_ask [where Q = "\<lambda>r es. es = [RFetch rq]"]])
    (auto split: r_reply.splits intro!: yields_ret yields_throw)

lemma now_yields: "yields w now (\<lambda>r es. es = [Now] \<and> (\<exists>t. r = Inr t))"
  unfolding now_def
  by (rule yields_andThen [OF yields_ask [where Q = "\<lambda>r es. es = [Now] \<and> (\<exists>t. r = Inr t)"]])
    (auto split: r_reply.splits intro!: yields_ret)

lemma r_prop_yields: "yields w (r_prop v k) (\<lambda>r es. es = [])"
  unfolding r_prop_def by (auto split: option.splits json.splits intro!: yields_ret yields_throw)

lemma r_json_yields: "yields w (r_json res) (\<lambda>r es. es = [])"
  unfolding r_json_def by (auto split: option.splits intro!: yields_ret yields_throw)

lemma doFetch_yields: "yields w (doFetch p) (\<lambda>r es. plain es)"
proof -
  have f: "yields w (andThen (ask TokenFetcher) (\<lambda>r. case r of
          TokenData t e \<Rightarrow> ret (t, DateValue e) | Rejected x \<Rightarrow> throw x | _ \<Rightarrow> throw RTypeErr))
        (\<lambda>r es. plain es)"
    by (rule yields_andThen [OF yields_ask [where Q = "\<lambda>r es. es = [TokenFetcher]"]])
      (auto simp: plain_def split: r_reply.splits intro!: yields_ret yields_throw)
  have e: "yields w (andThen (r_fetch (token_request p)) (\<lambda>res.
        if \<not> rs_ok res then throw (RError (''Token endpoint returned '' @ show_nat (rs_status res)))
        else andThen (r_json res) (\<lambda>v.
          andThen (r_prop (Some v) ''expiresAt'') (\<lambda>e.
          andThen (r_prop (Some v) ''token'') (\<lambda>t. ret (t, DateValue e)))))) (\<lambda>r es. plain es)"
    by (rule yields_andThen [OF r_fetch_yields])
      (auto simp: plain_def token_request_def intro!: yields_ret yields_throw
        yields_andThen [OF r_json_yields] yields_andThen [OF r_prop_yields])
  have n: "yields w (andThen now (\<lambda>t. ret (Some (JStr []), DateOf (t + 3600000)))) (\<lambda>r es. plain es)"
    by (rule yields_andThen [OF now_yields]) (auto simp: plain_def intro!: yields_ret)
  show ?thesis unfolding doFetch_def using f e n by simp
qed

text \<open>One attempt caches the token it returns, and nothing when it fails.\<close>

definition caches :: "json option \<Rightarrow> r_event list \<Rightarrow> bool" where
  "caches tok es = (\<exists>e. ref_updates es = [Some \<lparr>ct_token = tok, ct_expiresAt = e\<rparr>])"

lemma take_token_yields:
  "yields w (take_token p) (\<lambda>r es. r_sleeps es = [] \<and> api_calls es = [] \<and>
     (case r of Inl x \<Rightarrow> ref_updates es = [] | Inr t \<Rightarrow> caches t es))"
  unfolding take_token_def Let_def
proof (rule yields_andThen [OF doFetch_yields], goal_cases)
  case (2 a es)
  obtain t d where a: "a = (t, d)" by (cases a)
  show ?case unfolding a prod.case
    apply (rule yields_andThen [OF yields_emit [where Q = "\<lambda>r es. r = Inr () \<and>
        es = [SetTokenRef (Some \<lparr>ct_token = t, ct_expiresAt = getTime p d\<rparr>)]"]], simp, simp)
    apply (rule yields_andThen [OF yields_emit [where Q = "\<lambda>r es. r = Inr () \<and> plain es"]],
        simp add: plain_def, simp)
    apply (rule yields_andThen [OF yields_emit [where Q = "\<lambda>r es. r = Inr () \<and> plain es"]],
        simp add: plain_def, simp)
    apply (rule yields_andThen [OF now_yields], simp)
    apply (rule yields_andThen [OF yields_emit [where Q = "\<lambda>r es. r = Inr () \<and> plain es"]],
        simp add: plain_def, simp)
    apply (rule yields_andThen [where P = "\<lambda>r es. r = Inr () \<and> plain es"])
    using 2 by (auto simp: plain_def caches_def split: option.splits intro!: yields_ret yields_emit)
qed (simp add: plain_def)

text \<open>
  The loop with \<open>n\<close> attempts left after \<open>a\<close> failed ones: some \<open>k\<close> of them fail, each followed by
  a pause that grows by half a second, then one succeeds; or all fail.
\<close>

definition pauses :: "nat \<Rightarrow> nat \<Rightarrow> nat list" where
  "pauses a k = map (\<lambda>i. (a + i + 1) * 500) [0..<k]"

lemma pauses_0 [simp]: "pauses a 0 = []"
  by (simp add: pauses_def)

lemma pauses_Suc: "pauses a (Suc k) = Suc a * 500 # pauses (Suc a) k"
  by (simp add: pauses_def map_upt_Suc del: upt_Suc)

lemma fetch_loop_yields:
  "a + n = pr_tokenRetry p \<Longrightarrow> yields w (fetch_loop p n a x) (\<lambda>r es. api_calls es = [] \<and>
     (case r of
        Inr t \<Rightarrow> caches t es \<and> (\<exists>k < n. r_sleeps es = pauses a k)
      | Inl y \<Rightarrow> ref_updates es = [] \<and> r_sleeps es = pauses a (n - 1)))"
proof (induction n arbitrary: a x)
  case 0
  show ?case unfolding fetch_loop.simps
    by (rule yields_andThen [OF yields_emit [where Q = "\<lambda>r es. r = Inr () \<and> plain es"]])
      (auto simp: plain_def intro!: yields_throw)
next
  case (Suc n)
  show ?case unfolding fetch_loop.simps
  proof (rule yields_handling [OF take_token_yields], goal_cases)
    case (1 y es)
    have IH: "yields w (fetch_loop p n (Suc a) (as_error y)) (\<lambda>r es. api_calls es = [] \<and>
     (case r of
        Inr t \<Rightarrow> caches t es \<and> (\<exists>k < n. r_sleeps es = pauses (Suc a) k)
      | Inl y \<Rightarrow> ref_updates es = [] \<and> r_sleeps es = pauses (Suc a) (n - 1)))"
      by (rule Suc.IH) (use Suc.prems in simp)
    have s: "yields w (if Suc a < pr_tokenRetry p then emit (RSleep (Suc a * 500)) else ret ())
        (\<lambda>r es. r = Inr () \<and> ref_updates es = [] \<and> api_calls es = [] \<and>
          r_sleeps es = (if n = 0 then [] else [Suc a * 500]))"
      using Suc.prems by (auto intro!: yields_emit yields_ret)
    show ?case
    proof (rule yields_andThen [OF s], goal_cases)
      case (2 u fs)
      show ?case
      proof (rule yields_weaken [OF IH], goal_cases)
        case (1 r gs)
        show ?case
        proof (cases r)
          case (Inl x)
          with 1 2 \<open>r_sleeps es = [] \<and> _\<close> show ?thesis by (cases n) (auto simp: pauses_Suc)
        next
          case (Inr t)
          with 1 obtain k where "k < n" "r_sleeps gs = pauses (Suc a) k" by auto
          with 1 2 Inr \<open>r_sleeps es = [] \<and> _\<close> show ?thesis
            by (auto simp: caches_def pauses_Suc intro!: exI [of _ "Suc k"])
        qed
      qed
    qed simp
  next
    case (2 t es)
    then show ?case by (intro yields_ret) (auto intro: exI [of _ 0])
  qed
qed

lemma tokenRef_snoc: "event_ref e = [] \<Longrightarrow> tokenRef (h @ [e]) = tokenRef h"
  by (simp add: tokenRef_def)

lemma yields_run: "yields w m Q \<Longrightarrow> m w h = (r, h') \<Longrightarrow> \<exists>es. h' = h @ es \<and> Q r es"
  unfolding yields_def by (metis fst_conv snd_conv)

lemma fetchToken_yields: "yields w (fetchToken p) (\<lambda>r es. api_calls es = [] \<and>
     (case r of
        Inr t \<Rightarrow> caches t es \<and> (\<exists>k < pr_tokenRetry p. r_sleeps es = pauses 0 k)
      | Inl y \<Rightarrow> ref_updates es = [] \<and> r_sleeps es = pauses 0 (pr_tokenRetry p - 1)))"
  unfolding fetchToken_def by (rule fetch_loop_yields) simp

lemma fetchToken_run:
  assumes "fetchToken p w h = (r, h')"
  shows "\<exists>es. h' = h @ es \<and> api_calls es = [] \<and> (case r of
     Inr t \<Rightarrow> (\<exists>e. tokenRef h' = Some \<lparr>ct_token = t, ct_expiresAt = e\<rparr>) \<and>
       (\<exists>k < pr_tokenRetry p. r_sleeps es = pauses 0 k)
   | Inl y \<Rightarrow> tokenRef h' = tokenRef h \<and>
       r_sleeps es = pauses 0 (pr_tokenRetry p - 1))"
proof -
  from yields_run [OF fetchToken_yields assms]
  obtain es where es: "h' = h @ es" "api_calls es = []" and r: "case r of
      Inr t \<Rightarrow> caches t es \<and> (\<exists>k < pr_tokenRetry p. r_sleeps es = pauses 0 k)
    | Inl y \<Rightarrow> ref_updates es = [] \<and> r_sleeps es = pauses 0 (pr_tokenRetry p - 1)" by blast
  show ?thesis
  proof (cases r)
    case (Inl y)
    with es r show ?thesis by (auto simp: tokenRef_def)
  next
    case (Inr t)
    with r obtain e where "ref_updates es = [Some \<lparr>ct_token = t, ct_expiresAt = e\<rparr>]"
      by (auto simp: caches_def)
    then have "tokenRef h' = Some \<lparr>ct_token = t, ct_expiresAt = e\<rparr>" by (simp add: es tokenRef_def)
    with es r Inr show ?thesis by auto
  qed
qed

lemma r_fetch_run:
  "r_fetch rq w h = (r, h') \<Longrightarrow> h' = h @ [RFetch rq] \<and> (\<forall>rs. r = Inr rs \<longrightarrow> w h' = RResponded rs)"
  by (auto simp: r_fetch_def io_simps split: r_reply.splits)

lemma getToken_yields: "yields w (getToken p) (\<lambda>r es. api_calls es = [])"
proof -
  have rd: "yields w read_tokenRef (\<lambda>r es. es = [] \<and> (\<exists>c. r = Inr c))"
    by (simp add: yields_def read_tokenRef_def)
  have ft: "yields w (fetchToken p) (\<lambda>r es. api_calls es = [])"
    by (rule yields_weaken [OF fetchToken_yields]) auto
  have rf: "yields w (andThen (emit (SetLoading True)) (\<lambda>_. handling (fetchToken p)
       (\<lambda>x. andThen (emit (SetLoading False)) (\<lambda>_. throw x))
       (\<lambda>t. andThen (emit (SetLoading False)) (\<lambda>_. ret t)))) (\<lambda>r es. api_calls es = [])"
    by (intro yields_andThen [OF yields_emit [where Q = "\<lambda>r es. api_calls es = []"]]
        yields_handling [OF ft]) (auto intro!: yields_throw yields_ret)
  show ?thesis unfolding getToken_def Let_def
    by (rule yields_andThen [OF rd]) (auto intro!: yields_andThen [OF now_yields] yields_ret
        yields_weaken [OF rf] split: option.splits)
qed

definition api_outcome :: "string \<Rightarrow> string \<Rightarrow> response \<Rightarrow> r_exn + json option" where
  "api_outcome meth path res =
     (if rs_status res = 204 then Inr None
      else if \<not> rs_ok res then Inl (api_error meth path res)
      else case rs_json res of None \<Rightarrow> Inl RSyntaxErr | Some v \<Rightarrow> Inr (Some v))"

text \<open>In the run with history \<open>h\<close> the request \<open>rq\<close> was sent and answered by \<open>res\<close>.\<close>

definition answered :: "(r_event, r_reply) world \<Rightarrow> r_event list \<Rightarrow> request \<Rightarrow> response \<Rightarrow> bool" where
  "answered w h rq res = (\<exists>pre. prefix (pre @ [RFetch rq]) h \<and> w (pre @ [RFetch rq]) = RResponded res)"

lemma answered_prefix: "answered w h rq res \<Longrightarrow> prefix h h' \<Longrightarrow> answered w h' rq res"
  by (auto simp: answered_def intro: prefix_order.trans)

lemma r_fetch_answered: "r_fetch rq w h = (Inr rs, h') \<Longrightarrow> answered w h' rq rs"
  using r_fetch_run by (fastforce simp: answered_def)

lemma api_tail:
  "(if rs_status res = 204 then ret None
     else if \<not> rs_ok res then throw (api_error meth path res)
     else andThen (r_json res) (\<lambda>v. ret (Some v))) w h = (api_outcome meth path res, h)"
  by (simp add: api_outcome_def io_simps r_json_def split: option.splits)

text \<open>The refresh after a 401 and the second request.\<close>

lemma resend_run:
  assumes "andThen (emit (SetTokenRef None)) (\<lambda>_. andThen (fetchToken p)
     (\<lambda>t. r_fetch (api_request p meth path opts t))) w h = (g, h')"
  shows "\<exists>es. h' = h @ es \<and> ((api_calls es = [] \<and> isl g) \<or>
     (\<exists>tok. api_calls es = [api_request p meth path opts tok] \<and>
        map_option ct_token (tokenRef h') = Some tok \<and>
        (isl g \<or> (\<exists>res. g = Inr res \<and> answered w h' (api_request p meth path opts tok) res))))"
proof -
  obtain t h1 where t: "fetchToken p w (h @ [SetTokenRef None]) = (t, h1)" by fastforce
  from fetchToken_run [OF t] obtain es where
    es: "h1 = h @ [SetTokenRef None] @ es" "api_calls es = []" by auto
  show ?thesis
  proof (cases t)
    case (Inl x)
    with assms t es show ?thesis
      by (auto simp: io_simps intro!: exI [of _ "SetTokenRef None # es"])
  next
    case (Inr tok)
    with assms t have g: "r_fetch (api_request p meth path opts tok) w h1 = (g, h')"
      by (simp add: io_simps)
    from r_fetch_run [OF g] have h': "h' = h1 @ [RFetch (api_request p meth path opts tok)]" by simp
    have "map_option ct_token (tokenRef h') = Some tok"
      using fetchToken_run [OF t] Inr by (auto simp: h' tokenRef_snoc)
    moreover have "isl g \<or> (\<exists>res. g = Inr res \<and> answered w h' (api_request p meth path opts tok) res)"
      using g by (cases g) (auto dest: r_fetch_answered)
    ultimately show ?thesis using es h'
      by (intro exI [of _ "SetTokenRef None # es @ [RFetch (api_request p meth path opts tok)]"]) auto
  qed
qed

subsection \<open>Properties\<close>

text \<open>
  The token fetch stops within \<^verbatim>\<open>tokenRetry\<close> attempts. It pauses 0.5, 1, 1.5, ... seconds between
  attempts; when it returns a token, after fewer than \<^verbatim>\<open>tokenRetry\<close> failures, that token is the
  cached one; when it throws, it has made all the attempts and the cache is as before.
\<close>

lemma token_fetch_bounded:
  "case fetchToken p w h of
     (Inr t, h') \<Rightarrow> map_option ct_token (tokenRef h') = Some t \<and>
       (\<exists>k < pr_tokenRetry p. r_sleeps h' = r_sleeps h @ pauses 0 k)
   | (Inl x, h') \<Rightarrow> tokenRef h' = tokenRef h \<and>
       r_sleeps h' = r_sleeps h @ pauses 0 (pr_tokenRetry p - 1)"
proof (cases "fetchToken p w h")
  case (Pair r h')
  from fetchToken_run [OF Pair] show ?thesis
    unfolding Pair by (auto split: sum.splits)
qed

text \<open>
  C11: \<open>callApi\<close> sends its request at most twice, the second time only after a 401 and with the
  token it has just fetched and cached; a value is returned only as what a successful
  response says (204: undefined, 2xx: its JSON), and the last response decides.
\<close>

theorem callApi_retries_only_401:
  "case callApi p meth path opts w h of (r, h') \<Rightarrow> \<exists>es. h' = h @ es \<and>
     ((api_calls es = [] \<and> isl r) \<or>
      (\<exists>tok. api_calls es = [api_request p meth path opts tok] \<and>
         (isl r \<or> (\<exists>res. answered w h' (api_request p meth path opts tok) res \<and>
                     rs_status res \<noteq> 401 \<and> r = api_outcome meth path res))) \<or>
      (\<exists>tok tok' res. api_calls es =
           [api_request p meth path opts tok, api_request p meth path opts tok'] \<and>
         answered w h' (api_request p meth path opts tok) res \<and> rs_status res = 401 \<and>
         map_option ct_token (tokenRef h') = Some tok' \<and>
         (isl r \<or> (\<exists>res'. answered w h' (api_request p meth path opts tok') res' \<and>
                     r = api_outcome meth path res'))))"
proof (cases "callApi p meth path opts w h")
  case (Pair r h')
  let ?R = "api_request p meth path opts"
  obtain t h1 where t: "getToken p w h = (t, h1)" by fastforce
  from yields_run [OF getToken_yields t] obtain e1 where e1: "h1 = h @ e1" "api_calls e1 = []" by blast
  show ?thesis
  proof (cases t)
    case (Inl x)
    with Pair t e1 show ?thesis by (auto simp: callApi_def io_simps)
  next
    case (Inr tok)
    obtain f h2 where f: "r_fetch (?R tok) w h1 = (f, h2)" by fastforce
    from r_fetch_run [OF f] have h2: "h2 = h @ e1 @ [RFetch (?R tok)]" using e1 by simp
    consider x where "f = Inl x" | res where "f = Inr res" "rs_status res \<noteq> 401"
      | res where "f = Inr res" "rs_status res = 401" by (cases f) auto
    then show ?thesis
    proof cases
      case 1
      with Pair t Inr f h2 e1 show ?thesis
        by (auto simp: callApi_def io_simps intro!: exI [of _ "e1 @ [RFetch (?R tok)]"])
    next
      case (2 res)
      then have "(r, h') = (api_outcome meth path res, h2)"
        using Pair t Inr f by (simp add: callApi_def io_simps api_tail)
      with Pair h2 e1 r_fetch_answered [OF f [unfolded 2(1)]] 2 show ?thesis
        by (auto intro!: exI [of _ "e1 @ [RFetch (?R tok)]"])
    next
      case (3 res)
      obtain g h3 where g: "andThen (emit (SetTokenRef None)) (\<lambda>_. andThen (fetchToken p)
          (\<lambda>t. r_fetch (?R t))) w h2 = (g, h3)" by fastforce
      have rh: "h' = h3" "r = (case g of Inl x \<Rightarrow> Inl x | Inr res' \<Rightarrow> api_outcome meth path res')"
        using Pair t Inr f 3 g by (cases g; auto simp: callApi_def io_simps api_tail split: prod.splits sum.splits)+
      from resend_run [OF g] obtain e2 where e2: "h3 = h2 @ e2"
        and r2: "(api_calls e2 = [] \<and> isl g) \<or> (\<exists>tok'. api_calls e2 = [?R tok'] \<and>
          map_option ct_token (tokenRef h3) = Some tok' \<and>
          (isl g \<or> (\<exists>res'. g = Inr res' \<and> answered w h3 (?R tok') res')))" by blast
      have "answered w h3 (?R tok) res"
        using r_fetch_answered [OF f [unfolded 3(1)]] e2 by (auto intro: answered_prefix)
      moreover have "isl g \<Longrightarrow> isl r" "g = Inr res' \<Longrightarrow> r = api_outcome meth path res'" for res'
        using rh by (auto split: sum.splits)
      moreover have "h' = h @ e1 @ RFetch (?R tok) # e2" using rh e2 h2 by simp
      ultimately show ?thesis unfolding Pair prod.case using r2 3 e1 rh(1)
        by (intro exI [of _ "e1 @ RFetch (?R tok) # e2"]) fastforce
    qed
  qed
qed

text \<open>
  A missing folder is null. With a fresh token in the cache, \<open>getFolderByPath\<close> answered with a
  404 returns null after a single request, where the Node SDK's \<open>getByPath\<close> throws.
\<close>

lemma getFolderByPath_missing_is_null:
  assumes "tokenRef h = Some c" and "w (h @ [Now]) = Clock t" and "token_fresh p t c"
    and "w (h @ [Now, RFetch (api_request p ''GET'' ''/folders/by-path''
      (with_params [(''path'', Some (JStr path))]) (ct_token c))]) = RResponded res"
    and "rs_status res = 404"
  shows "getFolderByPath p path w h = (Inr (Some JNull), h @ [Now, RFetch (api_request p ''GET''
      ''/folders/by-path'' (with_params [(''path'', Some (JStr path))]) (ct_token c))])"
proof -
  have "getToken p w h = (Inr (ct_token c), h @ [Now])"
    using assms by (simp add: getToken_def io_simps read_tokenRef_def now_def)
  then have "callApi p ''GET'' ''/folders/by-path'' (with_params [(''path'', Some (JStr path))]) w h =
     (Inl (api_error ''GET'' ''/folders/by-path'' res), h @ [Now, RFetch (api_request p ''GET''
      ''/folders/by-path'' (with_params [(''path'', Some (JStr path))]) (ct_token c))])"
    using assms by (simp add: callApi_def io_simps r_fetch_def rs_ok_def)
  then show ?thesis
    using assms by (simp add: getFolderByPath_def io_simps api_error_def Let_def)
qed

definition demo_provider :: provider where
  "demo_provider = \<lparr>pr_projectId = ''p'', pr_baseUrl = ''http://h/'', pr_tokenEndpoint = ''/token'',
     pr_tokenFetcher = False, pr_fetchInitialToken = True, pr_tokenRefreshBuffer = 60,
     pr_tokenRetry = 3, pr_date_ms = (\<lambda>v. None)\<rparr>"

definition demo_cached :: "r_event list" where
  "demo_cached = [SetTokenRef (Some \<lparr>ct_token = Some (JStr ''t''), ct_expiresAt = Some 100000\<rparr>)]"

text \<open>A world at time 0 whose API answers with the status \<open>st\<close> and storage with 200.\<close>

definition demo_api :: "nat \<Rightarrow> (r_event, r_reply) world" where
  "demo_api st h = (case rev h of
     Now # _ \<Rightarrow> Clock 0
   | XhrSend u b t # _ \<Rightarrow> XhrDone [(2, 2)] (Some 200)
   | _ \<Rightarrow> RResponded \<lparr>rs_status = st, rs_statusText = [], rs_headers = [], rs_json = Some (JObj [])\<rparr>)"

lemma getFolderByPath_missing_is_null_witness:
  "fst (getFolderByPath demo_provider ''a/b'' (demo_api 404) demo_cached) = Inr (Some JNull)"
proof -
  have "tokenRef demo_cached = Some \<lparr>ct_token = Some (JStr ''t''), ct_expiresAt = Some 100000\<rparr>"
    by (simp add: demo_cached_def tokenRef_def)
  from getFolderByPath_missing_is_null [OF this, of "demo_api 404" 0 demo_provider "''a/b''"]
  show ?thesis by (simp add: demo_api_def token_fresh_def demo_provider_def)
qed

lemma uploadToStorage_run:
  assumes "uploadToStorage u f cb w h = (Inr x, h')"
  shows "prefix (h @ [XhrSend u (wf_bytes f) (or_octets (wf_type f))]) h' \<and>
    (\<exists>evs s. w (h @ [XhrSend u (wf_bytes f) (or_octets (wf_type f))]) = XhrDone evs (Some s) \<and>
       200 \<le> s \<and> s < 300)"
proof -
  let ?h = "h @ [XhrSend u (wf_bytes f) (or_octets (wf_type f))]"
  from assms obtain evs st h2 where "w ?h = XhrDone evs st" and
      p: "progress_events cb evs w ?h = (Inr (), h2)" and "h' = h2" "\<exists>s. st = Some s \<and> 200 \<le> s \<and> s < 300"
    by (auto simp: uploadToStorage_def io_simps split: r_reply.splits prod.splits sum.splits
        option.splits if_splits)
  moreover have "prefix ?h h2"
    using appends_progress_events [of cb evs] p unfolding appends_def by (metis snd_conv)
  ultimately show ?thesis by blast
qed

text \<open>
  C12: an upload of the React SDK returns a record only when storage took the file: the whole file
  was sent in one PUT that storage answered with a 2xx status, the confirmation was requested
  after it, and the record after the confirmation. (The Node SDK does not look at the status.)
\<close>

theorem upload_returns_only_when_stored:
  assumes "r_upload p f opts w h = (Inr v, h')"
  shows "\<exists>h1 u fid evs s h2 h3 h4 r.
    w (h1 @ [XhrSend u (wf_bytes f) (or_octets (wf_type f))]) = XhrDone evs (Some s) \<and>
    200 \<le> s \<and> s < 300 \<and> prefix (h1 @ [XhrSend u (wf_bytes f) (or_octets (wf_type f))]) h2 \<and>
    confirmUpload p fid w h2 = (Inr r, h3) \<and>
    r_getFile p fid w h3 = (Inr v, h')"
proof -
  from assms obtain fid u e h1 h2 r h3 where
      1: "uploadToStorage (interp u) f (ro_onProgress opts) w h1 = (Inr (), h2)"
    and 2: "confirmUpload p (interp fid) w h2 = (Inr r, h3)"
    and 3: "callApi p ''GET'' (''/files/'' @ interp fid) no_options w h3 = (Inr v, h')"
    by (auto simp: r_upload_def io_simps split: prod.splits sum.splits)
  from uploadToStorage_run [OF 1] 2 3 show ?thesis
    unfolding r_getFile_def [symmetric] by blast
qed

lemma demo_callApi:
  "tokenRef h = tokenRef demo_cached \<Longrightarrow> callApi demo_provider m path opts (demo_api 200) h =
     (Inr (Some (JObj [])), h @ [Now, RFetch (api_request demo_provider m path opts (Some (JStr ''t'')))])"
  by (simp add: callApi_def getToken_def io_simps read_tokenRef_def now_def demo_api_def
      token_fresh_def demo_provider_def demo_cached_def tokenRef_def r_fetch_def rs_ok_def r_json_def)

definition demo_file :: web_file where
  "demo_file = \<lparr>wf_name = ''a'', wf_type = [], wf_bytes = [1, 2]\<rparr>"

definition demo_options :: "bool \<Rightarrow> r_upload_options" where
  "demo_options cb = \<lparr>ro_folderId = None, ro_metadata = None, ro_tags = None, ro_onProgress = cb\<rparr>"

lemma demo_upload:
  "\<exists>h'. r_upload demo_provider demo_file (demo_options cb) (demo_api 200) demo_cached =
     (Inr (Some (JObj [])), h')"
  by (simp add: r_upload_def initUpload_def confirmUpload_def io_simps demo_callApi r_prop_def
      uploadToStorage_def tokenRef_snoc demo_file_def demo_options_def)
    (simp add: demo_api_def io_simps demo_callApi tokenRef_def)

lemma upload_returns_only_when_stored_witness:
  "\<exists>h1 u ct. demo_api 200 (h1 @ [XhrSend u [1, 2] ct]) = XhrDone [(2, 2)] (Some 200)"
proof -
  obtain h' where "r_upload demo_provider demo_file (demo_options False) (demo_api 200) demo_cached =
     (Inr (Some (JObj [])), h')" using demo_upload by blast
  from upload_returns_only_when_stored [OF this] show ?thesis
    by (auto simp: demo_api_def demo_file_def)
qed

end
