(* ===== verification/React_Hooks.thy ===== *)
theory React_Hooks
  imports Item_Store React_Sdk
begin

text \<open>
  The managed hooks of the React SDK (\<^verbatim>\<open>sdks/react/src/hooks/\<close>): the upload list of \<^verbatim>\<open>useUpload\<close>, the
  paging of \<^verbatim>\<open>useFiles\<close> and \<^verbatim>\<open>useInfiniteFiles\<close>, \<^verbatim>\<open>useFolder\<close>, \<^verbatim>\<open>useSearch\<close> and \<^verbatim>\<open>useFile\<close>. The query cache of
  TanStack Query is not under \<^verbatim>\<open>src\<close>; the functions the hooks hand to it are modelled.
\<close>

subsection \<open>useUpload\<close>

datatype r_upload_status = RPending | RUploading | RSuccess | RFailed

record upload_state =
  us_id :: string
  us_filename :: string
  us_status :: r_upload_status
  us_progress :: nat
  us_file :: "json option"
  us_error :: "r_exn option"

record r_patch =
  rp_status :: "r_upload_status option"
  rp_progress :: "nat option"
  rp_file :: "json option option"
  rp_error :: "r_exn option option"

definition no_r_patch :: r_patch where
  "no_r_patch = \<lparr>rp_status = None, rp_progress = None, rp_file = None, rp_error = None\<rparr>"

definition keep_or :: "'a option \<Rightarrow> 'a \<Rightarrow> 'a" where
  "keep_or n d = (case n of None \<Rightarrow> d | Some x \<Rightarrow> x)"

definition apply_r_patch :: "r_patch \<Rightarrow> upload_state \<Rightarrow> upload_state" where
  "apply_r_patch p u = u\<lparr>us_status := keep_or (rp_status p) (us_status u),
     us_progress := keep_or (rp_progress p) (us_progress u),
     us_file := keep_or (rp_file p) (us_file u), us_error := keep_or (rp_error p) (us_error u)\<rparr>"

definition updateUpload :: "string \<Rightarrow> r_patch \<Rightarrow> upload_state list \<Rightarrow> upload_state list" where
  "updateUpload k p us = map (\<lambda>u. if us_id u = k then apply_r_patch p u else u) us"

definition new_upload :: "string \<Rightarrow> web_file \<Rightarrow> upload_state" where
  "new_upload k f = \<lparr>us_id = k, us_filename = wf_name f, us_status = RPending, us_progress = 0,
     us_file = Some JNull, us_error = None\<rparr>"

text \<open>\<open>ids\<close> are the ids that \<^verbatim>\<open>upload\<close> makes of name, time and a random number.\<close>

definition add_uploads :: "string list \<Rightarrow> web_file list \<Rightarrow> upload_state list \<Rightarrow> upload_state list" where
  "add_uploads ids files us = us @ map2 new_upload ids files"

record use_upload_options =
  uo_upload :: r_upload_options
  uo_onComplete :: "json option \<Rightarrow> r_exn option"

text \<open>\<^verbatim>\<open>onComplete\<close> may throw; it runs inside the \<^verbatim>\<open>try\<close>.\<close>

fun progress_of :: "r_event \<Rightarrow> nat list" where
  "progress_of (RProgress p) = [percentage p]"
| "progress_of _ = []"

definition failed_patch :: "r_exn \<Rightarrow> r_patch" where
  "failed_patch err = no_r_patch\<lparr>rp_status := Some RFailed, rp_error := Some (Some (as_error err))\<rparr>"

text \<open>The updates that the upload of one file makes, in the world that answers it.\<close>

definition upload_one ::
    "provider \<Rightarrow> use_upload_options \<Rightarrow> (r_event, r_reply) world \<Rightarrow> r_event list \<Rightarrow> web_file \<Rightarrow> r_patch list" where
  "upload_one p opts w h f = (case r_upload p f ((uo_upload opts)\<lparr>ro_onProgress := True\<rparr>) w h of (r, h') \<Rightarrow>
     [no_r_patch\<lparr>rp_status := Some RUploading\<rparr>] @
     map (\<lambda>n. no_r_patch\<lparr>rp_progress := Some n\<rparr>) (concat (map progress_of (drop (length h) h'))) @
     (case r of
        Inl err \<Rightarrow> [failed_patch err]
      | Inr file \<Rightarrow> no_r_patch\<lparr>rp_status := Some RSuccess, rp_progress := Some 100, rp_file := Some file\<rparr> #
          (case uo_onComplete opts file of None \<Rightarrow> [] | Some err \<Rightarrow> [failed_patch err])))"

definition use_upload ::
    "provider \<Rightarrow> use_upload_options \<Rightarrow> (string \<Rightarrow> (r_event, r_reply) world) \<Rightarrow> r_event list \<Rightarrow>
     string list \<Rightarrow> web_file list \<Rightarrow> (string \<times> r_patch list) list" where
  "use_upload p opts w h ids files = map (\<lambda>(k, f). (k, upload_one p opts (w k) h f)) (zip ids files)"

definition cancel :: "string \<Rightarrow> upload_state list \<Rightarrow> upload_state list" where
  "cancel k us = updateUpload k
     (no_r_patch\<lparr>rp_status := Some RFailed, rp_error := Some (Some (RError ''Cancelled''))\<rparr>) us"

definition retry :: "string \<Rightarrow> upload_state list \<Rightarrow> upload_state list" where
  "retry k us = (if k \<in> us_id ` set us
     then updateUpload k (no_r_patch\<lparr>rp_status := Some RPending, rp_progress := Some 0,
        rp_error := Some None\<rparr>) us
     else us)"

definition clear :: "upload_state list \<Rightarrow> upload_state list" where
  "clear us = []"

definition r_isUploading :: "upload_state list \<Rightarrow> bool" where
  "r_isUploading us = list_ex (\<lambda>u. us_status u = RUploading) us"

definition apply_uploads :: "(string \<times> r_patch) list \<Rightarrow> upload_state list \<Rightarrow> upload_state list" where
  "apply_uploads ps us = fold (\<lambda>(k, p). updateUpload k p) ps us"

subsection \<open>Lists and paging\<close>

text \<open>\<^verbatim>\<open>data?.k ?? d\<close>.\<close>

definition data_field :: "json option \<Rightarrow> string \<Rightarrow> json \<Rightarrow> json" where
  "data_field data k d = (case data of None \<Rightarrow> d | Some j \<Rightarrow> nullish_or (jget j k) d)"

record use_files_options =
  fo_folderId :: "string option option"
  fo_tags :: "string list option"
  fo_sortBy :: "string option"
  fo_sortOrder :: "string option"
  fo_limit :: "nat option"
  fo_metadata :: "string option"
  fo_enabled :: "bool option"

definition fo_page_size :: "use_files_options \<Rightarrow> nat" where
  "fo_page_size opts = (case fo_limit opts of None \<Rightarrow> 20 | Some n \<Rightarrow> n)"

definition files_query :: "provider \<Rightarrow> use_files_options \<Rightarrow> nat \<Rightarrow> json option rsdk" where
  "files_query p opts offset = listFiles p (no_filters\<lparr>rf_folderId := fo_folderId opts,
     rf_tags := fo_tags opts, rf_sortBy := fo_sortBy opts, rf_sortOrder := fo_sortOrder opts,
     rf_metadata := fo_metadata opts, rf_limit := Some (int (fo_page_size opts)),
     rf_offset := Some (int offset)\<rparr>)"

record files_view =
  fv_files :: json
  fv_totalCount :: json
  fv_hasMore :: json

definition files_result :: "json option \<Rightarrow> files_view" where
  "files_result data = \<lparr>fv_files = data_field data ''items'' (JArr []),
     fv_totalCount = data_field data ''total'' (JInt 0),
     fv_hasMore = data_field data ''hasMore'' (JBool False)\<rparr>"

definition loadMore :: "use_files_options \<Rightarrow> nat \<Rightarrow> nat" where
  "loadMore opts offset = offset + fo_page_size opts"

record 'f list_page =
  lp_items :: "'f list"
  lp_total :: nat
  lp_limit :: nat
  lp_offset :: nat

definition getNextPageParam :: "'f list_page \<Rightarrow> nat option" where
  "getNextPageParam pg = (let next = lp_offset pg + lp_limit pg in
     if next < lp_total pg then Some next else None)"

text \<open>
  Fetching to the end: \<open>serve off\<close> is the page the query function resolves to. At most \<open>fuel\<close> pages
  are fetched; the pages come with the next page parameter, None when there is none.
\<close>

fun fetch_pages :: "nat \<Rightarrow> (nat \<Rightarrow> 'f list_page) \<Rightarrow> nat \<Rightarrow> 'f list_page list \<times> nat option" where
  "fetch_pages 0 serve off = ([], Some off)"
| "fetch_pages (Suc fuel) serve off = (let pg = serve off in
     case getNextPageParam pg of
       None \<Rightarrow> ([pg], None)
     | Some nxt \<Rightarrow> (case fetch_pages fuel serve nxt of (pgs, r) \<Rightarrow> (pg # pgs, r)))"

definition infinite_files :: "'f list_page list \<Rightarrow> 'f list" where
  "infinite_files pgs = concat (map lp_items pgs)"

subsection \<open>useFolder and useSearch\<close>

record breadcrumb =
  bc_id :: "string option"
  bc_name :: string

definition path_parts :: "string \<Rightarrow> string list" where
  "path_parts path = filter (\<lambda>s. s \<noteq> []) (split_on (CHR ''/'') path)"

text \<open>\<open>folder\<close> is the id and the path of the folder, None at the root.\<close>

definition buildBreadcrumbs :: "(string \<times> string) option \<Rightarrow> breadcrumb list" where
  "buildBreadcrumbs folder = \<lparr>bc_id = None, bc_name = ''Root''\<rparr> #
     (case folder of None \<Rightarrow> []
      | Some (fid, path) \<Rightarrow> let parts = path_parts path in
          map (\<lambda>(i, nm). \<lparr>bc_id = Some (if i + 1 < length parts then ''path-'' @ show_nat i else fid),
                          bc_name = nm\<rparr>) (enumerate 0 parts))"

text \<open>The query of \<^verbatim>\<open>useFolder\<close>: three calls at the same time; their order here is the order of the source.\<close>

definition folder_query :: "provider \<Rightarrow> string option \<Rightarrow> (json option \<times> json option \<times> json option) rsdk" where
  "folder_query p folderId =
     andThen (case folderId of Some (c # d) \<Rightarrow> r_getFolder p (c # d) | _ \<Rightarrow> ret (Some JNull)) (\<lambda>folderData.
     andThen (listFiles p (no_filters\<lparr>rf_folderId := Some folderId, rf_limit := Some 100\<rparr>)) (\<lambda>filesData.
     andThen (listFolders p folderId None None None) (\<lambda>subfoldersData.
     andThen (r_prop filesData ''items'') (\<lambda>fs.
     andThen (r_prop subfoldersData ''items'') (\<lambda>ss. ret (folderData, fs, ss))))))"

text \<open>\<open>query\<close> holds the entries of \<^verbatim>\<open>currentQuery\<close>.\<close>

definition no_keys :: "json option \<Rightarrow> bool" where
  "no_keys v = (case v of Some (JObj kvs) \<Rightarrow> kvs = [] | _ \<Rightarrow> True)"

definition search_query :: "provider \<Rightarrow> nat option \<Rightarrow> (string \<times> json) list \<Rightarrow> json option rsdk" where
  "search_query p lm query =
     (if \<not> truthy (map_of query ''q'') \<and> no_keys (map_of query ''filters'')
      then ret (Some (JObj [(''hits'', JArr []), (''total'', JInt 0), (''queryTimeMs'', JInt 0)]))
      else r_search p (put ''limit'' (JInt (case lm of None \<Rightarrow> 20 | Some n \<Rightarrow> int n)) query))"

definition use_file_enabled :: "string \<Rightarrow> bool option \<Rightarrow> bool" where
  "use_file_enabled fid enabled = (fid \<noteq> [] \<and> enabled \<noteq> Some False)"

definition upload_token_refresh :: "provider \<Rightarrow> json option rsdk" where
  "upload_token_refresh p = getToken p"

subsection \<open>Uploads side by side\<close>

interpretation react_uploads: item_store us_id updateUpload apply_r_patch
  by unfold_locales (auto simp: updateUpload_def apply_r_patch_def)

lemma apply_uploads_eq: "apply_uploads = react_uploads.apply_all"
  by (simp add: fun_eq_iff apply_uploads_def react_uploads.apply_all_def)

lemma status_app_all:
  "us_status (react_uploads.app_all ps u) = fold (\<lambda>p s. keep_or (rp_status p) s) ps (us_status u)"
  unfolding react_uploads.app_all_def
  by (induction ps arbitrary: u) (simp_all add: apply_r_patch_def)

lemma fold_progress_patches:
  "fold (\<lambda>p s. keep_or (rp_status p) s) (map (\<lambda>n. no_r_patch\<lparr>rp_progress := Some n\<rparr>) ns) s = s"
  by (induction ns) (simp_all add: no_r_patch_def keep_or_def)

text \<open>How the upload of one file ends: the outcome of the provider's upload and of \<^verbatim>\<open>onComplete\<close>.\<close>

definition upload_end ::
    "provider \<Rightarrow> use_upload_options \<Rightarrow> (r_event, r_reply) world \<Rightarrow> r_event list \<Rightarrow> web_file \<Rightarrow> r_upload_status" where
  "upload_end p opts w h f = (case fst (r_upload p f ((uo_upload opts)\<lparr>ro_onProgress := True\<rparr>) w h) of
     Inl _ \<Rightarrow> RFailed | Inr file \<Rightarrow> if uo_onComplete opts file = None then RSuccess else RFailed)"

lemma upload_one_status:
  "us_status (react_uploads.app_all (upload_one p opts w h f) u) = upload_end p opts w h f"
  unfolding status_app_all upload_one_def upload_end_def
  by (auto simp: fold_progress_patches failed_patch_def no_r_patch_def keep_or_def
      split: prod.splits sum.splits option.splits)

text \<open>The last update of a run is the one that decides its status.\<close>

lemma upload_one_last:
  "upload_one p opts w h f \<noteq> [] \<and>
   rp_status (last (upload_one p opts w h f)) = Some (upload_end p opts w h f)"
  unfolding upload_one_def upload_end_def
  by (auto simp: failed_patch_def no_r_patch_def split: prod.splits sum.splits option.splits)

lemma fold_status_last:
  "ps \<noteq> [] \<Longrightarrow> rp_status (last ps) = Some s \<Longrightarrow>
   fold (\<lambda>p s. keep_or (rp_status p) s) ps s0 = s"
  by (cases ps rule: rev_cases) (auto simp: keep_or_def)

text \<open>
  Uploads started together do not disturb each other or the uploads listed before them. For
  fresh, distinct ids and any interleaving of their updates, the list keeps its ids in order,
  earlier entries stay as they are, and each new entry ends as a success exactly when its own
  upload returned a record and the completion callback did not throw, and as failed otherwise.
\<close>

lemma react_uploads_settle:
  assumes "distinct ids" and "set ids \<inter> us_id ` set us = {}" and "length ids = length files"
    and "merges (use_upload p opts w h ids files) t"
  shows "map us_id (apply_uploads t (add_uploads ids files us)) = map us_id us @ ids \<and>
    take (length us) (apply_uploads t (add_uploads ids files us)) = us \<and>
    map us_status (drop (length us) (apply_uploads t (add_uploads ids files us))) =
      map (\<lambda>(k, f). upload_end p opts (w k) h f) (zip ids files)"
proof -
  let ?ts = "use_upload p opts w h ids files"
  have keys: "map fst ?ts = ids"
    using assms(3) by (simp add: use_upload_def comp_def split_def)
  have m: "map_of ?ts k = Some (upload_one p opts (w k) h f)" if "(k, f) \<in> set (zip ids files)" for k f
    by (rule map_of_is_SomeI) (use that keys assms(1) in \<open>auto simp: use_upload_def intro: rev_image_eqI\<close>)
  have app: "apply_uploads t xs = map (\<lambda>u. case map_of ?ts (us_id u) of None \<Rightarrow> u
      | Some ps \<Rightarrow> react_uploads.app_all ps u) xs" for xs
    unfolding apply_uploads_eq
    by (rule react_uploads.apply_merged [OF assms(4)]) (simp add: keys assms(1))
  have "map_of ?ts (us_id u) = None" if "u \<in> set us" for u
  proof -
    have "fst ` set ?ts = set ids" using arg_cong [OF keys, of set] by simp
    with that assms(2) show ?thesis by (auto simp: map_of_eq_None_iff)
  qed
  then have old: "apply_uploads t us = us"
    unfolding app by (intro map_idI) simp
  have new: "apply_uploads t (map2 new_upload ids files) =
      map (\<lambda>(k, f). react_uploads.app_all (upload_one p opts (w k) h f) (new_upload k f)) (zip ids files)"
    unfolding app by (auto simp: new_upload_def m split: option.splits)
  have "apply_uploads t (add_uploads ids files us) = apply_uploads t us @ apply_uploads t (map2 new_upload ids files)"
    by (simp add: app add_uploads_def)
  then show ?thesis
    using assms(3) old new by (simp add: upload_one_status comp_def split_def new_upload_def)
qed

definition demo_use :: use_upload_options where
  "demo_use = \<lparr>uo_upload = demo_options False, uo_onComplete = (\<lambda>v. None)\<rparr>"

lemma demo_upload_end: "upload_end demo_provider demo_use (demo_api 200) demo_cached demo_file = RSuccess"
proof -
  have "(uo_upload demo_use)\<lparr>ro_onProgress := True\<rparr> = demo_options True"
    by (simp add: demo_use_def demo_options_def)
  then show ?thesis
    using demo_upload [of True] by (auto simp: upload_end_def demo_use_def)
qed

lemma react_uploads_settle_witness:
  "\<exists>t. map us_status (apply_uploads t (add_uploads [''k''] [demo_file] [])) = [RSuccess]"
proof -
  obtain t where t: "merges (use_upload demo_provider demo_use (\<lambda>k. demo_api 200) demo_cached
      [''k''] [demo_file]) t" using merges_exists by blast
  have "map us_status (apply_uploads t (add_uploads [''k''] [demo_file] [])) = [RSuccess]"
    using react_uploads_settle [OF _ _ _ t, of "[]"] demo_upload_end by simp
  then show ?thesis by (rule exI)
qed

text \<open>
  Cancelling does not stop an upload. Whatever the state of an upload when its entry is
  cancelled, the updates that are still to come decide: unless none is left, the entry ends with the
  status of the upload, a success included, as if it had not been cancelled.
\<close>

lemma cancel_is_overridden:
  assumes "upload_one p opts w h f = done_ps @ rest" and "rest \<noteq> []"
  shows "map us_status (filter (\<lambda>u. us_id u = k)
      (apply_uploads (map (Pair k) rest) (cancel k (apply_uploads (map (Pair k) done_ps) us)))) =
    map (\<lambda>u. upload_end p opts w h f) (filter (\<lambda>u. us_id u = k) us)"
proof -
  have "rp_status (last rest) = Some (upload_end p opts w h f)"
    using upload_one_last [of p opts w h f] assms by simp
  then have f: "fold (\<lambda>p s. keep_or (rp_status p) s) rest s = upload_end p opts w h f" for s
    using assms(2) by (rule fold_status_last [rotated])
  have st: "react_uploads.apply_all (map (Pair k) ps) xs =
      map (\<lambda>u. if us_id u = k then react_uploads.app_all ps u else u) xs" for ps xs
  proof -
    have "steps_of j (map (Pair k) ps) = (if j = k then ps else [])" for j
      by (induction ps) auto
    then show ?thesis by (simp add: react_uploads.apply_all_map react_uploads.app_all_def)
  qed
  have "filter (\<lambda>u. us_id u = k) (react_uploads.apply_all (map (Pair k) ps) xs) =
      map (react_uploads.app_all ps) (filter (\<lambda>u. us_id u = k) xs)" for ps xs
    unfolding st by (induction xs) auto
  moreover have "filter (\<lambda>u. us_id u = k) (updateUpload k q xs) =
      map (apply_r_patch q) (filter (\<lambda>u. us_id u = k) xs)" for q xs
    unfolding updateUpload_def by (induction xs) (auto simp: apply_r_patch_def)
  ultimately show ?thesis
    unfolding apply_uploads_eq cancel_def by (simp add: status_app_all f)
qed

lemma cancel_is_overridden_witness:
  "map us_status (filter (\<lambda>u. us_id u = ''k'')
     (apply_uploads (map (Pair ''k'') (upload_one demo_provider demo_use (demo_api 200) demo_cached demo_file))
       (cancel ''k'' [new_upload ''k'' demo_file]))) = [RSuccess]"
  using cancel_is_overridden [of demo_provider demo_use "demo_api 200" demo_cached demo_file "[]"
      "upload_one demo_provider demo_use (demo_api 200) demo_cached demo_file" "''k''"
      "[new_upload ''k'' demo_file]"]
    upload_one_last [of demo_provider demo_use "demo_api 200" demo_cached demo_file] demo_upload_end
  by (simp add: apply_uploads_def new_upload_def)

definition serve_rows :: "'f list \<Rightarrow> nat \<Rightarrow> nat \<Rightarrow> 'f list_page" where
  "serve_rows rows lm off = \<lparr>lp_items = take lm (drop off rows), lp_total = length rows,
     lp_limit = lm, lp_offset = off\<rparr>"

lemma fetch_pages_rows:
  assumes "0 < lm" and "length rows - off < fuel"
  shows "snd (fetch_pages fuel (serve_rows rows lm) off) = None \<and>
    infinite_files (fst (fetch_pages fuel (serve_rows rows lm) off)) = drop off rows"
  using assms(2)
proof (induction fuel arbitrary: off)
  case (Suc fuel)
  let ?pg = "serve_rows rows lm off"
  show ?case
  proof (cases "off + lm < length rows")
    case True
    then have "length rows - (off + lm) < fuel" using Suc.prems assms(1) by simp
    from Suc.IH [OF this] True show ?thesis
      using append_take_drop_id [of lm "drop off rows"]
      by (auto simp: getNextPageParam_def serve_rows_def infinite_files_def Let_def add.commute
          split: prod.splits)
  next
    case False
    then show ?thesis
      by (simp add: getNextPageParam_def serve_rows_def infinite_files_def)
  qed
qed simp

text \<open>
  Scrolling to the end shows every file once. Against a server that serves a fixed list in
  pages of a positive size, the pages fetched by following \<open>getNextPageParam\<close> from the start
  end after at most as many pages as there are files (one page for none), and their items in order
  are the whole list.
\<close>

lemma infinite_files_complete:
  assumes "0 < lm"
  shows "snd (fetch_pages (Suc (length rows)) (serve_rows rows lm) 0) = None \<and>
    infinite_files (fst (fetch_pages (Suc (length rows)) (serve_rows rows lm) 0)) = rows"
  using fetch_pages_rows [OF assms, of rows 0 "Suc (length rows)"] by (simp del: fetch_pages.simps)

lemma infinite_files_complete_witness:
  "infinite_files (fst (fetch_pages 4 (serve_rows [10, 20, 30::nat] 2) 0)) = [10, 20, 30]"
  using infinite_files_complete [of 2 "[10, 20, 30::nat]"] by (simp add: numeral_eq_Suc)

end
