(* ===== verification/Iam_Access.thy ===== *)
theory Iam_Access
  imports Fn_Prelude
begin

text \<open>
  Permissions and the internal routes of the identity service (\<^verbatim>\<open>iam/src/modules/server/utils/\<close>,
  \<^verbatim>\<open>iam/src/lib/verifyAccessToken.ts\<close>, \<^verbatim>\<open>iam/src/app/api/\<close>). The database (Prisma), the session and
  API-key service (Better Auth) and the JWT library (jose) are not under \<^verbatim>\<open>src\<close>: what a handler asks
  of them is an argument. The text of a JSON column is its parsed value, None when it is malformed.
\<close>

subsection \<open>Permission keys\<close>

definition owner_permissions :: "string list" where
  "owner_permissions =
     [''files:upload'', ''files:download'', ''files:read'', ''files:delete'', ''files:metadata'',
      ''folders:read'', ''folders:write'', ''upload_tokens:create'', ''webhooks:read'',
      ''webhooks:write'', ''projects:read'', ''projects:update'', ''audit:read'',
      ''compliance:manage'']"

text \<open>
  \<^verbatim>\<open>key.indexOf(":")\<close> and the two slices: the text before the first colon and the text after it. A key
  with no colon, or with nothing before it, is skipped.
\<close>

definition split_key :: "string \<Rightarrow> (string \<times> string) option" where
  "split_key key = (if CHR '':'' \<notin> set key \<or> hd key = CHR '':'' then None
     else Some (takeWhile (\<lambda>c. c \<noteq> CHR '':'') key, tl (dropWhile (\<lambda>c. c \<noteq> CHR '':'') key)))"

text \<open>
  The properties that every object has from its prototype: \<^verbatim>\<open>grouped[resource] ??= []\<close> does not assign
  for them, and the push on the inherited value throws.
\<close>

definition prototype_keys :: "string list" where
  "prototype_keys = [''constructor'', ''__defineGetter__'', ''__defineSetter__'', ''hasOwnProperty'',
     ''__lookupGetter__'', ''__lookupSetter__'', ''isPrototypeOf'', ''propertyIsEnumerable'',
     ''toString'', ''valueOf'', ''__proto__'', ''toLocaleString'']"

fun add_action :: "string \<Rightarrow> string \<Rightarrow> (string \<times> string list) list \<Rightarrow> (string \<times> string list) list" where
  "add_action r a [] = [(r, [a])]"
| "add_action r a ((r', as) # gs) = (if r' = r then (r', as @ [a]) # gs else (r', as) # add_action r a gs)"

text \<open>The grouping loop; None is the uncaught \<^verbatim>\<open>TypeError\<close>.\<close>

fun group_keys :: "string list \<Rightarrow> (string \<times> string list) list \<Rightarrow> (string \<times> string list) list option" where
  "group_keys [] gs = Some gs"
| "group_keys (k # ks) gs = (case split_key k of
     None \<Rightarrow> group_keys ks gs
   | Some (r, a) \<Rightarrow> if r \<in> set prototype_keys then None else group_keys ks (add_action r a gs))"

definition orgPermissionKeysToJson :: "string list \<Rightarrow> json option" where
  "orgPermissionKeysToJson keys = map_option
     (\<lambda>gs. JObj (map (\<lambda>(r, as). (r, JArr (map JStr as))) gs)) (group_keys keys [])"

text \<open>\<^verbatim>\<open>Object.entries\<close> of a parsed value; null throws.\<close>

fun object_entries :: "json \<Rightarrow> (string \<times> json) list option" where
  "object_entries (JObj kvs) = Some kvs"
| "object_entries (JArr vs) = Some (map (\<lambda>(i, v). (show_nat i, v)) (enumerate 0 vs))"
| "object_entries (JStr s) = Some (map (\<lambda>(i, c). (show_nat i, JStr [c])) (enumerate 0 s))"
| "object_entries JNull = None"
| "object_entries _ = Some []"

text \<open>\<^verbatim>\<open>actions.map(...)\<close> of every entry; a value that is not an array throws.\<close>

fun entry_keys :: "(string \<times> json) list \<Rightarrow> string list option" where
  "entry_keys [] = Some []"
| "entry_keys ((r, JArr as) # es) =
     map_option (\<lambda>ks. map (\<lambda>a. r @ '':'' @ js_string a) as @ ks) (entry_keys es)"
| "entry_keys _ = None"

text \<open>Every throw, and a text that does not parse, gives no keys.\<close>

definition orgPermissionJsonToKeys :: "json option \<Rightarrow> string list" where
  "orgPermissionJsonToKeys parsed = (case parsed of None \<Rightarrow> []
     | Some v \<Rightarrow> (case object_entries v of None \<Rightarrow> []
        | Some es \<Rightarrow> (case entry_keys es of None \<Rightarrow> [] | Some ks \<Rightarrow> ks)))"

subsection \<open>The permissions of a user\<close>

text \<open>\<^verbatim>\<open>member.role.split(",").map(trim).filter(Boolean)\<close>.\<close>

definition role_list :: "string \<Rightarrow> string list" where
  "role_list role = filter (\<lambda>r. r \<noteq> []) (map trim (split_on (CHR '','') role))"

text \<open>
  \<open>findMember\<close> gives the role of the member, \<open>findOrgRoles\<close> the permission columns of the roles of the
  organization with the given names. The result is the set in the order of insertion.
\<close>

definition getUserPermissions ::
    "(string \<Rightarrow> string \<Rightarrow> string option) \<Rightarrow> (string \<Rightarrow> string list \<Rightarrow> json option list) \<Rightarrow>
     string \<Rightarrow> string \<Rightarrow> string list" where
  "getUserPermissions findMember findOrgRoles userId organizationId =
     (case findMember userId organizationId of
        None \<Rightarrow> []
      | Some role \<Rightarrow>
          let roles = role_list role;
              orgRoles = findOrgRoles organizationId roles
          in if orgRoles = [] then (if ''owner'' \<in> set roles then js_set owner_permissions else [])
             else js_set (concat (map orgPermissionJsonToKeys orgRoles)))"

subsection \<open>POST /api/permissions/check\<close>

text \<open>\<^verbatim>\<open>header.startsWith("Bearer ") ? header.slice(7) : ""\<close>.\<close>

definition bearer_header :: "string option \<Rightarrow> string" where
  "bearer_header hdr = (case hdr of None \<Rightarrow> []
     | Some h \<Rightarrow> if starts_with h ''Bearer '' then drop 7 h else [])"

text \<open>A field that is a string and not empty.\<close>

definition nonempty_string :: "json option \<Rightarrow> string option" where
  "nonempty_string v = (case v of Some (JStr (c # s)) \<Rightarrow> Some (c # s) | _ \<Rightarrow> None)"

text \<open>\<open>body\<close> is what \<^verbatim>\<open>req.json()\<close> resolves to, None when it rejects.\<close>

definition permissions_check ::
    "(string \<Rightarrow> string \<Rightarrow> string list) \<Rightarrow> string option \<Rightarrow> string option \<Rightarrow> json option \<Rightarrow> route_result" where
  "permissions_check permissions internalKey authHeader body =
     (case internalKey of
        Some (c # k) \<Rightarrow>
          if bearer_header authHeader \<noteq> c # k then Reply 401 (err_json ''Unauthorized'')
          else (case body of
            None \<Rightarrow> Reply 400 (err_json ''Invalid JSON body'')
          | Some JNull \<Rightarrow> Crash
          | Some b \<Rightarrow>
             (case (nonempty_string (jget b ''userId''), nonempty_string (jget b ''organizationId''),
                    nonempty_string (jget b ''permission'')) of
                (Some u, Some org, Some perm) \<Rightarrow>
                  if CHR '':'' \<notin> set perm
                  then Reply 400 (err_json (''permission must be in '' @ [CHR 0x22] @ ''resource:action'' @
                         [CHR 0x22] @ '' format''))
                  else Reply 200 (JObj [(''allowed'', JBool (perm \<in> set (permissions u org))),
                         (''userId'', JStr u), (''organizationId'', JStr org), (''permission'', JStr perm)])
              | _ \<Rightarrow> Reply 400 (err_json ''userId, organizationId, and permission are required'')))
      | _ \<Rightarrow> Reply 503 (err_json ''Permission check endpoint is not configured''))"

subsection \<open>Access tokens\<close>

text \<open>The outcome of jose's \<^verbatim>\<open>jwtVerify\<close>: a payload, or an error of one of the classes the code tells apart.\<close>

datatype jwt_result =
    Payload json
  | JWTExpired
  | JWTInvalid
  | JWSSignatureVerificationFailed
  | JWTClaimValidationFailed
  | JoseOther

datatype token_check = ValidToken json | InvalidToken string nat string

fun verifyAccessToken :: "jwt_result \<Rightarrow> token_check" where
  "verifyAccessToken (Payload p) = ValidToken p"
| "verifyAccessToken JWTExpired = InvalidToken ''TOKEN_EXPIRED'' 401 ''Access token expired''"
| "verifyAccessToken JWTInvalid = InvalidToken ''TOKEN_INVALID'' 401 ''Invalid token''"
| "verifyAccessToken JWSSignatureVerificationFailed =
     InvalidToken ''TOKEN_SIGNATURE_INVALID'' 401 ''Invalid token signature''"
| "verifyAccessToken JWTClaimValidationFailed =
     InvalidToken ''TOKEN_CLAIM_INVALID'' 401 ''Invalid token claims (issuer/audience)''"
| "verifyAccessToken JoseOther = InvalidToken ''TOKEN_UNKNOWN_ERROR'' 401 ''Token verification failed''"

text \<open>
  Who is asking: the user of the session (\<^verbatim>\<open>session?.user?.id\<close>), the \<^verbatim>\<open>authorization\<close> header, and the
  verification of tokens.
\<close>

record caller =
  ca_session :: "string option"
  ca_header :: "string option"
  ca_jwt :: "string \<Rightarrow> jwt_result"

definition session_id :: "caller \<Rightarrow> string option" where
  "session_id c = (case ca_session c of Some (x # s) \<Rightarrow> Some (x # s) | _ \<Rightarrow> None)"

text \<open>\<^verbatim>\<open>authHeader.split(" ")[1]\<close>.\<close>

definition bearer_token :: "string option \<Rightarrow> string option" where
  "bearer_token hdr = (case hdr of None \<Rightarrow> None
     | Some h \<Rightarrow> if starts_with h ''Bearer '' then Some (split_on (CHR '' '') h ! 1) else None)"

definition token_error :: "string \<Rightarrow> nat \<Rightarrow> string \<Rightarrow> route_result" where
  "token_error code status msg = Reply status (JObj [(''error'', JStr code), (''message'', JStr msg)])"

text \<open>The user id, which may be undefined for a token without a subject, or the error response.\<close>

definition resolveUserId :: "caller \<Rightarrow> route_result + json option" where
  "resolveUserId c = (case session_id c of
     Some u \<Rightarrow> Inr (Some (JStr u))
   | None \<Rightarrow> (case bearer_token (ca_header c) of
       Some tok \<Rightarrow> (case verifyAccessToken (ca_jwt c tok) of
           InvalidToken code status msg \<Rightarrow> Inl (token_error code status msg)
         | ValidToken p \<Rightarrow> Inr (jget p ''sub''))
     | None \<Rightarrow> Inl (Reply 401 (err_json ''Unauthorized''))))"

subsection \<open>/api/internal/user-context\<close>

text \<open>
  \<open>findUser u org\<close> is the user record, restricted to the members of \<open>org\<close> when one is given. A user id
  that is not a string makes the query throw.
\<close>

definition null_or :: "json option \<Rightarrow> json" where
  "null_or v = (case v of None \<Rightarrow> JNull | Some x \<Rightarrow> x)"

definition set_query :: "string option \<Rightarrow> string option" where
  "set_query q = (case q of Some (c # s) \<Rightarrow> Some (c # s) | _ \<Rightarrow> None)"

definition user_context_get ::
    "(string \<Rightarrow> string option \<Rightarrow> json option) \<Rightarrow> (string \<Rightarrow> json option) \<Rightarrow>
     (string \<Rightarrow> string \<Rightarrow> json option) \<Rightarrow> caller \<Rightarrow> string option \<Rightarrow> route_result" where
  "user_context_get findUser findContext findMembership c orgId =
     (case resolveUserId c of
        Inl r \<Rightarrow> r
      | Inr (Some (JStr u)) \<Rightarrow>
          (case findUser u (set_query orgId) of
             None \<Rightarrow> if set_query orgId \<noteq> None then Reply 403 (err_json ''Forbidden'')
                     else Reply 404 (err_json ''User not found'')
           | Some user \<Rightarrow> Reply 200 (JObj (
               [(''user'', user), (''context'', null_or (findContext u))] @
               (if orgId = None then []
                else [(''membership'', case set_query orgId of None \<Rightarrow> JNull
                         | Some org \<Rightarrow> null_or (findMembership u org))]))))
      | Inr _ \<Rightarrow> Crash)"

text \<open>\<open>findByLogin email username org\<close>; the handler answers any authenticated caller.\<close>

definition user_lookup ::
    "(json option \<Rightarrow> json option \<Rightarrow> json option \<Rightarrow> json option) \<Rightarrow> caller \<Rightarrow> json option \<Rightarrow> route_result" where
  "user_lookup findByLogin c body =
     (case resolveUserId c of
        Inl r \<Rightarrow> r
      | Inr _ \<Rightarrow>
          if \<not> truthy body then Reply 400 (err_json ''Invalid JSON body'')
          else let email = jget (the body) ''email''; username = jget (the body) ''username'';
                   orgId = jget (the body) ''orgId''
               in if \<not> truthy email \<and> \<not> truthy username
                  then Reply 400 (err_json ''Provide at least one of: email, username'')
                  else (case findByLogin (if truthy email then email else None)
                          (if truthy username then username else None)
                          (if truthy orgId then orgId else None) of
                     None \<Rightarrow> Reply 404 (err_json ''User not found'')
                   | Some user \<Rightarrow> Reply 200 (JObj [(''user'', user)])))"

subsection \<open>PATCH /api/internal/user-context/active-organization\<close>

text \<open>The response and the write of the active organization, if any.\<close>

definition set_active_org ::
    "(string \<Rightarrow> string \<Rightarrow> bool) \<Rightarrow> string \<Rightarrow> json option \<Rightarrow> route_result \<times> (string \<times> string) option" where
  "set_active_org isMember u body =
     (case body of
        None \<Rightarrow> (Crash, None)
      | Some JNull \<Rightarrow> (Crash, None)
      | Some b \<Rightarrow>
          if \<not> truthy (jget b ''orgId'') then (Reply 400 (err_json ''orgId is required''), None)
          else (case jget b ''orgId'' of
             Some (JStr org) \<Rightarrow>
               if \<not> isMember u org then (Reply 403 (err_json ''Forbidden''), None)
               else (Reply 200 (JObj [(''activeOrganizationId'', JStr org)]), Some (u, org))
           | _ \<Rightarrow> (Crash, None)))"

definition patch_active_organization ::
    "(string \<Rightarrow> string \<Rightarrow> bool) \<Rightarrow> caller \<Rightarrow> json option \<Rightarrow> route_result \<times> (string \<times> string) option" where
  "patch_active_organization isMember c body =
     (case session_id c of
        Some u \<Rightarrow> set_active_org isMember u body
      | None \<Rightarrow> (case bearer_token (ca_header c) of
          None \<Rightarrow> (Reply 401 (err_json ''Unauthorized''), None)
        | Some tok \<Rightarrow> (case verifyAccessToken (ca_jwt c tok) of
            InvalidToken code status msg \<Rightarrow> (token_error code status msg, None)
          | ValidToken p \<Rightarrow>
              (if \<not> truthy (jget p ''sub'') then (Reply 401 (err_json ''Unauthorized''), None)
               else case jget p ''sub'' of
                  Some (JStr u) \<Rightarrow> set_active_org isMember u body
                | _ \<Rightarrow> (Crash, None)))))"

subsection \<open>POST /api/internal/verify-api-key\<close>

text \<open>\<open>verifyKey k\<close> is what \<^verbatim>\<open>auth.api.verifyApiKey\<close> resolves to, None when it throws.\<close>

definition verify_api_key ::
    "(string \<Rightarrow> json option) \<Rightarrow> string option \<Rightarrow> string option \<Rightarrow> json option \<Rightarrow> route_result" where
  "verify_api_key verifyKey INTERNAL_SECRET secret body =
     (if set_query INTERNAL_SECRET \<noteq> None \<and> secret \<noteq> INTERNAL_SECRET
      then Reply 401 (err_json ''Unauthorized'')
      else (case body of
        None \<Rightarrow> Reply 400 (err_json ''Missing or invalid key'')
      | Some b \<Rightarrow> (case nonempty_string (jget b ''key'') of
          None \<Rightarrow> Reply 400 (err_json ''Missing or invalid key'')
        | Some key \<Rightarrow> (case verifyKey key of
            None \<Rightarrow> Reply 401 (err_json ''INVALID_API_KEY'')
          | Some result \<Rightarrow>
              if \<not> truthy (jget result ''valid'') \<or> \<not> truthy (jget result ''key'')
              then Reply 401 (err_json ''INVALID_API_KEY'')
              else let k = the (jget result ''key''); metadata = nullish_or (jget k ''metadata'') (JObj [])
                   in Reply 200 (jobj
                     [(''userId'', jget k ''userId''),
                      (''organizationId'', Some (nullish_or (jget metadata ''organizationId'') JNull)),
                      (''projectId'', Some (nullish_or (jget metadata ''projectId'') JNull)),
                      (''scopes'', Some (case jget metadata ''scopes'' of
                          Some (JArr vs) \<Rightarrow> JArr vs | _ \<Rightarrow> JArr [])),
                      (''isTestMode'', Some (JBool (starts_with key ''fn_test_'')))])))))"

subsection \<open>GET /api/admin/org-members\<close>

record member_row =
  mr_id :: string
  mr_role :: string
  mr_createdAt :: string
  mr_userId :: string
  mr_name :: string
  mr_email :: string
  mr_image :: "string option"

definition member_json :: "member_row \<Rightarrow> json" where
  "member_json m = JObj [(''memberId'', JStr (mr_id m)), (''role'', JStr (mr_role m)),
     (''joinedAt'', JStr (mr_createdAt m)), (''userId'', JStr (mr_userId m)),
     (''name'', JStr (mr_name m)), (''email'', JStr (mr_email m)),
     (''image'', case mr_image m of None \<Rightarrow> JNull | Some i \<Rightarrow> JStr i)]"

text \<open>\<open>activeRole\<close> is that of the session; \<open>findMembers org role\<close> the members with exactly that role text.\<close>

definition org_members ::
    "(string \<Rightarrow> string \<Rightarrow> member_row list) \<Rightarrow> bool \<Rightarrow> string option \<Rightarrow> string option \<Rightarrow> string option \<Rightarrow>
     route_result" where
  "org_members findMembers hasUser activeRole orgId rolename =
     (if \<not> hasUser then Reply 401 (err_json ''Unauthorized'')
      else if activeRole \<noteq> Some ''superadmin'' \<and> activeRole \<noteq> Some ''application-admin''
      then Reply 403 (err_json ''Forbidden'')
      else (case (set_query orgId, set_query rolename) of
        (Some org, Some role) \<Rightarrow>
           Reply 200 (JObj [(''members'', JArr (map member_json (findMembers org role)))])
      | _ \<Rightarrow> Reply 400 (err_json ''Missing required query params: orgId, rolename'')))"

subsection \<open>Round trip of permission keys\<close>

text \<open>A key that survives: something before the first colon.\<close>

definition valid_key :: "string \<Rightarrow> bool" where
  "valid_key k = (split_key k \<noteq> None)"

lemma split_key_join: "split_key k = Some (r, a) \<Longrightarrow> r @ CHR '':'' # a = k"
proof -
  assume k: "split_key k = Some (r, a)"
  then have "CHR '':'' \<in> set k" by (auto simp: split_key_def split: if_splits)
  then obtain ys zs where "k = ys @ CHR '':'' # zs" "CHR '':'' \<notin> set ys"
    by (meson split_list_first)
  moreover from this have "\<forall>c\<in>set ys. c \<noteq> CHR '':''" by auto
  ultimately show ?thesis
    using k by (simp add: split_key_def takeWhile_append2 dropWhile_append2 split: if_splits)
qed

definition keys_of_groups :: "(string \<times> string list) list \<Rightarrow> string set" where
  "keys_of_groups gs = (\<Union>(r, as)\<in>set gs. (\<lambda>a. r @ '':'' @ a) ` set as)"

lemma keys_of_add_action: "keys_of_groups (add_action r a gs) = insert (r @ '':'' @ a) (keys_of_groups gs)"
  by (induction r a gs rule: add_action.induct) (auto simp: keys_of_groups_def)

lemma keys_of_group_keys:
  "group_keys ks gs = Some gs' \<Longrightarrow> keys_of_groups gs' = keys_of_groups gs \<union> set (filter valid_key ks)"
proof (induction ks gs rule: group_keys.induct)
  case (2 k ks gs)
  show ?case
  proof (cases "split_key k")
    case None
    with 2 show ?thesis by (simp add: valid_key_def)
  next
    case (Some p)
    then obtain r a where p: "split_key k = Some (r, a)" by (cases p) auto
    with 2 have "keys_of_groups gs' = keys_of_groups (add_action r a gs) \<union> set (filter valid_key ks)"
      by (auto split: if_splits)
    then show ?thesis using p split_key_join [OF p] by (auto simp: valid_key_def keys_of_add_action)
  qed
qed simp

lemma entry_keys_groups:
  "entry_keys (map (\<lambda>(r, as). (r, JArr (map JStr as))) gs) =
     Some (concat (map (\<lambda>(r, as). map (\<lambda>a. r @ '':'' @ a) as) gs))"
  by (induction gs) (auto simp: comp_def)

lemma group_keys_None:
  "group_keys ks gs = None \<longleftrightarrow> (\<exists>k \<in> set ks. \<exists>r a. split_key k = Some (r, a) \<and> r \<in> set prototype_keys)"
  by (induction ks gs rule: group_keys.induct) (auto split: option.splits if_splits prod.splits)

text \<open>Keys that the JSON column can hold: no resource is the name of an inherited object property.\<close>

definition storable :: "string list \<Rightarrow> bool" where
  "storable keys = list_all (\<lambda>k. case split_key k of None \<Rightarrow> True | Some (r, a) \<Rightarrow> r \<notin> set prototype_keys) keys"

lemma storable_json:
  assumes "storable keys"
  obtains j where "orgPermissionKeysToJson keys = Some j"
    and "set (orgPermissionJsonToKeys (Some j)) = set (filter valid_key keys)"
proof -
  obtain gs where gs: "group_keys keys [] = Some gs"
    using assms group_keys_None [of keys "[]"] by (fastforce simp: list_all_iff storable_def)
  have "set (concat (map (\<lambda>(r, as). map (\<lambda>a. r @ '':'' @ a) as) gs)) = keys_of_groups gs"
    by (auto simp: keys_of_groups_def)
  then have "\<exists>j. orgPermissionKeysToJson keys = Some j \<and>
      set (orgPermissionJsonToKeys (Some j)) = set (filter valid_key keys)"
    using keys_of_group_keys [OF gs] gs
    by (simp add: orgPermissionJsonToKeys_def orgPermissionKeysToJson_def entry_keys_groups keys_of_groups_def)
  then show thesis using that by blast
qed

text \<open>
  Permission keys survive storage. For keys whose resource is not the name of an inherited object
  property, converting to the JSON column and back gives exactly the keys that have text before
  their first colon (others are dropped), and a malformed column gives none.
\<close>

lemma permission_keys_roundtrip:
  assumes "storable keys"
  shows "set (orgPermissionJsonToKeys (orgPermissionKeysToJson keys)) = set (filter valid_key keys) \<and>
    orgPermissionKeysToJson keys \<noteq> None \<and> orgPermissionJsonToKeys None = []"
  using storable_json [OF assms] by (metis option.simps(4) option.distinct(1) orgPermissionJsonToKeys_def)

lemma permission_keys_roundtrip_witness:
  "set (orgPermissionJsonToKeys (orgPermissionKeysToJson [''files:read'', ''bad'', ''files:x:y'']))
     = {''files:read'', ''files:x:y''}"
  using permission_keys_roundtrip [of "[''files:read'', ''bad'', ''files:x:y'']"]
  by (simp add: split_key_def prototype_keys_def valid_key_def storable_def)

subsection \<open>Properties of the access checks\<close>

text \<open>
  C14: a user's permissions are those of the roles the user holds in that organization, and nothing
  else. Not a member: none. A member: exactly the keys stored for the roles named in the membership;
  only when the organization has no row for any of these roles does an owner get the default
  set, and everybody else nothing. (\<open>rows\<close> are the role rows; the query finds those of the
  organization whose role is one of the names.)
\<close>

theorem user_permissions_exact:
  assumes "\<And>org rs. set (findOrgRoles org rs) = {p. \<exists>r \<in> set rs. (org, r, p) \<in> set rows}"
  shows "set (getUserPermissions findMember findOrgRoles u org) =
    (case findMember u org of None \<Rightarrow> {}
     | Some role \<Rightarrow>
        if \<exists>r \<in> set (role_list role). \<exists>p. (org, r, p) \<in> set rows
        then {k. \<exists>r \<in> set (role_list role). \<exists>p. (org, r, p) \<in> set rows \<and> k \<in> set (orgPermissionJsonToKeys p)}
        else if ''owner'' \<in> set (role_list role) then set owner_permissions else {})"
proof (cases "findMember u org")
  case (Some role)
  have "findOrgRoles org (role_list role) = [] \<longleftrightarrow>
      \<not> (\<exists>r \<in> set (role_list role). \<exists>p. (org, r, p) \<in> set rows)"
    by (subst set_empty [symmetric]) (auto simp: assms)
  then show ?thesis
    using assms [of org "role_list role"] Some by (auto simp: getUserPermissions_def Let_def)
qed (simp add: getUserPermissions_def)

lemma user_permissions_exact_witness:
  "set (getUserPermissions (\<lambda>u org. Some ''member, viewer'')
     (\<lambda>org rs. map (\<lambda>(o', r, p). p) (filter (\<lambda>(o', r, p). o' = org \<and> r \<in> set rs)
        [(''o'', ''viewer'', Some (JObj [(''files'', JArr [JStr ''read''])])), (''o'', ''admin'', None)]))
     ''u'' ''o'') = {''files:read''}"
proof -
  have r: "role_list ''member, viewer'' = [''member'', ''viewer'']"
    by (simp add: role_list_def trim_def js_space_def)
  show ?thesis
    by (subst user_permissions_exact [where rows =
        "[(''o'', ''viewer'', Some (JObj [(''files'', JArr [JStr ''read''])])), (''o'', ''admin'', None)]"])
      (auto simp: r orgPermissionJsonToKeys_def)
qed

text \<open>
  C13: the permission check answers \<^verbatim>\<open>allowed: true\<close> exactly when the shared secret is configured, the
  request carries it as bearer token, the three fields are non-empty strings, the permission has
  a colon and the user has it; without a configured secret every request gets 503.
\<close>

theorem permission_check_allows_iff:
  "((\<exists>rest. permissions_check perms ik hdr body = Reply 200 (JObj ((''allowed'', JBool True) # rest))) \<longleftrightarrow>
    (\<exists>k b u org p. ik = Some k \<and> k \<noteq> [] \<and> bearer_header hdr = k \<and> body = Some b \<and> b \<noteq> JNull \<and>
       nonempty_string (jget b ''userId'') = Some u \<and>
       nonempty_string (jget b ''organizationId'') = Some org \<and>
       nonempty_string (jget b ''permission'') = Some p \<and> CHR '':'' \<in> set p \<and> p \<in> set (perms u org))) \<and>
   permissions_check perms None hdr body =
     Reply 503 (err_json ''Permission check endpoint is not configured'')"
  by (auto simp: permissions_check_def split: option.splits list.splits json.splits if_splits)

text \<open>Who a request is authenticated as.\<close>

definition authenticated_as :: "caller \<Rightarrow> string \<Rightarrow> bool" where
  "authenticated_as c u = (session_id c = Some u \<or>
     (session_id c = None \<and> (case bearer_token (ca_header c) of None \<Rightarrow> False
        | Some tok \<Rightarrow> (case ca_jwt c tok of Payload p \<Rightarrow> u \<noteq> [] \<and> jget p ''sub'' = Some (JStr u) | _ \<Rightarrow> False))))"

lemma set_active_org_iff:
  "snd (set_active_org isMember u body) = Some (v, org) \<longleftrightarrow>
     v = u \<and> (\<exists>b. body = Some b \<and> jget b ''orgId'' = Some (JStr org)) \<and> org \<noteq> [] \<and> isMember u org"
  by (auto simp: set_active_org_def split: option.splits json.splits)

lemma set_active_org_200:
  "(\<exists>j. fst (set_active_org isMember u body) = Reply 200 j) \<longleftrightarrow> snd (set_active_org isMember u body) \<noteq> None"
  by (auto simp: set_active_org_def err_json_def split: option.splits json.splits)

lemmas active_org_simps = patch_active_organization_def authenticated_as_def set_active_org_iff
  set_active_org_200 err_json_def token_error_def

text \<open>
  The active organization of a user changes only at the user's own request and only to an
  organization the user is a member of: the handler writes exactly then, to the organization
  of the request, and answers 200 exactly when it writes.
\<close>

lemma active_org_write:
  "(snd (patch_active_organization isMember c body) = Some (u, org) \<longleftrightarrow>
     authenticated_as c u \<and> (\<exists>b. body = Some b \<and> jget b ''orgId'' = Some (JStr org)) \<and>
     org \<noteq> [] \<and> isMember u org) \<and>
   ((\<exists>j. fst (patch_active_organization isMember c body) = Reply 200 j) \<longleftrightarrow>
     snd (patch_active_organization isMember c body) \<noteq> None)"
proof (cases "session_id c")
  case (Some v)
  then show ?thesis by (auto simp: active_org_simps)
next
  case None
  show ?thesis
  proof (cases "bearer_token (ca_header c)")
    case (Some tok)
    show ?thesis
    proof (cases "ca_jwt c tok")
      case (Payload p)
      show ?thesis
      proof (cases "\<exists>v. jget p ''sub'' = Some (JStr v) \<and> v \<noteq> []")
        case True
        then obtain v where v: "jget p ''sub'' = Some (JStr v)" "v \<noteq> []" by blast
        then have "patch_active_organization isMember c body = set_active_org isMember v body"
          and "authenticated_as c u \<longleftrightarrow> u = v"
          using None Some Payload by (auto simp: active_org_simps)
        then show ?thesis by (simp only: set_active_org_200 set_active_org_iff) auto
      next
        case False
        then show ?thesis using None Some Payload
          by (auto simp: active_org_simps split: option.splits json.splits)
      qed
    qed (use None Some in \<open>auto simp: active_org_simps\<close>)
  qed (use None in \<open>auto simp: active_org_simps\<close>)
qed

text \<open>
  The API-key endpoint is guarded only when a secret is configured. With one, a request without
  exactly that secret gets 401 and any other is answered as if there were no secret; without one,
  the header is ignored and anybody is answered.
\<close>

lemma api_key_secret_guard:
  "verify_api_key verifyKey (Some (c # k)) secret body =
     (if secret = Some (c # k) then verify_api_key verifyKey None None body
      else Reply 401 (err_json ''Unauthorized'')) \<and>
   verify_api_key verifyKey None secret body = verify_api_key verifyKey None None body \<and>
   verify_api_key verifyKey (Some []) secret body = verify_api_key verifyKey None None body"
  by (simp add: verify_api_key_def set_query_def)

end
