(* ===== verification/Iam_Nav.thy ===== *)
theory Iam_Nav
  imports Iam_Access
begin

text \<open>
  The navigation context of a user (\<^verbatim>\<open>iam/src/app/api/me/context/route.ts\<close>): the menu rows of each
  application, filtered by the user's permissions and built into a tree. The rows come from the
  database in their order; row ids are the primary key.
\<close>

record menu_row =
  mn_id :: string
  mn_parentId :: "string option"
  mn_label :: string
  mn_slug :: string
  mn_icon :: "string option"
  mn_href :: "string option"
  mn_type :: string
  mn_isVisible :: bool
  mn_permissionKeys :: "string list"

datatype nav_node = NavNode (nav_row: menu_row) (nav_children: "nav_node list")

definition filterNode :: "string list \<Rightarrow> menu_row \<Rightarrow> bool" where
  "filterNode permSet n = (mn_permissionKeys n = [] \<or> list_ex (\<lambda>k. k \<in> set permSet) (mn_permissionKeys n))"

text \<open>
  The recursion of \<^verbatim>\<open>buildTree\<close> follows the children of a row, and ends because a row has one parent.
  \<open>fuel\<close> bounds its depth, and None says that the bound was reached.
\<close>

fun buildTree :: "nat \<Rightarrow> string list \<Rightarrow> menu_row list \<Rightarrow> string option \<Rightarrow> nav_node list option"
and buildNodes :: "nat \<Rightarrow> string list \<Rightarrow> menu_row list \<Rightarrow> menu_row list \<Rightarrow> nav_node list option" where
  "buildTree 0 permSet allNodes parentId = None"
| "buildTree (Suc fuel) permSet allNodes parentId =
     buildNodes fuel permSet allNodes (filter (\<lambda>n. mn_parentId n = parentId) allNodes)"
| "buildNodes fuel permSet allNodes [] = Some []"
| "buildNodes fuel permSet allNodes (n # ns) =
     (if \<not> filterNode permSet n then buildNodes fuel permSet allNodes ns
      else case buildTree fuel permSet allNodes (Some (mn_id n)) of
         None \<Rightarrow> None
       | Some children \<Rightarrow> (case buildNodes fuel permSet allNodes ns of
             None \<Rightarrow> None
           | Some rest \<Rightarrow> Some (if mn_type n = ''GROUP'' \<and> children = [] then rest
                                else NavNode n children # rest)))"

record app_row =
  ap_id :: string
  ap_name :: string
  ap_slug :: string
  ap_menus :: "menu_row list"

fun nav_json :: "nav_node \<Rightarrow> json" where
  "nav_json (NavNode n children) = JObj
     [(''id'', JStr (mn_id n)), (''label'', JStr (mn_label n)), (''slug'', JStr (mn_slug n)),
      (''icon'', case mn_icon n of None \<Rightarrow> JNull | Some i \<Rightarrow> JStr i),
      (''href'', case mn_href n of None \<Rightarrow> JNull | Some i \<Rightarrow> JStr i),
      (''type'', JStr (mn_type n)), (''isVisible'', JBool (mn_isVisible n)),
      (''permissionKeys'', JArr (map JStr (mn_permissionKeys n))),
      (''children'', JArr (map nav_json children))]"

text \<open>The applications with their trees; those without a menu are left out.\<close>

definition build_apps :: "string list \<Rightarrow> app_row list \<Rightarrow> (app_row \<times> nav_node list) list" where
  "build_apps permSet apps = filter (\<lambda>(a, ms). ms \<noteq> [])
     (map (\<lambda>a. (a, case buildTree (Suc (length (ap_menus a))) permSet (ap_menus a) None of
        None \<Rightarrow> [] | Some ms \<Rightarrow> ms)) apps)"

definition app_json :: "app_row \<times> nav_node list \<Rightarrow> json" where
  "app_json = (\<lambda>(a, ms). JObj [(''id'', JStr (ap_id a)), (''name'', JStr (ap_name a)),
     (''slug'', JStr (ap_slug a)), (''menus'', JArr (map nav_json ms))])"

record org_summary =
  og_id :: string
  og_name :: string
  og_slug :: string
  og_logo :: "string option"

definition org_json :: "org_summary \<Rightarrow> json" where
  "org_json g = JObj [(''id'', JStr (og_id g)), (''name'', JStr (og_name g)), (''slug'', JStr (og_slug g)),
     (''logo'', case og_logo g of None \<Rightarrow> JNull | Some l \<Rightarrow> JStr l)]"

text \<open>
  The route: the session's user and active organization, the query parameter \<^verbatim>\<open>organizationId\<close>, the
  permissions (by user and organization), the memberships and the active applications.
\<close>

definition me_context ::
    "(string \<Rightarrow> string \<Rightarrow> string list) \<Rightarrow> (string \<Rightarrow> org_summary list) \<Rightarrow> app_row list \<Rightarrow>
     string option \<Rightarrow> string option \<Rightarrow> string option \<Rightarrow> route_result" where
  "me_context permissions memberships apps user activeOrg orgParam =
     (case user of
        None \<Rightarrow> Reply 401 (err_json ''Unauthorized'')
      | Some u \<Rightarrow>
          let organizationId = (case orgParam of None \<Rightarrow> activeOrg | o' \<Rightarrow> o');
              permSet = (case set_query organizationId of None \<Rightarrow> [] | Some org \<Rightarrow> permissions u org)
          in Reply 200 (JObj
            [(''apps'', JArr (map app_json (build_apps permSet apps))),
             (''permissions'', JArr (map JStr permSet)),
             (''organizations'', JArr (map org_json (memberships u))),
             (''activeOrganizationId'', case activeOrg of None \<Rightarrow> JNull | Some org \<Rightarrow> JStr org)]))"

subsection \<open>Termination\<close>

text \<open>A path from a root: each row's parent is the next of the list, the last has none.\<close>

fun rooted :: "menu_row list \<Rightarrow> menu_row list \<Rightarrow> bool" where
  "rooted nodes [] = True"
| "rooted nodes [n] = (n \<in> set nodes \<and> mn_parentId n = None)"
| "rooted nodes (n # m # ms) =
     (n \<in> set nodes \<and> mn_parentId n = Some (mn_id m) \<and> rooted nodes (m # ms))"

lemma rooted_set: "rooted nodes ms \<Longrightarrow> set ms \<subseteq> set nodes"
  by (induction nodes ms rule: rooted.induct) auto

lemma rooted_Cons:
  "rooted nodes (n # ms) \<longleftrightarrow> n \<in> set nodes \<and> mn_parentId n = map_option mn_id (if ms = [] then None else Some (hd ms))
     \<and> rooted nodes ms"
  by (cases ms) auto

text \<open>With unique ids such a path does not repeat a row: every row but the root determines the next.\<close>

lemma rooted_tl_parent:
  "rooted nodes (ps @ n # ms) \<Longrightarrow> mn_parentId n = map_option mn_id (if ms = [] then None else Some (hd ms))"
  by (induction ps) (auto simp: rooted_Cons)

lemma rooted_suffix: "rooted nodes (ps @ ms) \<Longrightarrow> rooted nodes ms"
  by (induction ps) (auto simp: rooted_Cons)

lemma rooted_unique:
  assumes "inj_on mn_id (set nodes)" and "rooted nodes (n # ms)" and "rooted nodes (n # ms')"
  shows "ms = ms'"
  using assms(2,3)
proof (induction ms arbitrary: n ms')
  case Nil
  then show ?case by (cases ms') (auto simp: rooted_Cons)
next
  case (Cons m ms)
  then obtain m' ms2 where ms': "ms' = m' # ms2" by (cases ms') (auto simp: rooted_Cons)
  with Cons.prems have "mn_id m = mn_id m'" "m \<in> set nodes" "m' \<in> set nodes"
    by (auto simp: rooted_Cons)
  with assms(1) have "m = m'" by (auto dest: inj_onD)
  with Cons ms' show ?case by (auto simp: rooted_Cons)
qed

lemma rooted_distinct:
  assumes "inj_on mn_id (set nodes)" and "rooted nodes ms"
  shows "distinct ms"
  using assms(2)
proof (induction ms)
  case (Cons n ms)
  have "n \<notin> set ms"
  proof
    assume "n \<in> set ms"
    then obtain ps qs where ms: "ms = ps @ n # qs" by (meson split_list)
    with Cons.prems have "rooted nodes (n # qs)"
      using rooted_suffix [of nodes "n # ps" "n # qs"] by simp
    with Cons.prems assms(1) have "ms = qs" by (blast intro: rooted_unique)
    with ms show False by (auto dest: arg_cong [where f = length])
  qed
  with Cons show ?case by (auto simp: rooted_Cons)
qed simp

lemma buildNodes_total:
  "(\<And>n. n \<in> set ns \<Longrightarrow> buildTree fuel perms nodes (Some (mn_id n)) \<noteq> None) \<Longrightarrow>
   buildNodes fuel perms nodes ns \<noteq> None"
  by (induction ns) (fastforce split: option.splits)+

lemma buildTree_total:
  assumes "inj_on mn_id (set nodes)"
  shows "rooted nodes path \<Longrightarrow> length nodes < fuel + length path \<Longrightarrow>
    buildTree fuel perms nodes (map_option mn_id (if path = [] then None else Some (hd path))) \<noteq> None"
proof (induction fuel arbitrary: path)
  case 0
  have "length path \<le> length nodes"
    using rooted_distinct [OF assms 0(1)] rooted_set [OF 0(1)]
    by (metis distinct_card card_length card_mono finite_set le_trans)
  with 0 show ?case by simp
next
  case (Suc fuel)
  let ?p = "map_option mn_id (if path = [] then None else Some (hd path))"
  show ?case unfolding buildTree.simps
  proof (rule buildNodes_total)
    fix n
    assume "n \<in> set (filter (\<lambda>n. mn_parentId n = ?p) nodes)"
    with Suc.prems have "rooted nodes (n # path)" by (simp add: rooted_Cons)
    with Suc.IH [of "n # path"] Suc.prems show "buildTree fuel perms nodes (Some (mn_id n)) \<noteq> None"
      by simp
  qed
qed

subsection \<open>What the tree shows\<close>

fun rows_of :: "nav_node \<Rightarrow> menu_row list" where
  "rows_of (NavNode n cs) = n # concat (map rows_of cs)"

text \<open>A row without permission keys is for everybody; another one needs one of its keys.\<close>

definition may_see :: "string list \<Rightarrow> menu_row \<Rightarrow> bool" where
  "may_see perms n = (set (mn_permissionKeys n) = {} \<or> set (mn_permissionKeys n) \<inter> set perms \<noteq> {})"

lemma filterNode_may_see [simp]: "filterNode perms n = may_see perms n"
  by (auto simp: filterNode_def may_see_def list_ex_iff)

text \<open>
  The specification. A row is kept when the user may see it and it is not an empty group; a row is
  shown when it and all the rows above it, up to a root, are kept.
\<close>

inductive kept :: "string list \<Rightarrow> menu_row list \<Rightarrow> menu_row \<Rightarrow> bool"
  for perms nodes where
  kept_item: "n \<in> set nodes \<Longrightarrow> may_see perms n \<Longrightarrow> mn_type n \<noteq> ''GROUP'' \<Longrightarrow> kept perms nodes n"
| kept_above: "n \<in> set nodes \<Longrightarrow> may_see perms n \<Longrightarrow> kept perms nodes c \<Longrightarrow>
    mn_parentId c = Some (mn_id n) \<Longrightarrow> kept perms nodes n"

inductive_simps kept_iff: "kept perms nodes n"

inductive under :: "string list \<Rightarrow> menu_row list \<Rightarrow> string option \<Rightarrow> menu_row \<Rightarrow> bool"
  for perms nodes p where
  under_top: "kept perms nodes n \<Longrightarrow> mn_parentId n = p \<Longrightarrow> under perms nodes p n"
| under_step: "under perms nodes p m \<Longrightarrow> kept perms nodes n \<Longrightarrow> mn_parentId n = Some (mn_id m) \<Longrightarrow>
    under perms nodes p n"

definition shown :: "string list \<Rightarrow> menu_row list \<Rightarrow> menu_row \<Rightarrow> bool" where
  "shown perms nodes n = under perms nodes None n"

lemma kept_in: "kept perms nodes n \<Longrightarrow> n \<in> set nodes \<and> may_see perms n"
  by (induction rule: kept.induct) auto

lemma under_down:
  "under perms nodes (Some (mn_id m)) n \<Longrightarrow> under perms nodes p m \<Longrightarrow> under perms nodes p n"
  by (induction rule: under.induct) (auto intro: under_step)

lemma under_iff:
  "under perms nodes p n \<longleftrightarrow>
     (\<exists>m. kept perms nodes m \<and> mn_parentId m = p \<and> (n = m \<or> under perms nodes (Some (mn_id m)) n))"
proof
  assume "under perms nodes p n"
  then show "\<exists>m. kept perms nodes m \<and> mn_parentId m = p \<and> (n = m \<or> under perms nodes (Some (mn_id m)) n)"
    by (induction rule: under.induct) (auto intro: under_top under_step)
next
  assume "\<exists>m. kept perms nodes m \<and> mn_parentId m = p \<and> (n = m \<or> under perms nodes (Some (mn_id m)) n)"
  then show "under perms nodes p n" by (auto intro: under_top under_down)
qed

definition below :: "string list \<Rightarrow> menu_row list \<Rightarrow> menu_row list \<Rightarrow> menu_row set" where
  "below perms nodes ns = {n. \<exists>m \<in> set ns. kept perms nodes m \<and> (n = m \<or> under perms nodes (Some (mn_id m)) n)}"

lemma below_Cons: "below perms nodes (m # ns) =
    (if kept perms nodes m then insert m {n. under perms nodes (Some (mn_id m)) n} else {}) \<union> below perms nodes ns"
  by (auto simp: below_def)

lemma below_children: "below perms nodes (filter (\<lambda>n. mn_parentId n = p) nodes) = {n. under perms nodes p n}"
  unfolding below_def using kept_in by (subst under_iff) fastforce

lemma build_spec:
  "buildTree fuel perms nodes p = Some ms \<Longrightarrow>
     map nav_row ms = filter (kept perms nodes) (filter (\<lambda>n. mn_parentId n = p) nodes) \<and>
     set (concat (map rows_of ms)) = {n. under perms nodes p n}"
  "buildNodes fuel perms nodes ns = Some ms \<Longrightarrow> set ns \<subseteq> set nodes \<Longrightarrow>
     map nav_row ms = filter (kept perms nodes) ns \<and>
     set (concat (map rows_of ms)) = below perms nodes ns"
proof (induction fuel perms nodes p and fuel perms nodes ns arbitrary: ms and ms
    rule: buildTree_buildNodes.induct)
  case (2 fuel perms nodes p)
  then show ?case by (simp add: below_children)
next
  case (3 fuel perms nodes)
  then show ?case by (simp add: below_def)
next
  case (4 fuel perms nodes n ns)
  show ?case
  proof (cases "may_see perms n")
    case False
    then have "\<not> kept perms nodes n" using kept_in by blast
    with 4 False show ?thesis by (simp add: below_Cons)
  next
    case True
    from 4(4) True obtain cs rest where cs: "buildTree fuel perms nodes (Some (mn_id n)) = Some cs"
      and rest: "buildNodes fuel perms nodes ns = Some rest"
      and ms: "ms = (if mn_type n = ''GROUP'' \<and> cs = [] then rest else NavNode n cs # rest)"
      by (auto split: option.splits)
    have c: "map nav_row cs = filter (kept perms nodes) (filter (\<lambda>c. mn_parentId c = Some (mn_id n)) nodes)"
      and u: "set (concat (map rows_of cs)) = {m. under perms nodes (Some (mn_id n)) m}"
      using 4(2) [OF _ cs] True by simp_all
    have r: "map nav_row rest = filter (kept perms nodes) ns"
      "set (concat (map rows_of rest)) = below perms nodes ns"
      using 4(3) [OF _ cs rest] 4(5) True by simp_all
    have "cs = [] \<longleftrightarrow> \<not> (\<exists>c. kept perms nodes c \<and> mn_parentId c = Some (mn_id n))"
    proof -
      have "cs = [] \<longleftrightarrow> filter (kept perms nodes) (filter (\<lambda>c. mn_parentId c = Some (mn_id n)) nodes) = []"
        unfolding c [symmetric] by simp
      also have "\<dots> \<longleftrightarrow> \<not> (\<exists>c. kept perms nodes c \<and> mn_parentId c = Some (mn_id n))"
        using kept_in by (auto simp: filter_empty_conv)
      finally show ?thesis .
    qed
    then have k: "kept perms nodes n \<longleftrightarrow> \<not> (mn_type n = ''GROUP'' \<and> cs = [])"
      using True 4(5) by (subst kept_iff) auto
    show ?thesis using ms k r u by (auto simp: below_Cons)
  qed
qed simp

text \<open>
  C15: the menu tree is complete and sound. For rows with distinct ids the recursion ends (the depth
  is at most the number of rows); the tree contains exactly the rows that the user may see, whose
  ancestors the user may all see, and of the groups only those that hold a shown item; and its
  top level is the kept root rows in database order.
\<close>

theorem nav_tree_exact:
  assumes "distinct (map mn_id nodes)"
  shows "\<exists>ms. buildTree (Suc (length nodes)) perms nodes None = Some ms \<and>
    set (concat (map rows_of ms)) = {n. shown perms nodes n} \<and>
    map nav_row ms = filter (kept perms nodes) (filter (\<lambda>n. mn_parentId n = None) nodes)"
proof -
  have "inj_on mn_id (set nodes)" using assms by (simp add: distinct_map)
  from buildTree_total [OF this, of "[]" "Suc (length nodes)" perms]
  obtain ms where "buildTree (Suc (length nodes)) perms nodes None = Some ms" by auto
  with build_spec(1) [OF this] show ?thesis by (auto simp: shown_def)
qed

definition demo_menu :: "menu_row list" where
  "demo_menu =
     [\<lparr>mn_id = ''g'', mn_parentId = None, mn_label = ''G'', mn_slug = ''g'', mn_icon = None, mn_href = None,
       mn_type = ''GROUP'', mn_isVisible = True, mn_permissionKeys = []\<rparr>,
      \<lparr>mn_id = ''i'', mn_parentId = Some ''g'', mn_label = ''I'', mn_slug = ''i'', mn_icon = None, mn_href = None,
       mn_type = ''ITEM'', mn_isVisible = True, mn_permissionKeys = [''files:read'']\<rparr>]"

lemma nav_tree_exact_witness:
  "\<exists>ms. buildTree 3 [''files:read''] demo_menu None = Some ms \<and>
     set (concat (map rows_of ms)) = {n. shown [''files:read''] demo_menu n}"
proof -
  have "distinct (map mn_id demo_menu)" "Suc (length demo_menu) = 3"
    by (simp_all add: demo_menu_def)
  with nav_tree_exact [of demo_menu "[''files:read'']"] show ?thesis
    by (simp only: simp_thms) blast
qed

text \<open>
  The context shows only the caller's permissions. Without a session it answers 401; otherwise the
  permissions are those in the requested or else the active organization, none when there is
  neither, and every application listed has a menu.
\<close>

lemma me_context_permissions:
  "me_context permissions memberships apps None activeOrg orgParam = Reply 401 (err_json ''Unauthorized'') \<and>
   (\<exists>j. me_context permissions memberships apps (Some u) activeOrg orgParam = Reply 200 j \<and>
      jget j ''permissions'' = Some (JArr (map JStr
        (case (orgParam, activeOrg) of
           (Some (c # org), _) \<Rightarrow> permissions u (c # org)
         | (None, Some (c # org)) \<Rightarrow> permissions u (c # org)
         | _ \<Rightarrow> []))) \<and>
      list_all (\<lambda>(a, ms). a \<in> set apps \<and> ms \<noteq> []) (build_apps
        (case (orgParam, activeOrg) of
           (Some (c # org), _) \<Rightarrow> permissions u (c # org)
         | (None, Some (c # org)) \<Rightarrow> permissions u (c # org)
         | _ \<Rightarrow> []) apps))"
  by (auto simp: me_context_def Let_def set_query_def build_apps_def list_all_iff
      split: option.splits list.splits)

end
