(* ===== verification/Error_Boundary.thy ===== *)
theory Error_Boundary
  imports Fn_Prelude
begin

text \<open>
  The boundary between server code and the client. A server action runs through \<^verbatim>\<open>runWithTransport\<close>,
  which revalidates and redirects after a success and hands every thrown value to an error mapper.
  The console and the identity service have a mapper each
  (\<^verbatim>\<open>frontend/web/src/modules/server/shared/errors/mappers/map-error-to-zsa.ts\<close>,
  \<^verbatim>\<open>iam/src/modules/server/shared/errors/mappers/mapErrorToZSA.ts\<close>); the locale states what the wrapper
  relies on.
\<close>

datatype zsa_data = ZText string | ZInput json

text \<open>What a mapper throws: the error itself, or a \<^verbatim>\<open>ZSAError\<close> with its code and data.\<close>

datatype 'e boundary = Rethrown 'e | Zsa string zsa_data

record transport =
  tr_url :: "string option"
  tr_shouldRevalidate :: bool
  tr_shouldRedirect :: bool
  tr_revalidateType :: "string option"

datatype t_event = Revalidate string string

definition url_set :: "transport option \<Rightarrow> string option" where
  "url_set t = (case t of None \<Rightarrow> None
     | Some tr \<Rightarrow> (case tr_url tr of Some (c # u) \<Rightarrow> Some (c # u) | _ \<Rightarrow> None))"

text \<open>
  \<open>redirect u\<close> is the control signal that the framework's \<^verbatim>\<open>redirect\<close> throws. The executor is given by
  its outcome: a thrown value, or a result with a transport decision.
\<close>

definition runWithTransport ::
    "('e \<Rightarrow> 'e boundary) \<Rightarrow> (string \<Rightarrow> 'e) \<Rightarrow> 'e + ('a \<times> transport option) \<Rightarrow>
     ('e boundary + 'a) \<times> t_event list" where
  "runWithTransport mapError redirect outcome = (case outcome of
     Inl e \<Rightarrow> (Inl (mapError e), [])
   | Inr (r, t) \<Rightarrow> (case url_set t of
       None \<Rightarrow> (Inr r, [])
     | Some u \<Rightarrow> (let tr = the t;
           evs = (if tr_shouldRevalidate tr
                  then [Revalidate u (case tr_revalidateType tr of None \<Rightarrow> ''page'' | Some x \<Rightarrow> x)] else [])
         in if tr_shouldRedirect tr then (Inl (mapError (redirect u)), evs) else (Inr r, evs))))"

locale error_boundary =
  fixes mapError :: "'e \<Rightarrow> 'e boundary"
    and redirect :: "string \<Rightarrow> 'e"
    and control :: "'e \<Rightarrow> bool"
    and hidden :: "'e \<Rightarrow> bool"
  assumes control_rethrown: "control e \<Longrightarrow> mapError e = Rethrown e"
    and others_mapped: "\<not> control e \<Longrightarrow> \<exists>code data. mapError e = Zsa code data"
    and hidden_generic: "hidden e \<Longrightarrow> mapError e =
      Zsa ''OUTPUT_PARSE_ERROR'' (ZText ''Something went wrong. Please try again later.'')"
    and redirect_control: "control (redirect u)"
begin

lemma only_control_rethrown: "mapError e = Rethrown e' \<longleftrightarrow> control e \<and> e' = e"
  using control_rethrown others_mapped by (cases "control e") fastforce+

text \<open>Only the framework's signals leave the wrapper untyped.\<close>

lemma outcome_typed:
  "case fst (runWithTransport mapError redirect outcome) of
     Inl (Rethrown e) \<Rightarrow> control e | _ \<Rightarrow> True"
  using only_control_rethrown
  by (auto simp: runWithTransport_def Let_def split: sum.splits prod.splits option.splits boundary.splits)

text \<open>A redirect reaches the framework, after the revalidation; a failed executor revalidates nothing.\<close>

lemma redirect_reaches:
  "url_set t = Some u \<Longrightarrow> tr_shouldRedirect (the t) \<Longrightarrow>
   fst (runWithTransport mapError redirect (Inr (r, t))) = Inl (Rethrown (redirect u))"
  using control_rethrown [OF redirect_control] by (simp add: runWithTransport_def Let_def)

lemma failure_no_effect: "snd (runWithTransport mapError redirect (Inl e)) = []"
  by (simp add: runWithTransport_def)

lemma hidden_not_control: "hidden e \<Longrightarrow> \<not> control e"
  using hidden_generic control_rethrown by fastforce

end

end
