(* ===== verification/Iam_Errors.thy ===== *)
theory Iam_Errors
  imports Error_Boundary
begin

text \<open>
  The errors of the identity service (\<^verbatim>\<open>iam/src/modules/server/shared/errors/\<close>): the application error
  classes, the mapping of Better Auth's error codes to them, and the mapping of every thrown value
  at the server-action boundary.
\<close>

subsection \<open>Error classes\<close>

datatype app_class =
    ApplicationError | ValidationError | UnauthorizedError | ForbiddenError | NotFoundError
  | ConflictError | InternalServerError | BadGatewayError | InfrastructureError | AuthError
  | InvalidCredentialsError | UserAlreadyExistsError | EmailNotVerifiedError | SessionExpiredError
  | AccountNotFoundError | PasswordPolicyError | AuthConfigurationError | AccountNotVerifiedError
  | AccountDisabledError

record app_error =
  ae_class :: app_class
  ae_message :: string
  ae_statusCode :: nat
  ae_code :: string
  ae_isOperational :: bool

definition applicationError :: "app_class \<Rightarrow> string \<Rightarrow> nat \<Rightarrow> string \<Rightarrow> bool \<Rightarrow> app_error" where
  "applicationError c m st code op =
     \<lparr>ae_class = c, ae_message = m, ae_statusCode = st, ae_code = code, ae_isOperational = op\<rparr>"

definition validation_error :: app_error where
  "validation_error = applicationError ValidationError ''Validation failed'' 400 ''VALIDATION_ERROR'' True"
definition unauthorized_error :: app_error where
  "unauthorized_error = applicationError UnauthorizedError ''Unauthorized'' 401 ''UNAUTHORIZED'' True"
definition forbidden_error :: app_error where
  "forbidden_error = applicationError ForbiddenError ''Forbidden'' 403 ''FORBIDDEN'' True"
definition not_found_error :: app_error where
  "not_found_error = applicationError NotFoundError ''Resource not found'' 404 ''NOT_FOUND'' True"
definition conflict_error :: app_error where
  "conflict_error = applicationError ConflictError ''Conflict'' 409 ''CONFLICT'' True"
definition internal_server_error :: app_error where
  "internal_server_error =
     applicationError InternalServerError ''Internal server error'' 500 ''INTERNAL_SERVER_ERROR'' False"
definition bad_gateway_error :: app_error where
  "bad_gateway_error = applicationError BadGatewayError ''Bad gateway'' 502 ''BAD_GATEWAY'' True"
definition infrastructure_error :: "string \<Rightarrow> app_error" where
  "infrastructure_error m = applicationError InfrastructureError m 500 ''INFRASTRUCTURE_ERROR'' True"

text \<open>\<^verbatim>\<open>AuthError\<close> with the options of its subclasses.\<close>

definition auth_error :: "app_class \<Rightarrow> string \<Rightarrow> nat \<Rightarrow> string \<Rightarrow> app_error" where
  "auth_error c m st code = applicationError c m st code True"

definition invalid_credentials_error :: app_error where
  "invalid_credentials_error =
     auth_error InvalidCredentialsError ''Invalid email or password'' 401 ''INVALID_CREDENTIALS''"
definition user_already_exists_error :: app_error where
  "user_already_exists_error = auth_error UserAlreadyExistsError
     ''An account with this email already exists'' 409 ''USER_ALREADY_EXISTS''"
definition email_not_verified_error :: app_error where
  "email_not_verified_error = auth_error EmailNotVerifiedError
     ''Please verify your email address to continue'' 403 ''EMAIL_NOT_VERIFIED''"
definition session_expired_error :: app_error where
  "session_expired_error = auth_error SessionExpiredError
     ''Your session has expired. Please sign in again.'' 401 ''SESSION_EXPIRED''"
definition account_not_found_error :: app_error where
  "account_not_found_error = auth_error AccountNotFoundError ''Account not found'' 404 ''ACCOUNT_NOT_FOUND''"
definition password_policy_error :: app_error where
  "password_policy_error = auth_error PasswordPolicyError
     ''Password does not meet requirements'' 400 ''PASSWORD_POLICY_VIOLATION''"
definition auth_configuration_error :: app_error where
  "auth_configuration_error = auth_error AuthConfigurationError
     ''Authentication service is temporarily unavailable'' 500 ''AUTH_CONFIGURATION_ERROR''"
definition account_not_verified_error :: app_error where
  "account_not_verified_error = auth_error AccountNotVerifiedError
     ''Please verify your account before signing in'' 403 ''ACCOUNT_NOT_VERIFIED''"
definition account_disabled_error :: app_error where
  "account_disabled_error = auth_error AccountDisabledError
     ''Your account has been disabled. Contact support.'' 403 ''ACCOUNT_DISABLED''"

text \<open>
  What server code throws. An SDK error carries \<^verbatim>\<open>body.code\<close> and \<^verbatim>\<open>code\<close> when they are strings, and a
  message; \<open>JsError\<close> is any other \<^verbatim>\<open>Error\<close> (its \<^verbatim>\<open>code\<close> too, as Prisma's errors have one); \<open>Thrown\<close> a
  value that is no error, and \<open>NullThrown\<close> null or undefined.
\<close>

datatype iam_exn =
    App app_error
  | SdkError "string option" "string option" string
  | JsError "string option" string
  | InputParse json
  | OutputParse
  | ThrownValue
  | NullThrown

subsection \<open>Better Auth's codes\<close>

definition admin_codes :: "string list" where
  "admin_codes =
     [''FAILED_TO_CREATE_USER'', ''YOU_CANNOT_BAN_YOURSELF'', ''YOU_CANNOT_REMOVE_YOURSELF'',
      ''YOU_CANNOT_IMPERSONATE_ADMINS'', ''YOU_ARE_NOT_ALLOWED_TO_CHANGE_USERS_ROLE'',
      ''YOU_ARE_NOT_ALLOWED_TO_CREATE_USERS'', ''YOU_ARE_NOT_ALLOWED_TO_LIST_USERS'',
      ''YOU_ARE_NOT_ALLOWED_TO_LIST_USERS_SESSIONS'', ''YOU_ARE_NOT_ALLOWED_TO_BAN_USERS'',
      ''YOU_ARE_NOT_ALLOWED_TO_IMPERSONATE_USERS'', ''YOU_ARE_NOT_ALLOWED_TO_REVOKE_USERS_SESSIONS'',
      ''YOU_ARE_NOT_ALLOWED_TO_DELETE_USERS'', ''YOU_ARE_NOT_ALLOWED_TO_SET_USERS_PASSWORD'',
      ''YOU_ARE_NOT_ALLOWED_TO_GET_USER'', ''YOU_ARE_NOT_ALLOWED_TO_UPDATE_USERS'',
      ''YOU_ARE_NOT_ALLOWED_TO_SET_NON_EXISTENT_VALUE'', ''BANNED_USER'', ''NO_DATA_TO_UPDATE'',
      ''INVALID_ROLE_TYPE'']"

definition organization_codes :: "string list" where
  "organization_codes =
     [''ORGANIZATION_NOT_FOUND'', ''ORGANIZATION_ALREADY_EXISTS'',
      ''ORGANIZATION_SLUG_ALREADY_TAKEN'', ''ORGANIZATION_MEMBERSHIP_LIMIT_REACHED'',
      ''NO_ACTIVE_ORGANIZATION'', ''MEMBER_NOT_FOUND'', ''ROLE_NOT_FOUND'',
      ''ROLE_NAME_IS_ALREADY_TAKEN'', ''ROLE_IS_ASSIGNED_TO_MEMBERS'',
      ''CANNOT_DELETE_A_PRE_DEFINED_ROLE'', ''TOO_MANY_ROLES'', ''INVALID_RESOURCE'',
      ''TEAM_NOT_FOUND'', ''TEAM_ALREADY_EXISTS'', ''INVITATION_NOT_FOUND'',
      ''INVITATION_LIMIT_REACHED'', ''TEAM_MEMBER_LIMIT_REACHED'',
      ''USER_IS_ALREADY_A_MEMBER_OF_THIS_ORGANIZATION'',
      ''USER_IS_ALREADY_INVITED_TO_THIS_ORGANIZATION'', ''MISSING_AC_INSTANCE'',
      ''FAILED_TO_RETRIEVE_INVITATION'', ''UNABLE_TO_REMOVE_LAST_TEAM'',
      ''YOU_HAVE_REACHED_THE_MAXIMUM_NUMBER_OF_ORGANIZATIONS'',
      ''YOU_HAVE_REACHED_THE_MAXIMUM_NUMBER_OF_TEAMS'',
      ''YOU_ARE_NOT_ALLOWED_TO_CREATE_A_NEW_ORGANIZATION'',
      ''YOU_ARE_NOT_ALLOWED_TO_UPDATE_THIS_ORGANIZATION'',
      ''YOU_ARE_NOT_ALLOWED_TO_DELETE_THIS_ORGANIZATION'',
      ''YOU_ARE_NOT_ALLOWED_TO_ACCESS_THIS_ORGANIZATION'',
      ''YOU_ARE_NOT_A_MEMBER_OF_THIS_ORGANIZATION'',
      ''USER_IS_NOT_A_MEMBER_OF_THE_ORGANIZATION'',
      ''YOU_ARE_NOT_ALLOWED_TO_INVITE_USERS_TO_THIS_ORGANIZATION'',
      ''YOU_ARE_NOT_ALLOWED_TO_INVITE_USER_WITH_THIS_ROLE'',
      ''YOU_ARE_NOT_ALLOWED_TO_CANCEL_THIS_INVITATION'',
      ''YOU_ARE_NOT_THE_RECIPIENT_OF_THE_INVITATION'',
      ''INVITER_IS_NO_LONGER_A_MEMBER_OF_THE_ORGANIZATION'',
      ''EMAIL_VERIFICATION_REQUIRED_BEFORE_ACCEPTING_OR_REJECTING_INVITATION'',
      ''YOU_ARE_NOT_ALLOWED_TO_DELETE_THIS_MEMBER'',
      ''YOU_ARE_NOT_ALLOWED_TO_UPDATE_THIS_MEMBER'',
      ''YOU_CANNOT_LEAVE_THE_ORGANIZATION_AS_THE_ONLY_OWNER'',
      ''YOU_CANNOT_LEAVE_THE_ORGANIZATION_WITHOUT_AN_OWNER'',
      ''YOU_ARE_NOT_ALLOWED_TO_CREATE_A_NEW_TEAM'',
      ''YOU_ARE_NOT_ALLOWED_TO_CREATE_TEAMS_IN_THIS_ORGANIZATION'',
      ''YOU_ARE_NOT_ALLOWED_TO_DELETE_TEAMS_IN_THIS_ORGANIZATION'',
      ''YOU_ARE_NOT_ALLOWED_TO_UPDATE_THIS_TEAM'', ''YOU_ARE_NOT_ALLOWED_TO_DELETE_THIS_TEAM'',
      ''USER_IS_NOT_A_MEMBER_OF_THE_TEAM'', ''YOU_CAN_NOT_ACCESS_THE_MEMBERS_OF_THIS_TEAM'',
      ''YOU_DO_NOT_HAVE_AN_ACTIVE_TEAM'', ''YOU_ARE_NOT_ALLOWED_TO_CREATE_A_NEW_TEAM_MEMBER'',
      ''YOU_ARE_NOT_ALLOWED_TO_REMOVE_A_TEAM_MEMBER'',
      ''YOU_MUST_BE_IN_AN_ORGANIZATION_TO_CREATE_A_ROLE'',
      ''YOU_ARE_NOT_ALLOWED_TO_CREATE_A_ROLE'', ''YOU_ARE_NOT_ALLOWED_TO_UPDATE_A_ROLE'',
      ''YOU_ARE_NOT_ALLOWED_TO_DELETE_A_ROLE'', ''YOU_ARE_NOT_ALLOWED_TO_READ_A_ROLE'',
      ''YOU_ARE_NOT_ALLOWED_TO_LIST_A_ROLE'', ''YOU_ARE_NOT_ALLOWED_TO_GET_A_ROLE'']"

text \<open>The switch: each group of cases with the error it throws.\<close>

definition code_groups :: "(string list \<times> app_error) list" where
  "code_groups =
     [([''INVALID_PASSWORD'', ''INVALID_EMAIL'', ''INVALID_EMAIL_OR_PASSWORD'', ''INVALID_USER'',
        ''CREDENTIAL_ACCOUNT_NOT_FOUND'', ''VALIDATION_ERROR''],
        invalid_credentials_error),
      ([''USER_ALREADY_EXISTS'', ''USER_ALREADY_EXISTS_USE_ANOTHER_EMAIL'',
        ''LINKED_ACCOUNT_ALREADY_EXISTS'', ''SOCIAL_ACCOUNT_ALREADY_LINKED''],
        user_already_exists_error),
      ([''EMAIL_NOT_VERIFIED'', ''EMAIL_ALREADY_VERIFIED'', ''VERIFICATION_EMAIL_NOT_ENABLED'',
        ''EMAIL_VERIFICATION_REQUIRED_BEFORE_ACCEPTING_OR_REJECTING_INVITATION''],
        email_not_verified_error),
      ([''SESSION_EXPIRED'', ''SESSION_NOT_FRESH'', ''INVALID_TOKEN'', ''TOKEN_EXPIRED''],
        session_expired_error),
      ([''USER_NOT_FOUND'', ''ACCOUNT_NOT_FOUND'', ''USER_EMAIL_NOT_FOUND''],
        account_not_found_error),
      ([''PASSWORD_TOO_SHORT'', ''PASSWORD_TOO_LONG'', ''USER_ALREADY_HAS_PASSWORD'',
        ''PASSWORD_ALREADY_SET''],
        password_policy_error),
      ([''PROVIDER_NOT_FOUND'', ''ID_TOKEN_NOT_SUPPORTED'', ''INVALID_ORIGIN'',
        ''INVALID_CALLBACK_URL'', ''INVALID_REDIRECT_URL'', ''INVALID_ERROR_CALLBACK_URL'',
        ''INVALID_NEW_USER_CALLBACK_URL'', ''CALLBACK_URL_REQUIRED'', ''MISSING_OR_NULL_ORIGIN'',
        ''MISSING_AC_INSTANCE''],
        auth_configuration_error),
      ([''BANNED_USER''],
        account_disabled_error),
      ([''YOU_CANNOT_BAN_YOURSELF'', ''YOU_CANNOT_REMOVE_YOURSELF'',
        ''YOU_CANNOT_IMPERSONATE_ADMINS'', ''YOU_ARE_NOT_ALLOWED_TO_CHANGE_USERS_ROLE'',
        ''YOU_ARE_NOT_ALLOWED_TO_CREATE_USERS'', ''YOU_ARE_NOT_ALLOWED_TO_LIST_USERS'',
        ''YOU_ARE_NOT_ALLOWED_TO_LIST_USERS_SESSIONS'', ''YOU_ARE_NOT_ALLOWED_TO_BAN_USERS'',
        ''YOU_ARE_NOT_ALLOWED_TO_IMPERSONATE_USERS'',
        ''YOU_ARE_NOT_ALLOWED_TO_REVOKE_USERS_SESSIONS'',
        ''YOU_ARE_NOT_ALLOWED_TO_DELETE_USERS'', ''YOU_ARE_NOT_ALLOWED_TO_SET_USERS_PASSWORD'',
        ''YOU_ARE_NOT_ALLOWED_TO_GET_USER'', ''YOU_ARE_NOT_ALLOWED_TO_UPDATE_USERS'',
        ''FAILED_TO_UNLINK_LAST_ACCOUNT'', ''CROSS_SITE_NAVIGATION_LOGIN_BLOCKED'',
        ''METHOD_NOT_ALLOWED_DEFER_SESSION_REQUIRED''],
        forbidden_error),
      ([''YOU_ARE_NOT_ALLOWED_TO_CREATE_A_NEW_ORGANIZATION'',
        ''YOU_ARE_NOT_ALLOWED_TO_UPDATE_THIS_ORGANIZATION'',
        ''YOU_ARE_NOT_ALLOWED_TO_DELETE_THIS_ORGANIZATION'',
        ''YOU_ARE_NOT_ALLOWED_TO_ACCESS_THIS_ORGANIZATION'',
        ''YOU_ARE_NOT_A_MEMBER_OF_THIS_ORGANIZATION'',
        ''USER_IS_NOT_A_MEMBER_OF_THE_ORGANIZATION'',
        ''YOU_ARE_NOT_ALLOWED_TO_INVITE_USERS_TO_THIS_ORGANIZATION'',
        ''YOU_ARE_NOT_ALLOWED_TO_INVITE_USER_WITH_THIS_ROLE'',
        ''YOU_ARE_NOT_ALLOWED_TO_CANCEL_THIS_INVITATION'',
        ''YOU_ARE_NOT_THE_RECIPIENT_OF_THE_INVITATION'',
        ''INVITER_IS_NO_LONGER_A_MEMBER_OF_THE_ORGANIZATION'',
        ''YOU_ARE_NOT_ALLOWED_TO_DELETE_THIS_MEMBER'',
        ''YOU_ARE_NOT_ALLOWED_TO_UPDATE_THIS_MEMBER'',
        ''YOU_CANNOT_LEAVE_THE_ORGANIZATION_AS_THE_ONLY_OWNER'',
        ''YOU_CANNOT_LEAVE_THE_ORGANIZATION_WITHOUT_AN_OWNER'',
        ''YOU_ARE_NOT_ALLOWED_TO_CREATE_A_NEW_TEAM'',
        ''YOU_ARE_NOT_ALLOWED_TO_CREATE_TEAMS_IN_THIS_ORGANIZATION'',
        ''YOU_ARE_NOT_ALLOWED_TO_DELETE_TEAMS_IN_THIS_ORGANIZATION'',
        ''YOU_ARE_NOT_ALLOWED_TO_UPDATE_THIS_TEAM'', ''YOU_ARE_NOT_ALLOWED_TO_DELETE_THIS_TEAM'',
        ''USER_IS_NOT_A_MEMBER_OF_THE_TEAM'', ''YOU_CAN_NOT_ACCESS_THE_MEMBERS_OF_THIS_TEAM'',
        ''YOU_ARE_NOT_ALLOWED_TO_CREATE_A_NEW_TEAM_MEMBER'',
        ''YOU_ARE_NOT_ALLOWED_TO_REMOVE_A_TEAM_MEMBER'',
        ''YOU_MUST_BE_IN_AN_ORGANIZATION_TO_CREATE_A_ROLE'',
        ''YOU_ARE_NOT_ALLOWED_TO_CREATE_A_ROLE'', ''YOU_ARE_NOT_ALLOWED_TO_UPDATE_A_ROLE'',
        ''YOU_ARE_NOT_ALLOWED_TO_DELETE_A_ROLE'', ''YOU_ARE_NOT_ALLOWED_TO_READ_A_ROLE'',
        ''YOU_ARE_NOT_ALLOWED_TO_LIST_A_ROLE'', ''YOU_ARE_NOT_ALLOWED_TO_GET_A_ROLE'',
        ''CANNOT_DELETE_A_PRE_DEFINED_ROLE'', ''UNABLE_TO_REMOVE_LAST_TEAM''],
        forbidden_error),
      ([''ORGANIZATION_NOT_FOUND'', ''NO_ACTIVE_ORGANIZATION'', ''MEMBER_NOT_FOUND'',
        ''ROLE_NOT_FOUND'', ''TEAM_NOT_FOUND'', ''INVITATION_NOT_FOUND'',
        ''YOU_DO_NOT_HAVE_AN_ACTIVE_TEAM''],
        not_found_error),
      ([''ORGANIZATION_ALREADY_EXISTS'', ''ORGANIZATION_SLUG_ALREADY_TAKEN'',
        ''TEAM_ALREADY_EXISTS'', ''ROLE_NAME_IS_ALREADY_TAKEN'', ''ROLE_IS_ASSIGNED_TO_MEMBERS'',
        ''USER_IS_ALREADY_A_MEMBER_OF_THIS_ORGANIZATION'',
        ''USER_IS_ALREADY_INVITED_TO_THIS_ORGANIZATION'',
        ''YOU_HAVE_REACHED_THE_MAXIMUM_NUMBER_OF_ORGANIZATIONS'',
        ''YOU_HAVE_REACHED_THE_MAXIMUM_NUMBER_OF_TEAMS'',
        ''ORGANIZATION_MEMBERSHIP_LIMIT_REACHED'', ''INVITATION_LIMIT_REACHED'',
        ''TEAM_MEMBER_LIMIT_REACHED'', ''TOO_MANY_ROLES''],
        conflict_error),
      ([''NO_DATA_TO_UPDATE'', ''INVALID_ROLE_TYPE'',
        ''YOU_ARE_NOT_ALLOWED_TO_SET_NON_EXISTENT_VALUE'', ''EMAIL_CAN_NOT_BE_UPDATED'',
        ''EMAIL_MISMATCH'', ''FIELD_NOT_ALLOWED'', ''MISSING_FIELD'', ''BODY_MUST_BE_AN_OBJECT'',
        ''INVALID_RESOURCE''],
        validation_error),
      ([''FAILED_TO_CREATE_USER'', ''FAILED_TO_CREATE_SESSION'', ''FAILED_TO_UPDATE_USER'',
        ''FAILED_TO_GET_SESSION'', ''FAILED_TO_GET_USER_INFO'',
        ''FAILED_TO_CREATE_VERIFICATION'', ''FAILED_TO_RETRIEVE_INVITATION'',
        ''ASYNC_VALIDATION_NOT_SUPPORTED''],
        internal_server_error)]"

definition mapBetterAuthCodeToDomainError :: "string \<Rightarrow> app_error" where
  "mapBetterAuthCodeToDomainError code = (case find (\<lambda>(cs, e). code \<in> set cs) code_groups of
     Some (cs, e) \<Rightarrow> e | None \<Rightarrow> auth_configuration_error)"

text \<open>\<open>base\<close> are the codes of \<^verbatim>\<open>better-auth\<close> itself.\<close>

definition isBetterAuthErrorCode :: "string list \<Rightarrow> string option \<Rightarrow> bool" where
  "isBetterAuthErrorCode base code = (case code of None \<Rightarrow> False
     | Some c \<Rightarrow> c \<in> set base \<or> c \<in> set admin_codes \<or> c \<in> set organization_codes)"

text \<open>\<^verbatim>\<open>err.body?.code ?? err.code\<close>; None for an error without either.\<close>

fun raw_code :: "iam_exn \<Rightarrow> string option" where
  "raw_code (App e) = Some (ae_code e)"
| "raw_code (SdkError (Some c) _ _) = Some c"
| "raw_code (SdkError None c _) = c"
| "raw_code (JsError c _) = c"
| "raw_code _ = None"

text \<open>Reading \<^verbatim>\<open>err.body\<close> of null throws a \<^verbatim>\<open>TypeError\<close>.\<close>

definition mapBetterAuthError :: "string list \<Rightarrow> iam_exn \<Rightarrow> string \<Rightarrow> iam_exn" where
  "mapBetterAuthError base err infraMessage =
     (if err = NullThrown then JsError None ''Cannot read properties of null''
      else if isBetterAuthErrorCode base (raw_code err)
      then App (mapBetterAuthCodeToDomainError (the (raw_code err)))
      else App (infrastructure_error infraMessage))"

subsection \<open>The boundary\<close>

text \<open>The message of a thrown value, when it has one.\<close>

fun exn_message :: "iam_exn \<Rightarrow> string option" where
  "exn_message (App e) = Some (ae_message e)"
| "exn_message (SdkError _ _ m) = Some m"
| "exn_message (JsError _ m) = Some m"
| "exn_message (InputParse _) = Some ''Invalid input''"
| "exn_message OutputParse = Some ''Unexpected server response''"
| "exn_message _ = None"

definition isNextJsControlError :: "iam_exn \<Rightarrow> bool" where
  "isNextJsControlError e =
     (exn_message e = Some ''NEXT_REDIRECT'' \<or> exn_message e = Some ''NEXT_NOT_FOUND'')"

definition mapErrorToZSA :: "iam_exn \<Rightarrow> iam_exn boundary" where
  "mapErrorToZSA e =
     (if isNextJsControlError e then Rethrown e
      else case e of
        InputParse d \<Rightarrow> Zsa ''INPUT_PARSE_ERROR'' (ZInput d)
      | OutputParse \<Rightarrow> Zsa ''OUTPUT_PARSE_ERROR'' (ZText ''Something went wrong. Please try again later.'')
      | App a \<Rightarrow> Zsa ''ERROR'' (ZText (ae_message a))
      | SdkError _ _ m \<Rightarrow> Zsa ''ERROR'' (ZText m)
      | JsError _ m \<Rightarrow> Zsa ''ERROR'' (ZText m)
      | _ \<Rightarrow> Zsa ''INTERNAL_SERVER_ERROR'' (ZText ''Something went wrong''))"

definition next_redirect :: "string \<Rightarrow> iam_exn" where
  "next_redirect u = JsError None ''NEXT_REDIRECT''"

interpretation iam_boundary: error_boundary mapErrorToZSA next_redirect isNextJsControlError "\<lambda>e. e = OutputParse"
proof
  fix e :: iam_exn and u
  show "isNextJsControlError e \<Longrightarrow> mapErrorToZSA e = Rethrown e" by (simp add: mapErrorToZSA_def)
  show "\<not> isNextJsControlError e \<Longrightarrow> \<exists>code data. mapErrorToZSA e = Zsa code data"
    by (simp add: mapErrorToZSA_def split: iam_exn.splits)
  show "e = OutputParse \<Longrightarrow> mapErrorToZSA e =
      Zsa ''OUTPUT_PARSE_ERROR'' (ZText ''Something went wrong. Please try again later.'')"
    by (simp add: mapErrorToZSA_def isNextJsControlError_def)
  show "isNextJsControlError (next_redirect u)" by (simp add: isNextJsControlError_def next_redirect_def)
qed

subsection \<open>Properties\<close>

lemma mapBetterAuthCode_in:
  "mapBetterAuthCodeToDomainError code \<in> insert auth_configuration_error (snd ` set code_groups)"
  by (auto simp: mapBetterAuthCodeToDomainError_def find_Some_iff split: option.splits)
    (metis image_eqI nth_mem snd_conv)

lemma group_statuses:
  "list_all (\<lambda>(cs, e). ae_statusCode e \<in> {400, 401, 403, 404, 409, 500}) code_groups"
  by (simp add: code_groups_def applicationError_def auth_error_def invalid_credentials_error_def
      user_already_exists_error_def email_not_verified_error_def session_expired_error_def
      account_not_found_error_def password_policy_error_def auth_configuration_error_def
      account_disabled_error_def forbidden_error_def not_found_error_def conflict_error_def
      validation_error_def internal_server_error_def)

lemma group_classes:
  "list_all (\<lambda>(cs, e). ae_class e \<noteq> InfrastructureError) code_groups"
  by (simp add: code_groups_def applicationError_def auth_error_def invalid_credentials_error_def
      user_already_exists_error_def email_not_verified_error_def session_expired_error_def
      account_not_found_error_def password_policy_error_def auth_configuration_error_def
      account_disabled_error_def forbidden_error_def not_found_error_def conflict_error_def
      validation_error_def internal_server_error_def)

lemma handled_iff: "list_ex (\<lambda>(cs, e). c \<in> set cs) gs \<longleftrightarrow> c \<in> set (concat (map fst gs))"
  by (induction gs) auto

lemma codes_handled:
  "list_all (\<lambda>c. list_ex (\<lambda>(cs, e). c \<in> set cs) code_groups) admin_codes"
  "list_all (\<lambda>c. list_ex (\<lambda>(cs, e). c \<in> set cs) code_groups) organization_codes"
  unfolding handled_iff code_groups_def admin_codes_def organization_codes_def
    list.map concat.simps append.simps fst_conv
  by (simp_all only: list_all_iff list.set ball_simps insert_iff simp_thms)

lemma mapped_status: "ae_statusCode (mapBetterAuthCodeToDomainError code) \<in> {400, 401, 403, 404, 409, 500}"
  using mapBetterAuthCode_in [of code] group_statuses
  by (auto simp: list_all_iff auth_configuration_error_def auth_error_def applicationError_def)

lemma mapped_class: "ae_class (mapBetterAuthCodeToDomainError code) \<noteq> InfrastructureError"
  using mapBetterAuthCode_in [of code] group_classes
  by (auto simp: list_all_iff auth_configuration_error_def auth_error_def applicationError_def)

text \<open>
  Every error of the auth SDK becomes an application error. A thrown value other than null is
  mapped to an \<^verbatim>\<open>ApplicationError\<close> with one of six status codes, and to an
  \<^verbatim>\<open>InfrastructureError\<close> exactly when its code is not one of Better Auth's; every code of the
  admin and organization plugins has an explicit case, so the fallback is never used for them.
\<close>

lemma auth_errors_translated:
  assumes "err \<noteq> NullThrown"
  shows "(\<exists>e. mapBetterAuthError base err m = App e \<and>
      ae_statusCode e \<in> {400, 401, 403, 404, 409, 500} \<and>
      (ae_class e = InfrastructureError \<longleftrightarrow> \<not> isBetterAuthErrorCode base (raw_code err))) \<and>
    list_all (\<lambda>c. list_ex (\<lambda>(cs, e). c \<in> set cs) code_groups) (admin_codes @ organization_codes)"
  using assms mapped_status mapped_class codes_handled
  by (auto simp: mapBetterAuthError_def infrastructure_error_def applicationError_def)

lemma auth_errors_translated_witness:
  "\<exists>e. mapBetterAuthError [] (SdkError (Some ''BANNED_USER'') None ''m'') ''x'' = App e \<and>
     ae_class e \<noteq> InfrastructureError"
  using auth_errors_translated [of "SdkError (Some ''BANNED_USER'') None ''m''" "[]" "''x''"]
  by (auto simp: isBetterAuthErrorCode_def admin_codes_def)

text \<open>
  Only the framework's navigation signals leave a server action of the identity service untyped;
  everything else is a \<^verbatim>\<open>ZSAError\<close>. The client sees the text of an application error, and of any
  other \<^verbatim>\<open>Error\<close> as well (a database or library message is not replaced); only output-parse errors
  and values that are no errors get a generic text. A redirect that the transport asks for
  reaches the framework.
\<close>

lemma iam_action_errors:
  "(case fst (runWithTransport mapErrorToZSA next_redirect outcome) of
      Inl (Rethrown e) \<Rightarrow> isNextJsControlError e | _ \<Rightarrow> True) \<and>
   fst (runWithTransport mapErrorToZSA next_redirect
     (Inr (r, Some \<lparr>tr_url = Some (c # u), tr_shouldRevalidate = b, tr_shouldRedirect = True,
        tr_revalidateType = ty\<rparr>))) = Inl (Rethrown (next_redirect (c # u))) \<and>
   mapErrorToZSA (JsError code msg) = (if msg \<in> {''NEXT_REDIRECT'', ''NEXT_NOT_FOUND''}
     then Rethrown (JsError code msg) else Zsa ''ERROR'' (ZText msg)) \<and>
   mapErrorToZSA OutputParse =
     Zsa ''OUTPUT_PARSE_ERROR'' (ZText ''Something went wrong. Please try again later.'')"
  by (intro conjI iam_boundary.outcome_typed iam_boundary.redirect_reaches iam_boundary.hidden_generic refl)
    (auto simp: url_set_def mapErrorToZSA_def isNextJsControlError_def)

end
