(* ===== verification/Iam_Cache.thy ===== *)
theory Iam_Cache
  imports Fn_Prelude
begin

text \<open>
  The two caches of allowed origins in the identity service: the origins of the OAuth clients'
  redirect URIs (\<^verbatim>\<open>auth-provider/oauth-client-origins.ts\<close>), read from the database, and the copy of
  that list in the request middleware (\<^verbatim>\<open>proxy.ts\<close>), fetched from
  \<^verbatim>\<open>api/internal/cors-origins/route.ts\<close>. Times are milliseconds of \<^verbatim>\<open>Date.now()\<close>. The URL parser is
  the argument \<open>parse\<close> (the origin of a URL, None when it throws). One request runs at a time.
\<close>

subsection \<open>The contract of a cache with a time to live\<close>

text \<open>
  \<open>serve src now s\<close> is the value served (None when the operation throws) and the next state;
  \<open>content\<close> reads the cached set with its time stamp, \<open>fetched\<close> what the source would deliver now;
  \<open>extra\<close> are elements the provider adds on its own account.
\<close>

locale ttl_cache =
  fixes serve :: "'src \<Rightarrow> int \<Rightarrow> 's \<Rightarrow> 'v set option \<times> 's"
    and content :: "'s \<Rightarrow> ('v set \<times> int) option"
    and fetched :: "'src \<Rightarrow> 'v set option"
    and extra :: "'v set"
    and ttl :: int
  assumes served_fresh: "content s = Some (A, ts) \<Longrightarrow> now - ts < ttl \<Longrightarrow> serve src now s = (B, s') \<Longrightarrow>
      (\<forall>C. B = Some C \<longrightarrow> C \<subseteq> A \<union> extra) \<and> (\<exists>A' \<subseteq> A \<union> extra. content s' = Some (A', ts))"
    and served_stale: "content s = None \<or> (\<exists>A ts. content s = Some (A, ts) \<and> \<not> now - ts < ttl) \<Longrightarrow>
      fetched src = Some F \<Longrightarrow> serve src now s = (B, s') \<Longrightarrow>
      (\<forall>C. B = Some C \<longrightarrow> C \<subseteq> F \<union> extra) \<and> (\<exists>A' \<subseteq> F \<union> extra. content s' = Some (A', now))"
    and served_failing: "content s = None \<or> (\<exists>A ts. content s = Some (A, ts) \<and> \<not> now - ts < ttl) \<Longrightarrow>
      fetched src = None \<Longrightarrow> serve src now s = (B, s') \<Longrightarrow>
      (\<forall>C. B = Some C \<longrightarrow> C \<subseteq> (case content s of None \<Rightarrow> {} | Some (A, ts) \<Rightarrow> A) \<union> extra) \<and>
      (case content s of None \<Rightarrow> content s' = None
       | Some (A, ts) \<Rightarrow> \<exists>A' \<subseteq> A \<union> extra. content s' = Some (A', ts))"
begin

text \<open>
  A source property \<open>P v t\<close> (\<open>v\<close> was delivered at time \<open>t\<close>) that holds of all that is cached and all
  that is fetched holds of all that is cached afterwards, and of every element served with a time
  less than \<open>ttl\<close> ago, or, when the source fails, with the time of the last success.
\<close>

definition sound :: "('v \<Rightarrow> int \<Rightarrow> bool) \<Rightarrow> 's \<Rightarrow> bool" where
  "sound P s = (case content s of None \<Rightarrow> True | Some (A, ts) \<Rightarrow> \<forall>v \<in> A. v \<in> extra \<or> P v ts)"

lemma sound_mono: "sound P s \<Longrightarrow> (\<And>v t. P v t \<Longrightarrow> Q v t) \<Longrightarrow> sound Q s"
  by (auto simp: sound_def split: option.splits)

lemma serve_sound:
  assumes "sound P s" and "\<And>F v. fetched src = Some F \<Longrightarrow> v \<in> F \<Longrightarrow> P v now"
    and "serve src now s = (B, s')"
  shows "sound P s'"
proof (cases "\<exists>A ts. content s = Some (A, ts) \<and> now - ts < ttl")
  case True
  then obtain A ts where c: "content s = Some (A, ts)" "now - ts < ttl" by blast
  from served_fresh [OF c assms(3)] c assms(1) show ?thesis by (fastforce simp: sound_def)
next
  case False
  then have stale: "content s = None \<or> (\<exists>A ts. content s = Some (A, ts) \<and> \<not> now - ts < ttl)"
    by (cases "content s") auto
  show ?thesis
  proof (cases "fetched src")
    case None
    from served_failing [OF stale None assms(3)] assms(1) show ?thesis
      by (cases "content s") (fastforce simp: sound_def)+
  next
    case (Some F)
    from served_stale [OF stale Some assms(3)] assms(2) [OF Some] show ?thesis
      by (fastforce simp: sound_def)
  qed
qed

lemma serve_cached:
  assumes "sound P s" and "content s = Some (A, ts)" and "now - ts < ttl"
    and "serve src now s = (Some C, s')" and "v \<in> C" and "v \<notin> extra"
  shows "P v ts"
  using served_fresh [OF assms(2,3,4)] assms by (auto simp: sound_def)

lemma serve_bounded:
  assumes "sound P s" and "\<And>F v. fetched src = Some F \<Longrightarrow> v \<in> F \<Longrightarrow> P v now"
    and "serve src now s = (Some C, s')" and "v \<in> C" and "v \<notin> extra" and "0 < ttl"
  shows "\<exists>ts. P v ts \<and> (now - ts < ttl \<or> fetched src = None)"
proof (cases "\<exists>A ts. content s = Some (A, ts) \<and> now - ts < ttl")
  case True
  then obtain A ts where c: "content s = Some (A, ts)" "now - ts < ttl" by blast
  from served_fresh [OF c assms(3)] c assms show ?thesis by (fastforce simp: sound_def)
next
  case False
  then have stale: "content s = None \<or> (\<exists>A ts. content s = Some (A, ts) \<and> \<not> now - ts < ttl)"
    by (cases "content s") auto
  show ?thesis
  proof (cases "fetched src")
    case None
    from served_failing [OF stale None assms(3)] assms None show ?thesis
      by (cases "content s") (fastforce simp: sound_def)+
  next
    case (Some F)
    from served_stale [OF stale Some assms(3)] assms(2) [OF Some] assms(4,5) have "P v now" by blast
    with assms(6) show ?thesis by (intro exI [of _ now]) simp
  qed
qed

end

text \<open>A cache that throws rather than serve an expired value.\<close>

locale strict_ttl_cache = ttl_cache +
  assumes stale_throws: "content s = None \<or> (\<exists>A ts. content s = Some (A, ts) \<and> \<not> now - ts < ttl) \<Longrightarrow>
      fetched src = None \<Longrightarrow> fst (serve src now s) = None"
begin

lemma serve_fresh:
  assumes "sound P s" and "\<And>F v. fetched src = Some F \<Longrightarrow> v \<in> F \<Longrightarrow> P v now"
    and "serve src now s = (Some C, s')" and "v \<in> C" and "v \<notin> extra" and "0 < ttl"
  shows "\<exists>ts. P v ts \<and> now - ts < ttl"
proof (cases "\<exists>A ts. content s = Some (A, ts) \<and> now - ts < ttl")
  case True
  then obtain A ts where c: "content s = Some (A, ts)" "now - ts < ttl" by blast
  from served_fresh [OF c assms(3)] c assms show ?thesis by (fastforce simp: sound_def)
next
  case False
  then have "content s = None \<or> (\<exists>A ts. content s = Some (A, ts) \<and> \<not> now - ts < ttl)"
    by (cases "content s") auto
  from stale_throws [OF this, of src] assms(3) have "fetched src \<noteq> None" by (cases "fetched src") auto
  moreover have "\<exists>ts. P v ts \<and> (now - ts < ttl \<or> fetched src = None)"
    by (rule serve_bounded) (fact assms)+
  ultimately show ?thesis by auto
qed

end

subsection \<open>The origins of the OAuth clients\<close>

type_synonym clients = "string list list"

record origins_state =
  oc_cache :: "(string list \<times> int) option"
  oc_validAudiences :: "string list"

definition OAUTH_TTL_MS :: int where
  "OAUTH_TTL_MS = 60000"

definition extractOrigin :: "(string \<Rightarrow> string option) \<Rightarrow> string \<Rightarrow> string option" where
  "extractOrigin parse uri = parse uri"

definition origins_of :: "(string \<Rightarrow> string option) \<Rightarrow> clients \<Rightarrow> string list" where
  "origins_of parse clients = js_set (concat (map (List.map_filter (extractOrigin parse)) clients))"

text \<open>\<open>base\<close> is \<^verbatim>\<open>BETTER_AUTH_URL\<close>; \<open>db\<close> the redirect URIs of the clients, None when the query throws.\<close>

definition audiences :: "string option \<Rightarrow> string list \<Rightarrow> string list" where
  "audiences base origins = filter (\<lambda>x. x \<noteq> []) ((case base of None \<Rightarrow> [] | Some b \<Rightarrow> [b]) @ origins)"

definition initial_origins :: "string option \<Rightarrow> origins_state" where
  "initial_origins base = \<lparr>oc_cache = None, oc_validAudiences = audiences base []\<rparr>"

definition fetchAndApply ::
    "string option \<Rightarrow> (string \<Rightarrow> string option) \<Rightarrow> clients option \<Rightarrow> int \<Rightarrow> origins_state \<Rightarrow>
     string list option \<times> origins_state" where
  "fetchAndApply base parse db now s = (case db of
     None \<Rightarrow> (None, s)
   | Some clients \<Rightarrow> let origins = origins_of parse clients
       in (Some origins, \<lparr>oc_cache = Some (origins, now), oc_validAudiences = audiences base origins\<rparr>))"

definition getOAuthClientOrigins ::
    "string option \<Rightarrow> (string \<Rightarrow> string option) \<Rightarrow> clients option \<Rightarrow> int \<Rightarrow> origins_state \<Rightarrow>
     string list option \<times> origins_state" where
  "getOAuthClientOrigins base parse db now s = (case oc_cache s of
     Some (origins, ts) \<Rightarrow> if now - ts < OAUTH_TTL_MS then (Some origins, s)
                           else fetchAndApply base parse db now s
   | None \<Rightarrow> fetchAndApply base parse db now s)"

definition refreshOAuthClientOrigins ::
    "string option \<Rightarrow> (string \<Rightarrow> string option) \<Rightarrow> clients option \<Rightarrow> int \<Rightarrow> origins_state \<Rightarrow> origins_state" where
  "refreshOAuthClientOrigins base parse db now s = snd (fetchAndApply base parse db now (s\<lparr>oc_cache := None\<rparr>))"

abbreviation origins_content :: "origins_state \<Rightarrow> (string set \<times> int) option" where
  "origins_content s \<equiv> map_option (\<lambda>(os, ts). (set os, ts)) (oc_cache s)"

lemmas origins_simps = getOAuthClientOrigins_def fetchAndApply_def OAUTH_TTL_MS_def Let_def

interpretation oauth_origins: strict_ttl_cache
  "\<lambda>db now s. apfst (map_option set) (getOAuthClientOrigins base parse db now s)"
  origins_content "map_option (\<lambda>cs. set (origins_of parse cs))" "{}" OAUTH_TTL_MS
  by unfold_locales (auto simp: origins_simps apfst_def map_prod_def split: option.splits if_splits)

subsection \<open>GET /api/internal/cors-origins\<close>

definition cors_origins ::
    "string option \<Rightarrow> string option \<Rightarrow> string list option \<times> origins_state \<Rightarrow> origins_state \<Rightarrow>
     route_result \<times> origins_state" where
  "cors_origins INTERNAL_SECRET auth got s =
     (if INTERNAL_SECRET \<noteq> None \<and> INTERNAL_SECRET \<noteq> Some [] \<and> auth \<noteq> INTERNAL_SECRET
      then (Reply 401 (err_json ''Unauthorized''), s)
      else (case got of
        (None, s') \<Rightarrow> (Crash, s')
      | (Some origins, s') \<Rightarrow> (Reply 200 (JObj [(''origins'', JArr (map JStr origins))]), s')))"

subsection \<open>The middleware\<close>

type_synonym cors_cache = "(json list \<times> int) option"

definition CORS_TTL_MS :: int where
  "CORS_TTL_MS = 60000"

text \<open>\<^verbatim>\<open>new Set(v)\<close>; None when \<open>v\<close> is not iterable. (Only membership of strings is ever tested.)\<close>

fun new_set :: "json option \<Rightarrow> json list option" where
  "new_set None = Some []"
| "new_set (Some JNull) = Some []"
| "new_set (Some (JArr vs)) = Some (js_set vs)"
| "new_set (Some (JStr s)) = Some (js_set (map (\<lambda>c. JStr [c]) s))"
| "new_set (Some _) = None"

text \<open>What a response brings: None for a failed fetch, a status outside 200--299 or an unusable body.\<close>

definition cors_fetched :: "route_result option \<Rightarrow> json list option" where
  "cors_fetched reply = (case reply of
     Some (Reply st j) \<Rightarrow> if 200 \<le> st \<and> st < 300 \<and> j \<noteq> JNull then new_set (jget j ''origins'') else None
   | _ \<Rightarrow> None)"

definition cors_fresh :: "int \<Rightarrow> cors_cache \<Rightarrow> bool" where
  "cors_fresh now corsCache = (case corsCache of None \<Rightarrow> False | Some (os, ts) \<Rightarrow> now - ts < CORS_TTL_MS)"

definition getAllowedOrigins :: "route_result option \<Rightarrow> int \<Rightarrow> cors_cache \<Rightarrow> json list \<times> cors_cache" where
  "getAllowedOrigins reply now corsCache =
     (if cors_fresh now corsCache then (fst (the corsCache), corsCache)
      else (case cors_fetched reply of
        Some origins \<Rightarrow> (origins, Some (origins, now))
      | None \<Rightarrow> (case corsCache of None \<Rightarrow> [] | Some (os, ts) \<Rightarrow> os, corsCache)))"

definition buildCorsHeaders :: "string \<Rightarrow> (string \<times> string) list" where
  "buildCorsHeaders origin =
     [(''Access-Control-Allow-Origin'', origin),
      (''Access-Control-Allow-Credentials'', ''true''),
      (''Access-Control-Allow-Methods'', ''GET,POST,PUT,PATCH,DELETE,OPTIONS''),
      (''Access-Control-Allow-Headers'', ''Content-Type, Authorization'')]"

definition test_origin :: json where
  "test_origin = JStr ''https://test.drgodly.com''"

text \<open>
  The set that \<^verbatim>\<open>getAllowedOrigins\<close> returns is the cached one, when there is one: the \<^verbatim>\<open>add\<close> changes
  the cache.
\<close>

definition allowed_origins :: "route_result option \<Rightarrow> int \<Rightarrow> cors_cache \<Rightarrow> json list \<times> cors_cache" where
  "allowed_origins reply now corsCache =
     (let (os, cache') = getAllowedOrigins reply now corsCache; os' = js_set_add os test_origin
      in (os', map_option (\<lambda>(_, ts). (os', ts)) cache'))"

record cors_request =
  cq_pathname :: string
  cq_origin :: "string option"
  cq_method :: string
  cq_url :: string

text \<open>The internationalization middleware is a library: its \<^verbatim>\<open>ok\<close> and its rewrite header.\<close>

datatype proxy_result =
    Preflight "(string \<times> string) list"
  | Continue "(string \<times> string) list"
  | IntlResponse

definition intl_part :: "bool \<times> string option \<Rightarrow> (string \<Rightarrow> string) \<Rightarrow> cors_request \<Rightarrow> proxy_result" where
  "intl_part intl url_pathname req = (case intl of (ok, rewrite) \<Rightarrow>
     if \<not> ok then IntlResponse
     else let path = (case rewrite of Some (c # u) \<Rightarrow> c # u | _ \<Rightarrow> cq_url req);
              parts = split_on (CHR ''/'') (url_pathname path);
              locale' = (case drop 1 parts of [] \<Rightarrow> ''undefined'' | l # _ \<Rightarrow> l)
          in Continue [(''x-pathname'', ''/'' @ join_with ''/'' (drop 2 parts)), (''x-next-intl-locale'', locale')])"

definition needs_origins :: "cors_request \<Rightarrow> bool" where
  "needs_origins req = (starts_with (cq_pathname req) ''/api'' \<and> cq_origin req \<noteq> None \<and> cq_origin req \<noteq> Some [])"

definition proxy ::
    "bool \<times> string option \<Rightarrow> (string \<Rightarrow> string) \<Rightarrow> cors_request \<Rightarrow> route_result option \<Rightarrow> int \<Rightarrow> cors_cache \<Rightarrow>
     proxy_result \<times> cors_cache" where
  "proxy intl url_pathname req reply now corsCache =
     (if starts_with (cq_pathname req) ''/api'' then
        (if needs_origins req then
           (let origin = the (cq_origin req); (os, cache') = allowed_origins reply now corsCache
            in if JStr origin \<in> set os
               then (if cq_method req = ''OPTIONS'' then Preflight (buildCorsHeaders origin)
                     else Continue (buildCorsHeaders origin), cache')
               else (Continue [], cache'))
         else (Continue [], corsCache))
      else (intl_part intl url_pathname req, corsCache))"

text \<open>The middleware's cache meets the contract, with the hard-coded origin as its own addition.\<close>

lemma set_js_set_add [simp]: "set (js_set_add s x) = insert x (set s)"
  by auto

lemmas cors_simps = allowed_origins_def getAllowedOrigins_def cors_fresh_def Let_def

interpretation cors_cache: ttl_cache
  "\<lambda>reply now s. apfst (Some \<circ> set) (allowed_origins reply now s)"
  "map_option (\<lambda>(os, ts). (set os, ts))" "map_option set \<circ> cors_fetched" "{test_origin}" CORS_TTL_MS
  by unfold_locales
    (auto simp: cors_simps apfst_def map_prod_def simp del: js_set_add.simps split: option.splits if_splits)

subsection \<open>Both caches together\<close>

text \<open>
  The server: the middleware's cache and the origins' cache. A request needs the fetch only when the
  middleware's cache has expired; the endpoint then runs in the same server with the same secret.
  \<open>net\<close> tells whether the fetch reaches it. The other steps are Better Auth asking for the trusted
  origins, and the refresh after a change of a client.
\<close>

record server_config =
  sv_baseUrl :: "string option"
  sv_secret :: "string option"
  sv_parse :: "string \<Rightarrow> string option"

type_synonym server_state = "cors_cache \<times> origins_state"

datatype server_step =
    Request (step_time: int) (step_db: "clients option") bool cors_request "bool \<times> string option"
  | TrustedOrigins (step_time: int) (step_db: "clients option")
  | RefreshOrigins (step_time: int) (step_db: "clients option")

definition secret_header :: "string option \<Rightarrow> string option" where
  "secret_header secret = (case secret of Some (c # k) \<Rightarrow> Some (c # k) | _ \<Rightarrow> None)"

definition request_step ::
    "server_config \<Rightarrow> (string \<Rightarrow> string) \<Rightarrow> int \<Rightarrow> clients option \<Rightarrow> bool \<Rightarrow> cors_request \<Rightarrow>
     bool \<times> string option \<Rightarrow> server_state \<Rightarrow> proxy_result \<times> server_state" where
  "request_step cfg url_pathname now db net req intl = (\<lambda>(outer, inner).
     let (reply, inner') =
           (if needs_origins req \<and> \<not> cors_fresh now outer \<and> net
            then (case cors_origins (sv_secret cfg) (secret_header (sv_secret cfg))
                    (getOAuthClientOrigins (sv_baseUrl cfg) (sv_parse cfg) db now inner) inner of
                  (r, i) \<Rightarrow> (Some r, i))
            else (None, inner));
         (result, outer') = proxy intl url_pathname req reply now outer
     in (result, (outer', inner')))"

fun server_run :: "server_config \<Rightarrow> (string \<Rightarrow> string) \<Rightarrow> server_step \<Rightarrow> server_state \<Rightarrow> server_state" where
  "server_run cfg up (Request now db net req intl) s = snd (request_step cfg up now db net req intl s)"
| "server_run cfg up (TrustedOrigins now db) (outer, inner) =
     (outer, snd (getOAuthClientOrigins (sv_baseUrl cfg) (sv_parse cfg) db now inner))"
| "server_run cfg up (RefreshOrigins now db) (outer, inner) =
     (outer, refreshOAuthClientOrigins (sv_baseUrl cfg) (sv_parse cfg) db now inner)"

text \<open>An origin was registered: some step read the database at time \<open>t\<close> and it was there.\<close>

definition registered :: "server_config \<Rightarrow> server_step list \<Rightarrow> string \<Rightarrow> int \<Rightarrow> bool" where
  "registered cfg steps origin t = (\<exists>st \<in> set steps. step_time st = t \<and>
     (\<exists>cs. step_db st = Some cs \<and> origin \<in> set (origins_of (sv_parse cfg) cs)))"

definition served_before :: "server_config \<Rightarrow> server_step list \<Rightarrow> json \<Rightarrow> int \<Rightarrow> bool" where
  "served_before cfg steps v ts = (\<exists>origin t. v = JStr origin \<and> registered cfg steps origin t \<and> ts - t < OAUTH_TTL_MS)"

definition server_inv :: "server_config \<Rightarrow> server_step list \<Rightarrow> server_state \<Rightarrow> bool" where
  "server_inv cfg steps s = (cors_cache.sound (served_before cfg steps) (fst s) \<and>
     oauth_origins.sound (registered cfg steps) (snd s))"

lemma registered_mono: "registered cfg steps v t \<Longrightarrow> set steps \<subseteq> set steps' \<Longrightarrow> registered cfg steps' v t"
  unfolding registered_def by blast

lemma served_before_mono:
  "served_before cfg steps v t \<Longrightarrow> set steps \<subseteq> set steps' \<Longrightarrow> served_before cfg steps' v t"
  unfolding served_before_def using registered_mono by blast

lemma server_inv_mono: "server_inv cfg steps s \<Longrightarrow> set steps \<subseteq> set steps' \<Longrightarrow> server_inv cfg steps' s"
  unfolding server_inv_def
  by (blast intro: cors_cache.sound_mono oauth_origins.sound_mono registered_mono served_before_mono)

lemma db_registered:
  "st \<in> set steps \<Longrightarrow> map_option (\<lambda>cs. set (origins_of (sv_parse cfg) cs)) (step_db st) = Some F \<Longrightarrow> v \<in> F \<Longrightarrow>
   registered cfg steps v (step_time st)"
  by (auto simp: registered_def)

lemma origins_sound:
  assumes "oauth_origins.sound (registered cfg steps) s" and "st \<in> set steps"
    and "getOAuthClientOrigins base (sv_parse cfg) (step_db st) (step_time st) s = (r, s')"
  shows "oauth_origins.sound (registered cfg steps) s'"
proof (rule oauth_origins.serve_sound [OF assms(1)])
  show "apfst (map_option set) (getOAuthClientOrigins base (sv_parse cfg) (step_db st) (step_time st) s) =
      (map_option set r, s')"
    by (simp add: assms(3))
qed (rule db_registered [OF assms(2)])

lemma origins_served:
  assumes "oauth_origins.sound (registered cfg steps) s" and "st \<in> set steps"
    and "getOAuthClientOrigins base (sv_parse cfg) (step_db st) (step_time st) s = (Some os, s')"
    and "origin \<in> set os"
  shows "\<exists>t. registered cfg steps origin t \<and> step_time st - t < OAUTH_TTL_MS"
proof (rule oauth_origins.serve_fresh [OF assms(1)])
  show "apfst (map_option set) (getOAuthClientOrigins base (sv_parse cfg) (step_db st) (step_time st) s) =
      (Some (set os), s')"
    by (simp add: assms(3))
qed (use assms(4) db_registered [OF assms(2)] in \<open>auto simp: OAUTH_TTL_MS_def\<close>)

lemma refresh_sound:
  assumes "st \<in> set steps"
  shows "oauth_origins.sound (registered cfg steps)
    (refreshOAuthClientOrigins base (sv_parse cfg) (step_db st) (step_time st) s)"
  using assms by (auto simp: refreshOAuthClientOrigins_def fetchAndApply_def Let_def oauth_origins.sound_def
      registered_def split: option.splits)

lemma cors_origins_reply:
  "cors_origins secret (secret_header secret) got s = (r, s') \<Longrightarrow> cors_fetched (Some r) = Some F \<Longrightarrow>
   s' = snd got \<and> (\<exists>os. fst got = Some os \<and> set F = JStr ` set os)"
  by (cases got; cases "fst got"; cases secret; cases "the secret")
    (auto simp: cors_origins_def secret_header_def cors_fetched_def)

lemma cors_origins_state:
  "cors_origins secret (secret_header secret) got s = (r, s') \<Longrightarrow> s' = snd got"
  by (cases got; cases "fst got"; cases secret; cases "the secret")
    (auto simp: cors_origins_def secret_header_def)

text \<open>What one request does to both caches.\<close>

lemma request_fetch:
  assumes "server_inv cfg steps (outer, inner)" and "st \<in> set steps"
    and "cors_origins (sv_secret cfg) (secret_header (sv_secret cfg))
      (getOAuthClientOrigins base (sv_parse cfg) (step_db st) (step_time st) inner) inner = (r, inner')"
  shows "oauth_origins.sound (registered cfg steps) inner'"
    and "cors_fetched (Some r) = Some F \<Longrightarrow> v \<in> set F \<Longrightarrow> served_before cfg steps v (step_time st)"
proof -
  obtain got s2 where g: "getOAuthClientOrigins base (sv_parse cfg) (step_db st) (step_time st) inner = (got, s2)"
    by fastforce
  have snd: "oauth_origins.sound (registered cfg steps) inner" using assms(1) by (simp add: server_inv_def)
  show "oauth_origins.sound (registered cfg steps) inner'"
    using origins_sound [OF snd assms(2) g] cors_origins_state [OF assms(3)] g by simp
  assume F: "cors_fetched (Some r) = Some F" "v \<in> set F"
  then obtain os origin where "got = Some os" "v = JStr origin" "origin \<in> set os"
    using cors_origins_reply [OF assms(3)] g by auto
  then show "served_before cfg steps v (step_time st)"
    using origins_served [OF snd assms(2)] g unfolding served_before_def by blast
qed

lemma cors_origins_failed:
  "cors_origins secret (secret_header secret) (getOAuthClientOrigins base parse db now inner) inner = (r, s') \<Longrightarrow>
   cors_fetched (Some r) = None \<Longrightarrow> db = None"
  by (cases db; cases secret; cases "the secret"; cases "oc_cache inner")
    (auto simp: cors_origins_def secret_header_def cors_fetched_def origins_simps split: if_splits)

definition grants :: "proxy_result \<Rightarrow> string \<Rightarrow> bool" where
  "grants res origin = (res = Preflight (buildCorsHeaders origin) \<or> res = Continue (buildCorsHeaders origin))"

lemma proxy_grants:
  "proxy intl up req reply now outer = (res, outer') \<Longrightarrow> grants res origin \<Longrightarrow>
   needs_origins req \<and> JStr origin \<in> set (fst (allowed_origins reply now outer)) \<and>
   outer' = snd (allowed_origins reply now outer)"
  by (auto simp: proxy_def grants_def buildCorsHeaders_def intl_part_def Let_def
      split: if_splits prod.splits option.splits)

lemma proxy_cache:
  "proxy intl up req reply now outer = (res, outer') \<Longrightarrow>
   outer' = (if needs_origins req then snd (allowed_origins reply now outer) else outer)"
  by (auto simp: proxy_def needs_origins_def Let_def split: if_splits prod.splits)

lemma allowed_serve:
  "allowed_origins reply now outer = (os, outer') \<Longrightarrow>
   apfst (Some \<circ> set) (allowed_origins reply now outer) = (Some (set os), outer')"
  by simp

text \<open>The outer cache after a request, and what it served.\<close>

lemma outer_step:
  assumes "cors_cache.sound Q outer" and "\<And>F v. cors_fetched reply = Some F \<Longrightarrow> v \<in> set F \<Longrightarrow> Q v now"
  shows "cors_cache.sound Q (snd (proxy intl up req reply now outer))"
proof -
  obtain res outer' where p: "proxy intl up req reply now outer = (res, outer')" by fastforce
  obtain os oc where a: "allowed_origins reply now outer = (os, oc)" by fastforce
  have "cors_cache.sound Q oc"
    by (rule cors_cache.serve_sound [OF assms(1) _ allowed_serve [OF a]]) (use assms(2) in auto)
  then show ?thesis using proxy_cache [OF p] p a assms(1) by auto
qed

lemma outer_grants:
  assumes "cors_cache.sound Q outer" and "\<And>F v. cors_fetched reply = Some F \<Longrightarrow> v \<in> set F \<Longrightarrow> Q v now"
    and "grants (fst (proxy intl up req reply now outer)) origin" and "JStr origin \<noteq> test_origin"
  shows "\<exists>ts. Q (JStr origin) ts \<and> (now - ts < CORS_TTL_MS \<or> \<not> cors_fresh now outer \<and> cors_fetched reply = None)"
proof -
  obtain res outer' where p: "proxy intl up req reply now outer = (res, outer')" by fastforce
  obtain os oc where a: "allowed_origins reply now outer = (os, oc)" by fastforce
  have o: "JStr origin \<in> set os" "JStr origin \<notin> {test_origin}"
    using proxy_grants [OF p] assms(3,4) p a by auto
  show ?thesis
  proof (cases "cors_fresh now outer")
    case True
    then obtain A ts where c: "map_option (\<lambda>(os, ts). (set os, ts)) outer = Some (A, ts)" "now - ts < CORS_TTL_MS"
      by (auto simp: cors_fresh_def split: option.splits)
    from cors_cache.serve_cached [OF assms(1) c allowed_serve [OF a] o] c(2) show ?thesis by blast
  next
    case False
    have "\<exists>ts. Q (JStr origin) ts \<and> (now - ts < CORS_TTL_MS \<or> (map_option set \<circ> cors_fetched) reply = None)"
      by (rule cors_cache.serve_bounded [OF assms(1) _ allowed_serve [OF a] o])
        (use assms(2) in \<open>auto simp: CORS_TTL_MS_def\<close>)
    with False show ?thesis by auto
  qed
qed

lemma request_inv:
  assumes "server_inv cfg steps (outer, inner)" and "Request now db net req intl \<in> set steps"
  shows "server_inv cfg steps (snd (request_step cfg up now db net req intl (outer, inner)))"
    and "grants (fst (request_step cfg up now db net req intl (outer, inner))) origin \<Longrightarrow>
      JStr origin \<noteq> test_origin \<Longrightarrow>
      \<exists>ts. served_before cfg steps (JStr origin) ts \<and> (now - ts < CORS_TTL_MS \<or> \<not> net \<or> db = None)"
proof -
  let ?step = "request_step cfg up now db net req intl (outer, inner)"
  let ?fetch = "needs_origins req \<and> \<not> cors_fresh now outer \<and> net"
  let ?Q = "served_before cfg steps"
  obtain r inner' where c: "cors_origins (sv_secret cfg) (secret_header (sv_secret cfg))
      (getOAuthClientOrigins (sv_baseUrl cfg) (sv_parse cfg) db now inner) inner = (r, inner')" by fastforce
  define reply where "reply = (if ?fetch then Some r else None)"
  have step: "?step = (fst (proxy intl up req reply now outer),
      (snd (proxy intl up req reply now outer), if ?fetch then inner' else inner))"
    by (auto simp: request_step_def reply_def c Let_def split: prod.splits)
  note f = request_fetch [OF assms(1,2), of "sv_baseUrl cfg" r inner', simplified, OF c]
  have Q: "?Q v now" if "cors_fetched reply = Some F" "v \<in> set F" for F v
    using f(2) [of F v] that by (auto simp: reply_def cors_fetched_def split: if_splits)
  have o: "cors_cache.sound ?Q outer" using assms(1) by (simp add: server_inv_def)
  show "server_inv cfg steps (snd ?step)"
    using outer_step [OF o Q] f(1) assms(1) by (simp add: step server_inv_def)
  assume g: "grants (fst ?step) origin" "JStr origin \<noteq> test_origin"
  then obtain ts where ts: "?Q (JStr origin) ts"
      "now - ts < CORS_TTL_MS \<or> \<not> cors_fresh now outer \<and> cors_fetched reply = None"
    using outer_grants [OF o Q] by (fastforce simp: step)
  have "needs_origins req"
    using proxy_grants [of intl up req reply now outer] g(1) by (metis step fst_conv prod.collapse)
  then have "\<not> net \<or> db = None" if "\<not> cors_fresh now outer" "cors_fetched reply = None"
    using that cors_origins_failed [OF c] by (auto simp: reply_def split: if_splits)
  with ts show "\<exists>ts. ?Q (JStr origin) ts \<and> (now - ts < CORS_TTL_MS \<or> \<not> net \<or> db = None)" by blast
qed

lemma server_run_inv:
  assumes "server_inv cfg steps s" and "st \<in> set steps"
  shows "server_inv cfg steps (server_run cfg up st s)"
proof -
  obtain outer inner where s: "s = (outer, inner)" by (cases s)
  have i: "oauth_origins.sound (registered cfg steps) inner" using assms(1) s by (simp add: server_inv_def)
  show ?thesis
  proof (cases st)
    case (Request now db net req intl)
    with assms request_inv(1) show ?thesis by (simp add: s)
  next
    case (TrustedOrigins now db)
    obtain r i' where g: "getOAuthClientOrigins (sv_baseUrl cfg) (sv_parse cfg) db now inner = (r, i')" by fastforce
    with origins_sound [OF i assms(2), of "sv_baseUrl cfg"] TrustedOrigins assms(1) show ?thesis
      by (simp add: s server_inv_def)
  next
    case (RefreshOrigins now db)
    with refresh_sound [OF assms(2)] assms(1) show ?thesis by (auto simp: s server_inv_def)
  qed
qed

definition server_start :: "server_config \<Rightarrow> server_state" where
  "server_start cfg = (None, initial_origins (sv_baseUrl cfg))"

lemma server_runs_inv:
  "set past \<subseteq> set steps \<Longrightarrow> server_inv cfg steps (fold (server_run cfg up) past (server_start cfg))"
proof (induction past rule: rev_induct)
  case Nil
  show ?case
    by (simp add: server_inv_def server_start_def initial_origins_def cors_cache.sound_def oauth_origins.sound_def)
next
  case (snoc st xs)
  then show ?case by (simp add: server_run_inv)
qed

text \<open>
  C17: cross-origin access is granted only to recently registered OAuth clients. After any sequence of
  requests and cache refreshes, a response with CORS headers for an origin means that the origin
  is the hard-coded test origin, or that it was among the clients' redirect origins at a moment
  read from the database less than two minutes ago (two caches of one minute in a row); an older
  reading is used only while the internal fetch or the database fails, and then without limit.
\<close>

theorem cors_grant_bounded:
  assumes "grants (fst (request_step cfg up now db net req intl
      (fold (server_run cfg up) steps (server_start cfg)))) origin"
  shows "origin = ''https://test.drgodly.com'' \<or>
    (\<exists>t. registered cfg (steps @ [Request now db net req intl]) origin t \<and>
      (now - t < 120000 \<or> \<not> net \<or> db = None))"
proof (cases "origin = ''https://test.drgodly.com''")
  case False
  let ?steps = "steps @ [Request now db net req intl]"
  obtain outer inner where s: "fold (server_run cfg up) steps (server_start cfg) = (outer, inner)" by fastforce
  have "server_inv cfg ?steps (fold (server_run cfg up) steps (server_start cfg))"
    by (rule server_runs_inv) auto
  then have "server_inv cfg ?steps (outer, inner)" by (simp add: s)
  from request_inv(2) [OF this, of now db net req intl up origin] assms False s
  obtain ts where "served_before cfg ?steps (JStr origin) ts" "now - ts < CORS_TTL_MS \<or> \<not> net \<or> db = None"
    by (auto simp: test_origin_def)
  then show ?thesis
    by (fastforce simp: served_before_def CORS_TTL_MS_def OAUTH_TTL_MS_def)
qed simp

definition demo_server :: server_config where
  "demo_server = \<lparr>sv_baseUrl = None, sv_secret = Some ''s'', sv_parse = Some\<rparr>"

definition demo_cors_request :: cors_request where
  "demo_cors_request = \<lparr>cq_pathname = ''/api/x'', cq_origin = Some ''o'', cq_method = ''GET'', cq_url = ''/api/x''\<rparr>"

text \<open>The witness reaches the bound: the client is gone from the database, and still served after 118 s.\<close>

lemma cors_grant_bounded_witness:
  "\<exists>t. registered demo_server [TrustedOrigins 1000 (Some [[''o'']]), Request 60000 (Some []) True demo_cors_request (True, None),
      Request 119000 (Some []) True demo_cors_request (True, None)] ''o'' t \<and> 119000 - t < 120000"
proof -
  let ?steps = "[TrustedOrigins 1000 (Some [[''o'']]), Request 60000 (Some []) True demo_cors_request (True, None)]"
  have "grants (fst (request_step demo_server id 119000 (Some []) True demo_cors_request (True, None)
      (fold (server_run demo_server id) ?steps (server_start demo_server)))) ''o''"
    by code_simp
  from cors_grant_bounded [OF this] show ?thesis by auto
qed

end
