(* ===== verification/Zod_Schema.thy ===== *)
theory Zod_Schema
  imports Fn_Prelude
begin

text \<open>
  Zod schemas as values of a data type with the combinators that the sources write them with
  (\<^verbatim>\<open>frontend/web/src/modules/entities/schemas/\<close>, \<^verbatim>\<open>iam/src/modules/entities/schemas/\<close>). Zod itself is a library: what
  \<^verbatim>\<open>safeParse\<close> does with a schema is an argument of the operations, and \<open>conforms\<close> says what its
  documentation promises of a value that it returns.
\<close>

subsection \<open>Schemas\<close>

text \<open>
  \<open>ZLength\<close> and \<open>ZRange\<close> have bounds on the length and the value, \<open>ZArrayMin\<close> on the number of elements;
  \<open>ZUrl\<close> and \<open>ZEmail\<close> are texts in a format that the library checks; a date is its text here;
  \<open>ZRefine\<close> is a schema with a further test of its values (\<^verbatim>\<open>regex\<close>, \<^verbatim>\<open>refine\<close>).
\<close>

datatype schema =
    ZString
  | ZNonEmpty
  | ZLength "int option" "int option"
  | ZUrl
  | ZEmail
  | ZDate
  | ZEnum "string list"
  | ZLiteral json
  | ZNull
  | ZUndefined
  | ZUnknown
  | ZNumber
  | ZRange "int option" "int option"
  | ZInt "int option" "int option"
  | ZBool
  | ZArray schema
  | ZArrayMin nat schema
  | ZRecord
  | ZRecordOf schema
  | ZObject "(string \<times> schema) list"
  | ZUnion "schema list"
  | ZAnd schema schema
  | ZNullable schema
  | ZOptional schema
  | ZDefault schema json
  | ZRefine schema "json \<Rightarrow> bool"

definition in_bounds :: "int option \<Rightarrow> int option \<Rightarrow> int \<Rightarrow> bool" where
  "in_bounds lo hi i = ((case lo of None \<Rightarrow> True | Some l \<Rightarrow> l \<le> i) \<and> (case hi of None \<Rightarrow> True | Some u \<Rightarrow> i \<le> u))"

text \<open>The keys of an object schema.\<close>

fun zfields :: "schema \<Rightarrow> (string \<times> schema) list" where
  "zfields (ZObject fs) = fs"
| "zfields (ZRefine s p) = zfields s"
| "zfields _ = []"

text \<open>
  \<open>conforms s v\<close>: \<open>v\<close> (None: undefined) can be the outcome of a successful parse with \<open>s\<close>. Object
  schemas drop other keys; the outcome of an intersection of object schemas is the union of both.
\<close>

fun conforms :: "schema \<Rightarrow> json option \<Rightarrow> bool" where
  "conforms ZString v = (case v of Some (JStr _) \<Rightarrow> True | _ \<Rightarrow> False)"
| "conforms ZNonEmpty v = (case v of Some (JStr s) \<Rightarrow> s \<noteq> [] | _ \<Rightarrow> False)"
| "conforms (ZLength lo hi) v = (case v of Some (JStr s) \<Rightarrow> in_bounds lo hi (int (length s)) | _ \<Rightarrow> False)"
| "conforms ZUrl v = (case v of Some (JStr _) \<Rightarrow> True | _ \<Rightarrow> False)"
| "conforms ZEmail v = (case v of Some (JStr _) \<Rightarrow> True | _ \<Rightarrow> False)"
| "conforms ZDate v = (case v of Some (JStr _) \<Rightarrow> True | _ \<Rightarrow> False)"
| "conforms (ZEnum xs) v = (case v of Some (JStr s) \<Rightarrow> s \<in> set xs | _ \<Rightarrow> False)"
| "conforms (ZLiteral j) v = (v = Some j)"
| "conforms ZNull v = (v = Some JNull)"
| "conforms ZUndefined v = (v = None)"
| "conforms ZUnknown v = True"
| "conforms ZNumber v = (case v of Some (JInt _) \<Rightarrow> True | Some (JDec _) \<Rightarrow> True | _ \<Rightarrow> False)"
| "conforms (ZRange lo hi) v = (case v of Some (JInt i) \<Rightarrow> in_bounds lo hi i | Some (JDec _) \<Rightarrow> True | _ \<Rightarrow> False)"
| "conforms (ZInt lo hi) v = (case v of Some (JInt i) \<Rightarrow> in_bounds lo hi i | _ \<Rightarrow> False)"
| "conforms ZBool v = (case v of Some (JBool _) \<Rightarrow> True | _ \<Rightarrow> False)"
| "conforms (ZArray s) v = (case v of Some (JArr vs) \<Rightarrow> list_all (\<lambda>x. conforms s (Some x)) vs | _ \<Rightarrow> False)"
| "conforms (ZArrayMin n s) v = (case v of
     Some (JArr vs) \<Rightarrow> n \<le> length vs \<and> list_all (\<lambda>x. conforms s (Some x)) vs | _ \<Rightarrow> False)"
| "conforms ZRecord v = (case v of Some (JObj _) \<Rightarrow> True | _ \<Rightarrow> False)"
| "conforms (ZRecordOf s) v = (case v of
     Some (JObj kvs) \<Rightarrow> list_all (\<lambda>(k, x). conforms s (Some x)) kvs | _ \<Rightarrow> False)"
| "conforms (ZObject fs) v = (case v of
     Some (JObj kvs) \<Rightarrow> list_all (\<lambda>(k, s). conforms s (map_of kvs k)) fs \<and> set (map fst kvs) \<subseteq> set (map fst fs)
   | _ \<Rightarrow> False)"
| "conforms (ZUnion ss) v = list_ex (\<lambda>s. conforms s v) ss"
| "conforms (ZAnd s t) v = (case v of
     Some (JObj kvs) \<Rightarrow>
       conforms s (Some (JObj (filter (\<lambda>(k, x). k \<in> fst ` set (zfields s)) kvs))) \<and>
       conforms t (Some (JObj (filter (\<lambda>(k, x). k \<in> fst ` set (zfields t)) kvs))) \<and>
       list_all (\<lambda>(k, x). k \<in> fst ` set (zfields s) \<union> fst ` set (zfields t)) kvs
   | _ \<Rightarrow> False)"
| "conforms (ZNullable s) v = (v = Some JNull \<or> conforms s v)"
| "conforms (ZOptional s) v = (v = None \<or> conforms s v)"
| "conforms (ZDefault s d) v = conforms s v"
| "conforms (ZRefine s p) v = (conforms s v \<and> (case v of None \<Rightarrow> True | Some j \<Rightarrow> p j))"

text \<open>\<^verbatim>\<open>pick\<close>, \<^verbatim>\<open>merge\<close> and \<^verbatim>\<open>extend\<close> (the later schema wins), \<^verbatim>\<open>partial\<close>.\<close>

definition zpick :: "string list \<Rightarrow> schema \<Rightarrow> schema" where
  "zpick ks s = ZObject (filter (\<lambda>(k, t). k \<in> set ks) (zfields s))"

definition zmerge :: "schema \<Rightarrow> schema \<Rightarrow> schema" where
  "zmerge s t = ZObject (filter (\<lambda>(k, u). k \<notin> fst ` set (zfields t)) (zfields s) @ zfields t)"

definition zpartial :: "schema \<Rightarrow> schema" where
  "zpartial s = ZObject (map (\<lambda>(k, t). (k, ZOptional t)) (zfields s))"

subsection \<open>Tests of the sources\<close>

text \<open>\<^verbatim>\<open>/^[class]+$/\<close>, and the classes in use.\<close>

definition matches :: "(char \<Rightarrow> bool) \<Rightarrow> json \<Rightarrow> bool" where
  "matches c j = (case j of JStr s \<Rightarrow> s \<noteq> [] \<and> list_all c s | _ \<Rightarrow> False)"

definition name_char :: "char \<Rightarrow> bool" where
  "name_char c = (let n = of_char c :: nat in 97 \<le> n \<and> n \<le> 122 \<or> 48 \<le> n \<and> n \<le> 57 \<or> c = CHR ''_'')"

definition dash_char :: "char \<Rightarrow> bool" where
  "dash_char c = (name_char c \<and> c \<noteq> CHR ''_'' \<or> c = CHR ''-'')"

definition slug_char :: "char \<Rightarrow> bool" where
  "slug_char c = (name_char c \<or> c = CHR ''-'')"

definition key_char :: "char \<Rightarrow> bool" where
  "key_char c = (slug_char c \<or> c = CHR '':'')"

text \<open>\<^verbatim>\<open>positive()\<close> of a number that need not be an integer; the sign of a decimal is its first character.\<close>

definition positive :: "json \<Rightarrow> bool" where
  "positive j = (case j of JInt i \<Rightarrow> 0 < i | JDec (c # s) \<Rightarrow> c \<noteq> CHR ''-'' | _ \<Rightarrow> False)"

subsection \<open>Parsers\<close>

text \<open>\<^verbatim>\<open>schema.safeParse\<close>: the details of the error, or the data.\<close>

type_synonym parser = "schema \<Rightarrow> json option \<Rightarrow> json + json"

text \<open>What the operations rely on: successfully parsed data conforms to the schema.\<close>

definition sound_parser :: "parser \<Rightarrow> bool" where
  "sound_parser parse = (\<forall>s v d. parse s v = Inr d \<longrightarrow> conforms s (Some d))"

text \<open>A parser that accepts exactly the conforming values, unchanged.\<close>

definition strict_parser :: parser where
  "strict_parser s v = (case v of None \<Rightarrow> Inl (JStr ''Required'')
     | Some d \<Rightarrow> if conforms s (Some d) then Inr d else Inl (JStr ''Invalid input''))"

lemma sound_strict_parser: "sound_parser strict_parser"
  by (auto simp: sound_parser_def strict_parser_def split: option.splits if_splits)

text \<open>The value of a field of conforming data.\<close>

lemma conforms_field:
  "conforms (ZObject fs) (Some j) \<Longrightarrow> (k, s) \<in> set fs \<Longrightarrow> conforms s (jget j k)"
  by (cases j) (auto simp: list_all_iff)

end
