(* ===== verification/Console_Schemas.thy ===== *)
theory Console_Schemas
  imports Zod_Schema
begin

text \<open>
  The schemas of the console's file operations (\<^verbatim>\<open>frontend/web/src/modules/entities/schemas/file/\<close>,
  \<^verbatim>\<open>transport/index.ts\<close>).
\<close>

definition TransportOptionsSchema :: schema where
  "TransportOptionsSchema = ZObject
     [(''url'', ZOptional (ZNullable ZString)),
      (''shouldRevalidate'', ZOptional ZBool),
      (''shouldRedirect'', ZOptional ZBool),
      (''revalidateType'', ZOptional (ZEnum [''page'', ''layout'']))]"

definition FileStatusSchema :: schema where
  "FileStatusSchema = ZEnum [''pending'', ''processing'', ''ready'', ''failed'', ''quarantined'']"

definition FileSchema :: schema where
  "FileSchema = ZObject
     [(''id'', ZString),
      (''organization_id'', ZString),
      (''project_id'', ZString),
      (''filename'', ZString),
      (''content_type'', ZString),
      (''size_bytes'', ZNumber),
      (''status'', FileStatusSchema),
      (''storage_key'', ZString),
      (''folder_id'', ZNullable ZString),
      (''category'', ZNullable ZString),
      (''version_count'', ZInt None None),
      (''tags'', ZArray ZString),
      (''metadata'', ZRecord),
      (''created_at'', ZString),
      (''updated_at'', ZString)]"

definition FileListSchema :: schema where
  "FileListSchema = ZObject
     [(''items'', ZArray FileSchema),
      (''total'', ZInt None None),
      (''limit'', ZInt None None),
      (''offset'', ZInt None None),
      (''has_more'', ZBool),
      (''next_cursor'', ZOptional (ZNullable ZString))]"

definition FileDownloadUrlSchema :: schema where
  "FileDownloadUrlSchema = ZObject
     [(''url'', ZString),
      (''expires_at'', ZString)]"

definition TagsResponseSchema :: schema where
  "TagsResponseSchema = ZObject
     [(''id'', ZString),
      (''tags'', ZArray ZString)]"

definition MetadataResponseSchema :: schema where
  "MetadataResponseSchema = ZObject
     [(''id'', ZString),
      (''metadata'', ZRecord)]"

definition UploadInitResponseSchema :: schema where
  "UploadInitResponseSchema = ZObject
     [(''file_id'', ZString),
      (''upload_url'', ZString),
      (''expires_at'', ZString)]"

definition ConfirmUploadResponseSchema :: schema where
  "ConfirmUploadResponseSchema = ZObject
     [(''id'', ZString),
      (''status'', FileStatusSchema)]"

definition MultipartStartResponseSchema :: schema where
  "MultipartStartResponseSchema = ZObject
     [(''upload_id'', ZString),
      (''file_id'', ZString)]"

definition PartUrlResponseSchema :: schema where
  "PartUrlResponseSchema = ZObject
     [(''upload_id'', ZString),
      (''part_number'', ZNumber),
      (''url'', ZString),
      (''expires_at'', ZString)]"

definition MultipartCompleteResponseSchema :: schema where
  "MultipartCompleteResponseSchema = ZObject
     [(''file_id'', ZString),
      (''status'', FileStatusSchema)]"

definition MultipartAbortResponseSchema :: schema where
  "MultipartAbortResponseSchema = ZObject
     [(''upload_id'', ZString),
      (''aborted'', ZBool)]"

definition ListFilesParamsSchema :: schema where
  "ListFilesParamsSchema = ZObject
     [(''projectId'', ZNonEmpty),
      (''folder_id'', ZOptional ZString),
      (''q'', ZOptional ZString),
      (''tags'', ZOptional (ZArray ZString)),
      (''category'', ZOptional ZString),
      (''status'', ZOptional ZString),
      (''date_from'', ZOptional ZString),
      (''date_to'', ZOptional ZString),
      (''size_min'', ZOptional (ZInt (Some 0) None)),
      (''size_max'', ZOptional (ZInt (Some 0) None)),
      (''metadata'', ZOptional ZString),
      (''limit'', ZOptional (ZInt (Some 1) (Some 200))),
      (''offset'', ZOptional (ZInt (Some 0) None)),
      (''cursor'', ZOptional ZString)]"

definition SetTagsSchema :: schema where
  "SetTagsSchema = ZObject
     [(''projectId'', ZNonEmpty),
      (''fileId'', ZNonEmpty),
      (''tags'', ZArray ZString)]"

definition AddTagsSchema :: schema where
  "AddTagsSchema = ZObject
     [(''projectId'', ZNonEmpty),
      (''fileId'', ZNonEmpty),
      (''tags'', ZArray ZString)]"

definition UpdateMetadataSchema :: schema where
  "UpdateMetadataSchema = ZObject
     [(''projectId'', ZNonEmpty),
      (''fileId'', ZNonEmpty),
      (''metadata'', ZRecord)]"

definition MergeMetadataSchema :: schema where
  "MergeMetadataSchema = ZObject
     [(''projectId'', ZNonEmpty),
      (''fileId'', ZNonEmpty),
      (''metadata'', ZRecord)]"

definition DeleteFileSchema :: schema where
  "DeleteFileSchema = ZObject
     [(''projectId'', ZNonEmpty),
      (''fileId'', ZNonEmpty)]"

definition GetFileDownloadUrlSchema :: schema where
  "GetFileDownloadUrlSchema = ZObject
     [(''projectId'', ZNonEmpty),
      (''fileId'', ZNonEmpty),
      (''ttl'', ZOptional (ZInt (Some 60) (Some 86400))),
      (''inline'', ZOptional ZBool)]"

definition InitiateUploadSchema :: schema where
  "InitiateUploadSchema = ZObject
     [(''projectId'', ZNonEmpty),
      (''filename'', ZNonEmpty),
      (''content_type'', ZNonEmpty),
      (''size_bytes'', ZInt (Some 1) None),
      (''folder_id'', ZOptional ZString),
      (''tags'', ZDefault (ZArray ZString) (JArr [])),
      (''metadata'', ZDefault ZRecord (JObj []))]"

definition ConfirmUploadSchema :: schema where
  "ConfirmUploadSchema = ZObject
     [(''projectId'', ZNonEmpty),
      (''fileId'', ZNonEmpty)]"

definition InitiateMultipartSchema :: schema where
  "InitiateMultipartSchema = ZObject
     [(''projectId'', ZNonEmpty),
      (''filename'', ZNonEmpty),
      (''content_type'', ZNonEmpty),
      (''total_size_bytes'', ZInt (Some 1) None),
      (''folder_id'', ZOptional ZString),
      (''tags'', ZDefault (ZArray ZString) (JArr [])),
      (''metadata'', ZDefault ZRecord (JObj []))]"

definition GetPartUrlSchema :: schema where
  "GetPartUrlSchema = ZObject
     [(''projectId'', ZNonEmpty),
      (''uploadId'', ZNonEmpty),
      (''part'', ZInt (Some 1) None)]"

definition CompleteMultipartSchema :: schema where
  "CompleteMultipartSchema = ZObject
     [(''projectId'', ZNonEmpty),
      (''uploadId'', ZNonEmpty),
      (''parts'', ZArray (ZObject
     [(''part_number'', ZInt (Some 1) None),
      (''etag'', ZNonEmpty)]))]"

definition AbortMultipartSchema :: schema where
  "AbortMultipartSchema = ZObject
     [(''projectId'', ZNonEmpty),
      (''uploadId'', ZNonEmpty)]"

definition RenameFileSchema :: schema where
  "RenameFileSchema = ZObject
     [(''projectId'', ZNonEmpty),
      (''fileId'', ZNonEmpty),
      (''filename'', ZNonEmpty)]"

definition MoveFileSchema :: schema where
  "MoveFileSchema = ZObject
     [(''projectId'', ZNonEmpty),
      (''fileId'', ZNonEmpty),
      (''folder_id'', ZNullable ZString)]"

definition ListFilesActionSchema :: schema where
  "ListFilesActionSchema = ZObject
     [(''payload'', ListFilesParamsSchema),
      (''transportOptions'', ZOptional TransportOptionsSchema)]"

definition DeleteFileActionSchema :: schema where
  "DeleteFileActionSchema = ZObject
     [(''payload'', DeleteFileSchema),
      (''transportOptions'', ZOptional TransportOptionsSchema)]"

definition GetFileDownloadUrlActionSchema :: schema where
  "GetFileDownloadUrlActionSchema = ZObject
     [(''payload'', GetFileDownloadUrlSchema),
      (''transportOptions'', ZOptional TransportOptionsSchema)]"

definition SetTagsActionSchema :: schema where
  "SetTagsActionSchema = ZObject
     [(''payload'', SetTagsSchema),
      (''transportOptions'', ZOptional TransportOptionsSchema)]"

definition AddTagsActionSchema :: schema where
  "AddTagsActionSchema = ZObject
     [(''payload'', AddTagsSchema),
      (''transportOptions'', ZOptional TransportOptionsSchema)]"

definition UpdateMetadataActionSchema :: schema where
  "UpdateMetadataActionSchema = ZObject
     [(''payload'', UpdateMetadataSchema),
      (''transportOptions'', ZOptional TransportOptionsSchema)]"

definition MergeMetadataActionSchema :: schema where
  "MergeMetadataActionSchema = ZObject
     [(''payload'', MergeMetadataSchema),
      (''transportOptions'', ZOptional TransportOptionsSchema)]"

definition InitiateUploadActionSchema :: schema where
  "InitiateUploadActionSchema = ZObject
     [(''payload'', InitiateUploadSchema),
      (''transportOptions'', ZOptional TransportOptionsSchema)]"

definition ConfirmUploadActionSchema :: schema where
  "ConfirmUploadActionSchema = ZObject
     [(''payload'', ConfirmUploadSchema),
      (''transportOptions'', ZOptional TransportOptionsSchema)]"

definition InitiateMultipartActionSchema :: schema where
  "InitiateMultipartActionSchema = ZObject
     [(''payload'', InitiateMultipartSchema),
      (''transportOptions'', ZOptional TransportOptionsSchema)]"

definition GetPartUrlActionSchema :: schema where
  "GetPartUrlActionSchema = ZObject
     [(''payload'', GetPartUrlSchema),
      (''transportOptions'', ZOptional TransportOptionsSchema)]"

definition CompleteMultipartActionSchema :: schema where
  "CompleteMultipartActionSchema = ZObject
     [(''payload'', CompleteMultipartSchema),
      (''transportOptions'', ZOptional TransportOptionsSchema)]"

definition AbortMultipartActionSchema :: schema where
  "AbortMultipartActionSchema = ZObject
     [(''payload'', AbortMultipartSchema),
      (''transportOptions'', ZOptional TransportOptionsSchema)]"

definition RenameFileActionSchema :: schema where
  "RenameFileActionSchema = ZObject
     [(''payload'', RenameFileSchema),
      (''transportOptions'', ZOptional TransportOptionsSchema)]"

definition MoveFileActionSchema :: schema where
  "MoveFileActionSchema = ZObject
     [(''payload'', MoveFileSchema),
      (''transportOptions'', ZOptional TransportOptionsSchema)]"

end
