(* ===== verification/Console_Actions.thy ===== *)
theory Console_Actions
  imports Sdk_Http Error_Boundary Console_Schemas
begin

text \<open>
  The server side of the console's file operations (\<^verbatim>\<open>frontend/web/src/modules/server/\<close>): the clients of
  the backend and of the identity service (\<^verbatim>\<open>utils/api-client.ts\<close>, \<^verbatim>\<open>utils/iam-api-client.ts\<close>,
  \<^verbatim>\<open>auth/\<close>), the file service over them, the use cases and controllers, and the server actions with
  the error boundary. Requests go to the world, as in the core SDK; the URL of a request is its text
  before percent-encoding with the query as a list. The schema parser is the argument \<open>parse\<close>.
\<close>

subsection \<open>Errors\<close>

text \<open>
  \<^verbatim>\<open>ApiError\<close> with status and message, \<^verbatim>\<open>InputParseError\<close> with its details, \<^verbatim>\<open>OutputParseError\<close>, and any
  other \<^verbatim>\<open>Error\<close> with its message (a rejected fetch, a body that is not JSON, a \<^verbatim>\<open>TypeError\<close>).
\<close>

datatype c_exn = ApiError nat string | InputParseError json | OutputParseError | OtherError string

fun c_message :: "c_exn \<Rightarrow> string" where
  "c_message (ApiError st m) = m"
| "c_message (InputParseError d) = ''Invalid input''"
| "c_message OutputParseError = ''Unexpected server response''"
| "c_message (OtherError m) = m"

definition isNextControlError :: "c_exn \<Rightarrow> bool" where
  "isNextControlError e = (c_message e = ''NEXT_REDIRECT'' \<or> c_message e = ''NEXT_NOT_FOUND'')"

definition throwZSAErrorFromStatus :: "nat \<Rightarrow> string \<Rightarrow> 'e boundary" where
  "throwZSAErrorFromStatus st m = Zsa
     (if st = 400 then ''INPUT_PARSE_ERROR''
      else if st = 401 then ''NOT_AUTHORIZED''
      else if st = 403 then ''FORBIDDEN''
      else if st = 404 then ''NOT_FOUND''
      else if st = 409 then ''CONFLICT''
      else if st = 413 then ''PAYLOAD_TOO_LARGE''
      else if st = 422 then ''UNPROCESSABLE_CONTENT''
      else if st = 429 then ''TOO_MANY_REQUESTS''
      else if st = 500 then ''INTERNAL_SERVER_ERROR''
      else ''ERROR'') (ZText m)"

definition ZSA_ERROR_CODES :: "string list" where
  "ZSA_ERROR_CODES =
     [''INPUT_PARSE_ERROR'', ''OUTPUT_PARSE_ERROR'', ''ERROR'', ''NOT_AUTHORIZED'', ''TIMEOUT'',
      ''INTERNAL_SERVER_ERROR'', ''FORBIDDEN'', ''NOT_FOUND'', ''CONFLICT'', ''PRECONDITION_FAILED'',
      ''PAYLOAD_TOO_LARGE'', ''METHOD_NOT_SUPPORTED'', ''UNPROCESSABLE_CONTENT'', ''TOO_MANY_REQUESTS'',
      ''CLIENT_CLOSED_REQUEST'']"

definition c_mapErrorToZSA :: "c_exn \<Rightarrow> c_exn boundary" where
  "c_mapErrorToZSA e =
     (if isNextControlError e then Rethrown e
      else case e of
        InputParseError d \<Rightarrow> Zsa ''INPUT_PARSE_ERROR'' (ZInput d)
      | OutputParseError \<Rightarrow> Zsa ''OUTPUT_PARSE_ERROR'' (ZText ''Something went wrong. Please try again later.'')
      | ApiError st m \<Rightarrow> throwZSAErrorFromStatus st m
      | OtherError m \<Rightarrow> Zsa ''ERROR'' (ZText m))"

definition c_redirect :: "string \<Rightarrow> c_exn" where
  "c_redirect u = OtherError ''NEXT_REDIRECT''"

interpretation console_boundary:
  error_boundary c_mapErrorToZSA c_redirect isNextControlError "\<lambda>e. e = OutputParseError"
proof
  fix e :: c_exn and u
  show "isNextControlError e \<Longrightarrow> c_mapErrorToZSA e = Rethrown e" by (simp add: c_mapErrorToZSA_def)
  show "\<not> isNextControlError e \<Longrightarrow> \<exists>code data. c_mapErrorToZSA e = Zsa code data"
    by (simp add: c_mapErrorToZSA_def throwZSAErrorFromStatus_def split: c_exn.splits)
  show "e = OutputParseError \<Longrightarrow> c_mapErrorToZSA e =
      Zsa ''OUTPUT_PARSE_ERROR'' (ZText ''Something went wrong. Please try again later.'')"
    by (simp add: c_mapErrorToZSA_def isNextControlError_def)
  show "isNextControlError (c_redirect u)" by (simp add: isNextControlError_def c_redirect_def)
qed

subsection \<open>The environment, the incoming request, effects\<close>

record server_env =
  se_apiUrl :: "string option"
  se_iamUrl :: "string option"
  se_publicIamUrl :: "string option"
  se_appUrl :: "string option"

text \<open>The \<^verbatim>\<open>cookie\<close> header of the incoming request and its \<^verbatim>\<open>console.access_token\<close> cookie.\<close>

record incoming =
  in_cookie :: "string option"
  in_accessToken :: "string option"

datatype c_event = CFetch request | CRevalidate json json

type_synonym ('x, 'a) c_io = "(c_event, reply, 'x, 'a) io"

text \<open>A fetch: its response, or a rejection.\<close>

definition c_fetch :: "request \<Rightarrow> (c_exn, response) c_io" where
  "c_fetch r = andThen (ask (CFetch r)) (\<lambda>rep. case rep of
     Responded res \<Rightarrow> ret res
   | Aborted \<Rightarrow> throw (OtherError ''This operation was aborted'')
   | NetFailed m \<Rightarrow> throw (OtherError m))"

text \<open>\<^verbatim>\<open>res.json()\<close>.\<close>

definition c_json :: "response \<Rightarrow> (c_exn, json) c_io" where
  "c_json res = (case rs_json res of None \<Rightarrow> throw (OtherError ''Unexpected token in JSON'') | Some j \<Rightarrow> ret j)"

definition or_empty :: "string option \<Rightarrow> string" where
  "or_empty s = (case s of None \<Rightarrow> [] | Some x \<Rightarrow> x)"

text \<open>A template literal of an environment variable that may be unset.\<close>

definition env_text :: "string option \<Rightarrow> string" where
  "env_text s = (case s of None \<Rightarrow> ''undefined'' | Some x \<Rightarrow> x)"

definition plain_request :: "string \<Rightarrow> string \<Rightarrow> (string \<times> string) list \<Rightarrow> request" where
  "plain_request meth u hs =
     \<lparr>rq_method = meth, rq_url = u, rq_query = [], rq_headers = hs, rq_body = NoBody\<rparr>"

subsection \<open>Session and token\<close>

definition session_request :: "server_env \<Rightarrow> incoming \<Rightarrow> request" where
  "session_request env inc = plain_request ''GET'' (env_text (se_iamUrl env) @ ''/api/auth/get-session'')
     [(''cookie'', or_empty (in_cookie inc))]"

text \<open>None is JavaScript's null; a body that is not JSON makes the promise reject.\<close>

definition getServerSession :: "server_env \<Rightarrow> incoming \<Rightarrow> (c_exn, json) c_io" where
  "getServerSession env inc = handling (c_fetch (session_request env inc)) (\<lambda>e. ret JNull)
     (\<lambda>res. if \<not> rs_ok res then ret JNull else c_json res)"

definition token_fetch :: "server_env \<Rightarrow> incoming \<Rightarrow> request" where
  "token_fetch env inc = plain_request ''GET'' (env_text (se_iamUrl env) @ ''/api/auth/token'')
     [(''cookie'', or_empty (in_cookie inc))]"

definition getAuthToken :: "server_env \<Rightarrow> incoming \<Rightarrow> (c_exn, string) c_io" where
  "getAuthToken env inc = andThen (c_fetch (token_fetch env inc)) (\<lambda>res.
     if \<not> rs_ok res then throw (OtherError (''Failed to fetch auth token: '' @ show_nat (rs_status res)))
     else andThen (c_json res) (\<lambda>data.
       if data = JNull then throw (OtherError ''Cannot read properties of null'')
       else let token = nullish_or (jget data ''token'')
                  (nullish_or (jget data ''jwt'') (nullish_or (jget data ''access_token'') JNull))
            in if \<not> truthy (Some token) then throw (OtherError ''Auth token not found in IAM response'')
               else ret (js_string token)))"

subsection \<open>The clients\<close>

record options =
  op_method :: string
  op_query :: "(string \<times> string) list"
  op_body :: body

definition get_options :: options where
  "get_options = \<lparr>op_method = ''GET'', op_query = [], op_body = NoBody\<rparr>"

text \<open>The error of a failed response: its status, and the message of its body or the status text.\<close>

definition response_error :: "response \<Rightarrow> c_exn" where
  "response_error res = ApiError (rs_status res)
     (case rs_json res of
        None \<Rightarrow> rs_statusText res
      | Some b \<Rightarrow> js_string (nullish_or (jget b ''message'')
          (nullish_or (case jget b ''detail'' of None \<Rightarrow> None | Some d \<Rightarrow> jget d ''message'')
             (JStr (rs_statusText res)))))"

text \<open>The value of a response: an error unless it is 2xx, undefined for 204, its JSON otherwise.\<close>

definition response_value :: "response \<Rightarrow> (c_exn, json option) c_io" where
  "response_value res =
     (if \<not> rs_ok res then throw (response_error res)
      else if rs_status res = 204 then ret None
      else andThen (c_json res) (\<lambda>j. ret (Some j)))"

definition backend_request :: "server_env \<Rightarrow> string \<Rightarrow> string \<Rightarrow> options \<Rightarrow> request" where
  "backend_request env token path opts =
     \<lparr>rq_method = op_method opts,
      rq_url = (case se_apiUrl env of None \<Rightarrow> ''http://localhost:8000'' | Some u \<Rightarrow> u) @ path,
      rq_query = op_query opts,
      rq_headers = [(''Content-Type'', ''application/json''), (''Authorization'', ''Bearer '' @ token)],
      rq_body = op_body opts\<rparr>"

definition filenestApi :: "server_env \<Rightarrow> incoming \<Rightarrow> string \<Rightarrow> options \<Rightarrow> (c_exn, json option) c_io" where
  "filenestApi env inc path opts = andThen (getAuthToken env inc) (\<lambda>token.
     andThen (c_fetch (backend_request env token path opts)) response_value)"

definition iam_headers :: "server_env \<Rightarrow> incoming \<Rightarrow> (string \<times> string) list" where
  "iam_headers env inc =
     [(''Content-Type'', ''application/json''), (''Accept'', ''application/json''),
      (''Origin'', case se_appUrl env of None \<Rightarrow> ''http://localhost:3000'' | Some u \<Rightarrow> u)] @
     (if or_empty (in_cookie inc) \<noteq> [] then [(''cookie'', or_empty (in_cookie inc))] else []) @
     (if or_empty (in_accessToken inc) \<noteq> []
      then [(''Authorization'', ''Bearer '' @ or_empty (in_accessToken inc))] else [])"

definition iam_base :: "server_env \<Rightarrow> string" where
  "iam_base env = (case se_iamUrl env of Some u \<Rightarrow> u
     | None \<Rightarrow> (case se_publicIamUrl env of Some u \<Rightarrow> u | None \<Rightarrow> ''http://localhost:5000''))"

definition iam_request :: "server_env \<Rightarrow> incoming \<Rightarrow> string \<Rightarrow> options \<Rightarrow> request" where
  "iam_request env inc path opts =
     \<lparr>rq_method = op_method opts, rq_url = iam_base env @ path, rq_query = op_query opts,
      rq_headers = iam_headers env inc, rq_body = op_body opts\<rparr>"

definition iamApi :: "server_env \<Rightarrow> incoming \<Rightarrow> string \<Rightarrow> options \<Rightarrow> (c_exn, json option) c_io" where
  "iamApi env inc path opts = andThen (c_fetch (iam_request env inc path opts)) response_value"

subsection \<open>The file service\<close>

text \<open>A response is parsed with its schema; an unexpected one is an \<^verbatim>\<open>OutputParseError\<close>.\<close>

definition parsed :: "parser \<Rightarrow> schema \<Rightarrow> (c_exn, json option) c_io \<Rightarrow> (c_exn, json option) c_io" where
  "parsed parse s m = andThen m (\<lambda>raw. case parse s raw of
     Inl e \<Rightarrow> throw OutputParseError | Inr d \<Rightarrow> ret (Some d))"

definition send_json :: "string \<Rightarrow> (string \<times> json option) list \<Rightarrow> options" where
  "send_json meth kvs = \<lparr>op_method = meth, op_query = [], op_body = JsonBody (jobj kvs)\<rparr>"

definition files_path :: "string \<Rightarrow> string" where
  "files_path pid = ''/v1/projects/'' @ pid @ ''/files''"

text \<open>The query of a listing: undefined, null and empty values are left out, arrays are repeated.\<close>

fun list_parts :: "(string \<times> json) list \<Rightarrow> (string \<times> string) list" where
  "list_parts [] = []"
| "list_parts ((k, JNull) # es) = list_parts es"
| "list_parts ((k, JStr []) # es) = list_parts es"
| "list_parts ((k, JArr vs) # es) = map (\<lambda>v. (k, js_string v)) vs @ list_parts es"
| "list_parts ((k, v) # es) = (k, js_string v) # list_parts es"

fun entries :: "json \<Rightarrow> (string \<times> json) list" where
  "entries (JObj kvs) = kvs"
| "entries _ = []"

definition without :: "string \<Rightarrow> json \<Rightarrow> json" where
  "without k d = JObj (filter (\<lambda>(k', v). k' \<noteq> k) (entries d))"

definition fs_list :: "parser \<Rightarrow> server_env \<Rightarrow> incoming \<Rightarrow> string \<Rightarrow> json \<Rightarrow> (c_exn, json option) c_io" where
  "fs_list parse env inc pid params = parsed parse FileListSchema
     (filenestApi env inc (files_path pid) (get_options\<lparr>op_query := list_parts (entries params)\<rparr>))"

definition fs_getDownloadUrl ::
    "parser \<Rightarrow> server_env \<Rightarrow> incoming \<Rightarrow> string \<Rightarrow> string \<Rightarrow> json option \<Rightarrow> json option \<Rightarrow>
     (c_exn, json option) c_io" where
  "fs_getDownloadUrl parse env inc pid fid ttl inline = parsed parse FileDownloadUrlSchema
     (filenestApi env inc (files_path pid @ ''/'' @ fid @ ''/download'')
        (get_options\<lparr>op_query := (if truthy ttl then [(''ttl'', interp ttl)] else []) @
           (if truthy inline then [(''inline'', ''true'')] else [])\<rparr>))"

definition fs_delete :: "server_env \<Rightarrow> incoming \<Rightarrow> string \<Rightarrow> string \<Rightarrow> (c_exn, json option) c_io" where
  "fs_delete env inc pid fid = andThen
     (filenestApi env inc (files_path pid @ ''/'' @ fid) (get_options\<lparr>op_method := ''DELETE''\<rparr>)) (\<lambda>_. ret None)"

definition fs_setTags ::
    "parser \<Rightarrow> server_env \<Rightarrow> incoming \<Rightarrow> string \<Rightarrow> string \<Rightarrow> json option \<Rightarrow> (c_exn, json option) c_io" where
  "fs_setTags parse env inc pid fid tags = parsed parse TagsResponseSchema
     (filenestApi env inc (files_path pid @ ''/'' @ fid @ ''/tags'') (send_json ''PUT'' [(''tags'', tags)]))"

definition fs_addTags ::
    "parser \<Rightarrow> server_env \<Rightarrow> incoming \<Rightarrow> string \<Rightarrow> string \<Rightarrow> json option \<Rightarrow> (c_exn, json option) c_io" where
  "fs_addTags parse env inc pid fid tags = parsed parse TagsResponseSchema
     (filenestApi env inc (files_path pid @ ''/'' @ fid @ ''/tags'') (send_json ''POST'' [(''tags'', tags)]))"

definition fs_updateMetadata ::
    "parser \<Rightarrow> server_env \<Rightarrow> incoming \<Rightarrow> string \<Rightarrow> string \<Rightarrow> json option \<Rightarrow> (c_exn, json option) c_io" where
  "fs_updateMetadata parse env inc pid fid metadata = parsed parse MetadataResponseSchema
     (filenestApi env inc (files_path pid @ ''/'' @ fid @ ''/metadata'')
        (send_json ''PUT'' [(''metadata'', metadata)]))"

definition fs_mergeMetadata ::
    "parser \<Rightarrow> server_env \<Rightarrow> incoming \<Rightarrow> string \<Rightarrow> string \<Rightarrow> json option \<Rightarrow> (c_exn, json option) c_io" where
  "fs_mergeMetadata parse env inc pid fid metadata = parsed parse MetadataResponseSchema
     (filenestApi env inc (files_path pid @ ''/'' @ fid @ ''/metadata'')
        (send_json ''PATCH'' [(''metadata'', metadata)]))"

definition fs_initiateUpload ::
    "parser \<Rightarrow> server_env \<Rightarrow> incoming \<Rightarrow> json \<Rightarrow> (c_exn, json option) c_io" where
  "fs_initiateUpload parse env inc params = parsed parse UploadInitResponseSchema
     (filenestApi env inc (files_path (interp (jget params ''projectId'')) @ ''/upload'')
        \<lparr>op_method = ''POST'', op_query = [], op_body = JsonBody (without ''projectId'' params)\<rparr>)"

definition fs_confirmUpload ::
    "parser \<Rightarrow> server_env \<Rightarrow> incoming \<Rightarrow> string \<Rightarrow> string \<Rightarrow> (c_exn, json option) c_io" where
  "fs_confirmUpload parse env inc pid fid = parsed parse ConfirmUploadResponseSchema
     (filenestApi env inc (files_path pid @ ''/'' @ fid @ ''/confirm'') (get_options\<lparr>op_method := ''POST''\<rparr>))"

definition multipart_path :: "json \<Rightarrow> string" where
  "multipart_path params = files_path (interp (jget params ''projectId'')) @ ''/upload/multipart/''"

definition fs_initiateMultipart ::
    "parser \<Rightarrow> server_env \<Rightarrow> incoming \<Rightarrow> json \<Rightarrow> (c_exn, json option) c_io" where
  "fs_initiateMultipart parse env inc params = parsed parse MultipartStartResponseSchema
     (filenestApi env inc (multipart_path params @ ''start'')
        \<lparr>op_method = ''POST'', op_query = [], op_body = JsonBody (without ''projectId'' params)\<rparr>)"

definition fs_getPartUrl :: "parser \<Rightarrow> server_env \<Rightarrow> incoming \<Rightarrow> json \<Rightarrow> (c_exn, json option) c_io" where
  "fs_getPartUrl parse env inc params = parsed parse PartUrlResponseSchema
     (filenestApi env inc (multipart_path params @ interp (jget params ''uploadId'') @ ''/part-url'')
        (get_options\<lparr>op_query := [(''part'', interp (jget params ''part''))]\<rparr>))"

definition part_entry :: "json \<Rightarrow> json" where
  "part_entry p = jobj [(''PartNumber'', jget p ''part_number''), (''ETag'', jget p ''etag'')]"

fun part_entries :: "json option \<Rightarrow> json list" where
  "part_entries (Some (JArr ps)) = map part_entry ps"
| "part_entries _ = []"

definition fs_completeMultipart :: "parser \<Rightarrow> server_env \<Rightarrow> incoming \<Rightarrow> json \<Rightarrow> (c_exn, json option) c_io" where
  "fs_completeMultipart parse env inc params = parsed parse MultipartCompleteResponseSchema
     (filenestApi env inc (multipart_path params @ interp (jget params ''uploadId'') @ ''/complete'')
        (send_json ''POST'' [(''parts'', Some (JArr (part_entries (jget params ''parts''))))]))"

definition fs_abortMultipart :: "parser \<Rightarrow> server_env \<Rightarrow> incoming \<Rightarrow> json \<Rightarrow> (c_exn, json option) c_io" where
  "fs_abortMultipart parse env inc params = parsed parse MultipartAbortResponseSchema
     (filenestApi env inc (multipart_path params @ interp (jget params ''uploadId''))
        (get_options\<lparr>op_method := ''DELETE''\<rparr>))"

definition fs_rename ::
    "parser \<Rightarrow> server_env \<Rightarrow> incoming \<Rightarrow> string \<Rightarrow> string \<Rightarrow> json option \<Rightarrow> (c_exn, json option) c_io" where
  "fs_rename parse env inc pid fid filename = parsed parse FileSchema
     (filenestApi env inc (files_path pid @ ''/'' @ fid) (send_json ''PATCH'' [(''filename'', filename)]))"

definition fs_move ::
    "parser \<Rightarrow> server_env \<Rightarrow> incoming \<Rightarrow> string \<Rightarrow> string \<Rightarrow> json option \<Rightarrow> (c_exn, json option) c_io" where
  "fs_move parse env inc pid fid folderId = parsed parse FileSchema
     (filenestApi env inc (files_path pid @ ''/'' @ fid @ ''/move'') (send_json ''POST'' [(''folder_id'', folderId)]))"

subsection \<open>Use cases and controllers\<close>

text \<open>
  A field of the parsed input as it appears in a URL, and the controllers' first step: the input is
  parsed, and rejected input is an \<^verbatim>\<open>InputParseError\<close>.
\<close>

definition fld :: "json \<Rightarrow> string \<Rightarrow> string" where
  "fld d k = interp (jget d k)"

definition with_input ::
    "parser \<Rightarrow> schema \<Rightarrow> json option \<Rightarrow> (json \<Rightarrow> (c_exn, json option) c_io) \<Rightarrow> (c_exn, json option) c_io" where
  "with_input parse s input f = (case parse s input of Inl e \<Rightarrow> throw (InputParseError e) | Inr d \<Rightarrow> f d)"

definition listFilesUseCase :: "parser \<Rightarrow> server_env \<Rightarrow> incoming \<Rightarrow> json \<Rightarrow> (c_exn, json option) c_io" where
  "listFilesUseCase parse env inc params =
     fs_list parse env inc (fld params ''projectId'') (without ''projectId'' params)"

definition deleteFileUseCase :: "parser \<Rightarrow> server_env \<Rightarrow> incoming \<Rightarrow> string \<Rightarrow> string \<Rightarrow> (c_exn, json option) c_io" where
  "deleteFileUseCase parse env inc pid fid =
     fs_delete env inc pid fid"

definition getFileDownloadUrlUseCase :: "parser \<Rightarrow> server_env \<Rightarrow> incoming \<Rightarrow> string \<Rightarrow> string \<Rightarrow> json option \<Rightarrow> json option \<Rightarrow> (c_exn, json option) c_io" where
  "getFileDownloadUrlUseCase parse env inc pid fid ttl inline =
     fs_getDownloadUrl parse env inc pid fid ttl inline"

definition setTagsUseCase :: "parser \<Rightarrow> server_env \<Rightarrow> incoming \<Rightarrow> json \<Rightarrow> (c_exn, json option) c_io" where
  "setTagsUseCase parse env inc params =
     fs_setTags parse env inc (fld params ''projectId'') (fld params ''fileId'') (jget params ''tags'')"

definition addTagsUseCase :: "parser \<Rightarrow> server_env \<Rightarrow> incoming \<Rightarrow> json \<Rightarrow> (c_exn, json option) c_io" where
  "addTagsUseCase parse env inc params =
     fs_addTags parse env inc (fld params ''projectId'') (fld params ''fileId'') (jget params ''tags'')"

definition updateMetadataUseCase :: "parser \<Rightarrow> server_env \<Rightarrow> incoming \<Rightarrow> json \<Rightarrow> (c_exn, json option) c_io" where
  "updateMetadataUseCase parse env inc params =
     fs_updateMetadata parse env inc (fld params ''projectId'') (fld params ''fileId'') (jget params ''metadata'')"

definition mergeMetadataUseCase :: "parser \<Rightarrow> server_env \<Rightarrow> incoming \<Rightarrow> json \<Rightarrow> (c_exn, json option) c_io" where
  "mergeMetadataUseCase parse env inc params =
     fs_mergeMetadata parse env inc (fld params ''projectId'') (fld params ''fileId'') (jget params ''metadata'')"

definition initiateUploadUseCase :: "parser \<Rightarrow> server_env \<Rightarrow> incoming \<Rightarrow> json \<Rightarrow> (c_exn, json option) c_io" where
  "initiateUploadUseCase parse env inc params =
     fs_initiateUpload parse env inc params"

definition confirmUploadUseCase :: "parser \<Rightarrow> server_env \<Rightarrow> incoming \<Rightarrow> string \<Rightarrow> string \<Rightarrow> (c_exn, json option) c_io" where
  "confirmUploadUseCase parse env inc pid fid =
     fs_confirmUpload parse env inc pid fid"

definition initiateMultipartUseCase :: "parser \<Rightarrow> server_env \<Rightarrow> incoming \<Rightarrow> json \<Rightarrow> (c_exn, json option) c_io" where
  "initiateMultipartUseCase parse env inc params =
     fs_initiateMultipart parse env inc params"

definition getPartUrlUseCase :: "parser \<Rightarrow> server_env \<Rightarrow> incoming \<Rightarrow> json \<Rightarrow> (c_exn, json option) c_io" where
  "getPartUrlUseCase parse env inc params =
     fs_getPartUrl parse env inc params"

definition completeMultipartUseCase :: "parser \<Rightarrow> server_env \<Rightarrow> incoming \<Rightarrow> json \<Rightarrow> (c_exn, json option) c_io" where
  "completeMultipartUseCase parse env inc params =
     fs_completeMultipart parse env inc params"

definition abortMultipartUseCase :: "parser \<Rightarrow> server_env \<Rightarrow> incoming \<Rightarrow> json \<Rightarrow> (c_exn, json option) c_io" where
  "abortMultipartUseCase parse env inc params =
     fs_abortMultipart parse env inc params"

definition renameFileUseCase :: "parser \<Rightarrow> server_env \<Rightarrow> incoming \<Rightarrow> string \<Rightarrow> string \<Rightarrow> json option \<Rightarrow> (c_exn, json option) c_io" where
  "renameFileUseCase parse env inc pid fid filename =
     fs_rename parse env inc pid fid filename"

definition moveFileUseCase :: "parser \<Rightarrow> server_env \<Rightarrow> incoming \<Rightarrow> string \<Rightarrow> string \<Rightarrow> json option \<Rightarrow> (c_exn, json option) c_io" where
  "moveFileUseCase parse env inc pid fid folderId =
     fs_move parse env inc pid fid folderId"

definition listFilesController :: "parser \<Rightarrow> server_env \<Rightarrow> incoming \<Rightarrow> json option \<Rightarrow> (c_exn, json option) c_io" where
  "listFilesController parse env inc input = with_input parse ListFilesParamsSchema input
     (listFilesUseCase parse env inc)"

definition deleteFileController :: "parser \<Rightarrow> server_env \<Rightarrow> incoming \<Rightarrow> json option \<Rightarrow> (c_exn, json option) c_io" where
  "deleteFileController parse env inc input = with_input parse DeleteFileSchema input
     (\<lambda>d. deleteFileUseCase parse env inc (fld d ''projectId'') (fld d ''fileId''))"

definition getFileDownloadUrlController :: "parser \<Rightarrow> server_env \<Rightarrow> incoming \<Rightarrow> json option \<Rightarrow> (c_exn, json option) c_io" where
  "getFileDownloadUrlController parse env inc input = with_input parse GetFileDownloadUrlSchema input
     (\<lambda>d. getFileDownloadUrlUseCase parse env inc (fld d ''projectId'') (fld d ''fileId'')
        (jget d ''ttl'') (jget d ''inline''))"

definition setTagsController :: "parser \<Rightarrow> server_env \<Rightarrow> incoming \<Rightarrow> json option \<Rightarrow> (c_exn, json option) c_io" where
  "setTagsController parse env inc input = with_input parse SetTagsSchema input
     (setTagsUseCase parse env inc)"

definition addTagsController :: "parser \<Rightarrow> server_env \<Rightarrow> incoming \<Rightarrow> json option \<Rightarrow> (c_exn, json option) c_io" where
  "addTagsController parse env inc input = with_input parse AddTagsSchema input
     (addTagsUseCase parse env inc)"

definition updateMetadataController :: "parser \<Rightarrow> server_env \<Rightarrow> incoming \<Rightarrow> json option \<Rightarrow> (c_exn, json option) c_io" where
  "updateMetadataController parse env inc input = with_input parse UpdateMetadataSchema input
     (updateMetadataUseCase parse env inc)"

definition mergeMetadataController :: "parser \<Rightarrow> server_env \<Rightarrow> incoming \<Rightarrow> json option \<Rightarrow> (c_exn, json option) c_io" where
  "mergeMetadataController parse env inc input = with_input parse MergeMetadataSchema input
     (mergeMetadataUseCase parse env inc)"

definition initiateUploadController :: "parser \<Rightarrow> server_env \<Rightarrow> incoming \<Rightarrow> json option \<Rightarrow> (c_exn, json option) c_io" where
  "initiateUploadController parse env inc input = with_input parse InitiateUploadSchema input
     (initiateUploadUseCase parse env inc)"

definition confirmUploadController :: "parser \<Rightarrow> server_env \<Rightarrow> incoming \<Rightarrow> json option \<Rightarrow> (c_exn, json option) c_io" where
  "confirmUploadController parse env inc input = with_input parse ConfirmUploadSchema input
     (\<lambda>d. confirmUploadUseCase parse env inc (fld d ''projectId'') (fld d ''fileId''))"

definition initiateMultipartController :: "parser \<Rightarrow> server_env \<Rightarrow> incoming \<Rightarrow> json option \<Rightarrow> (c_exn, json option) c_io" where
  "initiateMultipartController parse env inc input = with_input parse InitiateMultipartSchema input
     (initiateMultipartUseCase parse env inc)"

definition getPartUrlController :: "parser \<Rightarrow> server_env \<Rightarrow> incoming \<Rightarrow> json option \<Rightarrow> (c_exn, json option) c_io" where
  "getPartUrlController parse env inc input = with_input parse GetPartUrlSchema input
     (getPartUrlUseCase parse env inc)"

definition completeMultipartController :: "parser \<Rightarrow> server_env \<Rightarrow> incoming \<Rightarrow> json option \<Rightarrow> (c_exn, json option) c_io" where
  "completeMultipartController parse env inc input = with_input parse CompleteMultipartSchema input
     (completeMultipartUseCase parse env inc)"

definition abortMultipartController :: "parser \<Rightarrow> server_env \<Rightarrow> incoming \<Rightarrow> json option \<Rightarrow> (c_exn, json option) c_io" where
  "abortMultipartController parse env inc input = with_input parse AbortMultipartSchema input
     (abortMultipartUseCase parse env inc)"

definition renameFileController :: "parser \<Rightarrow> server_env \<Rightarrow> incoming \<Rightarrow> json option \<Rightarrow> (c_exn, json option) c_io" where
  "renameFileController parse env inc input = with_input parse RenameFileSchema input
     (\<lambda>d. renameFileUseCase parse env inc (fld d ''projectId'') (fld d ''fileId'') (jget d ''filename''))"

definition moveFileController :: "parser \<Rightarrow> server_env \<Rightarrow> incoming \<Rightarrow> json option \<Rightarrow> (c_exn, json option) c_io" where
  "moveFileController parse env inc input = with_input parse MoveFileSchema input
     (\<lambda>d. moveFileUseCase parse env inc (fld d ''projectId'') (fld d ''fileId'') (jget d ''folder_id''))"

subsection \<open>Server actions\<close>

text \<open>
  \<^verbatim>\<open>transport\<close> comes from the client as it is: the actions skip the parsing of their input, so its
  fields can be any JSON. A redirect throws the framework's signal.
\<close>

definition field_of :: "json option \<Rightarrow> string \<Rightarrow> json option" where
  "field_of v k = (case v of None \<Rightarrow> None | Some j \<Rightarrow> jget j k)"

definition apply_transport :: "json option \<times> json option \<Rightarrow> (c_exn, json option) c_io" where
  "apply_transport = (\<lambda>(result, transport).
     andThen (if truthy (field_of transport ''shouldRevalidate'') \<and> truthy (field_of transport ''url'')
              then emit (CRevalidate (the (field_of transport ''url''))
                     (nullish_or (field_of transport ''revalidateType'') (JStr ''page'')))
              else ret ()) (\<lambda>_.
     if truthy (field_of transport ''shouldRedirect'') \<and> truthy (field_of transport ''url'')
     then throw (c_redirect (interp (field_of transport ''url''))) else ret result))"

definition c_runWithTransport ::
    "(c_exn, json option \<times> json option) c_io \<Rightarrow> (c_exn boundary, json option) c_io" where
  "c_runWithTransport executor =
     handling (andThen executor apply_transport) (\<lambda>e. throw (c_mapErrorToZSA e)) ret"

text \<open>A session with a user is required; an error in reading the session is not mapped here.\<close>

definition authenticatedProcedure :: "server_env \<Rightarrow> incoming \<Rightarrow> (c_exn boundary, json) c_io" where
  "authenticatedProcedure env inc = handling (getServerSession env inc) (\<lambda>e. throw (Rethrown e))
     (\<lambda>session. if \<not> truthy (jget session ''user'')
        then throw (Zsa ''NOT_AUTHORIZED'' (ZText ''You must be signed in.'')) else ret session)"

text \<open>The handler shared by the actions: reading \<^verbatim>\<open>input.payload\<close> of no input throws.\<close>

definition file_action ::
    "(json option \<Rightarrow> (c_exn, json option) c_io) \<Rightarrow> server_env \<Rightarrow> incoming \<Rightarrow> json option \<Rightarrow>
     (c_exn boundary, json option) c_io" where
  "file_action controller env inc input = andThen (authenticatedProcedure env inc) (\<lambda>session.
     c_runWithTransport
       (if input = None \<or> input = Some JNull
        then throw (OtherError ''Cannot read properties of undefined'')
        else andThen (controller (field_of input ''payload'')) (\<lambda>data.
          ret (data, field_of input ''transportOptions''))))"

definition listFilesAction :: "parser \<Rightarrow> server_env \<Rightarrow> incoming \<Rightarrow> json option \<Rightarrow> (c_exn boundary, json option) c_io" where
  "listFilesAction parse env inc = file_action (listFilesController parse env inc) env inc"

definition deleteFileAction :: "parser \<Rightarrow> server_env \<Rightarrow> incoming \<Rightarrow> json option \<Rightarrow> (c_exn boundary, json option) c_io" where
  "deleteFileAction parse env inc = file_action (deleteFileController parse env inc) env inc"

definition getFileDownloadUrlAction :: "parser \<Rightarrow> server_env \<Rightarrow> incoming \<Rightarrow> json option \<Rightarrow> (c_exn boundary, json option) c_io" where
  "getFileDownloadUrlAction parse env inc = file_action (getFileDownloadUrlController parse env inc) env inc"

definition setTagsAction :: "parser \<Rightarrow> server_env \<Rightarrow> incoming \<Rightarrow> json option \<Rightarrow> (c_exn boundary, json option) c_io" where
  "setTagsAction parse env inc = file_action (setTagsController parse env inc) env inc"

definition addTagsAction :: "parser \<Rightarrow> server_env \<Rightarrow> incoming \<Rightarrow> json option \<Rightarrow> (c_exn boundary, json option) c_io" where
  "addTagsAction parse env inc = file_action (addTagsController parse env inc) env inc"

definition updateMetadataAction :: "parser \<Rightarrow> server_env \<Rightarrow> incoming \<Rightarrow> json option \<Rightarrow> (c_exn boundary, json option) c_io" where
  "updateMetadataAction parse env inc = file_action (updateMetadataController parse env inc) env inc"

definition mergeMetadataAction :: "parser \<Rightarrow> server_env \<Rightarrow> incoming \<Rightarrow> json option \<Rightarrow> (c_exn boundary, json option) c_io" where
  "mergeMetadataAction parse env inc = file_action (mergeMetadataController parse env inc) env inc"

definition initiateUploadAction :: "parser \<Rightarrow> server_env \<Rightarrow> incoming \<Rightarrow> json option \<Rightarrow> (c_exn boundary, json option) c_io" where
  "initiateUploadAction parse env inc = file_action (initiateUploadController parse env inc) env inc"

definition confirmUploadAction :: "parser \<Rightarrow> server_env \<Rightarrow> incoming \<Rightarrow> json option \<Rightarrow> (c_exn boundary, json option) c_io" where
  "confirmUploadAction parse env inc = file_action (confirmUploadController parse env inc) env inc"

definition initiateMultipartAction :: "parser \<Rightarrow> server_env \<Rightarrow> incoming \<Rightarrow> json option \<Rightarrow> (c_exn boundary, json option) c_io" where
  "initiateMultipartAction parse env inc = file_action (initiateMultipartController parse env inc) env inc"

definition getPartUrlAction :: "parser \<Rightarrow> server_env \<Rightarrow> incoming \<Rightarrow> json option \<Rightarrow> (c_exn boundary, json option) c_io" where
  "getPartUrlAction parse env inc = file_action (getPartUrlController parse env inc) env inc"

definition completeMultipartAction :: "parser \<Rightarrow> server_env \<Rightarrow> incoming \<Rightarrow> json option \<Rightarrow> (c_exn boundary, json option) c_io" where
  "completeMultipartAction parse env inc = file_action (completeMultipartController parse env inc) env inc"

definition abortMultipartAction :: "parser \<Rightarrow> server_env \<Rightarrow> incoming \<Rightarrow> json option \<Rightarrow> (c_exn boundary, json option) c_io" where
  "abortMultipartAction parse env inc = file_action (abortMultipartController parse env inc) env inc"

definition renameFileAction :: "parser \<Rightarrow> server_env \<Rightarrow> incoming \<Rightarrow> json option \<Rightarrow> (c_exn boundary, json option) c_io" where
  "renameFileAction parse env inc = file_action (renameFileController parse env inc) env inc"

definition moveFileAction :: "parser \<Rightarrow> server_env \<Rightarrow> incoming \<Rightarrow> json option \<Rightarrow> (c_exn boundary, json option) c_io" where
  "moveFileAction parse env inc = file_action (moveFileController parse env inc) env inc"

subsection \<open>Properties\<close>

text \<open>All actions, with the schema of their payload and of their result (None for no result).\<close>

definition file_actions ::
    "parser \<Rightarrow> server_env \<Rightarrow> incoming \<Rightarrow>
     ((json option \<Rightarrow> (c_exn boundary, json option) c_io) \<times> schema \<times> schema option) list" where
  "file_actions parse env inc =
     [(listFilesAction parse env inc, ListFilesParamsSchema, Some FileListSchema),
      (deleteFileAction parse env inc, DeleteFileSchema, None),
      (getFileDownloadUrlAction parse env inc, GetFileDownloadUrlSchema, Some FileDownloadUrlSchema),
      (setTagsAction parse env inc, SetTagsSchema, Some TagsResponseSchema),
      (addTagsAction parse env inc, AddTagsSchema, Some TagsResponseSchema),
      (updateMetadataAction parse env inc, UpdateMetadataSchema, Some MetadataResponseSchema),
      (mergeMetadataAction parse env inc, MergeMetadataSchema, Some MetadataResponseSchema),
      (initiateUploadAction parse env inc, InitiateUploadSchema, Some UploadInitResponseSchema),
      (confirmUploadAction parse env inc, ConfirmUploadSchema, Some ConfirmUploadResponseSchema),
      (initiateMultipartAction parse env inc, InitiateMultipartSchema, Some MultipartStartResponseSchema),
      (getPartUrlAction parse env inc, GetPartUrlSchema, Some PartUrlResponseSchema),
      (completeMultipartAction parse env inc, CompleteMultipartSchema, Some MultipartCompleteResponseSchema),
      (abortMultipartAction parse env inc, AbortMultipartSchema, Some MultipartAbortResponseSchema),
      (renameFileAction parse env inc, RenameFileSchema, Some FileSchema),
      (moveFileAction parse env inc, MoveFileSchema, Some FileSchema)]"

lemmas action_defs =
  listFilesAction_def deleteFileAction_def getFileDownloadUrlAction_def setTagsAction_def addTagsAction_def
  updateMetadataAction_def mergeMetadataAction_def initiateUploadAction_def confirmUploadAction_def
  initiateMultipartAction_def getPartUrlAction_def completeMultipartAction_def abortMultipartAction_def
  renameFileAction_def moveFileAction_def

lemmas controller_defs =
  listFilesController_def deleteFileController_def getFileDownloadUrlController_def setTagsController_def
  addTagsController_def updateMetadataController_def mergeMetadataController_def initiateUploadController_def
  confirmUploadController_def initiateMultipartController_def getPartUrlController_def
  completeMultipartController_def abortMultipartController_def renameFileController_def moveFileController_def

lemmas usecase_defs =
  listFilesUseCase_def deleteFileUseCase_def getFileDownloadUrlUseCase_def setTagsUseCase_def addTagsUseCase_def
  updateMetadataUseCase_def mergeMetadataUseCase_def initiateUploadUseCase_def confirmUploadUseCase_def
  initiateMultipartUseCase_def getPartUrlUseCase_def completeMultipartUseCase_def abortMultipartUseCase_def
  renameFileUseCase_def moveFileUseCase_def

lemmas service_defs =
  fs_list_def fs_delete_def fs_getDownloadUrl_def fs_setTags_def fs_addTags_def fs_updateMetadata_def
  fs_mergeMetadata_def fs_initiateUpload_def fs_confirmUpload_def fs_initiateMultipart_def fs_getPartUrl_def
  fs_completeMultipart_def fs_abortMultipart_def fs_rename_def fs_move_def

text \<open>The session read, as the world answers it.\<close>

definition signed_in :: "server_env \<Rightarrow> incoming \<Rightarrow> (c_event, reply) world \<Rightarrow> bool" where
  "signed_in env inc w = (case w [CFetch (session_request env inc)] of
     Responded res \<Rightarrow> rs_ok res \<and> (case rs_json res of None \<Rightarrow> False | Some j \<Rightarrow> truthy (jget j ''user''))
   | _ \<Rightarrow> False)"

lemma authenticated_run:
  "\<exists>r. authenticatedProcedure env inc w [] = (r, [CFetch (session_request env inc)]) \<and>
     ((\<exists>s. r = Inr s) \<longleftrightarrow> signed_in env inc w)"
  by (auto simp: authenticatedProcedure_def getServerSession_def c_fetch_def c_json_def signed_in_def
      handling_def io_simps split: reply.splits option.splits)

lemma procedure_unauthenticated:
  "\<not> signed_in env inc w \<Longrightarrow>
   \<exists>b. andThen (authenticatedProcedure env inc) f w [] = (Inl b, [CFetch (session_request env inc)])"
  using authenticated_run [of env inc w] by (auto simp: io_simps split: sum.splits)

lemma action_rejected:
  assumes "signed_in env inc w" and "c (jget j ''payload'') = throw (InputParseError e)" and "j \<noteq> JNull"
  shows "file_action c env inc (Some j) w [] =
     (Inl (Zsa ''INPUT_PARSE_ERROR'' (ZInput e)), [CFetch (session_request env inc)])"
  using authenticated_run [of env inc w] assms
  by (auto simp: file_action_def c_runWithTransport_def field_of_def handling_def io_simps
      c_mapErrorToZSA_def isNextControlError_def split: sum.splits)

text \<open>
  What the theorem says of one action; \<open>check\<close> is what its controller does with the payload before
  anything else: the details of the error, or the data.
\<close>

definition guarded ::
    "server_env \<Rightarrow> incoming \<Rightarrow> (c_event, reply) world \<Rightarrow> (json option \<Rightarrow> json + json) \<Rightarrow>
     (json option \<Rightarrow> (c_exn boundary, json option) c_io) \<Rightarrow> bool" where
  "guarded env inc w check action = (\<forall>input.
     if \<not> signed_in env inc w then \<exists>b. action input w [] = (Inl b, [CFetch (session_request env inc)])
     else case input of None \<Rightarrow> True
        | Some j \<Rightarrow> (case check (jget j ''payload'') of
             Inr d \<Rightarrow> True
           | Inl e \<Rightarrow> if j = JNull then True
               else action input w [] =
                 (Inl (Zsa ''INPUT_PARSE_ERROR'' (ZInput e)), [CFetch (session_request env inc)])))"

lemma guarded_file_action:
  assumes "\<And>v e. check v = Inl e \<Longrightarrow> c v = throw (InputParseError e)"
  shows "guarded env inc w check (file_action c env inc)"
proof -
  have "\<exists>b. file_action c env inc input w [] = (Inl b, [CFetch (session_request env inc)])"
    if "\<not> signed_in env inc w" for input
    unfolding file_action_def by (rule procedure_unauthenticated [OF that])
  then show ?thesis
    using action_rejected [OF _ assms] by (auto simp: guarded_def split: option.splits sum.splits)
qed

lemma guarded_action: "guarded env inc w (parse s) (file_action (\<lambda>input. with_input parse s input f) env inc)"
  by (rule guarded_file_action) (simp add: with_input_def)

text \<open>All fifteen actions are guarded.\<close>

lemma file_actions_guarded:
  "list_all (\<lambda>(action, inS, outS). guarded env inc w (parse inS) action) (file_actions parse env inc)"
  by (simp add: file_actions_def action_defs controller_defs [abs_def] guarded_action)

text \<open>
  The two services that operations call. The requests of a call: none (rejected input); for the backend
  the token, or the token and one request with that token; for the identity service one request. And the
  result of an operation with a given schema.
\<close>

datatype peer = Backend | IdentityService

definition reached :: "server_env \<Rightarrow> incoming \<Rightarrow> peer \<Rightarrow> c_event list \<Rightarrow> bool" where
  "reached env inc p es = (case p of
     Backend \<Rightarrow> \<exists>tok path opts. es = [CFetch (token_fetch env inc), CFetch (backend_request env tok path opts)]
   | IdentityService \<Rightarrow> \<exists>path opts. es = [CFetch (iam_request env inc path opts)])"

definition calls :: "server_env \<Rightarrow> incoming \<Rightarrow> peer \<Rightarrow> c_event list \<Rightarrow> bool" where
  "calls env inc p es = (es = [] \<or> p = Backend \<and> es = [CFetch (token_fetch env inc)] \<or> reached env inc p es)"

definition result_ok :: "schema option \<Rightarrow> json option \<Rightarrow> bool" where
  "result_ok out v = (case out of None \<Rightarrow> v = None | Some s \<Rightarrow> v \<noteq> None \<and> conforms s v)"

definition service_post ::
    "server_env \<Rightarrow> incoming \<Rightarrow> peer \<Rightarrow> (json option \<Rightarrow> bool) \<Rightarrow> c_exn + json option \<Rightarrow> c_event list \<Rightarrow> bool" where
  "service_post env inc p P r es = (calls env inc p es \<and> (case r of Inl e \<Rightarrow> True | Inr v \<Rightarrow> P v \<and> reached env inc p es))"

definition service_ok ::
    "server_env \<Rightarrow> incoming \<Rightarrow> peer \<Rightarrow> (c_event, reply) world \<Rightarrow> schema option \<Rightarrow> (c_exn, json option) c_io \<Rightarrow> bool" where
  "service_ok env inc p w out m = yields w m (service_post env inc p (result_ok out))"

lemma yields_c_fetch:
  "(\<And>r. Q r [CFetch rq]) \<Longrightarrow> yields w (c_fetch rq) Q"
  unfolding c_fetch_def
  by (rule yields_andThen [OF yields_ask [where Q = "\<lambda>r es. isl r = False \<and> es = [CFetch rq]"]])
    (auto intro!: yields_ret yields_throw split: reply.splits)

lemma yields_c_json: "(\<And>r. Q r []) \<Longrightarrow> yields w (c_json res) Q"
  by (auto simp: c_json_def intro!: yields_ret yields_throw split: option.splits)

lemma yields_getAuthToken:
  "(\<And>r. Q r [CFetch (token_fetch env inc)]) \<Longrightarrow> yields w (getAuthToken env inc) Q"
  unfolding getAuthToken_def Let_def
  by (rule yields_andThen [OF yields_c_fetch [where Q = "\<lambda>r es. es = [CFetch (token_fetch env inc)]"]])
    (auto intro!: yields_throw yields_ret yields_andThen [OF yields_c_json [where Q = "\<lambda>r es. es = []"]])

lemma yields_response_value: "(\<And>r. Q r []) \<Longrightarrow> yields w (response_value res) Q"
  by (auto simp: response_value_def intro!: yields_throw yields_ret
      yields_andThen [OF yields_c_json [where Q = "\<lambda>r es. es = []"]])

lemma yields_filenestApi: "yields w (filenestApi env inc path opts) (service_post env inc Backend (\<lambda>v. True))"
  unfolding filenestApi_def
proof (rule yields_andThen [OF yields_getAuthToken [where Q = "\<lambda>r es. es = [CFetch (token_fetch env inc)]"]])
  fix tok es
  assume es: "es = [CFetch (token_fetch env inc)]"
  show "yields w (andThen (c_fetch (backend_request env tok path opts)) response_value)
      (\<lambda>r fs. service_post env inc Backend (\<lambda>v. True) r (es @ fs))"
    by (rule yields_andThen [OF yields_c_fetch [where Q = "\<lambda>r es. es = [CFetch (backend_request env tok path opts)]"]])
      (auto simp: service_post_def calls_def reached_def es intro!: yields_response_value split: sum.splits)
qed (auto simp: service_post_def calls_def)

lemma service_parsed:
  assumes "sound_parser parse"
  shows "service_ok env inc Backend w (Some s) (parsed parse s (filenestApi env inc path opts))"
  unfolding service_ok_def parsed_def
  by (rule yields_andThen [OF yields_filenestApi])
    (use assms in \<open>auto simp: result_ok_def sound_parser_def service_post_def
      intro!: yields_throw yields_ret split: sum.splits\<close>)

lemma service_delete: "service_ok env inc Backend w None (fs_delete env inc pid fid)"
  unfolding service_ok_def fs_delete_def
  by (rule yields_andThen [OF yields_filenestApi]) (auto simp: result_ok_def service_post_def intro!: yields_ret)

lemma service_with_input:
  "(\<And>d. service_ok env inc p w out (f d)) \<Longrightarrow> service_ok env inc p w out (with_input parse s input f)"
  by (auto simp: with_input_def service_ok_def service_post_def calls_def intro!: yields_throw split: sum.splits)

text \<open>What the boundary makes of an executor.\<close>

definition typed :: "c_exn boundary \<Rightarrow> bool" where
  "typed b = (case b of Rethrown e \<Rightarrow> isNextControlError e | Zsa cd d \<Rightarrow> cd \<in> set ZSA_ERROR_CODES)"

lemma typed_map: "typed (c_mapErrorToZSA e)"
proof (cases "isNextControlError e")
  case True
  then show ?thesis using console_boundary.control_rethrown [OF True] by (simp add: typed_def)
next
  case False
  then show ?thesis
    by (auto simp: typed_def c_mapErrorToZSA_def throwZSAErrorFromStatus_def ZSA_ERROR_CODES_def split: c_exn.splits)
qed

text \<open>The outcome of an action after the session was read, and of the whole action.\<close>

definition handler_post ::
    "server_env \<Rightarrow> incoming \<Rightarrow> peer \<Rightarrow> schema option \<Rightarrow> c_exn boundary + json option \<Rightarrow> c_event list \<Rightarrow> bool" where
  "handler_post env inc p out r es = (\<exists>cs rv. es = cs @ rv \<and> calls env inc p cs \<and>
     (rv = [] \<or> (\<exists>u t. rv = [CRevalidate u t])) \<and>
     (case r of Inl b \<Rightarrow> typed b | Inr v \<Rightarrow> result_ok out v \<and> reached env inc p cs))"

definition action_post ::
    "server_env \<Rightarrow> incoming \<Rightarrow> peer \<Rightarrow> schema option \<Rightarrow> c_exn boundary + json option \<Rightarrow> c_event list \<Rightarrow> bool" where
  "action_post env inc p out r es = (\<exists>fs. es = CFetch (session_request env inc) # fs \<and>
     (fs = [] \<and> isl r \<or> handler_post env inc p out r fs))"

lemma yields_apply_transport:
  "yields w (apply_transport (v, t)) (\<lambda>r es. (es = [] \<or> (\<exists>u t. es = [CRevalidate u t])) \<and> (r = Inr v \<or> isl r))"
  unfolding apply_transport_def prod.case
  by (rule yields_andThen [where P = "\<lambda>r fs. isl r = False \<and> (fs = [] \<or> (\<exists>u t. fs = [CRevalidate u t]))"])
    (auto intro!: yields_emit yields_ret yields_throw)

lemma yields_transport:
  assumes "yields w executor (\<lambda>r es. calls env inc p es \<and>
      (case r of Inl e \<Rightarrow> True | Inr (v, t) \<Rightarrow> result_ok out v \<and> reached env inc p es))"
  shows "yields w (c_runWithTransport executor) (handler_post env inc p out)"
  unfolding c_runWithTransport_def
proof (rule yields_handling)
  let ?P = "\<lambda>r. handler_post env inc p out (case r of Inl e \<Rightarrow> Inl (c_mapErrorToZSA e) | Inr v \<Rightarrow> Inr v)"
  show "yields w (andThen executor apply_transport) ?P"
  proof (rule yields_andThen [OF assms])
    fix a :: "json option \<times> json option" and es
    assume "calls env inc p es \<and> (case Inr a of Inl e \<Rightarrow> True | Inr (v, t) \<Rightarrow> result_ok out v \<and> reached env inc p es)"
    then obtain v t where a: "a = (v, t)" "calls env inc p es" "result_ok out v" "reached env inc p es"
      by (cases a) auto
    show "yields w (apply_transport a) (\<lambda>r fs. ?P r (es @ fs))"
      unfolding a(1)
    proof (rule yields_weaken [OF yields_apply_transport])
      fix r :: "c_exn + json option" and fs
      assume "(fs = [] \<or> (\<exists>u t. fs = [CRevalidate u t])) \<and> (r = Inr v \<or> isl r)"
      then show "?P r (es @ fs)"
        using a unfolding handler_post_def
        by (intro exI [of _ es] exI [of _ fs]) (auto simp: typed_map split: sum.splits)
    qed
  qed (auto simp: handler_post_def typed_map)
qed (auto intro!: yields_throw yields_ret)

text \<open>
  A computation that ends with a transport value, and the actions made of it.
\<close>

definition executor_ok ::
    "server_env \<Rightarrow> incoming \<Rightarrow> peer \<Rightarrow> (c_event, reply) world \<Rightarrow> schema option \<Rightarrow>
     (c_exn, json option \<times> json option) c_io \<Rightarrow> bool" where
  "executor_ok env inc p w out m = yields w m (\<lambda>r es. calls env inc p es \<and>
     (case r of Inl e \<Rightarrow> True | Inr (v, t) \<Rightarrow> result_ok out v \<and> reached env inc p es))"

lemma yields_procedure:
  assumes "executor_ok env inc p w out executor"
  shows "yields w (andThen (authenticatedProcedure env inc) (\<lambda>session. c_runWithTransport executor))
    (action_post env inc p out)"
proof (rule yields_andThen)
  show "yields w (authenticatedProcedure env inc) (\<lambda>r es. es = [CFetch (session_request env inc)])"
    unfolding authenticatedProcedure_def getServerSession_def
    by (rule yields_handling [where P = "\<lambda>r es. es = [CFetch (session_request env inc)]"],
        rule yields_handling [OF yields_c_fetch [where Q = "\<lambda>r es. es = [CFetch (session_request env inc)]"]])
      (auto intro!: yields_ret yields_throw yields_c_json)
  fix s :: json and es
  assume "es = [CFetch (session_request env inc)]"
  then show "yields w (c_runWithTransport executor) (\<lambda>r fs. action_post env inc p out r (es @ fs))"
    by (intro yields_weaken [OF yields_transport [OF assms [unfolded executor_ok_def]]]) (simp add: action_post_def)
qed (simp add: action_post_def)

lemma executor_throw: "executor_ok env inc p w out (throw e)"
  by (simp add: executor_ok_def yields_throw calls_def)

lemma executor_service:
  assumes "service_ok env inc p w out m"
  shows "executor_ok env inc p w out (andThen m (\<lambda>data. ret (data, t)))"
  unfolding executor_ok_def
  by (rule yields_andThen [OF assms [unfolded service_ok_def]]) (auto simp: service_post_def intro!: yields_ret)

lemma yields_file_action:
  assumes "\<And>w input. service_ok env inc p w out (c input)"
  shows "yields w (file_action c env inc input) (action_post env inc p out)"
  unfolding file_action_def
  by (rule yields_procedure) (simp add: executor_throw executor_service [OF assms])

text \<open>All fifteen actions keep the contract with the backend.\<close>

lemma file_actions_contract:
  assumes "sound_parser parse"
  shows "list_all (\<lambda>(action, inS, outS). \<forall>input.
    action_post env inc Backend outS (fst (action input w [])) (snd (action input w []))) (file_actions parse env inc)"
proof -
  have "service_ok env inc p w out (with_input parse s input f)"
    if "\<And>w d. service_ok env inc p w out (f d)" for p w out s input f
    by (rule service_with_input) (rule that)
  note act = yields_file_action [THEN yieldsD, OF this]
  show ?thesis
    by (simp add: file_actions_def action_defs controller_defs [abs_def])
      (intro conjI allI act; simp add: usecase_defs service_defs service_parsed [OF assms] service_delete
        del: fs_delete_def)
qed

end
