(* ===== verification/Console_Resource_Schemas.thy ===== *)
theory Console_Resource_Schemas
  imports Console_Schemas
begin

text \<open>
  The schemas of the console's other resources: projects and their configuration, storage, webhooks, usage,
  the dashboard, folders and API keys (\<^verbatim>\<open>frontend/web/src/modules/entities/schemas/\<close>).
\<close>

definition ProjectSchema :: schema where
  "ProjectSchema = ZObject
     [(''id'', ZString),
      (''organization_id'', ZString),
      (''name'', ZString),
      (''slug'', ZString),
      (''description'', ZNullable ZString),
      (''storage_mode'', ZString),
      (''storage_provider'', ZString),
      (''versioning_enabled'', ZBool),
      (''ocr_enabled'', ZBool),
      (''is_active'', ZBool),
      (''created_at'', ZString),
      (''updated_at'', ZString)]"

definition ProjectListSchema :: schema where
  "ProjectListSchema = ZObject
     [(''items'', ZArray ProjectSchema),
      (''total'', ZNumber),
      (''page'', ZNumber),
      (''page_size'', ZNumber),
      (''total_pages'', ZNumber)]"

definition CreateProjectSchema :: schema where
  "CreateProjectSchema = ZObject
     [(''name'', ZLength (Some 1) (Some 255)),
      (''slug'', ZOptional ZString),
      (''description'', ZOptional ZString),
      (''storage_mode'', ZDefault (ZEnum [''managed'', ''byob'']) (JStr ''managed'')),
      (''storage_provider'', ZDefault (ZEnum [''s3'', ''azure_blob'', ''gcs'', ''minio'', ''r2'', ''rustfs'']) (JStr ''s3''))]"

definition UpdateProjectSchema :: schema where
  "UpdateProjectSchema = ZObject
     [(''name'', ZOptional (ZLength (Some 1) (Some 255))),
      (''description'', ZOptional ZString),
      (''versioning_enabled'', ZOptional ZBool),
      (''ocr_enabled'', ZOptional ZBool)]"

definition DeleteProjectSchema :: schema where
  "DeleteProjectSchema = ZObject
     [(''projectId'', ZNonEmpty)]"

definition ListProjectsParamsSchema :: schema where
  "ListProjectsParamsSchema = ZObject
     [(''page'', ZOptional (ZInt (Some 1) None)),
      (''page_size'', ZOptional (ZInt (Some 1) (Some 100))),
      (''sort_by'', ZOptional (ZEnum [''name'', ''created_at'', ''storage_provider'', ''storage_mode''])),
      (''sort_dir'', ZOptional (ZEnum [''asc'', ''desc''])),
      (''search'', ZOptional ZString),
      (''storage_provider'', ZOptional ZString),
      (''storage_mode'', ZOptional (ZEnum [''managed'', ''byob'']))]"

definition GetProjectActionSchema :: schema where
  "GetProjectActionSchema = ZObject
     [(''payload'', ZObject
     [(''projectId'', ZNonEmpty)]),
      (''transportOptions'', ZOptional TransportOptionsSchema)]"

definition ListProjectsActionSchema :: schema where
  "ListProjectsActionSchema = ZObject
     [(''payload'', ZOptional ListProjectsParamsSchema),
      (''transportOptions'', ZOptional TransportOptionsSchema)]"

definition CreateProjectActionSchema :: schema where
  "CreateProjectActionSchema = ZObject
     [(''payload'', CreateProjectSchema),
      (''transportOptions'', ZOptional TransportOptionsSchema)]"

definition UpdateProjectActionSchema :: schema where
  "UpdateProjectActionSchema = ZObject
     [(''payload'', zmerge UpdateProjectSchema (ZObject
     [(''projectId'', ZNonEmpty)])),
      (''transportOptions'', ZOptional TransportOptionsSchema)]"

definition DeleteProjectActionSchema :: schema where
  "DeleteProjectActionSchema = ZObject
     [(''payload'', ZObject
     [(''projectId'', ZNonEmpty)]),
      (''transportOptions'', ZOptional TransportOptionsSchema)]"

definition ProjectConfigSchema :: schema where
  "ProjectConfigSchema = ZObject
     [(''id'', ZString),
      (''organization_id'', ZString),
      (''project_id'', ZString),
      (''max_file_size_bytes'', ZNullable (ZInt (Some 1) None)),
      (''allowed_mime_types'', ZNullable (ZArray ZString)),
      (''allowed_extensions'', ZNullable (ZArray ZString)),
      (''max_files_per_request'', ZNullable (ZInt (Some 1) None)),
      (''allowed_ips'', ZNullable (ZArray ZString)),
      (''allowed_origins'', ZNullable (ZArray ZString)),
      (''require_signed_urls'', ZBool),
      (''signed_url_ttl_seconds'', ZInt None None),
      (''versioning_enabled'', ZBool),
      (''ocr_enabled'', ZBool),
      (''virus_scan_enabled'', ZBool),
      (''retention_days'', ZNullable (ZInt (Some 1) None)),
      (''worm_enabled'', ZBool),
      (''legal_hold_enabled'', ZBool),
      (''data_residency'', ZNullable ZString),
      (''created_at'', ZDate),
      (''updated_at'', ZDate)]"

definition UpdateUploadConfigSchema :: schema where
  "UpdateUploadConfigSchema = ZObject
     [(''projectId'', ZNonEmpty),
      (''max_file_size_bytes'', ZOptional (ZNullable (ZInt (Some 1) None))),
      (''allowed_mime_types'', ZOptional (ZNullable (ZArray ZString))),
      (''allowed_extensions'', ZOptional (ZNullable (ZArray ZString))),
      (''max_files_per_request'', ZOptional (ZNullable (ZInt (Some 1) None)))]"

definition UpdateSecurityConfigSchema :: schema where
  "UpdateSecurityConfigSchema = ZObject
     [(''projectId'', ZNonEmpty),
      (''allowed_ips'', ZOptional (ZNullable (ZArray ZString))),
      (''allowed_origins'', ZOptional (ZNullable (ZArray ZString))),
      (''require_signed_urls'', ZOptional ZBool),
      (''signed_url_ttl_seconds'', ZOptional (ZInt (Some 60) (Some 86400)))]"

definition UpdateProcessingConfigSchema :: schema where
  "UpdateProcessingConfigSchema = ZObject
     [(''projectId'', ZNonEmpty),
      (''versioning_enabled'', ZOptional ZBool),
      (''ocr_enabled'', ZOptional ZBool),
      (''virus_scan_enabled'', ZOptional ZBool)]"

definition UpdateComplianceConfigSchema :: schema where
  "UpdateComplianceConfigSchema = ZObject
     [(''projectId'', ZNonEmpty),
      (''retention_days'', ZOptional (ZNullable (ZInt (Some 1) None))),
      (''worm_enabled'', ZOptional ZBool),
      (''legal_hold_enabled'', ZOptional ZBool),
      (''data_residency'', ZOptional (ZNullable ZString))]"

definition GetProjectConfigActionSchema :: schema where
  "GetProjectConfigActionSchema = ZObject
     [(''payload'', ZObject
     [(''projectId'', ZNonEmpty)]),
      (''transportOptions'', ZOptional TransportOptionsSchema)]"

definition UpdateUploadConfigActionSchema :: schema where
  "UpdateUploadConfigActionSchema = ZObject
     [(''payload'', UpdateUploadConfigSchema),
      (''transportOptions'', ZOptional TransportOptionsSchema)]"

definition UpdateSecurityConfigActionSchema :: schema where
  "UpdateSecurityConfigActionSchema = ZObject
     [(''payload'', UpdateSecurityConfigSchema),
      (''transportOptions'', ZOptional TransportOptionsSchema)]"

definition UpdateProcessingConfigActionSchema :: schema where
  "UpdateProcessingConfigActionSchema = ZObject
     [(''payload'', UpdateProcessingConfigSchema),
      (''transportOptions'', ZOptional TransportOptionsSchema)]"

definition UpdateComplianceConfigActionSchema :: schema where
  "UpdateComplianceConfigActionSchema = ZObject
     [(''payload'', UpdateComplianceConfigSchema),
      (''transportOptions'', ZOptional TransportOptionsSchema)]"

definition StorageConfigSchema :: schema where
  "StorageConfigSchema = ZObject
     [(''project_id'', ZString),
      (''environment'', ZString),
      (''storage_mode'', ZEnum [''managed'', ''byob'']),
      (''provider'', ZEnum [''s3'', ''azure_blob'', ''gcs'', ''minio'', ''r2'', ''rustfs'']),
      (''region'', ZNullable ZString),
      (''bucket_name'', ZNullable ZString),
      (''endpoint_url'', ZNullable ZString),
      (''server_side_encryption'', ZNullable ZString),
      (''sse_enabled'', ZBool),
      (''status'', ZEnum [''active'', ''pending_verification'', ''verification_failed'']),
      (''last_verified_at'', ZNullable ZDate)]"

definition StorageVerifyResultSchema :: schema where
  "StorageVerifyResultSchema = ZObject
     [(''ok'', ZBool),
      (''latency_ms'', ZNullable ZNumber),
      (''error'', ZNullable ZString)]"

definition UpdateStorageConfigSchema :: schema where
  "UpdateStorageConfigSchema = ZObject
     [(''projectId'', ZNonEmpty),
      (''bucket_name'', ZNonEmpty),
      (''region'', ZOptional ZString),
      (''endpoint_url'', ZOptional ZString),
      (''access_key_id'', ZOptional ZString),
      (''secret_access_key'', ZOptional ZString),
      (''server_side_encryption'', ZDefault (ZEnum [''AES256'', ''aws:kms'']) (JStr ''AES256'')),
      (''kms_key_id'', ZOptional ZString),
      (''account_name'', ZOptional ZString),
      (''account_key'', ZOptional ZString),
      (''credentials_json'', ZOptional ZString)]"

definition VerifyStorageSchema :: schema where
  "VerifyStorageSchema = ZObject
     [(''projectId'', ZNonEmpty)]"

definition UpdateSseSchema :: schema where
  "UpdateSseSchema = ZObject
     [(''projectId'', ZNonEmpty),
      (''sse_enabled'', ZBool)]"

definition GetStorageConfigActionSchema :: schema where
  "GetStorageConfigActionSchema = ZObject
     [(''payload'', ZObject
     [(''projectId'', ZNonEmpty)]),
      (''transportOptions'', ZOptional TransportOptionsSchema)]"

definition UpdateStorageConfigActionSchema :: schema where
  "UpdateStorageConfigActionSchema = ZObject
     [(''payload'', UpdateStorageConfigSchema),
      (''transportOptions'', ZOptional TransportOptionsSchema)]"

definition VerifyStorageActionSchema :: schema where
  "VerifyStorageActionSchema = ZObject
     [(''payload'', VerifyStorageSchema),
      (''transportOptions'', ZOptional TransportOptionsSchema)]"

definition UpdateSseActionSchema :: schema where
  "UpdateSseActionSchema = ZObject
     [(''payload'', UpdateSseSchema),
      (''transportOptions'', ZOptional TransportOptionsSchema)]"

definition WebhookSchema :: schema where
  "WebhookSchema = ZObject
     [(''id'', ZString),
      (''organization_id'', ZString),
      (''project_id'', ZString),
      (''url'', ZString),
      (''events'', ZArray ZString),
      (''is_active'', ZBool),
      (''signing_secret'', ZNullable ZString),
      (''created_at'', ZString),
      (''updated_at'', ZString)]"

definition WebhookListSchema :: schema where
  "WebhookListSchema = ZObject
     [(''items'', ZArray WebhookSchema),
      (''total'', ZNumber)]"

definition WebhookDeliverySchema :: schema where
  "WebhookDeliverySchema = ZObject
     [(''id'', ZString),
      (''webhook_id'', ZString),
      (''event_type'', ZString),
      (''status'', ZString),
      (''attempt_count'', ZNumber),
      (''response_status_code'', ZNullable ZNumber),
      (''response_body'', ZNullable ZString),
      (''next_retry_at'', ZNullable ZString),
      (''created_at'', ZString)]"

definition ListWebhooksParamsSchema :: schema where
  "ListWebhooksParamsSchema = ZObject
     [(''projectId'', ZNonEmpty)]"

definition CreateWebhookSchema :: schema where
  "CreateWebhookSchema = ZObject
     [(''projectId'', ZNonEmpty),
      (''url'', ZUrl),
      (''events'', ZDefault (ZArray ZString) (JArr [])),
      (''is_active'', ZDefault ZBool (JBool True))]"

definition UpdateWebhookSchema :: schema where
  "UpdateWebhookSchema = ZObject
     [(''projectId'', ZNonEmpty),
      (''webhookId'', ZNonEmpty),
      (''url'', ZOptional ZUrl),
      (''events'', ZOptional (ZArray ZString)),
      (''is_active'', ZOptional ZBool)]"

definition DeleteWebhookSchema :: schema where
  "DeleteWebhookSchema = ZObject
     [(''projectId'', ZNonEmpty),
      (''webhookId'', ZNonEmpty)]"

definition ListWebhooksActionSchema :: schema where
  "ListWebhooksActionSchema = ZObject
     [(''payload'', ListWebhooksParamsSchema),
      (''transportOptions'', ZOptional TransportOptionsSchema)]"

definition CreateWebhookActionSchema :: schema where
  "CreateWebhookActionSchema = ZObject
     [(''payload'', CreateWebhookSchema),
      (''transportOptions'', ZOptional TransportOptionsSchema)]"

definition UpdateWebhookActionSchema :: schema where
  "UpdateWebhookActionSchema = ZObject
     [(''payload'', UpdateWebhookSchema),
      (''transportOptions'', ZOptional TransportOptionsSchema)]"

definition DeleteWebhookActionSchema :: schema where
  "DeleteWebhookActionSchema = ZObject
     [(''payload'', DeleteWebhookSchema),
      (''transportOptions'', ZOptional TransportOptionsSchema)]"

definition UsageStatsSchema :: schema where
  "UsageStatsSchema = ZObject
     [(''total_files'', ZInt None None),
      (''total_storage_bytes'', ZInt None None),
      (''active_projects'', ZInt None None),
      (''files_uploaded_30d'', ZInt None None)]"

definition ProjectUsageItemSchema :: schema where
  "ProjectUsageItemSchema = ZObject
     [(''project_id'', ZString),
      (''name'', ZString),
      (''storage_bytes'', ZInt None None),
      (''file_count'', ZInt None None)]"

definition UsageResponseSchema :: schema where
  "UsageResponseSchema = ZObject
     [(''stats'', UsageStatsSchema),
      (''projects'', ZArray ProjectUsageItemSchema)]"

definition GetUsageParamsSchema :: schema where
  "GetUsageParamsSchema = ZObject []"

definition GetUsageActionSchema :: schema where
  "GetUsageActionSchema = ZObject
     [(''payload'', GetUsageParamsSchema),
      (''transportOptions'', ZOptional TransportOptionsSchema)]"

definition DashboardStatsSchema :: schema where
  "DashboardStatsSchema = ZObject
     [(''total_files'', ZInt None None),
      (''total_storage_bytes'', ZInt None None),
      (''files_uploaded_30d'', ZInt None None),
      (''active_projects'', ZInt None None)]"

definition UploadsByDaySchema :: schema where
  "UploadsByDaySchema = ZObject
     [(''date'', ZString),
      (''count'', ZInt None None)]"

definition StorageByDaySchema :: schema where
  "StorageByDaySchema = ZObject
     [(''date'', ZString),
      (''bytes'', ZInt None None)]"

definition StatusCountSchema :: schema where
  "StatusCountSchema = ZObject
     [(''status'', ZString),
      (''count'', ZInt None None)]"

definition RecentFileSchema :: schema where
  "RecentFileSchema = ZObject
     [(''id'', ZString),
      (''filename'', ZString),
      (''project_id'', ZString),
      (''project_name'', ZString),
      (''status'', ZString),
      (''size_bytes'', ZInt None None),
      (''created_at'', ZString)]"

definition DashboardResponseSchema :: schema where
  "DashboardResponseSchema = ZObject
     [(''stats'', DashboardStatsSchema),
      (''uploads_by_day'', ZArray UploadsByDaySchema),
      (''storage_by_day'', ZArray StorageByDaySchema),
      (''status_distribution'', ZArray StatusCountSchema),
      (''recent_files'', ZArray RecentFileSchema)]"

definition GetDashboardParamsSchema :: schema where
  "GetDashboardParamsSchema = ZObject []"

definition GetDashboardActionSchema :: schema where
  "GetDashboardActionSchema = ZObject
     [(''payload'', GetDashboardParamsSchema),
      (''transportOptions'', ZOptional TransportOptionsSchema)]"

definition FolderSchema :: schema where
  "FolderSchema = ZObject
     [(''id'', ZString),
      (''organization_id'', ZString),
      (''project_id'', ZString),
      (''parent_folder_id'', ZNullable ZString),
      (''name'', ZString),
      (''path'', ZString),
      (''created_at'', ZString)]"

definition FolderListSchema :: schema where
  "FolderListSchema = ZObject
     [(''items'', ZArray FolderSchema),
      (''total'', ZInt None None)]"

definition FolderDeleteResponseSchema :: schema where
  "FolderDeleteResponseSchema = ZObject
     [(''id'', ZString),
      (''deleted'', ZBool)]"

definition ListFoldersParamsSchema :: schema where
  "ListFoldersParamsSchema = ZObject
     [(''projectId'', ZNonEmpty)]"

definition CreateFolderParamsSchema :: schema where
  "CreateFolderParamsSchema = ZObject
     [(''projectId'', ZNonEmpty),
      (''name'', ZLength (Some 1) (Some 255)),
      (''parent_folder_id'', ZOptional (ZNullable ZString))]"

definition DeleteFolderParamsSchema :: schema where
  "DeleteFolderParamsSchema = ZObject
     [(''projectId'', ZNonEmpty),
      (''folderId'', ZNonEmpty)]"

definition ListFoldersActionSchema :: schema where
  "ListFoldersActionSchema = ZObject
     [(''payload'', ListFoldersParamsSchema),
      (''transportOptions'', ZOptional TransportOptionsSchema)]"

definition CreateFolderActionSchema :: schema where
  "CreateFolderActionSchema = ZObject
     [(''payload'', CreateFolderParamsSchema),
      (''transportOptions'', ZOptional TransportOptionsSchema)]"

definition DeleteFolderActionSchema :: schema where
  "DeleteFolderActionSchema = ZObject
     [(''payload'', DeleteFolderParamsSchema),
      (''transportOptions'', ZOptional TransportOptionsSchema)]"

definition ApiKeyMetadataSchema :: schema where
  "ApiKeyMetadataSchema = ZObject
     [(''organizationId'', ZOptional ZString),
      (''projectId'', ZOptional (ZNullable ZString)),
      (''scopes'', ZOptional (ZArray ZString))]"

definition ApiKeySchema :: schema where
  "ApiKeySchema = ZObject
     [(''id'', ZString),
      (''name'', ZString),
      (''start'', ZString),
      (''createdAt'', ZString),
      (''updatedAt'', ZOptional ZString),
      (''expiresAt'', ZOptional (ZNullable ZString)),
      (''lastUsedAt'', ZOptional (ZNullable ZString)),
      (''enabled'', ZBool),
      (''organizationId'', ZOptional (ZNullable ZString)),
      (''userId'', ZOptional ZString),
      (''metadata'', ZOptional (ZNullable ApiKeyMetadataSchema))]"

definition ApiKeyListSchema :: schema where
  "ApiKeyListSchema = ZObject
     [(''apiKeys'', ZArray ApiKeySchema),
      (''total'', ZNumber),
      (''limit'', ZOptional ZNumber),
      (''offset'', ZOptional ZNumber)]"

definition CreatedApiKeySchema :: schema where
  "CreatedApiKeySchema = zmerge ApiKeySchema (ZObject
     [(''key'', ZString)])"

definition CreateApiKeySchema :: schema where
  "CreateApiKeySchema = ZObject
     [(''name'', ZLength (Some 1) (Some 100)),
      (''organizationId'', ZNonEmpty),
      (''projectId'', ZOptional ZString),
      (''scopes'', ZArrayMin 1 (ZEnum [''files:upload'', ''files:download'', ''files:read'', ''files:delete'', ''files:metadata'', ''folders:read'', ''folders:write'', ''upload_tokens:create'', ''webhooks:read'', ''webhooks:write'', ''projects:read'', ''projects:update'', ''audit:read'', ''compliance:manage''])),
      (''expiresInDays'', ZOptional (ZInt (Some 1) (Some 365)))]"

definition ListApiKeysSchema :: schema where
  "ListApiKeysSchema = ZObject
     [(''organizationId'', ZNonEmpty),
      (''projectId'', ZOptional ZString),
      (''limit'', ZOptional (ZInt (Some 1) (Some 100))),
      (''offset'', ZOptional (ZInt (Some 0) None)),
      (''sortBy'', ZOptional (ZEnum [''createdAt'', ''name'', ''expiresAt''])),
      (''sortDirection'', ZOptional (ZEnum [''asc'', ''desc'']))]"

definition RevokeApiKeySchema :: schema where
  "RevokeApiKeySchema = ZObject
     [(''keyId'', ZNonEmpty)]"

definition ListApiKeysActionSchema :: schema where
  "ListApiKeysActionSchema = ZObject
     [(''payload'', ListApiKeysSchema),
      (''transportOptions'', ZOptional TransportOptionsSchema)]"

definition CreateApiKeyActionSchema :: schema where
  "CreateApiKeyActionSchema = ZObject
     [(''payload'', CreateApiKeySchema),
      (''transportOptions'', ZOptional TransportOptionsSchema)]"

definition RevokeApiKeyActionSchema :: schema where
  "RevokeApiKeyActionSchema = ZObject
     [(''payload'', RevokeApiKeySchema),
      (''transportOptions'', ZOptional TransportOptionsSchema)]"

end
