(* ===== verification/Console_Resources.thy ===== *)
theory Console_Resources
  imports Console_Actions Console_Resource_Schemas
begin

text \<open>
  The console's other server operations (\<^verbatim>\<open>frontend/web/src/modules/server/core/\<close>): projects and their
  configuration, storage, webhooks, usage, the dashboard and folders at the backend, and API keys at the
  identity service; their services, use cases, controllers and server actions. They share the clients,
  the boundary and the frame of the file operations.
\<close>

subsection \<open>Schemas of the controllers\<close>

definition GetProjectInputSchema :: schema where
  "GetProjectInputSchema = ZObject [(''projectId'', ZNonEmpty)]"

definition DeleteProjectControllerSchema :: schema where
  "DeleteProjectControllerSchema = ZObject [(''projectId'', ZNonEmpty)]"

definition UpdateProjectControllerSchema :: schema where
  "UpdateProjectControllerSchema = zmerge UpdateProjectSchema (ZObject [(''projectId'', ZNonEmpty)])"

definition ProjectConfigInputSchema :: schema where
  "ProjectConfigInputSchema = ZObject [(''projectId'', ZNonEmpty)]"

subsection \<open>Services\<close>

definition project_path :: "string \<Rightarrow> string" where
  "project_path pid = ''/v1/projects/'' @ pid"

definition send_value :: "string \<Rightarrow> json \<Rightarrow> options" where
  "send_value meth v = \<lparr>op_method = meth, op_query = [], op_body = JsonBody v\<rparr>"

text \<open>The entries of a query: null and empty values are left out, the others printed.\<close>

definition query_parts :: "(string \<times> json) list \<Rightarrow> (string \<times> string) list" where
  "query_parts es = map (\<lambda>(k, v). (k, js_string v)) (filter (\<lambda>(k, v). v \<noteq> JNull \<and> v \<noteq> JStr []) es)"

text \<open>
  API keys: the query of a listing, the restriction to a project (a key without one belongs to all), and
  the body of a creation. The parsed number of days is an integer.
\<close>

definition key_query :: "json \<Rightarrow> (string \<times> string) list" where
  "key_query params = (''organizationId'', fld params ''organizationId'') #
     (if jget params ''limit'' \<noteq> None then [(''limit'', fld params ''limit'')] else []) @
     (if jget params ''offset'' \<noteq> None then [(''offset'', fld params ''offset'')] else []) @
     (if truthy (jget params ''sortBy'') then [(''sortBy'', fld params ''sortBy'')] else []) @
     (if truthy (jget params ''sortDirection'') then [(''sortDirection'', fld params ''sortDirection'')] else [])"

definition key_project :: "json \<Rightarrow> json option" where
  "key_project k = field_of (jget k ''metadata'') ''projectId''"

fun keys_of :: "json option \<Rightarrow> json list" where
  "keys_of (Some (JArr ks)) = ks"
| "keys_of _ = []"

definition of_project :: "json option \<Rightarrow> json \<Rightarrow> json" where
  "of_project project data =
     (let filtered = filter (\<lambda>k. \<not> truthy (key_project k) \<or> key_project k = project) (keys_of (jget data ''apiKeys''))
      in JObj (put ''total'' (JInt (int (length filtered))) (put ''apiKeys'' (JArr filtered) (entries data))))"

definition expiry_seconds :: "json option \<Rightarrow> json option" where
  "expiry_seconds days = (case days of Some (JInt n) \<Rightarrow> if n \<noteq> 0 then Some (JInt (n * 86400)) else None | _ \<Rightarrow> None)"

definition key_body :: "json \<Rightarrow> json" where
  "key_body dto = jobj
     [(''name'', jget dto ''name''), (''organizationId'', jget dto ''organizationId''),
      (''metadata'', Some (jobj [(''organizationId'', jget dto ''organizationId''),
         (''projectId'', Some (nullish_or (jget dto ''projectId'') JNull)), (''scopes'', jget dto ''scopes'')])),
      (''expiresIn'', expiry_seconds (jget dto ''expiresInDays''))]"

definition pr_get :: "parser \<Rightarrow> server_env \<Rightarrow> incoming \<Rightarrow> string \<Rightarrow> (c_exn, json option) c_io" where
  "pr_get parse env inc pid = parsed parse ProjectSchema
     (filenestApi env inc (project_path pid) get_options)"

definition pr_list :: "parser \<Rightarrow> server_env \<Rightarrow> incoming \<Rightarrow> json \<Rightarrow> (c_exn, json option) c_io" where
  "pr_list parse env inc params = parsed parse ProjectListSchema
     (filenestApi env inc (''/v1/projects'') (get_options\<lparr>op_query := query_parts (entries params)\<rparr>))"

definition pr_create :: "parser \<Rightarrow> server_env \<Rightarrow> incoming \<Rightarrow> json \<Rightarrow> (c_exn, json option) c_io" where
  "pr_create parse env inc dto = parsed parse ProjectSchema
     (filenestApi env inc (''/v1/projects'') (send_value ''POST'' dto))"

definition pr_update :: "parser \<Rightarrow> server_env \<Rightarrow> incoming \<Rightarrow> string \<Rightarrow> json \<Rightarrow> (c_exn, json option) c_io" where
  "pr_update parse env inc pid dto = parsed parse ProjectSchema
     (filenestApi env inc (project_path pid) (send_value ''PATCH'' dto))"

definition pr_delete :: "parser \<Rightarrow> server_env \<Rightarrow> incoming \<Rightarrow> string \<Rightarrow> (c_exn, json option) c_io" where
  "pr_delete parse env inc pid = andThen (filenestApi env inc (project_path pid) (get_options\<lparr>op_method := ''DELETE''\<rparr>)) (\<lambda>_. ret None)"

definition pc_get :: "parser \<Rightarrow> server_env \<Rightarrow> incoming \<Rightarrow> string \<Rightarrow> (c_exn, json option) c_io" where
  "pc_get parse env inc pid = parsed parse ProjectConfigSchema
     (filenestApi env inc (project_path pid @ ''/config'') get_options)"

definition pc_updateUpload :: "parser \<Rightarrow> server_env \<Rightarrow> incoming \<Rightarrow> string \<Rightarrow> json \<Rightarrow> (c_exn, json option) c_io" where
  "pc_updateUpload parse env inc pid dto = parsed parse ProjectConfigSchema
     (filenestApi env inc (project_path pid @ ''/config/upload'') (send_value ''PATCH'' dto))"

definition pc_updateSecurity :: "parser \<Rightarrow> server_env \<Rightarrow> incoming \<Rightarrow> string \<Rightarrow> json \<Rightarrow> (c_exn, json option) c_io" where
  "pc_updateSecurity parse env inc pid dto = parsed parse ProjectConfigSchema
     (filenestApi env inc (project_path pid @ ''/config/security'') (send_value ''PATCH'' dto))"

definition pc_updateProcessing :: "parser \<Rightarrow> server_env \<Rightarrow> incoming \<Rightarrow> string \<Rightarrow> json \<Rightarrow> (c_exn, json option) c_io" where
  "pc_updateProcessing parse env inc pid dto = parsed parse ProjectConfigSchema
     (filenestApi env inc (project_path pid @ ''/config/processing'') (send_value ''PATCH'' dto))"

definition pc_updateCompliance :: "parser \<Rightarrow> server_env \<Rightarrow> incoming \<Rightarrow> string \<Rightarrow> json \<Rightarrow> (c_exn, json option) c_io" where
  "pc_updateCompliance parse env inc pid dto = parsed parse ProjectConfigSchema
     (filenestApi env inc (project_path pid @ ''/config/compliance'') (send_value ''PATCH'' dto))"

definition st_get :: "parser \<Rightarrow> server_env \<Rightarrow> incoming \<Rightarrow> string \<Rightarrow> (c_exn, json option) c_io" where
  "st_get parse env inc pid = parsed parse StorageConfigSchema
     (filenestApi env inc (project_path pid @ ''/storage'') get_options)"

definition st_update :: "parser \<Rightarrow> server_env \<Rightarrow> incoming \<Rightarrow> string \<Rightarrow> json \<Rightarrow> (c_exn, json option) c_io" where
  "st_update parse env inc pid dto = parsed parse StorageConfigSchema
     (filenestApi env inc (project_path pid @ ''/storage'') (send_value ''PATCH'' dto))"

definition st_verify :: "parser \<Rightarrow> server_env \<Rightarrow> incoming \<Rightarrow> string \<Rightarrow> (c_exn, json option) c_io" where
  "st_verify parse env inc pid = parsed parse StorageVerifyResultSchema
     (filenestApi env inc (project_path pid @ ''/storage/verify'') (get_options\<lparr>op_method := ''POST''\<rparr>))"

definition st_updateSse :: "parser \<Rightarrow> server_env \<Rightarrow> incoming \<Rightarrow> string \<Rightarrow> json option \<Rightarrow> (c_exn, json option) c_io" where
  "st_updateSse parse env inc pid sse = parsed parse StorageConfigSchema
     (filenestApi env inc (project_path pid @ ''/storage/sse'') (send_json ''PATCH'' [(''sse_enabled'', sse)]))"

definition wh_list :: "parser \<Rightarrow> server_env \<Rightarrow> incoming \<Rightarrow> string \<Rightarrow> (c_exn, json option) c_io" where
  "wh_list parse env inc pid = parsed parse WebhookListSchema
     (filenestApi env inc (project_path pid @ ''/webhooks'') get_options)"

definition wh_create :: "parser \<Rightarrow> server_env \<Rightarrow> incoming \<Rightarrow> json \<Rightarrow> (c_exn, json option) c_io" where
  "wh_create parse env inc dto = parsed parse WebhookSchema
     (filenestApi env inc (project_path (fld dto ''projectId'') @ ''/webhooks'') (send_value ''POST'' (without ''projectId'' dto)))"

definition wh_update :: "parser \<Rightarrow> server_env \<Rightarrow> incoming \<Rightarrow> json \<Rightarrow> (c_exn, json option) c_io" where
  "wh_update parse env inc dto = parsed parse WebhookSchema
     (filenestApi env inc (project_path (fld dto ''projectId'') @ ''/webhooks/'' @ fld dto ''webhookId'') 
       (send_value ''PUT'' (without ''webhookId'' (without ''projectId'' dto))))"

definition wh_delete :: "parser \<Rightarrow> server_env \<Rightarrow> incoming \<Rightarrow> string \<Rightarrow> string \<Rightarrow> (c_exn, json option) c_io" where
  "wh_delete parse env inc pid wid = andThen (filenestApi env inc (project_path pid @ ''/webhooks/'' @ wid) (get_options\<lparr>op_method := ''DELETE''\<rparr>)) (\<lambda>_. ret None)"

definition us_get :: "parser \<Rightarrow> server_env \<Rightarrow> incoming \<Rightarrow> (c_exn, json option) c_io" where
  "us_get parse env inc = parsed parse UsageResponseSchema
     (filenestApi env inc (''/v1/usage'') get_options)"

definition db_get :: "parser \<Rightarrow> server_env \<Rightarrow> incoming \<Rightarrow> (c_exn, json option) c_io" where
  "db_get parse env inc = parsed parse DashboardResponseSchema
     (filenestApi env inc (''/v1/dashboard'') get_options)"

definition fo_list :: "parser \<Rightarrow> server_env \<Rightarrow> incoming \<Rightarrow> string \<Rightarrow> (c_exn, json option) c_io" where
  "fo_list parse env inc pid = parsed parse FolderListSchema
     (filenestApi env inc (project_path pid @ ''/folders'') get_options)"

definition fo_create :: "parser \<Rightarrow> server_env \<Rightarrow> incoming \<Rightarrow> json \<Rightarrow> (c_exn, json option) c_io" where
  "fo_create parse env inc params = parsed parse FolderSchema
     (filenestApi env inc (project_path (fld params ''projectId'') @ ''/folders'') (send_value ''POST'' (without ''projectId'' params)))"

definition fo_delete :: "parser \<Rightarrow> server_env \<Rightarrow> incoming \<Rightarrow> string \<Rightarrow> string \<Rightarrow> (c_exn, json option) c_io" where
  "fo_delete parse env inc pid fid = parsed parse FolderDeleteResponseSchema
     (filenestApi env inc (project_path pid @ ''/folders/'' @ fid) (get_options\<lparr>op_method := ''DELETE''\<rparr>))"

definition ak_list :: "parser \<Rightarrow> server_env \<Rightarrow> incoming \<Rightarrow> json \<Rightarrow> (c_exn, json option) c_io" where
  "ak_list parse env inc params = andThen (parsed parse ApiKeyListSchema
       (iamApi env inc ''/api/auth/api-key/list'' (get_options\<lparr>op_query := key_query params\<rparr>))) (\<lambda>data.
     ret (if truthy (jget params ''projectId'') then map_option (of_project (jget params ''projectId'')) data else data))"

definition ak_create :: "parser \<Rightarrow> server_env \<Rightarrow> incoming \<Rightarrow> json \<Rightarrow> (c_exn, json option) c_io" where
  "ak_create parse env inc dto = parsed parse CreatedApiKeySchema
     (iamApi env inc ''/api/auth/api-key/create'' (send_value ''POST'' (key_body dto)))"

definition ak_revoke :: "parser \<Rightarrow> server_env \<Rightarrow> incoming \<Rightarrow> json \<Rightarrow> (c_exn, json option) c_io" where
  "ak_revoke parse env inc params = andThen (iamApi env inc ''/api/auth/api-key/delete'' (send_json ''POST'' [(''keyId'', jget params ''keyId'')]))
     (\<lambda>_. ret None)"

subsection \<open>Use cases and controllers\<close>

definition getProjectUseCase :: "parser \<Rightarrow> server_env \<Rightarrow> incoming \<Rightarrow> string \<Rightarrow> (c_exn, json option) c_io" where
  "getProjectUseCase parse env inc pid = pr_get parse env inc pid"

definition listProjectsUseCase :: "parser \<Rightarrow> server_env \<Rightarrow> incoming \<Rightarrow> json \<Rightarrow> (c_exn, json option) c_io" where
  "listProjectsUseCase parse env inc params = pr_list parse env inc params"

definition createProjectUseCase :: "parser \<Rightarrow> server_env \<Rightarrow> incoming \<Rightarrow> json \<Rightarrow> (c_exn, json option) c_io" where
  "createProjectUseCase parse env inc dto = pr_create parse env inc dto"

definition updateProjectUseCase :: "parser \<Rightarrow> server_env \<Rightarrow> incoming \<Rightarrow> string \<Rightarrow> json \<Rightarrow> (c_exn, json option) c_io" where
  "updateProjectUseCase parse env inc pid dto = pr_update parse env inc pid dto"

definition deleteProjectUseCase :: "parser \<Rightarrow> server_env \<Rightarrow> incoming \<Rightarrow> string \<Rightarrow> (c_exn, json option) c_io" where
  "deleteProjectUseCase parse env inc pid = pr_delete parse env inc pid"

definition getProjectConfigUseCase :: "parser \<Rightarrow> server_env \<Rightarrow> incoming \<Rightarrow> string \<Rightarrow> (c_exn, json option) c_io" where
  "getProjectConfigUseCase parse env inc pid = pc_get parse env inc pid"

definition updateUploadConfigUseCase :: "parser \<Rightarrow> server_env \<Rightarrow> incoming \<Rightarrow> json \<Rightarrow> (c_exn, json option) c_io" where
  "updateUploadConfigUseCase parse env inc dto = pc_updateUpload parse env inc (fld dto ''projectId'') (without ''projectId'' dto)"

definition updateSecurityConfigUseCase :: "parser \<Rightarrow> server_env \<Rightarrow> incoming \<Rightarrow> json \<Rightarrow> (c_exn, json option) c_io" where
  "updateSecurityConfigUseCase parse env inc dto = pc_updateSecurity parse env inc (fld dto ''projectId'') (without ''projectId'' dto)"

definition updateProcessingConfigUseCase :: "parser \<Rightarrow> server_env \<Rightarrow> incoming \<Rightarrow> json \<Rightarrow> (c_exn, json option) c_io" where
  "updateProcessingConfigUseCase parse env inc dto = pc_updateProcessing parse env inc (fld dto ''projectId'') (without ''projectId'' dto)"

definition updateComplianceConfigUseCase :: "parser \<Rightarrow> server_env \<Rightarrow> incoming \<Rightarrow> json \<Rightarrow> (c_exn, json option) c_io" where
  "updateComplianceConfigUseCase parse env inc dto = pc_updateCompliance parse env inc (fld dto ''projectId'') (without ''projectId'' dto)"

definition getStorageConfigUseCase :: "parser \<Rightarrow> server_env \<Rightarrow> incoming \<Rightarrow> string \<Rightarrow> (c_exn, json option) c_io" where
  "getStorageConfigUseCase parse env inc pid = st_get parse env inc pid"

definition updateStorageConfigUseCase :: "parser \<Rightarrow> server_env \<Rightarrow> incoming \<Rightarrow> json \<Rightarrow> (c_exn, json option) c_io" where
  "updateStorageConfigUseCase parse env inc dto = st_update parse env inc (fld dto ''projectId'') (without ''projectId'' dto)"

definition verifyStorageConfigUseCase :: "parser \<Rightarrow> server_env \<Rightarrow> incoming \<Rightarrow> string \<Rightarrow> (c_exn, json option) c_io" where
  "verifyStorageConfigUseCase parse env inc pid = st_verify parse env inc pid"

definition updateSseStorageConfigUseCase :: "parser \<Rightarrow> server_env \<Rightarrow> incoming \<Rightarrow> string \<Rightarrow> json option \<Rightarrow> (c_exn, json option) c_io" where
  "updateSseStorageConfigUseCase parse env inc pid sse = st_updateSse parse env inc pid sse"

definition listWebhooksUseCase :: "parser \<Rightarrow> server_env \<Rightarrow> incoming \<Rightarrow> string \<Rightarrow> (c_exn, json option) c_io" where
  "listWebhooksUseCase parse env inc pid = wh_list parse env inc pid"

definition createWebhookUseCase :: "parser \<Rightarrow> server_env \<Rightarrow> incoming \<Rightarrow> json \<Rightarrow> (c_exn, json option) c_io" where
  "createWebhookUseCase parse env inc dto = wh_create parse env inc dto"

definition updateWebhookUseCase :: "parser \<Rightarrow> server_env \<Rightarrow> incoming \<Rightarrow> json \<Rightarrow> (c_exn, json option) c_io" where
  "updateWebhookUseCase parse env inc dto = wh_update parse env inc dto"

definition deleteWebhookUseCase :: "parser \<Rightarrow> server_env \<Rightarrow> incoming \<Rightarrow> string \<Rightarrow> string \<Rightarrow> (c_exn, json option) c_io" where
  "deleteWebhookUseCase parse env inc pid wid = wh_delete parse env inc pid wid"

definition getUsageUseCase :: "parser \<Rightarrow> server_env \<Rightarrow> incoming \<Rightarrow> (c_exn, json option) c_io" where
  "getUsageUseCase parse env inc = us_get parse env inc"

definition getDashboardUseCase :: "parser \<Rightarrow> server_env \<Rightarrow> incoming \<Rightarrow> (c_exn, json option) c_io" where
  "getDashboardUseCase parse env inc = db_get parse env inc"

definition listFoldersUseCase :: "parser \<Rightarrow> server_env \<Rightarrow> incoming \<Rightarrow> string \<Rightarrow> (c_exn, json option) c_io" where
  "listFoldersUseCase parse env inc pid = fo_list parse env inc pid"

definition createFolderUseCase :: "parser \<Rightarrow> server_env \<Rightarrow> incoming \<Rightarrow> json \<Rightarrow> (c_exn, json option) c_io" where
  "createFolderUseCase parse env inc params = fo_create parse env inc params"

definition deleteFolderUseCase :: "parser \<Rightarrow> server_env \<Rightarrow> incoming \<Rightarrow> string \<Rightarrow> string \<Rightarrow> (c_exn, json option) c_io" where
  "deleteFolderUseCase parse env inc pid fid = fo_delete parse env inc pid fid"

definition console_listApiKeysUseCase :: "parser \<Rightarrow> server_env \<Rightarrow> incoming \<Rightarrow> json \<Rightarrow> (c_exn, json option) c_io" where
  "console_listApiKeysUseCase parse env inc params = ak_list parse env inc params"

definition console_createApiKeyUseCase :: "parser \<Rightarrow> server_env \<Rightarrow> incoming \<Rightarrow> json \<Rightarrow> (c_exn, json option) c_io" where
  "console_createApiKeyUseCase parse env inc dto = ak_create parse env inc dto"

definition revokeApiKeyUseCase :: "parser \<Rightarrow> server_env \<Rightarrow> incoming \<Rightarrow> json \<Rightarrow> (c_exn, json option) c_io" where
  "revokeApiKeyUseCase parse env inc params = ak_revoke parse env inc params"

definition getProjectController :: "parser \<Rightarrow> server_env \<Rightarrow> incoming \<Rightarrow> json option \<Rightarrow> (c_exn, json option) c_io" where
  "getProjectController parse env inc input = with_input parse GetProjectInputSchema input
     (\<lambda>d. getProjectUseCase parse env inc (fld d ''projectId''))"

definition listProjectsController :: "parser \<Rightarrow> server_env \<Rightarrow> incoming \<Rightarrow> json option \<Rightarrow> (c_exn, json option) c_io" where
  "listProjectsController parse env inc input = with_input parse ListProjectsParamsSchema (Some (nullish_or input (JObj [])))
     (listProjectsUseCase parse env inc)"

definition createProjectController :: "parser \<Rightarrow> server_env \<Rightarrow> incoming \<Rightarrow> json option \<Rightarrow> (c_exn, json option) c_io" where
  "createProjectController parse env inc input = with_input parse CreateProjectSchema input
     (createProjectUseCase parse env inc)"

definition updateProjectController :: "parser \<Rightarrow> server_env \<Rightarrow> incoming \<Rightarrow> json option \<Rightarrow> (c_exn, json option) c_io" where
  "updateProjectController parse env inc input = with_input parse UpdateProjectControllerSchema input
     (\<lambda>d. updateProjectUseCase parse env inc (fld d ''projectId'') (without ''projectId'' d))"

definition deleteProjectController :: "parser \<Rightarrow> server_env \<Rightarrow> incoming \<Rightarrow> json option \<Rightarrow> (c_exn, json option) c_io" where
  "deleteProjectController parse env inc input = with_input parse DeleteProjectControllerSchema input
     (\<lambda>d. deleteProjectUseCase parse env inc (fld d ''projectId''))"

definition getProjectConfigController :: "parser \<Rightarrow> server_env \<Rightarrow> incoming \<Rightarrow> json option \<Rightarrow> (c_exn, json option) c_io" where
  "getProjectConfigController parse env inc input = with_input parse ProjectConfigInputSchema input
     (\<lambda>d. parsed parse ProjectConfigSchema (getProjectConfigUseCase parse env inc (fld d ''projectId'')))"

definition updateUploadConfigController :: "parser \<Rightarrow> server_env \<Rightarrow> incoming \<Rightarrow> json option \<Rightarrow> (c_exn, json option) c_io" where
  "updateUploadConfigController parse env inc input = with_input parse UpdateUploadConfigSchema input
     (\<lambda>d. parsed parse ProjectConfigSchema (updateUploadConfigUseCase parse env inc d))"

definition updateSecurityConfigController :: "parser \<Rightarrow> server_env \<Rightarrow> incoming \<Rightarrow> json option \<Rightarrow> (c_exn, json option) c_io" where
  "updateSecurityConfigController parse env inc input = with_input parse UpdateSecurityConfigSchema input
     (\<lambda>d. parsed parse ProjectConfigSchema (updateSecurityConfigUseCase parse env inc d))"

definition updateProcessingConfigController :: "parser \<Rightarrow> server_env \<Rightarrow> incoming \<Rightarrow> json option \<Rightarrow> (c_exn, json option) c_io" where
  "updateProcessingConfigController parse env inc input = with_input parse UpdateProcessingConfigSchema input
     (\<lambda>d. parsed parse ProjectConfigSchema (updateProcessingConfigUseCase parse env inc d))"

definition updateComplianceConfigController :: "parser \<Rightarrow> server_env \<Rightarrow> incoming \<Rightarrow> json option \<Rightarrow> (c_exn, json option) c_io" where
  "updateComplianceConfigController parse env inc input = with_input parse UpdateComplianceConfigSchema input
     (\<lambda>d. parsed parse ProjectConfigSchema (updateComplianceConfigUseCase parse env inc d))"

definition getStorageConfigController :: "parser \<Rightarrow> server_env \<Rightarrow> incoming \<Rightarrow> json option \<Rightarrow> (c_exn, json option) c_io" where
  "getStorageConfigController parse env inc input = with_input parse VerifyStorageSchema input
     (\<lambda>d. getStorageConfigUseCase parse env inc (fld d ''projectId''))"

definition updateStorageConfigController :: "parser \<Rightarrow> server_env \<Rightarrow> incoming \<Rightarrow> json option \<Rightarrow> (c_exn, json option) c_io" where
  "updateStorageConfigController parse env inc input = with_input parse UpdateStorageConfigSchema input
     (\<lambda>d. parsed parse StorageConfigSchema (updateStorageConfigUseCase parse env inc d))"

definition verifyStorageConfigController :: "parser \<Rightarrow> server_env \<Rightarrow> incoming \<Rightarrow> json option \<Rightarrow> (c_exn, json option) c_io" where
  "verifyStorageConfigController parse env inc input = with_input parse VerifyStorageSchema input
     (\<lambda>d. verifyStorageConfigUseCase parse env inc (fld d ''projectId''))"

definition updateSseStorageConfigController :: "parser \<Rightarrow> server_env \<Rightarrow> incoming \<Rightarrow> json option \<Rightarrow> (c_exn, json option) c_io" where
  "updateSseStorageConfigController parse env inc input = with_input parse UpdateSseSchema input
     (\<lambda>d. parsed parse StorageConfigSchema (updateSseStorageConfigUseCase parse env inc (fld d ''projectId'') (jget d ''sse_enabled'')))"

definition listWebhooksController :: "parser \<Rightarrow> server_env \<Rightarrow> incoming \<Rightarrow> json option \<Rightarrow> (c_exn, json option) c_io" where
  "listWebhooksController parse env inc input = with_input parse ListWebhooksParamsSchema input
     (\<lambda>d. listWebhooksUseCase parse env inc (fld d ''projectId''))"

definition createWebhookController :: "parser \<Rightarrow> server_env \<Rightarrow> incoming \<Rightarrow> json option \<Rightarrow> (c_exn, json option) c_io" where
  "createWebhookController parse env inc input = with_input parse CreateWebhookSchema input
     (createWebhookUseCase parse env inc)"

definition updateWebhookController :: "parser \<Rightarrow> server_env \<Rightarrow> incoming \<Rightarrow> json option \<Rightarrow> (c_exn, json option) c_io" where
  "updateWebhookController parse env inc input = with_input parse UpdateWebhookSchema input
     (updateWebhookUseCase parse env inc)"

definition deleteWebhookController :: "parser \<Rightarrow> server_env \<Rightarrow> incoming \<Rightarrow> json option \<Rightarrow> (c_exn, json option) c_io" where
  "deleteWebhookController parse env inc input = with_input parse DeleteWebhookSchema input
     (\<lambda>d. deleteWebhookUseCase parse env inc (fld d ''projectId'') (fld d ''webhookId''))"

definition getUsageController :: "parser \<Rightarrow> server_env \<Rightarrow> incoming \<Rightarrow> (c_exn, json option) c_io" where
  "getUsageController parse env inc = getUsageUseCase parse env inc"

definition getDashboardController :: "parser \<Rightarrow> server_env \<Rightarrow> incoming \<Rightarrow> (c_exn, json option) c_io" where
  "getDashboardController parse env inc = getDashboardUseCase parse env inc"

definition listFoldersController :: "parser \<Rightarrow> server_env \<Rightarrow> incoming \<Rightarrow> json option \<Rightarrow> (c_exn, json option) c_io" where
  "listFoldersController parse env inc input = with_input parse ListFoldersParamsSchema input
     (\<lambda>d. listFoldersUseCase parse env inc (fld d ''projectId''))"

definition createFolderController :: "parser \<Rightarrow> server_env \<Rightarrow> incoming \<Rightarrow> json option \<Rightarrow> (c_exn, json option) c_io" where
  "createFolderController parse env inc input = with_input parse CreateFolderParamsSchema input
     (createFolderUseCase parse env inc)"

definition deleteFolderController :: "parser \<Rightarrow> server_env \<Rightarrow> incoming \<Rightarrow> json option \<Rightarrow> (c_exn, json option) c_io" where
  "deleteFolderController parse env inc input = with_input parse DeleteFolderParamsSchema input
     (\<lambda>d. deleteFolderUseCase parse env inc (fld d ''projectId'') (fld d ''folderId''))"

definition console_listApiKeysController :: "parser \<Rightarrow> server_env \<Rightarrow> incoming \<Rightarrow> json option \<Rightarrow> (c_exn, json option) c_io" where
  "console_listApiKeysController parse env inc input = with_input parse ListApiKeysSchema input
     (console_listApiKeysUseCase parse env inc)"

definition console_createApiKeyController :: "parser \<Rightarrow> server_env \<Rightarrow> incoming \<Rightarrow> json option \<Rightarrow> (c_exn, json option) c_io" where
  "console_createApiKeyController parse env inc input = with_input parse CreateApiKeySchema input
     (console_createApiKeyUseCase parse env inc)"

definition revokeApiKeyController :: "parser \<Rightarrow> server_env \<Rightarrow> incoming \<Rightarrow> json option \<Rightarrow> (c_exn, json option) c_io" where
  "revokeApiKeyController parse env inc input = with_input parse RevokeApiKeySchema input
     (revokeApiKeyUseCase parse env inc)"

subsection \<open>Server actions\<close>

text \<open>An action whose controller reads no payload; the transport options are read after it.\<close>

definition plain_action ::
    "(c_exn, json option) c_io \<Rightarrow> server_env \<Rightarrow> incoming \<Rightarrow> json option \<Rightarrow> (c_exn boundary, json option) c_io" where
  "plain_action controller env inc input = andThen (authenticatedProcedure env inc) (\<lambda>session.
     c_runWithTransport (andThen controller (\<lambda>data.
       if input = None \<or> input = Some JNull
       then throw (OtherError ''Cannot read properties of undefined'')
       else ret (data, field_of input ''transportOptions''))))"

definition getProjectAction :: "parser \<Rightarrow> server_env \<Rightarrow> incoming \<Rightarrow> json option \<Rightarrow> (c_exn boundary, json option) c_io" where
  "getProjectAction parse env inc = file_action (getProjectController parse env inc) env inc"

definition listProjectsAction :: "parser \<Rightarrow> server_env \<Rightarrow> incoming \<Rightarrow> json option \<Rightarrow> (c_exn boundary, json option) c_io" where
  "listProjectsAction parse env inc = file_action (listProjectsController parse env inc) env inc"

definition createProjectAction :: "parser \<Rightarrow> server_env \<Rightarrow> incoming \<Rightarrow> json option \<Rightarrow> (c_exn boundary, json option) c_io" where
  "createProjectAction parse env inc = file_action (createProjectController parse env inc) env inc"

definition updateProjectAction :: "parser \<Rightarrow> server_env \<Rightarrow> incoming \<Rightarrow> json option \<Rightarrow> (c_exn boundary, json option) c_io" where
  "updateProjectAction parse env inc = file_action (updateProjectController parse env inc) env inc"

definition deleteProjectAction :: "parser \<Rightarrow> server_env \<Rightarrow> incoming \<Rightarrow> json option \<Rightarrow> (c_exn boundary, json option) c_io" where
  "deleteProjectAction parse env inc = file_action (deleteProjectController parse env inc) env inc"

definition getProjectConfigAction :: "parser \<Rightarrow> server_env \<Rightarrow> incoming \<Rightarrow> json option \<Rightarrow> (c_exn boundary, json option) c_io" where
  "getProjectConfigAction parse env inc = file_action (getProjectConfigController parse env inc) env inc"

definition updateUploadConfigAction :: "parser \<Rightarrow> server_env \<Rightarrow> incoming \<Rightarrow> json option \<Rightarrow> (c_exn boundary, json option) c_io" where
  "updateUploadConfigAction parse env inc = file_action (updateUploadConfigController parse env inc) env inc"

definition updateSecurityConfigAction :: "parser \<Rightarrow> server_env \<Rightarrow> incoming \<Rightarrow> json option \<Rightarrow> (c_exn boundary, json option) c_io" where
  "updateSecurityConfigAction parse env inc = file_action (updateSecurityConfigController parse env inc) env inc"

definition updateProcessingConfigAction :: "parser \<Rightarrow> server_env \<Rightarrow> incoming \<Rightarrow> json option \<Rightarrow> (c_exn boundary, json option) c_io" where
  "updateProcessingConfigAction parse env inc = file_action (updateProcessingConfigController parse env inc) env inc"

definition updateComplianceConfigAction :: "parser \<Rightarrow> server_env \<Rightarrow> incoming \<Rightarrow> json option \<Rightarrow> (c_exn boundary, json option) c_io" where
  "updateComplianceConfigAction parse env inc = file_action (updateComplianceConfigController parse env inc) env inc"

definition getStorageConfigAction :: "parser \<Rightarrow> server_env \<Rightarrow> incoming \<Rightarrow> json option \<Rightarrow> (c_exn boundary, json option) c_io" where
  "getStorageConfigAction parse env inc = file_action (getStorageConfigController parse env inc) env inc"

definition updateStorageConfigAction :: "parser \<Rightarrow> server_env \<Rightarrow> incoming \<Rightarrow> json option \<Rightarrow> (c_exn boundary, json option) c_io" where
  "updateStorageConfigAction parse env inc = file_action (updateStorageConfigController parse env inc) env inc"

definition verifyStorageAction :: "parser \<Rightarrow> server_env \<Rightarrow> incoming \<Rightarrow> json option \<Rightarrow> (c_exn boundary, json option) c_io" where
  "verifyStorageAction parse env inc = file_action (verifyStorageConfigController parse env inc) env inc"

definition updateSseAction :: "parser \<Rightarrow> server_env \<Rightarrow> incoming \<Rightarrow> json option \<Rightarrow> (c_exn boundary, json option) c_io" where
  "updateSseAction parse env inc = file_action (updateSseStorageConfigController parse env inc) env inc"

definition listWebhooksAction :: "parser \<Rightarrow> server_env \<Rightarrow> incoming \<Rightarrow> json option \<Rightarrow> (c_exn boundary, json option) c_io" where
  "listWebhooksAction parse env inc = file_action (listWebhooksController parse env inc) env inc"

definition createWebhookAction :: "parser \<Rightarrow> server_env \<Rightarrow> incoming \<Rightarrow> json option \<Rightarrow> (c_exn boundary, json option) c_io" where
  "createWebhookAction parse env inc = file_action (createWebhookController parse env inc) env inc"

definition updateWebhookAction :: "parser \<Rightarrow> server_env \<Rightarrow> incoming \<Rightarrow> json option \<Rightarrow> (c_exn boundary, json option) c_io" where
  "updateWebhookAction parse env inc = file_action (updateWebhookController parse env inc) env inc"

definition deleteWebhookAction :: "parser \<Rightarrow> server_env \<Rightarrow> incoming \<Rightarrow> json option \<Rightarrow> (c_exn boundary, json option) c_io" where
  "deleteWebhookAction parse env inc = file_action (deleteWebhookController parse env inc) env inc"

definition getUsageAction :: "parser \<Rightarrow> server_env \<Rightarrow> incoming \<Rightarrow> json option \<Rightarrow> (c_exn boundary, json option) c_io" where
  "getUsageAction parse env inc = plain_action (getUsageController parse env inc) env inc"

definition getDashboardAction :: "parser \<Rightarrow> server_env \<Rightarrow> incoming \<Rightarrow> json option \<Rightarrow> (c_exn boundary, json option) c_io" where
  "getDashboardAction parse env inc = plain_action (getDashboardController parse env inc) env inc"

definition listFoldersAction :: "parser \<Rightarrow> server_env \<Rightarrow> incoming \<Rightarrow> json option \<Rightarrow> (c_exn boundary, json option) c_io" where
  "listFoldersAction parse env inc = file_action (listFoldersController parse env inc) env inc"

definition createFolderAction :: "parser \<Rightarrow> server_env \<Rightarrow> incoming \<Rightarrow> json option \<Rightarrow> (c_exn boundary, json option) c_io" where
  "createFolderAction parse env inc = file_action (createFolderController parse env inc) env inc"

definition deleteFolderAction :: "parser \<Rightarrow> server_env \<Rightarrow> incoming \<Rightarrow> json option \<Rightarrow> (c_exn boundary, json option) c_io" where
  "deleteFolderAction parse env inc = file_action (deleteFolderController parse env inc) env inc"

definition console_listApiKeysAction :: "parser \<Rightarrow> server_env \<Rightarrow> incoming \<Rightarrow> json option \<Rightarrow> (c_exn boundary, json option) c_io" where
  "console_listApiKeysAction parse env inc = file_action (console_listApiKeysController parse env inc) env inc"

definition console_createApiKeyAction :: "parser \<Rightarrow> server_env \<Rightarrow> incoming \<Rightarrow> json option \<Rightarrow> (c_exn boundary, json option) c_io" where
  "console_createApiKeyAction parse env inc = file_action (console_createApiKeyController parse env inc) env inc"

definition revokeApiKeyAction :: "parser \<Rightarrow> server_env \<Rightarrow> incoming \<Rightarrow> json option \<Rightarrow> (c_exn boundary, json option) c_io" where
  "revokeApiKeyAction parse env inc = file_action (revokeApiKeyController parse env inc) env inc"

text \<open>All actions: what the controller does with the payload first, whom the operation calls, and the schema of the result.\<close>

definition resource_actions ::
    "parser \<Rightarrow> server_env \<Rightarrow> incoming \<Rightarrow>
     ((json option \<Rightarrow> (c_exn boundary, json option) c_io) \<times> (json option \<Rightarrow> json + json) \<times> peer \<times> schema option) list" where
  "resource_actions parse env inc =
     [(getProjectAction parse env inc, parse GetProjectInputSchema, Backend, Some ProjectSchema),
      (listProjectsAction parse env inc, \<lambda>v. parse ListProjectsParamsSchema (Some (nullish_or v (JObj []))), Backend, Some ProjectListSchema),
      (createProjectAction parse env inc, parse CreateProjectSchema, Backend, Some ProjectSchema),
      (updateProjectAction parse env inc, parse UpdateProjectControllerSchema, Backend, Some ProjectSchema),
      (deleteProjectAction parse env inc, parse DeleteProjectControllerSchema, Backend, None),
      (getProjectConfigAction parse env inc, parse ProjectConfigInputSchema, Backend, Some ProjectConfigSchema),
      (updateUploadConfigAction parse env inc, parse UpdateUploadConfigSchema, Backend, Some ProjectConfigSchema),
      (updateSecurityConfigAction parse env inc, parse UpdateSecurityConfigSchema, Backend, Some ProjectConfigSchema),
      (updateProcessingConfigAction parse env inc, parse UpdateProcessingConfigSchema, Backend, Some ProjectConfigSchema),
      (updateComplianceConfigAction parse env inc, parse UpdateComplianceConfigSchema, Backend, Some ProjectConfigSchema),
      (getStorageConfigAction parse env inc, parse VerifyStorageSchema, Backend, Some StorageConfigSchema),
      (updateStorageConfigAction parse env inc, parse UpdateStorageConfigSchema, Backend, Some StorageConfigSchema),
      (verifyStorageAction parse env inc, parse VerifyStorageSchema, Backend, Some StorageVerifyResultSchema),
      (updateSseAction parse env inc, parse UpdateSseSchema, Backend, Some StorageConfigSchema),
      (listWebhooksAction parse env inc, parse ListWebhooksParamsSchema, Backend, Some WebhookListSchema),
      (createWebhookAction parse env inc, parse CreateWebhookSchema, Backend, Some WebhookSchema),
      (updateWebhookAction parse env inc, parse UpdateWebhookSchema, Backend, Some WebhookSchema),
      (deleteWebhookAction parse env inc, parse DeleteWebhookSchema, Backend, None),
      (getUsageAction parse env inc, \<lambda>v. Inr (JObj []), Backend, Some UsageResponseSchema),
      (getDashboardAction parse env inc, \<lambda>v. Inr (JObj []), Backend, Some DashboardResponseSchema),
      (listFoldersAction parse env inc, parse ListFoldersParamsSchema, Backend, Some FolderListSchema),
      (createFolderAction parse env inc, parse CreateFolderParamsSchema, Backend, Some FolderSchema),
      (deleteFolderAction parse env inc, parse DeleteFolderParamsSchema, Backend, Some FolderDeleteResponseSchema),
      (console_listApiKeysAction parse env inc, parse ListApiKeysSchema, IdentityService, Some ApiKeyListSchema),
      (console_createApiKeyAction parse env inc, parse CreateApiKeySchema, IdentityService, Some CreatedApiKeySchema),
      (revokeApiKeyAction parse env inc, parse RevokeApiKeySchema, IdentityService, None)]"

lemmas resource_action_defs =
  getProjectAction_def listProjectsAction_def createProjectAction_def updateProjectAction_def deleteProjectAction_def
  getProjectConfigAction_def updateUploadConfigAction_def updateSecurityConfigAction_def updateProcessingConfigAction_def updateComplianceConfigAction_def
  getStorageConfigAction_def updateStorageConfigAction_def verifyStorageAction_def updateSseAction_def listWebhooksAction_def
  createWebhookAction_def updateWebhookAction_def deleteWebhookAction_def getUsageAction_def getDashboardAction_def
  listFoldersAction_def createFolderAction_def deleteFolderAction_def console_listApiKeysAction_def console_createApiKeyAction_def
  revokeApiKeyAction_def

lemmas resource_controller_defs =
  getProjectController_def listProjectsController_def createProjectController_def updateProjectController_def deleteProjectController_def
  getProjectConfigController_def updateUploadConfigController_def updateSecurityConfigController_def updateProcessingConfigController_def updateComplianceConfigController_def
  getStorageConfigController_def updateStorageConfigController_def verifyStorageConfigController_def updateSseStorageConfigController_def listWebhooksController_def
  createWebhookController_def updateWebhookController_def deleteWebhookController_def getUsageController_def getDashboardController_def
  listFoldersController_def createFolderController_def deleteFolderController_def console_listApiKeysController_def console_createApiKeyController_def
  revokeApiKeyController_def

lemmas resource_usecase_defs =
  getProjectUseCase_def listProjectsUseCase_def createProjectUseCase_def updateProjectUseCase_def deleteProjectUseCase_def
  getProjectConfigUseCase_def updateUploadConfigUseCase_def updateSecurityConfigUseCase_def updateProcessingConfigUseCase_def updateComplianceConfigUseCase_def
  getStorageConfigUseCase_def updateStorageConfigUseCase_def verifyStorageConfigUseCase_def updateSseStorageConfigUseCase_def listWebhooksUseCase_def
  createWebhookUseCase_def updateWebhookUseCase_def deleteWebhookUseCase_def getUsageUseCase_def getDashboardUseCase_def
  listFoldersUseCase_def createFolderUseCase_def deleteFolderUseCase_def console_listApiKeysUseCase_def console_createApiKeyUseCase_def
  revokeApiKeyUseCase_def

lemmas resource_service_defs =
  pr_get_def pr_list_def pr_create_def pr_update_def pr_delete_def
  pc_get_def pc_updateUpload_def pc_updateSecurity_def pc_updateProcessing_def pc_updateCompliance_def
  st_get_def st_update_def st_verify_def st_updateSse_def wh_list_def
  wh_create_def wh_update_def wh_delete_def us_get_def db_get_def
  fo_list_def fo_create_def fo_delete_def ak_list_def ak_create_def
  ak_revoke_def

subsection \<open>Who is served\<close>

definition console_actions ::
    "parser \<Rightarrow> server_env \<Rightarrow> incoming \<Rightarrow>
     ((json option \<Rightarrow> (c_exn boundary, json option) c_io) \<times> (json option \<Rightarrow> json + json) \<times> peer \<times> schema option) list" where
  "console_actions parse env inc =
     map (\<lambda>(a, i, out). (a, parse i, Backend, out)) (file_actions parse env inc) @ resource_actions parse env inc"

lemma guarded_plain_action: "guarded env inc w (\<lambda>v. Inr d) (plain_action c env inc)"
proof -
  have "\<exists>b. plain_action c env inc input w [] = (Inl b, [CFetch (session_request env inc)])"
    if "\<not> signed_in env inc w" for input
    unfolding plain_action_def by (rule procedure_unauthenticated [OF that])
  then show ?thesis by (auto simp: guarded_def split: option.splits)
qed

lemma guarded_default_action:
  "guarded env inc w (\<lambda>v. parse s (Some (nullish_or v d)))
     (file_action (\<lambda>input. with_input parse s (Some (nullish_or input d)) f) env inc)"
  by (rule guarded_file_action) (simp add: with_input_def)

lemma resource_actions_guarded:
  "list_all (\<lambda>(action, check, p, out). guarded env inc w check action) (resource_actions parse env inc)"
  by (simp add: resource_actions_def resource_action_defs resource_controller_defs [abs_def] guarded_action
      guarded_plain_action guarded_default_action)

text \<open>
  C18: no server action of the console calls another service for a caller who is not signed in, or with a
  payload that its schema rejects. In the first case the only request sent is the reading of the
  session; in the second too, and the client gets the validation details as an
  \<^verbatim>\<open>INPUT_PARSE_ERROR\<close>. This holds of all 41 actions, for every world and every input.
\<close>

theorem console_actions_guarded:
  "list_all (\<lambda>(action, check, p, out). guarded env inc w check action) (console_actions parse env inc)"
  using file_actions_guarded [of env inc w parse] resource_actions_guarded [of env inc w parse]
  by (auto simp: console_actions_def list_all_iff)

subsection \<open>The contract of the actions\<close>

lemma yields_iamApi: "yields w (iamApi env inc path opts) (service_post env inc IdentityService (\<lambda>v. True))"
  unfolding iamApi_def
  by (rule yields_andThen [OF yields_c_fetch [where Q = "\<lambda>r es. es = [CFetch (iam_request env inc path opts)]"]])
    (auto simp: service_post_def calls_def reached_def intro!: yields_response_value split: sum.splits)

lemma service_any: "service_ok env inc p w out m \<Longrightarrow> yields w m (service_post env inc p (\<lambda>v. True))"
  unfolding service_ok_def by (erule yields_weaken) (auto simp: service_post_def split: sum.splits)

lemma service_parse:
  assumes "sound_parser parse" and "yields w m (service_post env inc p (\<lambda>v. True))"
  shows "service_ok env inc p w (Some s) (parsed parse s m)"
  unfolding service_ok_def parsed_def
  by (rule yields_andThen [OF assms(2)])
    (use assms(1) in \<open>auto simp: result_ok_def sound_parser_def service_post_def
      intro!: yields_throw yields_ret split: sum.splits\<close>)

lemma service_void:
  assumes "yields w m (service_post env inc p (\<lambda>v. True))"
  shows "service_ok env inc p w None (andThen m (\<lambda>_. ret None))"
  unfolding service_ok_def
  by (rule yields_andThen [OF assms]) (auto simp: result_ok_def service_post_def intro!: yields_ret)

lemma service_then:
  assumes "service_ok env inc p w out m" and "\<And>v. result_ok out v \<Longrightarrow> result_ok out (g v)"
  shows "service_ok env inc p w out (andThen m (\<lambda>v. ret (g v)))"
  unfolding service_ok_def
  by (rule yields_andThen [OF assms(1) [unfolded service_ok_def]])
    (use assms(2) in \<open>auto simp: service_post_def intro!: yields_ret\<close>)

text \<open>The restriction of a listing to a project keeps the schema.\<close>

lemma put_conforms:
  assumes "conforms (ZObject fs) (Some (JObj kvs))" and "distinct (map fst fs)" and "(k, s) \<in> set fs" and "conforms s (Some v)"
  shows "conforms (ZObject fs) (Some (JObj (put k v kvs)))"
proof -
  have "k \<in> fst ` set fs" using assms(3) by force
  then show ?thesis using assms by (auto simp: list_all_iff dest: eq_key_imp_eq_value)
qed

lemma of_project_conforms:
  assumes "conforms ApiKeyListSchema (Some d)"
  shows "conforms ApiKeyListSchema (Some (of_project pid d))"
proof -
  from assms obtain kvs where d: "d = JObj kvs"
    by (cases d) (simp_all add: ApiKeyListSchema_def)
  let ?fs = "[(''apiKeys'', ZArray ApiKeySchema), (''total'', ZNumber), (''limit'', ZOptional ZNumber), (''offset'', ZOptional ZNumber)]"
  let ?ks = "filter (\<lambda>k. \<not> truthy (key_project k) \<or> key_project k = pid) (keys_of (jget d ''apiKeys''))"
  have "conforms (ZObject ?fs) (Some (JObj kvs))" using assms by (simp only: d ApiKeyListSchema_def)
  moreover have ks: "conforms (ZArray ApiKeySchema) (Some (JArr ?ks))"
    using conforms_field [OF assms [unfolded ApiKeyListSchema_def], of "''apiKeys''" "ZArray ApiKeySchema"]
    by (auto simp: list_all_iff split: option.splits json.splits)
  moreover have dist: "distinct (map fst ?fs)" by simp
  moreover have "(''apiKeys'', ZArray ApiKeySchema) \<in> set ?fs" by simp
  ultimately have "conforms (ZObject ?fs) (Some (JObj (put ''apiKeys'' (JArr ?ks) kvs)))"
    by (simp only: put_conforms)
  moreover have "(''total'', ZNumber) \<in> set ?fs" and "conforms ZNumber (Some (JInt (int (length ?ks))))" by simp_all
  ultimately have "conforms (ZObject ?fs) (Some (JObj (put ''total'' (JInt (int (length ?ks))) (put ''apiKeys'' (JArr ?ks) kvs))))"
    using put_conforms [OF _ dist] by blast
  then show ?thesis by (simp only: of_project_def Let_def d entries.simps ApiKeyListSchema_def)
qed

lemma yields_plain_action:
  assumes "\<And>w. service_ok env inc p w out c"
  shows "yields w (plain_action c env inc input) (action_post env inc p out)"
  unfolding plain_action_def
  by (rule yields_procedure, unfold executor_ok_def, rule yields_andThen [OF assms [unfolded service_ok_def]])
    (auto simp: service_post_def intro!: yields_ret yields_throw)

lemma resource_services_ok:
  assumes "sound_parser parse"
  shows "service_ok env inc Backend w (Some ProjectSchema) (pr_get parse env inc pid)"
    "service_ok env inc Backend w (Some ProjectListSchema) (pr_list parse env inc params)"
    "service_ok env inc Backend w (Some ProjectSchema) (pr_create parse env inc dto)"
    "service_ok env inc Backend w (Some ProjectSchema) (pr_update parse env inc pid dto)"
    "service_ok env inc Backend w None (pr_delete parse env inc pid)"
    "service_ok env inc Backend w (Some ProjectConfigSchema) (pc_get parse env inc pid)"
    "service_ok env inc Backend w (Some ProjectConfigSchema) (pc_updateUpload parse env inc pid dto)"
    "service_ok env inc Backend w (Some ProjectConfigSchema) (pc_updateSecurity parse env inc pid dto)"
    "service_ok env inc Backend w (Some ProjectConfigSchema) (pc_updateProcessing parse env inc pid dto)"
    "service_ok env inc Backend w (Some ProjectConfigSchema) (pc_updateCompliance parse env inc pid dto)"
    "service_ok env inc Backend w (Some StorageConfigSchema) (st_get parse env inc pid)"
    "service_ok env inc Backend w (Some StorageConfigSchema) (st_update parse env inc pid dto)"
    "service_ok env inc Backend w (Some StorageVerifyResultSchema) (st_verify parse env inc pid)"
    "service_ok env inc Backend w (Some StorageConfigSchema) (st_updateSse parse env inc pid sse)"
    "service_ok env inc Backend w (Some WebhookListSchema) (wh_list parse env inc pid)"
    "service_ok env inc Backend w (Some WebhookSchema) (wh_create parse env inc dto)"
    "service_ok env inc Backend w (Some WebhookSchema) (wh_update parse env inc dto)"
    "service_ok env inc Backend w None (wh_delete parse env inc pid wid)"
    "service_ok env inc Backend w (Some UsageResponseSchema) (us_get parse env inc)"
    "service_ok env inc Backend w (Some DashboardResponseSchema) (db_get parse env inc)"
    "service_ok env inc Backend w (Some FolderListSchema) (fo_list parse env inc pid)"
    "service_ok env inc Backend w (Some FolderSchema) (fo_create parse env inc params)"
    "service_ok env inc Backend w (Some FolderDeleteResponseSchema) (fo_delete parse env inc pid fid)"
    "service_ok env inc IdentityService w (Some ApiKeyListSchema) (ak_list parse env inc params)"
    "service_ok env inc IdentityService w (Some CreatedApiKeySchema) (ak_create parse env inc dto)"
    "service_ok env inc IdentityService w None (ak_revoke parse env inc params)"
proof -
  have "service_ok env inc IdentityService w (Some ApiKeyListSchema) (ak_list parse env inc params)"
    unfolding ak_list_def
    by (intro service_then service_parse [OF assms] yields_iamApi)
      (auto simp: result_ok_def of_project_conforms split: option.splits)
  then show "service_ok env inc Backend w (Some ProjectSchema) (pr_get parse env inc pid)"
    "service_ok env inc Backend w (Some ProjectListSchema) (pr_list parse env inc params)"
    "service_ok env inc Backend w (Some ProjectSchema) (pr_create parse env inc dto)"
    "service_ok env inc Backend w (Some ProjectSchema) (pr_update parse env inc pid dto)"
    "service_ok env inc Backend w None (pr_delete parse env inc pid)"
    "service_ok env inc Backend w (Some ProjectConfigSchema) (pc_get parse env inc pid)"
    "service_ok env inc Backend w (Some ProjectConfigSchema) (pc_updateUpload parse env inc pid dto)"
    "service_ok env inc Backend w (Some ProjectConfigSchema) (pc_updateSecurity parse env inc pid dto)"
    "service_ok env inc Backend w (Some ProjectConfigSchema) (pc_updateProcessing parse env inc pid dto)"
    "service_ok env inc Backend w (Some ProjectConfigSchema) (pc_updateCompliance parse env inc pid dto)"
    "service_ok env inc Backend w (Some StorageConfigSchema) (st_get parse env inc pid)"
    "service_ok env inc Backend w (Some StorageConfigSchema) (st_update parse env inc pid dto)"
    "service_ok env inc Backend w (Some StorageVerifyResultSchema) (st_verify parse env inc pid)"
    "service_ok env inc Backend w (Some StorageConfigSchema) (st_updateSse parse env inc pid sse)"
    "service_ok env inc Backend w (Some WebhookListSchema) (wh_list parse env inc pid)"
    "service_ok env inc Backend w (Some WebhookSchema) (wh_create parse env inc dto)"
    "service_ok env inc Backend w (Some WebhookSchema) (wh_update parse env inc dto)"
    "service_ok env inc Backend w None (wh_delete parse env inc pid wid)"
    "service_ok env inc Backend w (Some UsageResponseSchema) (us_get parse env inc)"
    "service_ok env inc Backend w (Some DashboardResponseSchema) (db_get parse env inc)"
    "service_ok env inc Backend w (Some FolderListSchema) (fo_list parse env inc pid)"
    "service_ok env inc Backend w (Some FolderSchema) (fo_create parse env inc params)"
    "service_ok env inc Backend w (Some FolderDeleteResponseSchema) (fo_delete parse env inc pid fid)"
    "service_ok env inc IdentityService w (Some ApiKeyListSchema) (ak_list parse env inc params)"
    "service_ok env inc IdentityService w (Some CreatedApiKeySchema) (ak_create parse env inc dto)"
    "service_ok env inc IdentityService w None (ak_revoke parse env inc params)"
    by (simp_all add: resource_service_defs service_parse [OF assms] service_void yields_filenestApi yields_iamApi del: ak_list_def)
qed

lemma resource_actions_contract:
  assumes "sound_parser parse"
  shows "list_all (\<lambda>(action, check, p, out). \<forall>input.
    action_post env inc p out (fst (action input w [])) (snd (action input w []))) (resource_actions parse env inc)"
proof -
  have double: "service_ok env inc p w (Some s) (parsed parse s m)" if "service_ok env inc p w out m" for p w out s m
    using assms that by (intro service_parse service_any)
  note act = yields_file_action [THEN yieldsD] yields_plain_action [THEN yieldsD]
  show ?thesis
    unfolding resource_actions_def list.pred_inject prod.case resource_action_defs resource_controller_defs [abs_def]
      resource_usecase_defs [abs_def]
    by (intro conjI list.pred_inject(1) allI act; (rule service_with_input)?; (rule double)?;
        rule resource_services_ok [OF assms])
qed


definition bare_env :: server_env where
  "bare_env = \<lparr>se_apiUrl = None, se_iamUrl = None, se_publicIamUrl = None, se_appUrl = None\<rparr>"

definition bare_incoming :: incoming where
  "bare_incoming = \<lparr>in_cookie = None, in_accessToken = None\<rparr>"


subsection \<open>API keys of a project\<close>

text \<open>
  A listing of a project's keys counts what is left of the page that the identity service sent, not the
  keys of the project: with a page of other projects' keys the total is 0.
\<close>

lemma key_total_of_page:
  assumes "jget data ''apiKeys'' = Some (JArr ks)" and "list_all (\<lambda>k. truthy (key_project k) \<and> key_project k \<noteq> project) ks"
  shows "jget (of_project project data) ''total'' = Some (JInt 0)"
proof -
  have "filter (\<lambda>k. \<not> truthy (key_project k) \<or> key_project k = project) ks = []"
    using assms(2) by (auto simp: filter_empty_conv list_all_iff)
  then show ?thesis using assms(1) by (simp add: of_project_def)
qed

end
