(* ===== verification/Console_Routes.thy ===== *)
theory Console_Routes
  imports Console_Actions Iam_Access
begin

text \<open>
  The route handlers of the console (\<^verbatim>\<open>frontend/web/src/app/api/\<close>): the server-side upload, the token
  exchange, onboarding (organization and API key), switching the organization, and the upload token. The
  handlers answer with a status, JSON and possibly a \<^verbatim>\<open>set-cookie\<close> header; an uncaught error is a throw. Their
  requests are the events \<open>CFetch\<close>.
\<close>

datatype api_reply = ApiReply nat json "string option"

type_synonym route = "(c_exn, api_reply) c_io"

definition answer :: "nat \<Rightarrow> json \<Rightarrow> route" where
  "answer st j = ret (ApiReply st j None)"

definition refuse :: "nat \<Rightarrow> string \<Rightarrow> route" where
  "refuse st m = answer st (err_json m)"

text \<open>The environment of the handlers, and reading a property, which throws for null and undefined.\<close>

record route_env =
  re_server :: server_env
  re_clientId :: "string option"
  re_clientSecret :: "string option"
  re_internalSecret :: "string option"

definition prop_of :: "json option \<Rightarrow> string \<Rightarrow> (c_exn, json option) c_io" where
  "prop_of v k = (case v of
     None \<Rightarrow> throw (OtherError ''Cannot read properties of undefined'')
   | Some JNull \<Rightarrow> throw (OtherError ''Cannot read properties of null'')
   | Some j \<Rightarrow> ret (jget j k))"

text \<open>\<^verbatim>\<open>await request.json()\<close>: None is a body that is not JSON.\<close>

definition request_json :: "json option \<Rightarrow> (c_exn, json) c_io" where
  "request_json b = (case b of None \<Rightarrow> throw (OtherError ''Unexpected token in JSON'') | Some j \<Rightarrow> ret j)"

text \<open>\<^verbatim>\<open>await res.json().catch(() => ({}))\<close>.\<close>

definition json_or_empty :: "response \<Rightarrow> json" where
  "json_or_empty res = (case rs_json res of None \<Rightarrow> JObj [] | Some j \<Rightarrow> j)"

subsection \<open>POST /api/upload\<close>

text \<open>The entries of the form: a text or a file with its name, type and bytes.\<close>

datatype form_entry = FText string | FFile string string "byte list"

definition form_truthy :: "form_entry option \<Rightarrow> bool" where
  "form_truthy v = (case v of None \<Rightarrow> False | Some (FText s) \<Rightarrow> s \<noteq> [] | Some (FFile n t bs) \<Rightarrow> True)"

definition form_text :: "form_entry \<Rightarrow> string" where
  "form_text v = (case v of FText s \<Rightarrow> s | FFile n t bs \<Rightarrow> ''[object File]'')"

text \<open>\<^verbatim>\<open>folderId || null\<close>; a file has no entries of its own in JSON.\<close>

definition folder_value :: "form_entry option \<Rightarrow> json" where
  "folder_value v = (case v of Some (FText (c # s)) \<Rightarrow> JStr (c # s) | Some (FFile n t bs) \<Rightarrow> JObj [] | _ \<Rightarrow> JNull)"

text \<open>\<^verbatim>\<open>JSON.parse((formData.get(k) as string | null) ?? d)\<close>.\<close>

definition form_json :: "(string \<Rightarrow> json option) \<Rightarrow> form_entry option \<Rightarrow> string \<Rightarrow> json option" where
  "form_json parse_json v d = parse_json (case v of None \<Rightarrow> d | Some f \<Rightarrow> form_text f)"

text \<open>\<^verbatim>\<open>file.type || "application/octet-stream"\<close>.\<close>

definition entry_type :: "form_entry \<Rightarrow> string" where
  "entry_type v = (case v of FFile n (c # t) bs \<Rightarrow> c # t | _ \<Rightarrow> ''application/octet-stream'')"

definition upload_init_body :: "form_entry \<Rightarrow> json \<Rightarrow> json \<Rightarrow> json \<Rightarrow> (string \<times> json option) list" where
  "upload_init_body file folder tags metadata =
     [(''filename'', case file of FFile n t bs \<Rightarrow> Some (JStr n) | FText s \<Rightarrow> None),
      (''content_type'', Some (JStr (entry_type file))),
      (''size_bytes'', case file of FFile n t bs \<Rightarrow> Some (JInt (int (length bs))) | FText s \<Rightarrow> None),
      (''folder_id'', Some folder), (''tags'', Some tags), (''metadata'', Some metadata)]"

definition init_request :: "server_env \<Rightarrow> string \<Rightarrow> string \<Rightarrow> (string \<times> json option) list \<Rightarrow> request" where
  "init_request env token pid kvs = backend_request env token (files_path pid @ ''/upload'') (send_json ''POST'' kvs)"

definition proxy_put :: "string \<Rightarrow> string \<Rightarrow> byte list \<Rightarrow> request" where
  "proxy_put u ct bs = \<lparr>rq_method = ''PUT'', rq_url = u, rq_query = [], rq_headers = [(''Content-Type'', ct)], rq_body = BytesBody bs\<rparr>"

definition confirm_request :: "server_env \<Rightarrow> string \<Rightarrow> string \<Rightarrow> json option \<Rightarrow> request" where
  "confirm_request env token pid fid = backend_request env token
     (files_path pid @ ''/'' @ interp fid @ ''/confirm'') \<lparr>op_method = ''POST'', op_query = [], op_body = NoBody\<rparr>"

text \<open>The answer to a step that failed: the message of the body, with the status of the response.\<close>

definition step_failed :: "response \<Rightarrow> string \<Rightarrow> route" where
  "step_failed res m = andThen (prop_of (Some (json_or_empty res)) ''message'') (\<lambda>msg.
     answer (rs_status res) (JObj [(''error'', nullish_or msg (JStr m))]))"

text \<open>The three steps: the presigned URL, the bytes, the confirmation.\<close>

definition confirm_step :: "server_env \<Rightarrow> string \<Rightarrow> string \<Rightarrow> json option \<Rightarrow> route" where
  "confirm_step env token pid fid = andThen (c_fetch (confirm_request env token pid fid)) (\<lambda>res.
     if \<not> rs_ok res then step_failed res ''Failed to confirm upload''
     else andThen (c_json res) (\<lambda>j. andThen (prop_of (Some j) ''id'') (\<lambda>i. andThen (prop_of (Some j) ''status'') (\<lambda>s.
       answer 200 (jobj [(''file_id'', i), (''status'', s)])))))"

definition put_step :: "server_env \<Rightarrow> string \<Rightarrow> string \<Rightarrow> form_entry \<Rightarrow> json option \<Rightarrow> json option \<Rightarrow> route" where
  "put_step env token pid file fid u = (case file of
     FText s \<Rightarrow> throw (OtherError ''file.arrayBuffer is not a function'')
   | FFile n t bs \<Rightarrow> andThen (c_fetch (proxy_put (interp u) (entry_type file) bs)) (\<lambda>res.
       if \<not> rs_ok res then refuse 502 (''Storage PUT failed: '' @ show_nat (rs_status res))
       else confirm_step env token pid fid))"

definition init_step :: "server_env \<Rightarrow> string \<Rightarrow> string \<Rightarrow> form_entry \<Rightarrow> (string \<times> json option) list \<Rightarrow> route" where
  "init_step env token pid file kvs = andThen (c_fetch (init_request env token pid kvs)) (\<lambda>res.
     if \<not> rs_ok res then step_failed res ''Failed to initiate upload''
     else andThen (c_json res) (\<lambda>j. andThen (prop_of (Some j) ''file_id'') (\<lambda>fid. andThen (prop_of (Some j) ''upload_url'') (\<lambda>u.
       put_step env token pid file fid u))))"

text \<open>\<open>form\<close> is the parsed form, None when parsing throws.\<close>

definition upload_route ::
    "(string \<Rightarrow> json option) \<Rightarrow> server_env \<Rightarrow> incoming \<Rightarrow> (string \<Rightarrow> form_entry option) option \<Rightarrow> route" where
  "upload_route parse_json env inc form = andThen (getServerSession env inc) (\<lambda>session.
     if \<not> truthy (Some session) then refuse 401 ''Unauthorized''
     else case form of
       None \<Rightarrow> refuse 400 ''Invalid form data''
     | Some f \<Rightarrow>
        if \<not> form_truthy (f ''file'') \<or> \<not> form_truthy (f ''projectId'') then refuse 400 ''file and projectId are required''
        else case (form_json parse_json (f ''tags'') ''[]'', form_json parse_json (f ''metadata'') ''{}'') of
          (Some tags, Some metadata) \<Rightarrow> andThen (getAuthToken env inc) (\<lambda>token.
             init_step env token (form_text (the (f ''projectId''))) (the (f ''file''))
               (upload_init_body (the (f ''file'')) (folder_value (f ''folderId'')) tags metadata))
        | _ \<Rightarrow> refuse 400 ''Invalid tags or metadata JSON'')"

subsection \<open>POST /api/auth/token\<close>

text \<open>
  \<^verbatim>\<open>URLSearchParams.toString()\<close>: letters, digits and four marks stay, a space becomes a plus, every other byte of
  the UTF-8 text a percent escape.
\<close>

definition hex_upper :: "nat \<Rightarrow> char" where
  "hex_upper n = (char_of (if n < 10 then 48 + n else 55 + n) :: char)"

definition form_stays :: "char \<Rightarrow> bool" where
  "form_stays c = (let n = of_char c :: nat in
     97 \<le> n \<and> n \<le> 122 \<or> 65 \<le> n \<and> n \<le> 90 \<or> 48 \<le> n \<and> n \<le> 57 \<or> c \<in> {CHR ''*'', CHR ''-'', CHR ''.'', CHR ''_''})"

definition form_char :: "char \<Rightarrow> string" where
  "form_char c = (if form_stays c then [c] else if c = CHR '' '' then ''+''
     else let n = of_char c :: nat in [CHR ''%'', hex_upper (n div 16), hex_upper (n mod 16)])"

definition form_encode :: "string \<Rightarrow> string" where
  "form_encode s = concat (map form_char s)"

definition form_body :: "(string \<times> string) list \<Rightarrow> body" where
  "form_body kvs = BytesBody (map of_char (join_with ''&'' (map (\<lambda>(k, v). form_encode k @ ''='' @ form_encode v) kvs)))"

definition exchange_request :: "server_env \<Rightarrow> string \<Rightarrow> string \<Rightarrow> json \<Rightarrow> json \<Rightarrow> json \<Rightarrow> request" where
  "exchange_request env clientId clientSecret grant verifier uri =
     \<lparr>rq_method = ''POST'', rq_url = env_text (se_iamUrl env) @ ''/api/auth/oauth2/token'', rq_query = [],
      rq_headers = [(''Content-Type'', ''application/x-www-form-urlencoded''), (''Accept'', ''application/json'')],
      rq_body = form_body [(''grant_type'', ''authorization_code''), (''client_id'', clientId),
        (''client_secret'', clientSecret), (''code'', js_string grant), (''code_verifier'', js_string verifier),
        (''redirect_uri'', js_string uri)]\<rparr>"

text \<open>
  What \<^verbatim>\<open>axios.post\<close> throws: the response unless it is 2xx, or nothing for a failed request. The data of a
  response is its JSON, or its text (\<open>raw\<close>) when it is not JSON.
\<close>

definition axios_data :: "(response \<Rightarrow> string) \<Rightarrow> response \<Rightarrow> json" where
  "axios_data raw res = (case rs_json res of None \<Rightarrow> JStr (raw res) | Some j \<Rightarrow> j)"

definition axios_post :: "request \<Rightarrow> (c_event, reply, response option, response) io" where
  "axios_post r = andThen (ask (CFetch r)) (\<lambda>rep. case rep of
     Responded res \<Rightarrow> if rs_ok res then ret res else throw (Some res)
   | _ \<Rightarrow> throw None)"

text \<open>\<^verbatim>\<open>session?.session.activeRoleRedirectUrl ?? "/dashboard"\<close>.\<close>

definition role_redirect :: "json \<Rightarrow> (c_exn, json) c_io" where
  "role_redirect session = (if session = JNull then ret (JStr ''/dashboard'')
     else andThen (prop_of (jget session ''session'') ''activeRoleRedirectUrl'') (\<lambda>v. ret (nullish_or v (JStr ''/dashboard''))))"

definition exchange_failed :: "json \<Rightarrow> nat \<Rightarrow> route" where
  "exchange_failed data st = andThen (prop_of (Some data) ''error_description'') (\<lambda>d.
     answer st (JObj [(''error'', nullish_or d (nullish_or (jget data ''error'') (JStr ''Token exchange failed'')))]))"

definition token_route :: "(response \<Rightarrow> string) \<Rightarrow> route_env \<Rightarrow> incoming \<Rightarrow> json option \<Rightarrow> route" where
  "token_route raw env inc b = andThen (request_json b) (\<lambda>j. andThen (prop_of (Some j) ''code'') (\<lambda>grant.
     let verifier = jget j ''code_verifier''; uri = jget j ''redirect_uri'';
         clientId = or_empty (re_clientId env); clientSecret = or_empty (re_clientSecret env)
     in if clientId = [] \<or> clientSecret = [] then refuse 500 ''OAuth credentials not configured''
        else if \<not> truthy grant \<or> \<not> truthy verifier \<or> \<not> truthy uri
        then refuse 400 ''Missing required parameters: code, code_verifier, redirect_uri''
        else handling (axios_post (exchange_request (re_server env) clientId clientSecret (the grant) (the verifier) (the uri)))
          (\<lambda>e. case e of
             Some res \<Rightarrow> exchange_failed (axios_data raw res) (rs_status res)
           | None \<Rightarrow> refuse 500 ''Token exchange failed'')
          (\<lambda>res. handling (andThen (getServerSession (re_server env) inc) role_redirect)
             (\<lambda>e. refuse 500 ''Token exchange failed'')
             (\<lambda>u. answer 200 (spread (axios_data raw res) [(''redirectUrl'', u)])))))"

subsection \<open>Organizations: onboarding and switching\<close>

text \<open>\<^verbatim>\<open>process.env.BETTER_AUTH_URL ?? "http://localhost:5000"\<close>, and \<^verbatim>\<open>v?.trim()\<close>.\<close>

definition iam_url :: "server_env \<Rightarrow> string" where
  "iam_url env = (case se_iamUrl env of None \<Rightarrow> ''http://localhost:5000'' | Some u \<Rightarrow> u)"

definition trimmed :: "json option \<Rightarrow> (c_exn, string) c_io" where
  "trimmed v = (case v of
     None \<Rightarrow> ret []
   | Some JNull \<Rightarrow> ret []
   | Some (JStr s) \<Rightarrow> ret (trim s)
   | Some j \<Rightarrow> throw (OtherError ''trim is not a function''))"

definition internal_secret :: "route_env \<Rightarrow> (string \<times> string) list" where
  "internal_secret env = (if or_empty (re_internalSecret env) \<noteq> []
     then [(''x-internal-secret'', or_empty (re_internalSecret env))] else [])"

definition iam_post :: "server_env \<Rightarrow> incoming \<Rightarrow> string \<Rightarrow> json \<Rightarrow> request" where
  "iam_post env inc path b = \<lparr>rq_method = ''POST'', rq_url = iam_url env @ path, rq_query = [],
     rq_headers = iam_headers env inc, rq_body = JsonBody b\<rparr>"

definition activate_request :: "route_env \<Rightarrow> (string \<times> string) list \<Rightarrow> json option \<Rightarrow> request" where
  "activate_request env hs org = \<lparr>rq_method = ''PATCH'',
     rq_url = iam_url (re_server env) @ ''/api/internal/user-context/active-organization'', rq_query = [],
     rq_headers = hs @ internal_secret env, rq_body = JsonBody (jobj [(''orgId'', org)])\<rparr>"

text \<open>The message or the error of a body, and the cookies of a response.\<close>

definition iam_failed :: "json \<Rightarrow> nat \<Rightarrow> string \<Rightarrow> route" where
  "iam_failed b st m = andThen (prop_of (Some b) ''message'') (\<lambda>msg.
     answer st (JObj [(''error'', nullish_or msg (nullish_or (jget b ''error'') (JStr m)))]))"

definition set_cookie :: "response \<Rightarrow> string option" where
  "set_cookie res = (case map_of (rs_headers res) ''set-cookie'' of Some (c # s) \<Rightarrow> Some (c # s) | _ \<Rightarrow> None)"

definition activate_step :: "route_env \<Rightarrow> incoming \<Rightarrow> json option \<Rightarrow> route" where
  "activate_step env inc org = andThen (c_fetch (activate_request env (iam_headers (re_server env) inc) org)) (\<lambda>res.
     if \<not> rs_ok res then iam_failed (json_or_empty res) (rs_status res) ''Organisation created but failed to activate it.''
     else ret (ApiReply 200 (jobj [(''orgId'', org)]) (set_cookie res)))"

definition onboard_org :: "route_env \<Rightarrow> incoming \<Rightarrow> json option \<Rightarrow> route" where
  "onboard_org env inc b = andThen (request_json b) (\<lambda>j. andThen (prop_of (Some j) ''name'') (\<lambda>n.
     andThen (trimmed n) (\<lambda>name. if name = [] then refuse 400 ''name and slug are required.''
     else andThen (trimmed (jget j ''slug'')) (\<lambda>slug. if slug = [] then refuse 400 ''name and slug are required.''
     else andThen (c_fetch (iam_post (re_server env) inc ''/api/auth/organization/create''
            (JObj [(''name'', JStr name), (''slug'', JStr slug)]))) (\<lambda>res.
          andThen (c_json res) (\<lambda>data.
          if \<not> rs_ok res then iam_failed data (rs_status res) ''Failed to create organisation.''
          else andThen (prop_of (Some data) ''id'') (activate_step env inc)))))))"

definition switch_headers :: "incoming \<Rightarrow> (string \<times> string) list" where
  "switch_headers inc = [(''Content-Type'', ''application/json'')] @
     (if or_empty (in_cookie inc) \<noteq> [] then [(''cookie'', or_empty (in_cookie inc))] else []) @
     (if or_empty (in_accessToken inc) \<noteq> [] then [(''Authorization'', ''Bearer '' @ or_empty (in_accessToken inc))] else [])"

definition switch_org :: "route_env \<Rightarrow> incoming \<Rightarrow> json option \<Rightarrow> route" where
  "switch_org env inc b = andThen (request_json b) (\<lambda>j. andThen (prop_of (Some j) ''orgId'') (\<lambda>org.
     if \<not> truthy org then refuse 400 ''orgId required''
     else andThen (c_fetch (activate_request env (switch_headers inc) org)) (\<lambda>res.
       if \<not> rs_ok res then answer (rs_status res) (json_or_empty res)
       else ret (ApiReply 200 (json_or_empty res) (set_cookie res)))))"

subsection \<open>POST /api/onboarding/api-key and /api/filenest-token\<close>

definition DEFAULT_SCOPES :: "string list" where
  "DEFAULT_SCOPES = [''files:upload'', ''files:download'', ''files:read'', ''files:delete'', ''files:metadata'',
     ''folders:read'', ''folders:write'', ''upload_tokens:create'', ''webhooks:read'', ''webhooks:write'',
     ''projects:read'', ''projects:update'', ''audit:read'']"

text \<open>\<^verbatim>\<open>projectId || null\<close>.\<close>

definition or_null_value :: "json option \<Rightarrow> json" where
  "or_null_value v = (if truthy v then the v else JNull)"

definition key_request_body :: "json \<Rightarrow> json option \<Rightarrow> json" where
  "key_request_body org project = JObj [(''name'', JStr ''default''), (''organizationId'', org),
     (''metadata'', JObj [(''organizationId'', org), (''projectId'', or_null_value project),
        (''scopes'', JArr (map JStr DEFAULT_SCOPES))])]"

definition onboard_api_key :: "route_env \<Rightarrow> incoming \<Rightarrow> json option \<Rightarrow> route" where
  "onboard_api_key env inc b = andThen (request_json b) (\<lambda>j. andThen (prop_of (Some j) ''orgId'') (\<lambda>org.
     andThen (trimmed org) (\<lambda>o'. if o' = [] then refuse 400 ''orgId is required.''
     else andThen (c_fetch (iam_post (re_server env) inc ''/api/auth/api-key/create''
            (key_request_body (the org) (jget j ''projectId'')))) (\<lambda>res.
          andThen (c_json res) (\<lambda>data.
          if \<not> rs_ok res then andThen (prop_of (Some data) ''message'') (\<lambda>msg.
            answer (rs_status res) (JObj [(''error'', nullish_or msg (JStr ''Failed to generate API key.''))]))
          else andThen (prop_of (Some data) ''key'') (\<lambda>k. answer 200 (jobj [(''key'', k)])))))))"

text \<open>The stub reads the fields of the body, which throws for null.\<close>

definition token_stub :: "server_env \<Rightarrow> incoming \<Rightarrow> json option \<Rightarrow> route" where
  "token_stub env inc b = andThen (getServerSession env inc) (\<lambda>session.
     if \<not> truthy (Some session) then refuse 401 ''Unauthorized''
     else andThen (prop_of (Some (case b of None \<Rightarrow> JObj [] | Some j \<Rightarrow> j)) ''folderId'') (\<lambda>_.
       refuse 501 (''Upload tokens not yet implemented '' @ [CHR 0xE2, CHR 0x80, CHR 0x94] @ '' Phase 5 deliverable'')))"

subsection \<open>The upload\<close>

text \<open>The world answered the last of the given events with a response of the 2xx range.\<close>

definition went_well :: "(c_event, reply) world \<Rightarrow> c_event list \<Rightarrow> bool" where
  "went_well w es = (case w es of Responded res \<Rightarrow> rs_ok res | _ \<Rightarrow> False)"

definition answers_ok :: "c_exn + api_reply \<Rightarrow> bool" where
  "answers_ok r = (case r of Inr (ApiReply st j c) \<Rightarrow> 200 \<le> st \<and> st < 300 | Inl e \<Rightarrow> False)"

lemma answers_ok_simps: "\<not> answers_ok (Inl e)" "answers_ok (Inr (ApiReply st j c)) = (200 \<le> st \<and> st < 300)"
  by (simp_all add: answers_ok_def)

lemma refuse_run: "refuse st m w h = (Inr (ApiReply st (err_json m) None), h)"
  by (simp add: refuse_def answer_def io_simps)

lemma status_not_ok: "\<not> rs_ok res \<Longrightarrow> \<not> (200 \<le> rs_status res \<and> rs_status res < 300)"
  by (auto simp: rs_ok_def)

lemma step_failed_run: "\<not> rs_ok res \<Longrightarrow> \<exists>r. step_failed res m w h = (r, h) \<and> \<not> answers_ok r"
  by (auto simp: step_failed_def prop_of_def answer_def io_simps answers_ok_simps dest: status_not_ok split: option.splits json.splits)

lemma c_fetch_run: "c_fetch r w h = (case w (h @ [CFetch r]) of
     Responded res \<Rightarrow> Inr res | Aborted \<Rightarrow> Inl (OtherError ''This operation was aborted'') | NetFailed m \<Rightarrow> Inl (OtherError m),
     h @ [CFetch r])"
  by (simp add: c_fetch_def io_simps split: reply.split)

text \<open>What a step sends after the history \<open>h\<close>, and when it ends in success.\<close>

lemma confirm_run:
  "\<exists>r. confirm_step env t pid fid w h = (r, h @ [CFetch (confirm_request env t pid fid)]) \<and>
     (answers_ok r \<longrightarrow> went_well w (h @ [CFetch (confirm_request env t pid fid)]))"
proof (cases "w (h @ [CFetch (confirm_request env t pid fid)])")
  case (Responded res)
  then show ?thesis
    using step_failed_run [of res "''Failed to confirm upload''" w "h @ [CFetch (confirm_request env t pid fid)]"]
    by (auto simp: confirm_step_def c_fetch_run went_well_def c_json_def prop_of_def answer_def io_simps answers_ok_simps
        split: option.splits json.splits)
qed (auto simp: confirm_step_def c_fetch_run io_simps answers_ok_simps)

definition file_bytes :: "form_entry \<Rightarrow> byte list" where
  "file_bytes v = (case v of FFile n t bs \<Rightarrow> bs | FText s \<Rightarrow> [])"

abbreviation put_event :: "form_entry \<Rightarrow> json option \<Rightarrow> c_event" where
  "put_event file u \<equiv> CFetch (proxy_put (interp u) (entry_type file) (file_bytes file))"

abbreviation confirm_event :: "server_env \<Rightarrow> string \<Rightarrow> string \<Rightarrow> json option \<Rightarrow> c_event" where
  "confirm_event env t pid fid \<equiv> CFetch (confirm_request env t pid fid)"

text \<open>
  A run from the history \<open>h\<close> that sends a prefix of \<open>plan\<close>: one more request only after the last one went
  well, and success only after all of them did.
\<close>

definition follows ::
    "(c_event, reply) world \<Rightarrow> c_event list \<Rightarrow> c_event list \<Rightarrow> (c_exn + api_reply) \<times> c_event list \<Rightarrow> bool" where
  "follows w h plan out = (\<exists>n r. out = (r, h @ take n plan) \<and> n \<le> length plan \<and>
     (\<forall>k<n. 0 < k \<longrightarrow> went_well w (h @ take k plan)) \<and>
     (answers_ok r \<longrightarrow> n = length plan \<and> went_well w (h @ plan)))"

lemma follows_stop: "\<not> answers_ok r \<Longrightarrow> follows w h plan (r, h)"
  unfolding follows_def by (rule exI [of _ 0]) auto

lemma follows_fail: "\<not> answers_ok r \<Longrightarrow> follows w h (e # plan) (r, h @ [e])"
  unfolding follows_def by (rule exI [of _ 1]) auto

lemma follows_next:
  assumes "went_well w (h @ [e])" and "follows w (h @ [e]) plan out" and "plan \<noteq> []"
  shows "follows w h (e # plan) out"
proof -
  obtain n r where n: "out = (r, (h @ [e]) @ take n plan)" "n \<le> length plan"
      "\<And>k. k < n \<Longrightarrow> 0 < k \<Longrightarrow> went_well w ((h @ [e]) @ take k plan)"
      "answers_ok r \<longrightarrow> n = length plan \<and> went_well w ((h @ [e]) @ plan)"
    using assms(2) unfolding follows_def by blast
  have "went_well w (h @ take k (e # plan))" if "k < Suc n" "0 < k" for k
    using that n(3) [of "k - 1"] assms(1) by (cases k; cases "k - 1") auto
  then show ?thesis
    unfolding follows_def by (intro exI [of _ "Suc n"] exI [of _ r]) (use n in auto)
qed

lemma put_run:
  "follows w h [put_event file u, confirm_event env t pid fid] (put_step env t pid file fid u w h)"
proof (cases "file")
  case (FText s)
  then show ?thesis by (simp add: put_step_def io_simps follows_stop answers_ok_simps)
next
  case (FFile n ty bs)
  let ?h = "h @ [put_event file u]"
  obtain r where r: "confirm_step env t pid fid w ?h = (r, ?h @ [confirm_event env t pid fid])"
      "answers_ok r \<longrightarrow> went_well w (?h @ [confirm_event env t pid fid])"
    using confirm_run [of env t pid fid w ?h] by blast
  have last: "follows w ?h [confirm_event env t pid fid] (confirm_step env t pid fid w ?h)"
    unfolding follows_def r(1) by (rule exI [of _ 1]) (use r(2) in auto)
  show ?thesis
  proof (cases "w ?h")
    case (Responded res)
    then show ?thesis
      using FFile last follows_next [OF _ last] follows_fail
      by (auto simp: put_step_def c_fetch_run io_simps refuse_def answer_def answers_ok_simps file_bytes_def went_well_def)
  qed (use FFile in \<open>auto simp: put_step_def c_fetch_run io_simps file_bytes_def intro!: follows_fail simp: answers_ok_simps\<close>)
qed

text \<open>A field of the JSON with which the last event was answered.\<close>

definition answered :: "(c_event, reply) world \<Rightarrow> c_event list \<Rightarrow> string \<Rightarrow> json option" where
  "answered w es k = (case w es of Responded res \<Rightarrow> Option.bind (rs_json res) (\<lambda>j. jget j k) | _ \<Rightarrow> None)"

lemma init_run:
  fixes kvs env t pid
  defines "e \<equiv> CFetch (init_request env t pid kvs)"
  shows "follows w h [e, put_event file (answered w (h @ [e]) ''upload_url''),
       confirm_event env t pid (answered w (h @ [e]) ''file_id'')] (init_step env t pid file kvs w h)"
proof (cases "w (h @ [e])")
  case (Responded res)
  show ?thesis
  proof (cases "rs_ok res")
    case True
    show ?thesis
    proof (cases "\<exists>j. rs_json res = Some j \<and> j \<noteq> JNull")
      case True
      then obtain j where j: "rs_json res = Some j" "j \<noteq> JNull" by blast
      then have "init_step env t pid file kvs w h =
          put_step env t pid file (answered w (h @ [e]) ''file_id'') (answered w (h @ [e]) ''upload_url'') w (h @ [e])"
        using Responded \<open>rs_ok res\<close>
        by (cases j) (simp_all add: init_step_def c_fetch_run e_def c_json_def prop_of_def io_simps answered_def)
      then show ?thesis
        using Responded \<open>rs_ok res\<close> by (auto intro!: follows_next put_run simp: went_well_def)
    next
      case False
      then show ?thesis
        using Responded \<open>rs_ok res\<close>
        by (auto simp: init_step_def c_fetch_run e_def c_json_def prop_of_def io_simps answers_ok_simps
            intro!: follows_fail split: option.split)
    qed
  next
    case False
    then show ?thesis
      using Responded step_failed_run [OF False, of "''Failed to initiate upload''" w "h @ [e]"]
      by (auto simp: init_step_def c_fetch_run e_def io_simps intro!: follows_fail)
  qed
qed (auto simp: init_step_def c_fetch_run e_def io_simps answers_ok_simps intro!: follows_fail)

text \<open>The caller has a session: the identity service says so.\<close>

definition has_session :: "server_env \<Rightarrow> incoming \<Rightarrow> (c_event, reply) world \<Rightarrow> bool" where
  "has_session env inc w = (case w [CFetch (session_request env inc)] of
     Responded res \<Rightarrow> rs_ok res \<and> truthy (rs_json res) | _ \<Rightarrow> False)"

lemma session_run:
  "\<exists>r. getServerSession env inc w [] = (r, [CFetch (session_request env inc)]) \<and>
     ((\<exists>s. r = Inr s \<and> truthy (Some s)) \<longleftrightarrow> has_session env inc w)"
  by (auto simp: getServerSession_def handling_def c_fetch_run c_json_def has_session_def io_simps split: reply.splits option.splits)

lemma has_session_well: "has_session env inc w \<Longrightarrow> went_well w [CFetch (session_request env inc)]"
  by (auto simp: has_session_def went_well_def split: reply.splits)

lemma token_run:
  "\<exists>r. getAuthToken env inc w h = (r, h @ [CFetch (token_fetch env inc)]) \<and>
     (\<forall>s. r = Inr s \<longrightarrow> went_well w (h @ [CFetch (token_fetch env inc)]))"
  by (auto simp: getAuthToken_def c_fetch_run c_json_def went_well_def Let_def io_simps split: reply.split option.split)

text \<open>The requests of an upload, in order.\<close>

definition upload_plan ::
    "(c_event, reply) world \<Rightarrow> server_env \<Rightarrow> incoming \<Rightarrow> string \<Rightarrow> (string \<times> json option) list \<Rightarrow>
     (string \<Rightarrow> form_entry option) \<Rightarrow> c_event list" where
  "upload_plan w env inc token kvs f =
     (let pid = form_text (the (f ''projectId''));
          h = [CFetch (session_request env inc), CFetch (token_fetch env inc), CFetch (init_request env token pid kvs)]
      in h @ [put_event (the (f ''file'')) (answered w h ''upload_url''),
              confirm_event env token pid (answered w h ''file_id'')])"

lemma upload_follows:
  "(has_session env inc w \<or>
      snd (upload_route parse_json env inc (Some f) w []) = [CFetch (session_request env inc)]) \<and>
   (\<exists>token kvs. follows w [] (upload_plan w env inc token kvs f) (upload_route parse_json env inc (Some f) w []))"
proof -
  let ?S = "CFetch (session_request env inc)" and ?T = "CFetch (token_fetch env inc)"
  obtain r where r: "getServerSession env inc w [] = (r, [?S])"
      "(\<exists>s. r = Inr s \<and> truthy (Some s)) \<longleftrightarrow> has_session env inc w"
    using session_run [of env inc w] by blast
  show ?thesis
  proof (cases "has_session env inc w")
    case False
    then obtain q where "upload_route parse_json env inc (Some f) w [] = (q, [?S])" "\<not> answers_ok q"
      using r by (cases r) (auto simp: upload_route_def io_simps refuse_def answer_def answers_ok_simps)
    then show ?thesis by (auto simp: upload_plan_def Let_def intro!: follows_fail [where h = "[]", simplified])
  next
    case True
    then obtain s where s: "r = Inr s" "truthy (Some s)" using r(2) by blast
    show ?thesis
    proof (cases "form_truthy (f ''file'') \<and> form_truthy (f ''projectId'') \<and>
        (\<exists>tags metadata. form_json parse_json (f ''tags'') ''[]'' = Some tags \<and>
           form_json parse_json (f ''metadata'') ''{}'' = Some metadata)")
      case False
      then obtain q where "upload_route parse_json env inc (Some f) w [] = (q, [?S])" "\<not> answers_ok q"
        using r s by (cases "form_truthy (f ''file'') \<and> form_truthy (f ''projectId'')";
            cases "form_json parse_json (f ''tags'') ''[]''") (auto simp: upload_route_def refuse_run answers_ok_simps andThen_apply split: option.splits)
      then show ?thesis using True by (auto simp: upload_plan_def Let_def intro!: follows_fail [where h = "[]", simplified])
    next
      case good: True
      then obtain tags metadata where j: "form_json parse_json (f ''tags'') ''[]'' = Some tags"
          "form_json parse_json (f ''metadata'') ''{}'' = Some metadata" by blast
      obtain tr where tr: "getAuthToken env inc w [?S] = (tr, [?S, ?T])" "\<forall>s. tr = Inr s \<longrightarrow> went_well w [?S, ?T]"
        using token_run [of env inc w "[?S]"] by auto
      let ?kvs = "upload_init_body (the (f ''file'')) (folder_value (f ''folderId'')) tags metadata"
      have "follows w [?S] (tl (upload_plan w env inc (case tr of Inr t \<Rightarrow> t | Inl e \<Rightarrow> []) ?kvs f))
          (upload_route parse_json env inc (Some f) w [])"
      proof (cases tr)
        case (Inl e)
        then show ?thesis using good j r(1) s tr(1) follows_fail [where h = "[?S]" and e = ?T]
          by (auto simp: upload_route_def io_simps upload_plan_def Let_def answers_ok_simps)
      next
        case (Inr t)
        then show ?thesis using good j r(1) s tr follows_next [of w "[?S]" ?T] init_run [of w "[?S, ?T]" env t]
          by (auto simp: upload_route_def io_simps upload_plan_def Let_def)
      qed
      then have "follows w [] (upload_plan w env inc (case tr of Inr t \<Rightarrow> t | Inl e \<Rightarrow> []) ?kvs f)
          (upload_route parse_json env inc (Some f) w [])"
        using follows_next [of w "[]" ?S] has_session_well [OF True] by (simp add: upload_plan_def Let_def)
      then show ?thesis using True by blast
    qed
  qed
qed

text \<open>
  The server-side upload. Without a session nothing but the session is asked for. Otherwise the
  handler sends a prefix of: the session, the token, the presigned URL, the file's bytes with a PUT to
  exactly that URL, and the confirmation of exactly the file that the backend named; each request only
  after the one before was answered well, so nothing is confirmed that storage has not accepted; and it
  answers with success (2xx) only when all five went well.
\<close>

lemma upload_proxy_stages:
  "(has_session env inc w \<or>
      snd (upload_route parse_json env inc (Some f) w []) = [CFetch (session_request env inc)]) \<and>
   (\<exists>token kvs. follows w [] (upload_plan w env inc token kvs f) (upload_route parse_json env inc (Some f) w []))"
  by (rule upload_follows)

subsection \<open>Switching the organization, console and identity service together\<close>

text \<open>
  The identity service's handler as the world of the console's: the session is the one of the \<^verbatim>\<open>cookie\<close>
  header, the token that of the \<^verbatim>\<open>Authorization\<close> header; an uncaught error is a response with status 500.
\<close>

definition caller_of :: "(string option \<Rightarrow> string option) \<Rightarrow> (string \<Rightarrow> jwt_result) \<Rightarrow> (string \<times> string) list \<Rightarrow> caller" where
  "caller_of sessions jwt hs = \<lparr>ca_session = sessions (map_of hs ''cookie''), ca_header = map_of hs ''Authorization'', ca_jwt = jwt\<rparr>"

definition body_json :: "body \<Rightarrow> json option" where
  "body_json b = (case b of JsonBody j \<Rightarrow> Some j | _ \<Rightarrow> None)"

definition served :: "route_result \<Rightarrow> response" where
  "served r = (case r of
     Reply st j \<Rightarrow> \<lparr>rs_status = st, rs_statusText = [], rs_headers = [], rs_json = Some j\<rparr>
   | Crash \<Rightarrow> \<lparr>rs_status = 500, rs_statusText = [], rs_headers = [], rs_json = None\<rparr>)"

definition iam_handler ::
    "(string option \<Rightarrow> string option) \<Rightarrow> (string \<Rightarrow> jwt_result) \<Rightarrow> (string \<Rightarrow> string \<Rightarrow> bool) \<Rightarrow> request \<Rightarrow>
     route_result \<times> (string \<times> string) option" where
  "iam_handler sessions jwt isMember r =
     patch_active_organization isMember (caller_of sessions jwt (rq_headers r)) (body_json (rq_body r))"

definition iam_world ::
    "(string option \<Rightarrow> string option) \<Rightarrow> (string \<Rightarrow> jwt_result) \<Rightarrow> (string \<Rightarrow> string \<Rightarrow> bool) \<Rightarrow> (c_event, reply) world" where
  "iam_world sessions jwt isMember h = (case last h of
     CFetch r \<Rightarrow> Responded (served (fst (iam_handler sessions jwt isMember r))) | CRevalidate u t \<Rightarrow> Aborted)"

text \<open>The writes of the identity service for the requests of a run.\<close>

definition writes ::
    "(string option \<Rightarrow> string option) \<Rightarrow> (string \<Rightarrow> jwt_result) \<Rightarrow> (string \<Rightarrow> string \<Rightarrow> bool) \<Rightarrow> c_event list \<Rightarrow>
     (string \<times> string) list" where
  "writes sessions jwt isMember es = List.map_filter (\<lambda>e. case e of
     CFetch r \<Rightarrow> snd (iam_handler sessions jwt isMember r) | CRevalidate u t \<Rightarrow> None) es"

text \<open>The credentials that the console sends on are those of its caller.\<close>

definition console_caller :: "(string option \<Rightarrow> string option) \<Rightarrow> (string \<Rightarrow> jwt_result) \<Rightarrow> incoming \<Rightarrow> caller" where
  "console_caller sessions jwt inc = \<lparr>ca_session = sessions (if or_empty (in_cookie inc) = [] then None else in_cookie inc),
     ca_header = (if or_empty (in_accessToken inc) = [] then None else Some (''Bearer '' @ or_empty (in_accessToken inc))),
     ca_jwt = jwt\<rparr>"

lemma caller_switch: "caller_of sessions jwt (switch_headers inc @ internal_secret env) = console_caller sessions jwt inc"
  by (cases "in_cookie inc") (auto simp: caller_of_def console_caller_def switch_headers_def internal_secret_def or_empty_def)

lemma served_200: "rs_ok (served r) \<Longrightarrow> \<exists>st j. r = Reply st j \<and> 200 \<le> st \<and> st < 300"
  by (auto simp: served_def rs_ok_def split: route_result.splits)

text \<open>The handler of the identity service answers in the 2xx range only with 200.\<close>

lemma set_active_org_status: "fst (set_active_org isMember u b) = Reply st j \<Longrightarrow> st \<in> {200, 400, 403}"
  by (auto simp: set_active_org_def split: option.splits json.splits if_splits)

lemma token_status: "verifyAccessToken r = InvalidToken c st m \<Longrightarrow> st = 401"
  by (cases r) auto

lemma handler_status:
  assumes "fst (patch_active_organization isMember c b) = Reply st j"
  shows "st \<in> {200, 400, 401, 403}"
  using assms set_active_org_status token_status
  by (fastforce simp: patch_active_organization_def token_error_def split: option.splits json.splits if_splits token_check.splits)

lemma served_ok_iff:
  "rs_ok (served (fst (patch_active_organization isMember c b))) \<longleftrightarrow> snd (patch_active_organization isMember c b) \<noteq> None"
proof -
  have "rs_ok (served (fst (patch_active_organization isMember c b))) \<longleftrightarrow>
      (\<exists>j. fst (patch_active_organization isMember c b) = Reply 200 j)"
    using handler_status [of isMember c b]
    by (cases "fst (patch_active_organization isMember c b)") (auto simp: served_def rs_ok_def)
  then show ?thesis using active_org_write by simp
qed

text \<open>One switch: no request for a body without an organization, one otherwise.\<close>

lemma switch_run:
  assumes "jget j ''orgId'' = Some org" and "truthy (Some org)"
  shows "\<exists>r. switch_org env inc (Some j) w [] = (r, [CFetch (activate_request env (switch_headers inc) (Some org))]) \<and>
     (answers_ok r \<longleftrightarrow> went_well w [CFetch (activate_request env (switch_headers inc) (Some org))])"
proof -
  have "j \<noteq> JNull" using assms(1) by auto
  with assms show ?thesis
    by (cases "w [CFetch (activate_request env (switch_headers inc) (Some org))]"; cases j)
      (auto simp: switch_org_def request_json_def prop_of_def c_fetch_run answer_def answers_ok_simps went_well_def
        andThen_apply ret_apply dest: status_not_ok)
qed

lemma switch_idle:
  assumes "\<not> truthy (Option.bind b (\<lambda>j. jget j ''orgId''))"
  shows "\<exists>r. switch_org env inc b w [] = (r, []) \<and> \<not> answers_ok r"
  using assms
  by (auto simp: switch_org_def request_json_def prop_of_def refuse_run answers_ok_simps andThen_apply ret_apply throw_apply
      split: option.splits json.splits)


end
