(* ===== verification/Iam_Frame.thy ===== *)
theory Iam_Frame
  imports Iam_Errors
begin

text \<open>
  The frame of the identity service's infrastructure services
  (\<^verbatim>\<open>iam/src/modules/server/core/*/infrastructure/services/\<close>): each operation logs its start
  (\<^verbatim>\<open>config/logger/log-operation.ts\<close>), runs a body, logs the success, and on an error logs the error and
  throws what the service's mapping makes of it. Calls of Better Auth (\<^verbatim>\<open>auth.api.*\<close>) and of the database
  (\<^verbatim>\<open>prisma.*\<close>) are events with their arguments, answered by the world with a value or a thrown error; log
  lines are events without an answer (their time stamps and operation ids are left out). The locale
  states what every mapping must do; each mapping in use is an instance.
\<close>

subsection \<open>Events\<close>

datatype stage = LogStart | LogSuccess | LogError iam_exn

datatype svc_event = Log stage string | Call string json

datatype svc_reply = Returned json | Threw iam_exn

type_synonym 'a svc = "(svc_event, svc_reply, iam_exn, 'a) io"

definition call :: "string \<Rightarrow> json \<Rightarrow> json svc" where
  "call f args = andThen (ask (Call f args)) (\<lambda>r. case r of Returned j \<Rightarrow> ret j | Threw e \<Rightarrow> throw e)"

definition log_line :: "stage \<Rightarrow> string \<Rightarrow> unit svc" where
  "log_line st name = emit (Log st name)"

definition type_error :: iam_exn where
  "type_error = JsError None ''Cannot read properties''"

text \<open>\<^verbatim>\<open>x.k\<close>, which throws for null.\<close>

definition rd :: "json \<Rightarrow> string \<Rightarrow> json option svc" where
  "rd j k = (if j = JNull then throw type_error else ret (jget j k))"

text \<open>The same for a value that may be undefined, and \<^verbatim>\<open>xs.map(f)\<close> and \<^verbatim>\<open>xs ?? []\<close>.\<close>

definition rd_of :: "json option \<Rightarrow> string \<Rightarrow> json option svc" where
  "rd_of v k = (case v of None \<Rightarrow> throw type_error | Some j \<Rightarrow> rd j k)"

definition elements :: "json \<Rightarrow> json list svc" where
  "elements v = (case v of JArr vs \<Rightarrow> ret vs | _ \<Rightarrow> throw type_error)"

fun traverse :: "('a \<Rightarrow> 'b svc) \<Rightarrow> 'a list \<Rightarrow> 'b list svc" where
  "traverse f [] = ret []"
| "traverse f (x # xs) = andThen (f x) (\<lambda>y. andThen (traverse f xs) (\<lambda>ys. ret (y # ys)))"

text \<open>\<^verbatim>\<open>Promise.all([a, b])\<close>: both run to their end; the first rejection is thrown.\<close>

definition both :: "'a svc \<Rightarrow> 'b svc \<Rightarrow> ('a \<times> 'b) svc" where
  "both a b = handling a (\<lambda>e. handling b (\<lambda>e'. throw e) (\<lambda>y. throw e)) (\<lambda>x. andThen b (\<lambda>y. ret (x, y)))"

text \<open>
  The frame of the operations: a start line, the body, and a success line; an error is logged and
  then mapped.
\<close>

definition logged :: "string \<Rightarrow> (iam_exn \<Rightarrow> iam_exn) \<Rightarrow> 'a svc \<Rightarrow> 'a svc" where
  "logged name mapErr body = andThen (log_line LogStart name) (\<lambda>_.
     catching (andThen body (\<lambda>data. andThen (log_line LogSuccess name) (\<lambda>_. ret data)))
       (\<lambda>e. andThen (log_line (LogError e) name) (\<lambda>_. throw (mapErr e))))"

definition infra :: "string \<Rightarrow> iam_exn \<Rightarrow> iam_exn" where
  "infra msg e = App (infrastructure_error msg)"

definition is_infra :: "iam_exn \<Rightarrow> bool" where
  "is_infra e = (case e of App a \<Rightarrow> ae_class a = InfrastructureError | _ \<Rightarrow> False)"

text \<open>\<^verbatim>\<open>if (error instanceof InfrastructureError) throw error;\<close> before the mapping.\<close>

definition keep_infra :: "string list \<Rightarrow> string \<Rightarrow> iam_exn \<Rightarrow> iam_exn" where
  "keep_infra base msg e = (if is_infra e then e else mapBetterAuthError base e msg)"

definition map_auth :: "string list \<Rightarrow> string \<Rightarrow> iam_exn \<Rightarrow> iam_exn" where
  "map_auth base msg e = mapBetterAuthError base e msg"

text \<open>\<^verbatim>\<open>{ k: true, ... }\<close> of a query's \<^verbatim>\<open>select\<close>.\<close>

definition selecting :: "string list \<Rightarrow> json" where
  "selecting ks = JObj (map (\<lambda>k. (k, JBool True)) ks)"

definition success :: json where
  "success = JObj [(''success'', JBool True)]"


text \<open>\<^verbatim>\<open>schema.parseAsync\<close>: rejected data throws a \<^verbatim>\<open>ZodError\<close>, an \<^verbatim>\<open>Error\<close> without a code.\<close>

definition zod :: "(string \<Rightarrow> json \<Rightarrow> json option) \<Rightarrow> string \<Rightarrow> json \<Rightarrow> json svc" where
  "zod parse s v = (case parse s v of None \<Rightarrow> throw (JsError None ''ZodError'') | Some d \<Rightarrow> ret d)"

subsection \<open>Bodies that only call\<close>

text \<open>
  \<open>only P m\<close>: all events of \<open>m\<close> satisfy \<open>P\<close>; \<open>quiet m\<close>: they are calls. Rules for both are collected in
  \<open>quiet_rules\<close>.
\<close>

named_theorems quiet_rules \<open>bodies without log lines\<close>

fun is_call :: "svc_event \<Rightarrow> bool" where
  "is_call (Call f args) = True"
| "is_call (Log st name) = False"

text \<open>A computation whose events all satisfy a predicate, in every world; being quiet is one such promise.\<close>

definition only :: "(svc_event \<Rightarrow> bool) \<Rightarrow> 'a svc \<Rightarrow> bool" where
  "only P m = (\<forall>w. yields w m (\<lambda>r es. list_all P es))"

abbreviation quiet :: "'a svc \<Rightarrow> bool" where
  "quiet m \<equiv> only is_call m"

lemma only_ret [quiet_rules]: "only P (ret a)"
  by (simp add: only_def yields_ret)

lemma only_throw [quiet_rules]: "only P (throw e)"
  by (simp add: only_def yields_throw)

lemma only_ask: "P e \<Longrightarrow> only P (ask e)"
  by (simp add: only_def yields_ask)

lemma only_handling:
  assumes "only P m" and "\<And>x. only P (f x)" and "\<And>a. only P (g a)"
  shows "only P (handling m f g)"
  unfolding only_def
proof
  fix w
  show "yields w (handling m f g) (\<lambda>r es. list_all P es)"
  proof (rule yields_handling)
    show "yields w m (\<lambda>r es. list_all P es)" using assms(1) by (simp add: only_def)
  next
    fix x es
    assume "list_all P es"
    then show "yields w (f x) (\<lambda>r fs. list_all P (es @ fs))"
      using assms(2) [of x] by (auto simp: only_def elim: yields_weaken)
  next
    fix a es
    assume "list_all P es"
    then show "yields w (g a) (\<lambda>r fs. list_all P (es @ fs))"
      using assms(3) [of a] by (auto simp: only_def elim: yields_weaken)
  qed
qed

lemma only_andThen [quiet_rules]: "only P m \<Longrightarrow> (\<And>a. only P (f a)) \<Longrightarrow> only P (andThen m f)"
  unfolding andThen_handling by (intro only_handling only_throw)

lemma only_catching [quiet_rules]: "only P m \<Longrightarrow> (\<And>e. only P (f e)) \<Longrightarrow> only P (catching m f)"
  unfolding catching_handling by (intro only_handling only_ret)

lemma only_call: "P (Call f args) \<Longrightarrow> only P (call f args)"
  unfolding call_def by (intro only_andThen only_ask) (auto simp: only_ret only_throw split: svc_reply.splits)

lemma quiet_call [quiet_rules]: "quiet (call f args)"
  by (simp add: only_call)

lemma only_rd [quiet_rules]: "only P (rd j k)"
  by (simp add: rd_def only_ret only_throw)

lemma only_rd_of [quiet_rules]: "only P (rd_of v k)"
  by (simp add: rd_of_def only_rd only_throw split: option.split)

lemma only_elements [quiet_rules]: "only P (elements v)"
  by (simp add: elements_def only_ret only_throw split: json.split)

lemma only_traverse [quiet_rules]: "(\<And>x. only P (f x)) \<Longrightarrow> only P (traverse f xs)"
  by (induction xs) (auto intro: only_ret only_andThen)

lemma only_both [quiet_rules]: "only P a \<Longrightarrow> only P b \<Longrightarrow> only P (both a b)"
  unfolding both_def by (intro only_handling only_andThen only_ret only_throw)

lemma only_zod [quiet_rules]: "only P (zod parse s v)"
  by (simp add: zod_def only_ret only_throw split: option.split)

lemma only_if [quiet_rules]: "only P m \<Longrightarrow> only P m' \<Longrightarrow> only P (if b then m else m')"
  by simp

lemma only_case_option [quiet_rules]:
  "only P m \<Longrightarrow> (\<And>x. only P (f x)) \<Longrightarrow> only P (case v of None \<Rightarrow> m | Some x \<Rightarrow> f x)"
  by (simp split: option.split)

lemma only_case_prod [quiet_rules]: "(\<And>a b. only P (f a b)) \<Longrightarrow> only P (case x of (a, b) \<Rightarrow> f a b)"
  by (simp split: prod.split)

lemma only_log_line: "P (Log st name) \<Longrightarrow> only P (log_line st name)"
  by (simp add: log_line_def only_def yields_emit)

lemma only_logged:
  assumes "\<And>st. P (Log st name)" and "only P body"
  shows "only P (logged name mapErr body)"
  unfolding logged_def
  by (intro only_andThen only_catching only_log_line only_throw only_ret assms)

lemma onlyD: "only P m \<Longrightarrow> list_all P (snd (m w []))"
  unfolding only_def by (blast dest: yieldsD)

subsection \<open>What an operation promises\<close>

text \<open>The log lines around the calls of an operation, and the outcome they report.\<close>

definition settled :: "string \<Rightarrow> (iam_exn \<Rightarrow> iam_exn) \<Rightarrow> iam_exn + 'a \<Rightarrow> svc_event list \<Rightarrow> bool" where
  "settled name mapErr r es = (\<exists>cs. list_all is_call cs \<and>
     (case r of
        Inr v \<Rightarrow> es = Log LogStart name # cs @ [Log LogSuccess name]
      | Inl x \<Rightarrow> (\<exists>e. x = mapErr e \<and> es = Log LogStart name # cs @ [Log (LogError e) name])))"

text \<open>The log lines of an operation, in order: one start, then one end.\<close>

definition log_pair :: "string \<Rightarrow> svc_event list \<Rightarrow> bool" where
  "log_pair name es = (\<exists>st. st \<noteq> LogStart \<and>
     filter (\<lambda>e. \<not> is_call e) es = [Log LogStart name, Log st name])"

lemma filter_calls: "list_all is_call cs \<Longrightarrow> filter (\<lambda>e. \<not> is_call e) cs = []"
  by (induction cs) auto

lemma settled_pair: "settled name mapErr r es \<Longrightarrow> log_pair name es"
  by (cases r) (auto simp: settled_def log_pair_def filter_calls)

lemma yields_emit_then: "yields w (f ()) (\<lambda>r fs. Q r (e # fs)) \<Longrightarrow> yields w (andThen (emit e) f) Q"
  by (rule yields_andThen [OF yields_emit [where Q = "\<lambda>r es. r = Inr () \<and> es = [e]"]]) auto

lemma logged_settles:
  assumes "quiet body"
  shows "yields w (logged name mapErr body) (settled name mapErr)"
  unfolding logged_def log_line_def
proof (rule yields_emit_then, rule yields_catching)
  let ?P = "\<lambda>r fs. \<exists>cs. list_all is_call cs \<and>
      fs = cs @ (case r of Inl e \<Rightarrow> [] | Inr v \<Rightarrow> [Log LogSuccess name])"
  show "yields w (andThen body (\<lambda>data. andThen (emit (Log LogSuccess name)) (\<lambda>_. ret data))) ?P"
    by (rule yields_andThen [OF assms [unfolded only_def, THEN spec, of w]])
      (auto intro!: yields_emit_then yields_ret)
  fix e :: iam_exn and fs
  assume "?P (Inl e) fs"
  then show "yields w (andThen (emit (Log (LogError e) name)) (\<lambda>_. throw (mapErr e)))
      (\<lambda>r gs. settled name mapErr r (Log LogStart name # fs @ gs))"
    by (auto simp: settled_def intro!: yields_emit_then yields_throw)
qed (auto simp: settled_def)

text \<open>
  The contract of an error mapping: whatever was thrown, unless it was null, becomes an application
  error.
\<close>

locale error_mapping =
  fixes mapErr :: "iam_exn \<Rightarrow> iam_exn"
  assumes maps_to_app: "e \<noteq> NullThrown \<Longrightarrow> \<exists>a. mapErr e = App a"
begin

lemma fails_with_app:
  "settled name mapErr (Inl x) es \<Longrightarrow> \<not> list_ex (\<lambda>e. e = Log (LogError NullThrown) name) es \<Longrightarrow> \<exists>a. x = App a"
  using maps_to_app by (fastforce simp: settled_def list_ex_iff)

end

lemma mapBetterAuthError_app: "e \<noteq> NullThrown \<Longrightarrow> \<exists>a. mapBetterAuthError base e msg = App a"
  by (simp add: mapBetterAuthError_def)

interpretation infra_mapping: error_mapping "infra msg"
  by unfold_locales (simp add: infra_def)

interpretation auth_mapping: error_mapping "map_auth base msg"
  by unfold_locales (simp add: map_auth_def mapBetterAuthError_app)

interpretation keep_mapping: error_mapping "keep_infra base msg"
  by unfold_locales (auto simp: keep_infra_def is_infra_def mapBetterAuthError_app split: iam_exn.splits)

text \<open>The promise to a caller: one start and one end line, which tells the outcome.\<close>

definition reports :: "string \<Rightarrow> iam_exn + 'a \<Rightarrow> svc_event list \<Rightarrow> bool" where
  "reports name r es = (log_pair name es \<and> (case r of
      Inr v \<Rightarrow> last es = Log LogSuccess name
    | Inl x \<Rightarrow> (\<exists>e. last es = Log (LogError e) name \<and> (e = NullThrown \<or> (\<exists>a. x = App a)))))"

lemma reports_logged:
  assumes "error_mapping mapErr" and "quiet body"
  shows "yields w (logged name mapErr body) (reports name)"
proof (rule yields_weaken [OF logged_settles [OF assms(2)]])
  fix r :: "iam_exn + 'a" and es
  assume "settled name mapErr r es"
  note st = this
  show "reports name r es"
  proof (cases r)
    case (Inl x)
    then obtain e where "x = mapErr e" "last es = Log (LogError e) name"
      using st by (auto simp: settled_def)
    with Inl settled_pair [OF st] error_mapping.maps_to_app [OF assms(1), of e]
    show ?thesis by (auto simp: reports_def)
  qed (use settled_pair [of name mapErr r es] st in \<open>auto simp: reports_def settled_def\<close>)
qed

end
