(* ===== verification/Iam_Orgs.thy ===== *)
theory Iam_Orgs
  imports Iam_Access Iam_Frame
begin

text \<open>
  The organizations service of the identity service
  (\<^verbatim>\<open>iam/src/modules/server/core/admin/infrastructure/services/organizations.service.ts\<close>): organizations,
  members, invitations, teams and the roles of an organization. \<open>base\<close> are Better Auth's own error codes,
  \<open>parse\<close> the Zod schemas by name, \<open>stringify\<close> and \<open>parse_json\<close> are \<^verbatim>\<open>JSON.stringify\<close> and \<^verbatim>\<open>JSON.parse\<close>.
\<close>

text \<open>An operation that makes one call of Better Auth with the given body.\<close>

definition simple_call :: "string \<Rightarrow> (string \<times> json option) list \<Rightarrow> json svc" where
  "simple_call f kvs = andThen (call f (JObj [(''body'', jobj kvs)])) (\<lambda>_. ret success)"

subsection \<open>Organizations\<close>

text \<open>
  \<^verbatim>\<open>parseMetadata\<close>: \<open>parse_json\<close> is \<^verbatim>\<open>JSON.parse\<close>, None for text that it rejects.
\<close>

definition parseMetadata :: "(string \<Rightarrow> json option) \<Rightarrow> json option \<Rightarrow> json option" where
  "parseMetadata parse_json raw = (case raw of Some (JStr (c # s)) \<Rightarrow> parse_json (c # s) | _ \<Rightarrow> None)"

definition nonempty :: "json option \<Rightarrow> json option" where
  "nonempty v = (if truthy v then v else None)"

text \<open>The metadata as text: an object or array is stringified, anything else is kept, with null for undefined.\<close>

definition metadata_text :: "(json \<Rightarrow> string) \<Rightarrow> json option \<Rightarrow> json" where
  "metadata_text stringify v = (case v of
     Some (JObj kvs) \<Rightarrow> JStr (stringify (JObj kvs))
   | Some (JArr vs) \<Rightarrow> JStr (stringify (JArr vs))
   | _ \<Rightarrow> nullish_or v JNull)"

definition summary_raw :: "(json \<Rightarrow> string) \<Rightarrow> json \<Rightarrow> json \<Rightarrow> json \<Rightarrow> json" where
  "summary_raw stringify res memberCount teamCount = jobj
     [(''id'', jget res ''id''), (''name'', jget res ''name''), (''slug'', jget res ''slug''),
      (''logo'', Some (nullish_or (jget res ''logo'') JNull)), (''createdAt'', jget res ''createdAt''),
      (''metadata'', Some (metadata_text stringify (jget res ''metadata''))),
      (''memberCount'', Some memberCount), (''teamCount'', Some teamCount)]"

text \<open>\<^verbatim>\<open>res.members?.length ?? 0\<close>.\<close>

definition members_length :: "json \<Rightarrow> json" where
  "members_length res = (case jget res ''members'' of
     Some (JArr vs) \<Rightarrow> JInt (int (length vs))
   | Some (JStr s) \<Rightarrow> JInt (int (length s))
   | Some (JObj kvs) \<Rightarrow> nullish_or (map_of kvs ''length'') (JInt 0)
   | _ \<Rightarrow> JInt 0)"

definition createOrganization ::
    "string list \<Rightarrow> (string \<Rightarrow> json \<Rightarrow> json option) \<Rightarrow> (string \<Rightarrow> json option) \<Rightarrow> (json \<Rightarrow> string) \<Rightarrow> json \<Rightarrow> json svc" where
  "createOrganization base parse parse_json stringify payload =
     logged ''OrganizationsService.createOrganization'' (map_auth base ''Failed to create organization'')
       (andThen (call ''auth.createOrganization'' (JObj [(''body'', jobj
           [(''name'', jget payload ''name''), (''slug'', jget payload ''slug''),
            (''logo'', nonempty (jget payload ''logo'')),
            (''metadata'', parseMetadata parse_json (jget payload ''metadata''))])])) (\<lambda>res.
        andThen (rd res ''id'') (\<lambda>_.
        zod parse ''OrganizationSummarySchema'' (summary_raw stringify res (members_length res) (JInt 0)))))"

text \<open>The fields that are spread into the update only when they are given.\<close>

definition update_data :: "(string \<Rightarrow> json option) \<Rightarrow> json \<Rightarrow> json" where
  "update_data parse_json payload = jobj
     [(''name'', nonempty (jget payload ''name'')), (''slug'', nonempty (jget payload ''slug'')),
      (''logo'', nonempty (jget payload ''logo'')),
      (''metadata'', parseMetadata parse_json (jget payload ''metadata''))]"

definition counted :: json where
  "counted = JObj [(''_count'', JObj [(''select'', selecting [''members'', ''teams''])])]"

definition count_of :: "json \<Rightarrow> string \<Rightarrow> json svc" where
  "count_of counts k = (if counts = JNull then ret (JInt 0)
     else case jget counts ''_count'' of
        None \<Rightarrow> throw type_error
      | Some c \<Rightarrow> andThen (rd c k) (\<lambda>v. ret (nullish_or v (JInt 0))))"

definition updateOrganization ::
    "string list \<Rightarrow> (string \<Rightarrow> json \<Rightarrow> json option) \<Rightarrow> (string \<Rightarrow> json option) \<Rightarrow> (json \<Rightarrow> string) \<Rightarrow> json \<Rightarrow> json svc" where
  "updateOrganization base parse parse_json stringify payload =
     logged ''OrganizationsService.updateOrganization'' (keep_infra base ''Failed to update organization'')
       (andThen (call ''auth.updateOrganization'' (JObj [(''body'', jobj
           [(''organizationId'', jget payload ''organizationId''),
            (''data'', Some (update_data parse_json payload))])])) (\<lambda>res.
        if \<not> truthy (Some res) then throw (App (infrastructure_error ''Organization not found after update''))
        else andThen (call ''prisma.organization.findUnique''
               (jobj [(''where'', Some (jobj [(''id'', jget payload ''organizationId'')])), (''include'', Some counted)])) (\<lambda>counts.
             andThen (count_of counts ''members'') (\<lambda>ms. andThen (count_of counts ''teams'') (\<lambda>ts.
             zod parse ''OrganizationSummarySchema'' (summary_raw stringify res ms ts))))))"

definition deleteOrganization :: "string list \<Rightarrow> json \<Rightarrow> json svc" where
  "deleteOrganization base payload =
     logged ''OrganizationsService.deleteOrganization'' (map_auth base ''Failed to delete organization'')
       (andThen (call ''prisma.organization.delete''
          (jobj [(''where'', Some (jobj [(''id'', jget payload ''organizationId'')]))])) (\<lambda>_. ret success))"

subsection \<open>Members, invitations, teams\<close>

definition addMember :: "string list \<Rightarrow> json \<Rightarrow> json svc" where
  "addMember base payload = logged ''OrganizationsService.addMember'' (map_auth base ''Failed to add member'')
     (simple_call ''auth.addMember'' [(''userId'', jget payload ''userId''),
        (''organizationId'', jget payload ''organizationId''), (''role'', jget payload ''roles'')])"

definition removeMember :: "string list \<Rightarrow> json \<Rightarrow> json svc" where
  "removeMember base payload = logged ''OrganizationsService.removeMember'' (map_auth base ''Failed to remove member'')
     (simple_call ''auth.removeMember'' [(''memberIdOrEmail'', jget payload ''memberId''),
        (''organizationId'', jget payload ''organizationId'')])"

definition createInvitation :: "string list \<Rightarrow> json \<Rightarrow> json svc" where
  "createInvitation base payload =
     logged ''OrganizationsService.createInvitation'' (map_auth base ''Failed to create invitation'')
     (simple_call ''auth.createInvitation'' [(''email'', jget payload ''email''),
        (''organizationId'', jget payload ''organizationId''),
        (''role'', Some (JArr [nullish_or (jget payload ''role'') JNull])),
        (''teamId'', nonempty (jget payload ''teamId''))])"

definition cancelInvitation :: "string list \<Rightarrow> json \<Rightarrow> json svc" where
  "cancelInvitation base payload =
     logged ''OrganizationsService.cancelInvitation'' (map_auth base ''Failed to cancel invitation'')
     (simple_call ''auth.cancelInvitation'' [(''invitationId'', jget payload ''invitationId'')])"

definition createTeam :: "string list \<Rightarrow> json \<Rightarrow> json svc" where
  "createTeam base payload = logged ''OrganizationsService.createTeam'' (map_auth base ''Failed to create team'')
     (simple_call ''auth.createTeam'' [(''name'', jget payload ''name''),
        (''organizationId'', jget payload ''organizationId'')])"

definition updateTeam :: "string list \<Rightarrow> json \<Rightarrow> json svc" where
  "updateTeam base payload = logged ''OrganizationsService.updateTeam'' (map_auth base ''Failed to update team'')
     (simple_call ''auth.updateTeam'' [(''teamId'', jget payload ''teamId''),
        (''data'', Some (jobj [(''name'', jget payload ''name'')]))])"

definition removeTeam :: "string list \<Rightarrow> json \<Rightarrow> json svc" where
  "removeTeam base payload = logged ''OrganizationsService.removeTeam'' (map_auth base ''Failed to remove team'')
     (simple_call ''auth.removeTeam'' [(''teamId'', jget payload ''teamId''),
        (''organizationId'', jget payload ''organizationId'')])"

definition addTeamMember :: "string list \<Rightarrow> json \<Rightarrow> json svc" where
  "addTeamMember base payload =
     logged ''OrganizationsService.addTeamMember'' (map_auth base ''Failed to add team member'')
     (simple_call ''auth.addTeamMember'' [(''teamId'', jget payload ''teamId''), (''userId'', jget payload ''userId''),
        (''organizationId'', jget payload ''organizationId'')])"

definition removeTeamMember :: "string list \<Rightarrow> json \<Rightarrow> json svc" where
  "removeTeamMember base payload =
     logged ''OrganizationsService.removeTeamMember'' (keep_infra base ''Failed to remove team member'')
     (andThen (call ''prisma.teamMember.findUnique''
        (jobj [(''where'', Some (jobj [(''id'', jget payload ''teamMemberId'')]))])) (\<lambda>teamMember.
      if \<not> truthy (Some teamMember) then throw (App (infrastructure_error ''Team member not found''))
      else simple_call ''auth.removeTeamMember'' [(''teamId'', jget teamMember ''teamId''),
        (''userId'', jget teamMember ''userId''), (''organizationId'', jget payload ''organizationId'')]))"

subsection \<open>Reading organizations\<close>

definition organization_row :: "json \<Rightarrow> json svc" where
  "organization_row org = andThen (rd org ''_count'') (\<lambda>c. andThen (rd_of c ''members'') (\<lambda>ms.
     andThen (rd_of c ''teams'') (\<lambda>ts. ret (jobj
       [(''id'', jget org ''id''), (''name'', jget org ''name''), (''slug'', jget org ''slug''),
        (''logo'', jget org ''logo''), (''createdAt'', jget org ''createdAt''), (''metadata'', jget org ''metadata''),
        (''memberCount'', ms), (''teamCount'', ts)]))))"

definition listOrganizations :: "(string \<Rightarrow> json \<Rightarrow> json option) \<Rightarrow> json svc" where
  "listOrganizations parse = logged ''OrganizationsService.listOrganizations'' (infra ''Failed to list organizations'')
     (andThen (call ''prisma.organization.findMany'' (JObj [(''include'', counted),
          (''orderBy'', JObj [(''createdAt'', JStr ''desc'')])])) (\<lambda>orgs.
      andThen (elements orgs) (\<lambda>os. andThen (traverse organization_row os) (\<lambda>rows.
      zod parse ''ListOrganizationsResponseSchema'' (JObj [(''organizations'', JArr rows)])))))"

text \<open>\<^verbatim>\<open>{ id, name, email, image: u.image ?? null }\<close> of a nested user.\<close>

definition user_part :: "json option \<Rightarrow> json svc" where
  "user_part u = andThen (rd_of u ''id'') (\<lambda>i. ret (jobj
     [(''id'', i), (''name'', jget (the u) ''name''), (''email'', jget (the u) ''email''),
      (''image'', Some (nullish_or (jget (the u) ''image'') JNull))]))"

definition team_member_part :: "json \<Rightarrow> json \<Rightarrow> json svc" where
  "team_member_part now tm = andThen (rd tm ''user'') (\<lambda>u. andThen (user_part u) (\<lambda>user. ret (jobj
     [(''id'', jget tm ''id''), (''teamId'', jget tm ''teamId''), (''userId'', jget tm ''userId''),
      (''createdAt'', Some (nullish_or (jget tm ''createdAt'') now)), (''user'', Some user)])))"

text \<open>\<open>tms\<close> are the members of all teams; a team gets those with its id, in their order.\<close>

definition team_part :: "json \<Rightarrow> json list \<Rightarrow> json \<Rightarrow> json svc" where
  "team_part now tms team = andThen (rd team ''id'') (\<lambda>i.
     andThen (traverse (team_member_part now) (filter (\<lambda>tm. jget tm ''teamId'' = i) tms)) (\<lambda>ms. ret (jobj
     [(''id'', i), (''name'', jget team ''name''), (''organizationId'', jget team ''organizationId''),
      (''createdAt'', jget team ''createdAt''), (''updatedAt'', Some (nullish_or (jget team ''updatedAt'') JNull)),
      (''teammembers'', Some (JArr ms))])))"

definition member_part :: "json \<Rightarrow> json svc" where
  "member_part m = andThen (rd m ''user'') (\<lambda>u. andThen (user_part u) (\<lambda>user. ret (jobj
     [(''id'', jget m ''id''), (''organizationId'', jget m ''organizationId''), (''userId'', jget m ''userId''),
      (''role'', jget m ''role''), (''createdAt'', jget m ''createdAt''), (''user'', Some user)])))"

text \<open>\<^verbatim>\<open>Array.isArray(role) ? (role[0] ?? null) : (role ?? null)\<close>.\<close>

definition first_role :: "json option \<Rightarrow> json" where
  "first_role v = (case v of
     Some (JArr (r # rs)) \<Rightarrow> nullish_or (Some r) JNull | Some (JArr []) \<Rightarrow> JNull | _ \<Rightarrow> nullish_or v JNull)"

text \<open>The user that the map built from \<open>users\<close> has under the id: the last one with it.\<close>

definition inviter :: "json list \<Rightarrow> json option \<Rightarrow> json option" where
  "inviter users i = map_of (rev (map (\<lambda>u. (jget u ''id'', u)) users)) i"

definition inviter_text :: "json option \<Rightarrow> string \<Rightarrow> json" where
  "inviter_text u k = (case u of None \<Rightarrow> JStr [] | Some j \<Rightarrow> nullish_or (jget j k) (JStr []))"

definition invitation_part :: "json list \<Rightarrow> json \<Rightarrow> json svc" where
  "invitation_part users iv = andThen (rd iv ''inviterId'') (\<lambda>i. ret (jobj
     [(''id'', jget iv ''id''), (''organizationId'', jget iv ''organizationId''), (''email'', jget iv ''email''),
      (''role'', Some (first_role (jget iv ''role''))), (''status'', jget iv ''status''),
      (''expiresAt'', jget iv ''expiresAt''), (''createdAt'', jget iv ''createdAt''), (''inviterId'', i),
      (''teamId'', Some (nullish_or (jget iv ''teamId'') JNull)),
      (''user'', Some (JObj [(''name'', inviter_text (inviter users i) ''name''),
                             (''email'', inviter_text (inviter users i) ''email'')]))]))"

definition list_field :: "json \<Rightarrow> string \<Rightarrow> json list svc" where
  "list_field res k = elements (nullish_or (jget res k) (JArr []))"

definition or_null :: "json option \<Rightarrow> json" where
  "or_null v = nullish_or v JNull"

text \<open>A query that is made only for a non-empty list of ids.\<close>

definition find_in :: "string \<Rightarrow> string \<Rightarrow> json list \<Rightarrow> (string \<times> json) list \<Rightarrow> json list svc" where
  "find_in f k ids opts = (if ids = [] then ret []
     else andThen (call f (JObj ((''where'', JObj [(k, JObj [(''in'', JArr ids)])]) # opts))) elements)"

definition organization_raw :: "(json \<Rightarrow> string) \<Rightarrow> json \<Rightarrow> json \<Rightarrow> json svc" where
  "organization_raw stringify now res =
     andThen (list_field res ''invitations'') (\<lambda>invs.
     andThen (traverse (\<lambda>i. rd i ''inviterId'') invs) (\<lambda>inviterIds.
     andThen (list_field res ''teams'') (\<lambda>teams.
     andThen (traverse (\<lambda>t. rd t ''id'') teams) (\<lambda>teamIds.
     andThen (both (find_in ''prisma.user.findMany'' ''id'' (map or_null (js_set inviterIds))
                     [(''select'', selecting [''id'', ''name'', ''email''])])
                   (find_in ''prisma.teamMember.findMany'' ''teamId'' (map or_null teamIds)
                     [(''include'', JObj [(''user'', JObj [(''select'', selecting [''id'', ''name'', ''email'', ''image''])])]),
                      (''orderBy'', JObj [(''createdAt'', JStr ''asc'')])])) (\<lambda>(users, tms).
     andThen (traverse (team_part now tms) teams) (\<lambda>teamsWithMembers.
     andThen (list_field res ''members'') (\<lambda>members.
     andThen (traverse member_part members) (\<lambda>ms.
     andThen (traverse (invitation_part users) invs) (\<lambda>is. ret (jobj
       [(''id'', jget res ''id''), (''name'', jget res ''name''), (''slug'', jget res ''slug''),
        (''logo'', Some (nullish_or (jget res ''logo'') JNull)), (''createdAt'', jget res ''createdAt''),
        (''metadata'', Some (metadata_text stringify (jget res ''metadata''))),
        (''members'', Some (JArr ms)), (''invitations'', Some (JArr is)), (''teams'', Some (JArr teamsWithMembers))]
       ))))))))))"

definition getOrganization ::
    "string list \<Rightarrow> (string \<Rightarrow> json \<Rightarrow> json option) \<Rightarrow> (json \<Rightarrow> string) \<Rightarrow> json \<Rightarrow> string \<Rightarrow> json svc" where
  "getOrganization base parse stringify now organizationId =
     logged ''OrganizationsService.getOrganization'' (keep_infra base ''Failed to get organization'')
     (andThen (call ''auth.getFullOrganization'' (JObj [(''query'', JObj [(''organizationId'', JStr organizationId)])]))
        (\<lambda>res. if \<not> truthy (Some res) then throw (App (infrastructure_error ''Organization not found''))
          else andThen (organization_raw stringify now res) (zod parse ''OrganizationDetailSchema'')))"

subsection \<open>The roles of a member\<close>

text \<open>
  \<^verbatim>\<open>!!redirectUrls[role]\<close>: an own property that is truthy, or one that every object inherits.
\<close>

definition has_redirect :: "json \<Rightarrow> string \<Rightarrow> bool" where
  "has_redirect urls role = (case jget urls role of
     Some v \<Rightarrow> truthy (Some v) | None \<Rightarrow> role \<in> set prototype_keys)"

text \<open>The rows of the redirects that are stored for the roles with a URL.\<close>

definition redirect_row :: "json option \<Rightarrow> json option \<Rightarrow> json \<Rightarrow> string \<Rightarrow> json" where
  "redirect_row userId orgId urls role = jobj
     [(''userId'', userId), (''organizationId'', orgId), (''role'', Some (JStr role)), (''redirectUrl'', jget urls role)]"

text \<open>
  The transaction, between its begin and its commit; an error in it rolls back (the world's matter).
\<close>

definition persist_redirects :: "json option \<Rightarrow> json option \<Rightarrow> string list \<Rightarrow> json \<Rightarrow> unit svc" where
  "persist_redirects userId orgId roles urls =
     (let rolesToCreate = filter (has_redirect urls) roles in
      andThen (call ''tx.begin'' JNull) (\<lambda>_.
      andThen (call ''tx.userOrgRoleRedirect.deleteMany''
         (JObj [(''where'', jobj [(''userId'', userId), (''organizationId'', orgId)])])) (\<lambda>_.
      andThen (if rolesToCreate = [] then ret JNull
        else call ''tx.userOrgRoleRedirect.createMany''
               (JObj [(''data'', JArr (map (redirect_row userId orgId urls) rolesToCreate))])) (\<lambda>_.
      andThen (call ''tx.commit'' JNull) (\<lambda>_. ret ())))))"

record role_update =
  ru_memberId :: string
  ru_organizationId :: string
  ru_roles :: "string list"
  ru_redirectUrls :: "json option"

definition update_redirects :: "role_update \<Rightarrow> unit svc" where
  "update_redirects p = andThen (call ''prisma.member.findUnique''
       (JObj [(''where'', JObj [(''id'', JStr (ru_memberId p))]), (''select'', selecting [''userId''])])) (\<lambda>member.
     if \<not> truthy (Some member) then ret ()
     else persist_redirects (jget member ''userId'') (Some (JStr (ru_organizationId p))) (ru_roles p)
            (case ru_redirectUrls p of None \<Rightarrow> JObj [] | Some u \<Rightarrow> u))"

definition role_call :: "role_update \<Rightarrow> json svc" where
  "role_call p = call ''auth.updateMemberRole'' (JObj [(''body'', JObj
     [(''memberId'', JStr (ru_memberId p)), (''organizationId'', JStr (ru_organizationId p)),
      (''role'', JArr (map JStr (ru_roles p)))])])"

text \<open>The redirects are stored in a handler of their own, which logs an error and goes on.\<close>

definition updateMemberRole :: "string list \<Rightarrow> role_update \<Rightarrow> json svc" where
  "updateMemberRole base p =
     logged ''OrganizationsService.updateMemberRole'' (map_auth base ''Failed to update member role'')
     (andThen (role_call p) (\<lambda>_.
      andThen (catching (update_redirects p)
        (\<lambda>e. log_line (LogError e) ''OrganizationsService.updateMemberRole.persistRedirects'')) (\<lambda>_. ret success)))"

definition getOrgRoleRedirects :: "string \<Rightarrow> string \<Rightarrow> json svc" where
  "getOrgRoleRedirects userId organizationId = andThen (call ''prisma.userOrgRoleRedirect.findMany''
       (JObj [(''where'', JObj [(''userId'', JStr userId), (''organizationId'', JStr organizationId)])])) (\<lambda>rows.
     andThen (elements rows) (\<lambda>rs.
     andThen (traverse (\<lambda>r. andThen (rd r ''role'') (\<lambda>k. ret (interp k, or_null (jget r ''redirectUrl'')))) rs) (\<lambda>kvs.
     ret (JObj (from_entries kvs)))))"

definition isMemberInOrg :: "string \<Rightarrow> string \<Rightarrow> bool svc" where
  "isMemberInOrg organizationId userId = andThen (call ''prisma.member.findFirst''
       (JObj [(''where'', JObj [(''organizationId'', JStr organizationId), (''userId'', JStr userId)]),
          (''select'', selecting [''id''])]))
     (\<lambda>member. ret (member \<noteq> JNull))"

subsection \<open>The roles of an organization\<close>

text \<open>
  These operations have no frame: what is thrown escapes as it is. The permission column is JSON text;
  it is kept as its value, and a role row is read by its text column \<open>column\<close> (None for malformed text).
\<close>

record role_payload =
  rp_organizationId :: string
  rp_role :: string
  rp_permissions :: "string list"

definition role_where :: "role_payload \<Rightarrow> json" where
  "role_where p = JObj [(''where'', JObj
     [(''organizationId'', JStr (rp_organizationId p)), (''role'', JStr (rp_role p))])]"

definition permission_json :: "string list \<Rightarrow> json svc" where
  "permission_json keys = (case orgPermissionKeysToJson keys of None \<Rightarrow> throw type_error | Some j \<Rightarrow> ret j)"

definition create_role_row :: "string \<Rightarrow> role_payload \<Rightarrow> json \<Rightarrow> json svc" where
  "create_role_row newId p j = call ''prisma.organizationRole.create'' (JObj [(''data'', JObj
     [(''id'', JStr newId), (''organizationId'', JStr (rp_organizationId p)), (''role'', JStr (rp_role p)),
      (''permission'', j)])])"

definition role_result :: "(string \<Rightarrow> json \<Rightarrow> json option) \<Rightarrow> role_payload \<Rightarrow> json \<Rightarrow> json svc" where
  "role_result parse p createdAt = zod parse ''OrgRoleSchema'' (JObj
     [(''role'', JStr (rp_role p)), (''permissions'', JArr (map JStr (rp_permissions p))), (''createdAt'', createdAt)])"

definition createOrgRole ::
    "(string \<Rightarrow> json \<Rightarrow> json option) \<Rightarrow> string \<Rightarrow> json \<Rightarrow> role_payload \<Rightarrow> json svc" where
  "createOrgRole parse newId now p = andThen (permission_json (rp_permissions p)) (\<lambda>j.
     andThen (create_role_row newId p j) (\<lambda>_. role_result parse p now))"

definition updateOrgRole ::
    "(string \<Rightarrow> json \<Rightarrow> json option) \<Rightarrow> string \<Rightarrow> json \<Rightarrow> role_payload \<Rightarrow> json svc" where
  "updateOrgRole parse newId now p =
     andThen (call ''prisma.organizationRole.findFirst'' (role_where p)) (\<lambda>existing.
     andThen (permission_json (rp_permissions p)) (\<lambda>j.
     andThen (if truthy (Some existing)
        then call ''prisma.organizationRole.update'' (JObj
               [(''where'', jobj [(''id'', jget existing ''id'')]), (''data'', JObj [(''permission'', j)])])
        else create_role_row newId p j) (\<lambda>_.
     andThen (call ''prisma.organizationRole.findFirst'' (role_where p)) (\<lambda>updated.
     role_result parse p (nullish_or (jget updated ''createdAt'') now)))))"

definition deleteOrgRole :: "role_payload \<Rightarrow> json svc" where
  "deleteOrgRole p = andThen (call ''prisma.organizationRole.deleteMany'' (role_where p)) (\<lambda>_. ret success)"

definition role_row :: "(json option \<Rightarrow> json option) \<Rightarrow> json \<Rightarrow> json svc" where
  "role_row column row = andThen (rd row ''role'') (\<lambda>r. ret (jobj
     [(''role'', r), (''permissions'', Some (JArr (map JStr (orgPermissionJsonToKeys (column (jget row ''permission'')))))),
      (''createdAt'', jget row ''createdAt'')]))"

definition listOrgRoles ::
    "(string \<Rightarrow> json \<Rightarrow> json option) \<Rightarrow> (json option \<Rightarrow> json option) \<Rightarrow> string \<Rightarrow> json svc" where
  "listOrgRoles parse column organizationId =
     andThen (call ''prisma.organizationRole.findMany'' (JObj
        [(''where'', JObj [(''organizationId'', JStr organizationId)]), (''orderBy'', JObj [(''role'', JStr ''asc'')])]))
     (\<lambda>rows. andThen (elements rows) (\<lambda>rs. andThen (traverse (role_row column) rs) (\<lambda>roles.
        zod parse ''ListOrgRolesResponseSchema'' (JObj [(''roles'', JArr roles)]))))"

subsection \<open>Every operation settles\<close>

lemma only_simple_call: "P (Call f (JObj [(''body'', jobj kvs)])) \<Longrightarrow> only P (simple_call f kvs)"
  unfolding simple_call_def by (intro quiet_rules only_call)

lemma quiet_simple_call [quiet_rules]: "quiet (simple_call f kvs)"
  by (simp add: only_simple_call)

lemma quiet_count_of [quiet_rules]: "quiet (count_of counts k)"
  unfolding count_of_def by (intro quiet_rules)

lemma quiet_organization_row [quiet_rules]: "quiet (organization_row org)"
  unfolding organization_row_def by (intro quiet_rules)

lemma quiet_user_part [quiet_rules]: "quiet (user_part u)"
  unfolding user_part_def by (intro quiet_rules)

lemma quiet_team_part [quiet_rules]: "quiet (team_part now tms team)"
  unfolding team_part_def team_member_part_def by (intro quiet_rules)

lemma quiet_member_part [quiet_rules]: "quiet (member_part m)"
  unfolding member_part_def by (intro quiet_rules)

lemma quiet_invitation_part [quiet_rules]: "quiet (invitation_part users i)"
  unfolding invitation_part_def by (intro quiet_rules)

lemma quiet_find_in [quiet_rules]: "quiet (find_in f k ids opts)"
  unfolding find_in_def by (intro quiet_rules)

lemma quiet_organization_raw [quiet_rules]: "quiet (organization_raw stringify now res)"
  unfolding organization_raw_def list_field_def by (intro quiet_rules)

text \<open>The operations with the frame (the change of a member's role, which logs twice, is treated below).\<close>

definition org_operations ::
    "string list \<Rightarrow> (string \<Rightarrow> json \<Rightarrow> json option) \<Rightarrow> (string \<Rightarrow> json option) \<Rightarrow> (json \<Rightarrow> string) \<Rightarrow> json \<Rightarrow>
     string \<Rightarrow> json \<Rightarrow> (string \<times> json svc) list" where
  "org_operations base parse parse_json stringify now oid payload =
     [(''OrganizationsService.listOrganizations'', listOrganizations parse),
      (''OrganizationsService.getOrganization'', getOrganization base parse stringify now oid),
      (''OrganizationsService.createOrganization'', createOrganization base parse parse_json stringify payload),
      (''OrganizationsService.updateOrganization'', updateOrganization base parse parse_json stringify payload),
      (''OrganizationsService.deleteOrganization'', deleteOrganization base payload),
      (''OrganizationsService.addMember'', addMember base payload),
      (''OrganizationsService.removeMember'', removeMember base payload),
      (''OrganizationsService.createInvitation'', createInvitation base payload),
      (''OrganizationsService.cancelInvitation'', cancelInvitation base payload),
      (''OrganizationsService.createTeam'', createTeam base payload),
      (''OrganizationsService.updateTeam'', updateTeam base payload),
      (''OrganizationsService.removeTeam'', removeTeam base payload),
      (''OrganizationsService.addTeamMember'', addTeamMember base payload),
      (''OrganizationsService.removeTeamMember'', removeTeamMember base payload)]"

lemmas org_operation_defs = listOrganizations_def getOrganization_def createOrganization_def updateOrganization_def
  deleteOrganization_def addMember_def removeMember_def createInvitation_def cancelInvitation_def createTeam_def
  updateTeam_def removeTeam_def addTeamMember_def removeTeamMember_def

text \<open>
  Every operation of the organizations service settles. Whatever Better Auth and the database do,
  it writes exactly one start line and one end line; it returns exactly when the end line reports
  success, and when it fails it throws an application error, whose cause is the logged error
  (only a thrown null, which no library throws, gives another error).
\<close>

lemma org_operations_settle:
  "list_all (\<lambda>(name, op). reports name (fst (op w [])) (snd (op w [])))
     (org_operations base parse parse_json stringify now oid payload)"
proof -
  note rep = reports_logged [THEN yieldsD]
  show ?thesis
    unfolding org_operations_def list.pred_inject prod.case org_operation_defs
    by (intro conjI list.pred_inject(1) rep [OF infra_mapping.error_mapping_axioms]
        rep [OF auth_mapping.error_mapping_axioms] rep [OF keep_mapping.error_mapping_axioms] quiet_rules)
qed

subsection \<open>Changing a member's role\<close>

text \<open>The calls of a role change, in order; how far they get is the world's decision.\<close>

definition role_request :: "role_update \<Rightarrow> svc_event" where
  "role_request p = Call ''auth.updateMemberRole'' (JObj [(''body'', JObj
     [(''memberId'', JStr (ru_memberId p)), (''organizationId'', JStr (ru_organizationId p)),
      (''role'', JArr (map JStr (ru_roles p)))])])"

definition redirect_calls :: "role_update \<Rightarrow> json option \<Rightarrow> svc_event list" where
  "redirect_calls p userId =
     (let org = Some (JStr (ru_organizationId p));
          urls = (case ru_redirectUrls p of None \<Rightarrow> JObj [] | Some u \<Rightarrow> u);
          roles = filter (has_redirect urls) (ru_roles p)
      in [Call ''tx.begin'' JNull,
          Call ''tx.userOrgRoleRedirect.deleteMany'' (JObj [(''where'', jobj [(''userId'', userId), (''organizationId'', org)])])] @
         (if roles = [] then []
          else [Call ''tx.userOrgRoleRedirect.createMany'' (JObj [(''data'', JArr (map (redirect_row userId org urls) roles))])]) @
         [Call ''tx.commit'' JNull])"

definition member_request :: "role_update \<Rightarrow> svc_event" where
  "member_request p = Call ''prisma.member.findUnique'' (JObj [(''where'', JObj [(''id'', JStr (ru_memberId p))]), (''select'', selecting [''userId''])])"

lemma yields_call: "(\<And>r. Q r [Call f args]) \<Longrightarrow> yields w (call f args) Q"
  unfolding call_def
  by (rule yields_andThen [OF yields_ask [where Q = "\<lambda>r es. isl r = False \<and> es = [Call f args]"]])
    (auto intro!: yields_ret yields_throw split: svc_reply.splits)

lemma yields_call_then:
  assumes "\<And>e. Q (Inl e) [Call f args]" and "\<And>j. yields w (g j) (\<lambda>r fs. Q r (Call f args # fs))"
  shows "yields w (andThen (call f args) g) Q"
  by (rule yields_andThen [OF yields_call [where Q = "\<lambda>r es. es = [Call f args]"]]) (use assms in auto)

lemma yields_redirects:
  "yields w (update_redirects p) (\<lambda>r es. \<exists>userId. prefix es (member_request p # redirect_calls p userId))"
  unfolding update_redirects_def
proof (rule yields_call_then)
  fix member
  show "yields w (if \<not> truthy (Some member) then ret ()
     else persist_redirects (jget member ''userId'') (Some (JStr (ru_organizationId p))) (ru_roles p)
       (case ru_redirectUrls p of None \<Rightarrow> JObj [] | Some u \<Rightarrow> u))
     (\<lambda>r fs. \<exists>userId. prefix (Call ''prisma.member.findUnique''
        (JObj [(''where'', JObj [(''id'', JStr (ru_memberId p))]), (''select'', selecting [''userId''])]) # fs) (member_request p # redirect_calls p userId))"
    unfolding persist_redirects_def Let_def
    by (auto simp: member_request_def redirect_calls_def Let_def
        intro!: yields_ret yields_call_then exI [of _ "jget member ''userId''"])
qed (simp add: member_request_def)

lemma redirects_caught:
  "yields w (catching (update_redirects p) (\<lambda>e. log_line (LogError e) name))
     (\<lambda>r es. r = Inr () \<and> (\<exists>cs userId. prefix cs (member_request p # redirect_calls p userId) \<and>
        (es = cs \<or> (\<exists>e. es = cs @ [Log (LogError e) name]))))"
  unfolding log_line_def
  by (rule yields_catching [OF yields_redirects]) (auto intro!: yields_emit)

lemma member_role_outcome:
  "fst (updateMemberRole base p w []) =
     (case w [Log LogStart ''OrganizationsService.updateMemberRole'', role_request p] of
        Returned j \<Rightarrow> Inr success
      | Threw e \<Rightarrow> Inl (mapBetterAuthError base e ''Failed to update member role''))"
proof -
  have c: "\<exists>h'. catching (update_redirects p)
      (\<lambda>e. log_line (LogError e) ''OrganizationsService.updateMemberRole.persistRedirects'') w h = (Inr (), h')" for h
    using redirects_caught [of w p "''OrganizationsService.updateMemberRole.persistRedirects''"]
    unfolding yields_def by (metis prod.collapse)
  let ?h = "[Log LogStart ''OrganizationsService.updateMemberRole'', role_request p]"
  obtain h' where "catching (update_redirects p)
      (\<lambda>e. log_line (LogError e) ''OrganizationsService.updateMemberRole.persistRedirects'') w ?h = (Inr (), h')"
    using c by blast
  then show ?thesis
    by (cases "w ?h") (simp_all add: updateMemberRole_def logged_def log_line_def [of LogStart] log_line_def [of LogSuccess]
        log_line_def [of _ "''OrganizationsService.updateMemberRole''"] role_call_def call_def
        io_simps role_request_def map_auth_def)
qed

text \<open>
  A member's role change does not depend on the storing of redirect URLs. The operation succeeds
  exactly when Better Auth accepted the change, with the mapped error otherwise; whatever happens
  while the redirects are stored. Those are written in one transaction that first deletes all of the
  user's redirects in the organization and then creates one row for each new role with a URL: the
  calls made are a prefix of that sequence.
\<close>

lemma member_role_isolated:
  "fst (updateMemberRole base p w []) =
     (case w [Log LogStart ''OrganizationsService.updateMemberRole'', role_request p] of
        Returned j \<Rightarrow> Inr success
      | Threw e \<Rightarrow> Inl (mapBetterAuthError base e ''Failed to update member role'')) \<and>
   yields w (updateMemberRole base p) (\<lambda>r es.
     \<exists>rest. es = Log LogStart ''OrganizationsService.updateMemberRole'' # role_request p # rest \<and>
       (case r of
          Inr v \<Rightarrow> v = success \<and> (\<exists>userId. prefix (filter is_call rest) (member_request p # redirect_calls p userId))
        | Inl x \<Rightarrow> \<exists>e. x = mapBetterAuthError base e ''Failed to update member role'' \<and>
            rest = [Log (LogError e) ''OrganizationsService.updateMemberRole'']))"
proof -
  let ?n = "''OrganizationsService.updateMemberRole''"
  let ?P = "\<lambda>r es. (\<exists>e. r = Inl e \<and> es = [role_request p]) \<or>
    (\<exists>rest userId. r = Inr success \<and> es = role_request p # rest \<and>
       prefix (filter is_call rest) (member_request p # redirect_calls p userId))"
  have calls: "filter is_call cs = cs" if "prefix cs (member_request p # redirect_calls p userId)" for cs userId
  proof -
    have "list_all is_call (member_request p # redirect_calls p userId)"
      by (simp add: member_request_def redirect_calls_def Let_def)
    moreover from that obtain zs where "member_request p # redirect_calls p userId = cs @ zs"
      by (auto simp: prefix_def)
    ultimately have "list_all is_call (cs @ zs)" by (simp only:)
    then show ?thesis by (simp add: filter_id_conv list_all_iff)
  qed
  have body: "yields w (andThen (role_call p) (\<lambda>_. andThen (catching (update_redirects p)
      (\<lambda>e. log_line (LogError e) ''OrganizationsService.updateMemberRole.persistRedirects'')) (\<lambda>_. ret success))) ?P"
    unfolding role_call_def
    by (rule yields_call_then)
      (auto simp: role_request_def calls intro!: yields_andThen [OF redirects_caught] yields_ret)
  show ?thesis
  proof (rule conjI [OF member_role_outcome])
    show "yields w (updateMemberRole base p) (\<lambda>r es.
     \<exists>rest. es = Log LogStart ?n # role_request p # rest \<and>
       (case r of
          Inr v \<Rightarrow> v = success \<and> (\<exists>userId. prefix (filter is_call rest) (member_request p # redirect_calls p userId))
        | Inl x \<Rightarrow> \<exists>e. x = mapBetterAuthError base e ''Failed to update member role'' \<and> rest = [Log (LogError e) ?n]))"
    unfolding updateMemberRole_def logged_def log_line_def [of LogStart] map_auth_def
    by (intro yields_emit_then yields_catching [OF yields_andThen [OF body, where Q = "\<lambda>r es.
        (\<exists>e. r = Inl e \<and> es = [role_request p]) \<or>
        (\<exists>rest userId. r = Inr success \<and> es = role_request p # rest \<and>
          prefix (filter is_call rest) (member_request p # redirect_calls p userId))"]])
      (auto simp: log_line_def intro!: yields_emit_then yields_throw yields_ret)
  qed
qed

end
