(* ===== verification/Iam_Roles.thy ===== *)
theory Iam_Roles
  imports Iam_Orgs
begin

text \<open>
  The roles of organizations as a table. The operations of the organizations service on it are sequences
  of calls; here the calls are given the documented meaning of the database client on the rows
  (create, update by id, deletion by a condition, the first row that satisfies a condition), and the
  effect of the operations on the permissions that the roles grant is stated.
\<close>

record role_rec =
  rr_id :: string
  rr_org :: string
  rr_role :: string
  rr_perm :: json

text \<open>A nested field of the arguments of a call.\<close>

fun dig :: "json \<Rightarrow> string list \<Rightarrow> json option" where
  "dig j [] = Some j"
| "dig j (k # ks) = (case jget j k of None \<Rightarrow> None | Some v \<Rightarrow> dig v ks)"

definition text_at :: "json \<Rightarrow> string list \<Rightarrow> string" where
  "text_at j ks = (case dig j ks of Some (JStr s) \<Rightarrow> s | _ \<Rightarrow> [])"

definition where_matches :: "json \<Rightarrow> role_rec \<Rightarrow> bool" where
  "where_matches args r = (text_at args [''where'', ''organizationId''] = rr_org r \<and>
     text_at args [''where'', ''role''] = rr_role r)"

definition table_call :: "string \<Rightarrow> json \<Rightarrow> role_rec list \<Rightarrow> role_rec list" where
  "table_call f args rows =
     (if f = ''prisma.organizationRole.create'' then
        rows @ [\<lparr>rr_id = text_at args [''data'', ''id''], rr_org = text_at args [''data'', ''organizationId''],
          rr_role = text_at args [''data'', ''role''], rr_perm = or_null (dig args [''data'', ''permission''])\<rparr>]
      else if f = ''prisma.organizationRole.update'' then
        map (\<lambda>r. if rr_id r = text_at args [''where'', ''id'']
          then r\<lparr>rr_perm := or_null (dig args [''data'', ''permission''])\<rparr> else r) rows
      else if f = ''prisma.organizationRole.deleteMany'' then filter (\<lambda>r. \<not> where_matches args r) rows
      else rows)"

fun table_event :: "svc_event \<Rightarrow> role_rec list \<Rightarrow> role_rec list" where
  "table_event (Call f args) rows = table_call f args rows"
| "table_event (Log st name) rows = rows"

definition rows_after :: "svc_event list \<Rightarrow> role_rec list \<Rightarrow> role_rec list" where
  "rows_after es rows = fold table_event es rows"

definition row_json :: "role_rec \<Rightarrow> json" where
  "row_json r = JObj [(''id'', JStr (rr_id r)), (''organizationId'', JStr (rr_org r)), (''role'', JStr (rr_role r)),
     (''permission'', rr_perm r)]"

text \<open>The database answers from the rows as the calls so far left them.\<close>

definition role_world :: "role_rec list \<Rightarrow> (svc_event, svc_reply) world" where
  "role_world rows h = (case last h of
     Call f args \<Rightarrow> Returned (if f = ''prisma.organizationRole.findFirst''
        then (case find (where_matches args) (rows_after (butlast h) rows) of None \<Rightarrow> JNull | Some r \<Rightarrow> row_json r)
        else JObj [])
   | Log st name \<Rightarrow> Returned JNull)"

text \<open>What a role of an organization grants.\<close>

definition granted :: "role_rec list \<Rightarrow> string \<Rightarrow> string \<Rightarrow> string set" where
  "granted rows org role = (\<Union>r \<in> set (filter (\<lambda>r. rr_org r = org \<and> rr_role r = role) rows).
     set (orgPermissionJsonToKeys (Some (rr_perm r))))"

definition unique_roles :: "role_rec list \<Rightarrow> bool" where
  "unique_roles rows = (distinct (map rr_id rows) \<and> distinct (map (\<lambda>r. (rr_org r, rr_role r)) rows))"

lemma granted_append: "granted (xs @ ys) org role = granted xs org role \<union> granted ys org role"
  by (auto simp: granted_def)

lemma granted_Cons: "granted (r # rows) org role =
    (if rr_org r = org \<and> rr_role r = role then set (orgPermissionJsonToKeys (Some (rr_perm r))) else {}) \<union> granted rows org role"
  by (auto simp: granted_def)

subsection \<open>The run of an update\<close>

lemma text_at_simps [simp]:
  "text_at j [] = (case j of JStr s \<Rightarrow> s | _ \<Rightarrow> [])"
  "text_at j (k # ks) = (case jget j k of None \<Rightarrow> [] | Some v \<Rightarrow> text_at v ks)"
  by (auto simp: text_at_def split: json.splits option.splits)

lemma where_role_where [simp]:
  "where_matches (role_where p) r \<longleftrightarrow> rr_org r = rp_organizationId p \<and> rr_role r = rp_role p"
  by (auto simp: where_matches_def role_where_def)

definition matching :: "role_payload \<Rightarrow> role_rec list \<Rightarrow> role_rec option" where
  "matching p rows = find (\<lambda>r. rr_org r = rp_organizationId p \<and> rr_role r = rp_role p) rows"

lemma find_append: "find P (xs @ ys) = (case find P xs of None \<Rightarrow> find P ys | Some x \<Rightarrow> Some x)"
  by (induction xs) auto

lemma find_where [simp]: "find (where_matches (role_where p)) rows = matching p rows"
proof -
  have "where_matches (role_where p) = (\<lambda>r. rr_org r = rp_organizationId p \<and> rr_role r = rp_role p)"
    by (rule ext) simp
  then show ?thesis by (simp add: matching_def)
qed

text \<open>The update of one row, which changes nothing but the permissions.\<close>

definition set_perm :: "role_rec \<Rightarrow> json \<Rightarrow> role_rec \<Rightarrow> role_rec" where
  "set_perm e j r = (if rr_id r = rr_id e then r\<lparr>rr_perm := j\<rparr> else r)"

lemma set_perm_simps [simp]:
  "rr_id (set_perm e j r) = rr_id r"
  "rr_org (set_perm e j r) = rr_org r"
  "rr_role (set_perm e j r) = rr_role r"
  by (simp_all add: set_perm_def)

lemma set_perm_other: "rr_id r \<noteq> rr_id e \<Longrightarrow> set_perm e j r = r"
  by (simp add: set_perm_def)

text \<open>The rows that an update leaves behind.\<close>

definition updated_rows :: "string \<Rightarrow> role_payload \<Rightarrow> json \<Rightarrow> role_rec list \<Rightarrow> role_rec list" where
  "updated_rows newId p j rows = (case matching p rows of
     Some e \<Rightarrow> map (set_perm e j) rows
   | None \<Rightarrow> rows @ [\<lparr>rr_id = newId, rr_org = rp_organizationId p, rr_role = rp_role p, rr_perm = j\<rparr>])"

lemma zod_events: "snd (zod parse s v w h) = h"
  by (simp add: zod_def io_simps split: option.split)

lemma json_not_null: "orgPermissionKeysToJson keys = Some j \<Longrightarrow> j \<noteq> JNull"
  by (auto simp: orgPermissionKeysToJson_def)

lemma update_rows:
  assumes "orgPermissionKeysToJson (rp_permissions p) = Some j"
  shows "rows_after (snd (updateOrgRole parse newId now p (role_world rows) [])) rows = updated_rows newId p j rows"
proof -
  have j: "nullish_or (Some j) JNull = j" using json_not_null [OF assms] by (simp add: nullish_or_cases)
  show ?thesis
  proof (cases "matching p rows")
    case None
    then show ?thesis
      by (simp add: updateOrgRole_def permission_json_def assms call_def io_simps role_world_def rows_after_def
          table_call_def create_role_row_def role_result_def zod_events updated_rows_def None or_null_def j)
  next
    case (Some e)
    then show ?thesis
      by (simp add: updateOrgRole_def permission_json_def assms call_def io_simps role_world_def rows_after_def
          table_call_def role_result_def zod_events updated_rows_def Some or_null_def j row_json_def jobj_def
          map_filter_simps set_perm_def [abs_def])
  qed
qed

lemma matching_None: "matching p rows = None \<Longrightarrow> r \<in> set rows \<Longrightarrow>
    \<not> (rr_org r = rp_organizationId p \<and> rr_role r = rp_role p)"
  by (auto simp: matching_def find_None_iff)

lemma matching_Some: "matching p rows = Some e \<Longrightarrow>
    e \<in> set rows \<and> rr_org e = rp_organizationId p \<and> rr_role e = rp_role p"
  by (auto simp: matching_def find_Some_iff)

lemma granted_none: "matching p rows = None \<Longrightarrow> granted rows (rp_organizationId p) (rp_role p) = {}"
  using matching_None by (fastforce simp: granted_def)

text \<open>With unique ids and unique roles, exactly one row changes, and it is the role's only one.\<close>

lemma granted_updated_some:
  assumes "unique_roles rows" and "matching p rows = Some e"
  shows "granted (map (set_perm e j) rows) org role =
    (if org = rp_organizationId p \<and> role = rp_role p then set (orgPermissionJsonToKeys (Some j)) else granted rows org role)"
proof -
  have e: "e \<in> set rows" "rr_org e = rp_organizationId p" "rr_role e = rp_role p"
    using matching_Some [OF assms(2)] by auto
  have id: "r = e" if "r \<in> set rows" "rr_id r = rr_id e" for r
    using assms(1) that e(1) by (auto simp: unique_roles_def distinct_map dest: inj_onD)
  have key: "r = e" if "r \<in> set rows" "rr_org r = rp_organizationId p" "rr_role r = rp_role p" for r
    using assms(1) that e by (auto simp: unique_roles_def distinct_map dest!: inj_onD [of _ _ r e])
  let ?P = "\<lambda>r. rr_org r = org \<and> rr_role r = role"
  let ?g = "\<lambda>r. set (orgPermissionJsonToKeys (Some (rr_perm r)))"
  have g: "granted (map (set_perm e j) rows) org role = (\<Union>r \<in> {r \<in> set rows. ?P r}. ?g (set_perm e j r))"
    by (auto simp: granted_def filter_map comp_def)
  show ?thesis
  proof (cases "org = rp_organizationId p \<and> role = rp_role p")
    case True
    with e key have "{r \<in> set rows. ?P r} = {e}" by blast
    then show ?thesis unfolding g using True by (simp add: set_perm_def)
  next
    case False
    with e id have "set_perm e j r = r" if "r \<in> set rows" "?P r" for r
      using that by (intro set_perm_other) auto
    then have "granted (map (set_perm e j) rows) org role = granted rows org role"
      by (simp add: g) (simp add: granted_def)
    with False show ?thesis by auto
  qed
qed

lemma unique_updated:
  assumes "unique_roles rows" and "newId \<notin> rr_id ` set rows"
  shows "unique_roles (updated_rows newId p j rows)"
proof (cases "matching p rows")
  case None
  with matching_None have "\<forall>r \<in> set rows. \<not> (rr_org r = rp_organizationId p \<and> rr_role r = rp_role p)" by blast
  with None assms show ?thesis
    by (force simp: unique_roles_def updated_rows_def image_iff)
next
  case (Some e)
  with assms show ?thesis by (simp add: unique_roles_def updated_rows_def comp_def)
qed

text \<open>
  C22: updating a role replaces what it grants, and nothing else. When each role of an organization has
  one row, then after the update (which creates the row when there is none) the role grants exactly
  the given keys that have a resource, every other role of every organization grants what it did,
  and each role still has one row.
\<close>

theorem role_update_effective:
  assumes "unique_roles rows" and "storable (rp_permissions p)" and "newId \<notin> rr_id ` set rows"
    and "rows' = rows_after (snd (updateOrgRole parse newId now p (role_world rows) [])) rows"
  shows "unique_roles rows' \<and> granted rows' org role =
    (if org = rp_organizationId p \<and> role = rp_role p then set (filter valid_key (rp_permissions p))
     else granted rows org role)"
proof -
  obtain j where j: "orgPermissionKeysToJson (rp_permissions p) = Some j"
    "set (orgPermissionJsonToKeys (Some j)) = set (filter valid_key (rp_permissions p))"
    using storable_json [OF assms(2)] by blast
  have rows': "rows' = updated_rows newId p j rows" using assms(4) update_rows [OF j(1)] by simp
  have "granted rows' org role = (if org = rp_organizationId p \<and> role = rp_role p
      then set (filter valid_key (rp_permissions p)) else granted rows org role)"
  proof (cases "matching p rows")
    case None
    have "granted [] org role = {}" by (simp add: granted_def)
    with None granted_none [OF None] j(2) show ?thesis
      by (simp add: rows' updated_rows_def granted_append granted_Cons)
  next
    case (Some e)
    with granted_updated_some [OF assms(1) Some] j(2) show ?thesis
      by (simp add: rows' updated_rows_def)
  qed
  with unique_updated [OF assms(1,3)] show ?thesis by (simp add: rows')
qed

definition owner_row :: role_rec where
  "owner_row = \<lparr>rr_id = ''1'', rr_org = ''o'', rr_role = ''owner'', rr_perm = JObj [(''files'', JArr [JStr ''read''])]\<rparr>"

definition revoke_owner :: role_payload where
  "revoke_owner = \<lparr>rp_organizationId = ''o'', rp_role = ''owner'', rp_permissions = []\<rparr>"

lemma role_update_effective_witness:
  "granted (rows_after (snd (updateOrgRole (\<lambda>s v. Some v) ''2'' JNull revoke_owner (role_world [owner_row]) [])) [owner_row])
     ''o'' ''owner'' = {}"
  using role_update_effective [of "[owner_row]" revoke_owner "''2''" _ "\<lambda>s v. Some v" JNull "''o''" "''owner''", OF _ _ _ refl]
  by (simp add: unique_roles_def storable_def owner_row_def revoke_owner_def)

text \<open>
  Creating a role that exists makes its permissions irrevocable by updates. \<^verbatim>\<open>createOrgRole\<close> inserts a
  second row without looking for the first (every organization starts with an \<^verbatim>\<open>owner\<close> row, and the table
  has no unique index on organization and role); from then on an update changes one of the two, and
  whatever it grants, the keys of the second creation stay granted.
\<close>

lemma duplicate_role_survives:
  assumes "matching p rows \<noteq> None" and "newId \<notin> rr_id ` set rows"
    and "storable (rp_permissions p)" and "storable (rp_permissions q)"
    and "rp_organizationId q = rp_organizationId p" and "rp_role q = rp_role p"
    and "rows1 = rows_after (snd (createOrgRole parse newId now p (role_world rows) [])) rows"
    and "rows2 = rows_after (snd (updateOrgRole parse newId2 now q (role_world rows1) [])) rows1"
  shows "\<not> unique_roles rows1 \<and>
    set (filter valid_key (rp_permissions p)) \<subseteq> granted rows2 (rp_organizationId p) (rp_role p)"
proof -
  obtain j where j: "orgPermissionKeysToJson (rp_permissions p) = Some j"
    "set (orgPermissionJsonToKeys (Some j)) = set (filter valid_key (rp_permissions p))"
    using storable_json [OF assms(3)] by blast
  obtain k where k: "orgPermissionKeysToJson (rp_permissions q) = Some k"
    using storable_json [OF assms(4)] by blast
  let ?new = "\<lparr>rr_id = newId, rr_org = rp_organizationId p, rr_role = rp_role p, rr_perm = j\<rparr>"
  obtain e where e: "matching p rows = Some e" using assms(1) by blast
  have nj: "nullish_or (Some j) JNull = j" using json_not_null [OF j(1)] by (simp add: nullish_or_cases)
  have rows1: "rows1 = rows @ [?new]"
    by (simp add: assms(7) createOrgRole_def permission_json_def j(1) call_def io_simps role_world_def rows_after_def
        table_call_def create_role_row_def role_result_def zod_events or_null_def nj)
  have m: "matching q rows1 = Some e"
    using e by (simp add: matching_def rows1 assms(5,6) find_append)
  have new: "newId \<noteq> rr_id e" using assms(2) matching_Some [OF e] by blast
  have rows2: "rows2 = map (set_perm e k) rows @ [?new]"
    using new m [unfolded rows1]
    by (auto simp: assms(8) update_rows [OF k] updated_rows_def rows1 set_perm_other)
  have "\<not> unique_roles rows1"
    using matching_Some [OF e] by (force simp: unique_roles_def rows1 image_iff)
  moreover have "set (filter valid_key (rp_permissions p)) \<subseteq> granted rows2 (rp_organizationId p) (rp_role p)"
    using j(2) by (auto simp: rows2 granted_append granted_Cons)
  ultimately show ?thesis ..
qed

definition again_owner :: role_payload where
  "again_owner = \<lparr>rp_organizationId = ''o'', rp_role = ''owner'', rp_permissions = [''files:upload'']\<rparr>"

lemma duplicate_role_survives_witness:
  "let rows1 = rows_after (snd (createOrgRole (\<lambda>s v. Some v) ''2'' JNull again_owner (role_world [owner_row]) [])) [owner_row];
       rows2 = rows_after (snd (updateOrgRole (\<lambda>s v. Some v) ''3'' JNull revoke_owner (role_world rows1) [])) rows1
   in ''files:upload'' \<in> granted rows2 ''o'' ''owner''"
proof -
  have key: "set (filter valid_key (rp_permissions again_owner)) = {''files:upload''}"
    by (simp add: again_owner_def valid_key_def split_key_def)
  have "matching again_owner [owner_row] \<noteq> None" "storable (rp_permissions again_owner)"
    "storable (rp_permissions revoke_owner)" "rp_organizationId revoke_owner = rp_organizationId again_owner"
    "rp_role revoke_owner = rp_role again_owner" "''2'' \<notin> rr_id ` set [owner_row]"
    by (simp_all add: matching_def storable_def owner_row_def revoke_owner_def again_owner_def split_key_def prototype_keys_def)
  from duplicate_role_survives [OF this(1,6,2,3,4,5) refl refl] key
  show ?thesis by (simp add: Let_def again_owner_def)
qed

end
