(* ===== verification/Iam_Services.thy ===== *)
theory Iam_Services
  imports Iam_Orgs
begin

text \<open>
  The administration services that stand between the identity service and Better Auth
  (\<^verbatim>\<open>iam/src/modules/server/core/admin/infrastructure/services/\<close>: users, sessions, consents, OAuth clients,
  agents and hosts, API keys). Each operation passes a body or a query on, validates the answer with a
  Zod schema (\<open>parse\<close>, by name) and maps errors; \<open>base\<close> are Better Auth's own error codes. The request's
  headers, which every call of Better Auth carries unchanged, are left out.
\<close>

subsection \<open>Common steps\<close>

definition body :: "(string \<times> json option) list \<Rightarrow> json" where
  "body kvs = JObj [(''body'', jobj kvs)]"

definition query_of :: "(string \<times> json option) list \<Rightarrow> json" where
  "query_of kvs = JObj [(''query'', jobj kvs)]"

text \<open>Validation of a field of the answer; the schemas used for it are object schemas, which reject undefined.\<close>

definition zod_of :: "(string \<Rightarrow> json \<Rightarrow> json option) \<Rightarrow> string \<Rightarrow> json option \<Rightarrow> json svc" where
  "zod_of parse s v = (case v of None \<Rightarrow> throw (JsError None ''ZodError'') | Some j \<Rightarrow> zod parse s j)"

text \<open>A call of Better Auth, and the whole answer, one of its fields, or nothing of it validated or copied.\<close>

definition parsed_call :: "(string \<Rightarrow> json \<Rightarrow> json option) \<Rightarrow> string \<Rightarrow> json \<Rightarrow> string \<Rightarrow> json svc" where
  "parsed_call parse f args schema = andThen (call f args) (zod parse schema)"

definition parsed_field :: "(string \<Rightarrow> json \<Rightarrow> json option) \<Rightarrow> string \<Rightarrow> json \<Rightarrow> string \<Rightarrow> string \<Rightarrow> json svc" where
  "parsed_field parse f args k schema = andThen (call f args) (\<lambda>res. andThen (rd res k) (zod_of parse schema))"

definition copied_field :: "string \<Rightarrow> json \<Rightarrow> string \<Rightarrow> json svc" where
  "copied_field f args k = andThen (call f args) (\<lambda>res. andThen (rd res k) (\<lambda>v. ret (jobj [(k, v)])))"

text \<open>\<^verbatim>\<open>{ ...j, k: undefined }\<close>, where the key is dropped from what is sent.\<close>

definition spread_opt :: "json \<Rightarrow> (string \<times> json option) list \<Rightarrow> json" where
  "spread_opt j kvs = JObj (fold (\<lambda>(k, v) os. case v of Some x \<Rightarrow> put k x os | None \<Rightarrow> filter (\<lambda>e. fst e \<noteq> k) os)
     kvs (own_entries j))"

text \<open>\<^verbatim>\<open>v ?? undefined\<close> and \<^verbatim>\<open>xs?.length ? xs : undefined\<close>.\<close>

definition non_null :: "json option \<Rightarrow> json option" where
  "non_null v = (if v = Some JNull then None else v)"

definition non_empty_list :: "json option \<Rightarrow> json option" where
  "non_empty_list v = (case v of Some (JArr (x # xs)) \<Rightarrow> v | Some (JStr (c # s)) \<Rightarrow> v | _ \<Rightarrow> None)"

subsection \<open>Users\<close>

definition getUsers :: "string list \<Rightarrow> (string \<Rightarrow> json \<Rightarrow> json option) \<Rightarrow> json svc" where
  "getUsers base parse = logged ''UsersService.getUsers'' (map_auth base ''Failed to list users'')
     (parsed_call parse ''auth.listUsers'' (query_of []) ''GetUsersResponseDtoSchema'')"

text \<open>\<^verbatim>\<open>res?.users?.[0]\<close>.\<close>

definition first_user :: "json \<Rightarrow> json option" where
  "first_user res = (case jget res ''users'' of
     Some (JArr (u # us)) \<Rightarrow> Some u
   | Some (JStr (c # s)) \<Rightarrow> Some (JStr [c])
   | Some (JObj kvs) \<Rightarrow> map_of kvs ''0''
   | _ \<Rightarrow> None)"

definition getUserByEmail :: "string list \<Rightarrow> (string \<Rightarrow> json \<Rightarrow> json option) \<Rightarrow> string \<Rightarrow> json svc" where
  "getUserByEmail base parse email =
     logged ''UsersService.getUserByEmail'' (map_auth base (''No user found with email: '' @ email))
     (andThen (call ''auth.listUsers'' (query_of [(''searchValue'', Some (JStr email)),
         (''searchField'', Some (JStr ''email'')), (''limit'', Some (JInt 1))])) (\<lambda>res.
      if truthy (first_user res) then zod_of parse ''UserSchema'' (first_user res)
      else throw (JsError None (''No user found with email: '' @ email))))"

definition createUser :: "string list \<Rightarrow> (string \<Rightarrow> json \<Rightarrow> json option) \<Rightarrow> json \<Rightarrow> json svc" where
  "createUser base parse payload = logged ''UsersService.createUser'' (map_auth base ''Failed to create user'')
     (parsed_field parse ''auth.createUser'' (body
        [(''name'', jget payload ''name''), (''email'', jget payload ''email''), (''password'', jget payload ''password''),
         (''role'', jget payload ''role''), (''username'', nonempty (jget payload ''username''))]) ''user'' ''UserSchema'')"

definition updateUser :: "string list \<Rightarrow> (string \<Rightarrow> json \<Rightarrow> json option) \<Rightarrow> json \<Rightarrow> json svc" where
  "updateUser base parse payload = logged ''UsersService.updateUser'' (map_auth base ''Failed to update user'')
     (parsed_call parse ''auth.adminUpdateUser''
        (body [(''userId'', jget payload ''userId''), (''data'', jget payload ''data'')]) ''UserSchema'')"

definition setUserRole :: "string list \<Rightarrow> (string \<Rightarrow> json \<Rightarrow> json option) \<Rightarrow> json \<Rightarrow> json svc" where
  "setUserRole base parse payload = logged ''UsersService.setUserRole'' (map_auth base ''Failed to set user role'')
     (parsed_field parse ''auth.setRole''
        (body [(''userId'', jget payload ''userId''), (''role'', jget payload ''role'')]) ''user'' ''UserSchema'')"

definition banUser :: "string list \<Rightarrow> (string \<Rightarrow> json \<Rightarrow> json option) \<Rightarrow> json \<Rightarrow> json svc" where
  "banUser base parse payload = logged ''UsersService.banUser'' (map_auth base ''Failed to ban user'')
     (parsed_field parse ''auth.banUser'' (body [(''userId'', jget payload ''userId''),
         (''banReason'', jget payload ''banReason''), (''banExpiresIn'', jget payload ''banExpiresIn'')]) ''user'' ''UserSchema'')"

definition unbanUser :: "string list \<Rightarrow> (string \<Rightarrow> json \<Rightarrow> json option) \<Rightarrow> json \<Rightarrow> json svc" where
  "unbanUser base parse payload = logged ''UsersService.unbanUser'' (map_auth base ''Failed to unban user'')
     (parsed_field parse ''auth.unbanUser'' (body [(''userId'', jget payload ''userId'')]) ''user'' ''UserSchema'')"

definition removeUser :: "string list \<Rightarrow> json \<Rightarrow> json svc" where
  "removeUser base payload = logged ''UsersService.removeUser'' (map_auth base ''Failed to remove user'')
     (copied_field ''auth.removeUser'' (body [(''userId'', jget payload ''userId'')]) ''success'')"

definition setUserPassword :: "string list \<Rightarrow> json \<Rightarrow> json svc" where
  "setUserPassword base payload = logged ''UsersService.setUserPassword'' (map_auth base ''Failed to set user password'')
     (copied_field ''auth.setUserPassword'' (body [(''userId'', jget payload ''userId''),
         (''newPassword'', jget payload ''newPassword'')]) ''status'')"

definition revokeUserSessions :: "string list \<Rightarrow> json \<Rightarrow> json svc" where
  "revokeUserSessions base payload =
     logged ''UsersService.revokeUserSessions'' (map_auth base ''Failed to revoke user sessions'')
     (copied_field ''auth.revokeUserSessions'' (body [(''userId'', jget payload ''userId'')]) ''success'')"

definition impersonateUser :: "string list \<Rightarrow> (string \<Rightarrow> json \<Rightarrow> json option) \<Rightarrow> json \<Rightarrow> json svc" where
  "impersonateUser base parse payload = logged ''UsersService.impersonateUser'' (map_auth base ''Failed to impersonate user'')
     (andThen (call ''auth.impersonateUser'' (body [(''userId'', jget payload ''userId'')])) (\<lambda>res.
      andThen (rd res ''user'') (\<lambda>u. andThen (zod_of parse ''UserSchema'' u) (\<lambda>user.
      ret (jobj [(''session'', jget res ''session''), (''user'', Some user)])))))"

subsection \<open>Sessions\<close>

definition getAllSessions :: "string list \<Rightarrow> (string \<Rightarrow> json \<Rightarrow> json option) \<Rightarrow> json svc" where
  "getAllSessions base parse = logged ''SessionsService.getAllSessions'' (map_auth base ''Failed to get all sessions'')
     (andThen (call ''prisma.session.findMany'' (JObj
         [(''include'', JObj [(''user'', JObj [(''select'', selecting [''id'', ''name'', ''email'', ''image'', ''role''])])]),
          (''orderBy'', JObj [(''createdAt'', JStr ''desc'')])])) (\<lambda>sessions.
      zod parse ''GetAllSessionsResponseDtoSchema'' (JObj [(''sessions'', sessions)])))"

definition revokeUserSession :: "string list \<Rightarrow> json \<Rightarrow> json svc" where
  "revokeUserSession base payload =
     logged ''SessionsService.revokeUserSession'' (map_auth base ''Failed to revoke user session'')
     (copied_field ''auth.revokeUserSession'' (body [(''sessionToken'', jget payload ''sessionToken'')]) ''success'')"

definition revokeAllSessions :: "string list \<Rightarrow> json svc" where
  "revokeAllSessions base = logged ''SessionsService.revokeAllSessions'' (map_auth base ''Failed to revoke all sessions'')
     (andThen (call ''prisma.session.deleteMany'' (JObj [])) (\<lambda>result. andThen (rd result ''count'') (\<lambda>n.
      ret (jobj [(''success'', Some (JBool True)), (''count'', n)]))))"

subsection \<open>Consents\<close>

definition listConsents :: "string list \<Rightarrow> (string \<Rightarrow> json \<Rightarrow> json option) \<Rightarrow> json svc" where
  "listConsents base parse = logged ''ConsentsService.listConsents'' (map_auth base ''Failed to list consents'')
     (parsed_call parse ''auth.getOAuthConsents'' (JObj []) ''ListConsentsResponseSchema'')"

definition getConsent :: "string list \<Rightarrow> (string \<Rightarrow> json \<Rightarrow> json option) \<Rightarrow> json \<Rightarrow> json svc" where
  "getConsent base parse payload = logged ''ConsentsService.getConsent'' (map_auth base ''Failed to get consent'')
     (parsed_call parse ''auth.getOAuthConsent'' (query_of [(''id'', jget payload ''id'')]) ''ConsentSchema'')"

definition updateConsentScopes :: "string list \<Rightarrow> (string \<Rightarrow> json \<Rightarrow> json option) \<Rightarrow> json \<Rightarrow> json svc" where
  "updateConsentScopes base parse payload =
     logged ''ConsentsService.updateConsentScopes'' (map_auth base ''Failed to update consent scopes'')
     (parsed_call parse ''auth.updateOAuthConsent'' (body [(''id'', jget payload ''id''),
         (''update'', Some (jobj [(''scopes'', jget payload ''scopes'')]))]) ''ConsentSchema'')"

definition deleteConsent :: "string list \<Rightarrow> json \<Rightarrow> json svc" where
  "deleteConsent base payload = logged ''ConsentsService.deleteConsent'' (map_auth base ''Failed to delete consent'')
     (simple_call ''auth.deleteOAuthConsent'' [(''id'', jget payload ''id'')])"

subsection \<open>OAuth clients\<close>

definition createOAuthClient :: "string list \<Rightarrow> (string \<Rightarrow> json \<Rightarrow> json option) \<Rightarrow> json \<Rightarrow> json svc" where
  "createOAuthClient base parse payload =
     logged ''OAuthClientService.createOAuthClient'' (map_auth base ''Failed to create OAuth client'')
     (parsed_call parse ''auth.adminCreateOAuthClient'' (JObj [(''body'', spread_opt payload
        [(''contacts'', non_empty_list (jget payload ''contacts'')),
         (''post_logout_redirect_uris'', non_empty_list (jget payload ''post_logout_redirect_uris''))])])
        ''CreateOAuthClientResponseDtoSchema'')"

definition updateOAuthClient :: "string list \<Rightarrow> (string \<Rightarrow> json \<Rightarrow> json option) \<Rightarrow> json \<Rightarrow> json svc" where
  "updateOAuthClient base parse payload =
     logged ''OAuthClientService.updateOAuthClient'' (map_auth base ''Failed to update OAuth client'')
     (andThen (rd_of (jget payload ''update'') ''contacts'') (\<lambda>contacts.
      andThen (rd_of (jget payload ''update'') ''post_logout_redirect_uris'') (\<lambda>uris.
      parsed_call parse ''auth.adminUpdateOAuthClient'' (body [(''client_id'', jget payload ''client_id''),
         (''update'', Some (spread_opt (the (jget payload ''update''))
            [(''contacts'', non_empty_list contacts), (''post_logout_redirect_uris'', non_empty_list uris)]))])
        ''GetOAuthClientResponseDtoSchema'')))"

definition deleteOAuthClient :: "string list \<Rightarrow> json \<Rightarrow> json svc" where
  "deleteOAuthClient base payload =
     logged ''OAuthClientService.deleteOAuthClient'' (map_auth base ''Failed to delete OAuth client'')
     (simple_call ''auth.deleteOAuthClient'' [(''client_id'', jget payload ''client_id'')])"

definition getOAuthClient :: "string list \<Rightarrow> (string \<Rightarrow> json \<Rightarrow> json option) \<Rightarrow> json \<Rightarrow> json svc" where
  "getOAuthClient base parse payload =
     logged ''OAuthClientService.getOAuthClient'' (map_auth base ''Failed to get OAuth client'')
     (parsed_call parse ''auth.getOAuthClient'' (query_of [(''client_id'', jget payload ''client_id'')]) ''GetOAuthClientResponseDtoSchema'')"

definition rotateClientSecret :: "string list \<Rightarrow> (string \<Rightarrow> json \<Rightarrow> json option) \<Rightarrow> json \<Rightarrow> json svc" where
  "rotateClientSecret base parse payload =
     logged ''OAuthClientService.rotateClientSecret'' (map_auth base ''Failed to rotate client secret'')
     (parsed_call parse ''auth.rotateClientSecret'' (body [(''client_id'', jget payload ''client_id'')]) ''GetOAuthClientResponseDtoSchema'')"

definition getOAuthClients :: "string list \<Rightarrow> (string \<Rightarrow> json \<Rightarrow> json option) \<Rightarrow> json svc" where
  "getOAuthClients base parse =
     logged ''OAuthClientService.getOAuthClients'' (map_auth base ''Failed to list OAuth clients'')
     (parsed_call parse ''auth.getOAuthClients'' (JObj []) ''GetOAuthClientsResponseDtoSchema'')"

subsection \<open>Agents and hosts\<close>

definition listAgents :: "string list \<Rightarrow> (string \<Rightarrow> json \<Rightarrow> json option) \<Rightarrow> json svc" where
  "listAgents base parse =
     logged ''AgentAuthService.listAgents'' (map_auth base ''Failed to list agents'')
     (parsed_call parse ''auth.listAgents'' (query_of []) ''ListAgentsResponseDtoSchema'')"

definition registerAgent :: "string list \<Rightarrow> (string \<Rightarrow> json \<Rightarrow> json option) \<Rightarrow> json \<Rightarrow> json svc" where
  "registerAgent base parse payload =
     logged ''AgentAuthService.registerAgent'' (map_auth base ''Failed to register agent'')
     (parsed_call parse ''auth.register'' (body [(''name'', jget payload ''name''),
         (''mode'', jget payload ''mode''),
         (''host_name'', jget payload ''host_name''),
         (''capabilities'', jget payload ''capabilities''),
         (''reason'', jget payload ''reason'')]) ''RegisterAgentResponseDtoSchema'')"

definition updateAgent :: "string list \<Rightarrow> (string \<Rightarrow> json \<Rightarrow> json option) \<Rightarrow> json \<Rightarrow> json svc" where
  "updateAgent base parse payload =
     logged ''AgentAuthService.updateAgent'' (map_auth base ''Failed to update agent'')
     (parsed_call parse ''auth.updateAgent'' (body [(''agent_id'', jget payload ''agent_id''),
         (''name'', jget payload ''name''),
         (''metadata'', jget payload ''metadata'')]) ''UpdateAgentResponseDtoSchema'')"

definition revokeAgent :: "string list \<Rightarrow> json \<Rightarrow> json svc" where
  "revokeAgent base payload =
     logged ''AgentAuthService.revokeAgent'' (map_auth base ''Failed to revoke agent'')
     (simple_call ''auth.revokeAgent'' [(''agent_id'', jget payload ''agent_id'')])"

definition reactivateAgent :: "string list \<Rightarrow> json \<Rightarrow> json svc" where
  "reactivateAgent base payload =
     logged ''AgentAuthService.reactivateAgent'' (map_auth base ''Failed to reactivate agent'')
     (simple_call ''auth.reactivateAgent'' [(''agent_id'', jget payload ''agent_id'')])"

definition grantCapability :: "string list \<Rightarrow> (string \<Rightarrow> json \<Rightarrow> json option) \<Rightarrow> json \<Rightarrow> json svc" where
  "grantCapability base parse payload =
     logged ''AgentAuthService.grantCapability'' (map_auth base ''Failed to grant capability'')
     (parsed_call parse ''auth.grantCapability'' (body [(''agent_id'', jget payload ''agent_id''),
         (''capabilities'', jget payload ''capabilities''),
         (''ttl'', jget payload ''ttl'')]) ''GrantCapabilityResponseDtoSchema'')"

definition cleanupAgents :: "string list \<Rightarrow> (string \<Rightarrow> json \<Rightarrow> json option) \<Rightarrow> json svc" where
  "cleanupAgents base parse =
     logged ''AgentAuthService.cleanupAgents'' (map_auth base ''Failed to cleanup agents'')
     (parsed_call parse ''auth.cleanupAgents'' (JObj []) ''CleanupAgentsResponseDtoSchema'')"

definition listPendingApprovals :: "string list \<Rightarrow> (string \<Rightarrow> json \<Rightarrow> json option) \<Rightarrow> json svc" where
  "listPendingApprovals base parse =
     logged ''AgentAuthService.listPendingApprovals'' (map_auth base ''Failed to list pending approvals'')
     (parsed_call parse ''auth.cibaPending'' (JObj []) ''ListPendingApprovalsResponseDtoSchema'')"

definition approveCapability :: "string list \<Rightarrow> json \<Rightarrow> json svc" where
  "approveCapability base payload =
     logged ''AgentAuthService.approveCapability'' (map_auth base ''Failed to approve capability'')
     (simple_call ''auth.approveCapability'' [(''agent_id'', jget payload ''agent_id''),
         (''approval_id'', jget payload ''approval_id''),
         (''user_code'', jget payload ''user_code''),
         (''action'', jget payload ''action''),
         (''capabilities'', jget payload ''capabilities''),
         (''ttl'', jget payload ''ttl''),
         (''reason'', jget payload ''reason'')])"

definition listHosts :: "string list \<Rightarrow> (string \<Rightarrow> json \<Rightarrow> json option) \<Rightarrow> json svc" where
  "listHosts base parse =
     logged ''AgentAuthService.listHosts'' (map_auth base ''Failed to list hosts'')
     (parsed_call parse ''auth.listHosts'' (query_of []) ''ListHostsResponseDtoSchema'')"

definition createHost :: "string list \<Rightarrow> (string \<Rightarrow> json \<Rightarrow> json option) \<Rightarrow> json \<Rightarrow> json svc" where
  "createHost base parse payload =
     logged ''AgentAuthService.createHost'' (map_auth base ''Failed to create host'')
     (parsed_call parse ''auth.createHost'' (body [(''name'', jget payload ''name''),
         (''default_capabilities'', jget payload ''default_capabilities''),
         (''jwks_url'', jget payload ''jwks_url'')]) ''CreateHostResponseDtoSchema'')"

definition updateHost :: "string list \<Rightarrow> (string \<Rightarrow> json \<Rightarrow> json option) \<Rightarrow> json \<Rightarrow> json svc" where
  "updateHost base parse payload =
     logged ''AgentAuthService.updateHost'' (map_auth base ''Failed to update host'')
     (parsed_call parse ''auth.updateHost'' (body [(''host_id'', jget payload ''host_id''),
         (''name'', jget payload ''name''),
         (''default_capabilities'', jget payload ''default_capabilities''),
         (''jwks_url'', jget payload ''jwks_url'')]) ''UpdateHostResponseDtoSchema'')"

definition revokeHost :: "string list \<Rightarrow> json \<Rightarrow> json svc" where
  "revokeHost base payload =
     logged ''AgentAuthService.revokeHost'' (map_auth base ''Failed to revoke host'')
     (simple_call ''auth.revokeHost'' [(''host_id'', jget payload ''host_id'')])"

subsection \<open>API keys\<close>

text \<open>
  The filter of the list: both a user and an organization are compared with \<^verbatim>\<open>referenceId\<close>, and the
  organization, spread last, wins.
\<close>

definition api_key_where :: "json \<Rightarrow> json" where
  "api_key_where query = jobj
     [(''referenceId'', if truthy (jget query ''organizationId'') then jget query ''organizationId''
         else nonempty (jget query ''userId'')),
      (''configId'', nonempty (jget query ''configId''))]"

definition listApiKeys :: "(string \<Rightarrow> json \<Rightarrow> json option) \<Rightarrow> json \<Rightarrow> json svc" where
  "listApiKeys parse query = logged ''ApiKeyService.listApiKeys'' (infra ''Failed to list API keys'')
     (andThen (both
        (call ''prisma.apikey.findMany'' (jobj [(''where'', Some (api_key_where query)),
           (''orderBy'', Some (JObj [(''createdAt'', JStr ''desc'')])),
           (''take'', jget query ''limit''), (''skip'', jget query ''offset'')]))
        (call ''prisma.apikey.count'' (JObj [(''where'', api_key_where query)]))) (\<lambda>(rows, tot).
      andThen (elements rows) (\<lambda>ks. andThen (traverse (zod parse ''ApiKeySchema'') ks) (\<lambda>apiKeys.
      zod parse ''ListApiKeysResponseSchema'' (JObj [(''apiKeys'', JArr apiKeys), (''total'', tot)])))))"

text \<open>\<^verbatim>\<open>text ? JSON.parse(text) : undefined\<close>, which throws for text that is not JSON.\<close>

definition json_field :: "(string \<Rightarrow> json option) \<Rightarrow> json option \<Rightarrow> json option svc" where
  "json_field parse_json v = (case v of
     Some (JStr (c # s)) \<Rightarrow> (case parse_json (c # s) of
        None \<Rightarrow> throw (JsError None ''SyntaxError'') | Some j \<Rightarrow> ret (Some j))
   | _ \<Rightarrow> ret None)"

text \<open>The fields of a payload with null left out, as \<^verbatim>\<open>payload.k ?? undefined\<close> does.\<close>

definition given :: "json \<Rightarrow> string list \<Rightarrow> (string \<times> json option) list" where
  "given payload ks = map (\<lambda>k. (k, non_null (jget payload k))) ks"

definition as_is :: "json \<Rightarrow> string list \<Rightarrow> (string \<times> json option) list" where
  "as_is payload ks = map (\<lambda>k. (k, jget payload k)) ks"

definition createApiKey ::
    "string list \<Rightarrow> (string \<Rightarrow> json \<Rightarrow> json option) \<Rightarrow> (string \<Rightarrow> json option) \<Rightarrow> json \<Rightarrow> json svc" where
  "createApiKey base parse parse_json payload =
     logged ''ApiKeyService.createApiKey'' (map_auth base ''Failed to create API key'')
     (andThen (json_field parse_json (jget payload ''permissions'')) (\<lambda>permissions.
      andThen (json_field parse_json (jget payload ''metadata'')) (\<lambda>metadata.
      parsed_call parse ''auth.createApiKey'' (body
        (as_is payload [''name'', ''userId'', ''organizationId'', ''configId'', ''prefix''] @
         given payload [''expiresIn'', ''remaining'', ''refillAmount'', ''refillInterval''] @
         as_is payload [''rateLimitEnabled''] @ given payload [''rateLimitTimeWindow'', ''rateLimitMax''] @
         [(''permissions'', permissions), (''metadata'', metadata)])) ''ApiKeyCreatedSchema'')))"

definition updateApiKey ::
    "string list \<Rightarrow> (string \<Rightarrow> json \<Rightarrow> json option) \<Rightarrow> (string \<Rightarrow> json option) \<Rightarrow> json \<Rightarrow> json svc" where
  "updateApiKey base parse parse_json payload =
     logged ''ApiKeyService.updateApiKey'' (map_auth base ''Failed to update API key'')
     (andThen (json_field parse_json (jget payload ''permissions'')) (\<lambda>permissions.
      andThen (json_field parse_json (jget payload ''metadata'')) (\<lambda>metadata.
      parsed_call parse ''auth.updateApiKey'' (body
        (as_is payload [''keyId''] @
         given payload [''name'', ''enabled'', ''expiresIn'', ''remaining'', ''refillAmount'', ''refillInterval'',
           ''rateLimitEnabled'', ''rateLimitMax'', ''rateLimitTimeWindow''] @
         [(''permissions'', permissions), (''metadata'', metadata)])) ''ApiKeySchema'')))"

definition deleteApiKey :: "json \<Rightarrow> json svc" where
  "deleteApiKey payload = logged ''ApiKeyService.deleteApiKey'' (infra ''Failed to delete API key'')
     (andThen (call ''prisma.apikey.delete'' (JObj [(''where'', jobj [(''id'', jget payload ''keyId'')])])) (\<lambda>_. ret success))"

definition deleteExpiredApiKeys :: "string list \<Rightarrow> json \<Rightarrow> json svc" where
  "deleteExpiredApiKeys base payload =
     logged ''ApiKeyService.deleteExpiredApiKeys'' (map_auth base ''Failed to delete expired API keys'')
     (simple_call ''auth.deleteAllExpiredApiKeys'' [(''configId'', nonempty (jget payload ''configId''))])"

subsection \<open>The operations settle\<close>

lemma only_zod_of [quiet_rules]: "only P (zod_of parse s v)"
  by (simp add: zod_of_def only_zod only_throw split: option.split)

lemma only_json_field [quiet_rules]: "only P (json_field parse_json v)"
  by (simp add: json_field_def only_ret only_throw split: option.splits json.splits list.splits)

lemma only_parsed_call: "P (Call f args) \<Longrightarrow> only P (parsed_call parse f args schema)"
  unfolding parsed_call_def by (intro only_andThen only_call only_zod)

lemma only_parsed_field: "P (Call f args) \<Longrightarrow> only P (parsed_field parse f args k schema)"
  unfolding parsed_field_def by (intro only_andThen only_call only_rd only_zod_of)

lemma only_copied_field: "P (Call f args) \<Longrightarrow> only P (copied_field f args k)"
  unfolding copied_field_def by (intro only_andThen only_call only_rd only_ret)

lemmas quiet_calls [quiet_rules] = only_parsed_call [of is_call, OF is_call.simps(1) [THEN iffD2, OF TrueI]]
  only_parsed_field [of is_call, OF is_call.simps(1) [THEN iffD2, OF TrueI]]
  only_copied_field [of is_call, OF is_call.simps(1) [THEN iffD2, OF TrueI]]

text \<open>The operations by the name they are logged under.\<close>

definition admin_operations ::
    "string list \<Rightarrow> (string \<Rightarrow> json \<Rightarrow> json option) \<Rightarrow> (string \<Rightarrow> json option) \<Rightarrow> json \<Rightarrow> json \<Rightarrow> string \<Rightarrow>
     (string \<times> json svc) list" where
  "admin_operations base parse parse_json payload query email =
     [(''UsersService.getUsers'', getUsers base parse),
      (''UsersService.getUserByEmail'', getUserByEmail base parse email),
      (''UsersService.createUser'', createUser base parse payload),
      (''UsersService.updateUser'', updateUser base parse payload),
      (''UsersService.setUserRole'', setUserRole base parse payload),
      (''UsersService.banUser'', banUser base parse payload),
      (''UsersService.unbanUser'', unbanUser base parse payload),
      (''UsersService.removeUser'', removeUser base payload),
      (''UsersService.setUserPassword'', setUserPassword base payload),
      (''UsersService.revokeUserSessions'', revokeUserSessions base payload),
      (''UsersService.impersonateUser'', impersonateUser base parse payload),
      (''SessionsService.getAllSessions'', getAllSessions base parse),
      (''SessionsService.revokeUserSession'', revokeUserSession base payload),
      (''SessionsService.revokeAllSessions'', revokeAllSessions base),
      (''ConsentsService.listConsents'', listConsents base parse),
      (''ConsentsService.getConsent'', getConsent base parse payload),
      (''ConsentsService.updateConsentScopes'', updateConsentScopes base parse payload),
      (''ConsentsService.deleteConsent'', deleteConsent base payload),
      (''OAuthClientService.createOAuthClient'', createOAuthClient base parse payload),
      (''OAuthClientService.updateOAuthClient'', updateOAuthClient base parse payload),
      (''OAuthClientService.deleteOAuthClient'', deleteOAuthClient base payload),
      (''OAuthClientService.getOAuthClient'', getOAuthClient base parse payload),
      (''OAuthClientService.rotateClientSecret'', rotateClientSecret base parse payload),
      (''OAuthClientService.getOAuthClients'', getOAuthClients base parse),
      (''AgentAuthService.listAgents'', listAgents base parse),
      (''AgentAuthService.registerAgent'', registerAgent base parse payload),
      (''AgentAuthService.updateAgent'', updateAgent base parse payload),
      (''AgentAuthService.revokeAgent'', revokeAgent base payload),
      (''AgentAuthService.reactivateAgent'', reactivateAgent base payload),
      (''AgentAuthService.grantCapability'', grantCapability base parse payload),
      (''AgentAuthService.cleanupAgents'', cleanupAgents base parse),
      (''AgentAuthService.listPendingApprovals'', listPendingApprovals base parse),
      (''AgentAuthService.approveCapability'', approveCapability base payload),
      (''AgentAuthService.listHosts'', listHosts base parse),
      (''AgentAuthService.createHost'', createHost base parse payload),
      (''AgentAuthService.updateHost'', updateHost base parse payload),
      (''AgentAuthService.revokeHost'', revokeHost base payload),
      (''ApiKeyService.listApiKeys'', listApiKeys parse query),
      (''ApiKeyService.createApiKey'', createApiKey base parse parse_json payload),
      (''ApiKeyService.updateApiKey'', updateApiKey base parse parse_json payload),
      (''ApiKeyService.deleteApiKey'', deleteApiKey payload),
      (''ApiKeyService.deleteExpiredApiKeys'', deleteExpiredApiKeys base payload)]"

lemmas admin_operations_defs =
  getUsers_def getUserByEmail_def createUser_def updateUser_def setUserRole_def banUser_def unbanUser_def
  removeUser_def setUserPassword_def revokeUserSessions_def impersonateUser_def getAllSessions_def
  revokeUserSession_def revokeAllSessions_def listConsents_def getConsent_def updateConsentScopes_def
  deleteConsent_def createOAuthClient_def updateOAuthClient_def deleteOAuthClient_def getOAuthClient_def
  rotateClientSecret_def getOAuthClients_def listAgents_def registerAgent_def updateAgent_def
  revokeAgent_def reactivateAgent_def grantCapability_def cleanupAgents_def listPendingApprovals_def
  approveCapability_def listHosts_def createHost_def updateHost_def revokeHost_def listApiKeys_def
  createApiKey_def updateApiKey_def deleteApiKey_def deleteExpiredApiKeys_def

lemma admin_operations_settle:
  "list_all (\<lambda>(name, op). reports name (fst (op w [])) (snd (op w []))) (admin_operations base parse parse_json payload query email)"
proof -
  note rep = reports_logged [THEN yieldsD]
  show ?thesis
    unfolding admin_operations_def list.pred_inject prod.case admin_operations_defs
    by (intro conjI list.pred_inject(1) rep [OF infra_mapping.error_mapping_axioms]
        rep [OF auth_mapping.error_mapping_axioms] quiet_rules)
qed

end
