(* ===== verification/Iam_Catalog.thy ===== *)
theory Iam_Catalog
  imports Iam_Services
begin

text \<open>
  The administration services that keep their tables in the database
  (\<^verbatim>\<open>iam/src/modules/server/core/*/infrastructure/services/\<close>: apps and menu nodes, resources and their
  actions, preference templates, user contexts, user preferences). \<open>now\<close> is \<^verbatim>\<open>new Date()\<close> and \<open>newId\<close>
  \<^verbatim>\<open>randomUUID()\<close>, each read once in an operation.
\<close>

subsection \<open>Common steps\<close>

text \<open>A row copied field by field, and the mapping of a list of rows, wrapped and validated.\<close>

definition copy_row :: "string list \<Rightarrow> json \<Rightarrow> json svc" where
  "copy_row ks j = andThen (rd j (hd ks)) (\<lambda>_. ret (jobj (map (\<lambda>k. (k, jget j k)) ks)))"

definition mapped_rows ::
    "(string \<Rightarrow> json \<Rightarrow> json option) \<Rightarrow> string \<Rightarrow> string \<Rightarrow> (json \<Rightarrow> json svc) \<Rightarrow> json \<Rightarrow> json svc" where
  "mapped_rows parse schema k f rows = andThen (elements rows) (\<lambda>rs. andThen (traverse f rs) (\<lambda>mapped.
     zod parse schema (JObj [(k, JArr mapped)])))"

definition where_id :: "json \<Rightarrow> json option" where
  "where_id payload = Some (jobj [(''id'', jget payload ''id'')])"

text \<open>\<^verbatim>\<open>payload.k ?? d\<close>.\<close>

definition default_to :: "json \<Rightarrow> string \<Rightarrow> json \<Rightarrow> string \<times> json option" where
  "default_to payload k d = (k, Some (nullish_or (jget payload k) d))"

text \<open>\<^verbatim>\<open>...(payload.k && { k: payload.k })\<close>.\<close>

definition if_given :: "json \<Rightarrow> string \<Rightarrow> string \<times> json option" where
  "if_given payload k = (k, nonempty (jget payload k))"

definition present :: "string \<times> json \<Rightarrow> string \<times> json option" where
  "present kv = (fst kv, Some (snd kv))"

definition order_by :: "string \<Rightarrow> string \<Rightarrow> string \<times> json" where
  "order_by k dir = (''orderBy'', JObj [(k, JStr dir)])"

subsection \<open>Apps\<close>

definition listApps :: "(string \<Rightarrow> json \<Rightarrow> json option) \<Rightarrow> json svc" where
  "listApps parse =
     logged ''AppsService.listApps'' (infra ''Failed to list apps'')
     (andThen (call ''prisma.app.findMany'' (JObj [(''where'', JObj [(''deletedAt'', JNull)]), order_by ''createdAt'' ''desc'']))
      (mapped_rows parse ''ListAppsResponseSchema'' ''apps''
         (copy_row [''id'', ''name'', ''slug'', ''description'', ''isActive'', ''deletedAt'', ''createdAt'', ''updatedAt''])))"

definition createApp :: "(string \<Rightarrow> json \<Rightarrow> json option) \<Rightarrow> json \<Rightarrow> json \<Rightarrow> json svc" where
  "createApp parse now payload =
     logged ''AppsService.createApp'' (infra ''Failed to create app'')
     (parsed_call parse ''prisma.app.create'' (JObj [(''data'', jobj
        [(''name'', jget payload ''name''), (''slug'', jget payload ''slug''), default_to payload ''description'' JNull,
         default_to payload ''isActive'' (JBool True), default_to payload ''createdBy'' JNull,
         (''createdAt'', Some now), (''updatedAt'', Some now)])]) ''AppSchema'')"

definition updateApp :: "(string \<Rightarrow> json \<Rightarrow> json option) \<Rightarrow> json \<Rightarrow> json \<Rightarrow> json svc" where
  "updateApp parse now payload =
     logged ''AppsService.updateApp'' (infra ''Failed to update app'')
     (parsed_call parse ''prisma.app.update'' (jobj [(''where'', where_id payload), (''data'', Some (jobj
        [if_given payload ''name'', if_given payload ''slug'', (''description'', jget payload ''description''),
         (''isActive'', jget payload ''isActive''), if_given payload ''updatedBy'', (''updatedAt'', Some now)]))]) ''AppSchema'')"

definition deleteApp :: "json \<Rightarrow> json \<Rightarrow> json svc" where
  "deleteApp now payload =
     logged ''AppsService.deleteApp'' (infra ''Failed to delete app'')
     (andThen (call ''prisma.app.update'' (jobj [(''where'', where_id payload),
        (''data'', Some (JObj [(''deletedAt'', now)]))])) (\<lambda>_. ret success))"

subsection \<open>Menu nodes\<close>

text \<open>\<^verbatim>\<open>n.parent?.label ?? null\<close>.\<close>

definition parent_label :: "json \<Rightarrow> json" where
  "parent_label n = (case jget n ''parent'' of None \<Rightarrow> JNull | Some q \<Rightarrow> nullish_or (jget q ''label'') JNull)"

definition with_parent :: "string \<times> json" where
  "with_parent = (''include'', JObj [(''parent'', JObj [(''select'', selecting [''label''])])])"

definition menu_row_part :: "json \<Rightarrow> json svc" where
  "menu_row_part n = andThen (rd n ''id'') (\<lambda>i. ret (jobj
     ([(''id'', i), (''appId'', jget n ''appId''), (''parentId'', jget n ''parentId''), (''parentLabel'', Some (parent_label n))] @
      map (\<lambda>k. (k, jget n k)) [''label'', ''slug'', ''icon'', ''href'', ''order'', ''type'', ''isActive'', ''isVisible'',
        ''permissionKeys'', ''createdAt'', ''updatedAt''])))"

text \<open>A created or updated node, with the label of its parent.\<close>

definition node_result :: "(string \<Rightarrow> json \<Rightarrow> json option) \<Rightarrow> json \<Rightarrow> json svc" where
  "node_result parse node = andThen (rd node ''type'') (\<lambda>t.
     zod parse ''MenuNodeSchema'' (spread_opt node [(''type'', t), (''parentLabel'', Some (parent_label node))]))"

definition listMenuNodes :: "(string \<Rightarrow> json \<Rightarrow> json option) \<Rightarrow> string \<Rightarrow> json svc" where
  "listMenuNodes parse appId =
     logged ''AppsService.listMenuNodes'' (infra ''Failed to list menu nodes'')
     (andThen (call ''prisma.appMenuNode.findMany'' (JObj [(''where'', JObj [(''appId'', JStr appId)]), with_parent,
         (''orderBy'', JArr [JObj [(''order'', JStr ''asc'')]])]))
      (mapped_rows parse ''ListMenuNodesResponseSchema'' ''nodes'' menu_row_part))"

definition createMenuNode :: "(string \<Rightarrow> json \<Rightarrow> json option) \<Rightarrow> json \<Rightarrow> string \<Rightarrow> json \<Rightarrow> json svc" where
  "createMenuNode parse now newId payload =
     logged ''AppsService.createMenuNode'' (infra ''Failed to create menu node'')
     (andThen (call ''prisma.appMenuNode.create'' (JObj [(''data'', jobj
        [(''id'', Some (JStr newId)), (''appId'', jget payload ''appId''), default_to payload ''parentId'' JNull,
         (''label'', jget payload ''label''), (''slug'', jget payload ''slug''), default_to payload ''icon'' JNull,
         default_to payload ''href'' JNull, default_to payload ''order'' (JInt 0), default_to payload ''type'' (JStr ''ITEM''),
         (''isActive'', Some (JBool True)), default_to payload ''isVisible'' (JBool True),
         default_to payload ''permissionKeys'' (JArr []), (''createdAt'', Some now), (''updatedAt'', Some now)]), with_parent]))
      (node_result parse))"

definition updateMenuNode :: "(string \<Rightarrow> json \<Rightarrow> json option) \<Rightarrow> json \<Rightarrow> json \<Rightarrow> json svc" where
  "updateMenuNode parse now payload =
     logged ''AppsService.updateMenuNode'' (infra ''Failed to update menu node'')
     (andThen (call ''prisma.appMenuNode.update'' (jobj [(''where'', where_id payload), (''data'', Some (jobj
        [(''parentId'', jget payload ''parentId''), if_given payload ''label'', if_given payload ''slug'',
         (''icon'', jget payload ''icon''), (''href'', jget payload ''href''), (''order'', jget payload ''order''),
         if_given payload ''type'', (''isActive'', jget payload ''isActive''), (''isVisible'', jget payload ''isVisible''),
         (''permissionKeys'', jget payload ''permissionKeys''), (''updatedAt'', Some now)])),
        present with_parent]))
      (node_result parse))"

definition deleteMenuNode :: "json \<Rightarrow> json svc" where
  "deleteMenuNode payload =
     logged ''AppsService.deleteMenuNode'' (infra ''Failed to delete menu node'')
     (andThen (call ''prisma.appMenuNode.delete'' (jobj [(''where'', where_id payload)])) (\<lambda>_. ret success))"

text \<open>The query for the neighbour in the direction: the nearest order below, or above, among the siblings.\<close>

definition sibling_query :: "bool \<Rightarrow> json \<Rightarrow> json" where
  "sibling_query up current = JObj [(''where'', jobj
      [(''appId'', jget current ''appId''), (''parentId'', jget current ''parentId''),
       (''order'', Some (jobj [(if up then ''lt'' else ''gt'', jget current ''order'')]))]),
     order_by ''order'' (if up then ''desc'' else ''asc'')]"

definition order_update :: "json \<Rightarrow> json \<Rightarrow> json" where
  "order_update target source = JObj [(''where'', jobj [(''id'', jget target ''id'')]), (''data'', jobj [(''order'', jget source ''order'')])]"

text \<open>The two updates are one transaction, given as the list of its operations.\<close>

definition reorderMenuNode :: "string \<Rightarrow> bool \<Rightarrow> json svc" where
  "reorderMenuNode nodeId up =
     logged ''AppsService.reorderMenuNode'' (infra ''Failed to reorder menu node'')
     (andThen (call ''prisma.appMenuNode.findUniqueOrThrow'' (JObj [(''where'', JObj [(''id'', JStr nodeId)]),
          (''select'', selecting [''id'', ''order'', ''parentId'', ''appId''])])) (\<lambda>current.
      andThen (rd current ''appId'') (\<lambda>_.
      andThen (call ''prisma.appMenuNode.findFirst'' (sibling_query up current)) (\<lambda>sibling.
      if \<not> truthy (Some sibling) then ret success
      else andThen (call ''prisma.$transaction'' (JArr
             [JObj [(''appMenuNode.update'', order_update current sibling)],
              JObj [(''appMenuNode.update'', order_update sibling current)]])) (\<lambda>_. ret success)))))"

definition listActions :: "(string \<Rightarrow> json \<Rightarrow> json option) \<Rightarrow> json svc" where
  "listActions parse =
     logged ''AppsService.listActions'' (infra ''Failed to list actions'')
     (andThen (call ''prisma.resourceAction.findMany'' (JObj [(''orderBy'', JArr [JObj [(''resourceId'', JStr ''asc'')], JObj [(''name'', JStr ''asc'')]])]))
      (mapped_rows parse ''ListActionsResponseSchema'' ''actions''
         (copy_row [''id'', ''resourceId'', ''name'', ''description'', ''key'', ''createdAt'', ''updatedAt''])))"

subsection \<open>Resources and their actions\<close>

definition with_action_count :: "string \<times> json" where
  "with_action_count = (''include'', JObj [(''_count'', JObj [(''select'', selecting [''resourceActions''])])])"

definition resource_part :: "json \<Rightarrow> json svc" where
  "resource_part r = andThen (rd r ''_count'') (\<lambda>c. andThen (rd_of c ''resourceActions'') (\<lambda>n. ret (jobj
     [(''id'', jget r ''id''), (''name'', jget r ''name''), (''description'', jget r ''description''), (''actionsCount'', n),
      (''createdAt'', jget r ''createdAt''), (''updatedAt'', jget r ''updatedAt'')])))"

definition with_resource :: "string \<times> json" where
  "with_resource = (''include'', JObj [(''resource'', JObj [(''select'', selecting [''name''])])])"

definition action_part :: "json \<Rightarrow> json svc" where
  "action_part a = andThen (rd a ''resource'') (\<lambda>r. andThen (rd_of r ''name'') (\<lambda>n. ret (jobj
     [(''id'', jget a ''id''), (''resourceId'', jget a ''resourceId''), (''resourceName'', n), (''name'', jget a ''name''),
      (''description'', jget a ''description''), (''key'', jget a ''key''), (''createdAt'', jget a ''createdAt''),
      (''updatedAt'', jget a ''updatedAt'')])))"

definition listResources :: "(string \<Rightarrow> json \<Rightarrow> json option) \<Rightarrow> json svc" where
  "listResources parse =
     logged ''ResourcesService.listResources'' (infra ''Failed to list resources'')
     (andThen (call ''prisma.resource.findMany'' (JObj [with_action_count, order_by ''name'' ''asc'']))
      (mapped_rows parse ''ListResourcesResponseSchema'' ''resources'' resource_part))"

definition createResource :: "(string \<Rightarrow> json \<Rightarrow> json option) \<Rightarrow> json \<Rightarrow> json svc" where
  "createResource parse payload =
     logged ''ResourcesService.createResource'' (infra ''Failed to create resource'')
     (andThen (call ''prisma.resource.create'' (JObj [(''data'', jobj
        [(''name'', jget payload ''name''), default_to payload ''description'' JNull])])) (\<lambda>resource.
      zod parse ''ResourceSchema'' (spread resource [(''actionsCount'', JInt 0)])))"

definition updateResource :: "(string \<Rightarrow> json \<Rightarrow> json option) \<Rightarrow> json \<Rightarrow> json svc" where
  "updateResource parse payload =
     logged ''ResourcesService.updateResource'' (infra ''Failed to update resource'')
     (andThen (call ''prisma.resource.update'' (jobj [(''where'', where_id payload), (''data'', Some (jobj
        [if_given payload ''name'', (''description'', jget payload ''description'')])),
        present with_action_count])) (\<lambda>resource.
      andThen (resource_part resource) (zod parse ''ResourceSchema'')))"

definition deleteResource :: "json \<Rightarrow> json svc" where
  "deleteResource payload =
     logged ''ResourcesService.deleteResource'' (infra ''Failed to delete resource'')
     (andThen (call ''prisma.resource.delete'' (jobj [(''where'', where_id payload)])) (\<lambda>_. ret success))"

definition listResourceActions :: "(string \<Rightarrow> json \<Rightarrow> json option) \<Rightarrow> string option \<Rightarrow> json svc" where
  "listResourceActions parse resourceId =
     logged ''ResourcesService.listResourceActions'' (infra ''Failed to list resource actions'')
     (andThen (call ''prisma.resourceAction.findMany'' (jobj
        [(''where'', case resourceId of Some (c # i) \<Rightarrow> Some (JObj [(''resourceId'', JStr (c # i))]) | _ \<Rightarrow> None),
         present with_resource,
         (''orderBy'', Some (JArr [JObj [(''resourceId'', JStr ''asc'')], JObj [(''name'', JStr ''asc'')]]))]))
      (mapped_rows parse ''ListResourceActionsResponseSchema'' ''actions'' action_part))"

definition createResourceAction :: "(string \<Rightarrow> json \<Rightarrow> json option) \<Rightarrow> json \<Rightarrow> json svc" where
  "createResourceAction parse payload =
     logged ''ResourcesService.createResourceAction'' (infra ''Failed to create resource action'')
     (andThen (call ''prisma.resourceAction.create'' (JObj [(''data'', jobj
        [(''resourceId'', jget payload ''resourceId''), (''name'', jget payload ''name''),
         default_to payload ''description'' JNull, (''key'', jget payload ''key'')]), with_resource])) (\<lambda>action.
      andThen (action_part action) (zod parse ''ResourceActionSchema'')))"

definition updateResourceAction :: "(string \<Rightarrow> json \<Rightarrow> json option) \<Rightarrow> json \<Rightarrow> json svc" where
  "updateResourceAction parse payload =
     logged ''ResourcesService.updateResourceAction'' (infra ''Failed to update resource action'')
     (andThen (call ''prisma.resourceAction.update'' (jobj [(''where'', where_id payload), (''data'', Some (jobj
        [if_given payload ''name'', (''description'', jget payload ''description''), if_given payload ''key''])),
        present with_resource])) (\<lambda>action.
      andThen (action_part action) (zod parse ''ResourceActionSchema'')))"

definition deleteResourceAction :: "json \<Rightarrow> json svc" where
  "deleteResourceAction payload =
     logged ''ResourcesService.deleteResourceAction'' (infra ''Failed to delete resource action'')
     (andThen (call ''prisma.resourceAction.delete'' (jobj [(''where'', where_id payload)])) (\<lambda>_. ret success))"

subsection \<open>Preference templates\<close>

text \<open>\<^verbatim>\<open>if (error instanceof ApplicationError) throw error;\<close> before the mapping.\<close>

definition keep_app :: "string \<Rightarrow> iam_exn \<Rightarrow> iam_exn" where
  "keep_app msg e = (case e of App a \<Rightarrow> e | _ \<Rightarrow> infra msg e)"

interpretation keep_app_mapping: error_mapping "keep_app msg"
  by unfold_locales (simp add: keep_app_def infra_def split: iam_exn.split)

definition global_exists :: iam_exn where
  "global_exists = App (applicationError ApplicationError
       ''A Global preference template already exists. Only one is allowed.'' 500 ''APPLICATION_ERROR'' True)"

definition template_formats :: "string list" where
  "template_formats = [''timezone'', ''dateFormat'', ''timeFormat'', ''currency'', ''numberFormat'', ''weekStart'']"

text \<open>The check that there is no other global template; \<open>others\<close> is the condition on its id.\<close>

definition only_global :: "json \<Rightarrow> (string \<times> json option) list \<Rightarrow> unit svc" where
  "only_global payload others =
     (if jget payload ''scope'' \<noteq> Some (JStr ''GLOBAL'') then ret ()
      else andThen (call ''prisma.preferenceTemplate.findFirst'' (JObj [(''where'', jobj ((''scope'', Some (JStr ''GLOBAL'')) # others))]))
        (\<lambda>existing. if truthy (Some existing) then throw global_exists else ret ()))"

definition listPreferenceTemplates :: "(string \<Rightarrow> json \<Rightarrow> json option) \<Rightarrow> json svc" where
  "listPreferenceTemplates parse =
     logged ''PreferenceTemplatesService.listPreferenceTemplates'' (infra ''Failed to list preference templates'')
     (andThen (call ''prisma.$transaction'' (JArr
         [JObj [(''preferenceTemplate.findMany'', JObj [order_by ''createdAt'' ''asc''])],
          JObj [(''preferenceTemplate.count'', JObj [])]])) (\<lambda>results. case results of
       JArr [rows, tot] \<Rightarrow> zod parse ''ListPreferenceTemplatesResponseSchema'' (JObj [(''templates'', rows), (''total'', tot)])
     | _ \<Rightarrow> throw type_error))"

definition createPreferenceTemplate :: "(string \<Rightarrow> json \<Rightarrow> json option) \<Rightarrow> string \<Rightarrow> json \<Rightarrow> json svc" where
  "createPreferenceTemplate parse newId payload =
     logged ''PreferenceTemplatesService.createPreferenceTemplate'' (keep_app ''Failed to create preference template'')
     (andThen (only_global payload []) (\<lambda>_.
      parsed_call parse ''prisma.preferenceTemplate.create'' (JObj [(''data'', jobj
        ([(''id'', Some (JStr newId)), (''scope'', jget payload ''scope''), default_to payload ''country'' JNull] @
         as_is payload template_formats))]) ''PreferenceTemplateSchema''))"

definition updatePreferenceTemplate :: "(string \<Rightarrow> json \<Rightarrow> json option) \<Rightarrow> json \<Rightarrow> json svc" where
  "updatePreferenceTemplate parse payload =
     logged ''PreferenceTemplatesService.updatePreferenceTemplate'' (keep_app ''Failed to update preference template'')
     (andThen (only_global payload [(''NOT'', where_id payload)]) (\<lambda>_.
      parsed_call parse ''prisma.preferenceTemplate.update'' (jobj [(''where'', where_id payload), (''data'', Some (jobj
        ([(''scope'', jget payload ''scope''), default_to payload ''country'' JNull] @ as_is payload template_formats)))])
        ''PreferenceTemplateSchema''))"

definition deletePreferenceTemplate :: "json \<Rightarrow> json svc" where
  "deletePreferenceTemplate payload =
     logged ''PreferenceTemplatesService.deletePreferenceTemplate'' (infra ''Failed to delete preference template'')
     (andThen (call ''prisma.preferenceTemplate.delete'' (jobj [(''where'', where_id payload)])) (\<lambda>_. ret success))"

subsection \<open>User contexts\<close>

text \<open>\<^verbatim>\<open>u.context?.k\<close>, and the non-empty ones over all users.\<close>

definition context_field :: "json \<Rightarrow> string \<Rightarrow> json option" where
  "context_field u k = (case jget u ''context'' of None \<Rightarrow> None | Some c \<Rightarrow> jget c k)"

definition active_ids :: "json list \<Rightarrow> string \<Rightarrow> json list" where
  "active_ids users k = List.map_filter (\<lambda>u. nonempty (context_field u k)) users"

text \<open>\<^verbatim>\<open>Object.fromEntries(rows.map(r => [r.id, r.k]))\<close>, with undefined as null.\<close>

definition names_by_id :: "string \<Rightarrow> json list \<Rightarrow> (string \<times> json) list svc" where
  "names_by_id k rows = andThen (traverse (\<lambda>r. andThen (rd r ''id'') (\<lambda>i. ret (interp i, or_null (jget r k)))) rows)
     (\<lambda>kvs. ret (from_entries kvs))"

definition name_of :: "(string \<times> json) list \<Rightarrow> json option \<Rightarrow> json" where
  "name_of names i = (if truthy i then nullish_or (map_of names (interp i)) JNull else JNull)"

definition context_part :: "(string \<times> json) list \<Rightarrow> (string \<times> json) list \<Rightarrow> json \<Rightarrow> json" where
  "context_part orgNames roleNames user = jobj
     [(''userId'', jget user ''id''), (''userName'', jget user ''name''), (''userEmail'', jget user ''email''),
      (''userImage'', Some (or_null (jget user ''image''))),
      (''contextId'', Some (or_null (context_field user ''id''))),
      (''activeOrganizationId'', Some (or_null (context_field user ''activeOrganizationId''))),
      (''activeOrganizationName'', Some (name_of orgNames (context_field user ''activeOrganizationId''))),
      (''activeRoleId'', Some (or_null (context_field user ''activeRoleId''))),
      (''activeRoleName'', Some (name_of roleNames (context_field user ''activeRoleId'')))]"

definition listUserContexts :: "json svc" where
  "listUserContexts =
     logged ''UserContextService.listUserContexts'' (infra ''Failed to list user contexts'')
     (andThen (call ''prisma.user.findMany'' (JObj [(''include'', JObj [(''context'', JBool True)]), order_by ''name'' ''asc''])) (\<lambda>us.
      andThen (elements us) (\<lambda>users. andThen (traverse (\<lambda>u. rd u ''context'') users) (\<lambda>_.
      andThen (find_in ''prisma.organization.findMany'' ''id'' (active_ids users ''activeOrganizationId'')
         [(''select'', selecting [''id'', ''name''])]) (\<lambda>orgs. andThen (names_by_id ''name'' orgs) (\<lambda>orgNames.
      andThen (find_in ''prisma.organizationRole.findMany'' ''id'' (active_ids users ''activeRoleId'')
         [(''select'', selecting [''id'', ''role''])]) (\<lambda>roles. andThen (names_by_id ''role'' roles) (\<lambda>roleNames.
      ret (JObj [(''items'', JArr (map (context_part orgNames roleNames) users))])))))))))"

definition getUserOrgMemberships :: "string \<Rightarrow> json svc" where
  "getUserOrgMemberships userId =
     logged ''UserContextService.getUserOrgMemberships'' (infra ''Failed to get user org memberships'')
     (andThen (call ''prisma.member.findMany'' (JObj [(''where'', JObj [(''userId'', JStr userId)]),
         (''include'', JObj [(''organization'', JObj [(''select'', selecting [''id'', ''name''])])]),
         (''orderBy'', JObj [(''organization'', JObj [(''name'', JStr ''asc'')])])])) (\<lambda>ms.
      andThen (elements ms) (\<lambda>members. andThen (traverse (\<lambda>m. andThen (rd m ''organization'') (\<lambda>org. andThen (rd_of org ''name'')
        (\<lambda>n. ret (jobj [(''organizationId'', jget m ''organizationId''), (''organizationName'', n), (''role'', jget m ''role'')])))) members)
      (\<lambda>memberships. ret (JObj [(''memberships'', JArr memberships)])))))"

definition getOrgRolesForContext :: "string \<Rightarrow> json svc" where
  "getOrgRolesForContext organizationId =
     logged ''UserContextService.getOrgRolesForContext'' (infra ''Failed to get org roles for context'')
     (andThen (call ''prisma.organizationRole.findMany'' (JObj [(''where'', JObj [(''organizationId'', JStr organizationId)]),
         (''select'', selecting [''id'', ''role'']), order_by ''role'' ''asc''])) (\<lambda>rs.
      andThen (elements rs) (\<lambda>rows. andThen (traverse (copy_row [''id'', ''role'']) rows) (\<lambda>roles.
      ret (JObj [(''roles'', JArr roles)])))))"

definition setUserContext :: "json \<Rightarrow> json svc" where
  "setUserContext payload =
     logged ''UserContextService.setUserContext'' (infra ''Failed to set user context'')
     (andThen (call ''prisma.userContext.upsert'' (jobj
        [(''where'', Some (jobj (as_is payload [''userId'']))),
         (''create'', Some (jobj (as_is payload [''userId'', ''activeOrganizationId'', ''activeRoleId'']))),
         (''update'', Some (jobj (as_is payload [''activeOrganizationId'', ''activeRoleId''])))])) (\<lambda>_. ret success))"

subsection \<open>User preferences\<close>

text \<open>\<^verbatim>\<open>const { userId, ...fields } = payload\<close>.\<close>

definition without_key :: "string \<Rightarrow> json \<Rightarrow> (string \<times> json) list" where
  "without_key k payload = filter (\<lambda>e. fst e \<noteq> k) (own_entries payload)"

definition getUserPreference :: "(string \<Rightarrow> json \<Rightarrow> json option) \<Rightarrow> string \<Rightarrow> json svc" where
  "getUserPreference parse userId =
     logged ''UserPreferenceService.getUserPreference'' (infra ''Failed to get user preference'')
     (andThen (call ''prisma.userPreference.findUnique'' (JObj [(''where'', JObj [(''userId'', JStr userId)])])) (\<lambda>row.
      if truthy (Some row) then zod parse ''UserPreferenceSchema'' row else ret JNull))"

definition upsertUserPreference :: "(string \<Rightarrow> json \<Rightarrow> json option) \<Rightarrow> string \<Rightarrow> json \<Rightarrow> json svc" where
  "upsertUserPreference parse newId payload =
     logged ''UserPreferenceService.upsertUserPreference'' (infra ''Failed to update user preference'')
     (andThen (call ''prisma.userPreference.upsert'' (JObj
        [(''where'', jobj (as_is payload [''userId''])), (''update'', JObj (without_key ''userId'' payload)),
         (''create'', JObj (fold (\<lambda>(k, v). put k v) (without_key ''userId'' payload)
            ([(''id'', JStr newId)] @ (case jget payload ''userId'' of None \<Rightarrow> [] | Some i \<Rightarrow> [(''userId'', i)]))))]))
      (\<lambda>row. zod parse ''UserPreferenceSchema'' row))"

subsection \<open>The operations settle\<close>

lemma only_mapped_rows [quiet_rules]: "(\<And>j. only P (f j)) \<Longrightarrow> only P (mapped_rows parse schema k f rows)"
  unfolding mapped_rows_def by (intro quiet_rules)

lemma only_parts [quiet_rules]:
  "only P (copy_row ks j)" "only P (menu_row_part j)" "only P (node_result parse j)"
  "only P (resource_part j)" "only P (action_part j)" "only P (names_by_id k rows)"
  unfolding copy_row_def menu_row_part_def node_result_def resource_part_def action_part_def names_by_id_def
  by (intro quiet_rules)+

lemma quiet_only_global [quiet_rules]: "quiet (only_global payload others)"
  unfolding only_global_def by (intro quiet_rules)

lemma only_pair [quiet_rules]:
  "(\<And>a b. only P (f a b)) \<Longrightarrow> only P (case results of JArr [a, b] \<Rightarrow> f a b | _ \<Rightarrow> throw type_error)"
  by (simp add: only_throw split: json.split list.split)

text \<open>The operations by the name they are logged under.\<close>

definition catalog_operations ::
    "(string \<Rightarrow> json \<Rightarrow> json option) \<Rightarrow> json \<Rightarrow> json \<Rightarrow> string \<Rightarrow> string \<Rightarrow> string \<Rightarrow> bool \<Rightarrow> string option \<Rightarrow> string \<Rightarrow> string \<Rightarrow>
     (string \<times> json svc) list" where
  "catalog_operations parse payload now newId appId nodeId up resourceId userId organizationId =
     [(''AppsService.listApps'', listApps parse),
      (''AppsService.createApp'', createApp parse now payload),
      (''AppsService.updateApp'', updateApp parse now payload),
      (''AppsService.deleteApp'', deleteApp now payload),
      (''AppsService.listMenuNodes'', listMenuNodes parse appId),
      (''AppsService.createMenuNode'', createMenuNode parse now newId payload),
      (''AppsService.updateMenuNode'', updateMenuNode parse now payload),
      (''AppsService.deleteMenuNode'', deleteMenuNode payload),
      (''AppsService.reorderMenuNode'', reorderMenuNode nodeId up),
      (''AppsService.listActions'', listActions parse),
      (''ResourcesService.listResources'', listResources parse),
      (''ResourcesService.createResource'', createResource parse payload),
      (''ResourcesService.updateResource'', updateResource parse payload),
      (''ResourcesService.deleteResource'', deleteResource payload),
      (''ResourcesService.listResourceActions'', listResourceActions parse resourceId),
      (''ResourcesService.createResourceAction'', createResourceAction parse payload),
      (''ResourcesService.updateResourceAction'', updateResourceAction parse payload),
      (''ResourcesService.deleteResourceAction'', deleteResourceAction payload),
      (''PreferenceTemplatesService.listPreferenceTemplates'', listPreferenceTemplates parse),
      (''PreferenceTemplatesService.createPreferenceTemplate'', createPreferenceTemplate parse newId payload),
      (''PreferenceTemplatesService.updatePreferenceTemplate'', updatePreferenceTemplate parse payload),
      (''PreferenceTemplatesService.deletePreferenceTemplate'', deletePreferenceTemplate payload),
      (''UserContextService.listUserContexts'', listUserContexts),
      (''UserContextService.getUserOrgMemberships'', getUserOrgMemberships userId),
      (''UserContextService.getOrgRolesForContext'', getOrgRolesForContext organizationId),
      (''UserContextService.setUserContext'', setUserContext payload),
      (''UserPreferenceService.getUserPreference'', getUserPreference parse userId),
      (''UserPreferenceService.upsertUserPreference'', upsertUserPreference parse newId payload)]"

lemmas catalog_operations_defs =
  listApps_def createApp_def updateApp_def deleteApp_def listMenuNodes_def createMenuNode_def
  updateMenuNode_def deleteMenuNode_def reorderMenuNode_def listActions_def listResources_def
  createResource_def updateResource_def deleteResource_def listResourceActions_def createResourceAction_def
  updateResourceAction_def deleteResourceAction_def listPreferenceTemplates_def createPreferenceTemplate_def
  updatePreferenceTemplate_def deletePreferenceTemplate_def listUserContexts_def getUserOrgMemberships_def
  getOrgRolesForContext_def setUserContext_def getUserPreference_def upsertUserPreference_def

lemma catalog_operations_settle:
  "list_all (\<lambda>(name, op). reports name (fst (op w [])) (snd (op w []))) (catalog_operations parse payload now newId appId nodeId up resourceId userId organizationId)"
proof -
  note rep = reports_logged [THEN yieldsD]
  show ?thesis
    unfolding catalog_operations_def list.pred_inject prod.case catalog_operations_defs
    by (intro conjI list.pred_inject(1) rep [OF infra_mapping.error_mapping_axioms]
        rep [OF auth_mapping.error_mapping_axioms]
        rep [OF keep_app_mapping.error_mapping_axioms] quiet_rules)
qed

end
