(* ===== verification/Iam_Menu.thy ===== *)
theory Iam_Menu
  imports Iam_Roles Iam_Catalog "HOL-Library.Multiset"
begin

text \<open>
  The order of the menu nodes as a table. The calls of the apps service on the nodes get the documented
  meaning of the database client (the row with an id, the nearest order below or above among rows with
  the same app and parent, a transaction of two updates), and the effect of a reordering on the menu
  that is shown is stated. A row has the columns that the reordering reads and writes.
\<close>

record menu_rec =
  mo_id :: string
  mo_app :: string
  mo_parent :: "string option"
  mo_order :: int

definition parent_json :: "string option \<Rightarrow> json" where
  "parent_json p = (case p of None \<Rightarrow> JNull | Some i \<Rightarrow> JStr i)"

lemma parent_json_eq [simp]: "parent_json p = parent_json q \<longleftrightarrow> p = q"
  by (auto simp: parent_json_def split: option.splits)

definition menu_json :: "menu_rec \<Rightarrow> json" where
  "menu_json r = JObj [(''id'', JStr (mo_id r)), (''order'', JInt (mo_order r)),
     (''parentId'', parent_json (mo_parent r)), (''appId'', JStr (mo_app r))]"

definition int_at :: "json \<Rightarrow> string list \<Rightarrow> int" where
  "int_at j ks = (case dig j ks of Some (JInt n) \<Rightarrow> n | _ \<Rightarrow> 0)"

definition same_group :: "json \<Rightarrow> menu_rec \<Rightarrow> bool" where
  "same_group args r = (text_at args [''where'', ''appId''] = mo_app r \<and>
     dig args [''where'', ''parentId''] = Some (parent_json (mo_parent r)))"

text \<open>The first row in the order of a key; the rows before and after an order.\<close>

definition first_by :: "(menu_rec \<Rightarrow> int) \<Rightarrow> menu_rec list \<Rightarrow> menu_rec option" where
  "first_by f rs = (case sort_key f rs of [] \<Rightarrow> None | r # _ \<Rightarrow> Some r)"

definition nearest :: "json \<Rightarrow> menu_rec list \<Rightarrow> menu_rec option" where
  "nearest args rows =
     (if dig args [''where'', ''order'', ''lt''] \<noteq> None
      then first_by (\<lambda>r. - mo_order r)
        (filter (\<lambda>r. same_group args r \<and> mo_order r < int_at args [''where'', ''order'', ''lt'']) rows)
      else first_by mo_order
        (filter (\<lambda>r. same_group args r \<and> int_at args [''where'', ''order'', ''gt''] < mo_order r) rows))"

definition set_order :: "string \<Rightarrow> int \<Rightarrow> menu_rec \<Rightarrow> menu_rec" where
  "set_order i n r = (if mo_id r = i then r\<lparr>mo_order := n\<rparr> else r)"

text \<open>The operations of a transaction, in order.\<close>

fun menu_update :: "json \<Rightarrow> menu_rec list \<Rightarrow> menu_rec list" where
  "menu_update (JObj [(f, args)]) rows =
     map (set_order (text_at args [''where'', ''id'']) (int_at args [''data'', ''order''])) rows"
| "menu_update j rows = rows"

fun menu_event :: "svc_event \<Rightarrow> menu_rec list \<Rightarrow> menu_rec list" where
  "menu_event (Call f (JArr ops)) rows = (if f = ''prisma.$transaction'' then fold menu_update ops rows else rows)"
| "menu_event e rows = rows"

definition menu_after :: "svc_event list \<Rightarrow> menu_rec list \<Rightarrow> menu_rec list" where
  "menu_after es rows = fold menu_event es rows"

definition menu_world :: "menu_rec list \<Rightarrow> (svc_event, svc_reply) world" where
  "menu_world rows h = (case last h of
     Call f args \<Rightarrow>
       (if f = ''prisma.appMenuNode.findUniqueOrThrow''
        then (case find (\<lambda>r. mo_id r = text_at args [''where'', ''id'']) (menu_after (butlast h) rows) of
                None \<Rightarrow> Threw (JsError (Some ''P2025'') ''No record was found'') | Some r \<Rightarrow> Returned (menu_json r))
        else if f = ''prisma.appMenuNode.findFirst''
        then Returned (case nearest args (menu_after (butlast h) rows) of None \<Rightarrow> JNull | Some r \<Rightarrow> menu_json r)
        else Returned JNull)
   | Log st name \<Rightarrow> Returned JNull)"

subsection \<open>The menu that is shown\<close>

definition siblings :: "menu_rec list \<Rightarrow> string \<Rightarrow> string option \<Rightarrow> menu_rec list" where
  "siblings rows app par = filter (\<lambda>r. mo_app r = app \<and> mo_parent r = par) rows"

definition shown :: "menu_rec list \<Rightarrow> string \<Rightarrow> string option \<Rightarrow> string list" where
  "shown rows app par = map mo_id (sort_key mo_order (siblings rows app par))"

text \<open>An entry exchanged with the one before it, or the one after it; the first or last one stays.\<close>

fun move_up :: "'a \<Rightarrow> 'a list \<Rightarrow> 'a list" where
  "move_up x (a # b # xs) = (if b = x then b # a # xs else a # move_up x (b # xs))"
| "move_up x xs = xs"

definition move :: "bool \<Rightarrow> 'a \<Rightarrow> 'a list \<Rightarrow> 'a list" where
  "move up x xs = (if up then move_up x xs else rev (move_up x (rev xs)))"

lemma move_up_first: "x \<notin> set xs \<Longrightarrow> move_up x (a # xs) = a # xs"
  by (induction xs arbitrary: a) auto

lemma move_up_at: "x \<notin> set as \<Longrightarrow> x \<noteq> b \<Longrightarrow> move_up x (as @ b # x # cs) = as @ x # b # cs"
proof (induction as)
  case (Cons a as)
  then show ?case by (cases as) auto
qed simp

lemma move_simps:
  "distinct (as @ b # x # cs) \<Longrightarrow> move True x (as @ b # x # cs) = as @ x # b # cs"
  "distinct (as @ x # b # cs) \<Longrightarrow> move False x (as @ x # b # cs) = as @ b # x # cs"
  "distinct (x # cs) \<Longrightarrow> move True x (x # cs) = x # cs"
  "distinct (as @ [x]) \<Longrightarrow> move False x (as @ [x]) = as @ [x]"
  using move_up_at [of x "rev cs" b "rev as"]
  by (auto simp: move_def move_up_at move_up_first)

subsection \<open>The run of a reordering\<close>

definition neighbour :: "bool \<Rightarrow> menu_rec \<Rightarrow> menu_rec list \<Rightarrow> menu_rec option" where
  "neighbour up r sibs =
     (if up then first_by (\<lambda>q. - mo_order q) (filter (\<lambda>q. mo_order q < mo_order r) sibs)
      else first_by mo_order (filter (\<lambda>q. mo_order r < mo_order q) sibs))"

definition swap_orders :: "menu_rec \<Rightarrow> menu_rec \<Rightarrow> menu_rec \<Rightarrow> menu_rec" where
  "swap_orders a b q = set_order (mo_id b) (mo_order a) (set_order (mo_id a) (mo_order b) q)"

definition reordered :: "bool \<Rightarrow> menu_rec \<Rightarrow> menu_rec list \<Rightarrow> menu_rec list" where
  "reordered up r rows = (case neighbour up r (siblings rows (mo_app r) (mo_parent r)) of
     None \<Rightarrow> rows | Some q \<Rightarrow> map (swap_orders r q) rows)"

lemma menu_json_fields [simp]:
  "jget (menu_json r) ''id'' = Some (JStr (mo_id r))" "jget (menu_json r) ''order'' = Some (JInt (mo_order r))"
  "jget (menu_json r) ''parentId'' = Some (parent_json (mo_parent r))"
  "jget (menu_json r) ''appId'' = Some (JStr (mo_app r))" "menu_json r \<noteq> JNull" "truthy (Some (menu_json r))"
  by (simp_all add: menu_json_def)

lemma query_group:
  "same_group (sibling_query up (menu_json r)) = (\<lambda>q. mo_app q = mo_app r \<and> mo_parent q = mo_parent r)"
  by (rule ext) (auto simp: same_group_def sibling_query_def jobj_def map_filter_simps)

lemma query_bounds:
  "dig (sibling_query up (menu_json r)) [''where'', ''order'', ''lt''] = (if up then Some (JInt (mo_order r)) else None)"
  "int_at (sibling_query True (menu_json r)) [''where'', ''order'', ''lt''] = mo_order r"
  "int_at (sibling_query False (menu_json r)) [''where'', ''order'', ''gt''] = mo_order r"
  by (simp_all add: sibling_query_def jobj_def map_filter_simps int_at_def)

lemma nearest_query:
  "nearest (sibling_query up (menu_json r)) rows = neighbour up r (siblings rows (mo_app r) (mo_parent r))"
proof (cases up)
  case True
  then show ?thesis
    unfolding nearest_def query_bounds query_group neighbour_def siblings_def by (simp add: query_bounds conj_commute)
next
  case False
  then show ?thesis
    unfolding nearest_def query_bounds query_group neighbour_def siblings_def by (simp add: query_bounds conj_commute)
qed

lemma update_order:
  "menu_update (JObj [(f, order_update (menu_json a) (menu_json b))]) rows = map (set_order (mo_id a) (mo_order b)) rows"
  by (simp add: order_update_def int_at_def jobj_def map_filter_simps)

lemma find_id:
  assumes "distinct (map mo_id rows)" and "r \<in> set rows"
  shows "find (\<lambda>q. mo_id q = mo_id r) rows = Some r"
  using assms by (induction rows) auto

lemma query_event [simp]: "menu_event (Call f (sibling_query up c)) rows = rows"
  by (simp add: sibling_query_def)

lemma call_returns: "w (h @ [Call f args]) = Returned j \<Longrightarrow> call f args w h = (Inr j, h @ [Call f args])"
  by (simp add: call_def io_simps)

lemma reorder_run:
  assumes "distinct (map mo_id rows)" and "r \<in> set rows"
  shows "fst (reorderMenuNode (mo_id r) up (menu_world rows) []) = Inr success"
    and "menu_after (snd (reorderMenuNode (mo_id r) up (menu_world rows) [])) rows = reordered up r rows"
proof -
  let ?n = "''AppsService.reorderMenuNode''"
  let ?q1 = "Call ''prisma.appMenuNode.findUniqueOrThrow'' (JObj [(''where'', JObj [(''id'', JStr (mo_id r))]),
     (''select'', selecting [''id'', ''order'', ''parentId'', ''appId''])])"
  let ?q2 = "Call ''prisma.appMenuNode.findFirst'' (sibling_query up (menu_json r))"
  have r1: "menu_world rows [Log LogStart ?n, ?q1] = Returned (menu_json r)"
    using find_id [OF assms] by (simp add: menu_world_def menu_after_def)
  have r2: "menu_world rows [Log LogStart ?n, ?q1, ?q2] =
      Returned (case neighbour up r (siblings rows (mo_app r) (mo_parent r)) of None \<Rightarrow> JNull | Some q \<Rightarrow> menu_json q)"
    using nearest_query [of up r rows] by (simp add: menu_world_def menu_after_def)
  have r3: "menu_world rows (h @ [Call ''prisma.$transaction'' a]) = Returned JNull" for h a
    by (simp add: menu_world_def)
  note steps = reorderMenuNode_def logged_def log_line_def io_simps call_returns r1 r2 r3 rd_def
  have "fst (reorderMenuNode (mo_id r) up (menu_world rows) []) = Inr success \<and>
    menu_after (snd (reorderMenuNode (mo_id r) up (menu_world rows) [])) rows = reordered up r rows"
  proof (cases "neighbour up r (siblings rows (mo_app r) (mo_parent r))")
    case None
    then show ?thesis by (simp add: steps menu_after_def reordered_def)
  next
    case (Some q)
    then show ?thesis
      by (simp add: steps menu_after_def reordered_def update_order swap_orders_def comp_def
          del: menu_update.simps)
  qed
  then show "fst (reorderMenuNode (mo_id r) up (menu_world rows) []) = Inr success"
    and "menu_after (snd (reorderMenuNode (mo_id r) up (menu_world rows) [])) rows = reordered up r rows" by auto
qed

subsection \<open>The effect on the menu\<close>

lemma swap_columns [simp]:
  "mo_id (swap_orders a b q) = mo_id q" "mo_app (swap_orders a b q) = mo_app q" "mo_parent (swap_orders a b q) = mo_parent q"
  by (simp_all add: swap_orders_def set_order_def)

lemma swap_other: "mo_id q \<noteq> mo_id a \<Longrightarrow> mo_id q \<noteq> mo_id b \<Longrightarrow> swap_orders a b q = q"
  by (simp add: swap_orders_def set_order_def)

lemma siblings_swap: "siblings (map (swap_orders a b) rows) app par = map (swap_orders a b) (siblings rows app par)"
  by (simp add: siblings_def filter_map comp_def)

lemma first_by_None: "first_by f rs = None \<longleftrightarrow> rs = []"
proof -
  have "sort_key f rs = [] \<longleftrightarrow> rs = []" by (metis length_0_conv length_sort)
  then show ?thesis by (auto simp: first_by_def split: list.splits)
qed

lemma first_by_Some:
  assumes "first_by f rs = Some q"
  shows "q \<in> set rs" and "r \<in> set rs \<Longrightarrow> f q \<le> f r"
proof -
  obtain qs where q: "sort_key f rs = q # qs" using assms by (auto simp: first_by_def split: list.splits)
  have "sorted (map f (sort_key f rs))" by simp
  then have "\<forall>r \<in> set (q # qs). f q \<le> f r" unfolding q by simp
  moreover have "set (q # qs) = set rs" using q by (metis set_sort)
  ultimately show "q \<in> set rs" and "r \<in> set rs \<Longrightarrow> f q \<le> f r" by auto
qed

text \<open>Two neighbours in the sorted list that exchange their orders exchange their places.\<close>

lemma shown_swap:
  assumes "distinct (map mo_id rows)" and "distinct (map mo_order (siblings rows app par))"
    and L: "sort_key mo_order (siblings rows app par) = as @ a # b # cs" and ab: "(x = a \<and> y = b) \<or> (x = b \<and> y = a)"
  shows "shown (map (swap_orders x y) rows) app par = map mo_id as @ mo_id b # mo_id a # map mo_id cs"
proof -
  let ?S = "siblings rows app par" and ?f = "swap_orders x y"
  let ?M = "map ?f as @ ?f b # ?f a # map ?f cs"
  have mset: "mset (as @ a # b # cs) = mset ?S" using L by (simp flip: L)
  have srt: "sorted (map mo_order (as @ a # b # cs))" using L by (simp flip: L)
  have keys: "distinct (map h (as @ a # b # cs)) = distinct (map h ?S)" for h :: "menu_rec \<Rightarrow> string"
    by (rule mset_eq_imp_distinct_iff) (simp only: mset_map mset)
  have keys': "distinct (map h (as @ a # b # cs)) = distinct (map h ?S)" for h :: "menu_rec \<Rightarrow> int"
    by (rule mset_eq_imp_distinct_iff) (simp only: mset_map mset)
  have "distinct (map mo_id ?S)" using assms(1) by (simp add: siblings_def distinct_map_filter)
  then have ids: "distinct (map mo_id (as @ a # b # cs))" by (simp only: keys)
  then have abid: "mo_id a \<noteq> mo_id b" by simp
  have same: "?f q = q" if "q \<in> set as \<union> set cs" for q
  proof -
    have "mo_id q \<in> mo_id ` (set as \<union> set cs)" using that by blast
    then have "mo_id q \<noteq> mo_id a \<and> mo_id q \<noteq> mo_id b" using ids by auto
    with ab show ?thesis by (auto intro: swap_other)
  qed
  then have eq: "map ?f as = as" "map ?f cs = cs" by (simp_all add: map_idI)
  have fa: "mo_order (?f a) = mo_order b" "mo_order (?f b) = mo_order a"
    using ab abid by (auto simp: swap_orders_def set_order_def)
  have sorted: "sorted (map mo_order ?M)" using srt fa by (auto simp: eq sorted_append)
  have msetM: "mset (map ?f ?S) = mset ?M"
  proof -
    have "mset (map ?f ?S) = mset (map ?f (as @ a # b # cs))" by (simp only: mset_map mset)
    then show ?thesis by (simp add: add_mset_commute)
  qed
  have "distinct (map mo_order ?M)" using assms(2) keys' [of mo_order] by (auto simp: eq fa)
  then have "inj_on mo_order (set (map ?f ?S))"
    unfolding mset_eq_setD [OF msetM] distinct_map by (rule conjunct2)
  with msetM sorted have "sort_key mo_order (map ?f ?S) = ?M" by (intro sort_key_inj_key_eq)
  then show ?thesis by (simp add: shown_def siblings_swap)
qed

text \<open>Which neighbour the query finds, read off the sorted list.\<close>

lemma sorted_list_facts:
  assumes "distinct (map mo_order sibs)" and L: "sort_key mo_order sibs = xs"
  shows "set sibs = set xs" and "sorted (map mo_order xs)" and "distinct (map mo_order xs)"
proof -
  show "set sibs = set xs" by (metis L set_sort)
  show "sorted (map mo_order xs)" by (simp flip: L)
  have "distinct (map mo_order (sort_key mo_order sibs))"
    using assms(1) by (metis distinct_map distinct_sort set_sort)
  with L show "distinct (map mo_order xs)" by simp
qed

lemma neighbour_up:
  assumes "distinct (map mo_order sibs)" and L: "sort_key mo_order sibs = as @ a # r # cs"
  shows "neighbour True r sibs = Some a"
proof -
  note S = sorted_list_facts(1) [OF assms] and srt = sorted_list_facts(2) [OF assms]
    and dist = sorted_list_facts(3) [OF assms]
  let ?C = "filter (\<lambda>q. mo_order q < mo_order r) sibs"
  have C: "set ?C = insert a (set as)" using S srt dist by (fastforce simp: sorted_append)
  obtain q where q: "first_by (\<lambda>q. - mo_order q) ?C = Some q"
    using C first_by_None [of "\<lambda>q. - mo_order q" ?C] by fastforce
  have "q \<in> insert a (set as)" "mo_order a \<le> mo_order q"
    using first_by_Some(1) [OF q] first_by_Some(2) [OF q, of a] unfolding C by simp_all
  with srt dist have "q = a" by (auto simp: sorted_append)
  with q show ?thesis by (simp add: neighbour_def)
qed

lemma neighbour_down:
  assumes "distinct (map mo_order sibs)" and L: "sort_key mo_order sibs = as @ r # a # cs"
  shows "neighbour False r sibs = Some a"
proof -
  note S = sorted_list_facts(1) [OF assms] and srt = sorted_list_facts(2) [OF assms]
    and dist = sorted_list_facts(3) [OF assms]
  let ?C = "filter (\<lambda>q. mo_order r < mo_order q) sibs"
  have C: "set ?C = insert a (set cs)" using S srt dist by (fastforce simp: sorted_append)
  obtain q where q: "first_by mo_order ?C = Some q"
    using C first_by_None [of mo_order ?C] by fastforce
  have "q \<in> insert a (set cs)" "mo_order q \<le> mo_order a"
    using first_by_Some(1) [OF q] first_by_Some(2) [OF q, of a] unfolding C by simp_all
  moreover have "mo_order a < mo_order q" if "q \<in> set cs"
    using srt dist that by (auto simp: sorted_append less_le)
  ultimately have "q = a" by auto
  with q show ?thesis by (simp add: neighbour_def)
qed

lemma neighbour_end:
  assumes "r \<in> set sibs" and "neighbour up r sibs = None"
  shows "if up then \<forall>q \<in> set sibs. mo_order r \<le> mo_order q else \<forall>q \<in> set sibs. mo_order q \<le> mo_order r"
  using assms(2) by (cases up) (auto simp: neighbour_def first_by_None filter_empty_conv not_less)

lemma neighbour_equal:
  "\<forall>q \<in> set sibs. mo_order q = mo_order r \<Longrightarrow> neighbour up r sibs = None"
  by (simp add: neighbour_def first_by_None filter_empty_conv)

text \<open>Where the node stands in the sorted list: at the end that it would move beyond, or next to a neighbour.\<close>

lemma place_of:
  assumes "r \<in> set xs"
  obtains cs where "up" "xs = r # cs" | as a cs where "up" "xs = as @ a # r # cs"
    | as where "\<not> up" "xs = as @ [r]" | as a cs where "\<not> up" "xs = as @ r # a # cs"
proof -
  obtain bs cs where x: "xs = bs @ r # cs" using assms by (meson split_list)
  show thesis
  proof (cases up)
    case True
    with x that(1,2) show thesis by (cases bs rule: rev_cases) auto
  next
    case False
    with x that(3,4) show thesis by (cases cs) auto
  qed
qed

lemma shown_reordered:
  assumes "distinct (map mo_id rows)" and "r \<in> set rows"
    and "distinct (map mo_order (siblings rows (mo_app r) (mo_parent r)))"
  shows "shown (reordered up r rows) (mo_app r) (mo_parent r) =
    move up (mo_id r) (shown rows (mo_app r) (mo_parent r))"
proof -
  let ?S = "siblings rows (mo_app r) (mo_parent r)"
  let ?L = "sort_key mo_order ?S"
  have "r \<in> set ?S" using assms(2) by (simp add: siblings_def)
  note L = sorted_list_facts [OF assms(3) refl]
  have "distinct (map mo_id ?S)" using assms(1) by (simp add: siblings_def distinct_map_filter)
  then have ids: "distinct (map mo_id ?L)" by (metis distinct_map distinct_sort set_sort)
  have first: "neighbour True r ?S = None" if "?L = r # cs" for cs
    using that L(1,2) by (auto simp: neighbour_def first_by_None filter_empty_conv not_less)
  have last: "neighbour False r ?S = None" if "?L = as @ [r]" for as
    using that L(1,2) by (auto simp: neighbour_def first_by_None filter_empty_conv not_less sorted_append)
  have "r \<in> set ?L" using \<open>r \<in> set ?S\<close> by simp
  then show ?thesis
  proof (cases rule: place_of [where up = up])
    case (1 cs)
    with first [OF 1(2)] ids show ?thesis by (simp add: reordered_def shown_def move_simps)
  next
    case (2 as a cs)
    have "shown (map (swap_orders r a) rows) (mo_app r) (mo_parent r) = move up (mo_id r) (map mo_id ?L)"
      unfolding shown_swap [OF assms(1,3) 2(2), of r a, simplified]
      using ids 2 by (simp add: move_simps)
    with 2(1) neighbour_up [OF assms(3) 2(2)] show ?thesis by (simp add: reordered_def shown_def [of rows])
  next
    case (3 as)
    with last [OF 3(2)] ids show ?thesis by (simp add: reordered_def shown_def move_simps)
  next
    case (4 as a cs)
    have "shown (map (swap_orders r a) rows) (mo_app r) (mo_parent r) = move up (mo_id r) (map mo_id ?L)"
      unfolding shown_swap [OF assms(1,3) 4(2), of r a, simplified]
      using ids 4 by (simp add: move_simps)
    with 4(1) neighbour_down [OF assms(3) 4(2)] show ?thesis by (simp add: reordered_def shown_def [of rows])
  qed
qed

lemma neighbour_sibling: "neighbour up r sibs = Some q \<Longrightarrow> q \<in> set sibs"
  by (auto simp: neighbour_def split: if_splits dest: first_by_Some(1))

lemma shown_others:
  assumes "distinct (map mo_id rows)" and "r \<in> set rows" and "(app, par) \<noteq> (mo_app r, mo_parent r)"
  shows "shown (reordered up r rows) app par = shown rows app par"
proof (cases "neighbour up r (siblings rows (mo_app r) (mo_parent r))")
  case (Some a)
  then have a: "a \<in> set rows" "mo_app a = mo_app r" "mo_parent a = mo_parent r"
    using neighbour_sibling [OF Some] by (auto simp: siblings_def)
  have "swap_orders r a q = q" if "q \<in> set (siblings rows app par)" for q
  proof (rule swap_other)
    have q: "q \<in> set rows" "(mo_app q, mo_parent q) = (app, par)" using that by (auto simp: siblings_def)
    have inj: "inj_on mo_id (set rows)" using assms(1) by (simp add: distinct_map)
    show "mo_id q \<noteq> mo_id r" "mo_id q \<noteq> mo_id a"
      using q a assms(2,3) inj_onD [OF inj, of q r] inj_onD [OF inj, of q a] by auto
  qed
  then have "map (swap_orders r a) (siblings rows app par) = siblings rows app par" by (simp add: map_idI)
  with Some show ?thesis by (simp add: reordered_def shown_def siblings_swap)
qed (simp add: reordered_def)

text \<open>
  C25: reordering a menu node moves it by one place. When the siblings of a node have different orders, the
  menu below its parent is shown afterwards with the node exchanged with the one before it (or after
  it), and unchanged when it is first (or last); every other menu is shown as before. When all siblings
  have the same order, as nodes created without an order do, nothing is moved in either direction.
  Success is reported in every case.
\<close>

theorem menu_reorder_moves:
  assumes "distinct (map mo_id rows)" and "r \<in> set rows"
    and "rows' = menu_after (snd (reorderMenuNode (mo_id r) up (menu_world rows) [])) rows"
  shows "fst (reorderMenuNode (mo_id r) up (menu_world rows) []) = Inr success \<and>
    (distinct (map mo_order (siblings rows (mo_app r) (mo_parent r))) \<longrightarrow>
      shown rows' (mo_app r) (mo_parent r) = move up (mo_id r) (shown rows (mo_app r) (mo_parent r))) \<and>
    ((app, par) \<noteq> (mo_app r, mo_parent r) \<longrightarrow> shown rows' app par = shown rows app par) \<and>
    ((\<forall>q \<in> set (siblings rows (mo_app r) (mo_parent r)). mo_order q = mo_order r) \<longrightarrow> rows' = rows)"
  using reorder_run [OF assms(1,2), of up] shown_reordered [OF assms(1,2), of up] shown_others [OF assms(1,2), of app par up]
    neighbour_equal [of "siblings rows (mo_app r) (mo_parent r)" r up]
  by (simp_all add: assms(3) reordered_def)

definition menu_entry :: "string \<Rightarrow> int \<Rightarrow> menu_rec" where
  "menu_entry i n = \<lparr>mo_id = i, mo_app = ''a'', mo_parent = None, mo_order = n\<rparr>"

lemma menu_reorder_moves_witness:
  "shown (menu_after (snd (reorderMenuNode ''z'' True
      (menu_world [menu_entry ''x'' 3, menu_entry ''y'' 1, menu_entry ''z'' 2]) []))
      [menu_entry ''x'' 3, menu_entry ''y'' 1, menu_entry ''z'' 2]) ''a'' None = [''z'', ''y'', ''x'']"
proof -
  let ?rows = "[menu_entry ''x'' 3, menu_entry ''y'' 1, menu_entry ''z'' 2]"
  have "shown ?rows ''a'' None = [''y'', ''z'', ''x'']" by (simp add: shown_def siblings_def menu_entry_def)
  with menu_reorder_moves [of ?rows "menu_entry ''z'' 2" _ True, OF _ _ refl]
  show ?thesis by (simp add: siblings_def menu_entry_def move_def)
qed

end
