(* ===== verification/Iam_Templates.thy ===== *)
theory Iam_Templates
  imports Iam_Roles Iam_Catalog
begin

text \<open>
  The preference templates as a table: the rule of the preference-templates service that there is only one
  global template, as an invariant of the tables that its operations reach when they run one after
  another, and what happens to the rule when two of them overlap. A row has the columns that the rule
  is about.
\<close>

record tmpl_rec =
  tp_id :: string
  tp_scope :: string

definition is_global :: "tmpl_rec \<Rightarrow> bool" where
  "is_global r = (tp_scope r = ''GLOBAL'')"

text \<open>The condition of the query for another global template.\<close>

definition tmpl_where :: "json \<Rightarrow> tmpl_rec \<Rightarrow> bool" where
  "tmpl_where args r = (tp_scope r = text_at args [''where'', ''scope''] \<and>
     dig args [''where'', ''NOT'', ''id''] \<noteq> Some (JStr (tp_id r)))"

definition tmpl_call :: "string \<Rightarrow> json \<Rightarrow> tmpl_rec list \<Rightarrow> tmpl_rec list" where
  "tmpl_call f args rows =
     (if f = ''prisma.preferenceTemplate.create''
      then rows @ [\<lparr>tp_id = text_at args [''data'', ''id''], tp_scope = text_at args [''data'', ''scope'']\<rparr>]
      else if f = ''prisma.preferenceTemplate.update''
      then map (\<lambda>r. if tp_id r = text_at args [''where'', ''id'']
        then r\<lparr>tp_scope := text_at args [''data'', ''scope'']\<rparr> else r) rows
      else if f = ''prisma.preferenceTemplate.delete''
      then filter (\<lambda>r. tp_id r \<noteq> text_at args [''where'', ''id'']) rows
      else rows)"

fun tmpl_event :: "svc_event \<Rightarrow> tmpl_rec list \<Rightarrow> tmpl_rec list" where
  "tmpl_event (Call f args) rows = tmpl_call f args rows"
| "tmpl_event (Log st name) rows = rows"

definition tmpl_after :: "svc_event list \<Rightarrow> tmpl_rec list \<Rightarrow> tmpl_rec list" where
  "tmpl_after es rows = fold tmpl_event es rows"

definition tmpl_json :: "tmpl_rec \<Rightarrow> json" where
  "tmpl_json r = JObj [(''id'', JStr (tp_id r)), (''scope'', JStr (tp_scope r))]"

text \<open>The database answers the query from the rows; a write to a row that is missing would change nothing.\<close>

definition tmpl_world :: "tmpl_rec list \<Rightarrow> (svc_event, svc_reply) world" where
  "tmpl_world rows h = (case last h of
     Call f args \<Rightarrow> Returned (if f = ''prisma.preferenceTemplate.findFirst''
        then (case find (tmpl_where args) (tmpl_after (butlast h) rows) of None \<Rightarrow> JNull | Some r \<Rightarrow> tmpl_json r)
        else JObj [])
   | Log st name \<Rightarrow> Returned JNull)"

subsection \<open>Operations one after another\<close>

datatype tmpl_op = TCreate string json | TUpdate json | TDelete json

fun tmpl_run :: "(string \<Rightarrow> json \<Rightarrow> json option) \<Rightarrow> tmpl_op \<Rightarrow> json svc" where
  "tmpl_run parse (TCreate newId payload) = createPreferenceTemplate parse newId payload"
| "tmpl_run parse (TUpdate payload) = updatePreferenceTemplate parse payload"
| "tmpl_run parse (TDelete payload) = deletePreferenceTemplate payload"

definition tmpl_events :: "(string \<Rightarrow> json \<Rightarrow> json option) \<Rightarrow> tmpl_op \<Rightarrow> tmpl_rec list \<Rightarrow> svc_event list" where
  "tmpl_events parse op rows = snd (tmpl_run parse op (tmpl_world rows) [])"

text \<open>Payloads as the input schemas admit them, with ids that are new for a creation.\<close>

definition has_scope :: "json \<Rightarrow> bool" where
  "has_scope payload = (\<exists>s. jget payload ''scope'' = Some (JStr s))"

definition has_id :: "json \<Rightarrow> bool" where
  "has_id payload = (\<exists>i. jget payload ''id'' = Some (JStr i))"

fun tmpl_valid :: "tmpl_op \<Rightarrow> tmpl_rec list \<Rightarrow> bool" where
  "tmpl_valid (TCreate newId payload) rows = (has_scope payload \<and> newId \<notin> tp_id ` set rows)"
| "tmpl_valid (TUpdate payload) rows = (has_scope payload \<and> has_id payload)"
| "tmpl_valid (TDelete payload) rows = has_id payload"

inductive tmpl_reachable :: "(string \<Rightarrow> json \<Rightarrow> json option) \<Rightarrow> tmpl_rec list \<Rightarrow> bool" for parse where
  tmpl_empty: "tmpl_reachable parse []"
| tmpl_step: "tmpl_reachable parse rows \<Longrightarrow> tmpl_valid op rows \<Longrightarrow>
    tmpl_reachable parse (tmpl_after (tmpl_events parse op rows) rows)"

text \<open>What each operation makes of the table.\<close>

lemma jget_formats [simp]:
  "jget (jobj ((k, v) # kvs)) k' = (if k' = k then (if v = None then jget (jobj kvs) k' else v) else jget (jobj kvs) k')"
  by (cases v) (auto simp: jobj_def map_filter_simps)

lemma jget_nothing [simp]: "jget (jobj []) k = None"
  by (simp add: jobj_def map_filter_simps)

lemma tmpl_after_simps [simp]:
  "tmpl_after [] rows = rows" "tmpl_after (e # es) rows = tmpl_after es (tmpl_event e rows)"
  "tmpl_after (es @ fs) rows = tmpl_after fs (tmpl_after es rows)"
  by (simp_all add: tmpl_after_def)

definition find_global :: "(string \<times> json option) list \<Rightarrow> json" where
  "find_global others = JObj [(''where'', jobj ((''scope'', Some (JStr ''GLOBAL'')) # others))]"

lemma where_global:
  "tmpl_where (find_global []) = is_global"
  "tmpl_where (find_global [(''NOT'', Some (jobj [(''id'', Some (JStr i))]))]) = (\<lambda>r. is_global r \<and> tp_id r \<noteq> i)"
  by (auto simp: tmpl_where_def find_global_def is_global_def fun_eq_iff)

lemma no_event_global [simp]: "tmpl_event (Call ''prisma.preferenceTemplate.findFirst'' args) rows = rows"
  by (simp add: tmpl_call_def)

text \<open>The check in a history that has left the table as \<open>rows'\<close>.\<close>

lemma only_global_run:
  "only_global payload others (tmpl_world rows) h =
     (if jget payload ''scope'' \<noteq> Some (JStr ''GLOBAL'') then (Inr (), h)
      else (if list_ex (tmpl_where (find_global others)) (tmpl_after h rows) then Inl global_exists else Inr (),
            h @ [Call ''prisma.preferenceTemplate.findFirst'' (find_global others)]))"
proof -
  have "(case find P xs of None \<Rightarrow> JNull | Some r \<Rightarrow> tmpl_json r) = (if list_ex P xs then tmpl_json (the (find P xs)) else JNull)"
    for P :: "tmpl_rec \<Rightarrow> bool" and xs
    by (induction xs) auto
  then show ?thesis
    by (simp add: only_global_def find_global_def call_def io_simps tmpl_world_def tmpl_json_def)
qed

lemma create_rows:
  assumes "jget payload ''scope'' = Some (JStr s)"
  shows "tmpl_after (tmpl_events parse (TCreate newId payload) rows) rows =
    (if s = ''GLOBAL'' \<and> list_ex is_global rows then rows else rows @ [\<lparr>tp_id = newId, tp_scope = s\<rparr>])"
  by (simp add: tmpl_events_def createPreferenceTemplate_def logged_def log_line_def io_simps only_global_run
      where_global assms parsed_call_def call_def tmpl_world_def zod_def tmpl_call_def default_to_def split: option.split)

lemma update_tmpl_rows:
  assumes "jget payload ''scope'' = Some (JStr s)" and "jget payload ''id'' = Some (JStr i)"
  shows "tmpl_after (tmpl_events parse (TUpdate payload) rows) rows =
    (if s = ''GLOBAL'' \<and> list_ex (\<lambda>r. is_global r \<and> tp_id r \<noteq> i) rows then rows
     else map (\<lambda>r. if tp_id r = i then r\<lparr>tp_scope := s\<rparr> else r) rows)"
  by (simp add: tmpl_events_def updatePreferenceTemplate_def logged_def log_line_def io_simps only_global_run
      where_global where_id_def assms parsed_call_def call_def tmpl_world_def zod_def tmpl_call_def default_to_def split: option.split)

lemma delete_rows:
  assumes "jget payload ''id'' = Some (JStr i)"
  shows "tmpl_after (tmpl_events parse (TDelete payload) rows) rows = filter (\<lambda>r. tp_id r \<noteq> i) rows"
  by (simp add: tmpl_events_def deletePreferenceTemplate_def logged_def log_line_def io_simps
      where_id_def assms call_def tmpl_world_def tmpl_call_def)

definition globals :: "tmpl_rec list \<Rightarrow> tmpl_rec list" where
  "globals rows = filter is_global rows"

definition one_global :: "tmpl_rec list \<Rightarrow> bool" where
  "one_global rows = (distinct (map tp_id rows) \<and> length (globals rows) \<le> 1)"

lemma one_global_iff: "distinct (map tp_id rows) \<Longrightarrow>
    one_global rows \<longleftrightarrow> (\<forall>q \<in> set rows. \<forall>r \<in> set rows. is_global q \<and> is_global r \<longrightarrow> tp_id q = tp_id r)"
proof -
  assume d: "distinct (map tp_id rows)"
  then have "distinct (map tp_id (globals rows))" by (simp add: globals_def distinct_map_filter)
  then have "length (globals rows) \<le> 1 \<longleftrightarrow> (\<forall>q \<in> set (globals rows). \<forall>r \<in> set (globals rows). tp_id q = tp_id r)"
    by (cases "globals rows" rule: remdups_adj.cases) auto
  with d show ?thesis by (auto simp: one_global_def globals_def)
qed

lemma tmpl_step_ok:
  assumes "one_global rows" and "tmpl_valid op rows"
  shows "one_global (tmpl_after (tmpl_events parse op rows) rows)"
proof -
  have d: "distinct (map tp_id rows)" using assms(1) by (simp add: one_global_def)
  note one = one_global_iff [OF d, THEN iffD1, OF assms(1), rule_format]
  show ?thesis
  proof (cases op)
    case (TCreate newId payload)
    then obtain s where s: "jget payload ''scope'' = Some (JStr s)" using assms(2) by (auto simp: has_scope_def)
    have "globals rows = []" if "\<not> list_ex is_global rows"
      using that by (simp add: globals_def filter_empty_conv list_ex_iff)
    with TCreate create_rows [OF s] assms show ?thesis
      by (auto simp: one_global_def globals_def is_global_def)
  next
    case (TUpdate payload)
    then obtain s i where s: "jget payload ''scope'' = Some (JStr s)" and i: "jget payload ''id'' = Some (JStr i)"
      using assms(2) by (auto simp: has_scope_def has_id_def)
    let ?f = "\<lambda>r. if tp_id r = i then r\<lparr>tp_scope := s\<rparr> else r"
    have ids: "tp_id (?f r) = tp_id r" for r by simp
    have "one_global (map ?f rows)" if "\<not> (s = ''GLOBAL'' \<and> list_ex (\<lambda>r. is_global r \<and> tp_id r \<noteq> i) rows)"
    proof (subst one_global_iff)
      show "distinct (map tp_id (map ?f rows))" using d by (simp add: comp_def ids)
      have was: "is_global r \<or> (tp_id r = i \<and> s = ''GLOBAL'')" if "is_global (?f r)" for r
        using that by (auto simp: is_global_def split: if_splits)
      have "tp_id q = tp_id r" if "q \<in> set rows" "r \<in> set rows" "is_global (?f q)" "is_global (?f r)" for q r
        using was [OF that(3)] was [OF that(4)] one [OF that(1,2)] that(1,2)
          \<open>\<not> (s = ''GLOBAL'' \<and> list_ex (\<lambda>r. is_global r \<and> tp_id r \<noteq> i) rows)\<close>
        unfolding list_ex_iff by metis
      then show "\<forall>q \<in> set (map ?f rows). \<forall>r \<in> set (map ?f rows). is_global q \<and> is_global r \<longrightarrow> tp_id q = tp_id r"
        unfolding set_map ball_simps(9) ids by blast
    qed
    with TUpdate assms(1) update_tmpl_rows [OF s i] show ?thesis by simp
  next
    case (TDelete payload)
    then obtain i where i: "jget payload ''id'' = Some (JStr i)" using assms(2) by (auto simp: has_id_def)
    have "distinct (map tp_id (filter (\<lambda>r. tp_id r \<noteq> i) rows))" using d by (simp add: distinct_map_filter)
    then show ?thesis using one by (simp add: TDelete delete_rows [OF i] one_global_iff)
  qed
qed

text \<open>
  Operations that run one after another keep at most one global preference template: in every table that
  creations, updates and deletions with valid payloads reach, from the empty one, the ids are unique
  and there is at most one row with the global scope.
\<close>

lemma global_template_unique:
  assumes "tmpl_reachable parse rows"
  shows "one_global rows"
  using assms
proof (induction rule: tmpl_reachable.induct)
  case tmpl_empty
  show ?case by (simp add: one_global_def globals_def)
next
  case (tmpl_step rows op)
  then show ?case by (blast intro: tmpl_step_ok)
qed

definition global_payload :: json where
  "global_payload = JObj [(''scope'', JStr ''GLOBAL'')]"

lemma global_template_unique_witness:
  "one_global (tmpl_after (tmpl_events (\<lambda>s v. Some v) (TCreate ''1'' global_payload) []) [])"
  by (rule global_template_unique, rule tmpl_step, rule tmpl_empty) (simp add: has_scope_def global_payload_def)

text \<open>
  Two creations of a global template that overlap both succeed when each makes its check before the other
  writes: neither the service nor the table (its unique index is on scope and country, and the country
  of a global template is null) stops the second, and there are two global templates.
\<close>

lemma global_template_race:
  assumes "list_ex is_global rows = False" and "jget p ''scope'' = Some (JStr ''GLOBAL'')"
    and "jget q ''scope'' = Some (JStr ''GLOBAL'')"
  shows "length (globals (tmpl_after (tmpl_events parse (TCreate i p) rows @ tmpl_events parse (TCreate j q) rows) rows)) = 2"
proof -
  have "tmpl_after (tmpl_events parse (TCreate j q) rows) rows' = rows' @ [\<lparr>tp_id = j, tp_scope = ''GLOBAL''\<rparr>]" for rows'
    using assms by (simp add: tmpl_events_def createPreferenceTemplate_def logged_def log_line_def io_simps only_global_run
      where_global parsed_call_def call_def tmpl_world_def zod_def tmpl_call_def default_to_def split: option.split)
  moreover have "globals rows = []" using assms(1) by (simp add: globals_def filter_empty_conv list_ex_iff)
  ultimately show ?thesis using assms create_rows [OF assms(2)] by (simp add: globals_def is_global_def)
qed

end
