(* ===== verification/Iam_SignIn.thy ===== *)
theory Iam_SignIn
  imports Iam_Services
begin

text \<open>
  Signing in and out: the service of
  \<^verbatim>\<open>iam/src/modules/server/core/auth/infrastructure/services/auth.service.ts\<close> and the page that relays
  magic links (\<^verbatim>\<open>auth/magic-link/relay/page.tsx\<close>). Callback URLs come from the browser; the section on
  them states where a user can be sent. \<open>site\<close> is \<^verbatim>\<open>BETTER_AUTH_URL\<close>, \<open>enc\<close> is \<^verbatim>\<open>encodeURIComponent\<close>, \<open>b64\<close>
  and \<open>unb64\<close> are the base64url codec of \<^verbatim>\<open>Buffer\<close>.
\<close>

subsection \<open>Callback URLs\<close>

definition authorize_path :: string where
  "authorize_path = ''/api/auth/oauth2/authorize?''"

definition isValidCallbackURL :: "string option \<Rightarrow> bool" where
  "isValidCallbackURL u = (case u of None \<Rightarrow> True | Some [] \<Rightarrow> True
     | Some s \<Rightarrow> s = ''/'' \<or> starts_with s authorize_path)"

definition safeCallbackURL :: "string option \<Rightarrow> string" where
  "safeCallbackURL u = (if isValidCallbackURL u then (case u of None \<Rightarrow> ''/'' | Some s \<Rightarrow> s) else ''/'')"

text \<open>The callback of a magic link: an authorize path is wrapped into the relay page.\<close>

definition finalCallbackURL :: "string \<Rightarrow> (string \<Rightarrow> string) \<Rightarrow> string \<Rightarrow> string" where
  "finalCallbackURL site b64 safe =
     (if starts_with safe authorize_path then site @ ''/auth/magic-link/relay?redirect='' @ b64 safe else safe)"

text \<open>The page that a reset mail leads to; \<^verbatim>\<open>safeRedirect\<close> is undefined for a redirect that is not allowed.\<close>

definition redirectTo :: "string \<Rightarrow> (string \<Rightarrow> string) \<Rightarrow> string option \<Rightarrow> string" where
  "redirectTo site enc redirect =
     (let resetBase = site @ ''/auth/reset-password'' in
      case (if isValidCallbackURL redirect then redirect else None) of
        Some (c # s) \<Rightarrow> resetBase @ ''?redirect='' @ enc (c # s)
      | _ \<Rightarrow> resetBase)"

text \<open>The relay page: where it redirects to. \<open>unb64\<close> gives None when decoding throws.\<close>

definition magicLinkRelay :: "(string \<Rightarrow> string option) \<Rightarrow> string option \<Rightarrow> string" where
  "magicLinkRelay unb64 encoded = (case encoded of
     None \<Rightarrow> ''/auth/magic-link''
   | Some [] \<Rightarrow> ''/auth/magic-link''
   | Some e \<Rightarrow> (case unb64 e of
        None \<Rightarrow> ''/auth/magic-link''
      | Some decoded \<Rightarrow> if starts_with decoded authorize_path then decoded else ''/''))"

subsection \<open>The service\<close>

text \<open>One field of the answer under another name.\<close>

definition renamed_field ::
    "(string \<Rightarrow> json \<Rightarrow> json option) \<Rightarrow> string \<Rightarrow> json \<Rightarrow> string \<Rightarrow> string \<Rightarrow> string \<Rightarrow> json svc" where
  "renamed_field parse f args k k' schema = andThen (call f args) (\<lambda>res. andThen (rd res k) (\<lambda>v.
     zod parse schema (jobj [(k', v)])))"

definition signUpWithEmail :: "string list \<Rightarrow> (string \<Rightarrow> json \<Rightarrow> json option) \<Rightarrow> json \<Rightarrow> json svc" where
  "signUpWithEmail base parse payload = logged ''AuthService.signUpWithEmail'' (map_auth base ''Failed to sign up user'')
     (parsed_call parse ''auth.signUpEmail''
        (body (as_is payload [''name'', ''username'', ''email'', ''password''] @ [(''callbackURL'', Some (JStr ''/''))]))
        ''SignupResponseDtoSchema'')"

definition signInWithEmail :: "string list \<Rightarrow> (string \<Rightarrow> json \<Rightarrow> json option) \<Rightarrow> json \<Rightarrow> json svc" where
  "signInWithEmail base parse payload = logged ''AuthService.signInWithEmail'' (map_auth base ''Failed to sign in user'')
     (parsed_call parse ''auth.signInEmail''
        (body (as_is payload [''email'', ''password'', ''rememberMe''] @ [(''callbackURL'', Some (JStr ''/''))]))
        ''SigninResponseDtoSchema'')"

definition signInWithSocial ::
    "string list \<Rightarrow> (string \<Rightarrow> json \<Rightarrow> json option) \<Rightarrow> string \<Rightarrow> string option \<Rightarrow> json svc" where
  "signInWithSocial base parse provider callbackURL =
     logged ''AuthService.signInWithSocial'' (map_auth base ''Failed to sign in user'')
     (parsed_call parse ''auth.signInSocial''
        (body [(''provider'', Some (JStr provider)), (''callbackURL'', Some (JStr (safeCallbackURL callbackURL)))])
        ''SigninWithSocialResponseDtoSchema'')"

definition signOut :: "string list \<Rightarrow> (string \<Rightarrow> json \<Rightarrow> json option) \<Rightarrow> json svc" where
  "signOut base parse = logged ''AuthService.signOut'' (map_auth base ''Failed to sign out user'')
     (andThen (call ''auth.signOut'' (JObj [])) (\<lambda>res. andThen (rd res ''success'') (\<lambda>ok.
      zod parse ''SignoutResponseDtoSchema'' (spread res [(''url'', if truthy ok then JStr ''/'' else JNull)]))))"

definition sendEmailVerification ::
    "string list \<Rightarrow> (string \<Rightarrow> json \<Rightarrow> json option) \<Rightarrow> string \<Rightarrow> string option \<Rightarrow> json svc" where
  "sendEmailVerification base parse email callbackURL =
     logged ''AuthService.sendEmailVerification'' (map_auth base ''Failed to send verification email'')
     (renamed_field parse ''auth.sendVerificationEmail''
        (body [(''email'', Some (JStr email)), (''callbackURL'', Some (JStr (safeCallbackURL callbackURL)))])
        ''status'' ''success'' ''SendEmailVerificationDtoSchema'')"

definition sendTwoFactorOTP :: "string list \<Rightarrow> (string \<Rightarrow> json \<Rightarrow> json option) \<Rightarrow> json \<Rightarrow> json svc" where
  "sendTwoFactorOTP base parse payload =
     logged ''AuthService.sendTwoFactorOTP'' (map_auth base ''Failed to send two-factor OTP'')
     (renamed_field parse ''auth.sendTwoFactorOTP'' (body (as_is payload [''trustDevice'']))
        ''status'' ''status'' ''SendTwoFactorOTPDtoSchema'')"

definition verifyTwoFactorOTP :: "string list \<Rightarrow> (string \<Rightarrow> json \<Rightarrow> json option) \<Rightarrow> json \<Rightarrow> json svc" where
  "verifyTwoFactorOTP base parse payload =
     logged ''AuthService.verifyTwoFactorOTP'' (map_auth base ''Failed to verify two-factor OTP'')
     (parsed_call parse ''auth.verifyTwoFactorOTP'' (body (as_is payload [''code'', ''trustDevice'']))
        ''VerifyTwoFactorOTPDtoSchema'')"

definition verifyTwoFactorTOTP :: "string list \<Rightarrow> (string \<Rightarrow> json \<Rightarrow> json option) \<Rightarrow> json \<Rightarrow> json svc" where
  "verifyTwoFactorTOTP base parse payload =
     logged ''AuthService.verifyTwoFactorTOTP'' (map_auth base ''Failed to verify TOTP code'')
     (parsed_call parse ''auth.verifyTOTP'' (body (as_is payload [''code'', ''trustDevice''])) ''VerifyTOTPDtoSchema'')"

definition sendMagicLink ::
    "string list \<Rightarrow> (string \<Rightarrow> json \<Rightarrow> json option) \<Rightarrow> string \<Rightarrow> (string \<Rightarrow> string) \<Rightarrow> string \<Rightarrow> string option \<Rightarrow> json svc" where
  "sendMagicLink base parse site b64 email callbackURL =
     logged ''AuthService.sendMagicLink'' (map_auth base ''Failed to send magic link'')
     (renamed_field parse ''auth.signInMagicLink''
        (body [(''email'', Some (JStr email)),
               (''callbackURL'', Some (JStr (finalCallbackURL site b64 (safeCallbackURL callbackURL))))])
        ''status'' ''success'' ''SendMagicLinkDtoSchema'')"

definition sendResetPassword ::
    "string list \<Rightarrow> (string \<Rightarrow> json \<Rightarrow> json option) \<Rightarrow> string \<Rightarrow> (string \<Rightarrow> string) \<Rightarrow> string \<Rightarrow> string option \<Rightarrow> json svc" where
  "sendResetPassword base parse site enc email redirect =
     logged ''AuthService.sendResetPassword'' (map_auth base ''Failed to send password reset email'')
     (andThen (call ''auth.requestPasswordReset''
        (body [(''email'', Some (JStr email)), (''redirectTo'', Some (JStr (redirectTo site enc redirect)))]))
        (\<lambda>_. zod parse ''SendResetPasswordDtoSchema'' success))"

definition resetPassword :: "string list \<Rightarrow> (string \<Rightarrow> json \<Rightarrow> json option) \<Rightarrow> json \<Rightarrow> json svc" where
  "resetPassword base parse payload = logged ''AuthService.resetPassword'' (map_auth base ''Failed to reset password'')
     (andThen (call ''auth.resetPassword'' (body (as_is payload [''newPassword'', ''token''])))
        (\<lambda>_. zod parse ''ResetPasswordDtoSchema'' success))"

subsection \<open>The operations settle\<close>

lemma only_renamed_field: "P (Call f args) \<Longrightarrow> only P (renamed_field parse f args k k' schema)"
  unfolding renamed_field_def by (intro only_andThen only_call only_rd only_zod)

lemma quiet_renamed_field [quiet_rules]: "quiet (renamed_field parse f args k k' schema)"
  by (simp add: only_renamed_field)

text \<open>The operations by the name they are logged under.\<close>

definition sign_in_operations ::
    "string list \<Rightarrow> (string \<Rightarrow> json \<Rightarrow> json option) \<Rightarrow> json \<Rightarrow> string \<Rightarrow> string \<Rightarrow> string option \<Rightarrow> string option \<Rightarrow> string \<Rightarrow> (string \<Rightarrow> string) \<Rightarrow> (string \<Rightarrow> string) \<Rightarrow>
     (string \<times> json svc) list" where
  "sign_in_operations base parse payload email provider callbackURL redirect site b64 enc =
     [(''AuthService.signUpWithEmail'', signUpWithEmail base parse payload),
      (''AuthService.signInWithEmail'', signInWithEmail base parse payload),
      (''AuthService.signInWithSocial'', signInWithSocial base parse provider callbackURL),
      (''AuthService.signOut'', signOut base parse),
      (''AuthService.sendEmailVerification'', sendEmailVerification base parse email callbackURL),
      (''AuthService.sendTwoFactorOTP'', sendTwoFactorOTP base parse payload),
      (''AuthService.verifyTwoFactorOTP'', verifyTwoFactorOTP base parse payload),
      (''AuthService.verifyTwoFactorTOTP'', verifyTwoFactorTOTP base parse payload),
      (''AuthService.sendMagicLink'', sendMagicLink base parse site b64 email callbackURL),
      (''AuthService.sendResetPassword'', sendResetPassword base parse site enc email redirect),
      (''AuthService.resetPassword'', resetPassword base parse payload)]"

lemmas sign_in_operations_defs =
  signUpWithEmail_def signInWithEmail_def signInWithSocial_def signOut_def sendEmailVerification_def
  sendTwoFactorOTP_def verifyTwoFactorOTP_def verifyTwoFactorTOTP_def sendMagicLink_def
  sendResetPassword_def resetPassword_def

lemma sign_in_operations_settle:
  "list_all (\<lambda>(name, op). reports name (fst (op w [])) (snd (op w []))) (sign_in_operations base parse payload email provider callbackURL redirect site b64 enc)"
proof -
  note rep = reports_logged [THEN yieldsD]
  show ?thesis
    unfolding sign_in_operations_def list.pred_inject prod.case sign_in_operations_defs
    by (intro conjI list.pred_inject(1) rep [OF infra_mapping.error_mapping_axioms]
        rep [OF auth_mapping.error_mapping_axioms] quiet_rules)
qed

subsection \<open>Where users can be sent\<close>

text \<open>
  What a browser does with a URL: it stays on the site for an empty URL, for the site's own URLs, and
  for a path, which begins with a slash that no other slash or backslash follows.
\<close>

definition same_site :: "string \<Rightarrow> string \<Rightarrow> bool" where
  "same_site site u = (u = [] \<or> starts_with u (site @ ''/'') \<or>
     (case u of c # us \<Rightarrow> c = CHR ''/'' \<and> (us = [] \<or> hd us \<notin> {CHR ''/'', CHR 0x5C}) | [] \<Rightarrow> True))"

lemma authorize_same_site: "starts_with u authorize_path \<Longrightarrow> same_site site u"
  by (auto simp: starts_with_def prefix_def same_site_def authorize_path_def)

lemma safe_cases:
  "safeCallbackURL u = [] \<or> safeCallbackURL u = ''/'' \<or> starts_with (safeCallbackURL u) authorize_path"
  by (simp add: safeCallbackURL_def isValidCallbackURL_def split: option.split list.split)

lemma same_site_simps: "same_site site []" "same_site site ''/''" "same_site site (site @ CHR ''/'' # s)"
  by (simp_all add: same_site_def starts_with_def)

lemma safe_same_site: "same_site site (safeCallbackURL u)"
  using safe_cases [of u] authorize_same_site by (auto simp: same_site_simps)

lemma final_same_site: "same_site site u \<Longrightarrow> same_site site (finalCallbackURL site b64 u)"
  by (simp add: finalCallbackURL_def same_site_simps)

lemma redirectTo_same_site: "same_site site (redirectTo site enc redirect)"
  by (simp add: redirectTo_def same_site_simps Let_def split: option.split list.split)

lemma relay_same_site: "same_site site (magicLinkRelay unb64 q)"
proof -
  have "same_site site ''/''" "same_site site ''/auth/magic-link''" by (simp_all add: same_site_def)
  then show ?thesis
    by (auto simp: magicLinkRelay_def authorize_same_site split: option.split list.split)
qed

text \<open>The URLs in a call to which Better Auth sends the user later.\<close>

definition call_targets :: "json \<Rightarrow> json list" where
  "call_targets args = (case jget args ''body'' of None \<Rightarrow> [] | Some b \<Rightarrow>
     List.map_filter (\<lambda>k. jget b k) [''callbackURL'', ''redirectTo''])"

fun event_targets :: "svc_event \<Rightarrow> json list" where
  "event_targets (Call f args) = call_targets args"
| "event_targets (Log st name) = []"

definition target_ok :: "string \<Rightarrow> json \<Rightarrow> bool" where
  "target_ok site j = (case j of JStr u \<Rightarrow> same_site site u | _ \<Rightarrow> False)"

definition stays :: "string \<Rightarrow> svc_event \<Rightarrow> bool" where
  "stays site e = list_all (target_ok site) (event_targets e)"

lemma stays_body: "stays site (Call f (JObj [(''body'', jobj kvs)])) \<longleftrightarrow>
    list_all (target_ok site) (List.map_filter (jget (jobj kvs)) [''callbackURL'', ''redirectTo''])"
  by (simp add: stays_def call_targets_def)

lemma stays_log: "stays site (Log st name)"
  by (simp add: stays_def)

lemmas stays_ops = only_logged [of "stays site" for site, OF stays_log]


text \<open>
  A magic link with a callback to an authorize path leads there: the link goes to the relay page of the
  site, which decodes the same path and redirects to it.
\<close>

lemma magic_link_relayed:
  assumes "starts_with u authorize_path" and "unb64 (b64 u) = Some u" and "b64 u \<noteq> []"
  shows "finalCallbackURL site b64 (safeCallbackURL (Some u)) = site @ ''/auth/magic-link/relay?redirect='' @ b64 u \<and>
    magicLinkRelay unb64 (Some (b64 u)) = u"
proof -
  have "u \<noteq> []" using assms(1) by (auto simp: starts_with_def authorize_path_def)
  with assms show ?thesis
    by (auto simp: safeCallbackURL_def isValidCallbackURL_def finalCallbackURL_def magicLinkRelay_def split: list.split)
qed

definition demo_link :: string where
  "demo_link = authorize_path @ ''client_id=1''"

lemma magic_link_relayed_witness:
  "magicLinkRelay (\<lambda>s. Some (rev s)) (Some (rev demo_link)) = demo_link \<and> hd demo_link = CHR ''/''"
  using magic_link_relayed [of demo_link "\<lambda>s. Some (rev s)" rev "[]"]
  by (simp add: demo_link_def authorize_path_def starts_with_def)

end
