(* ===== verification/Iam_Procedures.thy ===== *)
theory Iam_Procedures
  imports Iam_Menu Iam_Templates Iam_SignIn
begin

text \<open>
  The frame of the identity service's server actions: the procedures that guard them
  (\<^verbatim>\<open>presentation/actions/procedures.ts\<close>), the transport decision and the error boundary around them
  (\<^verbatim>\<open>presentation/transport/runWithTransport.ts\<close>), the validation of input by the controllers, and the
  check of captcha tokens (\<^verbatim>\<open>shared/captcha/validateCaptcha.ts\<close>). Reading the session, \<^verbatim>\<open>revalidatePath\<close>,
  \<^verbatim>\<open>redirect\<close> and the captcha provider are calls answered by the world.
\<close>

subsection \<open>The environment\<close>

text \<open>
  What the code imports: Better Auth's error codes, the Zod schemas by name and what they report on
  rejected data, the JSON functions, the permission column of a role row, the clock and the id of an
  operation, the site and the codecs, and the configuration of captchas.
\<close>

record iam_env =
  en_base :: "string list"
  en_parse :: "string \<Rightarrow> json \<Rightarrow> json option"
  en_issues :: "string \<Rightarrow> json option \<Rightarrow> json"
  en_parse_json :: "string \<Rightarrow> json option"
  en_stringify :: "json \<Rightarrow> string"
  en_column :: "json option \<Rightarrow> json option"
  en_now :: json
  en_newId :: string
  en_site :: string
  en_b64 :: "string \<Rightarrow> string"
  en_enc :: "string \<Rightarrow> string"
  en_captcha :: bool
  en_secret :: "string option"

subsection \<open>The services settle\<close>

text \<open>Every operation of the services with the logging frame, by the name that it logs.\<close>

definition iam_operations ::
    "iam_env \<Rightarrow> json \<Rightarrow> json \<Rightarrow> string \<Rightarrow> string \<Rightarrow> string option \<Rightarrow> string option \<Rightarrow> string \<Rightarrow> string \<Rightarrow> bool \<Rightarrow>
     string option \<Rightarrow> string \<Rightarrow> (string \<times> json svc) list" where
  "iam_operations E payload query email provider callbackURL redirect orgId nodeId up resourceId userId =
     org_operations (en_base E) (en_parse E) (en_parse_json E) (en_stringify E) (en_now E) orgId payload @
     admin_operations (en_base E) (en_parse E) (en_parse_json E) payload query email @
     sign_in_operations (en_base E) (en_parse E) payload email provider callbackURL redirect (en_site E) (en_b64 E) (en_enc E) @
     catalog_operations (en_parse E) payload (en_now E) (en_newId E) orgId nodeId up resourceId userId orgId"


subsection \<open>Parsed values\<close>

text \<open>A string field of data that a schema has accepted, an optional one, and a list of strings.\<close>

definition text_of :: "json option \<Rightarrow> string" where
  "text_of v = (case v of Some (JStr s) \<Rightarrow> s | _ \<Rightarrow> [])"

definition opt_text :: "json option \<Rightarrow> string option" where
  "opt_text v = (case v of Some (JStr s) \<Rightarrow> Some s | _ \<Rightarrow> None)"

definition texts_of :: "json option \<Rightarrow> string list" where
  "texts_of v = (case v of Some (JArr vs) \<Rightarrow> map (\<lambda>j. text_of (Some j)) vs | _ \<Rightarrow> [])"

definition role_update_of :: "json \<Rightarrow> role_update" where
  "role_update_of d = \<lparr>ru_memberId = text_of (jget d ''memberId''), ru_organizationId = text_of (jget d ''organizationId''),
     ru_roles = texts_of (jget d ''roles''), ru_redirectUrls = jget d ''redirectUrls''\<rparr>"

definition role_payload_of :: "json \<Rightarrow> role_payload" where
  "role_payload_of d = \<lparr>rp_organizationId = text_of (jget d ''organizationId''), rp_role = text_of (jget d ''role''),
     rp_permissions = texts_of (jget d ''permissions'')\<rparr>"

text \<open>\<^verbatim>\<open>v?.k\<close>.\<close>

definition opt_get :: "json option \<Rightarrow> string \<Rightarrow> json option" where
  "opt_get v k = (case v of None \<Rightarrow> None | Some j \<Rightarrow> jget j k)"

subsection \<open>Controllers\<close>

text \<open>Input that the schema rejects is an \<^verbatim>\<open>InputParseError\<close>; the schemas are object schemas, which reject undefined.\<close>

definition parsed_input :: "iam_env \<Rightarrow> string \<Rightarrow> json option \<Rightarrow> (json \<Rightarrow> 'a svc) \<Rightarrow> 'a svc" where
  "parsed_input E schema input f = (case input of
     None \<Rightarrow> throw (InputParse (en_issues E schema None))
   | Some j \<Rightarrow> (case en_parse E schema j of
        None \<Rightarrow> throw (InputParse (en_issues E schema (Some j)))
      | Some d \<Rightarrow> f d))"

text \<open>A presenter that passes the data on, and one that picks a field.\<close>

definition presented :: "json svc \<Rightarrow> json option svc" where
  "presented m = andThen m (\<lambda>d. ret (Some d))"

definition presented_field :: "string \<Rightarrow> json svc \<Rightarrow> json option svc" where
  "presented_field k m = andThen m (\<lambda>d. rd d k)"

subsection \<open>The boundary\<close>

type_synonym 'a action = "(svc_event, svc_reply, iam_exn boundary, 'a) io"

text \<open>
  \<^verbatim>\<open>redirect\<close> throws the framework's signal; the URL is recorded as the event.
\<close>

definition redirect_to :: "json \<Rightarrow> 'a svc" where
  "redirect_to u = andThen (emit (Call ''redirect'' u)) (\<lambda>_. throw (next_redirect (interp (Some u))))"

definition apply_decision :: "json option \<times> json option \<Rightarrow> json option svc" where
  "apply_decision = (\<lambda>(result, transport).
     let url = opt_get transport ''url'' in
     andThen (if truthy url \<and> truthy (opt_get transport ''shouldRevalidate'')
        then call ''revalidatePath'' (JArr [the url, nullish_or (opt_get transport ''revalidateType'') (JStr ''page'')])
        else ret JNull) (\<lambda>_.
     if truthy url \<and> truthy (opt_get transport ''shouldRedirect'') then redirect_to (the url) else ret result))"

definition run_transport :: "(json option \<times> json option) svc \<Rightarrow> json option action" where
  "run_transport executor = handling (andThen executor apply_decision) (\<lambda>e. throw (mapErrorToZSA e)) ret"

subsection \<open>Procedures\<close>

text \<open>An error in reading the session is not mapped by the application.\<close>

definition iam_session :: "json action" where
  "iam_session = handling (call ''getServerSession'' (JObj [])) (\<lambda>e. throw (Rethrown e)) ret"

definition not_signed_in :: "iam_exn boundary" where
  "not_signed_in = Zsa ''NOT_AUTHORIZED'' (ZText ''You must be signed in.'')"

definition forbidden :: "iam_exn boundary" where
  "forbidden = Zsa ''FORBIDDEN'' (ZText ''Insufficient permissions.'')"

definition signedInProcedure :: "json action" where
  "signedInProcedure = andThen iam_session (\<lambda>session.
     if \<not> truthy (jget session ''user'') then throw not_signed_in else ret session)"

definition superadminProcedure :: "json action" where
  "superadminProcedure = andThen iam_session (\<lambda>session.
     if \<not> truthy (jget session ''user'') then throw not_signed_in
     else if opt_get (jget session ''user'') ''role'' \<noteq> Some (JStr ''superadmin'') then throw forbidden
     else ret session)"

subsection \<open>Actions\<close>

text \<open>
  The kinds of actions: with the handler alone; with unparsed input, of which the controller gets the
  payload and the transport its options; with the controller reading no payload; with input that the
  action's own schema has parsed, before the handler runs.
\<close>

definition superadmin_action :: "(json \<Rightarrow> (json option \<times> json option) svc) \<Rightarrow> json option action" where
  "superadmin_action handler = andThen superadminProcedure (\<lambda>session. run_transport (handler session))"

definition plain_result :: "json option svc \<Rightarrow> (json option \<times> json option) svc" where
  "plain_result m = andThen m (\<lambda>data. ret (data, None))"

definition with_payload :: "json option \<Rightarrow> (json option \<Rightarrow> json option svc) \<Rightarrow> (json option \<times> json option) svc" where
  "with_payload input controller = andThen (rd_of input ''payload'') (\<lambda>p. andThen (controller p) (\<lambda>data.
     ret (data, opt_get input ''transportOptions'')))"

definition with_options :: "json option \<Rightarrow> json option svc \<Rightarrow> (json option \<times> json option) svc" where
  "with_options input m = andThen m (\<lambda>data. andThen (rd_of input ''transportOptions'') (\<lambda>t. ret (data, t)))"

definition superadmin_parsed ::
    "iam_env \<Rightarrow> string \<Rightarrow> json option \<Rightarrow> (json \<Rightarrow> (json option \<times> json option) svc) \<Rightarrow> json option action" where
  "superadmin_parsed E schema input handler = andThen superadminProcedure (\<lambda>session.
     case Option.bind input (en_parse E schema) of
       None \<Rightarrow> throw (Zsa ''INPUT_PARSE_ERROR'' (ZInput (en_issues E schema input)))
     | Some d \<Rightarrow> run_transport (handler d))"

subsection \<open>Captchas\<close>

text \<open>\<^verbatim>\<open>fetch\<close> of the provider's endpoint answers with its JSON.\<close>

definition validateCaptcha :: "iam_env \<Rightarrow> json option \<Rightarrow> unit svc" where
  "validateCaptcha E token =
     (if \<not> en_captcha E then ret ()
      else case en_secret E of
        None \<Rightarrow> ret ()
      | Some [] \<Rightarrow> ret ()
      | Some secret \<Rightarrow>
          if \<not> truthy token then throw (JsError None ''Please complete the captcha verification.'')
          else andThen (call ''fetch.siteverify'' (JObj [(''secret'', JStr secret), (''response'', the token)])) (\<lambda>data.
               andThen (rd data ''success'') (\<lambda>ok.
               if truthy ok then ret () else throw (JsError None ''Captcha verification failed. Please try again.''))))"

end
