(* ===== verification/Iam_Controllers.thy ===== *)
theory Iam_Controllers
  imports Iam_Procedures
begin

text \<open>
  The use cases and controllers between the server actions of the identity service and its services
  (\<^verbatim>\<open>core/*/application/usecases/\<close>, \<^verbatim>\<open>core/*/interface-adapters/controllers/\<close>). A use case passes its
  payload to the injected service; a controller validates its input and presents what the use case
  returns, the whole or one field of it.
\<close>

subsection \<open>Use cases\<close>

definition approveCapabilityUseCase :: "iam_env \<Rightarrow> json \<Rightarrow> json svc" where
  "approveCapabilityUseCase E payload = approveCapability (en_base E) payload"

definition cleanupAgentsUseCase :: "iam_env \<Rightarrow> json svc" where
  "cleanupAgentsUseCase E = cleanupAgents (en_base E) (en_parse E)"

definition createHostUseCase :: "iam_env \<Rightarrow> json \<Rightarrow> json svc" where
  "createHostUseCase E payload = createHost (en_base E) (en_parse E) payload"

definition grantAgentCapabilityUseCase :: "iam_env \<Rightarrow> json \<Rightarrow> json svc" where
  "grantAgentCapabilityUseCase E payload = grantCapability (en_base E) (en_parse E) payload"

definition listAgentsUseCase :: "iam_env \<Rightarrow> json svc" where
  "listAgentsUseCase E = listAgents (en_base E) (en_parse E)"

definition listHostsUseCase :: "iam_env \<Rightarrow> json svc" where
  "listHostsUseCase E = listHosts (en_base E) (en_parse E)"

definition listPendingApprovalsUseCase :: "iam_env \<Rightarrow> json svc" where
  "listPendingApprovalsUseCase E = listPendingApprovals (en_base E) (en_parse E)"

definition reactivateAgentUseCase :: "iam_env \<Rightarrow> json \<Rightarrow> json svc" where
  "reactivateAgentUseCase E payload = reactivateAgent (en_base E) payload"

definition registerAgentUseCase :: "iam_env \<Rightarrow> json \<Rightarrow> json svc" where
  "registerAgentUseCase E payload = registerAgent (en_base E) (en_parse E) payload"

definition revokeAgentUseCase :: "iam_env \<Rightarrow> json \<Rightarrow> json svc" where
  "revokeAgentUseCase E payload = revokeAgent (en_base E) payload"

definition revokeHostUseCase :: "iam_env \<Rightarrow> json \<Rightarrow> json svc" where
  "revokeHostUseCase E payload = revokeHost (en_base E) payload"

definition updateAgentUseCase :: "iam_env \<Rightarrow> json \<Rightarrow> json svc" where
  "updateAgentUseCase E payload = updateAgent (en_base E) (en_parse E) payload"

definition updateHostUseCase :: "iam_env \<Rightarrow> json \<Rightarrow> json svc" where
  "updateHostUseCase E payload = updateHost (en_base E) (en_parse E) payload"

definition createApiKeyUseCase :: "iam_env \<Rightarrow> json \<Rightarrow> json svc" where
  "createApiKeyUseCase E payload = createApiKey (en_base E) (en_parse E) (en_parse_json E) payload"

definition deleteApiKeyUseCase :: "iam_env \<Rightarrow> json \<Rightarrow> json svc" where
  "deleteApiKeyUseCase E payload = deleteApiKey payload"

definition deleteExpiredApiKeysUseCase :: "iam_env \<Rightarrow> json \<Rightarrow> json svc" where
  "deleteExpiredApiKeysUseCase E payload = deleteExpiredApiKeys (en_base E) payload"

definition listApiKeysUseCase :: "iam_env \<Rightarrow> json \<Rightarrow> json svc" where
  "listApiKeysUseCase E payload = listApiKeys (en_parse E) payload"

definition updateApiKeyUseCase :: "iam_env \<Rightarrow> json \<Rightarrow> json svc" where
  "updateApiKeyUseCase E payload = updateApiKey (en_base E) (en_parse E) (en_parse_json E) payload"

definition createAppUseCase :: "iam_env \<Rightarrow> json \<Rightarrow> json svc" where
  "createAppUseCase E payload = createApp (en_parse E) (en_now E) payload"

definition createMenuNodeUseCase :: "iam_env \<Rightarrow> json \<Rightarrow> json svc" where
  "createMenuNodeUseCase E payload = createMenuNode (en_parse E) (en_now E) (en_newId E) payload"

definition deleteAppUseCase :: "iam_env \<Rightarrow> json \<Rightarrow> json svc" where
  "deleteAppUseCase E payload = deleteApp (en_now E) payload"

definition deleteMenuNodeUseCase :: "iam_env \<Rightarrow> json \<Rightarrow> json svc" where
  "deleteMenuNodeUseCase E payload = deleteMenuNode payload"

definition listActionsUseCase :: "iam_env \<Rightarrow> json svc" where
  "listActionsUseCase E = listActions (en_parse E)"

definition listAppsUseCase :: "iam_env \<Rightarrow> json svc" where
  "listAppsUseCase E = listApps (en_parse E)"

definition listMenuNodesUseCase :: "iam_env \<Rightarrow> string \<Rightarrow> json svc" where
  "listMenuNodesUseCase E appId = listMenuNodes (en_parse E) appId"

definition reorderMenuNodeUseCase :: "iam_env \<Rightarrow> json \<Rightarrow> json svc" where
  "reorderMenuNodeUseCase E payload = reorderMenuNode (text_of (jget payload ''nodeId'')) (jget payload ''direction'' = Some (JStr ''up''))"

definition updateAppUseCase :: "iam_env \<Rightarrow> json \<Rightarrow> json svc" where
  "updateAppUseCase E payload = updateApp (en_parse E) (en_now E) payload"

definition updateMenuNodeUseCase :: "iam_env \<Rightarrow> json \<Rightarrow> json svc" where
  "updateMenuNodeUseCase E payload = updateMenuNode (en_parse E) (en_now E) payload"

definition deleteConsentUseCase :: "iam_env \<Rightarrow> json \<Rightarrow> json svc" where
  "deleteConsentUseCase E payload = deleteConsent (en_base E) payload"

definition getConsentUseCase :: "iam_env \<Rightarrow> json \<Rightarrow> json svc" where
  "getConsentUseCase E payload = getConsent (en_base E) (en_parse E) payload"

definition listConsentsUseCase :: "iam_env \<Rightarrow> json svc" where
  "listConsentsUseCase E = listConsents (en_base E) (en_parse E)"

definition updateConsentScopesUseCase :: "iam_env \<Rightarrow> json \<Rightarrow> json svc" where
  "updateConsentScopesUseCase E payload = updateConsentScopes (en_base E) (en_parse E) payload"

definition createOAuthClientUseCase :: "iam_env \<Rightarrow> json \<Rightarrow> json svc" where
  "createOAuthClientUseCase E payload = createOAuthClient (en_base E) (en_parse E) payload"

definition deleteOAuthClientUseCase :: "iam_env \<Rightarrow> json \<Rightarrow> json svc" where
  "deleteOAuthClientUseCase E payload = deleteOAuthClient (en_base E) payload"

definition getOAuthClientsUseCase :: "iam_env \<Rightarrow> json svc" where
  "getOAuthClientsUseCase E = getOAuthClients (en_base E) (en_parse E)"

definition rotateClientSecretUseCase :: "iam_env \<Rightarrow> json \<Rightarrow> json svc" where
  "rotateClientSecretUseCase E payload = rotateClientSecret (en_base E) (en_parse E) payload"

definition updateOAuthClientUseCase :: "iam_env \<Rightarrow> json \<Rightarrow> json svc" where
  "updateOAuthClientUseCase E payload = updateOAuthClient (en_base E) (en_parse E) payload"

definition cancelInvitationUseCase :: "iam_env \<Rightarrow> json \<Rightarrow> json svc" where
  "cancelInvitationUseCase E payload = cancelInvitation (en_base E) payload"

definition createInvitationUseCase :: "iam_env \<Rightarrow> json \<Rightarrow> json svc" where
  "createInvitationUseCase E payload = createInvitation (en_base E) payload"

definition createOrgRoleUseCase :: "iam_env \<Rightarrow> json \<Rightarrow> json svc" where
  "createOrgRoleUseCase E payload = createOrgRole (en_parse E) (en_newId E) (en_now E) (role_payload_of payload)"

definition createOrganizationUseCase :: "iam_env \<Rightarrow> json \<Rightarrow> json svc" where
  "createOrganizationUseCase E payload = createOrganization (en_base E) (en_parse E) (en_parse_json E) (en_stringify E) payload"

definition createTeamUseCase :: "iam_env \<Rightarrow> json \<Rightarrow> json svc" where
  "createTeamUseCase E payload = createTeam (en_base E) payload"

definition deleteOrgRoleUseCase :: "iam_env \<Rightarrow> json \<Rightarrow> json svc" where
  "deleteOrgRoleUseCase E payload = deleteOrgRole (role_payload_of payload)"

definition deleteOrganizationUseCase :: "iam_env \<Rightarrow> json \<Rightarrow> json svc" where
  "deleteOrganizationUseCase E payload = deleteOrganization (en_base E) payload"

definition getOrgRoleRedirectsUseCase :: "iam_env \<Rightarrow> string \<Rightarrow> string \<Rightarrow> json svc" where
  "getOrgRoleRedirectsUseCase E userId organizationId = getOrgRoleRedirects userId organizationId"

definition getOrganizationUseCase :: "iam_env \<Rightarrow> string \<Rightarrow> json svc" where
  "getOrganizationUseCase E organizationId = getOrganization (en_base E) (en_parse E) (en_stringify E) (en_now E) organizationId"

definition listOrgRolesUseCase :: "iam_env \<Rightarrow> string \<Rightarrow> json svc" where
  "listOrgRolesUseCase E organizationId = listOrgRoles (en_parse E) (en_column E) organizationId"

definition listOrganizationsUseCase :: "iam_env \<Rightarrow> json svc" where
  "listOrganizationsUseCase E = listOrganizations (en_parse E)"

definition removeMemberUseCase :: "iam_env \<Rightarrow> json \<Rightarrow> json svc" where
  "removeMemberUseCase E payload = removeMember (en_base E) payload"

definition removeTeamUseCase :: "iam_env \<Rightarrow> json \<Rightarrow> json svc" where
  "removeTeamUseCase E payload = removeTeam (en_base E) payload"

definition removeTeamMemberUseCase :: "iam_env \<Rightarrow> json \<Rightarrow> json svc" where
  "removeTeamMemberUseCase E payload = removeTeamMember (en_base E) payload"

definition updateMemberRoleUseCase :: "iam_env \<Rightarrow> json \<Rightarrow> json svc" where
  "updateMemberRoleUseCase E payload = updateMemberRole (en_base E) (role_update_of payload)"

definition updateOrgRoleUseCase :: "iam_env \<Rightarrow> json \<Rightarrow> json svc" where
  "updateOrgRoleUseCase E payload = updateOrgRole (en_parse E) (en_newId E) (en_now E) (role_payload_of payload)"

definition updateOrganizationUseCase :: "iam_env \<Rightarrow> json \<Rightarrow> json svc" where
  "updateOrganizationUseCase E payload = updateOrganization (en_base E) (en_parse E) (en_parse_json E) (en_stringify E) payload"

definition updateTeamUseCase :: "iam_env \<Rightarrow> json \<Rightarrow> json svc" where
  "updateTeamUseCase E payload = updateTeam (en_base E) payload"

definition createPreferenceTemplateUseCase :: "iam_env \<Rightarrow> json \<Rightarrow> json svc" where
  "createPreferenceTemplateUseCase E payload = createPreferenceTemplate (en_parse E) (en_newId E) payload"

definition deletePreferenceTemplateUseCase :: "iam_env \<Rightarrow> json \<Rightarrow> json svc" where
  "deletePreferenceTemplateUseCase E payload = deletePreferenceTemplate payload"

definition getPreferenceTemplatesUseCase :: "iam_env \<Rightarrow> json svc" where
  "getPreferenceTemplatesUseCase E = listPreferenceTemplates (en_parse E)"

definition updatePreferenceTemplateUseCase :: "iam_env \<Rightarrow> json \<Rightarrow> json svc" where
  "updatePreferenceTemplateUseCase E payload = updatePreferenceTemplate (en_parse E) payload"

definition createResourceUseCase :: "iam_env \<Rightarrow> json \<Rightarrow> json svc" where
  "createResourceUseCase E payload = createResource (en_parse E) payload"

definition createResourceActionUseCase :: "iam_env \<Rightarrow> json \<Rightarrow> json svc" where
  "createResourceActionUseCase E payload = createResourceAction (en_parse E) payload"

definition deleteResourceUseCase :: "iam_env \<Rightarrow> json \<Rightarrow> json svc" where
  "deleteResourceUseCase E payload = deleteResource payload"

definition deleteResourceActionUseCase :: "iam_env \<Rightarrow> json \<Rightarrow> json svc" where
  "deleteResourceActionUseCase E payload = deleteResourceAction payload"

definition listResourceActionsUseCase :: "iam_env \<Rightarrow> string option \<Rightarrow> json svc" where
  "listResourceActionsUseCase E resourceId = listResourceActions (en_parse E) resourceId"

definition listResourcesUseCase :: "iam_env \<Rightarrow> json svc" where
  "listResourcesUseCase E = listResources (en_parse E)"

definition updateResourceUseCase :: "iam_env \<Rightarrow> json \<Rightarrow> json svc" where
  "updateResourceUseCase E payload = updateResource (en_parse E) payload"

definition updateResourceActionUseCase :: "iam_env \<Rightarrow> json \<Rightarrow> json svc" where
  "updateResourceActionUseCase E payload = updateResourceAction (en_parse E) payload"

definition getAllSessionsUseCase :: "iam_env \<Rightarrow> json svc" where
  "getAllSessionsUseCase E = getAllSessions (en_base E) (en_parse E)"

definition revokeAllSessionsUseCase :: "iam_env \<Rightarrow> json svc" where
  "revokeAllSessionsUseCase E = revokeAllSessions (en_base E)"

definition revokeSessionUseCase :: "iam_env \<Rightarrow> json \<Rightarrow> json svc" where
  "revokeSessionUseCase E payload = revokeUserSession (en_base E) payload"

definition getOrgRolesForContextUseCase :: "iam_env \<Rightarrow> string \<Rightarrow> json svc" where
  "getOrgRolesForContextUseCase E organizationId = getOrgRolesForContext organizationId"

definition getUserOrgMembershipsUseCase :: "iam_env \<Rightarrow> string \<Rightarrow> json svc" where
  "getUserOrgMembershipsUseCase E userId = getUserOrgMemberships userId"

definition listUserContextsUseCase :: "iam_env \<Rightarrow> json svc" where
  "listUserContextsUseCase E = listUserContexts"

definition setUserContextUseCase :: "iam_env \<Rightarrow> json \<Rightarrow> json svc" where
  "setUserContextUseCase E payload = setUserContext payload"

definition banUserUseCase :: "iam_env \<Rightarrow> json \<Rightarrow> json svc" where
  "banUserUseCase E payload = banUser (en_base E) (en_parse E) payload"

definition createUserUseCase :: "iam_env \<Rightarrow> json \<Rightarrow> json svc" where
  "createUserUseCase E payload = createUser (en_base E) (en_parse E) payload"

definition getUsersUseCase :: "iam_env \<Rightarrow> json svc" where
  "getUsersUseCase E = getUsers (en_base E) (en_parse E)"

definition impersonateUserUseCase :: "iam_env \<Rightarrow> json \<Rightarrow> json svc" where
  "impersonateUserUseCase E payload = impersonateUser (en_base E) (en_parse E) payload"

definition removeUserUseCase :: "iam_env \<Rightarrow> json \<Rightarrow> json svc" where
  "removeUserUseCase E payload = removeUser (en_base E) payload"

definition revokeUserSessionsUseCase :: "iam_env \<Rightarrow> json \<Rightarrow> json svc" where
  "revokeUserSessionsUseCase E payload = revokeUserSessions (en_base E) payload"

definition setUserPasswordUseCase :: "iam_env \<Rightarrow> json \<Rightarrow> json svc" where
  "setUserPasswordUseCase E payload = setUserPassword (en_base E) payload"

definition setUserRoleUseCase :: "iam_env \<Rightarrow> json \<Rightarrow> json svc" where
  "setUserRoleUseCase E payload = setUserRole (en_base E) (en_parse E) payload"

definition unbanUserUseCase :: "iam_env \<Rightarrow> json \<Rightarrow> json svc" where
  "unbanUserUseCase E payload = unbanUser (en_base E) (en_parse E) payload"

definition updateUserUseCase :: "iam_env \<Rightarrow> json \<Rightarrow> json svc" where
  "updateUserUseCase E payload = updateUser (en_base E) (en_parse E) payload"

definition resetPasswordUseCase :: "iam_env \<Rightarrow> json \<Rightarrow> json svc" where
  "resetPasswordUseCase E payload = resetPassword (en_base E) (en_parse E) payload"

definition sendMagicLinkUseCase :: "iam_env \<Rightarrow> json \<Rightarrow> json svc" where
  "sendMagicLinkUseCase E payload = sendMagicLink (en_base E) (en_parse E) (en_site E) (en_b64 E) (text_of (jget payload ''email'')) (opt_text (jget payload ''callbackURL''))"

definition sendResetPasswordUseCase :: "iam_env \<Rightarrow> json \<Rightarrow> json svc" where
  "sendResetPasswordUseCase E payload = sendResetPassword (en_base E) (en_parse E) (en_site E) (en_enc E) (text_of (jget payload ''email'')) (opt_text (jget payload ''redirect''))"

definition signinUseCase :: "iam_env \<Rightarrow> json \<Rightarrow> json svc" where
  "signinUseCase E payload = signInWithEmail (en_base E) (en_parse E) payload"

definition signinWithSocialUseCase :: "iam_env \<Rightarrow> json \<Rightarrow> json svc" where
  "signinWithSocialUseCase E payload = signInWithSocial (en_base E) (en_parse E) (text_of (jget payload ''provider'')) (opt_text (jget payload ''callbackURL''))"

definition signoutUseCase :: "iam_env \<Rightarrow> json svc" where
  "signoutUseCase E = signOut (en_base E) (en_parse E)"

definition signupUseCase :: "iam_env \<Rightarrow> json \<Rightarrow> json svc" where
  "signupUseCase E payload = signUpWithEmail (en_base E) (en_parse E) payload"

definition verifyTOTPUseCase :: "iam_env \<Rightarrow> json \<Rightarrow> json svc" where
  "verifyTOTPUseCase E payload = verifyTwoFactorTOTP (en_base E) (en_parse E) payload"

definition verifyTwoFactorOTPUseCase :: "iam_env \<Rightarrow> json \<Rightarrow> json svc" where
  "verifyTwoFactorOTPUseCase E payload = verifyTwoFactorOTP (en_base E) (en_parse E) payload"

definition getUserPreferenceUseCase :: "iam_env \<Rightarrow> string \<Rightarrow> json svc" where
  "getUserPreferenceUseCase E userId = getUserPreference (en_parse E) userId"

definition updateUserPreferenceUseCase :: "iam_env \<Rightarrow> json \<Rightarrow> json svc" where
  "updateUserPreferenceUseCase E payload = upsertUserPreference (en_parse E) (en_newId E) payload"

definition addMemberUseCase :: "iam_env \<Rightarrow> json \<Rightarrow> json svc" where
  "addMemberUseCase E payload = andThen (getUserByEmail (en_base E) (en_parse E) (text_of (jget payload ''email''))) (\<lambda>user.
     andThen (rd user ''id'') (\<lambda>i. addMember (en_base E) (jobj
       [(''organizationId'', jget payload ''organizationId''), (''userId'', i), (''roles'', jget payload ''roles'')])))"

definition addTeamMemberUseCase :: "iam_env \<Rightarrow> json \<Rightarrow> json svc" where
  "addTeamMemberUseCase E payload = andThen (getUserByEmail (en_base E) (en_parse E) (text_of (jget payload ''email''))) (\<lambda>user.
     andThen (rd user ''id'') (\<lambda>i.
     andThen (isMemberInOrg (text_of (jget payload ''organizationId'')) (text_of i)) (\<lambda>isMember.
     if \<not> isMember
     then throw (JsError None (text_of (jget payload ''email'') @
            '' is not a member of this organization. Add them to the organization first.''))
     else addTeamMember (en_base E) (jobj
       [(''teamId'', jget payload ''teamId''), (''userId'', i), (''organizationId'', jget payload ''organizationId'')]))))"

text \<open>\<^verbatim>\<open>session?.user.emailVerified\<close> of a session, which may be null.\<close>

definition sendEmailVerificationUseCase :: "iam_env \<Rightarrow> json \<Rightarrow> json svc" where
  "sendEmailVerificationUseCase E payload = andThen (call ''getServerSession'' (JObj [])) (\<lambda>session.
     andThen (if session = JNull then ret None else rd_of (jget session ''user'') ''emailVerified'') (\<lambda>verified.
     if truthy verified then throw (JsError None ''Email already verified!'')
     else sendEmailVerification (en_base E) (en_parse E) (text_of (jget payload ''email'')) (opt_text (jget payload ''callbackURL''))))"

definition sendTwoFactorOTPUseCase :: "iam_env \<Rightarrow> json svc" where
  "sendTwoFactorOTPUseCase E = sendTwoFactorOTP (en_base E) (en_parse E) (JObj [])"

subsection \<open>Controllers\<close>

definition approveCapabilityController :: "iam_env \<Rightarrow> json option \<Rightarrow> json option svc" where
  "approveCapabilityController E input = parsed_input E ''ApproveCapabilityValidationSchema'' input (\<lambda>d. presented (approveCapabilityUseCase E d))"

definition cleanupAgentsController :: "iam_env \<Rightarrow> json option svc" where
  "cleanupAgentsController E = presented (cleanupAgentsUseCase E)"

definition createHostController :: "iam_env \<Rightarrow> json option \<Rightarrow> json option svc" where
  "createHostController E input = parsed_input E ''CreateHostValidationSchema'' input (\<lambda>d. presented (createHostUseCase E d))"

definition grantAgentCapabilityController :: "iam_env \<Rightarrow> json option \<Rightarrow> json option svc" where
  "grantAgentCapabilityController E input = parsed_input E ''GrantCapabilityValidationSchema'' input (\<lambda>d. presented (grantAgentCapabilityUseCase E d))"

definition listAgentsController :: "iam_env \<Rightarrow> json option svc" where
  "listAgentsController E = presented_field ''agents'' (listAgentsUseCase E)"

definition listHostsController :: "iam_env \<Rightarrow> json option svc" where
  "listHostsController E = presented_field ''hosts'' (listHostsUseCase E)"

definition listPendingApprovalsController :: "iam_env \<Rightarrow> json option svc" where
  "listPendingApprovalsController E = presented_field ''requests'' (listPendingApprovalsUseCase E)"

definition reactivateAgentController :: "iam_env \<Rightarrow> json option \<Rightarrow> json option svc" where
  "reactivateAgentController E input = parsed_input E ''ReactivateAgentValidationSchema'' input (\<lambda>d. presented (reactivateAgentUseCase E d))"

definition registerAgentController :: "iam_env \<Rightarrow> json option \<Rightarrow> json option svc" where
  "registerAgentController E input = parsed_input E ''RegisterAgentValidationSchema'' input (\<lambda>d. presented (registerAgentUseCase E d))"

definition revokeAgentController :: "iam_env \<Rightarrow> json option \<Rightarrow> json option svc" where
  "revokeAgentController E input = parsed_input E ''RevokeAgentValidationSchema'' input (\<lambda>d. presented (revokeAgentUseCase E d))"

definition revokeHostController :: "iam_env \<Rightarrow> json option \<Rightarrow> json option svc" where
  "revokeHostController E input = parsed_input E ''RevokeHostValidationSchema'' input (\<lambda>d. presented (revokeHostUseCase E d))"

definition updateAgentController :: "iam_env \<Rightarrow> json option \<Rightarrow> json option svc" where
  "updateAgentController E input = parsed_input E ''UpdateAgentValidationSchema'' input (\<lambda>d. presented (updateAgentUseCase E d))"

definition updateHostController :: "iam_env \<Rightarrow> json option \<Rightarrow> json option svc" where
  "updateHostController E input = parsed_input E ''UpdateHostValidationSchema'' input (\<lambda>d. presented (updateHostUseCase E d))"

definition createApiKeyController :: "iam_env \<Rightarrow> json option \<Rightarrow> json option svc" where
  "createApiKeyController E input = parsed_input E ''CreateApiKeyValidationSchema'' input (\<lambda>d. presented (createApiKeyUseCase E d))"

definition deleteApiKeyController :: "iam_env \<Rightarrow> json option \<Rightarrow> json option svc" where
  "deleteApiKeyController E input = parsed_input E ''DeleteApiKeyValidationSchema'' input (\<lambda>d. presented (deleteApiKeyUseCase E d))"

definition deleteExpiredApiKeysController :: "iam_env \<Rightarrow> json option \<Rightarrow> json option svc" where
  "deleteExpiredApiKeysController E input = parsed_input E ''DeleteExpiredApiKeysValidationSchema'' input (\<lambda>d. presented (deleteExpiredApiKeysUseCase E d))"

definition listApiKeysController :: "iam_env \<Rightarrow> json \<Rightarrow> json option svc" where
  "listApiKeysController E query = presented (listApiKeysUseCase E query)"

definition updateApiKeyController :: "iam_env \<Rightarrow> json option \<Rightarrow> json option svc" where
  "updateApiKeyController E input = parsed_input E ''UpdateApiKeyValidationSchema'' input (\<lambda>d. presented (updateApiKeyUseCase E d))"

definition createAppController :: "iam_env \<Rightarrow> json option \<Rightarrow> json option svc" where
  "createAppController E input = parsed_input E ''CreateAppValidationSchema'' input (\<lambda>d. presented (createAppUseCase E d))"

definition createMenuNodeController :: "iam_env \<Rightarrow> json option \<Rightarrow> json option svc" where
  "createMenuNodeController E input = parsed_input E ''CreateMenuNodeValidationSchema'' input (\<lambda>d. presented (createMenuNodeUseCase E d))"

definition deleteAppController :: "iam_env \<Rightarrow> json option \<Rightarrow> json option svc" where
  "deleteAppController E input = parsed_input E ''DeleteAppValidationSchema'' input (\<lambda>d. presented (deleteAppUseCase E d))"

definition deleteMenuNodeController :: "iam_env \<Rightarrow> json option \<Rightarrow> json option svc" where
  "deleteMenuNodeController E input = parsed_input E ''DeleteMenuNodeValidationSchema'' input (\<lambda>d. presented (deleteMenuNodeUseCase E d))"

definition listActionsController :: "iam_env \<Rightarrow> json option svc" where
  "listActionsController E = presented_field ''actions'' (listActionsUseCase E)"

definition listAppsController :: "iam_env \<Rightarrow> json option svc" where
  "listAppsController E = presented_field ''apps'' (listAppsUseCase E)"

definition listMenuNodesController :: "iam_env \<Rightarrow> string \<Rightarrow> json option svc" where
  "listMenuNodesController E appId = presented_field ''nodes'' (listMenuNodesUseCase E appId)"

definition reorderMenuNodeController :: "iam_env \<Rightarrow> json option \<Rightarrow> json option svc" where
  "reorderMenuNodeController E input = parsed_input E ''ReorderMenuNodeValidationSchema'' input (\<lambda>d. presented (reorderMenuNodeUseCase E d))"

definition updateAppController :: "iam_env \<Rightarrow> json option \<Rightarrow> json option svc" where
  "updateAppController E input = parsed_input E ''UpdateAppValidationSchema'' input (\<lambda>d. presented (updateAppUseCase E d))"

definition updateMenuNodeController :: "iam_env \<Rightarrow> json option \<Rightarrow> json option svc" where
  "updateMenuNodeController E input = parsed_input E ''UpdateMenuNodeValidationSchema'' input (\<lambda>d. presented (updateMenuNodeUseCase E d))"

definition deleteConsentController :: "iam_env \<Rightarrow> json option \<Rightarrow> json option svc" where
  "deleteConsentController E input = parsed_input E ''DeleteConsentValidationSchema'' input (\<lambda>d. presented (deleteConsentUseCase E d))"

definition getConsentController :: "iam_env \<Rightarrow> json option \<Rightarrow> json option svc" where
  "getConsentController E input = parsed_input E ''GetConsentValidationSchema'' input (\<lambda>d. presented (getConsentUseCase E d))"

definition listConsentsController :: "iam_env \<Rightarrow> json option svc" where
  "listConsentsController E = presented (listConsentsUseCase E)"

definition updateConsentScopesController :: "iam_env \<Rightarrow> json option \<Rightarrow> json option svc" where
  "updateConsentScopesController E input = parsed_input E ''UpdateConsentScopesValidationSchema'' input (\<lambda>d. presented (updateConsentScopesUseCase E d))"

definition createOAuthClientController :: "iam_env \<Rightarrow> json option \<Rightarrow> json option svc" where
  "createOAuthClientController E input = parsed_input E ''CreateOAuthClientValidationSchema'' input (\<lambda>d. presented (createOAuthClientUseCase E d))"

definition deleteOAuthClientController :: "iam_env \<Rightarrow> json option \<Rightarrow> json option svc" where
  "deleteOAuthClientController E input = parsed_input E ''DeleteOAuthClientValidationSchema'' input (\<lambda>d. presented (deleteOAuthClientUseCase E d))"

definition getOAuthClientsController :: "iam_env \<Rightarrow> json option svc" where
  "getOAuthClientsController E = presented (getOAuthClientsUseCase E)"

definition rotateClientSecretController :: "iam_env \<Rightarrow> json option \<Rightarrow> json option svc" where
  "rotateClientSecretController E input = parsed_input E ''RotateClientSecretValidationSchema'' input (\<lambda>d. presented (rotateClientSecretUseCase E d))"

definition updateOAuthClientController :: "iam_env \<Rightarrow> json option \<Rightarrow> json option svc" where
  "updateOAuthClientController E input = parsed_input E ''UpdateOAuthClientValidationSchema'' input (\<lambda>d. presented (updateOAuthClientUseCase E d))"

definition addMemberController :: "iam_env \<Rightarrow> json option \<Rightarrow> json option svc" where
  "addMemberController E input = parsed_input E ''AddMemberValidationSchema'' input (\<lambda>d. presented (addMemberUseCase E d))"

definition addTeamMemberController :: "iam_env \<Rightarrow> json option \<Rightarrow> json option svc" where
  "addTeamMemberController E input = parsed_input E ''AddTeamMemberValidationSchema'' input (\<lambda>d. presented (addTeamMemberUseCase E d))"

definition cancelInvitationController :: "iam_env \<Rightarrow> json option \<Rightarrow> json option svc" where
  "cancelInvitationController E input = parsed_input E ''CancelInvitationValidationSchema'' input (\<lambda>d. presented (cancelInvitationUseCase E d))"

definition createInvitationController :: "iam_env \<Rightarrow> json option \<Rightarrow> json option svc" where
  "createInvitationController E input = parsed_input E ''CreateInvitationValidationSchema'' input (\<lambda>d. presented (createInvitationUseCase E d))"

definition createOrgRoleController :: "iam_env \<Rightarrow> json option \<Rightarrow> json option svc" where
  "createOrgRoleController E input = parsed_input E ''CreateOrgRoleValidationSchema'' input (\<lambda>d. presented (createOrgRoleUseCase E d))"

definition createOrganizationController :: "iam_env \<Rightarrow> json option \<Rightarrow> json option svc" where
  "createOrganizationController E input = parsed_input E ''CreateOrganizationValidationSchema'' input (\<lambda>d. presented (createOrganizationUseCase E d))"

definition createTeamController :: "iam_env \<Rightarrow> json option \<Rightarrow> json option svc" where
  "createTeamController E input = parsed_input E ''CreateTeamValidationSchema'' input (\<lambda>d. presented (createTeamUseCase E d))"

definition deleteOrgRoleController :: "iam_env \<Rightarrow> json option \<Rightarrow> json option svc" where
  "deleteOrgRoleController E input = parsed_input E ''DeleteOrgRoleValidationSchema'' input (\<lambda>d. presented (deleteOrgRoleUseCase E d))"

definition deleteOrganizationController :: "iam_env \<Rightarrow> json option \<Rightarrow> json option svc" where
  "deleteOrganizationController E input = parsed_input E ''DeleteOrganizationValidationSchema'' input (\<lambda>d. presented (deleteOrganizationUseCase E d))"

definition getOrgRoleRedirectsController :: "iam_env \<Rightarrow> string \<Rightarrow> string \<Rightarrow> json option svc" where
  "getOrgRoleRedirectsController E userId organizationId = presented (getOrgRoleRedirectsUseCase E userId organizationId)"

definition getOrganizationController :: "iam_env \<Rightarrow> string \<Rightarrow> json option svc" where
  "getOrganizationController E organizationId = presented (getOrganizationUseCase E organizationId)"

definition listOrgRolesController :: "iam_env \<Rightarrow> string \<Rightarrow> json option svc" where
  "listOrgRolesController E organizationId = presented_field ''roles'' (listOrgRolesUseCase E organizationId)"

definition listOrganizationsController :: "iam_env \<Rightarrow> json option svc" where
  "listOrganizationsController E = presented_field ''organizations'' (listOrganizationsUseCase E)"

definition removeMemberController :: "iam_env \<Rightarrow> json option \<Rightarrow> json option svc" where
  "removeMemberController E input = parsed_input E ''RemoveMemberValidationSchema'' input (\<lambda>d. presented (removeMemberUseCase E d))"

definition removeTeamController :: "iam_env \<Rightarrow> json option \<Rightarrow> json option svc" where
  "removeTeamController E input = parsed_input E ''RemoveTeamValidationSchema'' input (\<lambda>d. presented (removeTeamUseCase E d))"

definition removeTeamMemberController :: "iam_env \<Rightarrow> json option \<Rightarrow> json option svc" where
  "removeTeamMemberController E input = parsed_input E ''RemoveTeamMemberValidationSchema'' input (\<lambda>d. presented (removeTeamMemberUseCase E d))"

definition updateMemberRoleController :: "iam_env \<Rightarrow> json option \<Rightarrow> json option svc" where
  "updateMemberRoleController E input = parsed_input E ''UpdateMemberRoleValidationSchema'' input (\<lambda>d. presented (updateMemberRoleUseCase E d))"

definition updateOrgRoleController :: "iam_env \<Rightarrow> json option \<Rightarrow> json option svc" where
  "updateOrgRoleController E input = parsed_input E ''UpdateOrgRoleValidationSchema'' input (\<lambda>d. presented (updateOrgRoleUseCase E d))"

definition updateOrganizationController :: "iam_env \<Rightarrow> json option \<Rightarrow> json option svc" where
  "updateOrganizationController E input = parsed_input E ''UpdateOrganizationValidationSchema'' input (\<lambda>d. presented (updateOrganizationUseCase E d))"

definition updateTeamController :: "iam_env \<Rightarrow> json option \<Rightarrow> json option svc" where
  "updateTeamController E input = parsed_input E ''UpdateTeamValidationSchema'' input (\<lambda>d. presented (updateTeamUseCase E d))"

definition createPreferenceTemplateController :: "iam_env \<Rightarrow> json option \<Rightarrow> json option svc" where
  "createPreferenceTemplateController E input = parsed_input E ''CreatePreferenceTemplateValidationSchema'' input (\<lambda>d. presented (createPreferenceTemplateUseCase E d))"

definition deletePreferenceTemplateController :: "iam_env \<Rightarrow> json option \<Rightarrow> json option svc" where
  "deletePreferenceTemplateController E input = parsed_input E ''DeletePreferenceTemplateValidationSchema'' input (\<lambda>d. presented (deletePreferenceTemplateUseCase E d))"

definition getPreferenceTemplatesController :: "iam_env \<Rightarrow> json option svc" where
  "getPreferenceTemplatesController E = presented_field ''templates'' (getPreferenceTemplatesUseCase E)"

definition updatePreferenceTemplateController :: "iam_env \<Rightarrow> json option \<Rightarrow> json option svc" where
  "updatePreferenceTemplateController E input = parsed_input E ''UpdatePreferenceTemplateValidationSchema'' input (\<lambda>d. presented (updatePreferenceTemplateUseCase E d))"

definition createResourceController :: "iam_env \<Rightarrow> json option \<Rightarrow> json option svc" where
  "createResourceController E input = parsed_input E ''CreateResourceValidationSchema'' input (\<lambda>d. presented (createResourceUseCase E d))"

definition createResourceActionController :: "iam_env \<Rightarrow> json option \<Rightarrow> json option svc" where
  "createResourceActionController E input = parsed_input E ''CreateResourceActionValidationSchema'' input (\<lambda>d. presented (createResourceActionUseCase E d))"

definition deleteResourceController :: "iam_env \<Rightarrow> json option \<Rightarrow> json option svc" where
  "deleteResourceController E input = parsed_input E ''DeleteResourceValidationSchema'' input (\<lambda>d. presented (deleteResourceUseCase E d))"

definition deleteResourceActionController :: "iam_env \<Rightarrow> json option \<Rightarrow> json option svc" where
  "deleteResourceActionController E input = parsed_input E ''DeleteResourceActionValidationSchema'' input (\<lambda>d. presented (deleteResourceActionUseCase E d))"

definition listResourceActionsController :: "iam_env \<Rightarrow> string option \<Rightarrow> json option svc" where
  "listResourceActionsController E resourceId = presented_field ''actions'' (listResourceActionsUseCase E resourceId)"

definition listResourcesController :: "iam_env \<Rightarrow> json option svc" where
  "listResourcesController E = presented_field ''resources'' (listResourcesUseCase E)"

definition updateResourceController :: "iam_env \<Rightarrow> json option \<Rightarrow> json option svc" where
  "updateResourceController E input = parsed_input E ''UpdateResourceValidationSchema'' input (\<lambda>d. presented (updateResourceUseCase E d))"

definition updateResourceActionController :: "iam_env \<Rightarrow> json option \<Rightarrow> json option svc" where
  "updateResourceActionController E input = parsed_input E ''UpdateResourceActionValidationSchema'' input (\<lambda>d. presented (updateResourceActionUseCase E d))"

definition getAllSessionsController :: "iam_env \<Rightarrow> json option svc" where
  "getAllSessionsController E = presented_field ''sessions'' (getAllSessionsUseCase E)"

definition revokeAllSessionsController :: "iam_env \<Rightarrow> json option svc" where
  "revokeAllSessionsController E = presented (revokeAllSessionsUseCase E)"

definition revokeSessionController :: "iam_env \<Rightarrow> json option \<Rightarrow> json option svc" where
  "revokeSessionController E input = parsed_input E ''RevokeSessionValidationSchema'' input (\<lambda>d. presented (revokeSessionUseCase E d))"

definition getOrgRolesForContextController :: "iam_env \<Rightarrow> string \<Rightarrow> json option svc" where
  "getOrgRolesForContextController E organizationId = presented_field ''roles'' (getOrgRolesForContextUseCase E organizationId)"

definition getUserOrgMembershipsController :: "iam_env \<Rightarrow> string \<Rightarrow> json option svc" where
  "getUserOrgMembershipsController E userId = presented_field ''memberships'' (getUserOrgMembershipsUseCase E userId)"

definition listUserContextsController :: "iam_env \<Rightarrow> json option svc" where
  "listUserContextsController E = presented_field ''items'' (listUserContextsUseCase E)"

definition banUserController :: "iam_env \<Rightarrow> json option \<Rightarrow> json option svc" where
  "banUserController E input = parsed_input E ''BanUserValidationSchema'' input (\<lambda>d. presented (banUserUseCase E d))"

definition createUserController :: "iam_env \<Rightarrow> json option \<Rightarrow> json option svc" where
  "createUserController E input = parsed_input E ''CreateUserValidationSchema'' input (\<lambda>d. presented (createUserUseCase E d))"

definition getUsersController :: "iam_env \<Rightarrow> json option svc" where
  "getUsersController E = presented_field ''users'' (getUsersUseCase E)"

definition impersonateUserController :: "iam_env \<Rightarrow> json option \<Rightarrow> json option svc" where
  "impersonateUserController E input = parsed_input E ''ImpersonateUserValidationSchema'' input (\<lambda>d. presented (impersonateUserUseCase E d))"

definition removeUserController :: "iam_env \<Rightarrow> json option \<Rightarrow> json option svc" where
  "removeUserController E input = parsed_input E ''RemoveUserValidationSchema'' input (\<lambda>d. presented (removeUserUseCase E d))"

definition revokeUserSessionsController :: "iam_env \<Rightarrow> json option \<Rightarrow> json option svc" where
  "revokeUserSessionsController E input = parsed_input E ''RevokeUserSessionsValidationSchema'' input (\<lambda>d. presented (revokeUserSessionsUseCase E d))"

definition setUserPasswordController :: "iam_env \<Rightarrow> json option \<Rightarrow> json option svc" where
  "setUserPasswordController E input = parsed_input E ''SetUserPasswordValidationSchema'' input (\<lambda>d. presented (setUserPasswordUseCase E d))"

definition setUserRoleController :: "iam_env \<Rightarrow> json option \<Rightarrow> json option svc" where
  "setUserRoleController E input = parsed_input E ''SetUserRoleValidationSchema'' input (\<lambda>d. presented (setUserRoleUseCase E d))"

definition unbanUserController :: "iam_env \<Rightarrow> json option \<Rightarrow> json option svc" where
  "unbanUserController E input = parsed_input E ''UnbanUserValidationSchema'' input (\<lambda>d. presented (unbanUserUseCase E d))"

definition updateUserController :: "iam_env \<Rightarrow> json option \<Rightarrow> json option svc" where
  "updateUserController E input = parsed_input E ''UpdateUserValidationSchema'' input (\<lambda>d. presented (updateUserUseCase E d))"

definition sendEmailVerificationController :: "iam_env \<Rightarrow> json option \<Rightarrow> json option svc" where
  "sendEmailVerificationController E input = parsed_input E ''SendVerificationEmailValidationSchema'' input (\<lambda>d. presented (sendEmailVerificationUseCase E d))"

definition sendMagicLinkController :: "iam_env \<Rightarrow> json option \<Rightarrow> json option svc" where
  "sendMagicLinkController E input = parsed_input E ''SendMagicLinkValidationSchema'' input (\<lambda>d. presented (sendMagicLinkUseCase E d))"

definition sendResetPasswordController :: "iam_env \<Rightarrow> json option \<Rightarrow> json option svc" where
  "sendResetPasswordController E input = parsed_input E ''SendResetPasswordValidationSchema'' input (\<lambda>d. presented (sendResetPasswordUseCase E d))"

definition sendTwoFactorOTPController :: "iam_env \<Rightarrow> json option svc" where
  "sendTwoFactorOTPController E = presented (sendTwoFactorOTPUseCase E)"

definition signinController :: "iam_env \<Rightarrow> json option \<Rightarrow> json option svc" where
  "signinController E input = parsed_input E ''SigninValidationSchema'' input (\<lambda>d. presented (signinUseCase E d))"

definition signinWithSocialController :: "iam_env \<Rightarrow> json option \<Rightarrow> json option svc" where
  "signinWithSocialController E input = parsed_input E ''SigninWithSocialValidationSchema'' input (\<lambda>d. presented (signinWithSocialUseCase E d))"

definition signoutController :: "iam_env \<Rightarrow> json option svc" where
  "signoutController E = presented (signoutUseCase E)"

definition signupController :: "iam_env \<Rightarrow> json option \<Rightarrow> json option svc" where
  "signupController E input = parsed_input E ''SignupValidationSchema'' input (\<lambda>d. presented (signupUseCase E d))"

definition verifyTOTPController :: "iam_env \<Rightarrow> json option \<Rightarrow> json option svc" where
  "verifyTOTPController E input = parsed_input E ''VerifyTOTPValidationSchema'' input (\<lambda>d. presented (verifyTOTPUseCase E d))"

definition verifyTwoFactorOTPController :: "iam_env \<Rightarrow> json option \<Rightarrow> json option svc" where
  "verifyTwoFactorOTPController E input = parsed_input E ''VerifyTwoFactorOTPValidationSchema'' input (\<lambda>d. presented (verifyTwoFactorOTPUseCase E d))"

definition getUserPreferenceController :: "iam_env \<Rightarrow> string \<Rightarrow> json option svc" where
  "getUserPreferenceController E userId = presented (getUserPreferenceUseCase E userId)"

definition updateUserPreferenceController :: "iam_env \<Rightarrow> json option \<Rightarrow> json option svc" where
  "updateUserPreferenceController E input = parsed_input E ''UpdateUserPreferenceValidationSchema'' input (\<lambda>d. presented (updateUserPreferenceUseCase E d))"

definition resetPasswordController :: "iam_env \<Rightarrow> json option \<Rightarrow> json option \<Rightarrow> json option svc" where
  "resetPasswordController E input token = parsed_input E ''ResetPasswordValidationSchema'' input (\<lambda>d.
     presented (resetPasswordUseCase E (jobj [(''newPassword'', jget d ''newPassword''), (''token'', token)])))"

text \<open>Here rejected input is an \<^verbatim>\<open>Error\<close> with the text of the issues.\<close>

definition setUserContextController :: "iam_env \<Rightarrow> json option \<Rightarrow> json option svc" where
  "setUserContextController E input = (case Option.bind input (en_parse E ''SetUserContextValidationSchema'') of
     None \<Rightarrow> throw (JsError None (''Invalid payload: '' @ interp (Some (en_issues E ''SetUserContextValidationSchema'' input))))
   | Some d \<Rightarrow> presented (setUserContextUseCase E d))"

end
