(* ===== verification/Iam_Actions.thy ===== *)
theory Iam_Actions
  imports Iam_Controllers
begin

text \<open>
  The server actions of the identity service (\<^verbatim>\<open>presentation/actions/\<close>): the administration actions, which a
  superadmin procedure guards, the preferences of a signed-in user, and the actions of the sign-in
  pages, which anybody can call. The input of an action is what the browser sent (None for undefined).
\<close>

subsection \<open>Administration\<close>

text \<open>\<^verbatim>\<open>void refreshOAuthClientOrigins()\<close> after the controller: the refresh runs on its own.\<close>

definition refreshing :: "json option svc \<Rightarrow> json option svc" where
  "refreshing m = andThen m (\<lambda>data. andThen (emit (Call ''refreshOAuthClientOrigins'' JNull)) (\<lambda>_. ret data))"

definition listAgentsAction :: "iam_env \<Rightarrow> json option action" where
  "listAgentsAction E = superadmin_action (\<lambda>_. plain_result (listAgentsController E))"

definition registerAgentAction :: "iam_env \<Rightarrow> json option \<Rightarrow> json option action" where
  "registerAgentAction E input = superadmin_action (\<lambda>_. with_payload input (registerAgentController E))"

definition updateAgentAction :: "iam_env \<Rightarrow> json option \<Rightarrow> json option action" where
  "updateAgentAction E input = superadmin_action (\<lambda>_. with_payload input (updateAgentController E))"

definition revokeAgentAction :: "iam_env \<Rightarrow> json option \<Rightarrow> json option action" where
  "revokeAgentAction E input = superadmin_action (\<lambda>_. with_payload input (revokeAgentController E))"

definition reactivateAgentAction :: "iam_env \<Rightarrow> json option \<Rightarrow> json option action" where
  "reactivateAgentAction E input = superadmin_action (\<lambda>_. with_payload input (reactivateAgentController E))"

definition grantAgentCapabilityAction :: "iam_env \<Rightarrow> json option \<Rightarrow> json option action" where
  "grantAgentCapabilityAction E input = superadmin_action (\<lambda>_. with_payload input (grantAgentCapabilityController E))"

definition cleanupAgentsAction :: "iam_env \<Rightarrow> json option \<Rightarrow> json option action" where
  "cleanupAgentsAction E input = superadmin_action (\<lambda>_. with_options input (cleanupAgentsController E))"

definition listPendingApprovalsAction :: "iam_env \<Rightarrow> json option action" where
  "listPendingApprovalsAction E = superadmin_action (\<lambda>_. plain_result (listPendingApprovalsController E))"

definition approveCapabilityAction :: "iam_env \<Rightarrow> json option \<Rightarrow> json option action" where
  "approveCapabilityAction E input = superadmin_action (\<lambda>_. with_payload input (approveCapabilityController E))"

definition listHostsAction :: "iam_env \<Rightarrow> json option action" where
  "listHostsAction E = superadmin_action (\<lambda>_. plain_result (listHostsController E))"

definition createHostAction :: "iam_env \<Rightarrow> json option \<Rightarrow> json option action" where
  "createHostAction E input = superadmin_action (\<lambda>_. with_payload input (createHostController E))"

definition updateHostAction :: "iam_env \<Rightarrow> json option \<Rightarrow> json option action" where
  "updateHostAction E input = superadmin_action (\<lambda>_. with_payload input (updateHostController E))"

definition revokeHostAction :: "iam_env \<Rightarrow> json option \<Rightarrow> json option action" where
  "revokeHostAction E input = superadmin_action (\<lambda>_. with_payload input (revokeHostController E))"

definition listApiKeysAction :: "iam_env \<Rightarrow> json option \<Rightarrow> json option action" where
  "listApiKeysAction E input = superadmin_parsed E ''listApiKeysAction.input'' input (\<lambda>d. plain_result (listApiKeysController E d))"

definition createApiKeyAction :: "iam_env \<Rightarrow> json option \<Rightarrow> json option action" where
  "createApiKeyAction E input = superadmin_action (\<lambda>_. with_payload input (createApiKeyController E))"

definition updateApiKeyAction :: "iam_env \<Rightarrow> json option \<Rightarrow> json option action" where
  "updateApiKeyAction E input = superadmin_action (\<lambda>_. with_payload input (updateApiKeyController E))"

definition deleteApiKeyAction :: "iam_env \<Rightarrow> json option \<Rightarrow> json option action" where
  "deleteApiKeyAction E input = superadmin_action (\<lambda>_. with_payload input (deleteApiKeyController E))"

definition deleteExpiredApiKeysAction :: "iam_env \<Rightarrow> json option \<Rightarrow> json option action" where
  "deleteExpiredApiKeysAction E input = superadmin_action (\<lambda>_. with_payload input (deleteExpiredApiKeysController E))"

definition listAppsAction :: "iam_env \<Rightarrow> json option action" where
  "listAppsAction E = superadmin_action (\<lambda>_. plain_result (listAppsController E))"

definition createAppAction :: "iam_env \<Rightarrow> json option \<Rightarrow> json option action" where
  "createAppAction E input = superadmin_action (\<lambda>_. with_payload input (createAppController E))"

definition updateAppAction :: "iam_env \<Rightarrow> json option \<Rightarrow> json option action" where
  "updateAppAction E input = superadmin_action (\<lambda>_. with_payload input (updateAppController E))"

definition deleteAppAction :: "iam_env \<Rightarrow> json option \<Rightarrow> json option action" where
  "deleteAppAction E input = superadmin_action (\<lambda>_. with_payload input (deleteAppController E))"

definition listMenuNodesAction :: "iam_env \<Rightarrow> json option \<Rightarrow> json option action" where
  "listMenuNodesAction E input = superadmin_parsed E ''listMenuNodesAction.input'' input (\<lambda>d. plain_result (listMenuNodesController E (text_of (jget d ''appId''))))"

definition listActionsAction :: "iam_env \<Rightarrow> json option action" where
  "listActionsAction E = superadmin_action (\<lambda>_. plain_result (listActionsController E))"

definition createMenuNodeAction :: "iam_env \<Rightarrow> json option \<Rightarrow> json option action" where
  "createMenuNodeAction E input = superadmin_action (\<lambda>_. with_payload input (createMenuNodeController E))"

definition updateMenuNodeAction :: "iam_env \<Rightarrow> json option \<Rightarrow> json option action" where
  "updateMenuNodeAction E input = superadmin_action (\<lambda>_. with_payload input (updateMenuNodeController E))"

definition deleteMenuNodeAction :: "iam_env \<Rightarrow> json option \<Rightarrow> json option action" where
  "deleteMenuNodeAction E input = superadmin_action (\<lambda>_. with_payload input (deleteMenuNodeController E))"

definition reorderMenuNodeAction :: "iam_env \<Rightarrow> json option \<Rightarrow> json option action" where
  "reorderMenuNodeAction E input = superadmin_action (\<lambda>_. with_payload input (reorderMenuNodeController E))"

definition listConsentsAction :: "iam_env \<Rightarrow> json option action" where
  "listConsentsAction E = superadmin_action (\<lambda>_. plain_result (listConsentsController E))"

definition getConsentAction :: "iam_env \<Rightarrow> json option \<Rightarrow> json option action" where
  "getConsentAction E input = superadmin_parsed E ''getConsentAction.input'' input (\<lambda>d. plain_result (getConsentController E (Some (jobj [(''id'', jget d ''id'')]))))"

definition updateConsentScopesAction :: "iam_env \<Rightarrow> json option \<Rightarrow> json option action" where
  "updateConsentScopesAction E input = superadmin_action (\<lambda>_. with_payload input (updateConsentScopesController E))"

definition deleteConsentAction :: "iam_env \<Rightarrow> json option \<Rightarrow> json option action" where
  "deleteConsentAction E input = superadmin_action (\<lambda>_. with_payload input (deleteConsentController E))"

definition getOAuthClientsAction :: "iam_env \<Rightarrow> json option action" where
  "getOAuthClientsAction E = superadmin_action (\<lambda>_. plain_result (getOAuthClientsController E))"

definition createOAuthClientAction :: "iam_env \<Rightarrow> json option \<Rightarrow> json option action" where
  "createOAuthClientAction E input = superadmin_action (\<lambda>_. with_payload input (\<lambda>p. refreshing (createOAuthClientController E p)))"

definition updateOAuthClientAction :: "iam_env \<Rightarrow> json option \<Rightarrow> json option action" where
  "updateOAuthClientAction E input = superadmin_action (\<lambda>_. with_payload input (\<lambda>p. refreshing (updateOAuthClientController E p)))"

definition deleteOAuthClientAction :: "iam_env \<Rightarrow> json option \<Rightarrow> json option action" where
  "deleteOAuthClientAction E input = superadmin_action (\<lambda>_. with_payload input (\<lambda>p. refreshing (deleteOAuthClientController E p)))"

definition rotateClientSecretAction :: "iam_env \<Rightarrow> json option \<Rightarrow> json option action" where
  "rotateClientSecretAction E input = superadmin_action (\<lambda>_. with_payload input (rotateClientSecretController E))"

definition listOrganizationsAction :: "iam_env \<Rightarrow> json option action" where
  "listOrganizationsAction E = superadmin_action (\<lambda>_. plain_result (listOrganizationsController E))"

definition getOrganizationAction :: "iam_env \<Rightarrow> json option \<Rightarrow> json option action" where
  "getOrganizationAction E input = superadmin_parsed E ''getOrganizationAction.input'' input (\<lambda>d. plain_result (getOrganizationController E (text_of (jget d ''organizationId''))))"

definition createOrganizationAction :: "iam_env \<Rightarrow> json option \<Rightarrow> json option action" where
  "createOrganizationAction E input = superadmin_action (\<lambda>_. with_payload input (createOrganizationController E))"

definition updateOrganizationAction :: "iam_env \<Rightarrow> json option \<Rightarrow> json option action" where
  "updateOrganizationAction E input = superadmin_action (\<lambda>_. with_payload input (updateOrganizationController E))"

definition deleteOrganizationAction :: "iam_env \<Rightarrow> json option \<Rightarrow> json option action" where
  "deleteOrganizationAction E input = superadmin_action (\<lambda>_. with_payload input (deleteOrganizationController E))"

definition addMemberAction :: "iam_env \<Rightarrow> json option \<Rightarrow> json option action" where
  "addMemberAction E input = superadmin_action (\<lambda>_. with_payload input (addMemberController E))"

definition updateMemberRoleAction :: "iam_env \<Rightarrow> json option \<Rightarrow> json option action" where
  "updateMemberRoleAction E input = superadmin_action (\<lambda>_. with_payload input (updateMemberRoleController E))"

definition removeMemberAction :: "iam_env \<Rightarrow> json option \<Rightarrow> json option action" where
  "removeMemberAction E input = superadmin_action (\<lambda>_. with_payload input (removeMemberController E))"

definition createInvitationAction :: "iam_env \<Rightarrow> json option \<Rightarrow> json option action" where
  "createInvitationAction E input = superadmin_action (\<lambda>_. with_payload input (createInvitationController E))"

definition cancelInvitationAction :: "iam_env \<Rightarrow> json option \<Rightarrow> json option action" where
  "cancelInvitationAction E input = superadmin_action (\<lambda>_. with_payload input (cancelInvitationController E))"

definition createTeamAction :: "iam_env \<Rightarrow> json option \<Rightarrow> json option action" where
  "createTeamAction E input = superadmin_action (\<lambda>_. with_payload input (createTeamController E))"

definition updateTeamAction :: "iam_env \<Rightarrow> json option \<Rightarrow> json option action" where
  "updateTeamAction E input = superadmin_action (\<lambda>_. with_payload input (updateTeamController E))"

definition removeTeamAction :: "iam_env \<Rightarrow> json option \<Rightarrow> json option action" where
  "removeTeamAction E input = superadmin_action (\<lambda>_. with_payload input (removeTeamController E))"

definition addTeamMemberAction :: "iam_env \<Rightarrow> json option \<Rightarrow> json option action" where
  "addTeamMemberAction E input = superadmin_action (\<lambda>_. with_payload input (addTeamMemberController E))"

definition removeTeamMemberAction :: "iam_env \<Rightarrow> json option \<Rightarrow> json option action" where
  "removeTeamMemberAction E input = superadmin_action (\<lambda>_. with_payload input (removeTeamMemberController E))"

definition getOrgRoleRedirectsAction :: "iam_env \<Rightarrow> json option \<Rightarrow> json option action" where
  "getOrgRoleRedirectsAction E input = superadmin_parsed E ''getOrgRoleRedirectsAction.input'' input (\<lambda>d. plain_result (getOrgRoleRedirectsController E (text_of (jget d ''userId'')) (text_of (jget d ''organizationId''))))"

definition listOrgRolesAction :: "iam_env \<Rightarrow> json option \<Rightarrow> json option action" where
  "listOrgRolesAction E input = superadmin_parsed E ''listOrgRolesAction.input'' input (\<lambda>d. plain_result (listOrgRolesController E (text_of (jget d ''organizationId''))))"

definition createOrgRoleAction :: "iam_env \<Rightarrow> json option \<Rightarrow> json option action" where
  "createOrgRoleAction E input = superadmin_action (\<lambda>_. with_payload input (createOrgRoleController E))"

definition updateOrgRoleAction :: "iam_env \<Rightarrow> json option \<Rightarrow> json option action" where
  "updateOrgRoleAction E input = superadmin_action (\<lambda>_. with_payload input (updateOrgRoleController E))"

definition deleteOrgRoleAction :: "iam_env \<Rightarrow> json option \<Rightarrow> json option action" where
  "deleteOrgRoleAction E input = superadmin_action (\<lambda>_. with_payload input (deleteOrgRoleController E))"

definition getPreferenceTemplatesAction :: "iam_env \<Rightarrow> json option action" where
  "getPreferenceTemplatesAction E = superadmin_action (\<lambda>_. plain_result (getPreferenceTemplatesController E))"

definition createPreferenceTemplateAction :: "iam_env \<Rightarrow> json option \<Rightarrow> json option action" where
  "createPreferenceTemplateAction E input = superadmin_action (\<lambda>_. with_payload input (createPreferenceTemplateController E))"

definition updatePreferenceTemplateAction :: "iam_env \<Rightarrow> json option \<Rightarrow> json option action" where
  "updatePreferenceTemplateAction E input = superadmin_action (\<lambda>_. with_payload input (updatePreferenceTemplateController E))"

definition deletePreferenceTemplateAction :: "iam_env \<Rightarrow> json option \<Rightarrow> json option action" where
  "deletePreferenceTemplateAction E input = superadmin_action (\<lambda>_. with_payload input (deletePreferenceTemplateController E))"

definition listResourcesAction :: "iam_env \<Rightarrow> json option action" where
  "listResourcesAction E = superadmin_action (\<lambda>_. plain_result (listResourcesController E))"

definition createResourceAction :: "iam_env \<Rightarrow> json option \<Rightarrow> json option action" where
  "createResourceAction E input = superadmin_action (\<lambda>_. with_payload input (createResourceController E))"

definition updateResourceAction :: "iam_env \<Rightarrow> json option \<Rightarrow> json option action" where
  "updateResourceAction E input = superadmin_action (\<lambda>_. with_payload input (updateResourceController E))"

definition deleteResourceAction :: "iam_env \<Rightarrow> json option \<Rightarrow> json option action" where
  "deleteResourceAction E input = superadmin_action (\<lambda>_. with_payload input (deleteResourceController E))"

definition listResourceActionsAction :: "iam_env \<Rightarrow> json option \<Rightarrow> json option action" where
  "listResourceActionsAction E input = andThen superadminProcedure (\<lambda>session.
     case input of
       None \<Rightarrow> run_transport (plain_result (listResourceActionsController E None))
     | Some i \<Rightarrow> (case en_parse E ''listResourceActionsAction.input'' i of
         None \<Rightarrow> throw (Zsa ''INPUT_PARSE_ERROR'' (ZInput (en_issues E ''listResourceActionsAction.input'' input)))
       | Some d \<Rightarrow> run_transport (plain_result (listResourceActionsController E (opt_text (jget d ''resourceId''))))))"

definition createResourceActionAction :: "iam_env \<Rightarrow> json option \<Rightarrow> json option action" where
  "createResourceActionAction E input = superadmin_action (\<lambda>_. with_payload input (createResourceActionController E))"

definition updateResourceActionAction :: "iam_env \<Rightarrow> json option \<Rightarrow> json option action" where
  "updateResourceActionAction E input = superadmin_action (\<lambda>_. with_payload input (updateResourceActionController E))"

definition deleteResourceActionAction :: "iam_env \<Rightarrow> json option \<Rightarrow> json option action" where
  "deleteResourceActionAction E input = superadmin_action (\<lambda>_. with_payload input (deleteResourceActionController E))"

definition getAllSessionsAction :: "iam_env \<Rightarrow> json option action" where
  "getAllSessionsAction E = superadmin_action (\<lambda>_. plain_result (getAllSessionsController E))"

definition revokeSessionAction :: "iam_env \<Rightarrow> json option \<Rightarrow> json option action" where
  "revokeSessionAction E input = superadmin_action (\<lambda>_. with_payload input (revokeSessionController E))"

definition revokeAllSessionsAction :: "iam_env \<Rightarrow> json option \<Rightarrow> json option action" where
  "revokeAllSessionsAction E input = superadmin_action (\<lambda>_. with_options input (revokeAllSessionsController E))"

definition listUserContextsAction :: "iam_env \<Rightarrow> json option action" where
  "listUserContextsAction E = superadmin_action (\<lambda>_. plain_result (listUserContextsController E))"

definition getUserOrgMembershipsAction :: "iam_env \<Rightarrow> json option \<Rightarrow> json option action" where
  "getUserOrgMembershipsAction E input = superadmin_parsed E ''getUserOrgMembershipsAction.input'' input (\<lambda>d. plain_result (getUserOrgMembershipsController E (text_of (jget d ''userId''))))"

definition getOrgRolesForContextAction :: "iam_env \<Rightarrow> json option \<Rightarrow> json option action" where
  "getOrgRolesForContextAction E input = superadmin_parsed E ''getOrgRolesForContextAction.input'' input (\<lambda>d. plain_result (getOrgRolesForContextController E (text_of (jget d ''organizationId''))))"

definition setUserContextAction :: "iam_env \<Rightarrow> json option \<Rightarrow> json option action" where
  "setUserContextAction E input = superadmin_action (\<lambda>_. with_payload input (setUserContextController E))"

definition getUsersAction :: "iam_env \<Rightarrow> json option action" where
  "getUsersAction E = superadmin_action (\<lambda>_. plain_result (getUsersController E))"

definition createUserAction :: "iam_env \<Rightarrow> json option \<Rightarrow> json option action" where
  "createUserAction E input = superadmin_action (\<lambda>_. with_payload input (createUserController E))"

definition updateUserAction :: "iam_env \<Rightarrow> json option \<Rightarrow> json option action" where
  "updateUserAction E input = superadmin_action (\<lambda>_. with_payload input (updateUserController E))"

definition setUserRoleAction :: "iam_env \<Rightarrow> json option \<Rightarrow> json option action" where
  "setUserRoleAction E input = superadmin_action (\<lambda>_. with_payload input (setUserRoleController E))"

definition banUserAction :: "iam_env \<Rightarrow> json option \<Rightarrow> json option action" where
  "banUserAction E input = superadmin_action (\<lambda>_. with_payload input (banUserController E))"

definition unbanUserAction :: "iam_env \<Rightarrow> json option \<Rightarrow> json option action" where
  "unbanUserAction E input = superadmin_action (\<lambda>_. with_payload input (unbanUserController E))"

definition removeUserAction :: "iam_env \<Rightarrow> json option \<Rightarrow> json option action" where
  "removeUserAction E input = superadmin_action (\<lambda>_. with_payload input (removeUserController E))"

definition setUserPasswordAction :: "iam_env \<Rightarrow> json option \<Rightarrow> json option action" where
  "setUserPasswordAction E input = superadmin_action (\<lambda>_. with_payload input (setUserPasswordController E))"

definition revokeUserSessionsAction :: "iam_env \<Rightarrow> json option \<Rightarrow> json option action" where
  "revokeUserSessionsAction E input = superadmin_action (\<lambda>_. with_payload input (revokeUserSessionsController E))"

definition impersonateUserAction :: "iam_env \<Rightarrow> json option \<Rightarrow> json option action" where
  "impersonateUserAction E input = superadmin_action (\<lambda>_. with_payload input (impersonateUserController E))"

subsection \<open>Preferences\<close>

definition getUserPreferenceAction :: "iam_env \<Rightarrow> json option action" where
  "getUserPreferenceAction E = andThen signedInProcedure (\<lambda>session. run_transport (plain_result
     (getUserPreferenceController E (text_of (opt_get (jget session ''user'') ''id'')))))"

text \<open>\<^verbatim>\<open>{ ...input.payload, userId }\<close>: the session's user replaces whatever the browser sent.\<close>

definition updateUserPreferenceAction :: "iam_env \<Rightarrow> json option \<Rightarrow> json option action" where
  "updateUserPreferenceAction E input = andThen signedInProcedure (\<lambda>session. run_transport
     (andThen (rd_of input ''payload'') (\<lambda>p.
      andThen (updateUserPreferenceController E (Some (spread_opt (or_null p)
          [(''userId'', opt_get (jget session ''user'') ''id'')]))) (\<lambda>data.
      ret (data, opt_get input ''transportOptions'')))))"

subsection \<open>Signing in\<close>

definition isEmailVerificationEnabled :: bool where
  "isEmailVerificationEnabled = False"

text \<open>\<^verbatim>\<open>v ?? d\<close> for a default that may be undefined, and \<^verbatim>\<open>k in data\<close>.\<close>

definition nullish_opt :: "json option \<Rightarrow> json option \<Rightarrow> json option" where
  "nullish_opt v d = (if v = None \<or> v = Some JNull then d else v)"

definition in_object :: "string \<Rightarrow> json option \<Rightarrow> bool svc" where
  "in_object k data = (case data of
     Some (JObj kvs) \<Rightarrow> ret (k \<in> fst ` set kvs)
   | Some (JArr vs) \<Rightarrow> ret False
   | _ \<Rightarrow> throw type_error)"

definition with_redirect :: "json option \<Rightarrow> (string \<times> json option) list \<Rightarrow> json option" where
  "with_redirect opts kvs = Some (spread_opt (or_null opts) kvs)"

text \<open>The page after a sign-up, and the redirect that a sign-in without two factors asks for.\<close>

definition signup_url :: "(string \<Rightarrow> string) \<Rightarrow> json option \<Rightarrow> json option \<Rightarrow> json option \<Rightarrow> json" where
  "signup_url enc verified email oauthRedirect =
     (if truthy verified \<or> \<not> isEmailVerificationEnabled then nullish_or oauthRedirect (JStr ''/'')
      else JStr (''/auth/email-verification?email='' @ interp email @
        (if truthy oauthRedirect then ''&redirect='' @ enc (interp oauthRedirect) else [])))"

definition signupAction :: "iam_env \<Rightarrow> json option \<Rightarrow> json option action" where
  "signupAction E input = run_transport
     (andThen (rd_of input ''captchaToken'') (\<lambda>t. andThen (validateCaptcha E t) (\<lambda>_.
      andThen (rd_of input ''payload'') (\<lambda>p. andThen (signupController E p) (\<lambda>data.
      andThen (rd_of data ''user'') (\<lambda>user. andThen (rd_of user ''emailVerified'') (\<lambda>verified.
      let opts = opt_get input ''transportOptions'' in
      ret (data, with_redirect opts
        [(''shouldRedirect'', Some (nullish_or (opt_get opts ''shouldRedirect'') (JBool True))),
         (''url'', Some (signup_url (en_enc E) verified (opt_get user ''email'') (opt_get opts ''url'')))]))))))))"

definition signinAction :: "iam_env \<Rightarrow> json option \<Rightarrow> json option action" where
  "signinAction E input = run_transport
     (andThen (rd_of input ''captchaToken'') (\<lambda>t. andThen (validateCaptcha E t) (\<lambda>_.
      andThen (rd_of input ''payload'') (\<lambda>p. andThen (signinController E p) (\<lambda>data.
      andThen (in_object ''redirect'' data) (\<lambda>complete.
      let opts = opt_get input ''transportOptions'' in
      if complete
      then ret (data, with_redirect opts
        [(''url'', nullish_opt (opt_get opts ''url'') (opt_get data ''url'')),
         (''shouldRedirect'', nullish_opt (opt_get opts ''shouldRedirect'') (opt_get data ''redirect''))])
      else ret (data, Some (JObj
        [(''url'', JStr (if truthy (opt_get opts ''url'')
            then ''/auth/two-factor?redirect='' @ en_enc E (interp (opt_get opts ''url'')) else ''/auth/two-factor'')),
         (''shouldRedirect'', JBool True)]))))))))"

definition signinWithSocialAction :: "iam_env \<Rightarrow> json option \<Rightarrow> json option action" where
  "signinWithSocialAction E input = run_transport
     (andThen (signinWithSocialController E input) (\<lambda>data. andThen (rd_of data ''redirect'') (\<lambda>r.
      ret (data, Some (jobj
        [(''url'', if truthy r then opt_get data ''url'' else Some JNull),
         (''shouldRedirect'', Some (JBool (truthy r \<and> truthy (opt_get data ''url''))))])))))"

definition signoutAction :: "iam_env \<Rightarrow> json option \<Rightarrow> json option action" where
  "signoutAction E input = run_transport
     (andThen (signoutController E) (\<lambda>data. andThen (rd_of data ''url'') (\<lambda>u.
      andThen (rd_of input ''transportOptions'') (\<lambda>opts.
      ret (data, with_redirect opts
        [(''url'', nullish_opt u (opt_get opts ''url'')),
         (''shouldRedirect'', nullish_opt (opt_get data ''success'') (opt_get opts ''shouldRedirect''))])))))"

definition sendEmailVerificationAction :: "iam_env \<Rightarrow> json option \<Rightarrow> json option action" where
  "sendEmailVerificationAction E input = run_transport (with_payload input (sendEmailVerificationController E))"

definition sendTwoFactorOTPAction :: "iam_env \<Rightarrow> json option \<Rightarrow> json option action" where
  "sendTwoFactorOTPAction E input = run_transport (with_options input (sendTwoFactorOTPController E))"

text \<open>The actions of the second factor: on success they redirect, to the given URL if there is one.\<close>

definition second_factor :: "(json option \<Rightarrow> json option svc) \<Rightarrow> json option \<Rightarrow> json option action" where
  "second_factor controller input = run_transport
     (andThen (rd_of input ''payload'') (\<lambda>p. andThen (controller p) (\<lambda>data.
      let opts = opt_get input ''transportOptions'' in
      ret (data, with_redirect opts
        [(''shouldRedirect'', Some (nullish_or (opt_get opts ''shouldRedirect'') (JBool True))),
         (''url'', Some (nullish_or (opt_get opts ''url'') (JStr ''/'')))]))))"

definition verifyTwoFactorOTPAction :: "iam_env \<Rightarrow> json option \<Rightarrow> json option action" where
  "verifyTwoFactorOTPAction E input = second_factor (verifyTwoFactorOTPController E) input"

definition verifyTOTPAction :: "iam_env \<Rightarrow> json option \<Rightarrow> json option action" where
  "verifyTOTPAction E input = second_factor (verifyTOTPController E) input"

definition sendMagicLinkAction :: "iam_env \<Rightarrow> json option \<Rightarrow> json option action" where
  "sendMagicLinkAction E input = run_transport (with_payload input (sendMagicLinkController E))"

definition sendResetPasswordAction :: "iam_env \<Rightarrow> json option \<Rightarrow> json option action" where
  "sendResetPasswordAction E input = run_transport (with_payload input (sendResetPasswordController E))"

definition isValidResetRedirect :: "json option \<Rightarrow> bool" where
  "isValidResetRedirect u = (\<not> truthy u \<or> u = Some (JStr ''/'') \<or> starts_with (text_of u) authorize_path)"

definition resetPasswordAction :: "iam_env \<Rightarrow> json option \<Rightarrow> json option action" where
  "resetPasswordAction E input = run_transport
     (andThen (rd_of input ''payload'') (\<lambda>p. andThen (resetPasswordController E p (opt_get input ''token'')) (\<lambda>data.
      let opts = opt_get input ''transportOptions'';
          redirect = opt_get input ''redirect'';
          safeRedirect = (if isValidResetRedirect redirect then redirect else None)
      in ret (data, with_redirect opts
        [(''shouldRedirect'', Some (nullish_or (opt_get opts ''shouldRedirect'') (JBool True))),
         (''url'', Some (nullish_or (nullish_opt safeRedirect (opt_get opts ''url'')) (JStr ''/auth/sign-in'')))]))))"

subsection \<open>The lists of actions\<close>

text \<open>All administration actions, called with the same input.\<close>

definition admin_actions :: "iam_env \<Rightarrow> json option \<Rightarrow> (string \<times> json option action) list" where
  "admin_actions E input =
     [(''listAgentsAction'', listAgentsAction E),
      (''registerAgentAction'', registerAgentAction E input),
      (''updateAgentAction'', updateAgentAction E input),
      (''revokeAgentAction'', revokeAgentAction E input),
      (''reactivateAgentAction'', reactivateAgentAction E input),
      (''grantAgentCapabilityAction'', grantAgentCapabilityAction E input),
      (''cleanupAgentsAction'', cleanupAgentsAction E input),
      (''listPendingApprovalsAction'', listPendingApprovalsAction E),
      (''approveCapabilityAction'', approveCapabilityAction E input),
      (''listHostsAction'', listHostsAction E),
      (''createHostAction'', createHostAction E input),
      (''updateHostAction'', updateHostAction E input),
      (''revokeHostAction'', revokeHostAction E input),
      (''listApiKeysAction'', listApiKeysAction E input),
      (''createApiKeyAction'', createApiKeyAction E input),
      (''updateApiKeyAction'', updateApiKeyAction E input),
      (''deleteApiKeyAction'', deleteApiKeyAction E input),
      (''deleteExpiredApiKeysAction'', deleteExpiredApiKeysAction E input),
      (''listAppsAction'', listAppsAction E),
      (''createAppAction'', createAppAction E input),
      (''updateAppAction'', updateAppAction E input),
      (''deleteAppAction'', deleteAppAction E input),
      (''listMenuNodesAction'', listMenuNodesAction E input),
      (''listActionsAction'', listActionsAction E),
      (''createMenuNodeAction'', createMenuNodeAction E input),
      (''updateMenuNodeAction'', updateMenuNodeAction E input),
      (''deleteMenuNodeAction'', deleteMenuNodeAction E input),
      (''reorderMenuNodeAction'', reorderMenuNodeAction E input),
      (''listConsentsAction'', listConsentsAction E),
      (''getConsentAction'', getConsentAction E input),
      (''updateConsentScopesAction'', updateConsentScopesAction E input),
      (''deleteConsentAction'', deleteConsentAction E input),
      (''getOAuthClientsAction'', getOAuthClientsAction E),
      (''createOAuthClientAction'', createOAuthClientAction E input),
      (''updateOAuthClientAction'', updateOAuthClientAction E input),
      (''deleteOAuthClientAction'', deleteOAuthClientAction E input),
      (''rotateClientSecretAction'', rotateClientSecretAction E input),
      (''listOrganizationsAction'', listOrganizationsAction E),
      (''getOrganizationAction'', getOrganizationAction E input),
      (''createOrganizationAction'', createOrganizationAction E input),
      (''updateOrganizationAction'', updateOrganizationAction E input),
      (''deleteOrganizationAction'', deleteOrganizationAction E input),
      (''addMemberAction'', addMemberAction E input),
      (''updateMemberRoleAction'', updateMemberRoleAction E input),
      (''removeMemberAction'', removeMemberAction E input),
      (''createInvitationAction'', createInvitationAction E input),
      (''cancelInvitationAction'', cancelInvitationAction E input),
      (''createTeamAction'', createTeamAction E input),
      (''updateTeamAction'', updateTeamAction E input),
      (''removeTeamAction'', removeTeamAction E input),
      (''addTeamMemberAction'', addTeamMemberAction E input),
      (''removeTeamMemberAction'', removeTeamMemberAction E input),
      (''getOrgRoleRedirectsAction'', getOrgRoleRedirectsAction E input),
      (''listOrgRolesAction'', listOrgRolesAction E input),
      (''createOrgRoleAction'', createOrgRoleAction E input),
      (''updateOrgRoleAction'', updateOrgRoleAction E input),
      (''deleteOrgRoleAction'', deleteOrgRoleAction E input),
      (''getPreferenceTemplatesAction'', getPreferenceTemplatesAction E),
      (''createPreferenceTemplateAction'', createPreferenceTemplateAction E input),
      (''updatePreferenceTemplateAction'', updatePreferenceTemplateAction E input),
      (''deletePreferenceTemplateAction'', deletePreferenceTemplateAction E input),
      (''listResourcesAction'', listResourcesAction E),
      (''createResourceAction'', createResourceAction E input),
      (''updateResourceAction'', updateResourceAction E input),
      (''deleteResourceAction'', deleteResourceAction E input),
      (''listResourceActionsAction'', listResourceActionsAction E input),
      (''createResourceActionAction'', createResourceActionAction E input),
      (''updateResourceActionAction'', updateResourceActionAction E input),
      (''deleteResourceActionAction'', deleteResourceActionAction E input),
      (''getAllSessionsAction'', getAllSessionsAction E),
      (''revokeSessionAction'', revokeSessionAction E input),
      (''revokeAllSessionsAction'', revokeAllSessionsAction E input),
      (''listUserContextsAction'', listUserContextsAction E),
      (''getUserOrgMembershipsAction'', getUserOrgMembershipsAction E input),
      (''getOrgRolesForContextAction'', getOrgRolesForContextAction E input),
      (''setUserContextAction'', setUserContextAction E input),
      (''getUsersAction'', getUsersAction E),
      (''createUserAction'', createUserAction E input),
      (''updateUserAction'', updateUserAction E input),
      (''setUserRoleAction'', setUserRoleAction E input),
      (''banUserAction'', banUserAction E input),
      (''unbanUserAction'', unbanUserAction E input),
      (''removeUserAction'', removeUserAction E input),
      (''setUserPasswordAction'', setUserPasswordAction E input),
      (''revokeUserSessionsAction'', revokeUserSessionsAction E input),
      (''impersonateUserAction'', impersonateUserAction E input)]"

lemmas admin_action_defs =
  listAgentsAction_def registerAgentAction_def updateAgentAction_def revokeAgentAction_def
  reactivateAgentAction_def grantAgentCapabilityAction_def cleanupAgentsAction_def
  listPendingApprovalsAction_def approveCapabilityAction_def listHostsAction_def createHostAction_def
  updateHostAction_def revokeHostAction_def listApiKeysAction_def createApiKeyAction_def
  updateApiKeyAction_def deleteApiKeyAction_def deleteExpiredApiKeysAction_def listAppsAction_def
  createAppAction_def updateAppAction_def deleteAppAction_def listMenuNodesAction_def listActionsAction_def
  createMenuNodeAction_def updateMenuNodeAction_def deleteMenuNodeAction_def reorderMenuNodeAction_def
  listConsentsAction_def getConsentAction_def updateConsentScopesAction_def deleteConsentAction_def
  getOAuthClientsAction_def createOAuthClientAction_def updateOAuthClientAction_def
  deleteOAuthClientAction_def rotateClientSecretAction_def listOrganizationsAction_def
  getOrganizationAction_def createOrganizationAction_def updateOrganizationAction_def
  deleteOrganizationAction_def addMemberAction_def updateMemberRoleAction_def removeMemberAction_def
  createInvitationAction_def cancelInvitationAction_def createTeamAction_def updateTeamAction_def
  removeTeamAction_def addTeamMemberAction_def removeTeamMemberAction_def getOrgRoleRedirectsAction_def
  listOrgRolesAction_def createOrgRoleAction_def updateOrgRoleAction_def deleteOrgRoleAction_def
  getPreferenceTemplatesAction_def createPreferenceTemplateAction_def updatePreferenceTemplateAction_def
  deletePreferenceTemplateAction_def listResourcesAction_def createResourceAction_def
  updateResourceAction_def deleteResourceAction_def listResourceActionsAction_def
  createResourceActionAction_def updateResourceActionAction_def deleteResourceActionAction_def
  getAllSessionsAction_def revokeSessionAction_def revokeAllSessionsAction_def listUserContextsAction_def
  getUserOrgMembershipsAction_def getOrgRolesForContextAction_def setUserContextAction_def
  getUsersAction_def createUserAction_def updateUserAction_def setUserRoleAction_def banUserAction_def
  unbanUserAction_def removeUserAction_def setUserPasswordAction_def revokeUserSessionsAction_def
  impersonateUserAction_def

text \<open>Those whose controller validates the payload, with the schema that it uses.\<close>

definition payload_actions :: "iam_env \<Rightarrow> json option \<Rightarrow> (string \<times> json option action) list" where
  "payload_actions E input =
     [(''RegisterAgentValidationSchema'', registerAgentAction E input),
      (''UpdateAgentValidationSchema'', updateAgentAction E input),
      (''RevokeAgentValidationSchema'', revokeAgentAction E input),
      (''ReactivateAgentValidationSchema'', reactivateAgentAction E input),
      (''GrantCapabilityValidationSchema'', grantAgentCapabilityAction E input),
      (''ApproveCapabilityValidationSchema'', approveCapabilityAction E input),
      (''CreateHostValidationSchema'', createHostAction E input),
      (''UpdateHostValidationSchema'', updateHostAction E input),
      (''RevokeHostValidationSchema'', revokeHostAction E input),
      (''CreateApiKeyValidationSchema'', createApiKeyAction E input),
      (''UpdateApiKeyValidationSchema'', updateApiKeyAction E input),
      (''DeleteApiKeyValidationSchema'', deleteApiKeyAction E input),
      (''DeleteExpiredApiKeysValidationSchema'', deleteExpiredApiKeysAction E input),
      (''CreateAppValidationSchema'', createAppAction E input),
      (''UpdateAppValidationSchema'', updateAppAction E input),
      (''DeleteAppValidationSchema'', deleteAppAction E input),
      (''CreateMenuNodeValidationSchema'', createMenuNodeAction E input),
      (''UpdateMenuNodeValidationSchema'', updateMenuNodeAction E input),
      (''DeleteMenuNodeValidationSchema'', deleteMenuNodeAction E input),
      (''ReorderMenuNodeValidationSchema'', reorderMenuNodeAction E input),
      (''UpdateConsentScopesValidationSchema'', updateConsentScopesAction E input),
      (''DeleteConsentValidationSchema'', deleteConsentAction E input),
      (''CreateOAuthClientValidationSchema'', createOAuthClientAction E input),
      (''UpdateOAuthClientValidationSchema'', updateOAuthClientAction E input),
      (''DeleteOAuthClientValidationSchema'', deleteOAuthClientAction E input),
      (''RotateClientSecretValidationSchema'', rotateClientSecretAction E input),
      (''CreateOrganizationValidationSchema'', createOrganizationAction E input),
      (''UpdateOrganizationValidationSchema'', updateOrganizationAction E input),
      (''DeleteOrganizationValidationSchema'', deleteOrganizationAction E input),
      (''AddMemberValidationSchema'', addMemberAction E input),
      (''UpdateMemberRoleValidationSchema'', updateMemberRoleAction E input),
      (''RemoveMemberValidationSchema'', removeMemberAction E input),
      (''CreateInvitationValidationSchema'', createInvitationAction E input),
      (''CancelInvitationValidationSchema'', cancelInvitationAction E input),
      (''CreateTeamValidationSchema'', createTeamAction E input),
      (''UpdateTeamValidationSchema'', updateTeamAction E input),
      (''RemoveTeamValidationSchema'', removeTeamAction E input),
      (''AddTeamMemberValidationSchema'', addTeamMemberAction E input),
      (''RemoveTeamMemberValidationSchema'', removeTeamMemberAction E input),
      (''CreateOrgRoleValidationSchema'', createOrgRoleAction E input),
      (''UpdateOrgRoleValidationSchema'', updateOrgRoleAction E input),
      (''DeleteOrgRoleValidationSchema'', deleteOrgRoleAction E input),
      (''CreatePreferenceTemplateValidationSchema'', createPreferenceTemplateAction E input),
      (''UpdatePreferenceTemplateValidationSchema'', updatePreferenceTemplateAction E input),
      (''DeletePreferenceTemplateValidationSchema'', deletePreferenceTemplateAction E input),
      (''CreateResourceValidationSchema'', createResourceAction E input),
      (''UpdateResourceValidationSchema'', updateResourceAction E input),
      (''DeleteResourceValidationSchema'', deleteResourceAction E input),
      (''CreateResourceActionValidationSchema'', createResourceActionAction E input),
      (''UpdateResourceActionValidationSchema'', updateResourceActionAction E input),
      (''DeleteResourceActionValidationSchema'', deleteResourceActionAction E input),
      (''RevokeSessionValidationSchema'', revokeSessionAction E input),
      (''SetUserContextValidationSchema'', setUserContextAction E input),
      (''CreateUserValidationSchema'', createUserAction E input),
      (''UpdateUserValidationSchema'', updateUserAction E input),
      (''SetUserRoleValidationSchema'', setUserRoleAction E input),
      (''BanUserValidationSchema'', banUserAction E input),
      (''UnbanUserValidationSchema'', unbanUserAction E input),
      (''RemoveUserValidationSchema'', removeUserAction E input),
      (''SetUserPasswordValidationSchema'', setUserPasswordAction E input),
      (''RevokeUserSessionsValidationSchema'', revokeUserSessionsAction E input),
      (''ImpersonateUserValidationSchema'', impersonateUserAction E input)]"

lemmas payload_controller_defs =
  registerAgentController_def updateAgentController_def revokeAgentController_def
  reactivateAgentController_def grantAgentCapabilityController_def approveCapabilityController_def
  createHostController_def updateHostController_def revokeHostController_def createApiKeyController_def
  updateApiKeyController_def deleteApiKeyController_def deleteExpiredApiKeysController_def
  createAppController_def updateAppController_def deleteAppController_def createMenuNodeController_def
  updateMenuNodeController_def deleteMenuNodeController_def reorderMenuNodeController_def
  updateConsentScopesController_def deleteConsentController_def createOAuthClientController_def
  updateOAuthClientController_def deleteOAuthClientController_def rotateClientSecretController_def
  createOrganizationController_def updateOrganizationController_def deleteOrganizationController_def
  addMemberController_def updateMemberRoleController_def removeMemberController_def
  createInvitationController_def cancelInvitationController_def createTeamController_def
  updateTeamController_def removeTeamController_def addTeamMemberController_def
  removeTeamMemberController_def createOrgRoleController_def updateOrgRoleController_def
  deleteOrgRoleController_def createPreferenceTemplateController_def updatePreferenceTemplateController_def
  deletePreferenceTemplateController_def createResourceController_def updateResourceController_def
  deleteResourceController_def createResourceActionController_def updateResourceActionController_def
  deleteResourceActionController_def revokeSessionController_def setUserContextController_def
  createUserController_def updateUserController_def setUserRoleController_def banUserController_def
  unbanUserController_def removeUserController_def setUserPasswordController_def
  revokeUserSessionsController_def impersonateUserController_def

subsection \<open>What the guard promises\<close>

definition session_call :: svc_event where
  "session_call = Call ''getServerSession'' (JObj [])"

definition is_superadmin :: "json \<Rightarrow> bool" where
  "is_superadmin session = (opt_get (jget session ''user'') ''role'' = Some (JStr ''superadmin''))"

definition admits :: "svc_reply \<Rightarrow> bool" where
  "admits r = (case r of Returned session \<Rightarrow> is_superadmin session | Threw e \<Rightarrow> False)"

definition refusal :: "svc_reply \<Rightarrow> iam_exn boundary" where
  "refusal r = (case r of
     Threw e \<Rightarrow> Rethrown e
   | Returned session \<Rightarrow> if truthy (jget session ''user'') then forbidden else not_signed_in)"

text \<open>An action whose errors are typed, but for the framework's signals; and an action behind the guard.\<close>

definition typed_action :: "json option action \<Rightarrow> bool" where
  "typed_action m = (\<forall>w h. case fst (m w h) of Inl (Rethrown e) \<Rightarrow> isNextJsControlError e | _ \<Rightarrow> True)"

definition guarded :: "json option action \<Rightarrow> bool" where
  "guarded a = (\<exists>f. a = andThen superadminProcedure f \<and> (\<forall>session. typed_action (f session)))"

lemma superadmin_run:
  "superadminProcedure w [] = (case w [session_call] of
     Returned session \<Rightarrow> (if is_superadmin session then Inr session else Inl (refusal (Returned session)), [session_call])
   | Threw e \<Rightarrow> (Inl (Rethrown e), [session_call]))"
proof -
  have user: "truthy (jget session ''user'')" if "is_superadmin session" for session
  proof -
    from that obtain u where u: "jget session ''user'' = Some u" "jget u ''role'' = Some (JStr ''superadmin'')"
      by (auto simp: is_superadmin_def opt_get_def split: option.splits)
    then show ?thesis by (cases u) auto
  qed
  show ?thesis
    using user by (auto simp: superadminProcedure_def iam_session_def handling_def call_def io_simps session_call_def
        refusal_def is_superadmin_def split: svc_reply.split)
qed

lemma guarded_refuses:
  assumes "guarded a" and "\<not> admits (w [session_call])"
  shows "a w [] = (Inl (refusal (w [session_call])), [session_call])"
  using assms by (auto simp: guarded_def andThen_apply superadmin_run admits_def refusal_def split: svc_reply.splits)

lemma guarded_typed:
  assumes "guarded a"
  shows "case fst (a w []) of Inl (Rethrown e) \<Rightarrow> isNextJsControlError e \<or> w [session_call] = Threw e | _ \<Rightarrow> True"
proof -
  obtain f where f: "a = andThen superadminProcedure f" "\<And>session. typed_action (f session)"
    using assms by (auto simp: guarded_def)
  show ?thesis
  proof (cases "w [session_call]")
    case (Returned session)
    then show ?thesis using f(2) [of session]
      by (auto simp: f(1) andThen_apply superadmin_run typed_action_def refusal_def forbidden_def not_signed_in_def
          split: sum.splits boundary.splits)
  qed (simp add: f(1) andThen_apply superadmin_run)
qed

lemma mapErrorToZSA_rethrows: "mapErrorToZSA e = Rethrown e' \<Longrightarrow> isNextJsControlError e'"
  by (auto simp: mapErrorToZSA_def split: if_splits iam_exn.splits)

lemma typed_run_transport: "typed_action (run_transport m)"
  by (auto simp: typed_action_def run_transport_def handling_def io_simps mapErrorToZSA_rethrows
      split: prod.split sum.split boundary.split)

lemma typed_zsa: "typed_action (throw (Zsa code data))"
  by (simp add: typed_action_def io_simps)

lemma guardedI: "(\<And>session. typed_action (f session)) \<Longrightarrow> guarded (andThen superadminProcedure f)"
  by (auto simp: guarded_def)

lemma guarded_superadmin: "guarded (superadmin_action handler)"
  unfolding superadmin_action_def by (intro guardedI typed_run_transport)

lemma guarded_parsed: "guarded (superadmin_parsed E schema input handler)"
  unfolding superadmin_parsed_def
  by (rule guardedI) (auto simp: typed_run_transport typed_zsa split: option.split)

lemma guarded_optional: "guarded (listResourceActionsAction E input)"
  unfolding listResourceActionsAction_def
  by (rule guardedI) (auto simp: typed_run_transport typed_zsa split: option.split)

lemma all_guarded: "list_all (\<lambda>(name, a). guarded a) (admin_actions E input)"
proof -
  note optional = guarded_optional [unfolded listResourceActionsAction_def]
  show ?thesis
    unfolding admin_actions_def list.pred_inject prod.case admin_action_defs
    by (intro conjI list.pred_inject(1) guarded_superadmin guarded_parsed optional)
qed

lemma list_all_guarded:
  "(\<And>a. guarded a \<Longrightarrow> P a) \<Longrightarrow> list_all (\<lambda>(name, a). P a) (admin_actions E input)"
  using all_guarded [of E input] by (auto simp: list_all_iff)

text \<open>
  C26: nobody but a superadmin gets past the guard of an administration action. For a caller without a session,
  without a user or without the role, each of the actions reads the session and does nothing else, and
  answers that the caller is not signed in or not permitted.
\<close>

theorem admin_actions_guarded:
  assumes "\<not> admits (w [session_call])"
  shows "list_all (\<lambda>(name, a). a w [] = (Inl (refusal (w [session_call])), [session_call])) (admin_actions E input)"
  by (rule list_all_guarded) (rule guarded_refuses, assumption, rule assms)

definition guest_session :: json where
  "guest_session = JObj [(''user'', JObj [(''role'', JStr ''guest'')])]"

definition demo_env :: iam_env where
  "demo_env = \<lparr>en_base = [], en_parse = \<lambda>s v. Some v, en_issues = \<lambda>s v. JNull, en_parse_json = \<lambda>s. None,
     en_stringify = \<lambda>j. [], en_column = \<lambda>v. v, en_now = JNull, en_newId = [], en_site = [], en_b64 = rev, en_enc = rev,
     en_captcha = True, en_secret = Some ''k''\<rparr>"

lemma admin_actions_guarded_witness:
  "list_all (\<lambda>(name, a). a (\<lambda>h. Returned guest_session) [] = (Inl forbidden, [session_call])) (admin_actions demo_env None)"
proof -
  have "\<not> admits (Returned guest_session)" "refusal (Returned guest_session) = forbidden"
    by (simp_all add: admits_def is_superadmin_def opt_get_def guest_session_def refusal_def)
  with admin_actions_guarded [of "\<lambda>h. Returned guest_session" demo_env None] show ?thesis by simp
qed

subsection \<open>What the controllers promise\<close>

definition rejected :: "iam_env \<Rightarrow> string \<Rightarrow> json option \<Rightarrow> bool" where
  "rejected E schema v = (Option.bind v (en_parse E schema) = None)"

text \<open>A controller that fails, before any call, on a payload that the schema rejects.\<close>

definition validates :: "iam_env \<Rightarrow> string \<Rightarrow> (json option \<Rightarrow> json option svc) \<Rightarrow> bool" where
  "validates E schema C = (\<forall>p w h. rejected E schema p \<longrightarrow> (\<exists>x. C p w h = (Inl x, h)))"

lemma validates_by: "(\<And>p. C p = parsed_input E schema p f) \<Longrightarrow> validates E schema C"
  by (auto simp: validates_def rejected_def parsed_input_def io_simps split: option.split)

lemma validates_context: "validates E ''SetUserContextValidationSchema'' (setUserContextController E)"
  by (auto simp: validates_def rejected_def setUserContextController_def io_simps split: option.split)

lemma validates_refreshing: "validates E schema C \<Longrightarrow> validates E schema (\<lambda>p. refreshing (C p))"
  unfolding validates_def refreshing_def andThen_apply by (metis (no_types, lifting) case_prod_conv sum.simps(5))

definition stops :: "(svc_event list \<Rightarrow> svc_reply) \<Rightarrow> json option action \<Rightarrow> bool" where
  "stops w a = (snd (a w []) = [session_call] \<and> isl (fst (a w [])))"

lemma payload_stops:
  assumes "validates E schema C" and "rejected E schema (opt_get input ''payload'')"
  shows "stops w (superadmin_action (\<lambda>_. with_payload input C))"
proof -
  have "\<exists>x. with_payload input C w h = (Inl x, h)" for h
  proof (cases "input = None \<or> input = Some JNull")
    case True
    then show ?thesis by (auto simp: with_payload_def rd_of_def rd_def io_simps)
  next
    case False
    then have "rd_of input ''payload'' = ret (opt_get input ''payload'')"
      by (auto simp: rd_of_def rd_def opt_get_def split: option.splits)
    moreover obtain x where "C (opt_get input ''payload'') w h = (Inl x, h)"
      using assms unfolding validates_def by blast
    ultimately show ?thesis by (simp add: with_payload_def io_simps)
  qed
  then obtain x where "with_payload input C w [session_call] = (Inl x, [session_call])" by blast
  then show ?thesis
    by (simp add: stops_def superadmin_action_def andThen_apply superadmin_run run_transport_def handling_def io_simps
        split: svc_reply.split)
qed

text \<open>
  An administration action does nothing with a payload that its schema rejects: for each action with a
  payload, whoever calls it and whatever else the input holds, a payload that the controller's schema
  does not accept leads to an error, and the only call that was made is the one that reads the session.
\<close>

lemma admin_payloads_validated:
  "list_all (\<lambda>(schema, a). rejected E schema (opt_get input ''payload'') \<longrightarrow>
     snd (a w []) = [session_call] \<and> isl (fst (a w []))) (payload_actions E input)"
proof -
  have "list_all (\<lambda>(schema, a). rejected E schema (opt_get input ''payload'') \<longrightarrow> stops w a) (payload_actions E input)"
    unfolding payload_actions_def list.pred_inject prod.case admin_action_defs
    by (intro conjI list.pred_inject(1) impI payload_stops validates_refreshing;
        (assumption | rule validates_context | (rule validates_by, rule payload_controller_defs)))
  then show ?thesis by (simp add: list_all_iff stops_def)
qed

lemma admin_payloads_validated_witness:
  "list_all (\<lambda>(schema, a). snd (a (\<lambda>h. Returned guest_session) []) = [session_call] \<and>
     isl (fst (a (\<lambda>h. Returned guest_session) [])))
   (payload_actions (demo_env\<lparr>en_parse := \<lambda>s v. None\<rparr>) (Some (JObj [(''payload'', JObj [])])))"
proof -
  have "rejected (demo_env\<lparr>en_parse := \<lambda>s v. None\<rparr>) schema v" for schema v
    by (cases v) (simp_all add: rejected_def)
  with admin_payloads_validated [of "demo_env\<lparr>en_parse := \<lambda>s v. None\<rparr>" "Some (JObj [(''payload'', JObj [])])"
      "\<lambda>h. Returned guest_session"]
  show ?thesis by (simp only: simp_thms)
qed

subsection \<open>What the sign-in actions do\<close>

text \<open>The check of a captcha with a provider: the question, and the answers that pass.\<close>

definition captcha_call :: "string \<Rightarrow> json option \<Rightarrow> svc_event" where
  "captcha_call secret token = Call ''fetch.siteverify'' (JObj [(''secret'', JStr secret), (''response'', the token)])"

definition captcha_passes :: "(svc_event list \<Rightarrow> svc_reply) \<Rightarrow> string \<Rightarrow> json option \<Rightarrow> bool" where
  "captcha_passes w secret token = (truthy token \<and> (case w [captcha_call secret token] of
     Returned j \<Rightarrow> truthy (jget j ''success'') | Threw e \<Rightarrow> False))"

lemma captcha_stops:
  assumes "en_captcha E" and "en_secret E = Some secret" and "secret \<noteq> []" and "\<not> captcha_passes w secret token"
  shows "\<exists>x es. validateCaptcha E token w [] = (Inl x, es) \<and> set es \<subseteq> {captcha_call secret token}"
  using assms
  by (cases secret; cases "w [captcha_call secret token]")
    (auto simp: validateCaptcha_def captcha_passes_def captcha_call_def call_def io_simps rd_def)

lemma captcha_guards:
  assumes "en_captcha E" and "en_secret E = Some secret" and "secret \<noteq> []"
    and "\<not> captcha_passes w secret (opt_get input ''captchaToken'')"
  shows "\<exists>x es. run_transport (andThen (rd_of input ''captchaToken'') (\<lambda>t. andThen (validateCaptcha E t) f)) w [] = (Inl x, es) \<and>
    set es \<subseteq> {captcha_call secret (opt_get input ''captchaToken'')}"
proof (cases "input = None \<or> input = Some JNull")
  case True
  then show ?thesis by (auto simp: rd_of_def rd_def io_simps run_transport_def handling_def)
next
  case False
  then have "rd_of input ''captchaToken'' = ret (opt_get input ''captchaToken'')"
    by (auto simp: rd_of_def rd_def opt_get_def split: option.splits)
  moreover obtain x es where "validateCaptcha E (opt_get input ''captchaToken'') w [] = (Inl x, es)"
    "set es \<subseteq> {captcha_call secret (opt_get input ''captchaToken'')}"
    using captcha_stops [OF assms] by blast
  ultimately show ?thesis by (simp add: io_simps run_transport_def handling_def)
qed

text \<open>
  With captchas configured, signing up and signing in by password do nothing for a caller without a solved
  captcha: unless the token is given and the provider confirms it, the only call that can have been made
  is the question to the provider, and the action fails.
\<close>

lemma sign_in_needs_captcha:
  assumes "en_captcha E" and "en_secret E = Some secret" and "secret \<noteq> []"
    and "\<not> captcha_passes w secret (opt_get input ''captchaToken'')" and "a \<in> {signupAction, signinAction}"
  shows "\<exists>x es. a E input w [] = (Inl x, es) \<and> set es \<subseteq> {captcha_call secret (opt_get input ''captchaToken'')}"
  using assms(5) captcha_guards [OF assms(1-4)] by (auto simp: signupAction_def signinAction_def)

lemma sign_in_needs_captcha_witness:
  "\<exists>x es. signinAction demo_env (Some (JObj [(''captchaToken'', JStr ''t'')])) (\<lambda>h. Returned (JObj [])) [] = (Inl x, es) \<and>
     set es \<subseteq> {captcha_call ''k'' (Some (JStr ''t''))}"
  using sign_in_needs_captcha [of demo_env "''k''" "\<lambda>h. Returned (JObj [])" "Some (JObj [(''captchaToken'', JStr ''t'')])" signinAction]
  by (simp add: demo_env_def captcha_passes_def opt_get_def)

text \<open>
  The second factor redirects anywhere. Once the code is verified, both actions of the second factor end by
  redirecting the browser to the URL in the transport options, whatever it is: nothing compares it with
  the site, although the callbacks of the sign-in service are restricted to the site, and the page fills
  it from its \<^verbatim>\<open>redirect\<close> query parameter.
\<close>

lemma second_factor_redirects_anywhere:
  assumes "fst (controller (Some p) w []) = Inr data" and "u \<noteq> []"
    and "controller \<in> {verifyTwoFactorOTPController E, verifyTOTPController E}"
  shows "second_factor controller (Some (JObj [(''payload'', p), (''transportOptions'', JObj [(''url'', JStr u)])])) w [] =
    (Inl (Rethrown (next_redirect u)), snd (controller (Some p) w []) @ [Call ''redirect'' (JStr u)])"
proof -
  obtain es where c: "controller (Some p) w [] = (Inr data, es)" using assms(1) by (cases "controller (Some p) w []") auto
  have z: "mapErrorToZSA (next_redirect u) = Rethrown (next_redirect u)"
    by (simp add: mapErrorToZSA_def isNextJsControlError_def next_redirect_def)
  show ?thesis
    using assms(2) z
    by (simp add: second_factor_def run_transport_def handling_def io_simps rd_of_def rd_def c opt_get_def with_redirect_def
        spread_opt_def own_entries_def or_null_def apply_decision_def redirect_to_def Let_def interp_def)
qed

lemma second_factor_redirects_anywhere_witness:
  "fst (verifyTOTPAction demo_env (Some (JObj [(''payload'', JObj []), (''transportOptions'', JObj [(''url'', JStr ''https://x.y'')])]))
     (\<lambda>h. Returned (JObj [])) []) = Inl (Rethrown (next_redirect ''https://x.y''))"
proof -
  have "fst (verifyTOTPController demo_env (Some (JObj [])) (\<lambda>h. Returned (JObj [])) []) = Inr (Some (JObj []))"
    by (simp add: verifyTOTPController_def parsed_input_def demo_env_def presented_def verifyTOTPUseCase_def
        verifyTwoFactorTOTP_def logged_def log_line_def parsed_call_def call_def zod_def io_simps)
  with second_factor_redirects_anywhere [of "verifyTOTPController demo_env" "JObj []" "\<lambda>h. Returned (JObj [])" "Some (JObj [])" "''https://x.y''" demo_env]
  show ?thesis by (simp add: verifyTOTPAction_def)
qed

end
