(* ===== verification/Iam_Context.thy ===== *)
theory Iam_Context
  imports Iam_Nav Iam_Procedures
begin

text \<open>
  The context that the identity service puts into its tokens and sessions
  (\<^verbatim>\<open>buildUserContext\<close> of \<^verbatim>\<open>iam/src/modules/server/auth-provider/auth.config.ts\<close>): the menus, permissions
  and roles of a user in an organization, and the three places that attach it: the JWT payload, the
  userinfo claims of the OAuth provider, and the session. The database is a record of lookups; a
  user's permissions are computed from it by \<open>getUserPermissions\<close>.
\<close>

subsection \<open>The database\<close>

text \<open>
  The memberships of a user with their role texts, the permission columns of role rows, the active
  applications with their active menu rows in order, the stored active role of a user, and the name
  and redirect of a role.
\<close>

record ctx_db =
  cd_memberships :: "string \<Rightarrow> (string \<times> org_summary) list"
  cd_orgRoles :: "string \<Rightarrow> string list \<Rightarrow> json option list"
  cd_apps :: "app_row list"
  cd_activeRoleId :: "string \<Rightarrow> string option"
  cd_roleName :: "string \<Rightarrow> string option"
  cd_redirect :: "string \<Rightarrow> string \<Rightarrow> string \<Rightarrow> string option"

text \<open>\<^verbatim>\<open>memberships.find((m) => m.organization.id === organizationId)?.role\<close>.\<close>

definition membership_role :: "ctx_db \<Rightarrow> string \<Rightarrow> string \<Rightarrow> string option" where
  "membership_role db u org = map_of (map (\<lambda>(role, g). (og_id g, role)) (cd_memberships db u)) org"

record user_ctx =
  uc_apps :: "(app_row \<times> nav_node list) list"
  uc_permissions :: "string list"
  uc_organizations :: "org_summary list"
  uc_roles :: "string list"
  uc_roleId :: "string option"
  uc_role :: "string option"
  uc_redirect :: "string option"

definition ctx_permissions :: "ctx_db \<Rightarrow> string \<Rightarrow> string option \<Rightarrow> string list" where
  "ctx_permissions db u org = (case set_query org of None \<Rightarrow> []
     | Some g \<Rightarrow> getUserPermissions (membership_role db) (cd_orgRoles db) u g)"

definition ctx_roles :: "ctx_db \<Rightarrow> string \<Rightarrow> string option \<Rightarrow> string list" where
  "ctx_roles db u org =
     (let rawRole = (case set_query org of None \<Rightarrow> None | Some g \<Rightarrow> membership_role db u g)
      in case set_query rawRole of None \<Rightarrow> [] | Some r \<Rightarrow> map trim (split_on (CHR '','') r))"

definition buildUserContext :: "ctx_db \<Rightarrow> string \<Rightarrow> string option \<Rightarrow> user_ctx" where
  "buildUserContext db userId organizationId =
     (let permSet = ctx_permissions db userId organizationId;
          roleId = cd_activeRoleId db userId;
          role = (case set_query roleId of None \<Rightarrow> None | Some i \<Rightarrow> cd_roleName db i);
          redirect = (case (set_query role, set_query organizationId) of
             (Some r, Some org) \<Rightarrow> cd_redirect db userId org r
           | _ \<Rightarrow> None)
      in \<lparr>uc_apps = build_apps permSet (cd_apps db), uc_permissions = permSet,
          uc_organizations = map snd (cd_memberships db userId),
          uc_roles = ctx_roles db userId organizationId,
          uc_roleId = roleId, uc_role = role, uc_redirect = redirect\<rparr>)"

subsection \<open>The context as data\<close>

definition text_or_null :: "string option \<Rightarrow> json" where
  "text_or_null v = (case v of None \<Rightarrow> JNull | Some s \<Rightarrow> JStr s)"

text \<open>A node of this tree; unlike the route's it does not tell whether the row is visible.\<close>

fun ctx_node_json :: "nav_node \<Rightarrow> json" where
  "ctx_node_json (NavNode n children) = JObj
     [(''id'', JStr (mn_id n)), (''label'', JStr (mn_label n)), (''slug'', JStr (mn_slug n)),
      (''icon'', text_or_null (mn_icon n)), (''href'', text_or_null (mn_href n)), (''type'', JStr (mn_type n)),
      (''permissionKeys'', JArr (map JStr (mn_permissionKeys n))),
      (''children'', JArr (map ctx_node_json children))]"

definition ctx_app_json :: "app_row \<times> nav_node list \<Rightarrow> json" where
  "ctx_app_json = (\<lambda>(a, ms). JObj [(''id'', JStr (ap_id a)), (''name'', JStr (ap_name a)),
     (''slug'', JStr (ap_slug a)), (''menus'', JArr (map ctx_node_json ms))])"

definition ctx_entries :: "user_ctx \<Rightarrow> (string \<times> json) list" where
  "ctx_entries c =
     [(''apps'', JArr (map ctx_app_json (uc_apps c))), (''permissions'', JArr (map JStr (uc_permissions c))),
      (''organizations'', JArr (map org_json (uc_organizations c))),
      (''activeOrganizationRoles'', JArr (map JStr (uc_roles c))),
      (''activeRoleId'', text_or_null (uc_roleId c)), (''activeRole'', text_or_null (uc_role c)),
      (''activeRoleRedirectUrl'', text_or_null (uc_redirect c))]"

subsection \<open>Where it is attached\<close>

text \<open>The user and session records are the library's; their ids are strings.\<close>

definition definePayload :: "ctx_db \<Rightarrow> json \<Rightarrow> json \<Rightarrow> json" where
  "definePayload db user session =
     (let ctx = buildUserContext db (text_of (jget user ''id'')) (opt_text (jget session ''activeOrganizationId''))
      in spread_opt user ([(''activeOrganizationId'', jget session ''activeOrganizationId''),
            (''activeTeamId'', jget session ''activeTeamId'')] @
          map (\<lambda>(k, v). (k, Some v)) (ctx_entries ctx)))"

text \<open>The session row of an id is a lookup; \<open>sid\<close> is the claim of the token, if there is one.\<close>

definition customUserInfoClaims :: "ctx_db \<Rightarrow> (string \<Rightarrow> json option) \<Rightarrow> json \<Rightarrow> string option \<Rightarrow> json" where
  "customUserInfoClaims db findSession user sid =
     (let organizationId = (case set_query sid of None \<Rightarrow> None
            | Some i \<Rightarrow> opt_text (opt_get (findSession i) ''activeOrganizationId''));
          ctx = buildUserContext db (text_of (jget user ''id'')) organizationId
      in spread (JObj (ctx_entries ctx)) [(''activeOrganizationId'', text_or_null organizationId)])"

definition customSession :: "ctx_db \<Rightarrow> json \<Rightarrow> json \<Rightarrow> json" where
  "customSession db user session =
     (let organizationId = opt_text (jget session ''activeOrganizationId'');
          ctx = buildUserContext db (text_of (jget user ''id'')) organizationId
      in JObj [(''user'', user), (''session'', spread session (ctx_entries ctx))])"

subsection \<open>Spreading\<close>

lemma map_of_fold_put_opt:
  "map_of (fold (\<lambda>(k, v) os. case v of Some x \<Rightarrow> put k x os | None \<Rightarrow> filter (\<lambda>e. fst e \<noteq> k) os) kvs os) k =
     (case map_of (rev kvs) k of None \<Rightarrow> map_of os k | Some v \<Rightarrow> v)"
proof (induction kvs arbitrary: os)
  case (Cons kv kvs)
  obtain k' v where kv: "kv = (k', v)" by (cases kv)
  have "map_of (filter (\<lambda>e. fst e \<noteq> k') os) k = (if k = k' then None else map_of os k)"
    by (induction os) auto
  with kv Cons show ?case by (auto simp: map_add_def split: option.splits)
qed simp

lemma jget_spread: "jget (spread j kvs) k = (case map_of (rev kvs) k of None \<Rightarrow> map_of (own_entries j) k | v \<Rightarrow> v)"
  by (simp add: spread_def fold_put_map_of map_add_def split: option.splits)

lemma jget_spread_opt:
  "jget (spread_opt j kvs) k = (case map_of (rev kvs) k of None \<Rightarrow> map_of (own_entries j) k | Some v \<Rightarrow> v)"
  by (simp add: spread_opt_def map_of_fold_put_opt)

subsection \<open>The three views\<close>

lemma ctx_keys_distinct: "distinct (map fst (ctx_entries c))"
  by (simp add: ctx_entries_def)

lemma map_of_rev_ctx: "map_of (rev (ctx_entries c)) = map_of (ctx_entries c)"
  by (simp add: from_entries_map_of [symmetric] from_entries_id ctx_keys_distinct)

lemma map_of_Some_image: "map_of (map (\<lambda>(k, v). (k, Some v)) kvs) k = map_option Some (map_of kvs k)"
  by (induction kvs) auto

lemma no_active_key: "map_of (ctx_entries c) ''activeOrganizationId'' = None"
  by (simp add: ctx_entries_def)

lemma definePayload_ctx:
  "map_of (ctx_entries (buildUserContext db (text_of (jget user ''id'')) (opt_text (jget session ''activeOrganizationId'')))) k
     = Some v \<Longrightarrow> jget (definePayload db user session) k = Some v"
  by (simp add: definePayload_def Let_def jget_spread_opt rev_map map_of_rev_ctx map_of_Some_image map_add_def)

lemma customSession_ctx:
  "map_of (ctx_entries (buildUserContext db (text_of (jget user ''id'')) (opt_text (jget session ''activeOrganizationId'')))) k
     = Some v \<Longrightarrow> opt_get (jget (customSession db user session) ''session'') k = Some v"
  by (simp add: customSession_def Let_def opt_get_def jget_spread map_of_rev_ctx)

lemma userinfo_ctx:
  assumes "findSession sid = Some session" and "sid \<noteq> []"
    and "map_of (ctx_entries (buildUserContext db (text_of (jget user ''id'')) (opt_text (jget session ''activeOrganizationId'')))) k
      = Some v"
  shows "jget (customUserInfoClaims db findSession user (Some sid)) k = Some v"
proof -
  have "set_query (Some sid) = Some sid" using assms(2) by (cases sid) (simp_all add: set_query_def)
  moreover have "k \<noteq> ''activeOrganizationId''" using assms(3) no_active_key by force
  ultimately show ?thesis
    using assms(1,3) by (simp add: customUserInfoClaims_def Let_def opt_get_def jget_spread own_entries_def)
qed


definition demo_db :: ctx_db where
  "demo_db = \<lparr>cd_memberships = \<lambda>u. if u = ''u'' then
       [(''owner'', \<lparr>og_id = ''o'', og_name = ''O'', og_slug = ''o'', og_logo = None\<rparr>)] else [],
     cd_orgRoles = \<lambda>org rs. if org = ''o'' \<and> ''owner'' \<in> set rs
       then [orgPermissionKeysToJson [''files:read'']] else [],
     cd_apps = [\<lparr>ap_id = ''a'', ap_name = ''A'', ap_slug = ''a'', ap_menus = demo_menu\<rparr>],
     cd_activeRoleId = \<lambda>u. Some ''r'', cd_roleName = \<lambda>i. if i = ''r'' then Some ''owner'' else None,
     cd_redirect = \<lambda>u org r. Some ''/home''\<rparr>"

definition demo_session :: json where
  "demo_session = JObj [(''id'', JStr ''s''), (''userId'', JStr ''u''), (''activeOrganizationId'', JStr ''o'')]"


subsection \<open>What the context grants\<close>

text \<open>The rows that a context shows.\<close>

definition shown_rows :: "user_ctx \<Rightarrow> menu_row set" where
  "shown_rows c = (\<Union>(a, ms) \<in> set (uc_apps c). set (concat (map rows_of ms)))"

lemma under_kept: "under perms nodes p n \<Longrightarrow> kept perms nodes n"
  by (induction rule: under.induct) auto

lemma build_apps_rows:
  assumes "(a, ms) \<in> set (build_apps perms apps)" and "n \<in> set (concat (map rows_of ms))"
  shows "a \<in> set apps \<and> n \<in> set (ap_menus a) \<and> may_see perms n"
proof -
  from assms have a: "a \<in> set apps" "buildTree (Suc (length (ap_menus a))) perms (ap_menus a) None = Some ms"
    by (auto simp: build_apps_def split: option.splits)
  from build_spec(1) [OF a(2)] assms(2) have "under perms (ap_menus a) None n" by auto
  with a(1) under_kept kept_in show ?thesis by blast
qed

lemma getUserPermissions_outsider: "findMember u org = None \<Longrightarrow> getUserPermissions findMember findOrgRoles u org = []"
  by (simp add: getUserPermissions_def)



text \<open>
  The active role is not tied to the active organization. Activating another organization
  (\<open>set_active_org\<close>) writes only the organization, so the stored role id still names a role of the
  organization left behind, whose name, and the redirect stored for that name, the new context shows.
\<close>

lemma stale_active_role:
  assumes "set_active_org isMember u request = (r, Some (u, org))"
    and "cd_activeRoleId db u = Some (c # i)" and "cd_roleName db (c # i) = Some (d # role)"
  shows "uc_role (buildUserContext db u (Some org)) = Some (d # role) \<and>
    uc_redirect (buildUserContext db u (Some org)) = cd_redirect db u org (d # role)"
proof -
  have "org \<noteq> []" using assms(1)
    by (auto simp: set_active_org_def split: option.splits json.splits if_splits)
  with assms show ?thesis by (cases org) (simp_all add: buildUserContext_def Let_def set_query_def)
qed

end
