(* ===== verification/Iam_Hooks.thy ===== *)
theory Iam_Hooks
  imports Iam_Context
begin

text \<open>
  The hooks of the identity service's Better Auth configuration
  (\<^verbatim>\<open>iam/src/modules/server/auth-provider/auth.config.ts\<close>): what runs before a user or a session is
  created, before a request is handled, after an organization is created, and which mails are sent;
  the sending itself (\<^verbatim>\<open>utils/sendAuthEmail.ts\<close>) and the unguarded mail route
  (\<^verbatim>\<open>app/api/send-email/route.ts\<close>). The database and the mail transport are calls answered by the world.
\<close>

subsection \<open>Before a user is created\<close>

definition lower :: "char \<Rightarrow> char" where
  "lower c = (let n = of_char c :: nat in if 65 \<le> n \<and> n \<le> 90 then char_of (n + 32) else c)"

text \<open>The class \<^verbatim>\<open>[a-z0-9]\<close>.\<close>

definition handle_char :: "char \<Rightarrow> bool" where
  "handle_char c = (let n = of_char c :: nat in 97 \<le> n \<and> n \<le> 122 \<or> 48 \<le> n \<and> n \<le> 57)"

definition username_base :: "string \<Rightarrow> string" where
  "username_base name = (case take 20 (filter handle_char (map lower name)) of [] \<Rightarrow> ''user'' | b \<Rightarrow> b)"

text \<open>\<^verbatim>\<open>Math.floor(1000 + Math.random() * 9000)\<close>; \<open>random i\<close> is the draw of the \<open>i\<close>-th try.\<close>

definition username_suffix :: "real \<Rightarrow> nat" where
  "username_suffix r = nat \<lfloor>1000 + r * 9000\<rfloor>"

definition candidate :: "(nat \<Rightarrow> real) \<Rightarrow> string \<Rightarrow> nat \<Rightarrow> string" where
  "candidate random base i = base @ show_nat (username_suffix (random i))"

definition username_query :: "string \<Rightarrow> json" where
  "username_query u = JObj [(''where'', JObj [(''username'', JStr u)]), (''select'', selecting [''id''])]"

fun try_usernames :: "(nat \<Rightarrow> real) \<Rightarrow> string \<Rightarrow> nat list \<Rightarrow> string svc" where
  "try_usernames random base [] = ret []"
| "try_usernames random base (i # is) =
     andThen (call ''prisma.user.findFirst'' (username_query (candidate random base i))) (\<lambda>existing.
       if truthy (Some existing) then try_usernames random base is else ret (candidate random base i))"

text \<open>The result of a hook: None leaves the record as it is.\<close>

definition beforeUserCreate :: "(nat \<Rightarrow> real) \<Rightarrow> json \<Rightarrow> json option svc" where
  "beforeUserCreate random user =
     (if truthy (jget user ''username'') then ret None
      else catching
        (case jget user ''name'' of
           Some (JStr name) \<Rightarrow> andThen (try_usernames random (username_base name) [0..<10]) (\<lambda>username.
             ret (Some (JObj [(''data'', spread user [(''username'', JStr username)])])))
         | _ \<Rightarrow> throw type_error)
        (\<lambda>e. ret (Some (JObj [(''data'', spread user [])]))))"

definition usernameValidator :: "string \<Rightarrow> bool" where
  "usernameValidator u = (\<not> (u = ''admin'' \<or> u = ''superadmin''))"

subsection \<open>Before a session is created\<close>

definition context_query :: "json \<Rightarrow> json" where
  "context_query session = jobj [(''where'', Some (jobj [(''userId'', jget session ''userId'')])),
     (''select'', Some (selecting [''activeOrganizationId'']))]"

definition first_membership :: "json \<Rightarrow> json" where
  "first_membership session = jobj [(''where'', Some (jobj [(''userId'', jget session ''userId'')])),
     (''orderBy'', Some (JObj [(''createdAt'', JStr ''asc'')])), (''select'', Some (selecting [''organizationId'']))]"

definition with_organization :: "json \<Rightarrow> json \<Rightarrow> json" where
  "with_organization session org = JObj [(''data'', spread session [(''activeOrganizationId'', org)])]"

definition beforeSessionCreate :: "json \<Rightarrow> json svc" where
  "beforeSessionCreate session =
     andThen (call ''prisma.userContext.findUnique'' (context_query session)) (\<lambda>userCtx.
       if \<not> truthy (Some userCtx) then
         andThen (call ''prisma.userContext.create'' (jobj [(''data'', Some (jobj
            [(''userId'', jget session ''userId''), (''activeOrganizationId'', Some JNull), (''activeRoleId'', Some JNull)]))]))
           (\<lambda>_. ret (with_organization session JNull))
       else case non_null (jget userCtx ''activeOrganizationId'') of
         Some org \<Rightarrow> ret (with_organization session org)
       | None \<Rightarrow> andThen (call ''prisma.member.findFirst'' (first_membership session)) (\<lambda>m.
           ret (with_organization session (nullish_or (jget m ''organizationId'') JNull))))"

subsection \<open>Before a request\<close>

text \<open>\<^verbatim>\<open>throw new APIError(status, { message })\<close>, and other errors.\<close>

datatype hook_exn = APIError string string | OtherFailure iam_exn

type_synonym 'a hook = "(svc_event, svc_reply, hook_exn, 'a) io"

definition hook_svc :: "'a svc \<Rightarrow> 'a hook" where
  "hook_svc m = handling m (\<lambda>e. throw (OtherFailure e)) ret"

definition REQUIRE_EMAIL_VERIFICATION :: bool where
  "REQUIRE_EMAIL_VERIFICATION = False"

definition protectedPaths :: "string list" where
  "protectedPaths = [''/oauth2/create-client'', ''/oauth2/register'']"

text \<open>\<^verbatim>\<open>const [sessionId] = token.split(".")\<close>, and the look-up of the session.\<close>

definition find_session :: "string \<Rightarrow> json svc" where
  "find_session token = call ''findSession'' (JStr (hd (split_on (CHR ''.'') token)))"

text \<open>
  The authorize branch: the request's query string and \<^verbatim>\<open>encodeURIComponent\<close> are arguments. The result
  is the location to redirect to, None to go on.
\<close>

definition authorize_hook :: "string \<Rightarrow> (string \<Rightarrow> string) \<Rightarrow> string \<Rightarrow> string \<Rightarrow> string option hook" where
  "authorize_hook appUrl enc query token =
     andThen (hook_svc (find_session token)) (\<lambda>session.
       if \<not> truthy (Some session) then ret None
       else andThen (hook_svc (andThen (rd session ''user'') (\<lambda>u. andThen (rd_of u ''emailVerified'') (\<lambda>v. ret (the u, v)))))
         (\<lambda>(user, verified).
         if \<not> truthy verified \<and> REQUIRE_EMAIL_VERIFICATION
         then ret (Some (appUrl @ ''/auth/email-verification?email='' @ enc (interp (jget user ''email'')) @
           ''&redirect='' @ enc (''/api/auth/oauth2/authorize?'' @ query)))
         else ret None))"

definition beforeRequest ::
    "string \<Rightarrow> (string \<Rightarrow> string) \<Rightarrow> string \<Rightarrow> string \<Rightarrow> string option \<Rightarrow> string option hook" where
  "beforeRequest appUrl enc query path token =
     (if path = ''/oauth2/authorize'' then
        (case set_query token of None \<Rightarrow> ret None | Some t \<Rightarrow> authorize_hook appUrl enc query t)
      else if path \<notin> set protectedPaths then ret None
      else case set_query token of
        None \<Rightarrow> throw (APIError ''UNAUTHORIZED'' ''You must be logged in to perform this action'')
      | Some t \<Rightarrow> andThen (hook_svc (find_session t)) (\<lambda>session.
          if \<not> truthy (Some session)
          then throw (APIError ''UNAUTHORIZED'' ''Session expired or invalid. Please log in again.'')
          else andThen (hook_svc (andThen (rd session ''user'') (\<lambda>u. rd_of u ''role''))) (\<lambda>role.
            if role \<noteq> Some (JStr ''superadmin'')
            then throw (APIError ''FORBIDDEN'' ''Only superadmin can create OAuth clients'')
            else ret None)))"

definition clientPrivileges :: "json option \<Rightarrow> bool" where
  "clientPrivileges user = (if \<not> truthy user then False else opt_get user ''role'' = Some (JStr ''superadmin''))"

subsection \<open>After an organization is created\<close>

definition afterCreateOrganization :: "string \<Rightarrow> json \<Rightarrow> json svc" where
  "afterCreateOrganization newId organization = call ''prisma.organizationRole.create'' (JObj [(''data'', jobj
     [(''id'', Some (JStr newId)), (''organizationId'', jget organization ''id''), (''role'', Some (JStr ''owner'')),
      (''permission'', orgPermissionKeysToJson owner_permissions)])])"

subsection \<open>Mails\<close>

text \<open>\<^verbatim>\<open>sendAuthEmail\<close>: the sender is the configured account unless the payload has one.\<close>

definition sendAuthEmail :: "string option \<Rightarrow> json \<Rightarrow> json option svc" where
  "sendAuthEmail smtpEmail payload = catching
     (andThen (call ''transporter.sendMail'' (jobj
        [(''from'', Some (nullish_or (jget payload ''from'')
            (JStr (''BetterAuth Clean Architecture <'' @ (case smtpEmail of None \<Rightarrow> ''undefined'' | Some s \<Rightarrow> s) @ ''>'')))),
         (''to'', jget payload ''to''), (''subject'', jget payload ''subject''), (''html'', jget payload ''html'')]))
        (\<lambda>_. ret None))
     (\<lambda>e. throw (JsError None ''Failed to send authentication email''))"

text \<open>
  \<^verbatim>\<open>void sendAuthEmail(...)\<close>: the hook does not wait, so it returns whatever becomes of the mail. The
  templates are functions of the values that the hook passes.
\<close>

definition mail_hook :: "string option \<Rightarrow> json option \<Rightarrow> string \<Rightarrow> json \<Rightarrow> unit svc" where
  "mail_hook smtpEmail to subject html = handling
     (sendAuthEmail smtpEmail (jobj [(''to'', to), (''subject'', Some (JStr subject)), (''html'', Some html)]))
     (\<lambda>e. ret ()) (\<lambda>_. ret ())"

definition mailResetPassword :: "string option \<Rightarrow> (string \<Rightarrow> json option list \<Rightarrow> json) \<Rightarrow> json \<Rightarrow> json option \<Rightarrow> unit svc" where
  "mailResetPassword smtp template user link = mail_hook smtp (jget user ''email'') ''Reset your password''
     (template ''getPasswordResetTemplate'' [link, jget user ''name''])"

definition onExistingUserSignUp :: "string option \<Rightarrow> (string \<Rightarrow> json option list \<Rightarrow> json) \<Rightarrow> json \<Rightarrow> unit svc" where
  "onExistingUserSignUp smtp template user = mail_hook smtp (jget user ''email'') ''Sign-in attempt on your account''
     (template ''getExistingEmailSignupTemplate'' [])"

definition sendVerificationMail :: "string option \<Rightarrow> (string \<Rightarrow> json option list \<Rightarrow> json) \<Rightarrow> json \<Rightarrow> json option \<Rightarrow> unit svc" where
  "sendVerificationMail smtp template user link = mail_hook smtp (jget user ''email'') ''Verify email''
     (template ''getEmailVerificationTemplate'' [link, jget user ''name'', Some (JStr ''FileNest'')])"

definition sendChangeEmailConfirmation ::
    "string option \<Rightarrow> (string \<Rightarrow> json option list \<Rightarrow> json) \<Rightarrow> json \<Rightarrow> json option \<Rightarrow> unit svc" where
  "sendChangeEmailConfirmation smtp template user link = mail_hook smtp (jget user ''email'') ''Confirm your new email address''
     (template ''getChangeEmailTemplate'' [link, jget user ''name''])"

definition sendDeleteAccountVerification ::
    "string option \<Rightarrow> (string \<Rightarrow> json option list \<Rightarrow> json) \<Rightarrow> json \<Rightarrow> json option \<Rightarrow> unit svc" where
  "sendDeleteAccountVerification smtp template user link = mail_hook smtp (jget user ''email'') ''Confirm account deletion''
     (template ''getDeleteAccountTemplate'' [link, jget user ''name''])"

definition sendOTP :: "string option \<Rightarrow> (string \<Rightarrow> json option list \<Rightarrow> json) \<Rightarrow> json \<Rightarrow> json option \<Rightarrow> unit svc" where
  "sendOTP smtp template user otp = mail_hook smtp (jget user ''email'') ''Your 2FA verification code''
     (template ''getOtpTemplate'' [otp, Some (JStr ''Your 2FA verification code'')])"

definition mailMagicLink :: "string option \<Rightarrow> (string \<Rightarrow> json option list \<Rightarrow> json) \<Rightarrow> json option \<Rightarrow> json option \<Rightarrow> unit svc" where
  "mailMagicLink smtp template email link = mail_hook smtp email ''Your sign-in link'' (template ''getMagicLinkTemplate'' [link])"

text \<open>The route: the body is None when it is not JSON.\<close>

definition send_email :: "json option \<Rightarrow> route_result svc" where
  "send_email request = catching
     (case request of
        None \<Rightarrow> throw (JsError None ''SyntaxError'')
      | Some JNull \<Rightarrow> throw type_error
      | Some b \<Rightarrow> andThen (call ''transporter.sendMail'' (jobj [(''from'', Some (JStr ''bezs <gnvv2002@gmail.com>'')),
           (''to'', jget b ''to''), (''subject'', jget b ''subject''), (''text'', jget b ''text'')]))
         (\<lambda>_. ret (Reply 200 (JObj [(''message'', JStr ''Email sent successfully!'')]))))
     (\<lambda>e. ret (Reply 500 (err_json ''Failed to send email'')))"

subsection \<open>Generated usernames\<close>

lemma show_nat_handle: "list_all handle_char (show_nat n)"
proof (induction n rule: show_nat.induct)
  case (1 n)
  have digit: "handle_char (char_of (48 + k))" if "k < 10" for k :: nat
    using that by (simp add: handle_char_def)
  show ?case
  proof (cases "n < 10")
    case True
    then show ?thesis by (simp add: show_nat.simps [of n] digit)
  next
    case False
    then show ?thesis using 1 by (simp add: show_nat.simps [of n] digit)
  qed
qed

lemma length_show_nat: "length (show_nat n) = (if n < 10 then 1 else Suc (length (show_nat (n div 10))))"
  by (simp add: show_nat.simps [of n])

lemma show_nat_four:
  assumes "1000 \<le> n" and "n < 10000"
  shows "length (show_nat n) = 4"
proof -
  have "\<not> n < 10" "\<not> n div 10 < 10" "\<not> n div 10 div 10 < 10" "n div 10 div 10 div 10 < 10"
    using assms by auto
  with length_show_nat [of n] length_show_nat [of "n div 10"] length_show_nat [of "n div 10 div 10"]
    length_show_nat [of "n div 10 div 10 div 10"]
  show ?thesis by simp
qed

lemma username_suffix_bounds:
  assumes "0 \<le> r" and "r < 1"
  shows "1000 \<le> username_suffix r \<and> username_suffix r < 10000"
proof -
  define z where "z = \<lfloor>r * 9000\<rfloor>"
  have "0 \<le> z" "z < 9000" using assms by (simp_all add: z_def floor_less_iff)
  moreover have "username_suffix r = nat (1000 + z)" by (simp add: username_suffix_def z_def)
  ultimately show ?thesis by (simp add: le_nat_iff nat_less_iff)
qed

lemma base_well_formed:
  "list_all handle_char (username_base name) \<and> 1 \<le> length (username_base name) \<and> length (username_base name) \<le> 20"
proof (cases "take 20 (filter handle_char (map lower name))")
  case Nil
  then show ?thesis by (simp add: username_base_def handle_char_def)
next
  case (Cons c cs)
  have "list_all handle_char (take 20 (filter handle_char (map lower name)))"
    using set_take_subset [of 20 "filter handle_char (map lower name)"] by (auto simp: list_all_iff)
  moreover have "length (take 20 (filter handle_char (map lower name))) \<le> 20" by simp
  ultimately show ?thesis unfolding username_base_def Cons by simp
qed

text \<open>The world's user table: a name is found exactly when it is taken.\<close>

definition user_table :: "string set \<Rightarrow> (svc_event list \<Rightarrow> svc_reply) \<Rightarrow> bool" where
  "user_table taken w = (\<forall>h u. w (h @ [Call ''prisma.user.findFirst'' (username_query u)]) =
     Returned (if u \<in> taken then JObj [(''id'', JStr ''x'')] else JNull))"

lemma try_usernames_result:
  "user_table taken w \<Longrightarrow> fst (try_usernames random base is w h) =
     Inr (case filter (\<lambda>i. candidate random base i \<notin> taken) is of [] \<Rightarrow> [] | i # _ \<Rightarrow> candidate random base i)"
  by (induction "is" arbitrary: h)
    (auto simp: user_table_def call_def io_simps)

definition well_formed_username :: "string \<Rightarrow> bool" where
  "well_formed_username u = (5 \<le> length u \<and> length u \<le> 24 \<and> list_all handle_char u \<and> usernameValidator u)"

lemma candidate_well_formed:
  assumes "0 \<le> random i" and "random i < 1"
  shows "well_formed_username (candidate random (username_base name) i)"
proof -
  let ?n = "show_nat (username_suffix (random i))"
  have len: "length ?n = 4" using username_suffix_bounds [OF assms] by (simp add: show_nat_four)
  have "(of_char (last (username_base name @ ?n)) :: nat) \<le> 57"
    by (auto simp: show_nat.simps [of "username_suffix (random i)"])
  then have "usernameValidator (username_base name @ ?n)"
    by (auto simp: usernameValidator_def)
  with len base_well_formed [of name] show_nat_handle [of "username_suffix (random i)"] show ?thesis
    by (simp add: well_formed_username_def candidate_def)
qed

text \<open>
  C29: generated usernames are free and well formed. For a new user without a username, the hook adds one
  that nobody has, of five to 24 letters and digits (within the plugin's bounds of four and 32), and not
  one of the reserved names; or, when all of the ten names that it drew are taken, the empty string,
  which it also stores.
\<close>

theorem generated_username:
  assumes "user_table taken w" and "\<And>i. 0 \<le> random i \<and> random i < 1"
    and "\<not> truthy (jget user ''username'')" and "jget user ''name'' = Some (JStr name)"
  shows "\<exists>u. fst (beforeUserCreate random user w h) = Inr (Some (JObj [(''data'', spread user [(''username'', JStr u)])])) \<and>
    (if \<forall>i<10. candidate random (username_base name) i \<in> taken then u = [] else u \<notin> taken \<and> well_formed_username u)"
proof -
  let ?c = "candidate random (username_base name)"
  let ?free = "filter (\<lambda>i. ?c i \<notin> taken) [0..<10]"
  let ?u = "case ?free of [] \<Rightarrow> [] | i # _ \<Rightarrow> ?c i"
  have "fst (try_usernames random (username_base name) [0..<10] w h) = Inr ?u"
    using assms(1) by (rule try_usernames_result)
  then have "fst (beforeUserCreate random user w h) = Inr (Some (JObj [(''data'', spread user [(''username'', JStr ?u)])]))"
    using assms(3,4) by (cases "try_usernames random (username_base name) [0..<10] w h")
      (simp add: beforeUserCreate_def catching_apply andThen_apply ret_apply)
  moreover have "if \<forall>i<10. ?c i \<in> taken then ?u = [] else ?u \<notin> taken \<and> well_formed_username ?u"
  proof (cases ?free)
    case Nil
    then have "\<forall>i<10. ?c i \<in> taken" by (auto simp: filter_empty_conv)
    with Nil show ?thesis by simp
  next
    case (Cons i rest)
    then have "i \<in> set ?free" by simp
    then have "i < 10" "?c i \<notin> taken" by simp_all
    with Cons assms(2) show ?thesis by (auto intro: candidate_well_formed)
  qed
  ultimately show ?thesis by blast
qed

lemma generated_username_witness:
  "\<exists>u. fst (beforeUserCreate (\<lambda>i. 1 / 2) (JObj [(''name'', JStr ''Jo Doe'')])
     (\<lambda>h. Returned (if h = [] \<or> last h \<noteq> Call ''prisma.user.findFirst'' (username_query ''jodoe1'') then JNull
        else JObj [(''id'', JStr ''x'')])) []) =
     Inr (Some (JObj [(''data'', JObj [(''name'', JStr ''Jo Doe''), (''username'', JStr u)])])) \<and> u \<noteq> ''jodoe1''"
proof -
  let ?w = "\<lambda>h. Returned (if h = [] \<or> last h \<noteq> Call ''prisma.user.findFirst'' (username_query ''jodoe1'') then JNull
        else JObj [(''id'', JStr ''x'')])"
  have "user_table {''jodoe1''} ?w" by (auto simp: user_table_def username_query_def)
  moreover have "(0::real) \<le> 1 / 2 \<and> (1 / 2 :: real) < 1" by simp
  ultimately obtain u where u: "fst (beforeUserCreate (\<lambda>i. 1 / 2) (JObj [(''name'', JStr ''Jo Doe'')]) ?w []) =
      Inr (Some (JObj [(''data'', spread (JObj [(''name'', JStr ''Jo Doe'')]) [(''username'', JStr u)])]))"
    and free: "if \<forall>i<10. candidate (\<lambda>i. 1 / 2) (username_base ''Jo Doe'') i \<in> {''jodoe1''} then u = []
      else u \<notin> {''jodoe1''} \<and> well_formed_username u"
    using generated_username [of "{''jodoe1''}" ?w "\<lambda>i. 1 / 2" "JObj [(''name'', JStr ''Jo Doe'')]" "''Jo Doe''" "[]"]
    by auto
  from free have "u \<noteq> ''jodoe1''" by (auto split: if_splits)
  with u show ?thesis by (simp add: spread_def own_entries_def)
qed

subsection \<open>Who may create OAuth clients\<close>

lemma jget_truthy: "jget v k = Some x \<Longrightarrow> truthy (Some v)"
  by (cases v) auto

text \<open>
  OAuth clients are created by superadmins only. On both paths that create clients the hook lets a request
  pass exactly when it has a session token whose session the server finds and whose user is a
  superadmin; otherwise it throws, and all that it has asked is the session of the token. It throws no
  such error on any other path.
\<close>

lemma oauth_client_guard:
  "let r = beforeRequest appUrl enc query path token w [] in
   (path \<in> {''/oauth2/create-client'', ''/oauth2/register''} \<longrightarrow>
     (fst r = Inr None \<longleftrightarrow> (\<exists>t session. token = Some t \<and> t \<noteq> [] \<and>
        w [Call ''findSession'' (JStr (hd (split_on (CHR ''.'') t)))] = Returned session \<and>
        opt_get (jget session ''user'') ''role'' = Some (JStr ''superadmin''))) \<and>
     (fst r = Inr None \<or> isl (fst r)) \<and>
     (\<forall>e \<in> set (snd r). \<exists>t. token = Some t \<and> e = Call ''findSession'' (JStr (hd (split_on (CHR ''.'') t))))) \<and>
   (path \<notin> {''/oauth2/create-client'', ''/oauth2/register''} \<longrightarrow> (\<forall>s m. fst r \<noteq> Inl (APIError s m)))"
proof (cases token)
  case None
  then show ?thesis
    by (simp add: beforeRequest_def protectedPaths_def set_query_def io_simps Let_def)
next
  case (Some t)
  show ?thesis
  proof (cases t)
    case Nil
    with Some show ?thesis
      by (simp add: beforeRequest_def protectedPaths_def set_query_def io_simps Let_def)
  next
    case (Cons c cs)
    with Some show ?thesis
      by (cases "w [Call ''findSession'' (JStr (hd (split_on (CHR ''.'') t)))]")
        (auto simp: beforeRequest_def protectedPaths_def set_query_def io_simps Let_def hook_svc_def find_session_def
          authorize_hook_def call_def handling_def rd_def rd_of_def opt_get_def REQUIRE_EMAIL_VERIFICATION_def
          simp del: split_on.simps split: option.splits dest: jget_truthy)
  qed
qed

lemma oauth_client_guard_witness:
  "fst (beforeRequest ''https://iam'' (\<lambda>s. s) [] ''/oauth2/register'' (Some ''s1.sig'')
     (\<lambda>h. Returned (JObj [(''user'', JObj [(''role'', JStr ''guest'')])])) []) \<noteq> Inr None"
  using oauth_client_guard [of "''https://iam''" "\<lambda>s. s" "[]" "''/oauth2/register''" "Some ''s1.sig''"
      "\<lambda>h. Returned (JObj [(''user'', JObj [(''role'', JStr ''guest'')])])"]
  by (simp add: Let_def opt_get_def)

text \<open>The client privileges agree with the guard: a superadmin, nobody else.\<close>

lemma clientPrivileges_iff: "clientPrivileges user \<longleftrightarrow> opt_get user ''role'' = Some (JStr ''superadmin'')"
  by (cases user) (auto simp: clientPrivileges_def opt_get_def dest: jget_truthy)

subsection \<open>Organizations and sessions\<close>

text \<open>
  The creator of an organization has the owner's permissions: those that \<^verbatim>\<open>getUserPermissions\<close> reads back
  from the row that the hook stores are the default set.
\<close>

lemma owner_seeded:
  assumes "findMember u org = Some ''owner''"
    and "findOrgRoles org [''owner''] = [orgPermissionKeysToJson owner_permissions]"
  shows "set (getUserPermissions findMember findOrgRoles u org) = set owner_permissions"
proof -
  have "role_list ''owner'' = [''owner'']" by (simp add: role_list_def trim_def js_space_def)
  moreover have "set (orgPermissionJsonToKeys (orgPermissionKeysToJson owner_permissions)) = set owner_permissions"
    by (simp add: owner_permissions_def orgPermissionKeysToJson_def orgPermissionJsonToKeys_def split_key_def prototype_keys_def)
  ultimately show ?thesis using assms by (simp add: getUserPermissions_def Let_def)
qed

subsection \<open>Mails\<close>

text \<open>The hooks' mails go to the address of the user concerned, and a failing transport does not fail a hook.\<close>

definition mail_event :: "json option \<Rightarrow> svc_event \<Rightarrow> bool" where
  "mail_event to e = (\<exists>args. e = Call ''transporter.sendMail'' args \<and> jget args ''to'' = to)"

lemma mail_hook_sends: "fst (mail_hook smtp to subject html w h) = Inr () \<and> only (mail_event to) (mail_hook smtp to subject html)"
proof
  show "fst (mail_hook smtp to subject html w h) = Inr ()"
    by (cases "sendAuthEmail smtp (jobj [(''to'', to), (''subject'', Some (JStr subject)), (''html'', Some html)]) w h")
      (auto simp: mail_hook_def handling_def ret_apply split: sum.split)
  show "only (mail_event to) (mail_hook smtp to subject html)"
    unfolding mail_hook_def sendAuthEmail_def
    by (intro only_handling only_catching only_andThen only_call only_ret only_throw) (simp add: mail_event_def jget_jobj)
qed

text \<open>
  The mail route asks nobody who the caller is: any request with a JSON object sends its text to the
  address in it.
\<close>

lemma send_email_open:
  assumes "request = Some (JObj kvs)"
  shows "snd (send_email request w []) = [Call ''transporter.sendMail'' (jobj [(''from'', Some (JStr ''bezs <gnvv2002@gmail.com>'')),
    (''to'', map_of kvs ''to''), (''subject'', map_of kvs ''subject''), (''text'', map_of kvs ''text'')])]"
  using assms by (simp add: send_email_def call_def io_simps split: svc_reply.split)

end
