(* ===== verification/Iam_Agents.thy ===== *)
theory Iam_Agents
  imports Iam_Hooks
begin

text \<open>
  Agents at the identity service (\<^verbatim>\<open>iam/src/modules/server/agent-auth/\<close>): what a verified agent may
  execute for its user, the guards of agent routes, and the role gate of the administration pages
  (\<^verbatim>\<open>server/shared/auth/require-role.ts\<close>). The agent session is what the agent plugin verified; the
  database is a sequence of calls answered by the world.
\<close>

subsection \<open>Capabilities\<close>

definition js_error :: "string \<Rightarrow> iam_exn" where
  "js_error msg = JsError None msg"

text \<open>The user of a delegated session, when it has one: \<^verbatim>\<open>isDelegated && userId\<close>.\<close>

definition agent_user :: "json \<Rightarrow> json option" where
  "agent_user session =
     (if jget session ''type'' = Some (JStr ''delegated'') \<and> truthy (opt_get (jget session ''user'') ''id'')
      then opt_get (jget session ''user'') ''id'' else None)"

definition delegated :: "json \<Rightarrow> string \<Rightarrow> (json \<Rightarrow> 'a svc) \<Rightarrow> 'a svc" where
  "delegated session capability f = (case agent_user session of
     None \<Rightarrow> throw (js_error (capability @ '' requires a delegated agent'')) | Some u \<Rightarrow> f u)"

definition profile_read :: "json \<Rightarrow> json" where
  "profile_read u = JObj [(''where'', JObj [(''id'', u)]),
     (''select'', selecting [''id'', ''name'', ''email'', ''image'', ''createdAt''])]"

definition profile_write :: "json \<Rightarrow> json \<Rightarrow> json" where
  "profile_write u args = JObj [(''where'', JObj [(''id'', u)]),
     (''data'', jobj [(''name'', if truthy (jget args ''name'') then jget args ''name'' else None),
        (''image'', if truthy (jget args ''image'') then jget args ''image'' else None)]),
     (''select'', selecting [''id'', ''name'', ''email'', ''image''])]"

definition memberships_read :: "json \<Rightarrow> json" where
  "memberships_read u = JObj [(''where'', JObj [(''userId'', u)]),
     (''include'', JObj [(''organization'', JObj [(''select'', selecting [''id'', ''name'', ''slug'', ''logo''])])])]"

definition keys_read :: "json \<Rightarrow> json" where
  "keys_read u = JObj [(''where'', JObj [(''referenceId'', u), (''enabled'', JBool True)]),
     (''select'', selecting [''id'', ''name'', ''start'', ''prefix'', ''createdAt'', ''expiresAt''])]"

definition executeCapability :: "string \<Rightarrow> json \<Rightarrow> json \<Rightarrow> json svc" where
  "executeCapability capability args session =
     (if capability = ''profile:read'' then
        delegated session capability (\<lambda>u. call ''prisma.user.findUnique'' (profile_read u))
      else if capability = ''profile:write'' then
        delegated session capability (\<lambda>u. call ''prisma.user.update'' (profile_write u args))
      else if capability = ''organizations:read'' then
        delegated session capability (\<lambda>u. andThen (call ''prisma.member.findMany'' (memberships_read u)) (\<lambda>members.
          andThen (elements members) (\<lambda>ms. andThen (traverse (\<lambda>m. rd m ''organization'') ms) (\<lambda>os.
          ret (JObj [(''organizations'', JArr (map null_or os))])))))
      else if capability = ''api_keys:read'' then
        delegated session capability (\<lambda>u. andThen (call ''prisma.apikey.findMany'' (keys_read u)) (\<lambda>ks.
          ret (JObj [(''keys'', ks)])))
      else if capability \<in> {''api_keys:create'', ''api_keys:revoke''} then
        throw (js_error (''Capability '' @ CHR 0x27 # capability @ CHR 0x27 # '' must be invoked through the API key endpoints''))
      else throw (js_error (''Capability '' @ CHR 0x27 # capability @ CHR 0x27 # '' is not implemented on this server'')))"

text \<open>The plugin's callback: missing arguments are an empty object.\<close>

definition onExecute :: "string \<Rightarrow> json option \<Rightarrow> json \<Rightarrow> json svc" where
  "onExecute capability args session = executeCapability capability (nullish_or args (JObj [])) session"

text \<open>The names of the capabilities that the plugin advertises.\<close>

definition advertised :: "string list" where
  "advertised = [''profile:read'', ''organizations:read'', ''projects:read'', ''api_keys:read'',
     ''api_keys:create'', ''api_keys:revoke'']"

subsection \<open>Guards of agent routes\<close>

definition active_grant :: "string \<Rightarrow> json \<Rightarrow> bool" where
  "active_grant capability g = (jget g ''capability'' = Some (JStr capability) \<and> jget g ''status'' = Some (JStr ''active''))"

definition requireAgentCapability :: "json \<Rightarrow> string \<Rightarrow> unit svc" where
  "requireAgentCapability session capability =
     andThen (rd_of (jget session ''agent'') ''capabilityGrants'') (\<lambda>gs.
     andThen (case gs of None \<Rightarrow> throw type_error | Some g \<Rightarrow> elements g) (\<lambda>grants.
       if find (active_grant capability) grants = None
       then throw (js_error (''Agent '' @ CHR 0x27 # interp (opt_get (jget session ''agent'') ''id'') @ CHR 0x27 #
         '' does not have an active grant for capability '' @ CHR 0x27 # capability @ [CHR 0x27]))
       else ret ()))"

definition requireDelegatedAgent :: "json \<Rightarrow> unit svc" where
  "requireDelegatedAgent session =
     (if jget session ''type'' \<noteq> Some (JStr ''delegated'') \<or> \<not> truthy (opt_get (jget session ''user'') ''id'')
      then throw (js_error ''This endpoint requires a delegated agent session linked to a user'') else ret ())"

subsection \<open>The role gate of a page\<close>

definition requireRole :: "json list \<Rightarrow> json svc" where
  "requireRole roles = andThen (both (call ''getServerSession'' (JObj [])) (call ''getLocale'' (JObj []))) (\<lambda>(session, locale).
     let go = (\<lambda>path. redirect_to (JObj [(''href'', JStr path), (''locale'', locale)])) in
     if \<not> truthy (jget session ''user'') then go ''/auth/sign-in''
     else let role = opt_get (jget session ''user'') ''role'' in
       if \<not> truthy role \<or> the role \<notin> set roles then go ''/'' else ret session)"

subsection \<open>An agent acts for its user only\<close>

text \<open>A call whose filter names the user, by the column that the table has for it.\<close>

definition concerns :: "json \<Rightarrow> svc_event \<Rightarrow> bool" where
  "concerns u e = (case e of Log st name \<Rightarrow> False
     | Call f args \<Rightarrow> (case jget args ''where'' of None \<Rightarrow> False
         | Some q \<Rightarrow> jget q ''id'' = Some u \<or> jget q ''userId'' = Some u \<or> jget q ''referenceId'' = Some u))"

lemma only_delegated [quiet_rules]:
  "(\<And>u. agent_user session = Some u \<Longrightarrow> only P (f u)) \<Longrightarrow> only P (delegated session capability f)"
  by (simp add: delegated_def only_throw split: option.split)

lemma execute_concerns:
  assumes "agent_user session = Some u"
  shows "only (concerns u) (executeCapability capability args session)"
  unfolding executeCapability_def delegated_def assms option.case
  by (intro only_if only_andThen only_call only_elements only_traverse only_rd only_ret only_throw)
    (simp_all add: concerns_def profile_read_def profile_write_def memberships_read_def keys_read_def)

text \<open>
  C30: an agent acts for its user only. Whatever capability it names and whatever it passes, a session that
  is not delegated to a user gets an error and nothing is read or written; otherwise every query and
  every update is filtered by the id of the session's user.
\<close>

theorem agent_confined:
  "let r = onExecute capability args session w [] in
   (case agent_user session of
      None \<Rightarrow> isl (fst r) \<and> snd r = []
    | Some u \<Rightarrow> list_all (concerns u) (snd r))"
proof (cases "agent_user session")
  case None
  then show ?thesis
    by (simp add: onExecute_def executeCapability_def delegated_def io_simps Let_def)
next
  case (Some u)
  from onlyD [OF execute_concerns [OF this]] show ?thesis
    by (simp add: onExecute_def Some Let_def)
qed

lemma truthyD: "truthy v \<Longrightarrow> \<exists>x. v = Some x"
  by (cases v) auto

text \<open>The guard for routes accepts exactly the sessions that the executor serves.\<close>

lemma requireDelegatedAgent_iff:
  "requireDelegatedAgent session = ret () \<longleftrightarrow> agent_user session \<noteq> None"
proof -
  have "(throw e :: unit svc) \<noteq> ret ()" for e by (auto simp: fun_eq_iff io_simps)
  then show ?thesis by (auto simp: requireDelegatedAgent_def agent_user_def opt_get_def split: option.splits dest: truthyD)
qed

text \<open>
  The capability \<^verbatim>\<open>projects:read\<close> is advertised and not implemented, \<^verbatim>\<open>profile:write\<close> is implemented and
  not advertised.
\<close>

lemma advertised_unimplemented:
  "''projects:read'' \<in> set advertised \<and> ''profile:write'' \<notin> set advertised \<and>
   executeCapability ''projects:read'' args session =
     throw (js_error (''Capability '' @ CHR 0x27 # ''projects:read'' @ CHR 0x27 # '' is not implemented on this server''))"
  by (simp add: advertised_def executeCapability_def)

subsection \<open>Keys of an agent's user\<close>

text \<open>A table of keys with the reference of each, and a world that answers the query from it.\<close>

definition key_table :: "(json \<times> json) list \<Rightarrow> (svc_event list \<Rightarrow> svc_reply) \<Rightarrow> bool" where
  "key_table rows w = (\<forall>h u. w (h @ [Call ''prisma.apikey.findMany'' (keys_read u)]) =
     Returned (JArr (map snd (filter (\<lambda>(reference, row). reference = u) rows))))"

text \<open>
  An agent never sees a key. The keys are stored with the organization as their reference, and the
  capability that lists them asks for those whose reference is the user; so when no organization has
  the user's id, the list is empty, whatever keys the user's organizations have.
\<close>

lemma agent_keys_empty:
  assumes "key_table rows w" and "agent_user session = Some u"
    and "fst ` set rows \<subseteq> organizations" and "u \<notin> organizations"
  shows "fst (onExecute ''api_keys:read'' args session w []) = Inr (JObj [(''keys'', JArr [])])"
proof -
  have "filter (\<lambda>(reference, row). reference = u) rows = []"
    using assms(3,4) by (auto simp: filter_empty_conv)
  with assms(1) have "w [Call ''prisma.apikey.findMany'' (keys_read u)] = Returned (JArr [])"
    using key_table_def [of rows w] by (metis append_Nil list.simps(8))
  then show ?thesis
    using assms(2) by (simp add: onExecute_def executeCapability_def delegated_def call_def io_simps)
qed

lemma agent_keys_empty_witness:
  "fst (onExecute ''api_keys:read'' None
     (JObj [(''type'', JStr ''delegated''), (''user'', JObj [(''id'', JStr ''u'')])])
     (\<lambda>h. case last h of Call f args \<Rightarrow> Returned (JArr (map snd (filter (\<lambda>(reference, row). keys_read reference = args)
        [(JStr ''o'', JStr ''key'')]))) | _ \<Rightarrow> Returned JNull) []) = Inr (JObj [(''keys'', JArr [])])"
  by (rule agent_keys_empty [where rows = "[(JStr ''o'', JStr ''key'')]" and u = "JStr ''u''" and organizations = "{JStr ''o''}"])
    (simp_all add: key_table_def keys_read_def agent_user_def opt_get_def)

subsection \<open>Pages\<close>

text \<open>A page behind the gate renders only for a user with one of its roles; everybody else is redirected.\<close>

lemma requireRole_admits:
  "fst (requireRole roles w []) = Inr session \<Longrightarrow>
     \<exists>role. opt_get (jget session ''user'') ''role'' = Some role \<and> role \<in> set roles"
  by (auto simp: requireRole_def both_def redirect_to_def call_def handling_def io_simps Let_def opt_get_def
      split: svc_reply.splits if_splits option.splits prod.splits sum.splits dest: truthyD)

end
