(* ===== verification/Iam_Schemas.thy ===== *)
theory Iam_Schemas
  imports Zod_Schema
begin

text \<open>
  The schemas of the identity service (\<^verbatim>\<open>iam/src/modules/entities/schemas/\<close>): of forms, of the payloads that
  controllers validate, of server actions and of the answers of services. The user schema of
  \<^verbatim>\<open>auth/reusable.schema.ts\<close> is \<open>AuthUserSchema\<close>.
\<close>

text \<open>\<^verbatim>\<open>refine\<close>: the two new passwords agree, and a template for a country names it.\<close>

definition same_passwords :: "json \<Rightarrow> bool" where
  "same_passwords d = (jget d ''newPassword'' = jget d ''confirmPassword'')"

definition country_given :: "json \<Rightarrow> bool" where
  "country_given d = (jget d ''scope'' \<noteq> Some (JStr ''COUNTRY'') \<or> truthy (jget d ''country''))"

definition ZodSocialProviders :: schema where
  "ZodSocialProviders = ZEnum [''google'', ''github'']"

definition ZodETokenEndpointAuthMode :: schema where
  "ZodETokenEndpointAuthMode = ZEnum [''none'', ''client_secret_basic'', ''client_secret_post'']"

definition ZodEGrantType :: schema where
  "ZodEGrantType = ZEnum [''authorization_code'', ''client_credentials'', ''refresh_token'']"

definition ZodEResponseType :: schema where
  "ZodEResponseType = ZEnum [''code'']"

definition ZodEType :: schema where
  "ZodEType = ZEnum [''web'', ''native'', ''user-agent-based'']"

definition ZodESubjectType :: schema where
  "ZodESubjectType = ZEnum [''public'', ''pairwise'']"

definition ZodERevalidateType :: schema where
  "ZodERevalidateType = ZEnum [''page'', ''layout'']"

definition IamTransportOptionsSchema :: schema where
  "IamTransportOptionsSchema = ZObject
     [(''url'', ZOptional ZString),
      (''shouldRevalidate'', ZOptional ZBool),
      (''shouldRedirect'', ZOptional ZBool),
      (''revalidateType'', ZOptional (ZDefault ZodERevalidateType (JStr ''page'')))]"

definition BaseSigninOrSignupSchema :: schema where
  "BaseSigninOrSignupSchema = ZObject
     [(''name'', ZNonEmpty),
      (''username'', ZRefine (ZLength (Some 3) (Some 30)) (matches name_char)),
      (''email'', ZEmail),
      (''password'', ZNonEmpty),
      (''rememberMe'', ZBool)]"

definition AuthUserSchema :: schema where
  "AuthUserSchema = ZObject
     [(''id'', ZString),
      (''createdAt'', ZDate),
      (''updatedAt'', ZDate),
      (''email'', ZEmail),
      (''emailVerified'', ZBool),
      (''name'', ZString),
      (''image'', ZOptional (ZNullable ZString))]"

definition SignupFormSchema :: schema where
  "SignupFormSchema = zpick [''name'', ''username'', ''email'', ''password'', ''rememberMe''] BaseSigninOrSignupSchema"

definition SigninFormSchema :: schema where
  "SigninFormSchema = zpick [''email'', ''password'', ''rememberMe''] BaseSigninOrSignupSchema"

definition ForgetPasswordOrMagicLinkFormSchema :: schema where
  "ForgetPasswordOrMagicLinkFormSchema = zpick [''email''] BaseSigninOrSignupSchema"

definition SignupValidationSchema :: schema where
  "SignupValidationSchema = zpick [''name'', ''username'', ''email'', ''password'', ''rememberMe''] BaseSigninOrSignupSchema"

definition SigninValidationSchema :: schema where
  "SigninValidationSchema = zpick [''email'', ''password'', ''rememberMe''] BaseSigninOrSignupSchema"

definition SigninWithSocialValidationSchema :: schema where
  "SigninWithSocialValidationSchema = ZObject
     [(''provider'', ZodSocialProviders),
      (''callbackURL'', ZOptional ZString)]"

definition SendVerificationEmailValidationSchema :: schema where
  "SendVerificationEmailValidationSchema = ZObject
     [(''email'', ZEmail),
      (''callbackURL'', ZOptional ZString)]"

definition SignupActionSchema :: schema where
  "SignupActionSchema = ZObject
     [(''payload'', SignupValidationSchema),
      (''captchaToken'', ZOptional ZString),
      (''transportOptions'', ZOptional IamTransportOptionsSchema)]"

definition SigninActionSchema :: schema where
  "SigninActionSchema = ZObject
     [(''payload'', SigninValidationSchema),
      (''captchaToken'', ZOptional ZString),
      (''transportOptions'', ZOptional IamTransportOptionsSchema)]"

definition SignoutActionSchema :: schema where
  "SignoutActionSchema = ZObject
     [(''transportOptions'', ZOptional IamTransportOptionsSchema)]"

definition SendEmailVerificationActionSchema :: schema where
  "SendEmailVerificationActionSchema = ZObject
     [(''payload'', SendVerificationEmailValidationSchema),
      (''transportOptions'', ZOptional IamTransportOptionsSchema)]"

definition SignupResponseDtoSchema :: schema where
  "SignupResponseDtoSchema = ZUnion [ZObject
     [(''token'', ZNull),
      (''user'', AuthUserSchema)], ZObject
     [(''token'', ZString),
      (''user'', AuthUserSchema)]]"

definition SigninResponseDtoSchema :: schema where
  "SigninResponseDtoSchema = ZUnion [ZObject
     [(''redirect'', ZBool),
      (''token'', ZString),
      (''url'', ZOptional ZString),
      (''user'', AuthUserSchema)], ZObject
     [(''twoFactorRedirect'', ZLiteral (JBool True))]]"

definition SigninWithSocialResponseDtoSchema :: schema where
  "SigninWithSocialResponseDtoSchema = ZUnion [ZObject
     [(''redirect'', ZBool),
      (''token'', ZString),
      (''url'', ZUndefined),
      (''user'', AuthUserSchema)], ZObject
     [(''redirect'', ZBool),
      (''url'', ZString)]]"

definition SignoutResponseDtoSchema :: schema where
  "SignoutResponseDtoSchema = ZObject
     [(''success'', ZBool),
      (''url'', ZNullable ZString)]"

definition SendEmailVerificationDtoSchema :: schema where
  "SendEmailVerificationDtoSchema = ZObject
     [(''success'', ZBool)]"

definition VerifyTwoFactorOTPValidationSchema :: schema where
  "VerifyTwoFactorOTPValidationSchema = ZObject
     [(''code'', ZLength (Some 6) (Some 6)),
      (''trustDevice'', ZOptional ZBool)]"

definition VerifyTwoFactorOTPActionSchema :: schema where
  "VerifyTwoFactorOTPActionSchema = ZObject
     [(''payload'', VerifyTwoFactorOTPValidationSchema),
      (''transportOptions'', ZOptional IamTransportOptionsSchema)]"

definition SendTwoFactorOTPActionSchema :: schema where
  "SendTwoFactorOTPActionSchema = ZObject
     [(''transportOptions'', ZOptional IamTransportOptionsSchema)]"

definition VerifyTwoFactorOTPDtoSchema :: schema where
  "VerifyTwoFactorOTPDtoSchema = ZObject
     [(''token'', ZString)]"

definition SendTwoFactorOTPDtoSchema :: schema where
  "SendTwoFactorOTPDtoSchema = ZObject
     [(''status'', ZBool)]"

definition VerifyTOTPValidationSchema :: schema where
  "VerifyTOTPValidationSchema = ZObject
     [(''code'', ZLength (Some 6) (Some 6)),
      (''trustDevice'', ZOptional ZBool)]"

definition VerifyTOTPActionSchema :: schema where
  "VerifyTOTPActionSchema = ZObject
     [(''payload'', VerifyTOTPValidationSchema),
      (''transportOptions'', ZOptional IamTransportOptionsSchema)]"

definition VerifyTOTPDtoSchema :: schema where
  "VerifyTOTPDtoSchema = ZObject
     [(''token'', ZString)]"

definition SendMagicLinkValidationSchema :: schema where
  "SendMagicLinkValidationSchema = ZObject
     [(''email'', ZEmail),
      (''callbackURL'', ZOptional ZString)]"

definition SendMagicLinkActionSchema :: schema where
  "SendMagicLinkActionSchema = ZObject
     [(''payload'', SendMagicLinkValidationSchema),
      (''transportOptions'', ZOptional IamTransportOptionsSchema)]"

definition SendMagicLinkDtoSchema :: schema where
  "SendMagicLinkDtoSchema = ZObject
     [(''success'', ZBool)]"

definition SendResetPasswordValidationSchema :: schema where
  "SendResetPasswordValidationSchema = ZObject
     [(''email'', ZEmail),
      (''redirect'', ZOptional ZString)]"

definition SendResetPasswordActionSchema :: schema where
  "SendResetPasswordActionSchema = ZObject
     [(''payload'', SendResetPasswordValidationSchema),
      (''transportOptions'', ZOptional IamTransportOptionsSchema)]"

definition SendResetPasswordDtoSchema :: schema where
  "SendResetPasswordDtoSchema = ZObject
     [(''success'', ZBool)]"

definition ResetPasswordValidationSchema :: schema where
  "ResetPasswordValidationSchema = ZRefine (ZObject
     [(''newPassword'', ZLength (Some 8) None),
      (''confirmPassword'', ZLength (Some 8) None)]) same_passwords"

definition ResetPasswordActionSchema :: schema where
  "ResetPasswordActionSchema = ZObject
     [(''payload'', ResetPasswordValidationSchema),
      (''token'', ZString),
      (''redirect'', ZOptional ZString),
      (''transportOptions'', ZOptional IamTransportOptionsSchema)]"

definition ResetPasswordDtoSchema :: schema where
  "ResetPasswordDtoSchema = ZObject
     [(''success'', ZBool)]"

definition SendEmailValidationSchema :: schema where
  "SendEmailValidationSchema = ZObject
     [(''to'', ZEmail),
      (''subject'', ZString),
      (''html'', ZString),
      (''from'', ZOptional ZEmail)]"

definition UserPreferenceSchema :: schema where
  "UserPreferenceSchema = ZObject
     [(''id'', ZString),
      (''userId'', ZString),
      (''timezone'', ZOptional (ZNullable ZString)),
      (''dateFormat'', ZOptional (ZNullable ZString)),
      (''timeFormat'', ZOptional (ZNullable ZString)),
      (''country'', ZOptional (ZNullable ZString)),
      (''currency'', ZOptional (ZNullable ZString)),
      (''numberFormat'', ZOptional (ZNullable ZString)),
      (''weekStart'', ZOptional (ZNullable ZString)),
      (''createdAt'', ZDate),
      (''updatedAt'', ZDate)]"

definition UpdateUserPreferenceFormSchema :: schema where
  "UpdateUserPreferenceFormSchema = ZObject
     [(''country'', ZNonEmpty),
      (''timezone'', ZNonEmpty),
      (''dateFormat'', ZNonEmpty),
      (''timeFormat'', ZNonEmpty),
      (''currency'', ZNonEmpty),
      (''numberFormat'', ZNonEmpty),
      (''weekStart'', ZNonEmpty)]"

definition UpdateUserPreferenceValidationSchema :: schema where
  "UpdateUserPreferenceValidationSchema = zmerge UpdateUserPreferenceFormSchema (ZObject
     [(''userId'', ZNonEmpty)])"

definition UpdateUserPreferenceActionSchema :: schema where
  "UpdateUserPreferenceActionSchema = ZObject
     [(''payload'', UpdateUserPreferenceFormSchema),
      (''transportOptions'', ZOptional IamTransportOptionsSchema)]"

definition OAuthClientBaseSchema :: schema where
  "OAuthClientBaseSchema = ZObject
     [(''scope'', ZOptional ZString),
      (''client_name'', ZOptional ZNonEmpty),
      (''client_secret'', ZOptional ZNonEmpty),
      (''client_uri'', ZOptional ZUrl),
      (''logo_uri'', ZOptional ZUrl),
      (''policy_uri'', ZOptional ZUrl),
      (''redirect_uris'', ZArrayMin 1 ZUrl),
      (''post_logout_redirect_uris'', ZOptional (ZArray ZUrl)),
      (''tos_uri'', ZOptional ZUrl),
      (''contacts'', ZOptional (ZArray ZString)),
      (''token_endpoint_auth_method'', ZOptional ZodETokenEndpointAuthMode),
      (''grant_types'', ZOptional (ZArray ZodEGrantType)),
      (''response_types'', ZOptional (ZArray ZodEResponseType)),
      (''type'', ZOptional ZodEType),
      (''subject_type'', ZOptional ZodESubjectType),
      (''software_id'', ZOptional ZString),
      (''software_version'', ZOptional ZString),
      (''software_statement'', ZOptional ZString),
      (''metadata'', ZOptional ZRecord),
      (''skip_consent'', ZOptional ZBool),
      (''enable_end_session'', ZOptional ZBool),
      (''require_pkce'', ZOptional ZBool),
      (''public'', ZOptional ZBool),
      (''disabled'', ZOptional ZBool),
      (''client_secret_expires_at'', ZOptional ZNumber),
      (''client_id_issued_at'', ZNumber)]"

definition OAuthClientIdSchema :: schema where
  "OAuthClientIdSchema = ZObject
     [(''client_id'', ZString),
      (''user_id'', ZString)]"

definition AgentStatusEnum :: schema where
  "AgentStatusEnum = ZEnum [''pending'', ''active'', ''revoked'', ''expired'', ''rejected'', ''claimed'']"

definition AgentModeEnum :: schema where
  "AgentModeEnum = ZEnum [''delegated'', ''autonomous'']"

definition HostStatusEnum :: schema where
  "HostStatusEnum = ZEnum [''pending'', ''active'', ''revoked'', ''rejected'', ''pending_enrollment'']"

definition AgentSchema :: schema where
  "AgentSchema = ZObject
     [(''agent_id'', ZString),
      (''name'', ZString),
      (''status'', AgentStatusEnum),
      (''mode'', AgentModeEnum),
      (''host_id'', ZString),
      (''host_name'', ZString),
      (''agent_capability_grants'', ZArray ZRecord),
      (''created_at'', ZDate),
      (''last_used_at'', ZNullable ZDate),
      (''expires_at'', ZNullable ZDate)]"

definition ListAgentsResponseDtoSchema :: schema where
  "ListAgentsResponseDtoSchema = ZObject
     [(''agents'', ZArray AgentSchema)]"

definition HostSchema :: schema where
  "HostSchema = ZObject
     [(''id'', ZString),
      (''name'', ZString),
      (''default_capabilities'', ZArray ZString),
      (''status'', HostStatusEnum),
      (''activated_at'', ZNullable ZDate),
      (''expires_at'', ZNullable ZDate),
      (''last_used_at'', ZNullable ZDate),
      (''created_at'', ZDate),
      (''updated_at'', ZDate)]"

definition ListHostsResponseDtoSchema :: schema where
  "ListHostsResponseDtoSchema = ZObject
     [(''hosts'', ZArray HostSchema)]"

definition RevokeAgentValidationSchema :: schema where
  "RevokeAgentValidationSchema = ZObject
     [(''agent_id'', ZString)]"

definition RevokeAgentActionSchema :: schema where
  "RevokeAgentActionSchema = ZObject
     [(''payload'', RevokeAgentValidationSchema),
      (''transportOptions'', ZOptional IamTransportOptionsSchema)]"

definition ReactivateAgentValidationSchema :: schema where
  "ReactivateAgentValidationSchema = ZObject
     [(''agent_id'', ZString)]"

definition ReactivateAgentActionSchema :: schema where
  "ReactivateAgentActionSchema = ZObject
     [(''payload'', ReactivateAgentValidationSchema),
      (''transportOptions'', ZOptional IamTransportOptionsSchema)]"

definition GrantCapabilityFormSchema :: schema where
  "GrantCapabilityFormSchema = ZObject
     [(''agent_id'', ZString),
      (''capabilities'', ZNonEmpty),
      (''ttl'', ZOptional (ZRefine ZNumber positive))]"

definition GrantCapabilityValidationSchema :: schema where
  "GrantCapabilityValidationSchema = ZObject
     [(''agent_id'', ZString),
      (''capabilities'', ZArrayMin 1 ZString),
      (''ttl'', ZOptional (ZRefine ZNumber positive))]"

definition GrantCapabilityActionSchema :: schema where
  "GrantCapabilityActionSchema = ZObject
     [(''payload'', GrantCapabilityValidationSchema),
      (''transportOptions'', ZOptional IamTransportOptionsSchema)]"

definition GrantCapabilityResponseDtoSchema :: schema where
  "GrantCapabilityResponseDtoSchema = ZObject
     [(''agent_id'', ZString),
      (''grant_ids'', ZArray ZString),
      (''added'', ZArray ZString)]"

definition CreateHostFormSchema :: schema where
  "CreateHostFormSchema = ZObject
     [(''name'', ZNonEmpty),
      (''default_capabilities'', ZOptional ZString),
      (''jwks_url'', ZUnion [ZOptional ZUrl, ZLiteral (JStr '''')])]"

definition CreateHostValidationSchema :: schema where
  "CreateHostValidationSchema = ZObject
     [(''name'', ZNonEmpty),
      (''default_capabilities'', ZOptional (ZArray ZString)),
      (''jwks_url'', ZOptional ZUrl)]"

definition CreateHostActionSchema :: schema where
  "CreateHostActionSchema = ZObject
     [(''payload'', CreateHostValidationSchema),
      (''transportOptions'', ZOptional IamTransportOptionsSchema)]"

definition CreateHostResponseDtoSchema :: schema where
  "CreateHostResponseDtoSchema = ZObject
     [(''hostId'', ZString),
      (''default_capabilities'', ZArray ZString),
      (''status'', ZString),
      (''enrollmentToken'', ZOptional ZString),
      (''enrollmentTokenExpiresAt'', ZOptional ZDate)]"

definition RevokeHostValidationSchema :: schema where
  "RevokeHostValidationSchema = ZObject
     [(''host_id'', ZString)]"

definition RevokeHostActionSchema :: schema where
  "RevokeHostActionSchema = ZObject
     [(''payload'', RevokeHostValidationSchema),
      (''transportOptions'', ZOptional IamTransportOptionsSchema)]"

definition RegisterAgentFormSchema :: schema where
  "RegisterAgentFormSchema = ZObject
     [(''name'', ZNonEmpty),
      (''mode'', AgentModeEnum),
      (''host_name'', ZOptional ZString),
      (''capabilities'', ZOptional ZString),
      (''reason'', ZOptional ZString)]"

definition RegisterAgentValidationSchema :: schema where
  "RegisterAgentValidationSchema = ZObject
     [(''name'', ZNonEmpty),
      (''mode'', ZOptional AgentModeEnum),
      (''host_name'', ZOptional ZString),
      (''capabilities'', ZOptional (ZArray ZString)),
      (''reason'', ZOptional ZString)]"

definition RegisterAgentActionSchema :: schema where
  "RegisterAgentActionSchema = ZObject
     [(''payload'', RegisterAgentValidationSchema),
      (''transportOptions'', ZOptional IamTransportOptionsSchema)]"

definition RegisterAgentResponseDtoSchema :: schema where
  "RegisterAgentResponseDtoSchema = ZRecord"

definition UpdateAgentFormSchema :: schema where
  "UpdateAgentFormSchema = ZObject
     [(''agent_id'', ZString),
      (''name'', ZNonEmpty),
      (''metadata'', ZOptional ZString)]"

definition UpdateAgentValidationSchema :: schema where
  "UpdateAgentValidationSchema = ZObject
     [(''agent_id'', ZString),
      (''name'', ZOptional ZString),
      (''metadata'', ZOptional (ZRecordOf (ZUnion [ZString, ZNumber, ZBool, ZNull])))]"

definition UpdateAgentActionSchema :: schema where
  "UpdateAgentActionSchema = ZObject
     [(''payload'', UpdateAgentValidationSchema),
      (''transportOptions'', ZOptional IamTransportOptionsSchema)]"

definition UpdateAgentResponseDtoSchema :: schema where
  "UpdateAgentResponseDtoSchema = ZObject
     [(''agent_id'', ZString),
      (''name'', ZString),
      (''metadata'', ZNullable ZRecord),
      (''updated_at'', ZDate)]"

definition CleanupAgentsResponseDtoSchema :: schema where
  "CleanupAgentsResponseDtoSchema = ZObject
     [(''expired'', ZNumber),
      (''approvals_expired'', ZNumber)]"

definition CleanupAgentsActionSchema :: schema where
  "CleanupAgentsActionSchema = ZObject
     [(''transportOptions'', ZOptional IamTransportOptionsSchema)]"

definition ApprovalRequestSchema :: schema where
  "ApprovalRequestSchema = ZObject
     [(''approval_id'', ZString),
      (''method'', ZEnum [''device_authorization'', ''ciba'']),
      (''agent_id'', ZNullable ZString),
      (''agent_name'', ZNullable ZString),
      (''binding_message'', ZNullable ZString),
      (''capabilities'', ZArray ZString),
      (''capability_constraints'', ZNullable ZRecord),
      (''capability_reasons'', ZNullable (ZRecordOf ZString)),
      (''expires_in'', ZNumber),
      (''created_at'', ZDate)]"

definition ListPendingApprovalsResponseDtoSchema :: schema where
  "ListPendingApprovalsResponseDtoSchema = ZObject
     [(''requests'', ZArray ApprovalRequestSchema)]"

definition ApproveCapabilityValidationSchema :: schema where
  "ApproveCapabilityValidationSchema = ZObject
     [(''agent_id'', ZOptional ZString),
      (''approval_id'', ZOptional ZString),
      (''user_code'', ZOptional ZString),
      (''action'', ZEnum [''approve'', ''deny'']),
      (''capabilities'', ZOptional (ZArray ZString)),
      (''ttl'', ZOptional ZNumber),
      (''reason'', ZOptional ZString)]"

definition ApproveCapabilityActionSchema :: schema where
  "ApproveCapabilityActionSchema = ZObject
     [(''payload'', ApproveCapabilityValidationSchema),
      (''transportOptions'', ZOptional IamTransportOptionsSchema)]"

definition UpdateHostFormSchema :: schema where
  "UpdateHostFormSchema = ZObject
     [(''host_id'', ZString),
      (''name'', ZNonEmpty),
      (''default_capabilities'', ZOptional ZString),
      (''jwks_url'', ZUnion [ZOptional ZUrl, ZLiteral (JStr '''')])]"

definition UpdateHostValidationSchema :: schema where
  "UpdateHostValidationSchema = ZObject
     [(''host_id'', ZString),
      (''name'', ZOptional ZString),
      (''default_capabilities'', ZOptional (ZArray ZString)),
      (''jwks_url'', ZOptional ZUrl)]"

definition UpdateHostActionSchema :: schema where
  "UpdateHostActionSchema = ZObject
     [(''payload'', UpdateHostValidationSchema),
      (''transportOptions'', ZOptional IamTransportOptionsSchema)]"

definition UpdateHostResponseDtoSchema :: schema where
  "UpdateHostResponseDtoSchema = ZObject
     [(''id'', ZString),
      (''default_capabilities'', ZArray ZString),
      (''jwks_url'', ZNullable ZString),
      (''status'', HostStatusEnum),
      (''updated_at'', ZDate)]"

definition IamApiKeySchema :: schema where
  "IamApiKeySchema = ZObject
     [(''id'', ZString),
      (''configId'', ZDefault ZString (JStr ''default'')),
      (''name'', ZNullable ZString),
      (''start'', ZNullable ZString),
      (''prefix'', ZNullable ZString),
      (''referenceId'', ZString),
      (''enabled'', ZDefault ZBool (JBool True)),
      (''rateLimitEnabled'', ZDefault ZBool (JBool True)),
      (''rateLimitTimeWindow'', ZNullable ZNumber),
      (''rateLimitMax'', ZNullable ZNumber),
      (''requestCount'', ZDefault ZNumber (JInt 0)),
      (''remaining'', ZNullable ZNumber),
      (''refillAmount'', ZNullable ZNumber),
      (''refillInterval'', ZNullable ZNumber),
      (''lastRefillAt'', ZNullable ZDate),
      (''lastRequest'', ZNullable ZDate),
      (''expiresAt'', ZNullable ZDate),
      (''permissions'', ZNullable ZString),
      (''metadata'', ZNullable ZString),
      (''createdAt'', ZDate),
      (''updatedAt'', ZDate)]"

definition ApiKeyCreatedSchema :: schema where
  "ApiKeyCreatedSchema = zmerge IamApiKeySchema (ZObject
     [(''key'', ZString)])"

definition ListApiKeysResponseSchema :: schema where
  "ListApiKeysResponseSchema = ZObject
     [(''apiKeys'', ZArray IamApiKeySchema),
      (''total'', ZNumber)]"

definition ListApiKeysQuerySchema :: schema where
  "ListApiKeysQuerySchema = ZObject
     [(''userId'', ZOptional ZString),
      (''organizationId'', ZOptional ZString),
      (''configId'', ZOptional ZString),
      (''limit'', ZOptional ZNumber),
      (''offset'', ZOptional ZNumber)]"

definition CreateApiKeyValidationSchema :: schema where
  "CreateApiKeyValidationSchema = ZObject
     [(''name'', ZLength (Some 1) (Some 100)),
      (''userId'', ZNonEmpty),
      (''organizationId'', ZOptional ZString),
      (''configId'', ZOptional ZString),
      (''prefix'', ZOptional (ZLength None (Some 20))),
      (''expiresIn'', ZNullable (ZOptional (ZRefine ZNumber positive))),
      (''remaining'', ZNullable (ZOptional (ZInt (Some 1) None))),
      (''refillAmount'', ZNullable (ZOptional (ZInt (Some 1) None))),
      (''refillInterval'', ZNullable (ZOptional (ZInt (Some 1) None))),
      (''rateLimitEnabled'', ZOptional ZBool),
      (''rateLimitTimeWindow'', ZNullable (ZOptional (ZInt (Some 1) None))),
      (''rateLimitMax'', ZNullable (ZOptional (ZInt (Some 1) None))),
      (''permissions'', ZNullable (ZOptional ZString)),
      (''metadata'', ZNullable (ZOptional ZString))]"

definition IamCreateApiKeyActionSchema :: schema where
  "IamCreateApiKeyActionSchema = ZObject
     [(''payload'', CreateApiKeyValidationSchema),
      (''transportOptions'', IamTransportOptionsSchema)]"

definition UpdateApiKeyValidationSchema :: schema where
  "UpdateApiKeyValidationSchema = ZObject
     [(''keyId'', ZString),
      (''name'', ZOptional (ZLength (Some 1) (Some 100))),
      (''enabled'', ZOptional ZBool),
      (''expiresIn'', ZNullable (ZOptional (ZRefine ZNumber positive))),
      (''remaining'', ZNullable (ZOptional (ZInt (Some 1) None))),
      (''refillAmount'', ZNullable (ZOptional (ZInt (Some 1) None))),
      (''refillInterval'', ZNullable (ZOptional (ZInt (Some 1) None))),
      (''rateLimitEnabled'', ZOptional ZBool),
      (''rateLimitTimeWindow'', ZNullable (ZOptional (ZInt (Some 1) None))),
      (''rateLimitMax'', ZNullable (ZOptional (ZInt (Some 1) None))),
      (''permissions'', ZNullable (ZOptional ZString)),
      (''metadata'', ZNullable (ZOptional ZString)),
      (''configId'', ZOptional ZString)]"

definition UpdateApiKeyActionSchema :: schema where
  "UpdateApiKeyActionSchema = ZObject
     [(''payload'', UpdateApiKeyValidationSchema),
      (''transportOptions'', IamTransportOptionsSchema)]"

definition DeleteApiKeyValidationSchema :: schema where
  "DeleteApiKeyValidationSchema = ZObject
     [(''keyId'', ZString),
      (''configId'', ZOptional ZString)]"

definition DeleteApiKeyActionSchema :: schema where
  "DeleteApiKeyActionSchema = ZObject
     [(''payload'', DeleteApiKeyValidationSchema),
      (''transportOptions'', IamTransportOptionsSchema)]"

definition DeleteExpiredApiKeysValidationSchema :: schema where
  "DeleteExpiredApiKeysValidationSchema = ZObject
     [(''configId'', ZOptional ZString)]"

definition DeleteExpiredApiKeysActionSchema :: schema where
  "DeleteExpiredApiKeysActionSchema = ZObject
     [(''payload'', DeleteExpiredApiKeysValidationSchema),
      (''transportOptions'', IamTransportOptionsSchema)]"

definition AppSchema :: schema where
  "AppSchema = ZObject
     [(''id'', ZString),
      (''name'', ZString),
      (''slug'', ZString),
      (''description'', ZOptional (ZNullable ZString)),
      (''isActive'', ZBool),
      (''deletedAt'', ZOptional (ZNullable ZDate)),
      (''createdAt'', ZDate),
      (''updatedAt'', ZDate)]"

definition ListAppsResponseSchema :: schema where
  "ListAppsResponseSchema = ZObject
     [(''apps'', ZArray AppSchema)]"

definition CreateAppFormSchema :: schema where
  "CreateAppFormSchema = ZObject
     [(''name'', ZNonEmpty),
      (''slug'', ZRefine ZNonEmpty (matches dash_char)),
      (''description'', ZOptional ZString),
      (''isActive'', ZDefault ZBool (JBool True))]"

definition CreateAppValidationSchema :: schema where
  "CreateAppValidationSchema = ZObject
     [(''name'', ZNonEmpty),
      (''slug'', ZNonEmpty),
      (''description'', ZOptional ZString),
      (''isActive'', ZDefault ZBool (JBool True)),
      (''createdBy'', ZOptional ZString)]"

definition CreateAppActionSchema :: schema where
  "CreateAppActionSchema = ZObject
     [(''payload'', CreateAppValidationSchema),
      (''transportOptions'', ZOptional IamTransportOptionsSchema)]"

definition UpdateAppFormSchema :: schema where
  "UpdateAppFormSchema = ZObject
     [(''name'', ZNonEmpty),
      (''slug'', ZRefine ZNonEmpty (matches dash_char)),
      (''description'', ZOptional ZString),
      (''isActive'', ZBool)]"

definition UpdateAppValidationSchema :: schema where
  "UpdateAppValidationSchema = ZObject
     [(''id'', ZNonEmpty),
      (''name'', ZOptional ZNonEmpty),
      (''slug'', ZOptional ZNonEmpty),
      (''description'', ZOptional ZString),
      (''isActive'', ZOptional ZBool),
      (''updatedBy'', ZOptional ZString)]"

definition UpdateAppActionSchema :: schema where
  "UpdateAppActionSchema = ZObject
     [(''payload'', UpdateAppValidationSchema),
      (''transportOptions'', ZOptional IamTransportOptionsSchema)]"

definition DeleteAppValidationSchema :: schema where
  "DeleteAppValidationSchema = ZObject
     [(''id'', ZNonEmpty)]"

definition DeleteAppActionSchema :: schema where
  "DeleteAppActionSchema = ZObject
     [(''payload'', DeleteAppValidationSchema),
      (''transportOptions'', ZOptional IamTransportOptionsSchema)]"

definition MenuNodeSchema :: schema where
  "MenuNodeSchema = ZObject
     [(''id'', ZString),
      (''appId'', ZString),
      (''parentId'', ZOptional (ZNullable ZString)),
      (''parentLabel'', ZOptional (ZNullable ZString)),
      (''label'', ZString),
      (''slug'', ZString),
      (''icon'', ZOptional (ZNullable ZString)),
      (''href'', ZOptional (ZNullable ZString)),
      (''order'', ZNumber),
      (''type'', ZEnum [''GROUP'', ''ITEM'']),
      (''isActive'', ZBool),
      (''isVisible'', ZDefault ZBool (JBool True)),
      (''permissionKeys'', ZDefault (ZArray ZString) (JArr [])),
      (''createdAt'', ZDate),
      (''updatedAt'', ZDate)]"

definition ListMenuNodesResponseSchema :: schema where
  "ListMenuNodesResponseSchema = ZObject
     [(''nodes'', ZArray MenuNodeSchema)]"

definition CreateMenuNodeFormSchema :: schema where
  "CreateMenuNodeFormSchema = ZObject
     [(''appId'', ZNonEmpty),
      (''parentId'', ZOptional ZString),
      (''label'', ZNonEmpty),
      (''slug'', ZNonEmpty),
      (''icon'', ZOptional ZString),
      (''href'', ZOptional ZString),
      (''type'', ZDefault (ZEnum [''GROUP'', ''ITEM'']) (JStr ''ITEM'')),
      (''order'', ZDefault ZNumber (JInt 0)),
      (''isVisible'', ZDefault ZBool (JBool True)),
      (''permissionKeys'', ZDefault (ZArray ZString) (JArr []))]"

definition CreateMenuNodeValidationSchema :: schema where
  "CreateMenuNodeValidationSchema = ZObject
     [(''appId'', ZNonEmpty),
      (''parentId'', ZOptional ZString),
      (''label'', ZNonEmpty),
      (''slug'', ZNonEmpty),
      (''icon'', ZOptional ZString),
      (''href'', ZOptional ZString),
      (''type'', ZDefault (ZEnum [''GROUP'', ''ITEM'']) (JStr ''ITEM'')),
      (''order'', ZDefault ZNumber (JInt 0)),
      (''isVisible'', ZDefault ZBool (JBool True)),
      (''permissionKeys'', ZDefault (ZArray ZString) (JArr []))]"

definition CreateMenuNodeActionSchema :: schema where
  "CreateMenuNodeActionSchema = ZObject
     [(''payload'', CreateMenuNodeValidationSchema),
      (''transportOptions'', ZOptional IamTransportOptionsSchema)]"

definition UpdateMenuNodeFormSchema :: schema where
  "UpdateMenuNodeFormSchema = ZObject
     [(''parentId'', ZOptional ZString),
      (''label'', ZNonEmpty),
      (''slug'', ZNonEmpty),
      (''icon'', ZOptional ZString),
      (''href'', ZOptional ZString),
      (''type'', ZEnum [''GROUP'', ''ITEM'']),
      (''order'', ZNumber),
      (''isActive'', ZBool),
      (''isVisible'', ZBool),
      (''permissionKeys'', ZDefault (ZArray ZString) (JArr []))]"

definition UpdateMenuNodeValidationSchema :: schema where
  "UpdateMenuNodeValidationSchema = ZObject
     [(''id'', ZNonEmpty),
      (''parentId'', ZOptional (ZNullable ZString)),
      (''label'', ZOptional ZNonEmpty),
      (''slug'', ZOptional ZNonEmpty),
      (''icon'', ZOptional (ZNullable ZString)),
      (''href'', ZOptional (ZNullable ZString)),
      (''type'', ZOptional (ZEnum [''GROUP'', ''ITEM''])),
      (''order'', ZOptional ZNumber),
      (''isActive'', ZOptional ZBool),
      (''isVisible'', ZOptional ZBool),
      (''permissionKeys'', ZOptional (ZArray ZString))]"

definition UpdateMenuNodeActionSchema :: schema where
  "UpdateMenuNodeActionSchema = ZObject
     [(''payload'', UpdateMenuNodeValidationSchema),
      (''transportOptions'', ZOptional IamTransportOptionsSchema)]"

definition DeleteMenuNodeValidationSchema :: schema where
  "DeleteMenuNodeValidationSchema = ZObject
     [(''id'', ZNonEmpty)]"

definition DeleteMenuNodeActionSchema :: schema where
  "DeleteMenuNodeActionSchema = ZObject
     [(''payload'', DeleteMenuNodeValidationSchema),
      (''transportOptions'', ZOptional IamTransportOptionsSchema)]"

definition ReorderMenuNodeValidationSchema :: schema where
  "ReorderMenuNodeValidationSchema = ZObject
     [(''nodeId'', ZNonEmpty),
      (''direction'', ZEnum [''up'', ''down''])]"

definition ReorderMenuNodeActionSchema :: schema where
  "ReorderMenuNodeActionSchema = ZObject
     [(''payload'', ReorderMenuNodeValidationSchema),
      (''transportOptions'', ZOptional IamTransportOptionsSchema)]"

definition AppResourceActionSchema :: schema where
  "AppResourceActionSchema = ZObject
     [(''id'', ZString),
      (''resourceId'', ZString),
      (''name'', ZString),
      (''description'', ZOptional (ZNullable ZString)),
      (''key'', ZString),
      (''createdAt'', ZDate),
      (''updatedAt'', ZDate)]"

definition ListActionsResponseSchema :: schema where
  "ListActionsResponseSchema = ZObject
     [(''actions'', ZArray AppResourceActionSchema)]"

definition ConsentSchema :: schema where
  "ConsentSchema = ZObject
     [(''id'', ZString),
      (''clientId'', ZString),
      (''userId'', ZNullable ZString),
      (''referenceId'', ZNullable ZString),
      (''scopes'', ZArray ZString),
      (''createdAt'', ZNullable ZDate),
      (''updatedAt'', ZNullable ZDate)]"

definition ListConsentsResponseSchema :: schema where
  "ListConsentsResponseSchema = ZArray ConsentSchema"

definition GetConsentValidationSchema :: schema where
  "GetConsentValidationSchema = ZObject
     [(''id'', ZString)]"

definition DeleteConsentValidationSchema :: schema where
  "DeleteConsentValidationSchema = ZObject
     [(''id'', ZString)]"

definition UpdateConsentScopesValidationSchema :: schema where
  "UpdateConsentScopesValidationSchema = ZObject
     [(''id'', ZString),
      (''scopes'', ZArrayMin 1 ZString)]"

definition UpdateConsentScopesFormSchema :: schema where
  "UpdateConsentScopesFormSchema = UpdateConsentScopesValidationSchema"

definition DeleteConsentActionSchema :: schema where
  "DeleteConsentActionSchema = ZObject
     [(''payload'', DeleteConsentValidationSchema),
      (''transportOptions'', ZOptional IamTransportOptionsSchema)]"

definition UpdateConsentScopesActionSchema :: schema where
  "UpdateConsentScopesActionSchema = ZObject
     [(''payload'', UpdateConsentScopesValidationSchema),
      (''transportOptions'', ZOptional IamTransportOptionsSchema)]"

definition CreateOAuthClientFormSchema :: schema where
  "CreateOAuthClientFormSchema = zpick [''redirect_uris'', ''scope'', ''client_name'', ''client_uri'', ''logo_uri'', ''contacts'', ''tos_uri'', ''policy_uri'', ''software_id'', ''software_version'', ''software_statement'', ''post_logout_redirect_uris'', ''token_endpoint_auth_method'', ''grant_types'', ''response_types'', ''type'', ''client_secret_expires_at'', ''skip_consent'', ''enable_end_session'', ''require_pkce'', ''subject_type'', ''metadata''] OAuthClientBaseSchema"

definition UpdateOAuthClientFormSchema :: schema where
  "UpdateOAuthClientFormSchema = zmerge (zpick [''client_id''] OAuthClientIdSchema) (ZObject
     [(''update'', zmerge (zpick [''scope'', ''client_name'', ''client_uri'', ''logo_uri'', ''contacts'', ''tos_uri'', ''policy_uri'', ''software_id'', ''software_version'', ''software_statement'', ''post_logout_redirect_uris'', ''token_endpoint_auth_method'', ''grant_types'', ''response_types'', ''type'', ''subject_type'', ''require_pkce'', ''skip_consent'', ''enable_end_session''] OAuthClientBaseSchema) (ZObject
     [(''redirect_uris'', ZOptional (ZArrayMin 1 ZUrl))]))])"

definition CreateOAuthClientValidationSchema :: schema where
  "CreateOAuthClientValidationSchema = CreateOAuthClientFormSchema"

definition UpdateOAuthClientValidationSchema :: schema where
  "UpdateOAuthClientValidationSchema = ZObject
     [(''client_id'', ZString),
      (''update'', zpartial OAuthClientBaseSchema)]"

definition DeleteOAuthClientValidationSchema :: schema where
  "DeleteOAuthClientValidationSchema = ZObject
     [(''client_id'', ZString)]"

definition GetOAuthClientValidationSchema :: schema where
  "GetOAuthClientValidationSchema = ZObject
     [(''client_id'', ZString)]"

definition GetOAuthClientsValidationSchema :: schema where
  "GetOAuthClientsValidationSchema = ZObject []"

definition CreateOAuthClientActionSchema :: schema where
  "CreateOAuthClientActionSchema = ZObject
     [(''payload'', CreateOAuthClientFormSchema),
      (''transportOptions'', ZOptional IamTransportOptionsSchema)]"

definition UpdateOAuthClientActionSchema :: schema where
  "UpdateOAuthClientActionSchema = ZObject
     [(''payload'', UpdateOAuthClientValidationSchema),
      (''transportOptions'', ZOptional IamTransportOptionsSchema)]"

definition DeleteOAuthClientActionSchema :: schema where
  "DeleteOAuthClientActionSchema = ZObject
     [(''payload'', DeleteOAuthClientValidationSchema),
      (''transportOptions'', ZOptional IamTransportOptionsSchema)]"

definition GetOAuthClientActionSchema :: schema where
  "GetOAuthClientActionSchema = ZObject
     [(''payload'', GetOAuthClientValidationSchema),
      (''transportOptions'', ZOptional IamTransportOptionsSchema)]"

definition GetOAuthClientsActionSchema :: schema where
  "GetOAuthClientsActionSchema = ZObject
     [(''transportOptions'', ZOptional IamTransportOptionsSchema)]"

definition CreateOAuthClientResponseDtoSchema :: schema where
  "CreateOAuthClientResponseDtoSchema = zmerge (zpick [''client_secret'', ''client_secret_expires_at'', ''scope'', ''client_id_issued_at'', ''client_name'', ''client_uri'', ''logo_uri'', ''contacts'', ''tos_uri'', ''policy_uri'', ''software_id'', ''software_version'', ''software_statement'', ''redirect_uris'', ''post_logout_redirect_uris'', ''token_endpoint_auth_method'', ''grant_types'', ''response_types'', ''public'', ''type'', ''disabled'', ''skip_consent'', ''enable_end_session'', ''require_pkce'', ''subject_type'', ''metadata''] OAuthClientBaseSchema) (zpick [''client_id'', ''user_id''] OAuthClientIdSchema)"

definition GetOAuthClientResponseDtoSchema :: schema where
  "GetOAuthClientResponseDtoSchema = CreateOAuthClientResponseDtoSchema"

definition GetOAuthClientsResponseDtoSchema :: schema where
  "GetOAuthClientsResponseDtoSchema = ZArray CreateOAuthClientResponseDtoSchema"

definition DeleteOAuthClientResponseDtoSchema :: schema where
  "DeleteOAuthClientResponseDtoSchema = ZObject
     [(''success'', ZBool)]"

definition RotateClientSecretValidationSchema :: schema where
  "RotateClientSecretValidationSchema = ZObject
     [(''client_id'', ZString)]"

definition RotateClientSecretActionSchema :: schema where
  "RotateClientSecretActionSchema = ZObject
     [(''payload'', RotateClientSecretValidationSchema),
      (''transportOptions'', ZOptional IamTransportOptionsSchema)]"

definition OrgMemberSchema :: schema where
  "OrgMemberSchema = ZObject
     [(''id'', ZString),
      (''organizationId'', ZString),
      (''userId'', ZString),
      (''role'', ZString),
      (''createdAt'', ZDate),
      (''user'', ZObject
     [(''id'', ZString),
      (''name'', ZString),
      (''email'', ZEmail),
      (''image'', ZOptional (ZNullable ZString))])]"

definition OrgInvitationSchema :: schema where
  "OrgInvitationSchema = ZObject
     [(''id'', ZString),
      (''organizationId'', ZString),
      (''email'', ZString),
      (''role'', ZOptional (ZNullable ZString)),
      (''status'', ZString),
      (''expiresAt'', ZDate),
      (''createdAt'', ZDate),
      (''inviterId'', ZString),
      (''teamId'', ZOptional (ZNullable ZString)),
      (''user'', ZObject
     [(''name'', ZString),
      (''email'', ZEmail)])]"

definition OrgTeamMemberSchema :: schema where
  "OrgTeamMemberSchema = ZObject
     [(''id'', ZString),
      (''teamId'', ZString),
      (''userId'', ZString),
      (''createdAt'', ZOptional (ZNullable ZDate)),
      (''user'', ZObject
     [(''id'', ZString),
      (''name'', ZString),
      (''email'', ZEmail),
      (''image'', ZOptional (ZNullable ZString))])]"

definition OrgTeamSchema :: schema where
  "OrgTeamSchema = ZObject
     [(''id'', ZString),
      (''name'', ZString),
      (''organizationId'', ZString),
      (''createdAt'', ZDate),
      (''updatedAt'', ZOptional (ZNullable ZDate)),
      (''teammembers'', ZArray OrgTeamMemberSchema)]"

definition OrganizationSummarySchema :: schema where
  "OrganizationSummarySchema = ZObject
     [(''id'', ZString),
      (''name'', ZString),
      (''slug'', ZString),
      (''logo'', ZOptional (ZNullable ZString)),
      (''createdAt'', ZDate),
      (''metadata'', ZOptional (ZNullable ZString)),
      (''memberCount'', ZNumber),
      (''teamCount'', ZNumber)]"

definition OrganizationDetailSchema :: schema where
  "OrganizationDetailSchema = ZObject
     [(''id'', ZString),
      (''name'', ZString),
      (''slug'', ZString),
      (''logo'', ZOptional (ZNullable ZString)),
      (''createdAt'', ZDate),
      (''metadata'', ZOptional (ZNullable ZString)),
      (''members'', ZArray OrgMemberSchema),
      (''invitations'', ZArray OrgInvitationSchema),
      (''teams'', ZArray OrgTeamSchema)]"

definition ListOrganizationsResponseSchema :: schema where
  "ListOrganizationsResponseSchema = ZObject
     [(''organizations'', ZArray OrganizationSummarySchema)]"

definition CreateOrganizationValidationSchema :: schema where
  "CreateOrganizationValidationSchema = ZObject
     [(''name'', ZNonEmpty),
      (''slug'', ZRefine ZNonEmpty (matches dash_char)),
      (''logo'', ZUnion [ZOptional ZUrl, ZLiteral (JStr '''')]),
      (''metadata'', ZOptional ZString)]"

definition CreateOrganizationActionSchema :: schema where
  "CreateOrganizationActionSchema = ZObject
     [(''payload'', CreateOrganizationValidationSchema),
      (''transportOptions'', ZOptional IamTransportOptionsSchema)]"

definition UpdateOrganizationValidationSchema :: schema where
  "UpdateOrganizationValidationSchema = ZObject
     [(''organizationId'', ZString),
      (''name'', ZOptional ZNonEmpty),
      (''slug'', ZOptional (ZRefine ZNonEmpty (matches dash_char))),
      (''logo'', ZUnion [ZOptional ZUrl, ZLiteral (JStr '''')]),
      (''metadata'', ZOptional ZString)]"

definition UpdateOrganizationActionSchema :: schema where
  "UpdateOrganizationActionSchema = ZObject
     [(''payload'', UpdateOrganizationValidationSchema),
      (''transportOptions'', ZOptional IamTransportOptionsSchema)]"

definition DeleteOrganizationValidationSchema :: schema where
  "DeleteOrganizationValidationSchema = ZObject
     [(''organizationId'', ZString)]"

definition DeleteOrganizationActionSchema :: schema where
  "DeleteOrganizationActionSchema = ZObject
     [(''payload'', DeleteOrganizationValidationSchema),
      (''transportOptions'', ZOptional IamTransportOptionsSchema)]"

definition AddMemberValidationSchema :: schema where
  "AddMemberValidationSchema = ZObject
     [(''organizationId'', ZString),
      (''email'', ZEmail),
      (''roles'', ZArrayMin 1 ZString)]"

definition AddMemberActionSchema :: schema where
  "AddMemberActionSchema = ZObject
     [(''payload'', AddMemberValidationSchema),
      (''transportOptions'', ZOptional IamTransportOptionsSchema)]"

definition AddMemberServiceSchema :: schema where
  "AddMemberServiceSchema = ZObject
     [(''organizationId'', ZString),
      (''userId'', ZString),
      (''roles'', ZArray ZString)]"

definition UpdateMemberRoleValidationSchema :: schema where
  "UpdateMemberRoleValidationSchema = ZObject
     [(''memberId'', ZString),
      (''organizationId'', ZString),
      (''roles'', ZArrayMin 1 ZString),
      (''redirectUrls'', ZDefault (ZOptional (ZRecordOf ZString)) (JObj []))]"

definition UpdateMemberRoleActionSchema :: schema where
  "UpdateMemberRoleActionSchema = ZObject
     [(''payload'', UpdateMemberRoleValidationSchema),
      (''transportOptions'', ZOptional IamTransportOptionsSchema)]"

definition RemoveMemberValidationSchema :: schema where
  "RemoveMemberValidationSchema = ZObject
     [(''memberId'', ZString),
      (''organizationId'', ZString)]"

definition RemoveMemberActionSchema :: schema where
  "RemoveMemberActionSchema = ZObject
     [(''payload'', RemoveMemberValidationSchema),
      (''transportOptions'', ZOptional IamTransportOptionsSchema)]"

definition CreateInvitationValidationSchema :: schema where
  "CreateInvitationValidationSchema = ZObject
     [(''organizationId'', ZString),
      (''email'', ZEmail),
      (''role'', ZDefault (ZEnum [''member'', ''admin'', ''owner'']) (JStr ''member'')),
      (''teamId'', ZOptional ZString)]"

definition CreateInvitationActionSchema :: schema where
  "CreateInvitationActionSchema = ZObject
     [(''payload'', CreateInvitationValidationSchema),
      (''transportOptions'', ZOptional IamTransportOptionsSchema)]"

definition CancelInvitationValidationSchema :: schema where
  "CancelInvitationValidationSchema = ZObject
     [(''invitationId'', ZString),
      (''organizationId'', ZString)]"

definition CancelInvitationActionSchema :: schema where
  "CancelInvitationActionSchema = ZObject
     [(''payload'', CancelInvitationValidationSchema),
      (''transportOptions'', ZOptional IamTransportOptionsSchema)]"

definition CreateTeamValidationSchema :: schema where
  "CreateTeamValidationSchema = ZObject
     [(''organizationId'', ZString),
      (''name'', ZNonEmpty)]"

definition CreateTeamActionSchema :: schema where
  "CreateTeamActionSchema = ZObject
     [(''payload'', CreateTeamValidationSchema),
      (''transportOptions'', ZOptional IamTransportOptionsSchema)]"

definition UpdateTeamValidationSchema :: schema where
  "UpdateTeamValidationSchema = ZObject
     [(''teamId'', ZString),
      (''organizationId'', ZString),
      (''name'', ZNonEmpty)]"

definition UpdateTeamActionSchema :: schema where
  "UpdateTeamActionSchema = ZObject
     [(''payload'', UpdateTeamValidationSchema),
      (''transportOptions'', ZOptional IamTransportOptionsSchema)]"

definition RemoveTeamValidationSchema :: schema where
  "RemoveTeamValidationSchema = ZObject
     [(''teamId'', ZString),
      (''organizationId'', ZString)]"

definition RemoveTeamActionSchema :: schema where
  "RemoveTeamActionSchema = ZObject
     [(''payload'', RemoveTeamValidationSchema),
      (''transportOptions'', ZOptional IamTransportOptionsSchema)]"

definition AddTeamMemberValidationSchema :: schema where
  "AddTeamMemberValidationSchema = ZObject
     [(''teamId'', ZString),
      (''email'', ZEmail),
      (''organizationId'', ZString)]"

definition AddTeamMemberActionSchema :: schema where
  "AddTeamMemberActionSchema = ZObject
     [(''payload'', AddTeamMemberValidationSchema),
      (''transportOptions'', ZOptional IamTransportOptionsSchema)]"

definition AddTeamMemberServiceSchema :: schema where
  "AddTeamMemberServiceSchema = ZObject
     [(''teamId'', ZString),
      (''userId'', ZString),
      (''organizationId'', ZString)]"

definition RemoveTeamMemberValidationSchema :: schema where
  "RemoveTeamMemberValidationSchema = ZObject
     [(''teamMemberId'', ZString),
      (''organizationId'', ZString)]"

definition RemoveTeamMemberActionSchema :: schema where
  "RemoveTeamMemberActionSchema = ZObject
     [(''payload'', RemoveTeamMemberValidationSchema),
      (''transportOptions'', ZOptional IamTransportOptionsSchema)]"

definition OrgRoleSchema :: schema where
  "OrgRoleSchema = ZObject
     [(''role'', ZString),
      (''permissions'', ZArray ZString),
      (''createdAt'', ZDate)]"

definition ListOrgRolesResponseSchema :: schema where
  "ListOrgRolesResponseSchema = ZObject
     [(''roles'', ZArray OrgRoleSchema)]"

definition CreateOrgRoleValidationSchema :: schema where
  "CreateOrgRoleValidationSchema = ZObject
     [(''organizationId'', ZString),
      (''role'', ZRefine (ZLength (Some 1) (Some 64)) (matches slug_char)),
      (''permissions'', ZArrayMin 1 ZString)]"

definition CreateOrgRoleActionSchema :: schema where
  "CreateOrgRoleActionSchema = ZObject
     [(''payload'', CreateOrgRoleValidationSchema),
      (''transportOptions'', ZOptional IamTransportOptionsSchema)]"

definition UpdateOrgRoleValidationSchema :: schema where
  "UpdateOrgRoleValidationSchema = ZObject
     [(''organizationId'', ZString),
      (''role'', ZNonEmpty),
      (''permissions'', ZArrayMin 1 ZString)]"

definition UpdateOrgRoleActionSchema :: schema where
  "UpdateOrgRoleActionSchema = ZObject
     [(''payload'', UpdateOrgRoleValidationSchema),
      (''transportOptions'', ZOptional IamTransportOptionsSchema)]"

definition DeleteOrgRoleValidationSchema :: schema where
  "DeleteOrgRoleValidationSchema = ZObject
     [(''organizationId'', ZString),
      (''role'', ZNonEmpty)]"

definition DeleteOrgRoleActionSchema :: schema where
  "DeleteOrgRoleActionSchema = ZObject
     [(''payload'', DeleteOrgRoleValidationSchema),
      (''transportOptions'', ZOptional IamTransportOptionsSchema)]"

definition PreferenceScopeSchema :: schema where
  "PreferenceScopeSchema = ZEnum [''GLOBAL'', ''COUNTRY'']"

definition PreferenceTemplateSchema :: schema where
  "PreferenceTemplateSchema = ZObject
     [(''id'', ZString),
      (''scope'', PreferenceScopeSchema),
      (''country'', ZOptional (ZNullable ZString)),
      (''timezone'', ZOptional (ZNullable ZString)),
      (''dateFormat'', ZOptional (ZNullable ZString)),
      (''timeFormat'', ZOptional (ZNullable ZString)),
      (''currency'', ZOptional (ZNullable ZString)),
      (''numberFormat'', ZOptional (ZNullable ZString)),
      (''weekStart'', ZOptional (ZNullable ZString)),
      (''createdAt'', ZDate),
      (''updatedAt'', ZDate)]"

definition ListPreferenceTemplatesResponseSchema :: schema where
  "ListPreferenceTemplatesResponseSchema = ZObject
     [(''templates'', ZArray PreferenceTemplateSchema),
      (''total'', ZNumber)]"

definition CreatePreferenceTemplateFormSchema :: schema where
  "CreatePreferenceTemplateFormSchema = ZRefine (ZObject
     [(''scope'', PreferenceScopeSchema),
      (''country'', ZOptional ZString),
      (''timezone'', ZNonEmpty),
      (''dateFormat'', ZNonEmpty),
      (''timeFormat'', ZNonEmpty),
      (''currency'', ZNonEmpty),
      (''numberFormat'', ZNonEmpty),
      (''weekStart'', ZNonEmpty)]) country_given"

definition CreatePreferenceTemplateValidationSchema :: schema where
  "CreatePreferenceTemplateValidationSchema = CreatePreferenceTemplateFormSchema"

definition CreatePreferenceTemplateActionSchema :: schema where
  "CreatePreferenceTemplateActionSchema = ZObject
     [(''payload'', CreatePreferenceTemplateFormSchema),
      (''transportOptions'', ZOptional IamTransportOptionsSchema)]"

definition UpdatePreferenceTemplateFormSchema :: schema where
  "UpdatePreferenceTemplateFormSchema = ZRefine (ZObject
     [(''scope'', PreferenceScopeSchema),
      (''country'', ZOptional ZString),
      (''timezone'', ZNonEmpty),
      (''dateFormat'', ZNonEmpty),
      (''timeFormat'', ZNonEmpty),
      (''currency'', ZNonEmpty),
      (''numberFormat'', ZNonEmpty),
      (''weekStart'', ZNonEmpty)]) country_given"

definition UpdatePreferenceTemplateValidationSchema :: schema where
  "UpdatePreferenceTemplateValidationSchema = ZAnd UpdatePreferenceTemplateFormSchema (ZObject
     [(''id'', ZNonEmpty)])"

definition UpdatePreferenceTemplateActionSchema :: schema where
  "UpdatePreferenceTemplateActionSchema = ZObject
     [(''payload'', UpdatePreferenceTemplateValidationSchema),
      (''transportOptions'', ZOptional IamTransportOptionsSchema)]"

definition DeletePreferenceTemplateValidationSchema :: schema where
  "DeletePreferenceTemplateValidationSchema = ZObject
     [(''id'', ZNonEmpty)]"

definition DeletePreferenceTemplateActionSchema :: schema where
  "DeletePreferenceTemplateActionSchema = ZObject
     [(''payload'', DeletePreferenceTemplateValidationSchema),
      (''transportOptions'', ZOptional IamTransportOptionsSchema)]"

definition ResourceSchema :: schema where
  "ResourceSchema = ZObject
     [(''id'', ZString),
      (''name'', ZString),
      (''description'', ZOptional (ZNullable ZString)),
      (''actionsCount'', ZDefault ZNumber (JInt 0)),
      (''createdAt'', ZDate),
      (''updatedAt'', ZDate)]"

definition ListResourcesResponseSchema :: schema where
  "ListResourcesResponseSchema = ZObject
     [(''resources'', ZArray ResourceSchema)]"

definition CreateResourceFormSchema :: schema where
  "CreateResourceFormSchema = ZObject
     [(''name'', ZNonEmpty),
      (''description'', ZOptional ZString)]"

definition CreateResourceValidationSchema :: schema where
  "CreateResourceValidationSchema = ZObject
     [(''name'', ZNonEmpty),
      (''description'', ZOptional ZString)]"

definition CreateResourceInput :: schema where
  "CreateResourceInput = ZObject
     [(''payload'', CreateResourceValidationSchema),
      (''transportOptions'', ZOptional IamTransportOptionsSchema)]"

definition UpdateResourceFormSchema :: schema where
  "UpdateResourceFormSchema = ZObject
     [(''name'', ZNonEmpty),
      (''description'', ZOptional ZString)]"

definition UpdateResourceValidationSchema :: schema where
  "UpdateResourceValidationSchema = ZObject
     [(''id'', ZNonEmpty),
      (''name'', ZOptional ZNonEmpty),
      (''description'', ZOptional (ZNullable ZString))]"

definition UpdateResourceInput :: schema where
  "UpdateResourceInput = ZObject
     [(''payload'', UpdateResourceValidationSchema),
      (''transportOptions'', ZOptional IamTransportOptionsSchema)]"

definition DeleteResourceValidationSchema :: schema where
  "DeleteResourceValidationSchema = ZObject
     [(''id'', ZNonEmpty)]"

definition DeleteResourceInput :: schema where
  "DeleteResourceInput = ZObject
     [(''payload'', DeleteResourceValidationSchema),
      (''transportOptions'', ZOptional IamTransportOptionsSchema)]"

definition ResourceActionSchema :: schema where
  "ResourceActionSchema = ZObject
     [(''id'', ZString),
      (''resourceId'', ZString),
      (''resourceName'', ZOptional ZString),
      (''name'', ZString),
      (''description'', ZOptional (ZNullable ZString)),
      (''key'', ZString),
      (''createdAt'', ZDate),
      (''updatedAt'', ZDate)]"

definition ListResourceActionsResponseSchema :: schema where
  "ListResourceActionsResponseSchema = ZObject
     [(''actions'', ZArray ResourceActionSchema)]"

definition CreateResourceActionFormSchema :: schema where
  "CreateResourceActionFormSchema = ZObject
     [(''resourceId'', ZNonEmpty),
      (''name'', ZNonEmpty),
      (''description'', ZOptional ZString),
      (''key'', ZRefine ZNonEmpty (matches key_char))]"

definition CreateResourceActionValidationSchema :: schema where
  "CreateResourceActionValidationSchema = ZObject
     [(''resourceId'', ZNonEmpty),
      (''name'', ZNonEmpty),
      (''description'', ZOptional ZString),
      (''key'', ZNonEmpty)]"

definition CreateResourceActionInput :: schema where
  "CreateResourceActionInput = ZObject
     [(''payload'', CreateResourceActionValidationSchema),
      (''transportOptions'', ZOptional IamTransportOptionsSchema)]"

definition UpdateResourceActionFormSchema :: schema where
  "UpdateResourceActionFormSchema = ZObject
     [(''name'', ZNonEmpty),
      (''description'', ZOptional ZString),
      (''key'', ZRefine ZNonEmpty (matches key_char))]"

definition UpdateResourceActionValidationSchema :: schema where
  "UpdateResourceActionValidationSchema = ZObject
     [(''id'', ZNonEmpty),
      (''name'', ZOptional ZNonEmpty),
      (''description'', ZOptional (ZNullable ZString)),
      (''key'', ZOptional ZNonEmpty)]"

definition UpdateResourceActionInput :: schema where
  "UpdateResourceActionInput = ZObject
     [(''payload'', UpdateResourceActionValidationSchema),
      (''transportOptions'', ZOptional IamTransportOptionsSchema)]"

definition DeleteResourceActionValidationSchema :: schema where
  "DeleteResourceActionValidationSchema = ZObject
     [(''id'', ZNonEmpty)]"

definition DeleteResourceActionInput :: schema where
  "DeleteResourceActionInput = ZObject
     [(''payload'', DeleteResourceActionValidationSchema),
      (''transportOptions'', ZOptional IamTransportOptionsSchema)]"

definition SessionWithUserSchema :: schema where
  "SessionWithUserSchema = ZObject
     [(''id'', ZString),
      (''userId'', ZString),
      (''token'', ZString),
      (''expiresAt'', ZDate),
      (''createdAt'', ZDate),
      (''updatedAt'', ZDate),
      (''ipAddress'', ZOptional (ZNullable ZString)),
      (''userAgent'', ZOptional (ZNullable ZString)),
      (''impersonatedBy'', ZOptional (ZNullable ZString)),
      (''user'', ZObject
     [(''id'', ZString),
      (''name'', ZString),
      (''email'', ZEmail),
      (''image'', ZOptional (ZNullable ZString)),
      (''role'', ZOptional (ZNullable ZString))])]"

definition GetAllSessionsResponseDtoSchema :: schema where
  "GetAllSessionsResponseDtoSchema = ZObject
     [(''sessions'', ZArray SessionWithUserSchema)]"

definition RevokeSessionValidationSchema :: schema where
  "RevokeSessionValidationSchema = ZObject
     [(''sessionToken'', ZString)]"

definition RevokeSessionActionSchema :: schema where
  "RevokeSessionActionSchema = ZObject
     [(''payload'', RevokeSessionValidationSchema),
      (''transportOptions'', ZOptional IamTransportOptionsSchema)]"

definition RevokeAllSessionsActionSchema :: schema where
  "RevokeAllSessionsActionSchema = ZObject
     [(''transportOptions'', ZOptional IamTransportOptionsSchema)]"

definition UserContextListItemSchema :: schema where
  "UserContextListItemSchema = ZObject
     [(''userId'', ZString),
      (''userName'', ZString),
      (''userEmail'', ZString),
      (''userImage'', ZOptional (ZNullable ZString)),
      (''contextId'', ZOptional (ZNullable ZString)),
      (''activeOrganizationId'', ZOptional (ZNullable ZString)),
      (''activeOrganizationName'', ZOptional (ZNullable ZString)),
      (''activeRoleId'', ZOptional (ZNullable ZString)),
      (''activeRoleName'', ZOptional (ZNullable ZString))]"

definition ListUserContextsResponseSchema :: schema where
  "ListUserContextsResponseSchema = ZObject
     [(''items'', ZArray UserContextListItemSchema)]"

definition UserOrgMembershipSchema :: schema where
  "UserOrgMembershipSchema = ZObject
     [(''organizationId'', ZString),
      (''organizationName'', ZString),
      (''role'', ZString)]"

definition GetUserOrgMembershipsResponseSchema :: schema where
  "GetUserOrgMembershipsResponseSchema = ZObject
     [(''memberships'', ZArray UserOrgMembershipSchema)]"

definition OrgRoleForContextSchema :: schema where
  "OrgRoleForContextSchema = ZObject
     [(''id'', ZString),
      (''role'', ZString)]"

definition GetOrgRolesForContextResponseSchema :: schema where
  "GetOrgRolesForContextResponseSchema = ZObject
     [(''roles'', ZArray OrgRoleForContextSchema)]"

definition SetUserContextValidationSchema :: schema where
  "SetUserContextValidationSchema = ZObject
     [(''userId'', ZString),
      (''activeOrganizationId'', ZNonEmpty),
      (''activeRoleId'', ZNonEmpty)]"

definition SetUserContextActionSchema :: schema where
  "SetUserContextActionSchema = ZObject
     [(''payload'', SetUserContextValidationSchema),
      (''transportOptions'', ZOptional IamTransportOptionsSchema)]"

definition UserSchema :: schema where
  "UserSchema = ZObject
     [(''id'', ZString),
      (''name'', ZString),
      (''email'', ZEmail),
      (''emailVerified'', ZBool),
      (''image'', ZOptional (ZNullable ZString)),
      (''createdAt'', ZDate),
      (''updatedAt'', ZDate),
      (''username'', ZOptional (ZNullable ZString)),
      (''displayUsername'', ZOptional (ZNullable ZString)),
      (''role'', ZOptional (ZNullable ZString)),
      (''banned'', ZOptional (ZNullable ZBool)),
      (''banReason'', ZOptional (ZNullable ZString)),
      (''banExpires'', ZOptional (ZNullable ZDate)),
      (''twoFactorEnabled'', ZOptional (ZNullable ZBool))]"

definition UserSessionSchema :: schema where
  "UserSessionSchema = ZObject
     [(''id'', ZString),
      (''userId'', ZString),
      (''token'', ZString),
      (''expiresAt'', ZDate),
      (''createdAt'', ZDate),
      (''updatedAt'', ZDate),
      (''ipAddress'', ZOptional (ZNullable ZString)),
      (''userAgent'', ZOptional (ZNullable ZString)),
      (''impersonatedBy'', ZOptional (ZNullable ZString))]"

definition GetUsersResponseDtoSchema :: schema where
  "GetUsersResponseDtoSchema = ZObject
     [(''users'', ZArray UserSchema),
      (''total'', ZNumber),
      (''limit'', ZOptional (ZNullable ZNumber)),
      (''offset'', ZOptional (ZNullable ZNumber))]"

definition CreateUserFormSchema :: schema where
  "CreateUserFormSchema = ZObject
     [(''name'', ZNonEmpty),
      (''email'', ZEmail),
      (''username'', ZUnion [ZOptional (ZRefine (ZLength (Some 3) None) (matches slug_char)), ZLiteral (JStr '''')]),
      (''password'', ZLength (Some 8) None),
      (''role'', ZDefault (ZEnum [''guest'', ''admin'', ''superadmin'']) (JStr ''guest''))]"

definition CreateUserValidationSchema :: schema where
  "CreateUserValidationSchema = CreateUserFormSchema"

definition CreateUserActionSchema :: schema where
  "CreateUserActionSchema = ZObject
     [(''payload'', CreateUserValidationSchema),
      (''transportOptions'', ZOptional IamTransportOptionsSchema)]"

definition SetUserRoleFormSchema :: schema where
  "SetUserRoleFormSchema = ZObject
     [(''role'', ZEnum [''guest'', ''admin'', ''superadmin''])]"

definition SetUserRoleValidationSchema :: schema where
  "SetUserRoleValidationSchema = ZObject
     [(''userId'', ZString),
      (''role'', ZEnum [''guest'', ''admin'', ''superadmin''])]"

definition SetUserRoleActionSchema :: schema where
  "SetUserRoleActionSchema = ZObject
     [(''payload'', SetUserRoleValidationSchema),
      (''transportOptions'', ZOptional IamTransportOptionsSchema)]"

definition BanUserFormSchema :: schema where
  "BanUserFormSchema = ZObject
     [(''banReason'', ZOptional ZString),
      (''banExpiresInDays'', ZDefault (ZRange (Some 0) None) (JInt 0))]"

definition BanUserValidationSchema :: schema where
  "BanUserValidationSchema = ZObject
     [(''userId'', ZString),
      (''banReason'', ZOptional ZString),
      (''banExpiresIn'', ZOptional ZNumber)]"

definition BanUserActionSchema :: schema where
  "BanUserActionSchema = ZObject
     [(''payload'', BanUserValidationSchema),
      (''transportOptions'', ZOptional IamTransportOptionsSchema)]"

definition UnbanUserValidationSchema :: schema where
  "UnbanUserValidationSchema = ZObject
     [(''userId'', ZString)]"

definition UnbanUserActionSchema :: schema where
  "UnbanUserActionSchema = ZObject
     [(''payload'', UnbanUserValidationSchema),
      (''transportOptions'', ZOptional IamTransportOptionsSchema)]"

definition RemoveUserValidationSchema :: schema where
  "RemoveUserValidationSchema = ZObject
     [(''userId'', ZString)]"

definition RemoveUserActionSchema :: schema where
  "RemoveUserActionSchema = ZObject
     [(''payload'', RemoveUserValidationSchema),
      (''transportOptions'', ZOptional IamTransportOptionsSchema)]"

definition SetUserPasswordFormSchema :: schema where
  "SetUserPasswordFormSchema = ZRefine (ZObject
     [(''newPassword'', ZLength (Some 8) None),
      (''confirmPassword'', ZLength (Some 8) None)]) same_passwords"

definition SetUserPasswordValidationSchema :: schema where
  "SetUserPasswordValidationSchema = ZObject
     [(''userId'', ZString),
      (''newPassword'', ZLength (Some 8) None)]"

definition SetUserPasswordActionSchema :: schema where
  "SetUserPasswordActionSchema = ZObject
     [(''payload'', SetUserPasswordValidationSchema),
      (''transportOptions'', ZOptional IamTransportOptionsSchema)]"

definition RevokeUserSessionsValidationSchema :: schema where
  "RevokeUserSessionsValidationSchema = ZObject
     [(''userId'', ZString)]"

definition RevokeUserSessionsActionSchema :: schema where
  "RevokeUserSessionsActionSchema = ZObject
     [(''payload'', RevokeUserSessionsValidationSchema),
      (''transportOptions'', ZOptional IamTransportOptionsSchema)]"

definition UpdateUserFormSchema :: schema where
  "UpdateUserFormSchema = ZObject
     [(''name'', ZNonEmpty),
      (''email'', ZEmail),
      (''username'', ZUnion [ZOptional (ZRefine (ZLength (Some 3) None) (matches slug_char)), ZLiteral (JStr '''')]),
      (''image'', ZUnion [ZOptional ZUrl, ZLiteral (JStr '''')])]"

definition UpdateUserValidationSchema :: schema where
  "UpdateUserValidationSchema = ZObject
     [(''userId'', ZString),
      (''data'', ZObject
     [(''name'', ZOptional ZNonEmpty),
      (''email'', ZOptional ZEmail),
      (''username'', ZNullable (ZOptional ZString)),
      (''image'', ZNullable (ZOptional ZUrl))])]"

definition UpdateUserActionSchema :: schema where
  "UpdateUserActionSchema = ZObject
     [(''payload'', UpdateUserValidationSchema),
      (''transportOptions'', ZOptional IamTransportOptionsSchema)]"

definition ImpersonateUserValidationSchema :: schema where
  "ImpersonateUserValidationSchema = ZObject
     [(''userId'', ZString)]"

definition ImpersonateUserActionSchema :: schema where
  "ImpersonateUserActionSchema = ZObject
     [(''payload'', ImpersonateUserValidationSchema),
      (''transportOptions'', ZOptional IamTransportOptionsSchema)]"

end
