(* ===== verification/Iam_Typed.thy ===== *)
theory Iam_Typed
  imports Iam_Procedures Iam_Schemas
begin

text \<open>
  What the identity service's services hand out. They validate the answers of Better Auth and of the
  database with the response schemas of \<^verbatim>\<open>iam/src/modules/entities/schemas/\<close>; here each operation gets the
  schema that its result conforms to. The services name schemas, and \<open>iam_schemas\<close> gives the schema of each
  name; of the validation, which Zod does, only its documented promise is used.
\<close>

subsection \<open>Schemas by name\<close>

definition iam_schemas :: "(string \<times> schema) list" where
  "iam_schemas =
     [(''AddMemberValidationSchema'', AddMemberValidationSchema),
      (''AddTeamMemberValidationSchema'', AddTeamMemberValidationSchema),
      (''ApiKeyCreatedSchema'', ApiKeyCreatedSchema),
      (''ApiKeySchema'', IamApiKeySchema),
      (''AppSchema'', AppSchema),
      (''ApproveCapabilityValidationSchema'', ApproveCapabilityValidationSchema),
      (''BanUserValidationSchema'', BanUserValidationSchema),
      (''CancelInvitationValidationSchema'', CancelInvitationValidationSchema),
      (''CleanupAgentsResponseDtoSchema'', CleanupAgentsResponseDtoSchema),
      (''ConsentSchema'', ConsentSchema),
      (''CreateApiKeyValidationSchema'', CreateApiKeyValidationSchema),
      (''CreateAppValidationSchema'', CreateAppValidationSchema),
      (''CreateHostResponseDtoSchema'', CreateHostResponseDtoSchema),
      (''CreateHostValidationSchema'', CreateHostValidationSchema),
      (''CreateInvitationValidationSchema'', CreateInvitationValidationSchema),
      (''CreateMenuNodeValidationSchema'', CreateMenuNodeValidationSchema),
      (''CreateOAuthClientResponseDtoSchema'', CreateOAuthClientResponseDtoSchema),
      (''CreateOAuthClientValidationSchema'', CreateOAuthClientValidationSchema),
      (''CreateOrgRoleValidationSchema'', CreateOrgRoleValidationSchema),
      (''CreateOrganizationValidationSchema'', CreateOrganizationValidationSchema),
      (''CreatePreferenceTemplateValidationSchema'', CreatePreferenceTemplateValidationSchema),
      (''CreateResourceActionValidationSchema'', CreateResourceActionValidationSchema),
      (''CreateResourceValidationSchema'', CreateResourceValidationSchema),
      (''CreateTeamValidationSchema'', CreateTeamValidationSchema),
      (''CreateUserValidationSchema'', CreateUserValidationSchema),
      (''DeleteApiKeyValidationSchema'', DeleteApiKeyValidationSchema),
      (''DeleteAppValidationSchema'', DeleteAppValidationSchema),
      (''DeleteConsentValidationSchema'', DeleteConsentValidationSchema),
      (''DeleteExpiredApiKeysValidationSchema'', DeleteExpiredApiKeysValidationSchema),
      (''DeleteMenuNodeValidationSchema'', DeleteMenuNodeValidationSchema),
      (''DeleteOAuthClientValidationSchema'', DeleteOAuthClientValidationSchema),
      (''DeleteOrgRoleValidationSchema'', DeleteOrgRoleValidationSchema),
      (''DeleteOrganizationValidationSchema'', DeleteOrganizationValidationSchema),
      (''DeletePreferenceTemplateValidationSchema'', DeletePreferenceTemplateValidationSchema),
      (''DeleteResourceActionValidationSchema'', DeleteResourceActionValidationSchema),
      (''DeleteResourceValidationSchema'', DeleteResourceValidationSchema),
      (''GetAllSessionsResponseDtoSchema'', GetAllSessionsResponseDtoSchema),
      (''GetConsentValidationSchema'', GetConsentValidationSchema),
      (''GetOAuthClientResponseDtoSchema'', GetOAuthClientResponseDtoSchema),
      (''GetOAuthClientsResponseDtoSchema'', GetOAuthClientsResponseDtoSchema),
      (''GetUsersResponseDtoSchema'', GetUsersResponseDtoSchema),
      (''GrantCapabilityResponseDtoSchema'', GrantCapabilityResponseDtoSchema),
      (''GrantCapabilityValidationSchema'', GrantCapabilityValidationSchema),
      (''ImpersonateUserValidationSchema'', ImpersonateUserValidationSchema),
      (''ListActionsResponseSchema'', ListActionsResponseSchema),
      (''ListAgentsResponseDtoSchema'', ListAgentsResponseDtoSchema),
      (''ListApiKeysResponseSchema'', ListApiKeysResponseSchema),
      (''ListAppsResponseSchema'', ListAppsResponseSchema),
      (''ListConsentsResponseSchema'', ListConsentsResponseSchema),
      (''ListHostsResponseDtoSchema'', ListHostsResponseDtoSchema),
      (''ListMenuNodesResponseSchema'', ListMenuNodesResponseSchema),
      (''ListOrgRolesResponseSchema'', ListOrgRolesResponseSchema),
      (''ListOrganizationsResponseSchema'', ListOrganizationsResponseSchema),
      (''ListPendingApprovalsResponseDtoSchema'', ListPendingApprovalsResponseDtoSchema),
      (''ListPreferenceTemplatesResponseSchema'', ListPreferenceTemplatesResponseSchema),
      (''ListResourceActionsResponseSchema'', ListResourceActionsResponseSchema),
      (''ListResourcesResponseSchema'', ListResourcesResponseSchema),
      (''MenuNodeSchema'', MenuNodeSchema),
      (''OrgRoleSchema'', OrgRoleSchema),
      (''OrganizationDetailSchema'', OrganizationDetailSchema),
      (''OrganizationSummarySchema'', OrganizationSummarySchema),
      (''PreferenceTemplateSchema'', PreferenceTemplateSchema),
      (''ReactivateAgentValidationSchema'', ReactivateAgentValidationSchema),
      (''RegisterAgentResponseDtoSchema'', RegisterAgentResponseDtoSchema),
      (''RegisterAgentValidationSchema'', RegisterAgentValidationSchema),
      (''RemoveMemberValidationSchema'', RemoveMemberValidationSchema),
      (''RemoveTeamMemberValidationSchema'', RemoveTeamMemberValidationSchema),
      (''RemoveTeamValidationSchema'', RemoveTeamValidationSchema),
      (''RemoveUserValidationSchema'', RemoveUserValidationSchema),
      (''ReorderMenuNodeValidationSchema'', ReorderMenuNodeValidationSchema),
      (''ResetPasswordDtoSchema'', ResetPasswordDtoSchema),
      (''ResetPasswordValidationSchema'', ResetPasswordValidationSchema),
      (''ResourceActionSchema'', ResourceActionSchema),
      (''ResourceSchema'', ResourceSchema),
      (''RevokeAgentValidationSchema'', RevokeAgentValidationSchema),
      (''RevokeHostValidationSchema'', RevokeHostValidationSchema),
      (''RevokeSessionValidationSchema'', RevokeSessionValidationSchema),
      (''RevokeUserSessionsValidationSchema'', RevokeUserSessionsValidationSchema),
      (''RotateClientSecretValidationSchema'', RotateClientSecretValidationSchema),
      (''SendEmailVerificationDtoSchema'', SendEmailVerificationDtoSchema),
      (''SendMagicLinkDtoSchema'', SendMagicLinkDtoSchema),
      (''SendMagicLinkValidationSchema'', SendMagicLinkValidationSchema),
      (''SendResetPasswordDtoSchema'', SendResetPasswordDtoSchema),
      (''SendResetPasswordValidationSchema'', SendResetPasswordValidationSchema),
      (''SendTwoFactorOTPDtoSchema'', SendTwoFactorOTPDtoSchema),
      (''SendVerificationEmailValidationSchema'', SendVerificationEmailValidationSchema),
      (''SetUserContextValidationSchema'', SetUserContextValidationSchema),
      (''SetUserPasswordValidationSchema'', SetUserPasswordValidationSchema),
      (''SetUserRoleValidationSchema'', SetUserRoleValidationSchema),
      (''SigninResponseDtoSchema'', SigninResponseDtoSchema),
      (''SigninValidationSchema'', SigninValidationSchema),
      (''SigninWithSocialResponseDtoSchema'', SigninWithSocialResponseDtoSchema),
      (''SigninWithSocialValidationSchema'', SigninWithSocialValidationSchema),
      (''SignoutResponseDtoSchema'', SignoutResponseDtoSchema),
      (''SignupResponseDtoSchema'', SignupResponseDtoSchema),
      (''SignupValidationSchema'', SignupValidationSchema),
      (''UnbanUserValidationSchema'', UnbanUserValidationSchema),
      (''UpdateAgentResponseDtoSchema'', UpdateAgentResponseDtoSchema),
      (''UpdateAgentValidationSchema'', UpdateAgentValidationSchema),
      (''UpdateApiKeyValidationSchema'', UpdateApiKeyValidationSchema),
      (''UpdateAppValidationSchema'', UpdateAppValidationSchema),
      (''UpdateConsentScopesValidationSchema'', UpdateConsentScopesValidationSchema),
      (''UpdateHostResponseDtoSchema'', UpdateHostResponseDtoSchema),
      (''UpdateHostValidationSchema'', UpdateHostValidationSchema),
      (''UpdateMemberRoleValidationSchema'', UpdateMemberRoleValidationSchema),
      (''UpdateMenuNodeValidationSchema'', UpdateMenuNodeValidationSchema),
      (''UpdateOAuthClientValidationSchema'', UpdateOAuthClientValidationSchema),
      (''UpdateOrgRoleValidationSchema'', UpdateOrgRoleValidationSchema),
      (''UpdateOrganizationValidationSchema'', UpdateOrganizationValidationSchema),
      (''UpdatePreferenceTemplateValidationSchema'', UpdatePreferenceTemplateValidationSchema),
      (''UpdateResourceActionValidationSchema'', UpdateResourceActionValidationSchema),
      (''UpdateResourceValidationSchema'', UpdateResourceValidationSchema),
      (''UpdateTeamValidationSchema'', UpdateTeamValidationSchema),
      (''UpdateUserPreferenceValidationSchema'', UpdateUserPreferenceValidationSchema),
      (''UpdateUserValidationSchema'', UpdateUserValidationSchema),
      (''UserPreferenceSchema'', UserPreferenceSchema),
      (''UserSchema'', UserSchema),
      (''VerifyTOTPDtoSchema'', VerifyTOTPDtoSchema),
      (''VerifyTOTPValidationSchema'', VerifyTOTPValidationSchema),
      (''VerifyTwoFactorOTPDtoSchema'', VerifyTwoFactorOTPDtoSchema),
      (''VerifyTwoFactorOTPValidationSchema'', VerifyTwoFactorOTPValidationSchema)]"

text \<open>Zod's promise: what \<^verbatim>\<open>parse\<close> returns conforms to the schema.\<close>

definition parses :: "(string \<Rightarrow> json \<Rightarrow> json option) \<Rightarrow> string \<times> schema \<Rightarrow> bool" where
  "parses parse = (\<lambda>(name, s). \<forall>v d. parse name v = Some d \<longrightarrow> conforms s (Some d))"

definition sound_schemas :: "(string \<Rightarrow> json \<Rightarrow> json option) \<Rightarrow> bool" where
  "sound_schemas parse = list_all (parses parse) iam_schemas"

text \<open>The parser of the named schemas that accepts exactly the conforming values, unchanged.\<close>

definition strict_parse :: "string \<Rightarrow> json \<Rightarrow> json option" where
  "strict_parse name v = (if list_all (\<lambda>(n, s). n = name \<longrightarrow> conforms s (Some v)) iam_schemas then Some v else None)"

lemma sound_strict_parse: "sound_schemas strict_parse"
  by (auto simp: sound_schemas_def list_all_iff parses_def strict_parse_def split: if_splits)

subsection \<open>Results\<close>

text \<open>\<open>gives P m\<close>: whatever the world answers, a value that \<open>m\<close> returns satisfies \<open>P\<close>.\<close>

named_theorems gives_rules \<open>results of computations\<close>

definition result_ok :: "('a \<Rightarrow> bool) \<Rightarrow> iam_exn + 'a \<Rightarrow> bool" where
  "result_ok P r = (case r of Inl e \<Rightarrow> True | Inr v \<Rightarrow> P v)"

definition gives :: "('a \<Rightarrow> bool) \<Rightarrow> 'a svc \<Rightarrow> bool" where
  "gives P m = (\<forall>w. yields w m (\<lambda>r es. result_ok P r))"

lemma gives_ret: "P a \<Longrightarrow> gives P (ret a)"
  by (simp add: gives_def result_ok_def yields_ret)

lemma gives_throw [gives_rules]: "gives P (throw e)"
  by (simp add: gives_def result_ok_def yields_throw)

lemma gives_after:
  assumes "gives P m" and "\<And>a. P a \<Longrightarrow> gives Q (f a)"
  shows "gives Q (andThen m f)"
  unfolding gives_def
proof
  fix w
  show "yields w (andThen m f) (\<lambda>r es. result_ok Q r)"
    by (rule yields_andThen [OF assms(1) [unfolded gives_def, rule_format]])
      (use assms(2) in \<open>auto simp: gives_def result_ok_def\<close>)
qed

text \<open>Of a step before the last any value will do, and it need only be well-formed, as quiet steps are.\<close>

definition runs :: "'a svc \<Rightarrow> bool" where
  "runs m = gives (\<lambda>a. True) m"

lemma runs_quiet [gives_rules]: "quiet m \<Longrightarrow> runs m"
  by (auto simp: runs_def only_def gives_def result_ok_def elim!: yields_weaken split: sum.split)

lemma gives_last [gives_rules]: "runs m \<Longrightarrow> (\<And>a. gives Q (f a)) \<Longrightarrow> gives Q (andThen m f)"
  unfolding runs_def by (rule gives_after)

lemma gives_catching:
  assumes "gives P m" and "\<And>e. gives P (f e)"
  shows "gives P (catching m f)"
  unfolding gives_def
proof
  fix w
  show "yields w (catching m f) (\<lambda>r es. result_ok P r)"
    by (rule yields_catching [OF assms(1) [unfolded gives_def, rule_format]])
      (use assms(2) in \<open>auto simp: gives_def result_ok_def\<close>)
qed

lemma runs_log_line: "runs (log_line st name)"
  by (simp add: runs_def gives_def log_line_def result_ok_def yields_emit)

lemma gives_logged [gives_rules]: "gives P m \<Longrightarrow> gives P (logged name mapErr m)"
  unfolding logged_def
  by (rule gives_last [OF runs_log_line], rule gives_catching, erule gives_after)
    (intro gives_last runs_log_line gives_ret gives_throw; assumption)+

lemma gives_if [gives_rules]: "gives P m \<Longrightarrow> gives P m' \<Longrightarrow> gives P (if b then m else m')"
  by simp

lemma gives_cases [gives_rules]:
  "(\<And>a b. gives P (f a b)) \<Longrightarrow> gives P (case x of (a, b) \<Rightarrow> f a b)"
  "(\<And>a b. gives P (g a b)) \<Longrightarrow> gives P (case results of JArr [a, b] \<Rightarrow> g a b | _ \<Rightarrow> throw type_error)"
  by (simp_all add: gives_throw split: prod.split json.split list.split)

lemma gives_weaken: "gives P m \<Longrightarrow> (\<And>a. P a \<Longrightarrow> Q a) \<Longrightarrow> gives Q m"
  unfolding gives_def by (auto simp: result_ok_def intro: yields_weaken split: sum.splits)

text \<open>A value that a schema has parsed.\<close>

abbreviation of_schema :: "schema \<Rightarrow> json \<Rightarrow> bool" where
  "of_schema s v \<equiv> conforms s (Some v)"

lemma gives_zod: "parses parse (name, s) \<Longrightarrow> gives (of_schema s) (zod parse name v)"
  by (auto simp: parses_def zod_def intro: gives_throw gives_ret split: option.split)

lemma gives_zod_of: "parses parse (name, s) \<Longrightarrow> gives (of_schema s) (zod_of parse name v)"
  by (simp add: zod_of_def gives_throw gives_zod split: option.split)

text \<open>The answer of the operations that only report success.\<close>

definition success_schema :: schema where
  "success_schema = ZObject [(''success'', ZBool)]"

lemma gives_success [gives_rules]: "gives (of_schema success_schema) (ret success)"
  by (simp add: success_schema_def success_def gives_ret)

subsection \<open>Shapes of operations\<close>

lemmas gives_parse [gives_rules] = gives_zod gives_zod_of

lemma gives_parsed_call [gives_rules]:
  "parses parse (name, s) \<Longrightarrow> gives (of_schema s) (parsed_call parse f args name)"
  unfolding parsed_call_def by (intro gives_rules quiet_rules)

lemma gives_parsed_field [gives_rules]:
  "parses parse (name, s) \<Longrightarrow> gives (of_schema s) (parsed_field parse f args k name)"
  unfolding parsed_field_def by (intro gives_rules quiet_rules)

lemma gives_renamed_field [gives_rules]:
  "parses parse (name, s) \<Longrightarrow> gives (of_schema s) (renamed_field parse f args k k' name)"
  unfolding renamed_field_def by (intro gives_rules quiet_rules)

lemma gives_mapped_rows [gives_rules]:
  "parses parse (name, s) \<Longrightarrow> (\<And>j. quiet (f j)) \<Longrightarrow> gives (of_schema s) (mapped_rows parse name k f rows)"
  unfolding mapped_rows_def by (intro gives_rules quiet_rules)

lemma gives_node_result [gives_rules]:
  "parses parse (''MenuNodeSchema'', s) \<Longrightarrow> gives (of_schema s) (node_result parse node)"
  unfolding node_result_def by (intro gives_rules quiet_rules)

lemma gives_simple_call [gives_rules]: "gives (of_schema success_schema) (simple_call f kvs)"
  unfolding simple_call_def by (intro gives_rules quiet_rules)

text \<open>The session next to the impersonated user, and a preference that a user need not have.\<close>

definition impersonation_schema :: schema where
  "impersonation_schema = ZObject [(''session'', ZOptional ZUnknown), (''user'', UserSchema)]"

lemma gives_impersonation:
  assumes "parses parse (''UserSchema'', UserSchema)"
  shows "gives (of_schema impersonation_schema) (impersonateUser base parse payload)"
  unfolding impersonateUser_def
  by (intro gives_logged gives_last [OF runs_quiet [OF quiet_call]] gives_last [OF runs_quiet [OF only_rd]]
      gives_after [OF gives_zod_of [OF assms]] gives_ret) (auto simp: impersonation_schema_def jobj_def split: option.split)

lemma gives_preference:
  assumes "parses parse (''UserPreferenceSchema'', UserPreferenceSchema)"
  shows "gives (of_schema (ZNullable UserPreferenceSchema)) (getUserPreference parse userId)"
proof -
  have "gives (of_schema (ZNullable UserPreferenceSchema)) (zod parse ''UserPreferenceSchema'' row)" for row
    by (rule gives_weaken [OF gives_zod [OF assms]]) simp
  then show ?thesis
    unfolding getUserPreference_def by (intro gives_logged gives_last gives_if runs_quiet quiet_call) (simp_all add: gives_ret)
qed

subsection \<open>The services\<close>

text \<open>The operations that answer with validated data or report success, each after the schema of its result.\<close>

definition typed_operations ::
    "iam_env \<Rightarrow> json \<Rightarrow> json \<Rightarrow> string \<Rightarrow> string \<Rightarrow> string option \<Rightarrow> string option \<Rightarrow> string \<Rightarrow> string \<Rightarrow> bool \<Rightarrow>
     string option \<Rightarrow> string \<Rightarrow> (schema \<times> json svc) list" where
  "typed_operations E payload query email provider callbackURL redirect orgId nodeId up resourceId userId =
     [(ListOrganizationsResponseSchema, listOrganizations (en_parse E)),
      (OrganizationDetailSchema, getOrganization (en_base E) (en_parse E) (en_stringify E) (en_now E) orgId),
      (OrganizationSummarySchema, createOrganization (en_base E) (en_parse E) (en_parse_json E) (en_stringify E) payload),
      (OrganizationSummarySchema, updateOrganization (en_base E) (en_parse E) (en_parse_json E) (en_stringify E) payload),
      (success_schema, deleteOrganization (en_base E) payload),
      (success_schema, addMember (en_base E) payload),
      (success_schema, removeMember (en_base E) payload),
      (success_schema, createInvitation (en_base E) payload),
      (success_schema, cancelInvitation (en_base E) payload),
      (success_schema, createTeam (en_base E) payload),
      (success_schema, updateTeam (en_base E) payload),
      (success_schema, removeTeam (en_base E) payload),
      (success_schema, addTeamMember (en_base E) payload),
      (success_schema, removeTeamMember (en_base E) payload),
      (GetUsersResponseDtoSchema, getUsers (en_base E) (en_parse E)),
      (UserSchema, getUserByEmail (en_base E) (en_parse E) email),
      (UserSchema, createUser (en_base E) (en_parse E) payload),
      (UserSchema, updateUser (en_base E) (en_parse E) payload),
      (UserSchema, setUserRole (en_base E) (en_parse E) payload),
      (UserSchema, banUser (en_base E) (en_parse E) payload),
      (UserSchema, unbanUser (en_base E) (en_parse E) payload),
      (impersonation_schema, impersonateUser (en_base E) (en_parse E) payload),
      (GetAllSessionsResponseDtoSchema, getAllSessions (en_base E) (en_parse E)),
      (ListConsentsResponseSchema, listConsents (en_base E) (en_parse E)),
      (ConsentSchema, getConsent (en_base E) (en_parse E) payload),
      (ConsentSchema, updateConsentScopes (en_base E) (en_parse E) payload),
      (success_schema, deleteConsent (en_base E) payload),
      (CreateOAuthClientResponseDtoSchema, createOAuthClient (en_base E) (en_parse E) payload),
      (GetOAuthClientResponseDtoSchema, updateOAuthClient (en_base E) (en_parse E) payload),
      (success_schema, deleteOAuthClient (en_base E) payload),
      (GetOAuthClientResponseDtoSchema, getOAuthClient (en_base E) (en_parse E) payload),
      (GetOAuthClientResponseDtoSchema, rotateClientSecret (en_base E) (en_parse E) payload),
      (GetOAuthClientsResponseDtoSchema, getOAuthClients (en_base E) (en_parse E)),
      (ListAgentsResponseDtoSchema, listAgents (en_base E) (en_parse E)),
      (RegisterAgentResponseDtoSchema, registerAgent (en_base E) (en_parse E) payload),
      (UpdateAgentResponseDtoSchema, updateAgent (en_base E) (en_parse E) payload),
      (success_schema, revokeAgent (en_base E) payload),
      (success_schema, reactivateAgent (en_base E) payload),
      (GrantCapabilityResponseDtoSchema, grantCapability (en_base E) (en_parse E) payload),
      (CleanupAgentsResponseDtoSchema, cleanupAgents (en_base E) (en_parse E)),
      (ListPendingApprovalsResponseDtoSchema, listPendingApprovals (en_base E) (en_parse E)),
      (success_schema, approveCapability (en_base E) payload),
      (ListHostsResponseDtoSchema, listHosts (en_base E) (en_parse E)),
      (CreateHostResponseDtoSchema, createHost (en_base E) (en_parse E) payload),
      (UpdateHostResponseDtoSchema, updateHost (en_base E) (en_parse E) payload),
      (success_schema, revokeHost (en_base E) payload),
      (ListApiKeysResponseSchema, listApiKeys (en_parse E) query),
      (ApiKeyCreatedSchema, createApiKey (en_base E) (en_parse E) (en_parse_json E) payload),
      (IamApiKeySchema, updateApiKey (en_base E) (en_parse E) (en_parse_json E) payload),
      (success_schema, deleteApiKey payload),
      (success_schema, deleteExpiredApiKeys (en_base E) payload),
      (SignupResponseDtoSchema, signUpWithEmail (en_base E) (en_parse E) payload),
      (SigninResponseDtoSchema, signInWithEmail (en_base E) (en_parse E) payload),
      (SigninWithSocialResponseDtoSchema, signInWithSocial (en_base E) (en_parse E) provider callbackURL),
      (SignoutResponseDtoSchema, signOut (en_base E) (en_parse E)),
      (SendEmailVerificationDtoSchema, sendEmailVerification (en_base E) (en_parse E) email callbackURL),
      (SendTwoFactorOTPDtoSchema, sendTwoFactorOTP (en_base E) (en_parse E) payload),
      (VerifyTwoFactorOTPDtoSchema, verifyTwoFactorOTP (en_base E) (en_parse E) payload),
      (VerifyTOTPDtoSchema, verifyTwoFactorTOTP (en_base E) (en_parse E) payload),
      (SendMagicLinkDtoSchema, sendMagicLink (en_base E) (en_parse E) (en_site E) (en_b64 E) email callbackURL),
      (SendResetPasswordDtoSchema, sendResetPassword (en_base E) (en_parse E) (en_site E) (en_enc E) email redirect),
      (ResetPasswordDtoSchema, resetPassword (en_base E) (en_parse E) payload),
      (ListAppsResponseSchema, listApps (en_parse E)),
      (AppSchema, createApp (en_parse E) (en_now E) payload),
      (AppSchema, updateApp (en_parse E) (en_now E) payload),
      (success_schema, deleteApp (en_now E) payload),
      (ListMenuNodesResponseSchema, listMenuNodes (en_parse E) orgId),
      (MenuNodeSchema, createMenuNode (en_parse E) (en_now E) (en_newId E) payload),
      (MenuNodeSchema, updateMenuNode (en_parse E) (en_now E) payload),
      (success_schema, deleteMenuNode payload),
      (success_schema, reorderMenuNode nodeId up),
      (ListActionsResponseSchema, listActions (en_parse E)),
      (ListResourcesResponseSchema, listResources (en_parse E)),
      (ResourceSchema, createResource (en_parse E) payload),
      (ResourceSchema, updateResource (en_parse E) payload),
      (success_schema, deleteResource payload),
      (ListResourceActionsResponseSchema, listResourceActions (en_parse E) resourceId),
      (ResourceActionSchema, createResourceAction (en_parse E) payload),
      (ResourceActionSchema, updateResourceAction (en_parse E) payload),
      (success_schema, deleteResourceAction payload),
      (ListPreferenceTemplatesResponseSchema, listPreferenceTemplates (en_parse E)),
      (PreferenceTemplateSchema, createPreferenceTemplate (en_parse E) (en_newId E) payload),
      (PreferenceTemplateSchema, updatePreferenceTemplate (en_parse E) payload),
      (success_schema, deletePreferenceTemplate payload),
      (success_schema, setUserContext payload),
      (ZNullable UserPreferenceSchema, getUserPreference (en_parse E) userId),
      (UserPreferenceSchema, upsertUserPreference (en_parse E) (en_newId E) payload)]"


text \<open>With the strict parser the hypothesis holds, and results are returned.\<close>

definition strict_env :: iam_env where
  "strict_env = \<lparr>en_base = [], en_parse = strict_parse, en_issues = \<lambda>s v. JNull, en_parse_json = \<lambda>s. None,
     en_stringify = \<lambda>j. [], en_column = \<lambda>v. v, en_now = JStr ''2026-01-01'', en_newId = ''id'', en_site = ''https://iam'',
     en_b64 = id, en_enc = id, en_captcha = False, en_secret = None\<rparr>"

lemma strict_env_simps: "en_parse strict_env = strict_parse" "en_base strict_env = []"
  by (simp_all add: strict_env_def)


end
