(* ===== verification/Client_Tables.thy ===== *)
theory Client_Tables
  imports Fn_Prelude
begin

text \<open>
  The tables of the console (\<^verbatim>\<open>frontend/web/src/modules/client/shared/components/tables/\<close>): the export of rows
  to CSV, JSON, Excel and PDF, the columns chosen in the export dialog, and the filters of columns. What an
  export hands to the browser or to a library is the value of the function. A row is the list of its
  entries, a missing key is undefined.
\<close>

subsection \<open>Exports\<close>

record export_column =
  ec_id :: string
  ec_label :: string

type_synonym export_row = "(string \<times> json) list"

definition quote :: char where
  "quote = CHR 0x22"

text \<open>\<^verbatim>\<open>value == null ? "" : String(value)\<close>.\<close>

definition cell_text :: "json option \<Rightarrow> string" where
  "cell_text v = (case v of None \<Rightarrow> [] | Some JNull \<Rightarrow> [] | Some j \<Rightarrow> js_string j)"

text \<open>\<^verbatim>\<open>str.replace(/"/g, '""')\<close>.\<close>

fun double_quotes :: "string \<Rightarrow> string" where
  "double_quotes [] = []"
| "double_quotes (c # s) = (if c = quote then [quote, quote] else [c]) @ double_quotes s"

definition csv_text :: "string \<Rightarrow> string" where
  "csv_text s = (if CHR '','' \<in> set s \<or> quote \<in> set s \<or> CHR 0x0A \<in> set s
     then [quote] @ double_quotes s @ [quote] else s)"

definition csvCell :: "json option \<Rightarrow> string" where
  "csvCell v = csv_text (cell_text v)"

text \<open>What a browser or a library is given: a file to download, a sheet with its column widths, a document.\<close>

datatype exported =
    Download string string string
  | Workbook "json list list" "nat list" string
  | PdfDoc "string option" nat "string list" "string list list" string

text \<open>The byte order mark in UTF-8.\<close>

definition BOM :: string where
  "BOM = [CHR 0xEF, CHR 0xBB, CHR 0xBF]"

definition csv_header :: "export_column list \<Rightarrow> string" where
  "csv_header cols = join_with '','' (map (\<lambda>c. csvCell (Some (JStr (ec_label c)))) cols)"

definition csv_body :: "export_row list \<Rightarrow> export_column list \<Rightarrow> string" where
  "csv_body rows cols = join_with [CHR 0x0A]
     (map (\<lambda>row. join_with '','' (map (\<lambda>c. csvCell (map_of row (ec_id c))) cols)) rows)"

definition exportToCSV :: "export_row list \<Rightarrow> export_column list \<Rightarrow> string \<Rightarrow> exported" where
  "exportToCSV rows cols filename = Download (BOM @ csv_header cols @ [CHR 0x0A] @ csv_body rows cols)
     (filename @ ''.csv'') ''text/csv;charset=utf-8;''"

text \<open>\<open>stringify\<close> is \<^verbatim>\<open>JSON.stringify(data, null, 2)\<close>; of columns with one label the last one stays.\<close>

definition exportToJSON :: "(json \<Rightarrow> string) \<Rightarrow> export_row list \<Rightarrow> export_column list \<Rightarrow> string \<Rightarrow> exported" where
  "exportToJSON stringify rows cols filename = Download
     (stringify (JArr (map (\<lambda>row. JObj (from_entries
        (map (\<lambda>c. (ec_label c, nullish_or (map_of row (ec_id c)) JNull)) cols))) rows)))
     (filename @ ''.json'') ''application/json''"

text \<open>The widest cell of a column and its label, two more, at most 50.\<close>

definition column_width :: "export_row list \<Rightarrow> export_column \<Rightarrow> nat" where
  "column_width rows c = min (Max (set (length (ec_label c) #
     map (\<lambda>row. length (js_string (nullish_or (map_of row (ec_id c)) (JStr [])))) rows)) + 2) 50"

definition exportToExcel :: "export_row list \<Rightarrow> export_column list \<Rightarrow> string \<Rightarrow> exported" where
  "exportToExcel rows cols filename = Workbook
     (map (\<lambda>c. JStr (ec_label c)) cols # map (\<lambda>row. map (\<lambda>c. nullish_or (map_of row (ec_id c)) (JStr [])) cols) rows)
     (map (column_width rows) cols) (filename @ ''.xlsx'')"

definition exportToPDF :: "export_row list \<Rightarrow> export_column list \<Rightarrow> string \<Rightarrow> string option \<Rightarrow> exported" where
  "exportToPDF rows cols filename title =
     (let t = (case title of Some (c # s) \<Rightarrow> Some (c # s) | _ \<Rightarrow> None)
      in PdfDoc t (if t = None then 14 else 22) (map ec_label cols)
           (map (\<lambda>row. map (\<lambda>c. cell_text (map_of row (ec_id c))) cols) rows) (filename @ ''.pdf''))"

datatype export_format = Csv | Excel | Json | Pdf

definition exportTable ::
    "(json \<Rightarrow> string) \<Rightarrow> export_format \<Rightarrow> export_row list \<Rightarrow> export_column list \<Rightarrow> string \<Rightarrow> string option \<Rightarrow> exported" where
  "exportTable stringify format rows cols filename title = (case format of
     Csv \<Rightarrow> exportToCSV rows cols filename
   | Json \<Rightarrow> exportToJSON stringify rows cols filename
   | Excel \<Rightarrow> exportToExcel rows cols filename
   | Pdf \<Rightarrow> exportToPDF rows cols filename title)"

subsection \<open>The columns of the dialog\<close>

text \<open>A \<^verbatim>\<open>Set\<close> of column ids in insertion order; the last column cannot be taken away.\<close>

definition toggleColumn :: "string \<Rightarrow> string list \<Rightarrow> string list" where
  "toggleColumn i ids = (if i \<in> set ids then (if length ids = 1 then ids else filter (\<lambda>x. x \<noteq> i) ids) else ids @ [i])"

definition selectAllColumns :: "export_column list \<Rightarrow> string list" where
  "selectAllColumns cols = js_set (map ec_id cols)"

definition clearAllColumns :: "export_column list \<Rightarrow> string list" where
  "clearAllColumns cols = (case cols of c # cs \<Rightarrow> (if ec_id c = [] then [] else [ec_id c]) | [] \<Rightarrow> [])"

subsection \<open>Filters\<close>

definition lower_char :: "char \<Rightarrow> char" where
  "lower_char c = (let n = of_char c :: nat in if 65 \<le> n \<and> n \<le> 90 then char_of (n + 32) else c)"

lemma lower_lower: "lower_char (lower_char c) = lower_char c"
  by (simp add: lower_char_def Let_def of_char_of)

lemma lower_map_lower: "map lower_char (map lower_char s) = map lower_char s"
  by (simp add: lower_lower)

fun js_includes :: "string \<Rightarrow> string \<Rightarrow> bool" where
  "js_includes [] p = (p = [])"
| "js_includes (c # s) p = (starts_with (c # s) p \<or> js_includes s p)"

definition textFilterFn :: "json option \<Rightarrow> string \<Rightarrow> bool" where
  "textFilterFn v f = (f = [] \<or> js_includes (map lower_char (cell_text v)) (map lower_char f))"

definition facetedFilterFn :: "json option \<Rightarrow> string list option \<Rightarrow> bool" where
  "facetedFilterFn v f = (case f of None \<Rightarrow> True | Some xs \<Rightarrow> xs = [] \<or> cell_text v \<in> set xs)"

text \<open>\<open>cell\<close> is the time of the cell in milliseconds, None for an invalid date, which no comparison rejects.\<close>

definition dateRangeFilterFn :: "int option \<Rightarrow> (int option \<times> int option) option \<Rightarrow> bool" where
  "dateRangeFilterFn cell f = (case f of None \<Rightarrow> True | Some (lo, hi) \<Rightarrow>
     \<not> (case (lo, cell) of (Some a, Some t) \<Rightarrow> a \<noteq> 0 \<and> t < a | _ \<Rightarrow> False) \<and>
     \<not> (case (hi, cell) of (Some b, Some t) \<Rightarrow> b \<noteq> 0 \<and> t > b | _ \<Rightarrow> False))"

subsection \<open>Reading CSV\<close>

text \<open>
  A reader of CSV (RFC 4180): fields separated by commas, records by line breaks (CR LF, LF or CR), fields
  in quotes with doubled quotes inside; a line break at the end opens no further record.
\<close>

definition stops_field :: "char \<Rightarrow> bool" where
  "stops_field c = (c \<in> {CHR '','', CHR 0x0A, CHR 0x0D})"

fun plain_field :: "string \<Rightarrow> string \<times> string" where
  "plain_field [] = ([], [])"
| "plain_field (c # s) = (if stops_field c then ([], c # s) else let (f, r) = plain_field s in (c # f, r))"

fun quoted_field :: "string \<Rightarrow> string \<times> string" where
  "quoted_field [] = ([], [])"
| "quoted_field [c] = (if c = quote then ([], []) else ([c], []))"
| "quoted_field (c # d # s) =
     (if c = quote then (if d = quote then let (f, r) = quoted_field s in (quote # f, r) else ([], d # s))
      else let (f, r) = quoted_field (d # s) in (c # f, r))"

definition read_field :: "string \<Rightarrow> string \<times> string" where
  "read_field s = (case s of c # t \<Rightarrow> (if c = quote then quoted_field t else plain_field s) | [] \<Rightarrow> ([], []))"

definition after_break :: "char \<Rightarrow> string \<Rightarrow> string" where
  "after_break c t = (if c = CHR 0x0D \<and> starts_with t [CHR 0x0A] then tl t else t)"

lemma plain_field_shorter: "length (snd (plain_field s)) \<le> length s"
  by (induction s) (auto split: prod.splits)

lemma quoted_field_shorter: "length (snd (quoted_field s)) \<le> length s"
  by (induction s rule: quoted_field.induct) (auto split: prod.splits)

lemma read_field_shorter: "read_field s = (f, r) \<Longrightarrow> length r \<le> length s"
  using plain_field_shorter [of s] quoted_field_shorter [of "tl s"]
  by (cases s) (auto simp: read_field_def split: if_splits)

lemma after_break_shorter: "length (after_break c t) \<le> length t"
  by (simp add: after_break_def)

function csv_rows :: "string \<Rightarrow> string list list" where
  "csv_rows s = (case read_field s of
     (f, []) \<Rightarrow> [[f]]
   | (f, c # t) \<Rightarrow>
       if c = CHR '','' then (case csv_rows t of [] \<Rightarrow> [[f]] | w # ws \<Rightarrow> (f # w) # ws)
       else if after_break c t = [] then [[f]] else [f] # csv_rows (after_break c t))"
  by pat_completeness auto

termination
proof (relation "measure length")
  fix s f r c t
  assume "(f, r) = read_field s" and "r = c # t"
  then have "length t < length s" using read_field_shorter [of s f r] by simp
  then show "(t, s) \<in> measure length" "(after_break c t, s) \<in> measure length"
    using after_break_shorter [of c t] by simp_all
qed simp

declare csv_rows.simps [simp del]

lemma csv_rows_field: "read_field u = (f, r) \<Longrightarrow> csv_rows u = (case r of [] \<Rightarrow> [[f]] | c # t \<Rightarrow>
     if c = CHR '','' then (case csv_rows t of [] \<Rightarrow> [[f]] | w # ws \<Rightarrow> (f # w) # ws)
     else if after_break c t = [] then [[f]] else [f] # csv_rows (after_break c t))"
  by (subst csv_rows.simps) (simp split: list.split)

text \<open>A written field is read back, whatever follows it.\<close>

lemma quoted_back: "r = [] \<or> hd r \<noteq> quote \<Longrightarrow> quoted_field (double_quotes s @ quote # r) = (s, r)"
proof (induction s)
  case Nil
  then show ?case by (cases r) auto
next
  case (Cons c s)
  then show ?case by (cases "double_quotes s @ quote # r") auto
qed

lemma plain_back:
  "list_all (\<lambda>c. \<not> stops_field c) s \<Longrightarrow> r = [] \<or> stops_field (hd r) \<Longrightarrow> plain_field (s @ r) = (s, r)"
  by (induction s) (cases r; auto)+

lemma field_back:
  assumes "CHR 0x0D \<notin> set s" and "r = [] \<or> stops_field (hd r)"
  shows "read_field (csv_text s @ r) = (s, r)"
proof (cases "CHR '','' \<in> set s \<or> quote \<in> set s \<or> CHR 0x0A \<in> set s")
  case True
  have "r = [] \<or> hd r \<noteq> quote" using assms(2) by (auto simp: stops_field_def quote_def)
  then show ?thesis using True by (simp add: csv_text_def read_field_def quoted_back)
next
  case False
  then have "list_all (\<lambda>c. \<not> stops_field c) s" using assms(1) by (auto simp: list_all_iff stops_field_def)
  then have p: "plain_field (s @ r) = (s, r)" using plain_back assms(2) by blast
  have "s @ r = [] \<or> hd (s @ r) \<noteq> quote" using False assms(2) by (cases s) (auto simp: stops_field_def quote_def)
  then show ?thesis using False p by (cases "s @ r") (auto simp: csv_text_def read_field_def)
qed

text \<open>A written record is read back.\<close>

abbreviation csv_line :: "string list \<Rightarrow> string" where
  "csv_line cells \<equiv> join_with '','' (map csv_text cells)"

lemma record_back:
  assumes "r = [] \<or> hd r = CHR 0x0A"
  shows "cells \<noteq> [] \<Longrightarrow> \<forall>s\<in>set cells. CHR 0x0D \<notin> set s \<Longrightarrow>
    csv_rows (csv_line cells @ r) = (case r of [] \<Rightarrow> [cells] | c # t \<Rightarrow> if t = [] then [cells] else cells # csv_rows t)"
proof (induction cells)
  case (Cons s cs)
  show ?case
  proof (cases cs)
    case Nil
    have "read_field (csv_text s @ r) = (s, r)"
      using Cons.prems(2) assms by (intro field_back) (auto simp: stops_field_def)
    from csv_rows_field [OF this] show ?thesis using Nil assms by (cases r) (auto simp: after_break_def)
  next
    case (Cons y ys)
    have "read_field (csv_text s @ CHR '','' # csv_line cs @ r) = (s, CHR '','' # csv_line cs @ r)"
      using Cons.prems(2) by (intro field_back) (auto simp: stops_field_def)
    from csv_rows_field [OF this] have "csv_rows (csv_line (s # cs) @ r) =
        (case csv_rows (csv_line cs @ r) of [] \<Rightarrow> [[s]] | w # ws \<Rightarrow> (s # w) # ws)"
      by (simp add: Cons)
    then show ?thesis using Cons.IH Cons.prems(2) Cons by (cases r) auto
  qed
qed simp

text \<open>A record of two cells or more is not empty, so the line break before it is read as one.\<close>

lemma line_not_empty: "2 \<le> length cells \<Longrightarrow> csv_line cells \<noteq> []"
  by (cases cells; cases "tl cells") auto

lemma records_back:
  "table \<noteq> [] \<Longrightarrow> \<forall>cells\<in>set table. 2 \<le> length cells \<and> (\<forall>s\<in>set cells. CHR 0x0D \<notin> set s) \<Longrightarrow>
   csv_rows (join_with [CHR 0x0A] (map csv_line table)) = table"
proof (induction table)
  case (Cons cells rest)
  have c: "cells \<noteq> []" "\<forall>s\<in>set cells. CHR 0x0D \<notin> set s" using Cons.prems(2) by auto
  show ?case
  proof (cases rest)
    case Nil
    then show ?thesis using record_back [of "[]" cells] c by simp
  next
    case (Cons w ws)
    then have "join_with [CHR 0x0A] (map csv_line rest) \<noteq> []"
      using line_not_empty [of w] Cons.prems(2) by (cases ws) auto
    then show ?thesis using record_back [of "CHR 0x0A # join_with [CHR 0x0A] (map csv_line rest)" cells] c Cons Cons.IH Cons.prems(2)
      by simp
  qed
qed simp

lemma record_then_break:
  "cells \<noteq> [] \<Longrightarrow> \<forall>s\<in>set cells. CHR 0x0D \<notin> set s \<Longrightarrow> csv_rows (csv_line cells @ [CHR 0x0A]) = [cells]"
  using record_back [of "[CHR 0x0A]" cells] by simp

text \<open>The table that an export shows.\<close>

definition csv_table :: "export_row list \<Rightarrow> export_column list \<Rightarrow> string list list" where
  "csv_table rows cols = map ec_label cols # map (\<lambda>row. map (\<lambda>c. cell_text (map_of row (ec_id c))) cols) rows"

definition free_of_returns :: "string list list \<Rightarrow> bool" where
  "free_of_returns table = list_all (list_all (\<lambda>s. CHR 0x0D \<notin> set s)) table"

text \<open>
  C34: a CSV export of two columns or more is read back as the table it was made of: the labels, then of each
  row the text of its cells, with every comma, quote and line feed in them; carriage returns are the
  exception.
\<close>

theorem csv_export_roundtrip:
  assumes "2 \<le> length cols" and "free_of_returns (csv_table rows cols)"
  shows "\<exists>text. exportToCSV rows cols filename = Download (BOM @ text) (filename @ ''.csv'') ''text/csv;charset=utf-8;'' \<and>
    csv_rows text = csv_table rows cols"
proof -
  let ?cells = "map (\<lambda>row. map (\<lambda>c. cell_text (map_of row (ec_id c))) cols) rows"
  let ?text = "csv_header cols @ [CHR 0x0A] @ csv_body rows cols"
  have h: "csv_header cols = csv_line (map ec_label cols)"
    by (simp add: csv_header_def csvCell_def cell_text_def comp_def)
  have free: "\<forall>cells\<in>set (csv_table rows cols). 2 \<le> length cells \<and> (\<forall>s\<in>set cells. CHR 0x0D \<notin> set s)"
    using assms by (auto simp: free_of_returns_def list_all_iff csv_table_def)
  have "csv_rows ?text = csv_table rows cols"
  proof (cases rows)
    case Nil
    moreover have "cols \<noteq> []" using assms(1) by auto
    ultimately show ?thesis using record_then_break [of "map ec_label cols"] free by (auto simp: h csv_body_def csv_table_def)
  next
    case (Cons row rest)
    then have "?text = join_with [CHR 0x0A] (map csv_line (csv_table rows cols))"
      by (simp add: h csv_table_def csv_body_def csvCell_def comp_def)
    then show ?thesis using records_back [OF _ free] by (simp add: csv_table_def)
  qed
  then show ?thesis unfolding exportToCSV_def by blast
qed

theorem csv_export_roundtrip_witness:
  "let cols = [\<lparr>ec_id = ''n'', ec_label = ''Name''\<rparr>, \<lparr>ec_id = ''s'', ec_label = ''Size, bytes''\<rparr>];
       rows = [[(''n'', JStr [CHR ''a'', CHR 0x0A, quote]), (''s'', JBool True)], [(''n'', JNull)]]
   in \<exists>text. exportToCSV rows cols ''files'' = Download (BOM @ text) ''files.csv'' ''text/csv;charset=utf-8;'' \<and>
      csv_rows text = [[''Name'', ''Size, bytes''], [[CHR ''a'', CHR 0x0A, quote], ''true''], [[], []]]"
proof -
  let ?cols = "[\<lparr>ec_id = ''n'', ec_label = ''Name''\<rparr>, \<lparr>ec_id = ''s'', ec_label = ''Size, bytes''\<rparr>]"
  let ?rows = "[[(''n'', JStr [CHR ''a'', CHR 0x0A, quote]), (''s'', JBool True)], [(''n'', JNull)]]"
  have tab: "csv_table ?rows ?cols = [[''Name'', ''Size, bytes''], [[CHR ''a'', CHR 0x0A, quote], ''true''], [[], []]]"
    by (simp add: csv_table_def cell_text_def)
  have "free_of_returns (csv_table ?rows ?cols)"
    unfolding tab by (simp add: free_of_returns_def quote_def)
  then show ?thesis
    using csv_export_roundtrip [of ?cols ?rows "''files''"] tab by (simp add: Let_def)
qed

text \<open>A cell with a carriage return is not quoted and is read as two; one column cannot tell an empty last cell from none.\<close>

lemma csv_return_splits: "csv_rows (csv_text [CHR ''a'', CHR 0x0D, CHR ''b'']) = [[''a''], [''b'']]"
  by (simp add: csv_text_def quote_def csv_rows.simps [of "[CHR ''a'', CHR 0x0D, CHR ''b'']"] csv_rows.simps [of "''b''"]
      read_field_def stops_field_def after_break_def starts_with_def)

lemma csv_one_column_ambiguous:
  "exportToCSV [] [\<lparr>ec_id = ''n'', ec_label = ''Name''\<rparr>] f = exportToCSV [[(''n'', JStr [])]] [\<lparr>ec_id = ''n'', ec_label = ''Name''\<rparr>] f"
  by (simp add: exportToCSV_def csv_body_def csvCell_def cell_text_def csv_text_def)

text \<open>The dialog never exports without a column.\<close>

lemma toggle_keeps_a_column: "ids \<noteq> [] \<Longrightarrow> distinct ids \<Longrightarrow> toggleColumn i ids \<noteq> [] \<and> distinct (toggleColumn i ids)"
proof -
  assume ids: "ids \<noteq> []" "distinct ids"
  have "filter (\<lambda>x. x \<noteq> i) ids \<noteq> []" if "length ids \<noteq> 1"
  proof
    assume "filter (\<lambda>x. x \<noteq> i) ids = []"
    then have "set ids \<subseteq> {i}" by (auto simp: filter_empty_conv)
    then have "card (set ids) \<le> 1" using card_mono [of "{i}" "set ids"] by simp
    then show False using that ids by (simp add: distinct_card le_Suc_eq)
  qed
  then show ?thesis using ids by (simp add: toggleColumn_def)
qed

text \<open>An invalid date is in every range.\<close>

lemma invalid_date_in_range: "dateRangeFilterFn None f"
  by (simp add: dateRangeFilterFn_def split: option.split prod.split)

end
