(* ===== verification/Client_Feedback.thy ===== *)
theory Client_Feedback
  imports Iam_Access
begin

text \<open>
  What a user sees of an error that a server action threw (\<^verbatim>\<open>handleZSAError\<close> of the console,
  \<^verbatim>\<open>frontend/web/src/modules/client/shared/error/handle-zsa-error.ts\<close>, and of the identity service,
  \<^verbatim>\<open>iam/src/modules/client/shared/error/handleZSAError.ts\<close>): errors at the fields of a form and toasts, in
  order. \<open>parse_json\<close> is \<^verbatim>\<open>JSON.parse\<close>, \<open>form\<close> the keys of the form's values, if there is a form.
\<close>

record zsa_error =
  ze_code :: string
  ze_message :: string
  ze_data :: "json option"

datatype feedback = Toast "json option" | FieldError string json

definition toast_text :: "string \<Rightarrow> feedback" where
  "toast_text s = Toast (Some (JStr s))"

definition parseZSAErrorData :: "(string \<Rightarrow> json option) \<Rightarrow> json option \<Rightarrow> json option" where
  "parseZSAErrorData parse_json d = (case d of Some (JStr s) \<Rightarrow> parse_json s | _ \<Rightarrow> None)"

text \<open>\<^verbatim>\<open>v?.[0]\<close> and \<^verbatim>\<open>v?.length\<close>.\<close>

definition item_0 :: "json option \<Rightarrow> json option" where
  "item_0 v = (case v of
     Some (JArr (x # xs)) \<Rightarrow> Some x
   | Some (JStr (c # s)) \<Rightarrow> Some (JStr [c])
   | Some (JObj kvs) \<Rightarrow> map_of kvs ''0''
   | _ \<Rightarrow> None)"

definition has_length :: "json option \<Rightarrow> bool" where
  "has_length v = (case v of
     Some (JArr xs) \<Rightarrow> xs \<noteq> []
   | Some (JStr s) \<Rightarrow> s \<noteq> []
   | Some (JObj kvs) \<Rightarrow> truthy (map_of kvs ''length'')
   | _ \<Rightarrow> False)"

text \<open>\<^verbatim>\<open>field in form.getValues()\<close>, which is also true of the inherited members.\<close>

definition on_form :: "string list option \<Rightarrow> string \<Rightarrow> bool" where
  "on_form form field = (case form of None \<Rightarrow> False | Some ks \<Rightarrow> field \<in> set ks \<or> field \<in> set prototype_keys)"

text \<open>The loop over the field errors: those put on the form, and whether a message found no field.\<close>

fun field_feedback :: "string list option \<Rightarrow> (string \<times> json) list \<Rightarrow> feedback list \<times> bool" where
  "field_feedback form [] = ([], False)"
| "field_feedback form ((field, messages) # es) =
     (let (fs, off) = field_feedback form es
      in case item_0 (Some messages) of
           None \<Rightarrow> (fs, off)
         | Some m \<Rightarrow> if \<not> truthy (Some m) then (fs, off)
             else if on_form form field then (FieldError field m # fs, off) else (fs, True))"

text \<open>\<^verbatim>\<open>fallback ?? d\<close> and \<^verbatim>\<open>message || fallback || d\<close>.\<close>

definition fallback_or :: "string option \<Rightarrow> string \<Rightarrow> string" where
  "fallback_or fallback d = (case fallback of None \<Rightarrow> d | Some s \<Rightarrow> s)"

definition error_text_or :: "zsa_error \<Rightarrow> string option \<Rightarrow> string \<Rightarrow> string" where
  "error_text_or err fallback d = (if ze_message err \<noteq> [] then ze_message err
     else case fallback of Some (c # s) \<Rightarrow> c # s | _ \<Rightarrow> d)"

definition input_feedback ::
    "string \<Rightarrow> string \<Rightarrow> (string \<Rightarrow> json option) \<Rightarrow> string list option \<Rightarrow> string option \<Rightarrow> zsa_error \<Rightarrow> feedback list" where
  "input_feedback invalid refresh parse_json form fallback err =
     (let inputErrors = Option.bind (parseZSAErrorData parse_json (ze_data err)) (\<lambda>p. jget p ''inputParseErrors'')
      in if \<not> truthy inputErrors then [toast_text (error_text_or err fallback invalid)]
         else let fieldErrors = jget (the inputErrors) ''fieldErrors''; formErrors = jget (the inputErrors) ''formErrors'';
                  (fs, off) = (if truthy fieldErrors then field_feedback form (own_entries (the fieldErrors)) else ([], False))
              in fs @ (if off then [toast_text (fallback_or fallback refresh)]
                   else if has_length formErrors then [Toast (item_0 formErrors)] else []))"

definition handleZSAError ::
    "(string \<Rightarrow> json option) \<Rightarrow> string list option \<Rightarrow> string option \<Rightarrow> zsa_error \<Rightarrow> feedback list" where
  "handleZSAError parse_json form fallback err =
     (if ze_code err = ''INPUT_PARSE_ERROR''
      then input_feedback ''Invalid input.'' ''Something went wrong. Please refresh and try again.'' parse_json form fallback err
      else if ze_code err = ''OUTPUT_PARSE_ERROR''
      then [toast_text (fallback_or fallback ''Something went wrong. Please try again later.'')]
      else if ze_code err = ''NOT_AUTHORIZED'' then [toast_text ''You are not authorised to perform this action.'']
      else if ze_code err = ''FORBIDDEN'' then [toast_text ''You do not have permission to perform this action.'']
      else if ze_code err = ''NOT_FOUND'' then [toast_text (error_text_or err None ''The requested resource was not found.'')]
      else if ze_code err = ''CONFLICT''
      then [toast_text (error_text_or err None ''A conflict occurred. The resource may already exist.'')]
      else [toast_text (error_text_or err fallback ''Something went wrong.'')])"

definition iam_handleZSAError ::
    "(string \<Rightarrow> json option) \<Rightarrow> string list option \<Rightarrow> string option \<Rightarrow> zsa_error \<Rightarrow> feedback list" where
  "iam_handleZSAError parse_json form fallback err =
     (if ze_code err = ''INPUT_PARSE_ERROR''
      then input_feedback ''Invalid input'' ''Something went wrong. Please refresh the page and try again.'' parse_json form fallback err
      else if ze_code err = ''OUTPUT_PARSE_ERROR''
      then [toast_text (fallback_or fallback ''Something went wrong. Please try again later.'')]
      else if ze_code err = ''NOT_AUTHORIZED'' then [toast_text ''You are not authorized to perform this action'']
      else [toast_text (error_text_or err fallback ''Something went wrong'')])"

subsection \<open>Nothing is lost\<close>

text \<open>The payload that the services' boundaries put into an input error: messages by field, messages of the form.\<close>

definition parse_payload :: "(string \<times> string list) list \<Rightarrow> string list \<Rightarrow> json \<Rightarrow> json" where
  "parse_payload fes ges formatted = JObj [(''inputParseErrors'', JObj
     [(''fieldErrors'', JObj (map (\<lambda>(k, ms). (k, JArr (map JStr ms))) fes)), (''formErrors'', JArr (map JStr ges)),
      (''formattedErrors'', formatted)])]"

definition has_message :: "string \<times> string list \<Rightarrow> bool" where
  "has_message e = (case snd e of [] \<Rightarrow> False | m # ms \<Rightarrow> m \<noteq> [])"

definition shown :: "string list option \<Rightarrow> (string \<times> string list) list \<Rightarrow> feedback list" where
  "shown form fes = map (\<lambda>(k, ms). FieldError k (JStr (hd ms))) (filter (\<lambda>e. has_message e \<and> on_form form (fst e)) fes)"

lemma field_feedback_shown:
  "field_feedback form (map (\<lambda>(k, ms). (k, JArr (map JStr ms))) fes) =
     (shown form fes, list_ex (\<lambda>e. has_message e \<and> \<not> on_form form (fst e)) fes)"
proof (induction fes)
  case (Cons e fes)
  obtain k ms where "e = (k, ms)" by (cases e)
  with Cons show ?case by (cases ms) (auto simp: shown_def has_message_def item_0_def)
qed (simp add: shown_def)

lemma input_feedback_payload:
  assumes "ze_data err = Some (JStr s)" and "parse_json s = Some (parse_payload fes ges formatted)"
  shows "input_feedback invalid refresh parse_json form fallback err = shown form fes @
     (if list_ex (\<lambda>e. has_message e \<and> \<not> on_form form (fst e)) fes then [toast_text (fallback_or fallback refresh)]
      else case ges of [] \<Rightarrow> [] | g # gs \<Rightarrow> [toast_text g])"
  using assms field_feedback_shown [of form fes]
  by (auto simp: input_feedback_def parseZSAErrorData_def parse_payload_def own_entries_def has_length_def item_0_def toast_text_def
      split: list.split)

lemma one_toast: "\<exists>m. toast_text x = toast_text m"
  by blast

text \<open>
  The feedback for an error, in the console and at the identity service. For input that a schema rejected,
  every field error whose field is on the form is shown there with its first message, in order; if some
  message has no field there is one general toast, otherwise the first error of the form as a whole, if
  there is one. Every other error gives exactly one toast.
\<close>

lemma error_feedback:
  assumes "ze_data err = Some (JStr s)" and "parse_json s = Some (parse_payload fes ges formatted)"
  shows "if ze_code err = ''INPUT_PARSE_ERROR''
    then list_all (\<lambda>(handle, refresh). handle parse_json form fallback err = shown form fes @
        (if list_ex (\<lambda>e. has_message e \<and> \<not> on_form form (fst e)) fes then [toast_text (fallback_or fallback refresh)]
         else case ges of [] \<Rightarrow> [] | g # gs \<Rightarrow> [toast_text g]))
      [(handleZSAError, ''Something went wrong. Please refresh and try again.''),
       (iam_handleZSAError, ''Something went wrong. Please refresh the page and try again.'')]
    else list_all (\<lambda>handle. \<exists>m. handle parse_json form fallback err = [toast_text m]) [handleZSAError, iam_handleZSAError]"
  using input_feedback_payload [where parse_json = parse_json, OF assms] by (simp add: handleZSAError_def iam_handleZSAError_def one_toast)

theorem error_feedback_witness:
  "handleZSAError (\<lambda>s. Some (parse_payload [(''name'', [''Required'']), (''scope'', [''Unknown''])] [] JNull)) (Some [''name'']) None
     \<lparr>ze_code = ''INPUT_PARSE_ERROR'', ze_message = [], ze_data = Some (JStr ''{}'')\<rparr> =
   [FieldError ''name'' (JStr ''Required''), toast_text ''Something went wrong. Please refresh and try again.'']"
  using error_feedback [of "\<lparr>ze_code = ''INPUT_PARSE_ERROR'', ze_message = [], ze_data = Some (JStr ''{}'')\<rparr>" "''{}''"
      "\<lambda>s. Some (parse_payload [(''name'', [''Required'']), (''scope'', [''Unknown''])] [] JNull)"
      "[(''name'', [''Required'']), (''scope'', [''Unknown''])]" "[]" JNull "Some [''name'']" None]
  by (simp add: shown_def has_message_def on_form_def prototype_keys_def fallback_or_def)

text \<open>An input error that names no message at all shows nothing.\<close>

lemma silent_input_error:
  assumes "ze_code err = ''INPUT_PARSE_ERROR''" and "ze_data err = Some (JStr s)"
    and "parse_json s = Some (parse_payload [] [] formatted)"
  shows "handleZSAError parse_json form fallback err = []"
  using input_feedback_payload [where parse_json = parse_json, OF assms(2,3)] assms(1) by (simp add: handleZSAError_def shown_def)

end
