(* ===== verification/Client_Timers.thy ===== *)
theory Client_Timers
  imports Fn_Prelude
begin

text \<open>
  Timers in the browser: debounced calls (\<^verbatim>\<open>useDebouncedCallback\<close> of the console's tables and the search of the
  React SDK, \<^verbatim>\<open>sdks/react/src/hooks/useSearch.ts\<close>) and the countdown of the identity service's mail pages
  (\<^verbatim>\<open>iam/src/modules/client/auth/hooks/useCountdown.ts\<close>). A timer fires when it is due, before anything that
  happens later; times are milliseconds.
\<close>

subsection \<open>Debounced calls\<close>

text \<open>The timer that is pending, with the arguments it fires with, and what has fired at what time.\<close>

record 'a debounce =
  db_pending :: "(nat \<times> 'a) option"
  db_fired :: "(nat \<times> 'a) list"

definition db_init :: "'a debounce" where
  "db_init = \<lparr>db_pending = None, db_fired = []\<rparr>"

text \<open>Time passes up to \<open>t\<close>.\<close>

definition elapse :: "nat \<Rightarrow> 'a debounce \<Rightarrow> 'a debounce" where
  "elapse t s = (case db_pending s of
     Some (due, a) \<Rightarrow> if due \<le> t then \<lparr>db_pending = None, db_fired = db_fired s @ [(due, a)]\<rparr> else s
   | None \<Rightarrow> s)"

text \<open>A call at time \<open>t\<close>: it clears the timer that is pending and sets a new one.\<close>

definition debounced_call :: "nat \<Rightarrow> nat \<Rightarrow> 'a \<Rightarrow> 'a debounce \<Rightarrow> 'a debounce" where
  "debounced_call delay t a s = (elapse t s)\<lparr>db_pending := Some (t + delay, a)\<rparr>"

definition calls_run :: "nat \<Rightarrow> (nat \<times> 'a) list \<Rightarrow> 'a debounce \<Rightarrow> 'a debounce" where
  "calls_run delay cs s = fold (\<lambda>(t, a). debounced_call delay t a) cs s"

text \<open>The specification: a call fires exactly when no other call comes before it is due.\<close>

fun settled_calls :: "nat \<Rightarrow> (nat \<times> 'a) list \<Rightarrow> (nat \<times> 'a) list" where
  "settled_calls delay [] = []"
| "settled_calls delay [(t, a)] = [(t + delay, a)]"
| "settled_calls delay ((t, a) # (t', b) # cs) =
     (if t + delay \<le> t' then [(t + delay, a)] else []) @ settled_calls delay ((t', b) # cs)"

lemma calls_run_step: "calls_run delay ((t', b) # cs) \<lparr>db_pending = Some (due, a), db_fired = fired\<rparr> =
    calls_run delay cs \<lparr>db_pending = Some (t' + delay, b), db_fired = (if due \<le> t' then fired @ [(due, a)] else fired)\<rparr>"
  by (simp add: calls_run_def debounced_call_def elapse_def)

lemma calls_run_from:
  "sorted (map fst ((t, a) # cs)) \<Longrightarrow> fst (last ((t, a) # cs)) + delay \<le> u \<Longrightarrow>
   elapse u (calls_run delay cs \<lparr>db_pending = Some (t + delay, a), db_fired = fired\<rparr>) =
     \<lparr>db_pending = None, db_fired = fired @ settled_calls delay ((t, a) # cs)\<rparr>"
proof (induction cs arbitrary: t a fired)
  case Nil
  then show ?case by (simp add: calls_run_def elapse_def)
next
  case (Cons c cs)
  obtain t' b where c: "c = (t', b)" by (cases c)
  show ?case
    using Cons.prems Cons.IH [of t' b "if t + delay \<le> t' then fired @ [(t + delay, a)] else fired"] c
    by (simp add: calls_run_step)
qed

subsection \<open>The search of the React SDK\<close>

text \<open>
  \<open>search\<close> sets the query of the hook and invalidates its results when its timer fires: the queries that
  the hook takes on, in order, and the one that it shows the results of.
\<close>

definition debounceMs :: "nat option \<Rightarrow> nat" where
  "debounceMs opt = (case opt of None \<Rightarrow> 300 | Some n \<Rightarrow> n)"

definition search_calls :: "nat option \<Rightarrow> (nat \<times> 'q) list \<Rightarrow> 'q debounce" where
  "search_calls opt cs = calls_run (debounceMs opt) cs db_init"

definition currentQuery :: "'q \<Rightarrow> 'q debounce \<Rightarrow> 'q" where
  "currentQuery initial s = (case db_fired s of [] \<Rightarrow> initial | x # xs \<Rightarrow> snd (last (x # xs)))"

lemma settled_calls_last: "cs \<noteq> [] \<Longrightarrow> settled_calls delay cs \<noteq> [] \<and>
    last (settled_calls delay cs) = (fst (last cs) + delay, snd (last cs))"
  by (induction delay cs rule: settled_calls.induct) auto

text \<open>
  C35: the debounced search. When the calls have come in the order of time and the last one is due, the hook
  has taken on exactly the queries that no other call followed before they were due, each once and at its
  time, and no timer is left; so the query it shows is the last one that was asked for.
\<close>

theorem search_debounced:
  assumes "cs \<noteq> []" and "sorted (map fst cs)" and "fst (last cs) + debounceMs opt \<le> t"
  shows "elapse t (search_calls opt cs) = \<lparr>db_pending = None, db_fired = settled_calls (debounceMs opt) cs\<rparr> \<and>
    currentQuery initial (elapse t (search_calls opt cs)) = snd (last cs)"
proof -
  obtain u a rest where cs: "cs = (u, a) # rest" using assms(1) by (cases cs) auto
  have run: "elapse t (search_calls opt cs) = \<lparr>db_pending = None, db_fired = settled_calls (debounceMs opt) cs\<rparr>"
    using calls_run_from [of u a rest "debounceMs opt" t "[]"] assms(2,3)
    by (simp add: cs search_calls_def calls_run_def debounced_call_def db_init_def elapse_def)
  then show ?thesis
    using settled_calls_last [OF assms(1), of "debounceMs opt"] by (cases "settled_calls (debounceMs opt) cs") (auto simp: currentQuery_def)
qed

theorem search_debounced_witness:
  "elapse 900 (search_calls None [(0, ''r''), (100, ''re''), (500, ''rep'')]) =
     \<lparr>db_pending = None, db_fired = [(400, ''re''), (800, ''rep'')]\<rparr>"
  using search_debounced [of "[(0, ''r''), (100, ''re''), (500, ''rep'')]" None 900]
  by (simp add: debounceMs_def)

subsection \<open>The countdown\<close>

text \<open>The seconds shown, the interval that the ref holds, and the intervals that are live.\<close>

record countdown =
  cd_seconds :: int
  cd_ref :: "nat option"
  cd_live :: "nat list"
  cd_next :: nat

definition cd_clear :: "countdown \<Rightarrow> countdown" where
  "cd_clear s = (case cd_ref s of None \<Rightarrow> s | Some i \<Rightarrow> s\<lparr>cd_ref := None, cd_live := remove1 i (cd_live s)\<rparr>)"

definition runTimer :: "countdown \<Rightarrow> countdown" where
  "runTimer s = (let s' = cd_clear s in
     s'\<lparr>cd_ref := Some (cd_next s'), cd_live := cd_next s' # cd_live s', cd_next := Suc (cd_next s')\<rparr>)"

definition cd_start :: "int \<Rightarrow> int option \<Rightarrow> countdown \<Rightarrow> countdown" where
  "cd_start defaultSeconds sec s = runTimer (s\<lparr>cd_seconds := (case sec of None \<Rightarrow> defaultSeconds | Some n \<Rightarrow> n)\<rparr>)"

definition cd_restart :: "int \<Rightarrow> countdown \<Rightarrow> countdown" where
  "cd_restart defaultSeconds s = cd_start defaultSeconds (Some defaultSeconds) s"

definition cd_tick :: "countdown \<Rightarrow> countdown" where
  "cd_tick s = (if cd_seconds s \<le> 1 then (cd_clear s)\<lparr>cd_seconds := 0\<rparr> else s\<lparr>cd_seconds := cd_seconds s - 1\<rparr>)"

definition cd_mount :: "int \<Rightarrow> countdown" where
  "cd_mount defaultSeconds = runTimer \<lparr>cd_seconds = defaultSeconds, cd_ref = None, cd_live = [], cd_next = 0\<rparr>"

inductive cd_step :: "int \<Rightarrow> countdown \<Rightarrow> countdown \<Rightarrow> bool" for d :: int where
  start: "cd_step d s (cd_start d sec s)"
| restart: "cd_step d s (cd_restart d s)"
| clear: "cd_step d s (cd_clear s)"
| tick: "i \<in> set (cd_live s) \<Longrightarrow> cd_step d s (cd_tick s)"

inductive cd_reachable :: "int \<Rightarrow> countdown \<Rightarrow> bool" for d :: int where
  mount: "cd_reachable d (cd_mount d)"
| step: "cd_reachable d s \<Longrightarrow> cd_step d s s' \<Longrightarrow> cd_reachable d s'"

inductive_cases cd_step_cases: "cd_step d s s'"

text \<open>There is never more than one live interval, the one in the ref, however often the user restarts.\<close>

definition one_interval :: "countdown \<Rightarrow> bool" where
  "one_interval s = (cd_live s = (case cd_ref s of None \<Rightarrow> [] | Some i \<Rightarrow> [i]))"

lemma one_interval_clear: "one_interval s \<Longrightarrow> one_interval (cd_clear s) \<and> cd_live (cd_clear s) = []"
  by (auto simp: one_interval_def cd_clear_def split: option.splits)

lemma one_interval_run: "one_interval s \<Longrightarrow> one_interval (runTimer s)"
  using one_interval_clear [of s] by (auto simp: runTimer_def Let_def one_interval_def)

lemma one_interval_update: "one_interval (s\<lparr>cd_seconds := n\<rparr>) = one_interval s"
  by (simp add: one_interval_def)

lemma one_interval_step: "cd_step d s s' \<Longrightarrow> one_interval s \<Longrightarrow> one_interval s'"
  by (erule cd_step_cases)
    (auto simp: cd_restart_def cd_start_def cd_tick_def one_interval_update one_interval_run one_interval_clear)

lemma countdown_one_interval: "cd_reachable d s \<Longrightarrow> one_interval s"
proof (induction rule: cd_reachable.induct)
  case mount
  have "one_interval \<lparr>cd_seconds = d, cd_ref = None, cd_live = [], cd_next = 0\<rparr>" by (simp add: one_interval_def)
  then show ?case unfolding cd_mount_def by (rule one_interval_run)
qed (rule one_interval_step)

text \<open>Left alone, a countdown from \<open>n\<close> shows \<open>n - k\<close> after \<open>k\<close> seconds, ends at zero and removes its interval.\<close>

lemma countdown_ticks:
  assumes "one_interval s" and "cd_live s \<noteq> []" and "0 < cd_seconds s"
  shows "int k < cd_seconds s \<Longrightarrow>
    cd_seconds ((cd_tick ^^ k) s) = cd_seconds s - int k \<and> cd_live ((cd_tick ^^ k) s) = cd_live s \<and>
    cd_ref ((cd_tick ^^ k) s) = cd_ref s"
  by (induction k) (use assms in \<open>auto simp: cd_tick_def\<close>)

lemma countdown_ends:
  assumes "cd_reachable d s" and "cd_live s \<noteq> []" and "0 < cd_seconds s"
  shows "cd_seconds ((cd_tick ^^ nat (cd_seconds s)) s) = 0 \<and> cd_live ((cd_tick ^^ nat (cd_seconds s)) s) = []"
proof -
  define k where "k = nat (cd_seconds s) - 1"
  have k: "nat (cd_seconds s) = Suc k" "int k < cd_seconds s" "cd_seconds s - int k = 1"
    using assms(3) by (auto simp: k_def)
  note one = countdown_one_interval [OF assms(1)]
  note run = countdown_ticks [OF one assms(2,3) k(2)]
  have "one_interval ((cd_tick ^^ k) s)" using one run by (simp add: one_interval_def)
  then show ?thesis using run k one_interval_clear by (auto simp: cd_tick_def)
qed

end
