(* ===== verification/Upload_Through_Server.thy ===== *)
theory Upload_Through_Server
  imports Console_Upload Console_Routes
begin

text \<open>
  The server-side upload from the browser's hook (\<open>Console_Upload\<close>) through the console's route handler
  (\<open>Console_Routes\<close>) to the backend and storage.
\<close>

text \<open>The form as the handler receives it: a JSON field is text, made by \<^verbatim>\<open>JSON.stringify\<close>.\<close>

definition form_entry_of :: "(json \<Rightarrow> string) \<Rightarrow> form_value \<Rightarrow> form_entry" where
  "form_entry_of stringify v = (case v of
     FormFile f \<Rightarrow> FFile (bf_name f) (bf_type f) (bf_bytes f) | FormText s \<Rightarrow> FText s | FormJson j \<Rightarrow> FText (stringify j))"

definition received :: "(json \<Rightarrow> string) \<Rightarrow> (string \<times> form_value) list \<Rightarrow> string \<Rightarrow> form_entry option" where
  "received stringify form k = map_option (form_entry_of stringify) (map_of form k)"

text \<open>The browser's world: its request is answered by the handler in the handler's own world.\<close>

definition http_reply :: "c_exn + api_reply \<Rightarrow> up_reply" where
  "http_reply r = (case r of Inl e \<Rightarrow> HttpReply 500 None | Inr (ApiReply st j c) \<Rightarrow> HttpReply st (Some j))"

definition browser_world ::
    "(json \<Rightarrow> string) \<Rightarrow> (string \<Rightarrow> json option) \<Rightarrow> server_env \<Rightarrow> incoming \<Rightarrow> (c_event, reply) world \<Rightarrow>
     (up_event, up_reply) world" where
  "browser_world stringify parse_json env inc w h = (case last h of
     PostForm u form \<Rightarrow> http_reply (fst (upload_route parse_json env inc (Some (received stringify form)) w []))
   | _ \<Rightarrow> Rejects OtherThrown)"

text \<open>The hook calls a file done only after a 2xx answer with a JSON body.\<close>

lemma server_done:
  assumes "Done \<in> set (statuses (snd (uploadServerSide item cfg w [])))"
  shows "\<exists>h st j. w (h @ [PostForm ''/api/upload'' (server_form (it_file item) cfg)]) = HttpReply st (Some j) \<and> 200 \<le> st \<and> st < 300"
proof -
  let ?h = "[Patch (no_patch\<lparr>p_status := Some Uploading, p_progress := Some (- 1)\<rparr>)]"
  let ?e = "PostForm ''/api/upload'' (server_form (it_file item) cfg)"
  have "\<exists>st j. w (?h @ [?e]) = HttpReply st (Some j) \<and> 200 \<le> st \<and> st < 300"
  proof (rule ccontr)
    assume no: "\<not> ?thesis"
    have "\<exists>x. server_body item cfg w [] = (Inl x, ?h @ [?e])"
    proof (cases "w (?h @ [?e])")
      case (HttpReply st j)
      with no show ?thesis
        by (cases j; cases "the j"; cases "200 \<le> st \<and> st < 300")
          (auto simp: server_body_def emitPatch_def fail_def io_simps)
    qed (auto simp: server_body_def emitPatch_def io_simps)
    then show False
      using assms by (auto simp: uploadServerSide_def catching_apply emitPatch_def emit_apply failure_patch_def no_patch_def
          statuses_def)
  qed
  then show ?thesis by blast
qed

lemma received_file: "received stringify (server_form f cfg) ''file'' = Some (FFile (bf_name f) (bf_type f) (bf_bytes f))"
  by (simp add: received_def server_form_def form_entry_of_def)

lemma follows_done: "follows w [] plan out \<Longrightarrow> answers_ok (fst out) \<Longrightarrow>
   snd out = plan \<and> (\<forall>k. 0 < k \<and> k \<le> length plan \<longrightarrow> went_well w (take k plan))"
  by (auto simp: follows_def le_less)


text \<open>A world in which everybody answers well, and one small upload.\<close>

definition fine_world :: "(c_event, reply) world" where
  "fine_world h = Responded \<lparr>rs_status = 200, rs_statusText = [], rs_headers = [], rs_json = Some (JObj
     [(''token'', JStr ''t''), (''file_id'', JStr ''f''), (''upload_url'', JStr ''u''), (''id'', JStr ''f''), (''status'', JStr ''ready'')])\<rparr>"

definition small_item :: upload_item where
  "small_item = new_item ''k'' \<lparr>bf_name = ''n'', bf_type = [], bf_bytes = [7, 8]\<rparr>"

definition server_config :: upload_config where
  "server_config = \<lparr>uc_projectId = ''p'', uc_uploadMode = Server, uc_folderId = None, uc_tags = None, uc_metadata = None\<rparr>"

definition bare_env :: server_env where
  "bare_env = \<lparr>se_apiUrl = None, se_iamUrl = None, se_publicIamUrl = None, se_appUrl = None\<rparr>"

definition bare_request :: incoming where
  "bare_request = \<lparr>in_cookie = None, in_accessToken = None\<rparr>"

abbreviation small_form :: "string \<Rightarrow> form_entry option" where
  "small_form \<equiv> received (\<lambda>j. ''[]'') (server_form (it_file small_item) server_config)"

lemma small_form_fields: "small_form ''file'' = Some (FFile ''n'' [] [7, 8])" "small_form ''projectId'' = Some (FText ''p'')"
    "small_form ''tags'' = Some (FText ''[]'')" "small_form ''metadata'' = Some (FText ''[]'')"
  by (simp_all add: received_def server_form_def form_entry_of_def small_item_def new_item_def server_config_def folder_set_def)

lemma fine_route: "fst (upload_route (\<lambda>s. Some (JArr [])) bare_env bare_request (Some small_form) fine_world []) =
    Inr (ApiReply 200 (jobj [(''file_id'', Some (JStr ''f'')), (''status'', Some (JStr ''ready''))]) None)"
  by (simp add: upload_route_def getServerSession_def handling_def c_fetch_run c_json_def fine_world_def rs_ok_def io_simps
      small_form_fields form_truthy_def form_json_def form_text_def getAuthToken_def init_step_def put_step_def confirm_step_def
      prop_of_def answer_def Let_def)

lemma small_upload_done: "Done \<in> set (statuses (snd (run (upload_routine server_config small_item)
    (browser_world (\<lambda>j. ''[]'') (\<lambda>s. Some (JArr [])) bare_env bare_request fine_world))))"
  by (simp add: run_def upload_routine_def server_config_def uploadServerSide_def server_body_def emitPatch_def io_simps
      browser_world_def fine_route [unfolded server_config_def] http_reply_def no_patch_def statuses_def)


end
