(* ===== verification/Iam_Database.thy ===== *)
theory Iam_Database
  imports Iam_Roles
begin

text \<open>
  The identity service's database as the calls of its client see it: tables of rows, and the documented
  meaning of the operations that the scripts use (the first row that satisfies a condition, creation with
  a new id, update, update of all rows that satisfy a condition, update or creation). The definitions of
  the program do not depend on it: it is one world that answers their calls. The rules below give, for the
  steps that scripts are made of, what they leave behind, when repeating them changes nothing, and which
  later steps keep it so.
\<close>

subsection \<open>Tables\<close>

type_synonym tables = "string \<Rightarrow> json list"

text \<open>A condition; the columns of a compound key (\<^verbatim>\<open>{ appId_slug: { appId, slug } }\<close>) are conditions each.\<close>

definition flat_where :: "json \<Rightarrow> (string \<times> json) list" where
  "flat_where j = concat (map (\<lambda>(k, v). case v of JObj kvs \<Rightarrow> kvs | _ \<Rightarrow> [(k, v)]) (own_entries j))"

definition has :: "(string \<times> json) list \<Rightarrow> json \<Rightarrow> bool" where
  "has kvs r = list_all (\<lambda>(k, v). jget r k = Some v) kvs"

fun change_first :: "('a \<Rightarrow> bool) \<Rightarrow> ('a \<Rightarrow> 'a) \<Rightarrow> 'a list \<Rightarrow> 'a list" where
  "change_first P f [] = []"
| "change_first P f (x # xs) = (if P x then f x # xs else x # change_first P f xs)"

definition part :: "json \<Rightarrow> string \<Rightarrow> (string \<times> json) list" where
  "part args k = (case jget args k of None \<Rightarrow> [] | Some j \<Rightarrow> own_entries j)"

definition where_of :: "json \<Rightarrow> (string \<times> json) list" where
  "where_of args = (case jget args ''where'' of None \<Rightarrow> [] | Some j \<Rightarrow> flat_where j)"

text \<open>A new row gets an id unless the data have one.\<close>

definition new_row :: "string \<Rightarrow> (string \<times> json) list \<Rightarrow> json" where
  "new_row i data = JObj (if map_of data ''id'' = None then (''id'', JStr i) # data else data)"

definition table_op :: "string \<Rightarrow> string \<Rightarrow> json \<Rightarrow> json list \<Rightarrow> svc_reply \<times> json list" where
  "table_op i op args rows = (let P = has (where_of args); r0 = find P rows in
     if op = ''upsert'' then (case r0 of
         Some r \<Rightarrow> (Returned (spread r (part args ''update'')), change_first P (\<lambda>r. spread r (part args ''update'')) rows)
       | None \<Rightarrow> (Returned (new_row i (part args ''create'')), rows @ [new_row i (part args ''create'')]))
     else if op = ''create'' then (Returned (new_row i (part args ''data'')), rows @ [new_row i (part args ''data'')])
     else if op = ''update'' then (case r0 of
         Some r \<Rightarrow> (Returned (spread r (part args ''data'')), change_first P (\<lambda>r. spread r (part args ''data'')) rows)
       | None \<Rightarrow> (Threw (JsError (Some ''P2025'') ''No record was found''), rows))
     else if op = ''updateMany'' then
       (Returned (JObj [(''count'', JInt (int (length (filter P rows))))]),
        map (\<lambda>r. if P r then spread r (part args ''data'') else r) rows)
     else (Returned (case r0 of None \<Rightarrow> JNull | Some r \<Rightarrow> r), rows))"

text \<open>
  \<open>newId n\<close> is the id generated by the \<open>n\<close>-th call; signing up creates a user (the password is kept
  elsewhere), unless there is one with the address.
\<close>

definition sign_up :: "string \<Rightarrow> json \<Rightarrow> json list \<Rightarrow> svc_reply \<times> json list" where
  "sign_up i args rows = (let data = part args ''body''; u = new_row i (filter (\<lambda>e. fst e \<noteq> ''password'') data) in
     if list_ex (\<lambda>r. jget r ''email'' = map_of data ''email'') rows
     then (Threw (JsError (Some ''USER_ALREADY_EXISTS'') ''User already exists''), rows)
     else (Returned (JObj [(''user'', u)]), rows @ [u]))"

definition in_table :: "string \<Rightarrow> tables \<Rightarrow> (json list \<Rightarrow> svc_reply \<times> json list) \<Rightarrow> svc_reply \<times> tables" where
  "in_table T db f = (case f (db T) of (r, rows) \<Rightarrow> (r, db(T := rows)))"

definition db_call :: "string \<Rightarrow> string \<Rightarrow> json \<Rightarrow> tables \<Rightarrow> svc_reply \<times> tables" where
  "db_call i f args db =
     (if f = ''crypto.randomUUID'' then (Returned (JStr i), db)
      else if f = ''auth.signUpEmail'' then in_table ''user'' db (sign_up i args)
      else (case split_on (CHR ''.'') f of
          [p, T, op] \<Rightarrow> in_table T db (table_op i op args)
        | _ \<Rightarrow> (Returned JNull, db)))"

fun db_event :: "string \<Rightarrow> svc_event \<Rightarrow> tables \<Rightarrow> svc_reply \<times> tables" where
  "db_event i (Call f args) db = db_call i f args db"
| "db_event i (Log st name) db = (Returned JNull, db)"

text \<open>The tables after the events so far, and the world that answers from them.\<close>

definition db_after :: "(nat \<Rightarrow> string) \<Rightarrow> tables \<Rightarrow> svc_event list \<Rightarrow> tables" where
  "db_after newId db es = fold (\<lambda>(n, e) db. snd (db_event (newId n) e db)) (enumerate 0 es) db"

definition db_world :: "(nat \<Rightarrow> string) \<Rightarrow> tables \<Rightarrow> (svc_event, svc_reply) world" where
  "db_world newId db h =
     fst (db_event (newId (length h - 1)) (last h) (db_after newId db (butlast h)))"

text \<open>What the programs rely on: the world answers their calls as such a database does.\<close>

definition database :: "(nat \<Rightarrow> string) \<Rightarrow> tables \<Rightarrow> (svc_event, svc_reply) world \<Rightarrow> bool" where
  "database newId db w \<longleftrightarrow> (\<forall>h. w h = db_world newId db h)"

lemma database_world: "database newId db w \<Longrightarrow> w = db_world newId db"
  by (auto simp: database_def)

lemma world_database [simp]: "database newId db (db_world newId db)"
  by (simp add: database_def)

lemma db_after_snoc [simp]:
  "db_after newId db (h @ [e]) = snd (db_event (newId (length h)) e (db_after newId db h))"
  by (simp add: db_after_def enumerate_append_eq)

lemma db_world_snoc [simp]:
  "db_world newId db (h @ [e]) = fst (db_event (newId (length h)) e (db_after newId db h))"
  by (simp add: db_world_def)

text \<open>
  Rows are objects with ids, every id once per table, and the ids to come are new.
\<close>

definition ids :: "json list \<Rightarrow> json option list" where
  "ids rows = map (\<lambda>r. jget r ''id'') rows"

definition rows_ok :: "(nat \<Rightarrow> string) \<Rightarrow> nat \<Rightarrow> json list \<Rightarrow> bool" where
  "rows_ok newId n rows \<longleftrightarrow> distinct (ids rows) \<and>
     (\<forall>r \<in> set rows. \<exists>kvs i. r = JObj kvs \<and> map_of kvs ''id'' = Some (JStr i)) \<and> (\<forall>k \<ge> n. Some (JStr (newId k)) \<notin> set (ids rows))"

definition db_ok :: "(nat \<Rightarrow> string) \<Rightarrow> nat \<Rightarrow> tables \<Rightarrow> bool" where
  "db_ok newId n db \<longleftrightarrow> inj newId \<and> (\<forall>T. rows_ok newId n (db T))"

definition first_row :: "tables \<Rightarrow> string \<Rightarrow> (string \<times> json) list \<Rightarrow> json option" where
  "first_row db T wh = find (has wh) (db T)"


subsection \<open>Rows\<close>

definition keys :: "(string \<times> json) list \<Rightarrow> string set" where
  "keys kvs = fst ` set kvs"

lemma keys_simps [simp]: "keys [] = {}" "keys ((k, v) # kvs) = insert k (keys kvs)"
  by (simp_all add: keys_def)

lemma has_simps [simp]:
  "has [] r" "has ((k, v) # kvs) r \<longleftrightarrow> jget r k = Some v \<and> has kvs r"
  by (simp_all add: has_def)

lemma hasI: "(\<And>k v. (k, v) \<in> set kvs \<Longrightarrow> jget r k = Some v) \<Longrightarrow> has kvs r"
  by (auto simp: has_def list_all_iff)

lemma hasD: "has kvs r \<Longrightarrow> (k, v) \<in> set kvs \<Longrightarrow> jget r k = Some v"
  by (auto simp: has_def list_all_iff)

lemma jget_fold_put:
  "map_of (fold (\<lambda>(k, v). put k v) kvs os) k = (case map_of (rev kvs) k of None \<Rightarrow> map_of os k | v \<Rightarrow> v)"
  by (induction kvs arbitrary: os) (auto simp: map_add_def split: option.splits)

lemma jget_spread_row:
  "jget (spread (JObj os) kvs) k = (case map_of (rev kvs) k of None \<Rightarrow> map_of os k | v \<Rightarrow> v)"
  by (simp add: spread_def own_entries_def jget_fold_put)

lemma map_of_rev_none: "k \<notin> keys kvs \<Longrightarrow> map_of (rev kvs) k = None"
  by (simp add: map_of_eq_None_iff keys_def)

lemma map_of_rev_some: "distinct (map fst kvs) \<Longrightarrow> (k, v) \<in> set kvs \<Longrightarrow> map_of (rev kvs) k = Some v"
  by (simp add: rev_map [symmetric])

lemma jget_spread_other: "k \<notin> keys kvs \<Longrightarrow> r = JObj os \<Longrightarrow> jget (spread r kvs) k = jget r k"
  by (simp add: jget_spread_row map_of_rev_none)

lemma jget_spread_new: "distinct (map fst kvs) \<Longrightarrow> (k, v) \<in> set kvs \<Longrightarrow> r = JObj os \<Longrightarrow> jget (spread r kvs) k = Some v"
  by (simp add: jget_spread_row map_of_rev_some)

lemma has_spread_other: "keys wh \<inter> keys kvs = {} \<Longrightarrow> r = JObj os \<Longrightarrow> has wh (spread r kvs) = has wh r"
  by (induction wh) (auto simp: jget_spread_other)

lemma has_spread_new: "distinct (map fst kvs) \<Longrightarrow> r = JObj os \<Longrightarrow> has kvs (spread r kvs)"
  by (auto intro: hasI jget_spread_new)

lemma put_same: "map_of os k = Some v \<Longrightarrow> put k v os = os"
  by (induction k v os rule: put.induct) (auto split: if_splits)

lemma fold_put_same: "has kvs (JObj os) \<Longrightarrow> fold (\<lambda>(k, v). put k v) kvs os = os"
  by (induction kvs) (auto simp: put_same)

lemma spread_same: "has kvs r \<Longrightarrow> r = JObj os \<Longrightarrow> spread r kvs = r"
  by (simp add: spread_def own_entries_def fold_put_same)

lemma spread_object: "\<exists>os. spread r kvs = JObj os"
  by (simp add: spread_def)

subsection \<open>The first row\<close>

lemma set_find: "find P rows = Some r \<Longrightarrow> r \<in> set rows \<and> P r"
  by (auto simp: find_Some_iff)

lemma change_first_map:
  "distinct rows \<Longrightarrow> change_first P f rows = map (\<lambda>r. if find P rows = Some r then f r else r) rows"
proof (induction rows)
  case (Cons a rows)
  then have "rows = map (\<lambda>r. if a = r then f r else r) rows" by (auto intro!: map_idI [symmetric])
  with Cons show ?case by (auto dest: set_find)
qed simp

lemma find_map_keep: "(\<And>r. r \<in> set rows \<Longrightarrow> Q (g r) = Q r) \<Longrightarrow> find Q (map g rows) = map_option g (find Q rows)"
  by (induction rows) auto

lemma change_first_none: "find P rows = None \<Longrightarrow> change_first P f rows = rows"
  by (induction rows) (auto split: if_splits)

lemma change_first_same: "find P rows = Some r \<Longrightarrow> f r = r \<Longrightarrow> change_first P f rows = rows"
  by (induction rows) (auto split: if_splits)

lemma ids_distinct: "distinct (ids rows) \<Longrightarrow> distinct rows"
  by (simp add: ids_def distinct_map)

lemma find_change_first:
  assumes "distinct rows" and "\<And>r. r \<in> set rows \<Longrightarrow> Q (f r) = Q r"
  shows "find Q (change_first P f rows) = map_option (\<lambda>r. if find P rows = Some r then f r else r) (find Q rows)"
  unfolding change_first_map [OF assms(1)] by (rule find_map_keep) (use assms(2) in auto)

lemma ids_change:
  assumes "distinct rows" and "\<And>r. r \<in> set rows \<Longrightarrow> jget (f r) ''id'' = jget r ''id''"
  shows "ids (change_first P f rows) = ids rows"
  unfolding change_first_map [OF assms(1)] ids_def using assms(2) by (simp cong: map_cong)

text \<open>With unique ids, the row with the id of a row is that row.\<close>

lemma row_by_id:
  assumes "rows_ok newId n rows" and "r \<in> set rows"
  shows "find (has [(''id'', JStr (text_at r [''id'']))]) rows = Some r"
proof -
  obtain i where i: "jget r ''id'' = Some (JStr i)" using assms by (auto simp: rows_ok_def)
  have same: "q = r" if "q \<in> set rows" "jget q ''id'' = Some (JStr i)" for q
    using assms i that inj_onD [of "\<lambda>r. jget r ''id''" "set rows" q r] by (auto simp: rows_ok_def ids_def distinct_map)
  let ?P = "\<lambda>q. jget q ''id'' = Some (JStr i)"
  obtain q where "find ?P rows = Some q" using assms(2) i by (cases "find ?P rows") (auto simp: find_None_iff)
  then have "find ?P rows = Some r" using same set_find [of ?P rows q] by blast
  moreover have "has [(''id'', JStr (text_at r [''id'']))] = ?P" by (auto simp: fun_eq_iff i)
  ultimately show ?thesis by simp
qed

subsection \<open>Tables that stay well-formed\<close>

lemma rows_ok_distinct: "rows_ok newId n rows \<Longrightarrow> distinct rows"
  by (simp add: rows_ok_def ids_distinct)

lemma rows_ok_object: "rows_ok newId n rows \<Longrightarrow> r \<in> set rows \<Longrightarrow> \<exists>os. r = JObj os"
  by (auto simp: rows_ok_def)

lemma rows_ok_later: "rows_ok newId n rows \<Longrightarrow> n \<le> m \<Longrightarrow> rows_ok newId m rows"
  by (auto simp: rows_ok_def)

lemma db_ok_later: "db_ok newId n db \<Longrightarrow> n \<le> m \<Longrightarrow> db_ok newId m db"
  by (auto simp: db_ok_def intro: rows_ok_later)

lemma db_ok_rows: "db_ok newId n db \<Longrightarrow> rows_ok newId n (db T)"
  by (simp add: db_ok_def)

lemma db_ok_upd: "db_ok newId n db \<Longrightarrow> rows_ok newId n rows \<Longrightarrow> db_ok newId n (db(T := rows))"
  by (simp add: db_ok_def)

lemma same_ids:
  assumes "ids rows' = ids rows" and "\<And>r. r \<in> set rows' \<Longrightarrow> \<exists>os. r = JObj os" and "rows_ok newId n rows"
  shows "rows_ok newId n rows'"
proof -
  have "\<exists>kvs i. r = JObj kvs \<and> map_of kvs ''id'' = Some (JStr i)" if r: "r \<in> set rows'" for r
  proof -
    have "jget r ''id'' \<in> set (ids rows')" using r by (simp add: ids_def)
    then have "jget r ''id'' \<in> set (ids rows)" by (simp only: assms(1))
    then obtain i where "jget r ''id'' = Some (JStr i)" using assms(3) by (auto simp: rows_ok_def ids_def)
    then show ?thesis using assms(2) [OF r] by auto
  qed
  with assms show ?thesis by (auto simp: rows_ok_def)
qed

lemma rows_ok_change:
  assumes "rows_ok newId n rows" and "''id'' \<notin> keys up"
  shows "rows_ok newId n (change_first P (\<lambda>r. spread r up) rows)"
proof (rule same_ids [OF _ _ assms(1)])
  have d: "distinct rows" by (rule rows_ok_distinct) (rule assms)
  show "ids (change_first P (\<lambda>r. spread r up) rows) = ids rows"
    using rows_ok_object [OF assms(1)] assms(2) by (intro ids_change d) (blast intro: jget_spread_other)
  show "\<exists>os. r = JObj os" if "r \<in> set (change_first P (\<lambda>r. spread r up) rows)" for r
    using that rows_ok_object [OF assms(1)] spread_object by (auto simp: change_first_map [OF d] split: if_splits)
qed

lemma rows_ok_map:
  assumes "rows_ok newId n rows" and "''id'' \<notin> keys up"
  shows "rows_ok newId n (map (\<lambda>r. if P r then spread r up else r) rows)"
proof (rule same_ids [OF _ _ assms(1)])
  have "jget (spread r up) ''id'' = jget r ''id''" if "r \<in> set rows" for r
    using assms(2) rows_ok_object [OF assms(1) that] jget_spread_other by blast
  then show "ids (map (\<lambda>r. if P r then spread r up else r) rows) = ids rows"
    by (auto simp: ids_def)
  show "\<exists>os. r = JObj os" if "r \<in> set (map (\<lambda>r. if P r then spread r up else r) rows)" for r
    using that rows_ok_object [OF assms(1)] spread_object by (auto split: if_splits)
qed

lemma rows_ok_append:
  assumes "rows_ok newId n rows" and "inj newId" and "k \<le> n" and "Some (JStr (newId k)) \<notin> set (ids rows)"
    and "map_of data ''id'' = None \<and> k = n \<or> map_of data ''id'' = Some (JStr (newId k))"
  shows "rows_ok newId (Suc n) (rows @ [new_row (newId n) data])"
proof -
  have "jget (new_row (newId n) data) ''id'' = Some (JStr (newId k))" using assms(5) by (auto simp: new_row_def)
  moreover have "newId m \<noteq> newId k" if "m \<ge> Suc n" for m using assms(2,3) that by (auto dest: injD)
  ultimately show ?thesis using assms(1,4) by (auto simp: rows_ok_def ids_def new_row_def)
qed

lemma fresh_id: "rows_ok newId n rows \<Longrightarrow> n \<le> k \<Longrightarrow> Some (JStr (newId k)) \<notin> set (ids rows)"
  by (simp add: rows_ok_def)

subsection \<open>What holds of a table\<close>

text \<open>The first row that satisfies a condition has given columns and a given id; all rows that do, have.\<close>

definition row_set :: "string \<Rightarrow> (string \<times> json) list \<Rightarrow> (string \<times> json) list \<Rightarrow> string \<Rightarrow> tables \<Rightarrow> bool" where
  "row_set T wh up i db \<longleftrightarrow> (\<exists>r. first_row db T wh = Some r \<and> has up r \<and> text_at r [''id''] = i)"

definition all_set :: "string \<Rightarrow> (string \<times> json) list \<Rightarrow> (string \<times> json) list \<Rightarrow> tables \<Rightarrow> bool" where
  "all_set T wh up db \<longleftrightarrow> (\<forall>r \<in> set (db T). has wh r \<longrightarrow> has up r)"

definition absent :: "string \<Rightarrow> (string \<times> json) list \<Rightarrow> tables \<Rightarrow> bool" where
  "absent T wh db \<longleftrightarrow> first_row db T wh = None"

text \<open>
  Two conditions that no row satisfies both; an update that changes neither what a condition asks for nor
  the columns that are to hold, unless it is one of other rows.
\<close>

definition clash :: "(string \<times> json) list \<Rightarrow> (string \<times> json) list \<Rightarrow> bool" where
  "clash wh wh' \<longleftrightarrow> (\<exists>(k, v) \<in> set wh. \<exists>(k', v') \<in> set wh'. k = k' \<and> v \<noteq> v')"

definition apart :: "(string \<times> json) list \<Rightarrow> (string \<times> json) list \<Rightarrow> bool" where
  "apart kvs up \<longleftrightarrow> keys kvs \<inter> keys up = {}"

definition agree :: "(string \<times> json) list \<Rightarrow> (string \<times> json) list \<Rightarrow> bool" where
  "agree up up' \<longleftrightarrow> (\<forall>(k, v) \<in> set up. k \<notin> keys up' \<or> (k, v) \<in> set up')"

definition harmless :: "(string \<times> json) list \<Rightarrow> (string \<times> json) list \<Rightarrow> (string \<times> json) list \<Rightarrow> (string \<times> json) list \<Rightarrow> bool" where
  "harmless wh up wh' up' \<longleftrightarrow> apart wh up' \<and> (clash wh wh' \<or> agree up up')"

definition data_ok :: "(string \<times> json) list \<Rightarrow> bool" where
  "data_ok up \<longleftrightarrow> distinct (map fst up) \<and> ''id'' \<notin> keys up"

lemma clash_has: "clash wh wh' \<Longrightarrow> has wh r \<Longrightarrow> \<not> has wh' r"
  by (fastforce simp: clash_def dest: hasD)

lemma agree_has:
  assumes "agree up up'" and "has up r" and "data_ok up'" and "r = JObj os"
  shows "has up (spread r up')"
proof (rule hasI)
  fix k v assume kv: "(k, v) \<in> set up"
  show "jget (spread r up') k = Some v"
  proof (cases "k \<in> keys up'")
    case True
    with assms(1) kv have "(k, v) \<in> set up'" by (auto simp: agree_def)
    with assms(3,4) show ?thesis by (simp add: data_ok_def jget_spread_new)
  next
    case False
    with assms(4) hasD [OF assms(2) kv] show ?thesis by (simp add: jget_spread_other)
  qed
qed

lemma harmless_spread:
  assumes "harmless wh up wh' up'" and "data_ok up'" and "r = JObj os" and "has wh r" and "has up r" and "has wh' r"
  shows "has up (spread r up') \<and> text_at (spread r up') [''id''] = text_at r [''id'']"
  using assms clash_has [of wh wh' r] agree_has [of up up' r os]
  by (auto simp: harmless_def data_ok_def jget_spread_other [of _ _ _ os])

lemma row_set_other [simp]: "T \<noteq> T' \<Longrightarrow> row_set T wh up i (db(T' := rows)) = row_set T wh up i db"
  by (simp add: row_set_def first_row_def)

lemma all_set_other [simp]: "T \<noteq> T' \<Longrightarrow> all_set T wh up (db(T' := rows)) = all_set T wh up db"
  by (simp add: all_set_def)

lemma absent_other [simp]: "T \<noteq> T' \<Longrightarrow> absent T wh (db(T' := rows)) = absent T wh db"
  by (simp add: absent_def first_row_def)

lemma row_set_append: "row_set T wh up i db \<Longrightarrow> row_set T wh up i (db(T := db T @ rows))"
  by (auto simp: row_set_def first_row_def find_append)

lemma row_set_change:
  assumes "rows_ok newId n (db T)" and "row_set T wh up i db" and "harmless wh up wh' up'" and "data_ok up'"
  shows "row_set T wh up i (db(T := change_first (has wh') (\<lambda>r. spread r up') (db T)))"
proof -
  let ?f = "\<lambda>r. spread r up'"
  obtain r where r: "find (has wh) (db T) = Some r" "has up r" "text_at r [''id''] = i"
    using assms(2) by (auto simp: row_set_def first_row_def)
  have obj: "\<exists>os. q = JObj os" if "q \<in> set (db T)" for q using rows_ok_object [OF assms(1) that] .
  have "has wh (?f q) = has wh q" if "q \<in> set (db T)" for q
    using obj [OF that] assms(3) has_spread_other [of wh up'] by (auto simp: harmless_def apart_def)
  then have f: "find (has wh) (change_first (has wh') ?f (db T)) = Some (if find (has wh') (db T) = Some r then ?f r else r)"
    using find_change_first [OF rows_ok_distinct [OF assms(1)], of "has wh" ?f "has wh'"] r(1) by simp
  have "has up (?f r) \<and> text_at (?f r) [''id''] = i" if "find (has wh') (db T) = Some r"
    using harmless_spread [OF assms(3,4), of r] obj [of r] set_find [OF r(1)] set_find [OF that] r(2,3) by auto
  with f r show ?thesis by (auto simp: row_set_def first_row_def)
qed

lemma row_set_map:
  assumes "rows_ok newId n (db T)" and "row_set T wh up i db" and "harmless wh up wh' up'" and "data_ok up'"
  shows "row_set T wh up i (db(T := map (\<lambda>r. if has wh' r then spread r up' else r) (db T)))"
proof -
  let ?f = "\<lambda>r. if has wh' r then spread r up' else r"
  obtain r where r: "find (has wh) (db T) = Some r" "has up r" "text_at r [''id''] = i"
    using assms(2) by (auto simp: row_set_def first_row_def)
  have obj: "\<exists>os. q = JObj os" if "q \<in> set (db T)" for q using rows_ok_object [OF assms(1) that] .
  have "has wh (?f q) = has wh q" if "q \<in> set (db T)" for q
    using obj [OF that] assms(3) has_spread_other [of wh up'] by (auto simp: harmless_def apart_def)
  then have "find (has wh) (map ?f (db T)) = Some (?f r)" using r(1) by (subst find_map_keep) auto
  moreover have "has up (?f r) \<and> text_at (?f r) [''id''] = i"
    using harmless_spread [OF assms(3,4), of r] obj [of r] set_find [OF r(1)] r(2,3) by auto
  ultimately show ?thesis by (auto simp: row_set_def first_row_def)
qed

lemma all_set_map:
  assumes "rows_ok newId n (db T)" and "all_set T wh up db" and "harmless wh up wh' up'" and "data_ok up'"
  shows "all_set T wh up (db(T := map (\<lambda>r. if has wh' r then spread r up' else r) (db T)))"
proof -
  have "has up (if has wh' r then spread r up' else r)"
    if r: "r \<in> set (db T)" "has wh (if has wh' r then spread r up' else r)" for r
  proof -
    obtain os where os: "r = JObj os" using rows_ok_object [OF assms(1) r(1)] by blast
    then have "has wh r" using r(2) assms(3) has_spread_other [of wh up' r os] by (auto simp: harmless_def apart_def split: if_splits)
    moreover from this have "has up r" using assms(2) r(1) by (simp add: all_set_def)
    ultimately show ?thesis using harmless_spread [OF assms(3,4) os] by auto
  qed
  then show ?thesis unfolding all_set_def fun_upd_same set_map by blast
qed

lemma absent_append: "absent T wh db \<Longrightarrow> \<not> has wh r \<Longrightarrow> absent T wh (db(T := db T @ [r]))"
  by (auto simp: absent_def first_row_def find_append)

lemma absent_change:
  assumes "rows_ok newId n (db T)" and "absent T wh db" and "apart wh up'"
  shows "absent T wh (db(T := change_first (has wh') (\<lambda>r. spread r up') (db T)))"
proof -
  have "has wh (spread q up') = has wh q" if "q \<in> set (db T)" for q
    using rows_ok_object [OF assms(1) that] assms(3) has_spread_other [of wh up'] by (auto simp: apart_def)
  then show ?thesis
    using find_change_first [OF rows_ok_distinct [OF assms(1)], of "has wh" "\<lambda>r. spread r up'" "has wh'"] assms(2)
    by (simp add: absent_def first_row_def)
qed

lemma new_row_has: "''id'' \<notin> keys wh \<Longrightarrow> has wh (new_row i data) = has wh (JObj data)"
  by (induction wh) (auto simp: new_row_def)

subsection \<open>Steps\<close>

definition prisma :: "string \<Rightarrow> string \<Rightarrow> (string \<times> json) list \<Rightarrow> json svc" where
  "prisma T op args = call (''prisma.'' @ T @ ''.'' @ op) (JObj args)"

text \<open>\<^verbatim>\<open>row.id\<close>, a text in every row.\<close>

definition row_id :: "json \<Rightarrow> string svc" where
  "row_id r = andThen (rd r ''id'') (\<lambda>v. ret (case v of Some (JStr i) \<Rightarrow> i | _ \<Rightarrow> []))"

definition upsert :: "string \<Rightarrow> (string \<times> json) list \<Rightarrow> (string \<times> json) list \<Rightarrow> (string \<times> json) list \<Rightarrow> json svc" where
  "upsert T wh cr up = prisma T ''upsert'' [(''where'', JObj wh), (''create'', JObj cr), (''update'', JObj up)]"

definition upsert_id :: "string \<Rightarrow> (string \<times> json) list \<Rightarrow> (string \<times> json) list \<Rightarrow> (string \<times> json) list \<Rightarrow> string svc" where
  "upsert_id T wh cr up = andThen (upsert T wh cr up) row_id"

definition upsert_row :: "string \<Rightarrow> (string \<times> json) list \<Rightarrow> (string \<times> json) list \<Rightarrow> (string \<times> json) list \<Rightarrow> unit svc" where
  "upsert_row T wh cr up = andThen (upsert T wh cr up) (\<lambda>r. ret ())"

text \<open>\<^verbatim>\<open>randomUUID()\<close>.\<close>

definition randomUUID :: "string svc" where
  "randomUUID = andThen (call ''crypto.randomUUID'' (JObj [])) (\<lambda>v. ret (text_at v []))"

text \<open>Creation with an id of the caller's; the id is drawn before the call, whether it is used or not.\<close>

definition upsert_uuid :: "string \<Rightarrow> (string \<times> json) list \<Rightarrow> (string \<times> json) list \<Rightarrow> (string \<times> json) list \<Rightarrow> string svc" where
  "upsert_uuid T wh cr up = andThen randomUUID (\<lambda>u. upsert_id T wh ((''id'', JStr u) # cr) up)"

text \<open>The update of the first row that satisfies a condition, or its creation, by two calls.\<close>

definition find_or_create :: "string \<Rightarrow> (string \<times> json) list \<Rightarrow> (string \<times> json) list \<Rightarrow> (string \<times> json) list \<Rightarrow> unit svc" where
  "find_or_create T wh cr up = andThen (prisma T ''findFirst'' [(''where'', JObj wh)]) (\<lambda>existing.
     if truthy (Some existing) then andThen (row_id existing) (\<lambda>i.
       andThen (prisma T ''update'' [(''where'', JObj [(''id'', JStr i)]), (''data'', JObj up)]) (\<lambda>r. ret ()))
     else andThen randomUUID (\<lambda>u.
       andThen (prisma T ''create'' [(''data'', JObj ((''id'', JStr u) # cr))]) (\<lambda>r. ret ())))"

definition update_row :: "string \<Rightarrow> string \<Rightarrow> (string \<times> json) list \<Rightarrow> unit svc" where
  "update_row T i up = andThen (prisma T ''update'' [(''where'', JObj [(''id'', JStr i)]), (''data'', JObj up)]) (\<lambda>r. ret ())"

text \<open>\<^verbatim>\<open>const { count } = await prisma.T.updateMany(...)\<close>.\<close>

definition update_many :: "string \<Rightarrow> (string \<times> json) list \<Rightarrow> (string \<times> json) list \<Rightarrow> unit svc" where
  "update_many T wh up = andThen (prisma T ''updateMany'' [(''where'', JObj wh), (''data'', JObj up)]) (\<lambda>r.
     andThen (rd r ''count'') (\<lambda>n. ret ()))"

definition find_unique :: "string \<Rightarrow> (string \<times> json) list \<Rightarrow> string option svc" where
  "find_unique T wh = andThen (prisma T ''findUnique'' [(''where'', JObj wh)]) (\<lambda>r.
     if truthy (Some r) then andThen (row_id r) (\<lambda>i. ret (Some i)) else ret None)"

fun for_each :: "('a \<Rightarrow> unit svc) \<Rightarrow> 'a list \<Rightarrow> unit svc" where
  "for_each f [] = ret ()"
| "for_each f (x # xs) = andThen (f x) (\<lambda>u. for_each f xs)"


subsection \<open>What steps do to the tables\<close>

text \<open>
  A step as a function of the tables (and the number of the calls before it), \<open>acts\<close>; \<open>settles m S\<close>: what
  \<open>m\<close> leaves behind satisfies \<open>S\<close> (with its result), and where \<open>S\<close> holds, \<open>m\<close> gives that result and changes no
  table; \<open>keeps P m\<close>: \<open>m\<close> preserves \<open>P\<close>. All on well-formed tables, which stay so.
\<close>

definition acts :: "(nat \<Rightarrow> string) \<Rightarrow> 'a svc \<Rightarrow> (nat \<Rightarrow> tables \<Rightarrow> (iam_exn + 'a) \<times> tables) \<Rightarrow> bool" where
  "acts newId m f \<longleftrightarrow> (\<forall>d0 h r h'. db_ok newId (length h) (db_after newId d0 h) \<longrightarrow>
     m (db_world newId d0) h = (r, h') \<longrightarrow> f (length h) (db_after newId d0 h) = (r, db_after newId d0 h') \<and>
       db_ok newId (length h') (db_after newId d0 h'))"

definition keeps :: "(nat \<Rightarrow> string) \<Rightarrow> (tables \<Rightarrow> bool) \<Rightarrow> 'a svc \<Rightarrow> bool" where
  "keeps newId P m \<longleftrightarrow> (\<forall>d0 h r h'. db_ok newId (length h) (db_after newId d0 h) \<longrightarrow> P (db_after newId d0 h) \<longrightarrow>
     m (db_world newId d0) h = (r, h') \<longrightarrow> db_ok newId (length h') (db_after newId d0 h') \<and> P (db_after newId d0 h'))"

definition settles :: "(nat \<Rightarrow> string) \<Rightarrow> 'a svc \<Rightarrow> ('a \<Rightarrow> tables \<Rightarrow> bool) \<Rightarrow> bool" where
  "settles newId m S \<longleftrightarrow> (\<forall>d0 h r h'. db_ok newId (length h) (db_after newId d0 h) \<longrightarrow>
     m (db_world newId d0) h = (r, h') \<longrightarrow> db_ok newId (length h') (db_after newId d0 h') \<and>
       (\<forall>a. r = Inr a \<longrightarrow> S a (db_after newId d0 h')) \<and>
       (\<forall>a. S a (db_after newId d0 h) \<longrightarrow> r = Inr a \<and> db_after newId d0 h' = db_after newId d0 h))"

lemma actsD:
  assumes "acts newId m f" and "m (db_world newId d0) h = (r, h')" and "db_ok newId (length h) (db_after newId d0 h)"
  shows "f (length h) (db_after newId d0 h) = (r, db_after newId d0 h')"
    and "db_ok newId (length h') (db_after newId d0 h')"
  using assms unfolding acts_def by blast+

lemma keepsI:
  assumes "\<And>d0 h r h'. db_ok newId (length h) (db_after newId d0 h) \<Longrightarrow> P (db_after newId d0 h) \<Longrightarrow>
      m (db_world newId d0) h = (r, h') \<Longrightarrow>
      db_ok newId (length h') (db_after newId d0 h') \<and> P (db_after newId d0 h')"
  shows "keeps newId P m"
  unfolding keeps_def using assms by blast

lemma keepsD:
  assumes "keeps newId P m" and "m (db_world newId d0) h = (r, h')"
    and "db_ok newId (length h) (db_after newId d0 h)" and "P (db_after newId d0 h)"
  shows "db_ok newId (length h') (db_after newId d0 h') \<and> P (db_after newId d0 h')"
  using assms unfolding keeps_def by blast

lemma settlesI:
  assumes "\<And>d0 h r h'. db_ok newId (length h) (db_after newId d0 h) \<Longrightarrow> m (db_world newId d0) h = (r, h') \<Longrightarrow>
      db_ok newId (length h') (db_after newId d0 h') \<and> (\<forall>a. r = Inr a \<longrightarrow> S a (db_after newId d0 h')) \<and>
      (\<forall>a. S a (db_after newId d0 h) \<longrightarrow> r = Inr a \<and> db_after newId d0 h' = db_after newId d0 h)"
  shows "settles newId m S"
  unfolding settles_def using assms by blast

lemma settlesD:
  assumes "settles newId m S" and "m (db_world newId d0) h = (r, h')"
    and "db_ok newId (length h) (db_after newId d0 h)"
  shows "db_ok newId (length h') (db_after newId d0 h')" and "r = Inr a \<Longrightarrow> S a (db_after newId d0 h')"
    and "S a (db_after newId d0 h) \<Longrightarrow> r = Inr a \<and> db_after newId d0 h' = db_after newId d0 h"
  using assms unfolding settles_def by blast+

lemma acts_settles:
  assumes "acts newId m f"
    and "\<And>n db a. db_ok newId n db \<Longrightarrow> fst (f n db) = Inr a \<Longrightarrow> S a (snd (f n db))"
    and "\<And>n db a. db_ok newId n db \<Longrightarrow> S a db \<Longrightarrow> f n db = (Inr a, db)"
  shows "settles newId m S"
proof (rule settlesI)
  fix d0 h r h'
  assume ok: "db_ok newId (length h) (db_after newId d0 h)" and m: "m (db_world newId d0) h = (r, h')"
  note f = actsD [OF assms(1) m ok]
  have "S a (db_after newId d0 h')" if "r = Inr a" for a using assms(2) [OF ok, of a] f(1) that by simp
  moreover have "r = Inr a \<and> db_after newId d0 h' = db_after newId d0 h" if "S a (db_after newId d0 h)" for a
    using assms(3) [OF ok that] f(1) by simp
  ultimately show "db_ok newId (length h') (db_after newId d0 h') \<and> (\<forall>a. r = Inr a \<longrightarrow> S a (db_after newId d0 h')) \<and>
      (\<forall>a. S a (db_after newId d0 h) \<longrightarrow> r = Inr a \<and> db_after newId d0 h' = db_after newId d0 h)"
    using f(2) by blast
qed

lemma acts_keeps:
  assumes "acts newId m f" and "\<And>n db. db_ok newId n db \<Longrightarrow> P db \<Longrightarrow> P (snd (f n db))"
  shows "keeps newId P m"
proof (rule keepsI)
  fix d0 h r h'
  assume ok: "db_ok newId (length h) (db_after newId d0 h)" and P: "P (db_after newId d0 h)"
    and m: "m (db_world newId d0) h = (r, h')"
  note f = actsD [OF assms(1) m ok]
  then show "db_ok newId (length h') (db_after newId d0 h') \<and> P (db_after newId d0 h')"
    using assms(2) [OF ok P] by simp
qed

lemma settles_andThen:
  assumes m: "settles newId m S" and f: "\<And>a. settles newId (f a) (T a)" and k: "\<And>a. keeps newId (S a) (f a)"
  shows "settles newId (andThen m f) (\<lambda>b db. \<exists>a. S a db \<and> T a b db)"
proof (rule settlesI)
  let ?w = "db_world newId" and ?d = "db_after newId"
  fix d0 h q h2
  assume ok: "db_ok newId (length h) (?d d0 h)" and mf: "andThen m f (?w d0) h = (q, h2)"
  obtain r h1 where 1: "m (?w d0) h = (r, h1)" by fastforce
  note M = settlesD [OF m 1 ok]
  show "db_ok newId (length h2) (?d d0 h2) \<and>
        (\<forall>b. q = Inr b \<longrightarrow> (\<exists>a. S a (?d d0 h2) \<and> T a b (?d d0 h2))) \<and>
        (\<forall>b. (\<exists>a. S a (?d d0 h) \<and> T a b (?d d0 h)) \<longrightarrow> q = Inr b \<and> ?d d0 h2 = ?d d0 h)"
  proof (cases r)
    case (Inl e)
    then have "q = Inl e" "h2 = h1" using 1 mf by (simp_all add: io_simps)
    then show ?thesis using M(1) M(3) Inl by auto
  next
    case (Inr a)
    then have 2: "f a (?w d0) h1 = (q, h2)" using 1 mf by (simp add: io_simps)
    note F = settlesD [OF f 2 M(1)]
    have "S a (?d d0 h2)" using keepsD [OF k 2 M(1)] M(2) Inr by blast
    moreover have "q = Inr b \<and> ?d d0 h2 = ?d d0 h" if "S a' (?d d0 h)" "T a' b (?d d0 h)" for a' b
    proof -
      have "a' = a" "?d d0 h1 = ?d d0 h" using M(3) [OF that(1)] Inr by auto
      then show ?thesis using F(3) [of b] that(2) by simp
    qed
    ultimately show ?thesis using F(1,2) by blast
  qed
qed

lemma settles_ret: "settles newId (ret a) (\<lambda>b db. b = a)"
  by (rule settlesI) (auto simp: io_simps)

lemma settles_weaken: "settles newId m S \<Longrightarrow> (\<And>a db. S a db = S' a db) \<Longrightarrow> settles newId m S'"
  by (subgoal_tac "S = S'") (simp, intro ext, blast)

lemma keeps_andThen:
  assumes m: "keeps newId P m" and f: "\<And>a. keeps newId P (f a)"
  shows "keeps newId P (andThen m f)"
proof (rule keepsI)
  let ?w = "db_world newId" and ?d = "db_after newId"
  fix d0 h q h2
  assume ok: "db_ok newId (length h) (?d d0 h)" "P (?d d0 h)" and mf: "andThen m f (?w d0) h = (q, h2)"
  obtain r h1 where 1: "m (?w d0) h = (r, h1)" by fastforce
  note M = keepsD [OF m 1 ok]
  show "db_ok newId (length h2) (?d d0 h2) \<and> P (?d d0 h2)"
  proof (cases r)
    case (Inl e)
    then show ?thesis using M 1 mf by (simp add: io_simps)
  next
    case (Inr a)
    then have "f a (?w d0) h1 = (q, h2)" using 1 mf by (simp add: io_simps)
    then show ?thesis using keepsD [OF f] M by blast
  qed
qed

lemma keeps_ret: "keeps newId P (ret a)"
  by (rule keepsI) (simp add: io_simps)

lemma keeps_ex: "(\<And>x. keeps newId (P x) m) \<Longrightarrow> keeps newId (\<lambda>db. \<exists>x. P x db) m"
  by (rule keepsI) (blast dest: keepsD)

lemma keeps_conj: "keeps newId P m \<Longrightarrow> keeps newId Q m \<Longrightarrow> keeps newId (\<lambda>db. P db \<and> Q db) m"
  by (rule keepsI) (blast dest: keepsD)

lemma keeps_for_each: "(\<And>x. x \<in> set xs \<Longrightarrow> keeps newId P (f x)) \<Longrightarrow> keeps newId P (for_each f xs)"
  by (induction xs) (auto intro: keeps_ret keeps_andThen)

text \<open>A loop, when no round disturbs the rounds before it.\<close>

lemma settles_for_each:
  assumes "\<And>x. x \<in> set xs \<Longrightarrow> settles newId (f x) (\<lambda>u db. S x db)"
    and "sorted_wrt (\<lambda>x y. keeps newId (S x) (f y)) xs"
  shows "settles newId (for_each f xs) (\<lambda>u db. \<forall>x \<in> set xs. S x db)"
  using assms
proof (induction xs)
  case (Cons x xs)
  have "settles newId (for_each f (x # xs)) (\<lambda>u db. \<exists>a::unit. S x db \<and> (\<forall>x \<in> set xs. S x db))"
    unfolding for_each.simps
    by (rule settles_andThen) (use Cons in \<open>auto intro!: keeps_for_each\<close>)
  then show ?case by (rule settles_weaken) auto
qed (simp add: settles_weaken [OF settles_ret])


subsection \<open>The steps on the tables\<close>

definition dotless :: "string \<Rightarrow> bool" where
  "dotless s \<longleftrightarrow> CHR ''.'' \<notin> set s"

lemma split_on_dotless: "c \<notin> set xs \<Longrightarrow> split_on c xs = [xs]"
  by (induction xs) auto

lemma split_on_append: "c \<notin> set xs \<Longrightarrow> split_on c (xs @ c # ys) = xs # split_on c ys"
  by (induction xs) auto

lemma split_prisma: "dotless T \<Longrightarrow> dotless op \<Longrightarrow> split_on (CHR ''.'') (''prisma.'' @ T @ ''.'' @ op) = [''prisma'', T, op]"
  using split_on_append [of "CHR ''.''" "''prisma''"] split_on_append [of "CHR ''.''" T op]
  by (simp add: dotless_def split_on_dotless)

lemma prisma_event:
  assumes "dotless T" and "dotless op"
  shows "db_event i (Call (''prisma.'' @ T @ ''.'' @ op) args) db = in_table T db (table_op i op args)"
  using split_prisma [OF assms] by (simp add: db_call_def)

lemma prisma_run:
  assumes "dotless T" and "dotless op" and "table_op (newId (length h)) op (JObj args) (db_after newId d0 h T) = (reply, rows)"
  shows "\<exists>e. prisma T op args (db_world newId d0) h =
      (case reply of Returned j \<Rightarrow> Inr j | Threw x \<Rightarrow> Inl x, h @ [e]) \<and>
    db_after newId d0 (h @ [e]) = (db_after newId d0 h)(T := rows)"
proof -
  define e where "e = Call (''prisma.'' @ T @ ''.'' @ op) (JObj args)"
  have "db_event (newId (length h)) e (db_after newId d0 h) = (reply, (db_after newId d0 h)(T := rows))"
    unfolding e_def prisma_event [OF assms(1,2)] by (simp add: in_table_def assms(3))
  then show ?thesis unfolding prisma_def call_def e_def [symmetric]
    by (intro exI [of _ e]) (simp add: io_simps split: svc_reply.split)
qed

text \<open>The row with the given columns, changed or created.\<close>

definition put_row ::
    "(nat \<Rightarrow> string) \<Rightarrow> string \<Rightarrow> (string \<times> json) list \<Rightarrow> (string \<times> json) list \<Rightarrow> (string \<times> json) list \<Rightarrow>
     nat \<Rightarrow> tables \<Rightarrow> string \<times> tables" where
  "put_row newId T wh cr up n db = (case find (has wh) (db T) of
     Some r \<Rightarrow> (text_at r [''id''], db(T := change_first (has wh) (\<lambda>r. spread r up) (db T)))
   | None \<Rightarrow> (newId n, db(T := db T @ [JObj ((''id'', JStr (newId n)) # cr)])))"

definition step_ok :: "(string \<times> json) list \<Rightarrow> (string \<times> json) list \<Rightarrow> (string \<times> json) list \<Rightarrow> bool" where
  "step_ok wh cr up \<longleftrightarrow> data_ok up \<and> ''id'' \<notin> keys cr \<and> ''id'' \<notin> keys wh \<and> apart wh up \<and> has wh (JObj cr) \<and> has up (JObj cr)"

lemma has_Cons_id: "''id'' \<notin> keys kvs \<Longrightarrow> has kvs (JObj ((''id'', v) # cr)) = has kvs (JObj cr)"
  by (induction kvs) auto

lemma put_row_settles:
  assumes "db_ok newId n db" and "step_ok wh cr up" and "put_row newId T wh cr up n db = (i, db')"
  shows "row_set T wh up i db'"
proof (cases "find (has wh) (db T)")
  case None
  then show ?thesis using assms(2,3)
    by (auto simp: put_row_def row_set_def first_row_def find_append step_ok_def data_ok_def has_Cons_id)
next
  case (Some r)
  have rows: "rows_ok newId n (db T)" by (rule db_ok_rows) (rule assms)
  obtain os where os: "r = JObj os" using rows_ok_object [OF rows] set_find [OF Some] by blast
  have "has wh (spread q up) = has wh q" if "q \<in> set (db T)" for q
    using rows_ok_object [OF rows that] assms(2) has_spread_other [of wh up] by (auto simp: step_ok_def apart_def)
  then have "find (has wh) (change_first (has wh) (\<lambda>r. spread r up) (db T)) = Some (spread r up)"
    using find_change_first [OF rows_ok_distinct [OF rows], of "has wh" "\<lambda>r. spread r up" "has wh"] Some by simp
  moreover have "text_at (spread r up) [''id''] = text_at r [''id'']" "has up (spread r up)"
    using assms(2) os by (auto simp: step_ok_def data_ok_def jget_spread_other has_spread_new)
  ultimately show ?thesis using assms(3) Some by (auto simp: put_row_def row_set_def first_row_def)
qed

lemma put_row_same:
  assumes "db_ok newId n db" and "row_set T wh up i db"
  shows "put_row newId T wh cr up n db = (i, db)"
proof -
  obtain r where r: "find (has wh) (db T) = Some r" "has up r" "text_at r [''id''] = i"
    using assms(2) by (auto simp: row_set_def first_row_def)
  obtain os where "r = JObj os" using rows_ok_object [OF db_ok_rows [OF assms(1)]] set_find [OF r(1)] by blast
  then have "change_first (has wh) (\<lambda>r. spread r up) (db T) = db T"
    using r by (intro change_first_same [OF r(1)] spread_same)
  then show ?thesis using r by (simp add: put_row_def)
qed

lemma put_row_ok:
  assumes "db_ok newId n db" and "data_ok up" and "''id'' \<notin> keys cr"
  shows "db_ok newId (Suc n) (snd (put_row newId T wh cr up n db))"
proof (cases "find (has wh) (db T)")
  case None
  have rows: "rows_ok newId n (db T)" by (rule db_ok_rows) (rule assms)
  have "map_of cr ''id'' = None" using assms(3) by (simp add: keys_def map_of_eq_None_iff)
  then have "rows_ok newId (Suc n) (db T @ [JObj ((''id'', JStr (newId n)) # cr)])"
    using rows_ok_append [OF rows, of n cr] assms(1) fresh_id [OF rows, of n] by (simp add: db_ok_def new_row_def)
  then show ?thesis using None db_ok_later [OF assms(1), of "Suc n"] by (simp add: put_row_def db_ok_upd)
next
  case (Some r)
  then show ?thesis using assms db_ok_later [of newId n _ "Suc n"] rows_ok_change [OF db_ok_rows [OF assms(1)]]
    by (simp add: put_row_def data_ok_def db_ok_upd)
qed

text \<open>What a changed or created row leaves alone.\<close>

lemma put_row_other:
  assumes "T' \<noteq> T"
  shows "snd (put_row newId T wh cr up n db) T' = db T'"
  using assms by (simp add: put_row_def split: option.splits)

lemma put_row_row_set:
  assumes "db_ok newId n db" and "data_ok up'" and "row_set T wh up i db" and "T \<noteq> T' \<or> harmless wh up wh' up'"
  shows "row_set T wh up i (snd (put_row newId T' wh' cr' up' n db))"
  using row_set_append [OF assms(3)] row_set_change [OF db_ok_rows [OF assms(1)] assms(3) _ assms(2), of wh'] assms(3,4)
  by (cases "T = T'") (auto simp: put_row_def row_set_def first_row_def split: option.splits)

lemma put_row_absent:
  assumes "db_ok newId n db" and "absent T wh db"
    and "T \<noteq> T' \<or> \<not> has wh (JObj cr') \<and> apart wh up' \<and> ''id'' \<notin> keys wh"
  shows "absent T wh (snd (put_row newId T' wh' cr' up' n db))"
proof (cases "T = T'")
  case True
  then show ?thesis
    using assms absent_append [OF assms(2)] absent_change [OF db_ok_rows [OF assms(1)] assms(2)]
    by (simp add: put_row_def has_Cons_id split: option.splits)
qed (use assms in \<open>simp add: absent_def first_row_def put_row_other\<close>)


text \<open>The steps of the scripts are changes or creations of a row.\<close>

definition put_id where
  "put_id newId T wh cr up n db = (case put_row newId T wh cr up n db of (i, db') \<Rightarrow> (Inr i, db'))"

definition put_unit where
  "put_unit newId T wh cr up n db = (case put_row newId T wh cr up n db of (i, db') \<Rightarrow> (Inr (), db'))"

lemma part_simps [simp]:
  "part (JObj kvs) k = (case map_of kvs k of None \<Rightarrow> [] | Some j \<Rightarrow> own_entries j)"
  "where_of (JObj kvs) = (case map_of kvs ''where'' of None \<Rightarrow> [] | Some j \<Rightarrow> flat_where j)"
  by (simp_all add: part_def where_of_def)

lemma own_entries_JObj [simp]: "own_entries (JObj kvs) = kvs"
  by (simp add: own_entries_def)

lemma row_id_run: "r \<noteq> JNull \<Longrightarrow> row_id r w h = (Inr (text_at r [''id'']), h)"
  by (simp add: row_id_def rd_def io_simps split: option.split json.split)

lemma upsert_op:
  assumes "rows_ok newId n rows" and "data_ok up" and "map_of cr ''id'' = None \<and> u = i \<or> map_of cr ''id'' = Some (JStr u)"
  shows "\<exists>r. table_op i ''upsert'' (JObj [(''where'', JObj wh), (''create'', JObj cr), (''update'', JObj up)]) rows =
      (Returned r, case find (has (flat_where (JObj wh))) rows of
         Some q \<Rightarrow> change_first (has (flat_where (JObj wh))) (\<lambda>q. spread q up) rows | None \<Rightarrow> rows @ [new_row i cr]) \<and>
    r \<noteq> JNull \<and> text_at r [''id''] = (case find (has (flat_where (JObj wh))) rows of Some q \<Rightarrow> text_at q [''id''] | None \<Rightarrow> u)"
proof (cases "find (has (flat_where (JObj wh))) rows")
  case None
  then show ?thesis using assms(3) by (auto simp: table_op_def new_row_def)
next
  case (Some q)
  obtain os where "q = JObj os" using rows_ok_object [OF assms(1)] set_find [OF Some] by blast
  then have "jget (spread q up) ''id'' = jget q ''id''" "spread q up \<noteq> JNull"
    using assms(2) spread_object [of q up] by (auto simp: data_ok_def jget_spread_other)
  with Some show ?thesis by (auto simp: table_op_def)
qed

lemma dotless_ops: "dotless ''upsert''" "dotless ''create''" "dotless ''update''" "dotless ''updateMany''" "dotless ''findFirst''" "dotless ''findUnique''"
  by (simp_all add: dotless_def)

lemma upsert_run:
  assumes "dotless T" and ok: "rows_ok newId n (db_after newId d0 h T)" and "data_ok up"
    and "map_of cr ''id'' = None \<and> u = newId (length h) \<or> map_of cr ''id'' = Some (JStr u)"
    and wh: "W = flat_where (JObj wh)" and db: "db = db_after newId d0 h"
  shows "\<exists>e r. upsert T wh cr up (db_world newId d0) h = (Inr r, h @ [e]) \<and> r \<noteq> JNull \<and>
    db_after newId d0 (h @ [e]) = db(T := case find (has W) (db T) of
         Some q \<Rightarrow> change_first (has W) (\<lambda>q. spread q up) (db T)
       | None \<Rightarrow> db T @ [new_row (newId (length h)) cr]) \<and>
    text_at r [''id''] = (case find (has W) (db T) of Some q \<Rightarrow> text_at q [''id''] | None \<Rightarrow> u)"
proof -
  obtain r where op: "table_op (newId (length h)) ''upsert'' (JObj [(''where'', JObj wh), (''create'', JObj cr), (''update'', JObj up)]) (db T) =
      (Returned r, case find (has W) (db T) of
         Some q \<Rightarrow> change_first (has W) (\<lambda>q. spread q up) (db T)
       | None \<Rightarrow> db T @ [new_row (newId (length h)) cr])" "r \<noteq> JNull"
      "text_at r [''id''] = (case find (has W) (db T) of Some q \<Rightarrow> text_at q [''id''] | None \<Rightarrow> u)"
    unfolding wh using upsert_op [OF ok [folded db] assms(3,4)] by blast
  obtain e where "upsert T wh cr up (db_world newId d0) h = (Inr r, h @ [e])"
      "db_after newId d0 (h @ [e]) = db(T := case find (has W) (db T) of
         Some q \<Rightarrow> change_first (has W) (\<lambda>q. spread q up) (db T)
       | None \<Rightarrow> db T @ [new_row (newId (length h)) cr])"
    using prisma_run [where h = h and args = "[(''where'', JObj wh), (''create'', JObj cr), (''update'', JObj up)]",
        OF assms(1) dotless_ops(1) op(1) [unfolded db]]
    unfolding upsert_def db by auto
  with op(2,3) show ?thesis by blast
qed

lemma upsert_new:
  assumes "dotless T" and ok: "db_ok newId (length h) (db_after newId d0 h)" and "data_ok up" and "''id'' \<notin> keys cr"
    and row: "put_row newId T (flat_where (JObj wh)) cr up (length h) (db_after newId d0 h) = (i, db')"
  shows "\<exists>e r. upsert T wh cr up (db_world newId d0) h = (Inr r, h @ [e]) \<and> db_after newId d0 (h @ [e]) = db' \<and>
    text_at r [''id''] = i \<and> r \<noteq> JNull"
proof -
  have cr: "map_of cr ''id'' = None" using assms(4) by (simp add: keys_def map_of_eq_None_iff)
  then show ?thesis
    using upsert_run [OF assms(1) db_ok_rows [OF ok] assms(3) _ refl refl, of cr "newId (length h)" wh] row
    by (auto simp: put_row_def new_row_def split: option.splits simp del: text_at_simps)
qed

text \<open>The same with an id that was drawn before.\<close>

lemma upsert_drawn:
  assumes "dotless T" and ok: "db_ok newId n (db_after newId d0 h)" and "data_ok up"
    and row: "put_row newId T (flat_where (JObj wh)) cr up n (db_after newId d0 h) = (i, db')"
  shows "\<exists>e r. upsert T wh ((''id'', JStr (newId n)) # cr) up (db_world newId d0) h = (Inr r, h @ [e]) \<and>
    db_after newId d0 (h @ [e]) = db' \<and> text_at r [''id''] = i \<and> r \<noteq> JNull"
  using upsert_run [OF assms(1) db_ok_rows [OF ok] assms(3) _ refl refl, of "(''id'', JStr (newId n)) # cr" "newId n" wh] row
  by (auto simp: put_row_def new_row_def split: option.splits simp del: text_at_simps)

lemma acts_upsert_id:
  assumes "dotless T" and "step_ok (flat_where (JObj wh)) cr up"
  shows "acts newId (upsert_id T wh cr up) (put_id newId T (flat_where (JObj wh)) cr up)"
  unfolding acts_def
proof (intro allI impI)
  fix d0 h r h'
  assume ok: "db_ok newId (length h) (db_after newId d0 h)" and m: "upsert_id T wh cr up (db_world newId d0) h = (r, h')"
  obtain i db' where row: "put_row newId T (flat_where (JObj wh)) cr up (length h) (db_after newId d0 h) = (i, db')" by fastforce
  have d: "data_ok up" "''id'' \<notin> keys cr" using assms(2) by (auto simp: step_ok_def)
  from upsert_new [OF assms(1) ok d row] m have "r = Inr i" "db_after newId d0 h' = db'" "length h' = Suc (length h)"
    by (auto simp: upsert_id_def io_simps row_id_run simp del: text_at_simps)
  then show "put_id newId T (flat_where (JObj wh)) cr up (length h) (db_after newId d0 h) = (r, db_after newId d0 h') \<and>
      db_ok newId (length h') (db_after newId d0 h')"
    using row put_row_ok [OF ok d, of T "flat_where (JObj wh)"] by (simp add: put_id_def)
qed

lemma acts_upsert_row:
  assumes "dotless T" and "step_ok (flat_where (JObj wh)) cr up"
  shows "acts newId (upsert_row T wh cr up) (put_unit newId T (flat_where (JObj wh)) cr up)"
  unfolding acts_def
proof (intro allI impI)
  fix d0 h r h'
  assume ok: "db_ok newId (length h) (db_after newId d0 h)" and m: "upsert_row T wh cr up (db_world newId d0) h = (r, h')"
  obtain i db' where row: "put_row newId T (flat_where (JObj wh)) cr up (length h) (db_after newId d0 h) = (i, db')" by fastforce
  have d: "data_ok up" "''id'' \<notin> keys cr" using assms(2) by (auto simp: step_ok_def)
  from upsert_new [OF assms(1) ok d row] m have "r = Inr ()" "db_after newId d0 h' = db'" "length h' = Suc (length h)"
    by (auto simp: upsert_row_def io_simps simp del: text_at_simps)
  then show "put_unit newId T (flat_where (JObj wh)) cr up (length h) (db_after newId d0 h) = (r, db_after newId d0 h') \<and>
      db_ok newId (length h') (db_after newId d0 h')"
    using row put_row_ok [OF ok d, of T "flat_where (JObj wh)"] by (simp add: put_unit_def)
qed


lemma randomUUID_run:
  "\<exists>e. randomUUID (db_world newId d0) h = (Inr (newId (length h)), h @ [e]) \<and>
     db_after newId d0 (h @ [e]) = db_after newId d0 h"
  by (auto simp: randomUUID_def call_def io_simps db_call_def)

lemma acts_upsert_uuid:
  assumes "dotless T" and "step_ok (flat_where (JObj wh)) cr up"
  shows "acts newId (upsert_uuid T wh cr up) (put_id newId T (flat_where (JObj wh)) cr up)"
  unfolding acts_def
proof (intro allI impI)
  let ?wh = "flat_where (JObj wh)"
  fix d0 h r h'
  assume ok: "db_ok newId (length h) (db_after newId d0 h)" and m: "upsert_uuid T wh cr up (db_world newId d0) h = (r, h')"
  obtain i db' where row: "put_row newId T ?wh cr up (length h) (db_after newId d0 h) = (i, db')" by fastforce
  have d: "data_ok up" "''id'' \<notin> keys cr" using assms(2) by (auto simp: step_ok_def)
  obtain e where e: "randomUUID (db_world newId d0) h = (Inr (newId (length h)), h @ [e])"
      "db_after newId d0 (h @ [e]) = db_after newId d0 h" using randomUUID_run by blast
  have "r = Inr i" "db_after newId d0 h' = db'" "length h' = Suc (Suc (length h))"
    using upsert_drawn [where h = "h @ [e]", OF assms(1) ok [folded e(2)] d(1) row [folded e(2)]] m e(1)
    by (auto simp: upsert_uuid_def upsert_id_def io_simps row_id_run simp del: text_at_simps)
  then show "put_id newId T ?wh cr up (length h) (db_after newId d0 h) = (r, db_after newId d0 h') \<and> db_ok newId (length h') (db_after newId d0 h')"
    using row put_row_ok [OF ok d, of T ?wh] db_ok_later [of newId "Suc (length h)" db' "length h'"]
    by (simp add: put_id_def)
qed


lemma find_run:
  assumes "dotless T" and "op \<in> {''findFirst'', ''findUnique''}"
  shows "\<exists>e. prisma T op [(''where'', JObj wh)] (db_world newId d0) h =
      (Inr (case find (has (flat_where (JObj wh))) (db_after newId d0 h T) of None \<Rightarrow> JNull | Some r \<Rightarrow> r), h @ [e]) \<and>
    db_after newId d0 (h @ [e]) = db_after newId d0 h"
proof -
  let ?P = "has (flat_where (JObj wh))"
  have "table_op (newId (length h)) op (JObj [(''where'', JObj wh)]) (db_after newId d0 h T) =
      (Returned (case find ?P (db_after newId d0 h T) of None \<Rightarrow> JNull | Some r \<Rightarrow> r), db_after newId d0 h T)"
    using assms(2) by (auto simp: table_op_def Let_def)
  moreover have "dotless op" using assms(2) by (auto simp: dotless_def)
  ultimately show ?thesis using prisma_run [of T op, OF assms(1)] by fastforce
qed

lemma update_run:
  assumes "dotless T"
  shows "\<exists>e. prisma T ''update'' [(''where'', JObj wh), (''data'', JObj up)] (db_world newId d0) h =
      (case find (has (flat_where (JObj wh))) (db_after newId d0 h T) of
         Some r \<Rightarrow> Inr (spread r up)
       | None \<Rightarrow> Inl (JsError (Some ''P2025'') ''No record was found''), h @ [e]) \<and>
    db_after newId d0 (h @ [e]) = (db_after newId d0 h)
      (T := change_first (has (flat_where (JObj wh))) (\<lambda>r. spread r up) (db_after newId d0 h T))"
proof -
  let ?P = "has (flat_where (JObj wh))" and ?rows = "db_after newId d0 h T"
  obtain reply where "table_op (newId (length h)) ''update'' (JObj [(''where'', JObj wh), (''data'', JObj up)]) ?rows =
      (reply, change_first ?P (\<lambda>r. spread r up) ?rows)"
      "reply = (case find ?P ?rows of Some r \<Rightarrow> Returned (spread r up)
         | None \<Rightarrow> Threw (JsError (Some ''P2025'') ''No record was found''))"
    by (cases "find ?P ?rows") (auto simp: table_op_def Let_def change_first_none)
  then show ?thesis
    using prisma_run [OF assms dotless_ops(3), of newId h "[(''where'', JObj wh), (''data'', JObj up)]" d0]
    by (auto split: option.splits)
qed

text \<open>The row that has the id of the first row that satisfies a condition is that row.\<close>

lemma change_by_id:
  assumes "rows_ok newId n rows" and "find P rows = Some r"
  shows "change_first (has [(''id'', JStr (text_at r [''id'']))]) f rows = change_first P f rows"
  unfolding change_first_map [OF rows_ok_distinct [OF assms(1)]]
  using row_by_id [OF assms(1), of r] set_find [OF assms(2)] assms(2) by simp

lemma flat_id [simp]: "flat_where (JObj [(''id'', JStr i)]) = [(''id'', JStr i)]"
  by (simp add: flat_where_def)

lemma found_row: "rows_ok newId n rows \<Longrightarrow> find P rows = Some r \<Longrightarrow> r \<noteq> JNull \<and> truthy (Some r)"
  using rows_ok_object set_find by fastforce

definition put_later where
  "put_later newId T wh cr up n db = put_unit newId T wh cr up (Suc n) db"

lemma acts_find_or_create:
  assumes "dotless T" and "step_ok (flat_where (JObj wh)) cr up"
  shows "acts newId (find_or_create T wh cr up) (put_later newId T (flat_where (JObj wh)) cr up)"
  unfolding acts_def
proof (intro allI impI)
  let ?W = "flat_where (JObj wh)" and ?d = "db_after newId" and ?w = "db_world newId"
  fix d0 h r h'
  assume ok: "db_ok newId (length h) (?d d0 h)" and m: "find_or_create T wh cr up (?w d0) h = (r, h')"
  obtain e where find: "prisma T ''findFirst'' [(''where'', JObj wh)] (?w d0) h =
      (Inr (case find (has ?W) (?d d0 h T) of None \<Rightarrow> JNull | Some r \<Rightarrow> r), h @ [e])" and e: "?d d0 (h @ [e]) = ?d d0 h"
    using find_run [OF assms(1), of "''findFirst''" wh newId d0 h] by auto
  note rows = db_ok_rows [OF ok, of T]
  obtain i db' where row: "put_row newId T ?W cr up (Suc (length h)) (?d d0 h) = (i, db')" by fastforce
  have "r = Inr () \<and> ?d d0 h' = db' \<and> Suc (Suc (length h)) \<le> length h'"
  proof (cases "find (has ?W) (?d d0 h T)")
    case (Some q)
    obtain e2 where "prisma T ''update'' [(''where'', JObj [(''id'', JStr (text_at q [''id'']))]), (''data'', JObj up)] (?w d0) (h @ [e]) =
        (Inr (spread q up), (h @ [e]) @ [e2])"
        "?d d0 ((h @ [e]) @ [e2]) = (?d d0 h)(T := change_first (has ?W) (\<lambda>r. spread r up) (?d d0 h T))"
      using update_run [OF assms(1), of "[(''id'', JStr (text_at q [''id'']))]" up newId d0 "h @ [e]"]
      unfolding flat_id e change_by_id [OF rows Some] row_by_id [OF rows conjunct1 [OF set_find [OF Some]]] by auto
    then show ?thesis using m find Some row found_row [OF rows Some]
      by (auto simp: find_or_create_def io_simps row_id_run put_row_def simp del: text_at_simps db_after_snoc)
  next
    case None
    obtain e2 where e2: "randomUUID (?w d0) (h @ [e]) = (Inr (newId (Suc (length h))), (h @ [e]) @ [e2])"
        "?d d0 ((h @ [e]) @ [e2]) = ?d d0 h" using randomUUID_run [of newId d0 "h @ [e]"] e by auto
    let ?data = "(''id'', JStr (newId (Suc (length h)))) # cr" and ?h = "(h @ [e]) @ [e2]"
    have "table_op (newId (length ?h)) ''create'' (JObj [(''data'', JObj ?data)]) (?d d0 ?h T) =
        (Returned (JObj ?data), ?d d0 h T @ [JObj ?data])" unfolding e2(2) by (simp add: table_op_def Let_def new_row_def)
    from prisma_run [OF assms(1) dotless_ops(2) this]
    show ?thesis using m find None row e2
      by (auto simp: find_or_create_def io_simps put_row_def simp del: db_after_snoc)
  qed
  moreover have "db_ok newId (Suc (Suc (length h))) db'"
    using row put_row_ok [OF db_ok_later [OF ok], of "Suc (length h)" up cr T ?W] assms(2) by (simp add: step_ok_def)
  ultimately show "put_later newId T ?W cr up (length h) (?d d0 h) = (r, ?d d0 h') \<and> db_ok newId (length h') (?d d0 h')"
    using row db_ok_later by (auto simp: put_later_def put_unit_def)
qed


definition update_step where
  "update_step T i up n db = (case find (has [(''id'', JStr i)]) (db T) of
     Some r \<Rightarrow> (Inr (), db(T := change_first (has [(''id'', JStr i)]) (\<lambda>r. spread r up) (db T)))
   | None \<Rightarrow> (Inl (JsError (Some ''P2025'') ''No record was found''), db))"

lemma acts_update_row:
  assumes "dotless T" and "data_ok up"
  shows "acts newId (update_row T i up) (update_step T i up)"
  unfolding acts_def
proof (intro allI impI)
  fix d0 h r h'
  assume ok: "db_ok newId (length h) (db_after newId d0 h)" and m: "update_row T i up (db_world newId d0) h = (r, h')"
  note rows = db_ok_rows [OF ok, of T]
  have "rows_ok newId (length h) (change_first (has [(''id'', JStr i)]) (\<lambda>r. spread r up) (db_after newId d0 h T))"
    using rows_ok_change [OF rows] assms(2) by (simp add: data_ok_def)
  then have ok': "db_ok newId (Suc (length h)) ((db_after newId d0 h)(T :=
      change_first (has [(''id'', JStr i)]) (\<lambda>r. spread r up) (db_after newId d0 h T)))"
    by (rule db_ok_later [OF db_ok_upd [OF ok]]) simp
  show "update_step T i up (length h) (db_after newId d0 h) = (r, db_after newId d0 h') \<and>
      db_ok newId (length h') (db_after newId d0 h')"
    using update_run [OF assms(1), of "[(''id'', JStr i)]" up newId d0 h] m ok' db_ok_later [OF ok, of "Suc (length h)"]
    unfolding flat_id
    by (cases "find (has [(''id'', JStr i)]) (db_after newId d0 h T)")
      (auto simp: update_row_def io_simps update_step_def change_first_none simp del: db_after_snoc has_simps)
qed

definition many_step where
  "many_step T wh up n db = (Inr (), db(T := map (\<lambda>r. if has wh r then spread r up else r) (db T)))"

lemma acts_update_many:
  assumes "dotless T" and "data_ok up"
  shows "acts newId (update_many T wh up) (many_step T (flat_where (JObj wh)) up)"
  unfolding acts_def
proof (intro allI impI)
  let ?W = "flat_where (JObj wh)"
  fix d0 h r h'
  assume ok: "db_ok newId (length h) (db_after newId d0 h)" and m: "update_many T wh up (db_world newId d0) h = (r, h')"
  let ?rows = "map (\<lambda>r. if has ?W r then spread r up else r) (db_after newId d0 h T)"
  have "rows_ok newId (length h) ?rows" using rows_ok_map [OF db_ok_rows [OF ok]] assms(2) by (simp add: data_ok_def)
  then have ok': "db_ok newId (Suc (length h)) ((db_after newId d0 h)(T := ?rows))"
    by (rule db_ok_later [OF db_ok_upd [OF ok]]) simp
  obtain n where op: "table_op (newId (length h)) ''updateMany'' (JObj [(''where'', JObj wh), (''data'', JObj up)]) (db_after newId d0 h T) =
      (Returned (JObj [(''count'', n)]), ?rows)" by (auto simp: table_op_def Let_def)
  from prisma_run [OF assms(1) dotless_ops(4) op] m ok'
  show "many_step T ?W up (length h) (db_after newId d0 h) = (r, db_after newId d0 h') \<and>
      db_ok newId (length h') (db_after newId d0 h')"
    by (auto simp: update_many_def io_simps many_step_def rd_def simp del: db_after_snoc)
qed

definition find_step where
  "find_step T wh n db = (Inr (map_option (\<lambda>r. text_at r [''id'']) (find (has wh) (db T))), db)"

lemma acts_find_unique:
  assumes "dotless T"
  shows "acts newId (find_unique T wh) (find_step T (flat_where (JObj wh)))"
  unfolding acts_def
proof (intro allI impI)
  fix d0 h r h'
  assume ok: "db_ok newId (length h) (db_after newId d0 h)" and m: "find_unique T wh (db_world newId d0) h = (r, h')"
  show "find_step T (flat_where (JObj wh)) (length h) (db_after newId d0 h) = (r, db_after newId d0 h') \<and>
      db_ok newId (length h') (db_after newId d0 h')"
    using find_run [OF assms, of "''findUnique''" wh newId d0 h] m db_ok_later [OF ok, of "Suc (length h)"]
      found_row [OF db_ok_rows [OF ok], of "has (flat_where (JObj wh))"]
    by (cases "find (has (flat_where (JObj wh))) (db_after newId d0 h T)")
      (auto simp: find_unique_def io_simps find_step_def row_id_run simp del: db_after_snoc text_at_simps)
qed


subsection \<open>What the steps leave behind\<close>

definition some_row :: "string \<Rightarrow> (string \<times> json) list \<Rightarrow> (string \<times> json) list \<Rightarrow> tables \<Rightarrow> bool" where
  "some_row T wh up db \<longleftrightarrow> (\<exists>i. row_set T wh up i db)"

definition found :: "string \<Rightarrow> (string \<times> json) list \<Rightarrow> string option \<Rightarrow> tables \<Rightarrow> bool" where
  "found T wh r db \<longleftrightarrow> (case r of Some i \<Rightarrow> row_set T wh [] i db | None \<Rightarrow> absent T wh db)"

named_theorems settle_rules \<open>what a step leaves behind\<close>
named_theorems keep_rules \<open>what a step leaves alone\<close>

lemma put_id_split: "put_id newId T W cr up n db = (Inr (fst (put_row newId T W cr up n db)), snd (put_row newId T W cr up n db))"
  by (simp add: put_id_def split: prod.split)

lemma put_unit_split: "put_unit newId T W cr up n db = (Inr (), snd (put_row newId T W cr up n db))"
  by (simp add: put_unit_def split: prod.split)

lemma settles_put_id:
  "acts newId m (put_id newId T W cr up) \<Longrightarrow> step_ok W cr up \<Longrightarrow> settles newId m (row_set T W up)"
  by (erule acts_settles) (auto simp: put_id_split put_row_same intro: put_row_settles [OF _ _ prod.collapse [symmetric]])

lemma settles_put_unit:
  "acts newId m (put_unit newId T W cr up) \<Longrightarrow> step_ok W cr up \<Longrightarrow> settles newId m (\<lambda>u. some_row T W up)"
  by (erule acts_settles) (auto simp: put_unit_split some_row_def put_row_same dest: put_row_settles [OF _ _ prod.collapse [symmetric]])

lemma settles_upsert_id [settle_rules]:
  "dotless T \<Longrightarrow> step_ok (flat_where (JObj wh)) cr up \<Longrightarrow>
   settles newId (upsert_id T wh cr up) (row_set T (flat_where (JObj wh)) up)"
  by (rule settles_put_id [OF acts_upsert_id])

lemma settles_upsert_uuid [settle_rules]:
  "dotless T \<Longrightarrow> step_ok (flat_where (JObj wh)) cr up \<Longrightarrow>
   settles newId (upsert_uuid T wh cr up) (row_set T (flat_where (JObj wh)) up)"
  by (rule settles_put_id [OF acts_upsert_uuid])

lemma settles_upsert_row [settle_rules]:
  "dotless T \<Longrightarrow> step_ok (flat_where (JObj wh)) cr up \<Longrightarrow>
   settles newId (upsert_row T wh cr up) (\<lambda>u. some_row T (flat_where (JObj wh)) up)"
  by (rule settles_put_unit [OF acts_upsert_row])

lemma settles_find_or_create [settle_rules]:
  assumes "dotless T" and "step_ok (flat_where (JObj wh)) cr up"
  shows "settles newId (find_or_create T wh cr up) (\<lambda>u. some_row T (flat_where (JObj wh)) up)"
proof (rule acts_settles [OF acts_find_or_create [OF assms]])
  let ?f = "put_later newId T (flat_where (JObj wh)) cr up"
  fix n db a
  assume ok: "db_ok newId n db"
  then have ok': "db_ok newId (Suc n) db" by (rule db_ok_later) simp
  show "some_row T (flat_where (JObj wh)) up (snd (?f n db))"
    using put_row_settles [OF ok' assms(2)] by (auto simp: put_later_def put_unit_def some_row_def split: prod.splits)
  show "?f n db = (Inr a, db)" if "some_row T (flat_where (JObj wh)) up db"
    using that put_row_same [OF ok'] by (auto simp: put_later_def put_unit_def some_row_def)
qed

lemma update_is_put: "find (has [(''id'', JStr i)]) (db T) = Some r \<Longrightarrow>
    update_step T i up n db = (Inr (), snd (put_row newId T [(''id'', JStr i)] [] up n db))"
  by (simp add: update_step_def put_row_def)

lemma settles_update_row [settle_rules]:
  assumes "dotless T" and "data_ok up"
  shows "settles newId (update_row T i up) (\<lambda>u. row_set T [(''id'', JStr i)] up i)"
proof (rule acts_settles [OF acts_update_row [OF assms]])
  let ?W = "[(''id'', JStr i)]"
  fix n db a
  assume ok: "db_ok newId n db"
  note rows = db_ok_rows [OF ok, of T]
  show "update_step T i up n db = (Inr a, db)" if row: "row_set T ?W up i db"
  proof -
    obtain r where "find (has ?W) (db T) = Some r" using row unfolding row_set_def first_row_def by blast
    then show ?thesis using put_row_same [OF ok row, of "[]"] update_is_put [of i db T r up n newId] by simp
  qed
  assume "fst (update_step T i up n db) = Inr a"
  then obtain r where r: "find (has ?W) (db T) = Some r" "has ?W r"
    using set_find [of "has ?W" "db T"] by (auto simp: update_step_def split: option.splits)
  have "row_set T ?W [] i db" using r by (simp add: row_set_def first_row_def)
  have "has ?W (spread q up) = has ?W q" if "q \<in> set (db T)" for q
    using rows_ok_object [OF rows that] assms(2) has_spread_other [of ?W up] by (auto simp: data_ok_def)
  then have "find (has ?W) (change_first (has ?W) (\<lambda>r. spread r up) (db T)) = Some (spread r up)"
    using find_change_first [OF rows_ok_distinct [OF rows], of "has ?W" "\<lambda>r. spread r up" "has ?W"] r(1) by simp
  moreover obtain os where "r = JObj os" using rows_ok_object [OF rows] set_find [OF r(1)] by blast
  ultimately show "row_set T ?W up i (snd (update_step T i up n db))"
    using r assms(2) by (auto simp: update_step_def row_set_def first_row_def data_ok_def jget_spread_other has_spread_new)
qed

lemma settles_update_many [settle_rules]:
  assumes "dotless T" and "data_ok up" and "apart (flat_where (JObj wh)) up"
  shows "settles newId (update_many T wh up) (\<lambda>u. all_set T (flat_where (JObj wh)) up)"
proof (rule acts_settles [OF acts_update_many [OF assms(1,2)]])
  let ?W = "flat_where (JObj wh)"
  fix n db a
  assume ok: "db_ok newId n db"
  have obj: "\<exists>os. r = JObj os" if "r \<in> set (db T)" for r using rows_ok_object [OF db_ok_rows [OF ok] that] .
  show "many_step T ?W up n db = (Inr a, db)" if "all_set T ?W up db"
  proof -
    have "spread r up = r" if "r \<in> set (db T)" "has ?W r" for r
      using \<open>all_set T ?W up db\<close> obj [OF that(1)] that spread_same [of up r] by (auto simp: all_set_def)
    then have "map (\<lambda>r. if has ?W r then spread r up else r) (db T) = db T" by (intro map_idI) simp
    then show ?thesis by (simp only: many_step_def fun_upd_triv) simp
  qed
  show "all_set T ?W up (snd (many_step T ?W up n db))"
    using obj assms(2) has_spread_new [of up] by (auto simp: many_step_def all_set_def data_ok_def)
qed

lemma settles_find_unique [settle_rules]:
  "dotless T \<Longrightarrow> settles newId (find_unique T wh) (found T (flat_where (JObj wh)))"
  by (rule acts_settles [OF acts_find_unique])
    (auto simp: find_step_def found_def row_set_def absent_def first_row_def split: option.splits simp del: text_at_simps)

subsection \<open>What the steps leave alone\<close>

definition unmoved ::
    "(nat \<Rightarrow> string) \<Rightarrow> (tables \<Rightarrow> bool) \<Rightarrow> string \<Rightarrow> (string \<times> json) list \<Rightarrow> (string \<times> json) list \<Rightarrow>
     (string \<times> json) list \<Rightarrow> bool" where
  "unmoved newId P T W cr up \<longleftrightarrow>
     (\<forall>n db. db_ok newId n db \<longrightarrow> P db \<longrightarrow> P (snd (put_row newId T W cr up n db)))"

lemma keeps_put_id: "acts newId m (put_id newId T W cr up) \<Longrightarrow> unmoved newId P T W cr up \<Longrightarrow> keeps newId P m"
  by (erule acts_keeps) (simp add: put_id_split unmoved_def)

lemma keeps_put_unit: "acts newId m (put_unit newId T W cr up) \<Longrightarrow> unmoved newId P T W cr up \<Longrightarrow> keeps newId P m"
  by (erule acts_keeps) (simp add: put_unit_split unmoved_def)

lemma keeps_put_later: "acts newId m (put_later newId T W cr up) \<Longrightarrow> unmoved newId P T W cr up \<Longrightarrow> keeps newId P m"
  by (erule acts_keeps) (use db_ok_later [of newId] in \<open>auto simp: put_later_def put_unit_split unmoved_def\<close>)

lemmas keeps_steps [keep_rules] =
  keeps_put_id [OF acts_upsert_id] keeps_put_id [OF acts_upsert_uuid]
  keeps_put_unit [OF acts_upsert_row] keeps_put_later [OF acts_find_or_create]

lemma unmoved_row_set [keep_rules]:
  "data_ok up' \<Longrightarrow> T \<noteq> T' \<or> harmless W up W' up' \<Longrightarrow> unmoved newId (row_set T W up i) T' W' cr' up'"
  by (simp add: unmoved_def put_row_row_set)

lemma unmoved_some_row [keep_rules]:
  "data_ok up' \<Longrightarrow> T \<noteq> T' \<or> harmless W up W' up' \<Longrightarrow> unmoved newId (some_row T W up) T' W' cr' up'"
  unfolding unmoved_def some_row_def by (blast intro: put_row_row_set)

lemma unmoved_absent [keep_rules]:
  "T \<noteq> T' \<or> \<not> has W (JObj cr') \<and> apart W up' \<and> ''id'' \<notin> keys W \<Longrightarrow> unmoved newId (absent T W) T' W' cr' up'"
  by (simp add: unmoved_def put_row_absent)

lemma unmoved_all_set [keep_rules]: "T \<noteq> T' \<Longrightarrow> unmoved newId (all_set T W up) T' W' cr' up'"
  by (simp add: unmoved_def all_set_def put_row_other)

lemma keeps_many_row_set [keep_rules]:
  assumes "dotless T'" and "data_ok up'" and "T \<noteq> T' \<or> harmless W up (flat_where (JObj wh')) up'"
  shows "keeps newId (row_set T W up i) (update_many T' wh' up')"
  by (rule acts_keeps [OF acts_update_many [OF assms(1,2)]])
    (use assms(2,3) in \<open>cases "T = T'"; simp add: many_step_def row_set_map [OF db_ok_rows]\<close>)

lemma keeps_many_all_set [keep_rules]:
  assumes "dotless T'" and "data_ok up'" and "T \<noteq> T' \<or> harmless W up (flat_where (JObj wh')) up'"
  shows "keeps newId (all_set T W up) (update_many T' wh' up')"
  by (rule acts_keeps [OF acts_update_many [OF assms(1,2)]])
    (use assms(2,3) in \<open>cases "T = T'"; simp add: many_step_def all_set_map [OF db_ok_rows]\<close>)

lemma keeps_many_absent [keep_rules]:
  assumes "dotless T'" and "data_ok up'" and "T \<noteq> T'"
  shows "keeps newId (absent T W) (update_many T' wh' up')"
  by (rule acts_keeps [OF acts_update_many [OF assms(1,2)]]) (simp add: many_step_def assms(3))

lemma keeps_some_row: "(\<And>i. keeps newId (row_set T W up i) m) \<Longrightarrow> keeps newId (some_row T W up) m"
  unfolding some_row_def by (rule keeps_ex)

lemma keeps_found: "(\<And>i. keeps newId (row_set T W [] i) m) \<Longrightarrow> keeps newId (absent T W) m \<Longrightarrow> keeps newId (found T W r) m"
  by (cases r) (simp_all add: found_def [abs_def])

lemma update_step_tables:
  "snd (update_step T i up n db) = db(T := change_first (has [(''id'', JStr i)]) (\<lambda>r. spread r up) (db T))"
  by (simp add: update_step_def change_first_none split: option.split del: has_simps)

lemma keeps_update_row_set [keep_rules]:
  assumes "dotless T'" and "data_ok up'" and "T \<noteq> T' \<or> harmless W up [(''id'', JStr j)] up'"
  shows "keeps newId (row_set T W up i) (update_row T' j up')"
  by (rule acts_keeps [OF acts_update_row [OF assms(1,2)]])
    (use assms(2,3) in \<open>cases "T = T'"; simp add: update_step_tables row_set_change [OF db_ok_rows]\<close>)

lemma keeps_update_absent [keep_rules]:
  assumes "dotless T'" and "data_ok up'" and "T \<noteq> T' \<or> apart W up'"
  shows "keeps newId (absent T W) (update_row T' j up')"
  by (rule acts_keeps [OF acts_update_row [OF assms(1,2)]])
    (use assms(3) in \<open>cases "T = T'"; simp add: update_step_tables absent_change [OF db_ok_rows]\<close>)

lemma keeps_find [keep_rules]: "dotless T \<Longrightarrow> keeps newId P (find_unique T wh)"
  by (rule acts_keeps [OF acts_find_unique]) (simp_all add: find_step_def)

lemma distinct_wrt: "distinct (map f xs) \<Longrightarrow> sorted_wrt (\<lambda>x y. f x \<noteq> f y) xs"
  by (induction xs) auto

end
