(* ===== verification/Iam_Seeds.thy ===== *)
theory Iam_Seeds
  imports Iam_Database Iam_Access
begin

text \<open>
  The scripts that set the identity service up (\<^verbatim>\<open>iam/scripts/\<close>): the administration menu, the first
  administrator with two organizations, and the menus, resources and roles of the telemedicine portals.
  Each script is a sequence of calls of the database client; the lines it prints are left out. A script is
  documented to be safe to run again: what it leaves behind, and that running it again changes nothing, is
  proved on the tables of \<open>Iam_Database\<close>.
\<close>

subsection \<open>Menus\<close>

record menu_item =
  mi_label :: string
  mi_slug :: string
  mi_href :: string
  mi_icon :: string
  mi_isVisible :: bool

record menu_group =
  mg_label :: string
  mg_slug :: string
  mg_icon :: string
  mg_isVisible :: bool
  mg_items :: "menu_item list"

definition mk_item :: "string \<Rightarrow> string \<Rightarrow> string \<Rightarrow> string \<Rightarrow> bool \<Rightarrow> menu_item" where
  "mk_item l s h i v = \<lparr>mi_label = l, mi_slug = s, mi_href = h, mi_icon = i, mi_isVisible = v\<rparr>"

definition mk_group :: "string \<Rightarrow> string \<Rightarrow> string \<Rightarrow> bool \<Rightarrow> menu_item list \<Rightarrow> menu_group" where
  "mk_group l s i v its = \<lparr>mg_label = l, mg_slug = s, mg_icon = i, mg_isVisible = v, mg_items = its\<rparr>"

definition patient_items :: "menu_item list" where
  "patient_items =
    [mk_item ''Dashboard'' ''patient-dashboard'' ''/bezs/telemedicine/patient'' ''layout-dashboard'' True,
     mk_item ''Profile'' ''patient-profile'' ''/bezs/telemedicine/patient/profile'' ''user-cog'' True]"

definition patient_groups :: "menu_group list" where
  "patient_groups =
    [mk_group ''Appointments'' ''patient-appointments-group'' ''calendar'' True
       [mk_item ''All Appointments'' ''patient-appointments'' ''/bezs/telemedicine/patient/appointments'' ''calendar-clock'' True,
        mk_item ''Book Appointment'' ''patient-book-appointment'' ''/bezs/telemedicine/patient/appointments/book'' ''calendar-plus'' True],
     mk_group ''AI Intake'' ''patient-ai-intake-group'' ''clipboard-list'' True
       [mk_item ''Voice Intake'' ''patient-intake-voice'' ''/bezs/telemedicine/patient/appointments/intake'' ''mic'' True,
        mk_item ''Chat Intake'' ''patient-intake-chat'' ''/bezs/telemedicine/patient/intake'' ''message-square'' True],
     mk_group ''AI Consultation'' ''patient-ai-consultation-group'' ''stethoscope'' True
       [mk_item ''Voice Consultation'' ''patient-ai-consultation-voice'' ''/bezs/telemedicine/patient/consultation/voice'' ''phone'' True,
        mk_item ''Chat Consultation'' ''patient-ai-consultation-chat'' ''/bezs/telemedicine/patient/consultation/chat'' ''message-circle'' True]]"

definition doctor_items :: "menu_item list" where
  "doctor_items =
    [mk_item ''Dashboard'' ''doctor-dashboard'' ''/bezs/telemedicine/doctor'' ''layout-dashboard'' True,
     mk_item ''Appointments'' ''doctor-appointments'' ''/bezs/telemedicine/doctor/appointments'' ''calendar-plus'' True,
     mk_item ''Online Consultation'' ''doctor-online-consultation'' ''/bezs/telemedicine/doctor/appointments/online-consultation'' ''hospital'' False]"

definition doctor_groups :: "menu_group list" where
  "doctor_groups =
    [mk_group ''Professional Settings'' ''doctor-professional-settings'' ''stethoscope'' True
       [mk_item ''Services'' ''doctor-services'' ''/bezs/telemedicine/doctor/settings/services'' ''briefcase-medical'' True,
        mk_item ''Availability'' ''doctor-availability'' ''/bezs/telemedicine/doctor/settings/availability'' ''calendar-clock'' True],
     mk_group ''Settings'' ''doctor-settings'' ''settings-2'' True
       [mk_item ''Profile'' ''doctor-profile'' ''/bezs/telemedicine/doctor/settings/profile'' ''user-cog'' True]]"

definition app_admin_items :: "menu_item list" where
  "app_admin_items =
    [mk_item ''Dashboard'' ''app-admin-dashboard'' ''/bezs/telemedicine/admin'' ''layout-dashboard'' True,
     mk_item ''Manage Doctors'' ''app-admin-manage-doctors'' ''/bezs/telemedicine/admin/manage-doctors'' ''hospital'' True,
     mk_item ''Manage Doctor'' ''app-admin-manage-doctor-type'' ''/bezs/telemedicine/admin/manage-doctors/:type'' ''hospital'' False]"

definition ADMIN_MENU :: "menu_group list" where
  "ADMIN_MENU =
    [mk_group ''OVERVIEW'' ''overview'' ''home'' True
       [mk_item ''Dashboard'' ''dashboard'' ''/admin'' ''layout-dashboard'' True],
     mk_group ''IDENTITY'' ''identity'' ''id-card'' True
       [mk_item ''Users'' ''users'' ''/admin/users'' ''users'' True,
        mk_item ''Organizations'' ''organizations'' ''/admin/organizations'' ''building-2'' True,
        mk_item ''User Context'' ''user-context'' ''/admin/user-context'' ''layers'' True],
     mk_group ''AUTHORIZATION'' ''authorization'' ''shield'' True
       [mk_item ''Resources'' ''resources'' ''/admin/resources'' ''database'' True,
        mk_item ''Actions'' ''resource-actions'' ''/admin/resource-actions'' ''zap'' True],
     mk_group ''APPLICATION BUILDER'' ''application-builder'' ''wrench'' True
       [mk_item ''Apps'' ''apps'' ''/admin/apps'' ''grid'' True],
     mk_group ''APPLICATION'' ''application'' ''app-window'' True
       [mk_item ''OAuth Clients'' ''oauth-clients'' ''/admin/oauth-clients'' ''globe'' True,
        mk_item ''Agent Auth'' ''agent-auth'' ''/admin/agent-auth'' ''bot'' True,
        mk_item ''Consents'' ''consents'' ''/admin/consents'' ''file-check'' True,
        mk_item ''API Keys'' ''api-keys'' ''/admin/api-keys'' ''key'' True],
     mk_group ''SECURITY'' ''security'' ''shield-check'' True
       [mk_item ''Sessions'' ''sessions'' ''/admin/sessions'' ''activity'' True,
        mk_item ''Audit Logs'' ''audit-logs'' ''/admin/audit-logs'' ''scroll-text'' True,
        mk_item ''Security Policies'' ''security-policies'' ''/admin/security-policies'' ''shield-check'' True]]"

subsection \<open>The steps\<close>

definition seed_app :: "string \<Rightarrow> string \<Rightarrow> string \<Rightarrow> string svc" where
  "seed_app name slug descr = upsert_id ''app'' [(''slug'', JStr slug)]
     [(''name'', JStr name), (''slug'', JStr slug), (''description'', JStr descr), (''isActive'', JBool True)]
     [(''name'', JStr name), (''description'', JStr descr), (''isActive'', JBool True)]"

definition node_key :: "string \<Rightarrow> string \<Rightarrow> (string \<times> json) list" where
  "node_key a s = [(''appId'', JStr a), (''slug'', JStr s)]"

definition item_update :: "string \<Rightarrow> nat \<times> menu_item \<Rightarrow> (string \<times> json) list" where
  "item_update p = (\<lambda>(i, it). [(''parentId'', JStr p), (''label'', JStr (mi_label it)), (''href'', JStr (mi_href it)),
     (''icon'', JStr (mi_icon it)), (''order'', JInt (int i)), (''isVisible'', JBool (mi_isVisible it))])"

definition item_create :: "string \<Rightarrow> string \<Rightarrow> nat \<times> menu_item \<Rightarrow> (string \<times> json) list" where
  "item_create a p = (\<lambda>(i, it). [(''appId'', JStr a), (''parentId'', JStr p), (''label'', JStr (mi_label it)),
     (''slug'', JStr (mi_slug it)), (''href'', JStr (mi_href it)), (''icon'', JStr (mi_icon it)), (''type'', JStr ''ITEM''),
     (''order'', JInt (int i)), (''isVisible'', JBool (mi_isVisible it)), (''permissionKeys'', JArr [])])"

definition seed_item :: "string \<Rightarrow> string \<Rightarrow> nat \<times> menu_item \<Rightarrow> unit svc" where
  "seed_item a p x = upsert_row ''appMenuNode'' [(''appId_slug'', JObj (node_key a (mi_slug (snd x))))]
     (item_create a p x) (item_update p x)"

definition seed_items :: "string \<Rightarrow> string \<Rightarrow> menu_item list \<Rightarrow> unit svc" where
  "seed_items a p its = for_each (seed_item a p) (enumerate 0 its)"

text \<open>A group at the top of the administration menu.\<close>

definition group_update :: "nat \<times> menu_group \<Rightarrow> (string \<times> json) list" where
  "group_update = (\<lambda>(i, g). [(''label'', JStr (mg_label g)), (''icon'', JStr (mg_icon g)), (''order'', JInt (int i)),
     (''isVisible'', JBool (mg_isVisible g))])"

definition group_create :: "string \<Rightarrow> nat \<times> menu_group \<Rightarrow> (string \<times> json) list" where
  "group_create a = (\<lambda>(i, g). [(''appId'', JStr a), (''label'', JStr (mg_label g)), (''slug'', JStr (mg_slug g)),
     (''icon'', JStr (mg_icon g)), (''type'', JStr ''GROUP''), (''order'', JInt (int i)),
     (''isVisible'', JBool (mg_isVisible g)), (''permissionKeys'', JArr [])])"

definition seed_group :: "string \<Rightarrow> nat \<times> menu_group \<Rightarrow> unit svc" where
  "seed_group a x = andThen (upsert_id ''appMenuNode'' [(''appId_slug'', JObj (node_key a (mg_slug (snd x))))]
     (group_create a x) (group_update x)) (\<lambda>g. seed_items a g (mg_items (snd x)))"

text \<open>The top group of a portal, and a group below it; \<open>n\<close> entries come before the groups.\<close>

definition top_update :: "string \<Rightarrow> bool \<Rightarrow> (string \<times> json) list" where
  "top_update label shows = (''label'', JStr label) # (if shows then [(''isVisible'', JBool True)] else [])"

definition seed_top :: "string \<Rightarrow> string \<Rightarrow> string \<Rightarrow> bool \<Rightarrow> string svc" where
  "seed_top a label slug shows = upsert_id ''appMenuNode'' [(''appId_slug'', JObj (node_key a slug))]
     [(''appId'', JStr a), (''label'', JStr label), (''slug'', JStr slug), (''type'', JStr ''GROUP''), (''order'', JInt 0),
      (''isVisible'', JBool True), (''permissionKeys'', JArr [])] (top_update label shows)"

definition sub_update :: "string \<Rightarrow> nat \<times> menu_group \<Rightarrow> (string \<times> json) list" where
  "sub_update t = (\<lambda>(i, g). [(''parentId'', JStr t), (''label'', JStr (mg_label g)), (''icon'', JStr (mg_icon g)),
     (''order'', JInt (int i)), (''isVisible'', JBool (mg_isVisible g))])"

definition sub_create :: "string \<Rightarrow> string \<Rightarrow> nat \<times> menu_group \<Rightarrow> (string \<times> json) list" where
  "sub_create a t = (\<lambda>(i, g). [(''appId'', JStr a), (''parentId'', JStr t), (''label'', JStr (mg_label g)),
     (''slug'', JStr (mg_slug g)), (''icon'', JStr (mg_icon g)), (''type'', JStr ''GROUP''), (''order'', JInt (int i)),
     (''isVisible'', JBool (mg_isVisible g)), (''permissionKeys'', JArr [])])"

definition seed_sub :: "string \<Rightarrow> string \<Rightarrow> nat \<times> menu_group \<Rightarrow> unit svc" where
  "seed_sub a t x = andThen (upsert_id ''appMenuNode'' [(''appId_slug'', JObj (node_key a (mg_slug (snd x))))]
     (sub_create a t x) (sub_update t x)) (\<lambda>g. seed_items a g (mg_items (snd x)))"

definition seed_subs :: "string \<Rightarrow> string \<Rightarrow> nat \<Rightarrow> menu_group list \<Rightarrow> unit svc" where
  "seed_subs a t n gs = for_each (seed_sub a t) (enumerate n gs)"

text \<open>Resources, their actions, and their link to the application.\<close>

definition seed_resource :: "string \<Rightarrow> string \<Rightarrow> string svc" where
  "seed_resource name descr = upsert_id ''resource'' [(''name'', JStr name)]
     [(''name'', JStr name), (''description'', JStr descr)] [(''description'', JStr descr)]"

definition seed_action :: "string \<Rightarrow> string \<times> string \<times> string \<Rightarrow> unit svc" where
  "seed_action r = (\<lambda>(key, name, descr). upsert_row ''resourceAction'' [(''key'', JStr key)]
     [(''resourceId'', JStr r), (''name'', JStr name), (''key'', JStr key), (''description'', JStr descr)]
     [(''name'', JStr name), (''description'', JStr descr)])"

definition link_resource :: "string \<Rightarrow> string \<Rightarrow> unit svc" where
  "link_resource a r = upsert_row ''appResource'' [(''appId_resourceId'', JObj [(''appId'', JStr a), (''resourceId'', JStr r)])]
     [(''appId'', JStr a), (''resourceId'', JStr r)] []"

definition api_actions :: "string \<times> string list \<Rightarrow> (string \<times> string \<times> string) list" where
  "api_actions = (\<lambda>(name, xs). map (\<lambda>x. (name @ '':'' @ x, name @ '' '' @ x, x @ '' on '' @ name)) xs)"

definition seed_api :: "string \<Rightarrow> string \<times> string list \<Rightarrow> unit svc" where
  "seed_api a x = andThen (seed_resource (fst x) (fst x @ '' API resource'')) (\<lambda>r.
     andThen (for_each (seed_action r) (api_actions x)) (\<lambda>u. link_resource a r))"

text \<open>The permission keys of a menu entry; the permissions of a role of an organization.\<close>

definition set_permission_key :: "string \<Rightarrow> string \<times> string \<Rightarrow> unit svc" where
  "set_permission_key a = (\<lambda>(slug, key). update_many ''appMenuNode'' (node_key a slug) [(''permissionKeys'', JArr [JStr key])])"

definition seed_role :: "string \<Rightarrow> string \<Rightarrow> json \<Rightarrow> unit svc" where
  "seed_role org role permission = find_or_create ''organizationRole''
     [(''organizationId'', JStr org), (''role'', JStr role)]
     [(''organizationId'', JStr org), (''role'', JStr role), (''permission'', permission)]
     [(''permission'', permission)]"

text \<open>\<^verbatim>\<open>JSON.stringify\<close> of an object of lists of actions, as its value.\<close>

definition grants_json :: "(string \<times> string list) list \<Rightarrow> json" where
  "grants_json gs = JObj (map (\<lambda>(r, xs). (r, JArr (map JStr xs))) gs)"

subsection \<open>The telemedicine portals\<close>

text \<open>
  The three scripts differ in their data; \<open>pt_top_shows\<close> is whether the update of the top group makes it
  visible again. The application administrators' script has no groups and no API resources.
\<close>

record portal =
  pt_label :: string
  pt_slug :: string
  pt_top_shows :: bool
  pt_items :: "menu_item list"
  pt_groups :: "menu_group list"
  pt_resource :: string
  pt_descr :: string
  pt_action_descr :: "string \<Rightarrow> string"
  pt_apis :: "(string \<times> string list) list"
  pt_role :: string
  pt_grants :: "(string \<times> string list) list"

definition leaf_items :: "portal \<Rightarrow> menu_item list" where
  "leaf_items p = pt_items p @ concat (map mg_items (pt_groups p))"

definition permKey :: "string \<Rightarrow> string" where
  "permKey slug = slug @ '':read''"

definition portal_menu :: "portal \<Rightarrow> string svc" where
  "portal_menu p = andThen (seed_app ''Telemedicine'' ''telemedicine'' ''Telemedicine portal navigation'') (\<lambda>a.
     andThen (seed_top a (pt_label p) (pt_slug p) (pt_top_shows p)) (\<lambda>t.
     andThen (seed_items a t (pt_items p)) (\<lambda>u.
     andThen (seed_subs a t (length (pt_items p)) (pt_groups p)) (\<lambda>u. ret a))))"

definition portal_actions :: "portal \<Rightarrow> (string \<times> string \<times> string) list" where
  "portal_actions p = map (\<lambda>it. (permKey (mi_slug it), mi_label it, pt_action_descr p (mi_label it))) (leaf_items p)"

definition permission_map :: "portal \<Rightarrow> (string \<times> string list) list" where
  "permission_map p = from_entries (map (\<lambda>it. (mi_slug it, [''read''])) (leaf_items p) @ pt_grants p)"

text \<open>The resources, permission keys and the role of an organization, given its id.\<close>

definition portal_rights :: "portal \<Rightarrow> string \<Rightarrow> string \<Rightarrow> unit svc" where
  "portal_rights p a org = andThen (seed_resource (pt_resource p) (pt_descr p)) (\<lambda>r.
     andThen (for_each (seed_action r) (portal_actions p)) (\<lambda>u.
     andThen (link_resource a r) (\<lambda>u.
     andThen (for_each (seed_api a) (pt_apis p)) (\<lambda>u.
     andThen (for_each (set_permission_key a) (map (\<lambda>it. (mi_slug it, permKey (mi_slug it))) (leaf_items p))) (\<lambda>u.
     seed_role org (pt_role p) (grants_json (permission_map p)))))))"

text \<open>False is the early exit when there is no organization with the slug.\<close>

definition portal_access :: "portal \<Rightarrow> string \<Rightarrow> bool svc" where
  "portal_access p a = andThen (find_unique ''organization'' [(''slug'', JStr ''drgodly'')]) (\<lambda>org. case org of
     None \<Rightarrow> ret False
   | Some i \<Rightarrow> andThen (portal_rights p a i) (\<lambda>u. ret True))"

definition portal_main :: "portal \<Rightarrow> bool svc" where
  "portal_main p = andThen (portal_menu p) (portal_access p)"

definition crud :: "string list" where
  "crud = [''create'', ''read'', ''update'', ''delete'']"

definition patient_apis :: "(string \<times> string list) list" where
  "patient_apis = [(''patient'', crud), (''appointment'', crud), (''encounter'', crud),
     (''questionnaire_response'', crud), (''consultagent'', [''chat'']), (''agent'', [''chat''])]"

definition patient_grants :: "(string \<times> string list) list" where
  "patient_grants = [(''patient'', crud), (''appointment'', crud), (''encounter'', crud),
     (''questionnaire_response'', crud), (''consultagent'', [''chat'']), (''agent'', [''chat''])]"

definition patient_portal :: portal where
  "patient_portal = \<lparr>pt_label = ''PATIENT'', pt_slug = ''patient'', pt_top_shows = True, pt_items = patient_items,
     pt_groups = patient_groups, pt_resource = ''telemedicine-patient'', pt_descr = ''Telemedicine patient portal features'',
     pt_action_descr = (\<lambda>l. ''Read access to the '' @ l @ '' patient page''), pt_apis = patient_apis,
     pt_role = ''patient'', pt_grants = patient_grants\<rparr>"

definition doctor_apis :: "(string \<times> string list) list" where
  "doctor_apis = [(''practitioner'', crud), (''appointment'', crud), (''encounter'', crud), (''questionnaire_response'', crud)]"

definition doctor_grants :: "(string \<times> string list) list" where
  "doctor_grants = [(''practitioner'', crud), (''appointment'', crud), (''encounter'', crud), (''questionnaire_response'', crud)]"

definition doctor_portal :: portal where
  "doctor_portal = \<lparr>pt_label = ''DOCTOR'', pt_slug = ''doctor'', pt_top_shows = True, pt_items = doctor_items,
     pt_groups = doctor_groups, pt_resource = ''telemedicine-doctor'', pt_descr = ''Telemedicine doctor portal features'',
     pt_action_descr = (\<lambda>l. ''Read access to the '' @ l @ '' doctor page''), pt_apis = doctor_apis,
     pt_role = ''doctor'', pt_grants = doctor_grants\<rparr>"

definition app_admin_portal :: portal where
  "app_admin_portal = \<lparr>pt_label = ''APPLICATION ADMIN'', pt_slug = ''app-admin'', pt_top_shows = False,
     pt_items = app_admin_items, pt_groups = [], pt_resource = ''telemedicine-app-admin'',
     pt_descr = ''Telemedicine application admin features'',
     pt_action_descr = (\<lambda>l. ''Read access to '' @ l), pt_apis = [], pt_role = ''application-admin'', pt_grants = []\<rparr>"

text \<open>The scripts, in their two halves: the menu, and what needs the organization.\<close>

definition patient_menu :: "string svc" where
  "patient_menu = portal_menu patient_portal"

definition patient_access :: "string \<Rightarrow> bool svc" where
  "patient_access a = portal_access patient_portal a"

definition doctor_menu :: "string svc" where
  "doctor_menu = portal_menu doctor_portal"

definition doctor_access :: "string \<Rightarrow> bool svc" where
  "doctor_access a = portal_access doctor_portal a"

definition app_admin_menu :: "string svc" where
  "app_admin_menu = portal_menu app_admin_portal"

definition app_admin_access :: "string \<Rightarrow> bool svc" where
  "app_admin_access a = portal_access app_admin_portal a"

definition patient_main :: "bool svc" where
  "patient_main = andThen patient_menu patient_access"

definition doctor_main :: "bool svc" where
  "doctor_main = andThen doctor_menu doctor_access"

definition app_admin_main :: "bool svc" where
  "app_admin_main = andThen app_admin_menu app_admin_access"

subsection \<open>The administrator\<close>

definition ADMIN_EMAIL :: string where "ADMIN_EMAIL = ''testuser.gnr@gmail.com''"
definition ADMIN_PASSWORD :: string where "ADMIN_PASSWORD = ''12345678''"
definition ADMIN_NAME :: string where "ADMIN_NAME = ''Admin User''"

definition seed_nodes :: "menu_group list \<Rightarrow> string \<Rightarrow> unit svc" where
  "seed_nodes gs a = for_each (seed_group a) (enumerate 0 gs)"

definition seed_admin_nodes :: "string \<Rightarrow> unit svc" where
  "seed_admin_nodes = seed_nodes ADMIN_MENU"

text \<open>The menu script of its own has the same text of the menu.\<close>

definition menu_script_menu :: "menu_group list" where
  "menu_script_menu = ADMIN_MENU"

definition admin_menu_main :: "bool svc" where
  "admin_menu_main = andThen (seed_app ''Admin'' ''admin'' ''Admin portal navigation'') (\<lambda>a.
     andThen (seed_nodes menu_script_menu a) (\<lambda>u. ret True))"

text \<open>The account that exists, or a new one.\<close>

definition admin_user :: "string svc" where
  "admin_user = andThen (find_unique ''user'' [(''email'', JStr ADMIN_EMAIL)]) (\<lambda>existing. case existing of
     Some i \<Rightarrow> ret i
   | None \<Rightarrow> andThen (call ''auth.signUpEmail'' (JObj [(''body'', JObj [(''email'', JStr ADMIN_EMAIL),
         (''password'', JStr ADMIN_PASSWORD), (''name'', JStr ADMIN_NAME)])])) (\<lambda>res.
       andThen (rd res ''user'') (\<lambda>u. case u of None \<Rightarrow> throw type_error | Some v \<Rightarrow> row_id v)))"

definition seed_organization :: "json \<Rightarrow> string \<Rightarrow> string \<Rightarrow> string svc" where
  "seed_organization now slug name = upsert_uuid ''organization'' [(''slug'', JStr slug)]
     [(''name'', JStr name), (''slug'', JStr slug), (''createdAt'', now)] [(''name'', JStr name)]"

definition seed_member :: "json \<Rightarrow> string \<Rightarrow> string \<Rightarrow> string \<Rightarrow> unit svc" where
  "seed_member now org user role = find_or_create ''member''
     [(''organizationId'', JStr org), (''userId'', JStr user)]
     [(''organizationId'', JStr org), (''userId'', JStr user), (''role'', JStr role), (''createdAt'', now)]
     [(''role'', JStr role)]"

definition admin_items :: "menu_item list" where
  "admin_items = concat (map mg_items ADMIN_MENU)"

definition admin_key :: "string \<Rightarrow> string" where
  "admin_key slug = ''superadmin:'' @ slug"

definition admin_accounts :: "json \<Rightarrow> string svc" where
  "admin_accounts now = andThen admin_user (\<lambda>user.
     andThen (update_row ''user'' user [(''role'', JStr ''superadmin'')]) (\<lambda>u.
     andThen (seed_organization now ''superadmin'' ''Superadmin'') (\<lambda>org.
     andThen (seed_member now org user ''superadmin'') (\<lambda>u.
     andThen (seed_organization now ''filenest'' ''FileNest'') (\<lambda>filenest.
     andThen (seed_member now filenest user ''owner'') (\<lambda>u. ret org))))))"

definition admin_rights :: "string \<Rightarrow> string \<Rightarrow> unit svc" where
  "admin_rights a org = andThen (seed_resource ''superadmin'' ''Full access to all admin portal features'') (\<lambda>r.
     andThen (for_each (seed_action r) (map (\<lambda>it. (admin_key (mi_slug it), mi_label it,
         ''Access to the '' @ mi_label it @ '' admin page'')) admin_items)) (\<lambda>u.
     andThen (link_resource a r) (\<lambda>u.
     andThen (for_each (set_permission_key a) (map (\<lambda>it. (mi_slug it, admin_key (mi_slug it))) admin_items)) (\<lambda>u.
     seed_role org ''superadmin'' (grants_json [(''superadmin'', map mi_slug admin_items)])))))"

definition admin_main :: "json \<Rightarrow> bool svc" where
  "admin_main now = andThen (seed_app ''Admin'' ''admin'' ''Admin portal navigation'') (\<lambda>a.
     andThen (seed_admin_nodes a) (\<lambda>u.
     andThen (admin_accounts now) (\<lambda>org. andThen (admin_rights a org) (\<lambda>u. ret True))))"

text \<open>
  The exit status of a script: 1 after an early exit or an error, which is printed; otherwise 0 after
  disconnecting from the database.
\<close>

definition script :: "bool svc \<Rightarrow> nat svc" where
  "script main = handling main (\<lambda>e. ret 1) (\<lambda>done. if done
     then handling (call ''prisma.$disconnect'' (JObj [])) (\<lambda>e. ret 1) (\<lambda>r. ret 0) else ret 1)"

end
