(* ===== verification/Iam_Seeds_Rerun.thy ===== *)
theory Iam_Seeds_Rerun
  imports Iam_Seeds
begin

text \<open>
  The scripts on the tables: what the menus, the rights of a portal and the administrator's accounts leave
  behind, that no step disturbs what an earlier one wrote, that every script comes to its end, and hence that
  each can be run again without changing anything.
\<close>

subsection \<open>What the menus leave behind\<close>

lemma flat_compound [simp]: "flat_where (JObj [(k, JObj kvs)]) = kvs"
  by (simp add: flat_where_def)

lemma flat_key [simp]: "flat_where (JObj (node_key a s)) = node_key a s"
  by (simp add: flat_where_def node_key_def)

lemma flat_texts [simp]:
  "flat_where (JObj [(k, JStr v)]) = [(k, JStr v)]"
  "flat_where (JObj [(k, JStr v), (k', JStr v')]) = [(k, JStr v), (k', JStr v')]"
  by (simp_all add: flat_where_def)

lemmas step_simps = dotless_def step_ok_def data_ok_def harmless_def clash_def agree_def apart_def node_key_def

lemmas data_simps = item_update_def item_create_def group_update_def group_create_def top_update_def sub_update_def sub_create_def

text \<open>A row of the menu is left alone by what is written to other rows.\<close>

lemma node_kept_item:
  "s \<noteq> mi_slug (snd x) \<Longrightarrow> keeps newId (row_set ''appMenuNode'' (node_key a s) up i) (seed_item b p x)"
  unfolding seed_item_def by (cases x) (intro keep_rules; simp add: step_simps data_simps)

lemma node_kept_items:
  "s \<notin> mi_slug ` set its \<Longrightarrow> keeps newId (row_set ''appMenuNode'' (node_key a s) up i) (seed_items b p its)"
  unfolding seed_items_def by (intro keeps_for_each node_kept_item) (auto simp: in_set_enumerate_eq)

definition group_slugs :: "menu_group \<Rightarrow> string list" where
  "group_slugs g = mg_slug g # map mi_slug (mg_items g)"

lemma node_kept_sub:
  "s \<notin> set (group_slugs (snd x)) \<Longrightarrow> keeps newId (row_set ''appMenuNode'' (node_key a s) up i) (seed_sub b t x)"
  unfolding seed_sub_def
  by (cases x, intro keeps_andThen node_kept_items keep_rules) (auto simp: step_simps data_simps group_slugs_def)

lemma node_kept_group:
  "s \<notin> set (group_slugs (snd x)) \<Longrightarrow> keeps newId (row_set ''appMenuNode'' (node_key a s) up i) (seed_group b x)"
  unfolding seed_group_def
  by (cases x, intro keeps_andThen node_kept_items keep_rules) (auto simp: step_simps data_simps group_slugs_def)

lemma enumerate_snd: "x \<in> set (enumerate n xs) \<Longrightarrow> snd x \<in> set xs"
  by (cases x) (auto simp: in_set_enumerate_eq)

lemma node_kept_subs:
  "s \<notin> set (concat (map group_slugs gs)) \<Longrightarrow> keeps newId (row_set ''appMenuNode'' (node_key a s) up i) (seed_subs b t n gs)"
  unfolding seed_subs_def by (intro keeps_for_each node_kept_sub) (auto dest: enumerate_snd)

text \<open>The rows of the entries, groups and of a whole menu.\<close>

definition item_set :: "string \<Rightarrow> string \<Rightarrow> nat \<times> menu_item \<Rightarrow> tables \<Rightarrow> bool" where
  "item_set a p x = some_row ''appMenuNode'' (node_key a (mi_slug (snd x))) (item_update p x)"

definition items_set :: "string \<Rightarrow> string \<Rightarrow> menu_item list \<Rightarrow> tables \<Rightarrow> bool" where
  "items_set a p its db \<longleftrightarrow> (\<forall>x \<in> set (enumerate 0 its). item_set a p x db)"

definition node_set :: "string \<Rightarrow> string \<Rightarrow> (string \<times> json) list \<Rightarrow> string \<Rightarrow> tables \<Rightarrow> bool" where
  "node_set a s up = row_set ''appMenuNode'' (node_key a s) up"

definition group_set :: "(nat \<times> menu_group \<Rightarrow> (string \<times> json) list) \<Rightarrow> string \<Rightarrow> nat \<times> menu_group \<Rightarrow> tables \<Rightarrow> bool" where
  "group_set upd a x db \<longleftrightarrow> (\<exists>g. node_set a (mg_slug (snd x)) (upd x) g db \<and> items_set a g (mg_items (snd x)) db)"

lemma keeps_item_set: "(\<And>i. keeps newId (row_set ''appMenuNode'' (node_key a (mi_slug (snd x))) (item_update p x) i) m) \<Longrightarrow>
    keeps newId (item_set a p x) m"
  unfolding item_set_def by (rule keeps_some_row)

text \<open>What leaves the rows of the menu of given slugs alone, leaves these alone.\<close>

definition spares :: "(nat \<Rightarrow> string) \<Rightarrow> string set \<Rightarrow> 'a svc \<Rightarrow> bool" where
  "spares newId A m \<longleftrightarrow> keeps newId (\<lambda>db. True) m \<and>
     (\<forall>a s up i. s \<in> A \<longrightarrow> ''permissionKeys'' \<notin> keys up \<longrightarrow> keeps newId (row_set ''appMenuNode'' (node_key a s) up i) m)"

lemma no_permission_keys [simp]:
  "''permissionKeys'' \<notin> keys (item_update p x)" "''permissionKeys'' \<notin> keys (group_update y)"
  "''permissionKeys'' \<notin> keys (sub_update t y)" "''permissionKeys'' \<notin> keys (top_update l b)"
  by (cases x; simp add: data_simps) (cases y; simp add: data_simps)+

lemma spares_subset: "spares newId B m \<Longrightarrow> A \<subseteq> B \<Longrightarrow> spares newId A m"
  by (auto simp: spares_def)

lemma spares_item_set: "spares newId A m \<Longrightarrow> mi_slug (snd x) \<in> A \<Longrightarrow> keeps newId (item_set a p x) m"
  unfolding item_set_def spares_def by (intro keeps_some_row) simp

lemma spares_node_set: "spares newId A m \<Longrightarrow> s \<in> A \<Longrightarrow> ''permissionKeys'' \<notin> keys up \<Longrightarrow> keeps newId (node_set a s up i) m"
  by (simp add: node_set_def spares_def)

lemma keeps_ball:
  assumes "keeps newId (\<lambda>db. True) m" and "\<And>x. x \<in> A \<Longrightarrow> keeps newId (P x) m"
  shows "keeps newId (\<lambda>db. \<forall>x \<in> A. P x db) m"
proof (rule keepsI)
  fix d0 h r h'
  assume ok: "db_ok newId (length h) (db_after newId d0 h)" and P: "\<forall>x \<in> A. P x (db_after newId d0 h)"
    and m: "m (db_world newId d0) h = (r, h')"
  have "P x (db_after newId d0 h')" if "x \<in> A" for x using keepsD [OF assms(2) m ok] P that by blast
  then show "db_ok newId (length h') (db_after newId d0 h') \<and> (\<forall>x \<in> A. P x (db_after newId d0 h'))"
    using keepsD [OF assms(1) m ok] by blast
qed

lemma spares_items_set:
  assumes "spares newId A m" and "mi_slug ` set its \<subseteq> A"
  shows "keeps newId (items_set a p its) m"
  unfolding items_set_def
proof (rule keeps_ball)
  show "keeps newId (\<lambda>db. True) m" using assms(1) by (simp add: spares_def)
  show "keeps newId (item_set a p x) m" if "x \<in> set (enumerate 0 its)" for x
    using enumerate_snd [OF that] assms(2) by (intro spares_item_set [OF assms(1)]) auto
qed

lemma spares_group_set:
  assumes "spares newId A m" and "set (group_slugs (snd x)) \<subseteq> A" and "''permissionKeys'' \<notin> keys (upd x)"
  shows "keeps newId (group_set upd a x) m"
  unfolding group_set_def [abs_def] using assms
  by (intro keeps_ex keeps_conj spares_node_set [OF assms(1)] spares_items_set [OF assms(1)]) (auto simp: group_slugs_def)

lemma settles_ok: "settles newId m S \<Longrightarrow> keeps newId (\<lambda>db. True) m"
  by (rule keepsI) (use settlesD(1) in blast)

subsection \<open>Menus\<close>

lemma settles_item [settle_rules]: "settles newId (seed_item a p x) (\<lambda>u. item_set a p x)"
  unfolding seed_item_def item_set_def
  by (cases x, rule settles_weaken [OF settles_upsert_row]) (auto simp: step_simps data_simps)

lemma spares_item: "A \<inter> {mi_slug (snd x)} = {} \<Longrightarrow> spares newId A (seed_item a p x)"
  unfolding spares_def by (auto intro!: node_kept_item settles_ok [OF settles_item])

lemma enumerate_map: "map (\<lambda>x. f (snd x)) (enumerate n xs) = map f xs"
  by (induction xs arbitrary: n) auto

lemma distinct_items: "distinct (map f xs) \<Longrightarrow> sorted_wrt (\<lambda>x y. f (snd x) \<noteq> f (snd y)) (enumerate n xs)"
  using distinct_wrt [of "\<lambda>x. f (snd x)" "enumerate n xs"] by (simp add: enumerate_map)

lemma settles_items:
  assumes "distinct (map mi_slug its)"
  shows "settles newId (seed_items a p its) (\<lambda>u. items_set a p its)"
  unfolding seed_items_def items_set_def
proof (rule settles_for_each)
  show "settles newId (seed_item a p x) (\<lambda>u db. item_set a p x db)" for x by (rule settles_item)
  have "keeps newId (item_set a p x) (seed_item a p y)" if "mi_slug (snd x) \<noteq> mi_slug (snd y)" for x y
    using that by (intro spares_item_set [OF spares_item [of "{mi_slug (snd x)}"]]) auto
  then show "sorted_wrt (\<lambda>x y. keeps newId (item_set a p x) (seed_item a p y)) (enumerate 0 its)"
    by (blast intro: sorted_wrt_mono_rel [OF _ distinct_items [OF assms]])
qed

lemma spares_items:
  assumes "distinct (map mi_slug its)" and "A \<inter> mi_slug ` set its = {}"
  shows "spares newId A (seed_items a p its)"
  unfolding spares_def using assms by (auto intro!: node_kept_items settles_ok [OF settles_items])


lemma group_parts:
  assumes "distinct (group_slugs g)"
  shows "distinct (map mi_slug (mg_items g))" "mg_slug g \<notin> mi_slug ` set (mg_items g)"
  using assms by (auto simp: group_slugs_def)

text \<open>A group with its entries; the two kinds of groups differ in what is written to the group's row.\<close>

lemma settles_with_items:
  assumes "settles newId m (node_set a (mg_slug (snd x)) (upd x))" and "distinct (group_slugs (snd x))"
    and "''permissionKeys'' \<notin> keys (upd x)"
  shows "settles newId (andThen m (\<lambda>g. seed_items a g (mg_items (snd x)))) (\<lambda>u. group_set upd a x)"
proof -
  have "keeps newId (node_set a (mg_slug (snd x)) (upd x) g) (seed_items a g (mg_items (snd x)))" for g
    using group_parts [OF assms(2)] assms(3) by (intro spares_node_set [OF spares_items [of _ "{mg_slug (snd x)}"]]) auto
  from settles_andThen [OF assms(1) settles_items [OF group_parts(1) [OF assms(2)]] this]
  show ?thesis by (rule settles_weaken) (simp add: group_set_def)
qed

lemma settles_node:
  assumes "step_ok (node_key a s) cr up"
  shows "settles newId (upsert_id ''appMenuNode'' [(''appId_slug'', JObj (node_key a s))] cr up) (node_set a s up)"
  using settles_upsert_id [of "''appMenuNode''" "[(''appId_slug'', JObj (node_key a s))]"] assms
  by (simp add: node_set_def dotless_def)

lemma settles_group:
  "distinct (group_slugs (snd x)) \<Longrightarrow> settles newId (seed_group a x) (\<lambda>u. group_set group_update a x)"
  unfolding seed_group_def by (cases x, rule settles_with_items [OF settles_node]) (auto simp: step_simps data_simps)

lemma settles_sub:
  "distinct (group_slugs (snd x)) \<Longrightarrow> settles newId (seed_sub a t x) (\<lambda>u. group_set (sub_update t) a x)"
  unfolding seed_sub_def by (cases x, rule settles_with_items [OF settles_node]) (auto simp: step_simps data_simps)

lemma spares_sub:
  "distinct (group_slugs (snd x)) \<Longrightarrow> A \<inter> set (group_slugs (snd x)) = {} \<Longrightarrow> spares newId A (seed_sub a t x)"
  unfolding spares_def by (auto intro!: node_kept_sub settles_ok [OF settles_sub])

lemma spares_group:
  "distinct (group_slugs (snd x)) \<Longrightarrow> A \<inter> set (group_slugs (snd x)) = {} \<Longrightarrow> spares newId A (seed_group a x)"
  unfolding spares_def by (auto intro!: node_kept_group settles_ok [OF settles_group])

lemma distinct_groups:
  "distinct (concat (map f xs)) \<Longrightarrow> sorted_wrt (\<lambda>x y. set (f (snd x)) \<inter> set (f (snd y)) = {}) (enumerate n xs)"
proof (induction xs arbitrary: n)
  case (Cons x xs)
  then show ?case by (fastforce dest: enumerate_snd)
qed simp

definition groups_set :: "(nat \<times> menu_group \<Rightarrow> (string \<times> json) list) \<Rightarrow> string \<Rightarrow> nat \<Rightarrow> menu_group list \<Rightarrow> tables \<Rightarrow> bool" where
  "groups_set upd a n gs db \<longleftrightarrow> (\<forall>x \<in> set (enumerate n gs). group_set upd a x db)"

lemma settles_groups:
  assumes "distinct (concat (map group_slugs gs))"
    and settles: "\<And>x. distinct (group_slugs (snd x)) \<Longrightarrow> settles newId (f x) (\<lambda>u. group_set upd a x)"
    and spares: "\<And>x A. distinct (group_slugs (snd x)) \<Longrightarrow> A \<inter> set (group_slugs (snd x)) = {} \<Longrightarrow> spares newId A (f x)"
    and keys: "\<And>x. ''permissionKeys'' \<notin> keys (upd x)"
  shows "settles newId (for_each f (enumerate n gs)) (\<lambda>u. groups_set upd a n gs)"
proof -
  have d: "distinct (group_slugs (snd x))" if "x \<in> set (enumerate n gs)" for x
    using enumerate_snd [OF that] assms(1) by (auto simp: distinct_concat_iff)
  have k: "keeps newId (group_set upd a x) (f y)"
    if "y \<in> set (enumerate n gs)" "set (group_slugs (snd x)) \<inter> set (group_slugs (snd y)) = {}" for x y
    by (rule spares_group_set [OF spares [OF d [OF that(1)] that(2)] subset_refl keys])
  show ?thesis unfolding groups_set_def [abs_def]
  proof (rule settles_for_each)
    show "settles newId (f x) (\<lambda>u db. group_set upd a x db)" if "x \<in> set (enumerate n gs)" for x
      using settles d that by blast
    show "sorted_wrt (\<lambda>x y. keeps newId (group_set upd a x) (f y)) (enumerate n gs)"
      using k by (rule sorted_wrt_mono_rel [OF _ distinct_groups [OF assms(1)]])
  qed
qed

lemma settles_subs:
  "distinct (concat (map group_slugs gs)) \<Longrightarrow> settles newId (seed_subs a t n gs) (\<lambda>u. groups_set (sub_update t) a n gs)"
  unfolding seed_subs_def by (rule settles_groups) (auto intro: settles_sub spares_sub)

lemma settles_admin_nodes:
  "distinct (concat (map group_slugs ADMIN_MENU)) \<Longrightarrow>
   settles newId (seed_admin_nodes a) (\<lambda>u. groups_set group_update a 0 ADMIN_MENU)"
  unfolding seed_admin_nodes_def seed_nodes_def by (rule settles_groups) (auto intro: settles_group spares_group)

lemma spares_subs:
  assumes "distinct (concat (map group_slugs gs))" and "A \<inter> set (concat (map group_slugs gs)) = {}"
  shows "spares newId A (seed_subs a t n gs)"
  unfolding spares_def using assms by (auto intro!: node_kept_subs settles_ok [OF settles_subs])

lemma keeps_groups_set:
  assumes "spares newId A m" and "set (concat (map group_slugs gs)) \<subseteq> A" and "\<And>x. ''permissionKeys'' \<notin> keys (upd x)"
  shows "keeps newId (groups_set upd a n gs) m"
  unfolding groups_set_def [abs_def]
proof (rule keeps_ball)
  show "keeps newId (\<lambda>db. True) m" using assms(1) by (simp add: spares_def)
  show "keeps newId (group_set upd a x) m" if "x \<in> set (enumerate n gs)" for x
    using enumerate_snd [OF that] assms by (intro spares_group_set) auto
qed


subsection \<open>The menu of a portal\<close>

definition portal_slugs :: "portal \<Rightarrow> string list" where
  "portal_slugs p = pt_slug p # map mi_slug (pt_items p) @ concat (map group_slugs (pt_groups p))"

definition app_set :: "string \<Rightarrow> string \<Rightarrow> string \<Rightarrow> string \<Rightarrow> tables \<Rightarrow> bool" where
  "app_set name slug descr = row_set ''app'' [(''slug'', JStr slug)]
     [(''name'', JStr name), (''description'', JStr descr), (''isActive'', JBool True)]"

definition portal_nodes_set :: "portal \<Rightarrow> string \<Rightarrow> tables \<Rightarrow> bool" where
  "portal_nodes_set p a db \<longleftrightarrow> (\<exists>t. node_set a (pt_slug p) (top_update (pt_label p) (pt_top_shows p)) t db \<and>
     items_set a t (pt_items p) db \<and> groups_set (sub_update t) a (length (pt_items p)) (pt_groups p) db)"

definition telemedicine_set :: "string \<Rightarrow> tables \<Rightarrow> bool" where
  "telemedicine_set = app_set ''Telemedicine'' ''telemedicine'' ''Telemedicine portal navigation''"

lemma settles_app: "settles newId (seed_app name slug descr) (app_set name slug descr)"
  unfolding seed_app_def app_set_def using settles_upsert_id [of "''app''" "[(''slug'', JStr slug)]"]
  by (simp add: step_simps)

lemma settles_top: "settles newId (seed_top a label slug shows) (node_set a slug (top_update label shows))"
  unfolding seed_top_def by (rule settles_node) (simp add: step_simps data_simps)

text \<open>Rows of other tables are left alone by a menu.\<close>

lemma elsewhere_item: "T \<noteq> ''appMenuNode'' \<Longrightarrow> keeps newId (row_set T W up i) (seed_item a p x)"
  unfolding seed_item_def by (cases x) (intro keep_rules; simp add: step_simps data_simps)

lemma elsewhere_items: "T \<noteq> ''appMenuNode'' \<Longrightarrow> keeps newId (row_set T W up i) (seed_items a p its)"
  unfolding seed_items_def by (intro keeps_for_each elsewhere_item)

lemma elsewhere_sub: "T \<noteq> ''appMenuNode'' \<Longrightarrow> keeps newId (row_set T W up i) (seed_sub a t x)"
  unfolding seed_sub_def by (cases x, intro keeps_andThen elsewhere_items keep_rules) (auto simp: step_simps data_simps)

lemma elsewhere_group: "T \<noteq> ''appMenuNode'' \<Longrightarrow> keeps newId (row_set T W up i) (seed_group a x)"
  unfolding seed_group_def by (cases x, intro keeps_andThen elsewhere_items keep_rules) (auto simp: step_simps data_simps)

lemma elsewhere_menu:
  assumes "T \<noteq> ''appMenuNode''"
  shows "keeps newId (row_set T W up i) (seed_subs a t n gs)" "keeps newId (row_set T W up i) (seed_admin_nodes a)"
    "keeps newId (row_set T W up i) (seed_top a label slug shows)"
  unfolding seed_subs_def seed_admin_nodes_def seed_nodes_def seed_top_def
  using assms by (auto intro!: keeps_for_each elsewhere_sub elsewhere_group keep_rules simp: step_simps data_simps)

lemma settles_portal_menu:
  assumes "distinct (portal_slugs p)"
  shows "settles newId (portal_menu p) (\<lambda>a db. telemedicine_set a db \<and> portal_nodes_set p a db)"
proof -
  have d: "distinct (map mi_slug (pt_items p))" "distinct (concat (map group_slugs (pt_groups p)))"
    and 1: "pt_slug p \<notin> mi_slug ` set (pt_items p)" "pt_slug p \<notin> set (concat (map group_slugs (pt_groups p)))"
    and 2: "mi_slug ` set (pt_items p) \<inter> set (concat (map group_slugs (pt_groups p))) = {}"
    using assms by (simp_all add: portal_slugs_def)
  let ?items = "\<lambda>a t. seed_items a t (pt_items p)"
    and ?subs = "\<lambda>a t. seed_subs a t (length (pt_items p)) (pt_groups p)"
  have subs: "settles newId (andThen (?subs a t) (\<lambda>u. ret a))
      (\<lambda>b db. groups_set (sub_update t) a (length (pt_items p)) (pt_groups p) db \<and> b = a)" for a t
    by (rule settles_weaken [OF settles_andThen [OF settles_subs [OF d(2)] settles_ret keeps_ret]]) simp
  have items: "settles newId (andThen (?items a t) (\<lambda>u. andThen (?subs a t) (\<lambda>u. ret a)))
      (\<lambda>b db. items_set a t (pt_items p) db \<and> groups_set (sub_update t) a (length (pt_items p)) (pt_groups p) db \<and> b = a)" for a t
    using 2 by (intro settles_weaken [OF settles_andThen [OF settles_items [OF d(1)] subs]] keeps_andThen keeps_ret
        spares_items_set [OF spares_subs [OF d(2), of "mi_slug ` set (pt_items p)"]]) auto
  have top: "settles newId (andThen (seed_top a (pt_label p) (pt_slug p) (pt_top_shows p))
        (\<lambda>t. andThen (?items a t) (\<lambda>u. andThen (?subs a t) (\<lambda>u. ret a))))
      (\<lambda>b db. portal_nodes_set p a db \<and> b = a)" for a
    using 1 by (intro settles_weaken [OF settles_andThen [OF settles_top items]] keeps_andThen keeps_ret
        spares_node_set [OF spares_subs [OF d(2), of "{pt_slug p}"]] spares_node_set [OF spares_items [OF d(1), of "{pt_slug p}"]])
      (auto simp: portal_nodes_set_def)
  show ?thesis unfolding portal_menu_def
    by (intro settles_weaken [OF settles_andThen [OF settles_app top]] keeps_andThen keeps_ret)
      (auto simp: telemedicine_set_def app_set_def intro!: elsewhere_items elsewhere_menu)
qed


subsection \<open>The rights of a portal\<close>

definition action_set :: "string \<times> string \<times> string \<Rightarrow> tables \<Rightarrow> bool" where
  "action_set = (\<lambda>(key, name, descr). some_row ''resourceAction'' [(''key'', JStr key)]
     [(''name'', JStr name), (''description'', JStr descr)])"

definition resource_set :: "string \<Rightarrow> string \<Rightarrow> string \<Rightarrow> tables \<Rightarrow> bool" where
  "resource_set name descr = row_set ''resource'' [(''name'', JStr name)] [(''description'', JStr descr)]"

definition link_set :: "string \<Rightarrow> string \<Rightarrow> tables \<Rightarrow> bool" where
  "link_set a r = some_row ''appResource'' [(''appId'', JStr a), (''resourceId'', JStr r)] []"

definition actions_set :: "(string \<times> string \<times> string) list \<Rightarrow> tables \<Rightarrow> bool" where
  "actions_set xs db \<longleftrightarrow> (\<forall>x \<in> set xs. action_set x db)"

definition api_set :: "string \<Rightarrow> string \<times> string list \<Rightarrow> tables \<Rightarrow> bool" where
  "api_set a x db \<longleftrightarrow> (\<exists>r. resource_set (fst x) (fst x @ '' API resource'') r db \<and> actions_set (api_actions x) db \<and> link_set a r db)"

definition keys_set :: "string \<Rightarrow> (string \<times> string) list \<Rightarrow> tables \<Rightarrow> bool" where
  "keys_set a ks db \<longleftrightarrow> (\<forall>x \<in> set ks. all_set ''appMenuNode'' (node_key a (fst x)) [(''permissionKeys'', JArr [JStr (snd x)])] db)"

definition role_set :: "string \<Rightarrow> string \<Rightarrow> json \<Rightarrow> tables \<Rightarrow> bool" where
  "role_set org role permission = some_row ''organizationRole''
     [(''organizationId'', JStr org), (''role'', JStr role)] [(''permission'', permission)]"

lemma settles_resource: "settles newId (seed_resource name descr) (resource_set name descr)"
  unfolding seed_resource_def resource_set_def using settles_upsert_id [of "''resource''" "[(''name'', JStr name)]"]
  by (simp add: step_simps)

lemma settles_action: "settles newId (seed_action r x) (\<lambda>u. action_set x)"
  unfolding seed_action_def action_set_def
  by (cases x) (use settles_upsert_row [of "''resourceAction''" "[(''key'', JStr (fst x))]"] in \<open>simp add: step_simps\<close>)

lemma settles_link: "settles newId (link_resource a r) (\<lambda>u. link_set a r)"
  unfolding link_resource_def link_set_def
  using settles_upsert_row [of "''appResource''" "[(''appId_resourceId'', JObj [(''appId'', JStr a), (''resourceId'', JStr r)])]"]
  by (simp add: step_simps)

lemma settles_role: "settles newId (seed_role org role permission) (\<lambda>u. role_set org role permission)"
  unfolding seed_role_def role_set_def
  using settles_find_or_create [of "''organizationRole''" "[(''organizationId'', JStr org), (''role'', JStr role)]"]
  by (simp add: step_simps)

lemma settles_key: "settles newId (set_permission_key a x)
    (\<lambda>u. all_set ''appMenuNode'' (node_key a (fst x)) [(''permissionKeys'', JArr [JStr (snd x)])])"
  unfolding set_permission_key_def
  by (cases x) (use settles_update_many [of "''appMenuNode''" _ "node_key a (fst x)"] in \<open>simp add: step_simps flat_where_def\<close>)

text \<open>What the steps leave alone: a row of another table, of another key, or columns they do not write.\<close>

lemma kept_by_resource:
  "T \<noteq> ''resource'' \<Longrightarrow> keeps newId (row_set T W up i) (seed_resource name descr)"
  "name \<noteq> name' \<Longrightarrow> keeps newId (resource_set name' descr' i) (seed_resource name descr)"
  "T \<noteq> ''resource'' \<Longrightarrow> keeps newId (some_row T W up) (seed_resource name descr)"
  unfolding seed_resource_def resource_set_def by (intro keep_rules; simp add: step_simps)+

lemma kept_by_action:
  "T \<noteq> ''resourceAction'' \<Longrightarrow> keeps newId (row_set T W up i) (seed_action r x)"
  "T \<noteq> ''resourceAction'' \<Longrightarrow> keeps newId (some_row T W up) (seed_action r x)"
  "fst x \<noteq> fst y \<Longrightarrow> keeps newId (action_set y) (seed_action r x)"
  unfolding seed_action_def action_set_def by (cases x; cases y; simp; intro keep_rules; simp add: step_simps)+

lemma kept_by_link:
  "T \<noteq> ''appResource'' \<Longrightarrow> keeps newId (row_set T W up i) (link_resource a r)"
  "T \<noteq> ''appResource'' \<Longrightarrow> keeps newId (some_row T W up) (link_resource a r)"
  "keeps newId (link_set b q) (link_resource a r)"
  unfolding link_resource_def link_set_def by (intro keep_rules; simp add: step_simps)+

lemma harmless_fresh: "keys W \<inter> keys up' = {} \<Longrightarrow> keys up \<inter> keys up' = {} \<Longrightarrow> harmless W up W' up'"
proof -
  assume W: "keys W \<inter> keys up' = {}" and up: "keys up \<inter> keys up' = {}"
  have "k \<notin> keys up'" if "(k, v) \<in> set up" for k v
  proof -
    have "k \<in> keys up" unfolding keys_def using that by (rule image_eqI [rotated]) simp
    with up show ?thesis by blast
  qed
  with W show ?thesis unfolding harmless_def apart_def agree_def by blast
qed

lemma key_row_kept:
  assumes "T \<noteq> ''appMenuNode'' \<or> ''permissionKeys'' \<notin> keys W \<and> ''permissionKeys'' \<notin> keys up"
  shows "keeps newId (row_set T W up i) (set_permission_key a x)"
  unfolding set_permission_key_def
  by (cases x; simp; rule keeps_many_row_set) (use assms in \<open>auto simp: dotless_def data_ok_def intro!: harmless_fresh\<close>)

lemma key_some_row_kept: "T \<noteq> ''appMenuNode'' \<Longrightarrow> keeps newId (some_row T W up) (set_permission_key a x)"
  by (intro keeps_some_row key_row_kept disjI1)

lemma key_kept:
  assumes "fst x \<noteq> fst y"
  shows "keeps newId (all_set ''appMenuNode'' (node_key b (fst y)) [(''permissionKeys'', j)]) (set_permission_key a x)"
proof -
  have "harmless (node_key b (fst y)) [(''permissionKeys'', j)] (node_key a (fst x)) up" if "keys up = {''permissionKeys''}" for up
    using assms that by (auto simp: step_simps)
  then show ?thesis unfolding set_permission_key_def
    by (cases x; simp; intro keeps_many_all_set) (simp_all add: dotless_def data_ok_def)
qed

lemmas kept_by_key = key_row_kept key_some_row_kept key_kept

lemma kept_by_role:
  "T \<noteq> ''organizationRole'' \<Longrightarrow> keeps newId (row_set T W up i) (seed_role org role permission)"
  "T \<noteq> ''organizationRole'' \<Longrightarrow> keeps newId (some_row T W up) (seed_role org role permission)"
  "T \<noteq> ''organizationRole'' \<Longrightarrow> keeps newId (all_set T W up) (seed_role org role permission)"
  unfolding seed_role_def by (intro keep_rules; simp add: step_simps)+


definition rights ::
    "string \<Rightarrow> string \<Rightarrow> string \<Rightarrow> (string \<times> string \<times> string) list \<Rightarrow> (string \<times> string list) list \<Rightarrow>
     (string \<times> string) list \<Rightarrow> unit svc \<Rightarrow> unit svc" where
  "rights a name descr xs apis ks role = andThen (seed_resource name descr) (\<lambda>r.
     andThen (for_each (seed_action r) xs) (\<lambda>u.
     andThen (link_resource a r) (\<lambda>u.
     andThen (for_each (seed_api a) apis) (\<lambda>u.
     andThen (for_each (set_permission_key a) ks) (\<lambda>u. role)))))"

definition rights_ok :: "string \<Rightarrow> (string \<times> string \<times> string) list \<Rightarrow> (string \<times> string list) list \<Rightarrow> (string \<times> string) list \<Rightarrow> bool" where
  "rights_ok name xs apis ks \<longleftrightarrow> distinct (name # map fst apis) \<and> distinct (map fst (xs @ concat (map api_actions apis))) \<and>
     distinct (map fst ks)"

definition apis_set :: "string \<Rightarrow> (string \<times> string list) list \<Rightarrow> tables \<Rightarrow> bool" where
  "apis_set a apis db \<longleftrightarrow> (\<forall>x \<in> set apis. api_set a x db)"

definition rights_set ::
    "string \<Rightarrow> string \<Rightarrow> string \<Rightarrow> (string \<times> string \<times> string) list \<Rightarrow> (string \<times> string list) list \<Rightarrow>
     (string \<times> string) list \<Rightarrow> string \<Rightarrow> string \<Rightarrow> json \<Rightarrow> tables \<Rightarrow> bool" where
  "rights_set a name descr xs apis ks org role permission db \<longleftrightarrow>
     (\<exists>r. resource_set name descr r db \<and> actions_set xs db \<and> link_set a r db) \<and>
     apis_set a apis db \<and> keys_set a ks db \<and> role_set org role permission db"

lemma settles_actions:
  assumes "distinct (map fst xs)"
  shows "settles newId (for_each (seed_action r) xs) (\<lambda>u. actions_set xs)"
  unfolding actions_set_def [abs_def]
proof (rule settles_for_each)
  show "settles newId (seed_action r x) (\<lambda>u db. action_set x db)" for x by (rule settles_action)
  show "sorted_wrt (\<lambda>x y. keeps newId (action_set x) (seed_action r y)) xs"
    by (rule sorted_wrt_mono_rel [OF _ distinct_wrt [OF assms]]) (rule kept_by_action(3), simp)
qed

lemma keeps_actions:
  assumes "fst ` set xs \<inter> fst ` set ys = {}" and "distinct (map fst xs)"
  shows "keeps newId (actions_set ys) (for_each (seed_action r) xs)"
proof -
  have "keeps newId (action_set y) (for_each (seed_action r) xs)" if "y \<in> set ys" for y
    using assms(1) that by (intro keeps_for_each kept_by_action(3)) force
  then show ?thesis unfolding actions_set_def [abs_def]
    by (intro keeps_ball settles_ok [OF settles_actions [OF assms(2)]])
qed

lemma settles_api:
  assumes "distinct (map fst (api_actions x))"
  shows "settles newId (seed_api a x) (\<lambda>u. api_set a x)"
proof -
  have res: "keeps newId (resource_set n d i) (for_each (seed_action r) xs)" for n d i r xs
    unfolding resource_set_def by (intro keeps_for_each kept_by_action) simp
  have link: "keeps newId (resource_set n d i) (link_resource a r)" "keeps newId (actions_set xs) (link_resource a r)" for n d i r xs
    unfolding resource_set_def actions_set_def [abs_def] action_set_def
    by (auto intro!: kept_by_link keeps_ball settles_ok [OF settles_link] split: prod.split)
  have "settles newId (andThen (for_each (seed_action r) (api_actions x)) (\<lambda>u. link_resource a r))
      (\<lambda>u db. actions_set (api_actions x) db \<and> link_set a r db)" for r
    by (rule settles_weaken [OF settles_andThen [OF settles_actions [OF assms] settles_link link(2)]]) simp
  from settles_andThen [OF settles_resource this] show ?thesis
    unfolding seed_api_def
    by (rule settles_weaken) (auto simp: api_set_def intro!: keeps_andThen res link)
qed

lemma kept_by_api:
  "T \<notin> {''resource'', ''resourceAction'', ''appResource''} \<Longrightarrow> keeps newId (row_set T W up i) (seed_api a x)"
  "T \<notin> {''resource'', ''resourceAction'', ''appResource''} \<Longrightarrow> keeps newId (some_row T W up) (seed_api a x)"
  "name \<noteq> fst x \<Longrightarrow> keeps newId (resource_set name descr i) (seed_api a x)"
  "keeps newId (link_set b q) (seed_api a x)"
  unfolding seed_api_def resource_set_def link_set_def
  by (intro keeps_andThen keeps_for_each kept_by_resource kept_by_action kept_by_link
        kept_by_resource(2) [unfolded resource_set_def] kept_by_link(3) [unfolded link_set_def]; simp)+

lemma actions_kept_by_api:
  assumes "distinct (map fst (api_actions x))" and "fst ` set (api_actions x) \<inter> fst ` set xs = {}"
  shows "keeps newId (actions_set xs) (seed_api a x)"
proof -
  have "keeps newId (action_set y) (seed_api a x)" if "y \<in> set xs" for y
  proof -
    have "keeps newId (action_set y) (for_each (seed_action r) (api_actions x))" for r
      using assms(2) that by (intro keeps_for_each kept_by_action(3)) force
    moreover have "keeps newId (action_set y) (seed_resource n d)" "keeps newId (action_set y) (link_resource a r)" for n d r
      unfolding action_set_def by (cases y; simp add: kept_by_resource kept_by_link)+
    ultimately show ?thesis unfolding seed_api_def by (intro keeps_andThen)
  qed
  then show ?thesis unfolding actions_set_def [abs_def]
    by (intro keeps_ball settles_ok [OF settles_api [OF assms(1)]])
qed


lemma api_keys_disjoint:
  "distinct (concat (map f apis)) \<Longrightarrow> sorted_wrt (\<lambda>x y. set (f x) \<inter> set (f y) = {}) apis"
  by (induction apis) auto

lemma settles_apis:
  assumes "distinct (map fst apis)" and "distinct (map fst (concat (map api_actions apis)))"
  shows "settles newId (for_each (seed_api a) apis) (\<lambda>u. apis_set a apis)"
  unfolding apis_set_def [abs_def]
proof (rule settles_for_each)
  have keys: "distinct (concat (map (\<lambda>x. map fst (api_actions x)) apis))" using assms(2) by (simp add: map_concat comp_def)
  have d: "distinct (map fst (api_actions x))" if "x \<in> set apis" for x
    using keys that by (auto simp: distinct_concat_iff)
  then show "settles newId (seed_api a x) (\<lambda>u db. api_set a x db)" if "x \<in> set apis" for x
    using settles_api that by blast
  have "keeps newId (api_set a x) (seed_api a y)"
    if "y \<in> set apis" "fst x \<noteq> fst y" "fst ` set (api_actions x) \<inter> fst ` set (api_actions y) = {}" for x y
    unfolding api_set_def [abs_def] using that d [OF that(1)]
    by (intro keeps_ex keeps_conj kept_by_api actions_kept_by_api) auto
  moreover have "sorted_wrt (\<lambda>x y. fst x \<noteq> fst y \<and> fst ` set (api_actions x) \<inter> fst ` set (api_actions y) = {}) apis"
    using distinct_wrt [OF assms(1)] api_keys_disjoint [OF keys] by (simp add: sorted_wrt_iff_nth_less)
  ultimately show "sorted_wrt (\<lambda>x y. keeps newId (api_set a x) (seed_api a y)) apis"
    using sorted_wrt_mono_rel [of apis "\<lambda>x y. fst x \<noteq> fst y \<and> fst ` set (api_actions x) \<inter> fst ` set (api_actions y) = {}"] by simp
qed

lemma settles_keys:
  assumes "distinct (map fst ks)"
  shows "settles newId (for_each (set_permission_key a) ks) (\<lambda>u. keys_set a ks)"
  unfolding keys_set_def [abs_def]
proof (rule settles_for_each)
  show "sorted_wrt (\<lambda>x y. keeps newId
      (all_set ''appMenuNode'' (node_key a (fst x)) [(''permissionKeys'', JArr [JStr (snd x)])]) (set_permission_key a y)) ks"
    by (rule sorted_wrt_mono_rel [OF _ distinct_wrt [OF assms]]) (rule kept_by_key(3), simp)
qed (rule settles_key)

text \<open>Rows of the resources, their actions and links are left alone by what comes after.\<close>

lemma kept_by_keys:
  "T \<noteq> ''appMenuNode'' \<Longrightarrow> keeps newId (row_set T W up i) (for_each (set_permission_key a) ks)"
  "T \<noteq> ''appMenuNode'' \<Longrightarrow> keeps newId (some_row T W up) (for_each (set_permission_key a) ks)"
  by (auto intro!: keeps_for_each kept_by_key)

lemma keeps_resources:
  assumes "\<And>T W up i. T \<in> {''resource'', ''resourceAction'', ''appResource''} \<Longrightarrow> keeps newId (row_set T W up i) m"
    and "keeps newId (\<lambda>db. True) m"
  shows "keeps newId (resource_set n d i) m" "keeps newId (actions_set xs) m" "keeps newId (link_set a r) m"
    "keeps newId (apis_set a apis) m"
proof -
  have some: "keeps newId (some_row T W up) m" if "T \<in> {''resource'', ''resourceAction'', ''appResource''}" for T W up
    by (intro keeps_some_row assms(1) that)
  then have "keeps newId (action_set x) m" for x by (cases x) (simp add: action_set_def)
  then have xs: "keeps newId (actions_set xs) m" for xs
    unfolding actions_set_def [abs_def] by (intro keeps_ball assms(2))
  have res: "keeps newId (resource_set n d i) m" for n d i using assms(1) by (simp add: resource_set_def)
  have link: "keeps newId (link_set a r) m" for a r using some by (simp add: link_set_def)
  have "keeps newId (api_set a x) m" for a x
    unfolding api_set_def [abs_def] by (intro keeps_ex keeps_conj res xs link)
  then have "keeps newId (apis_set a apis) m" unfolding apis_set_def [abs_def] by (intro keeps_ball assms(2))
  with res xs link show "keeps newId (resource_set n d i) m" "keeps newId (actions_set xs) m" "keeps newId (link_set a r) m"
    "keeps newId (apis_set a apis) m" by blast+
qed

lemma settles_rights:
  assumes "rights_ok name xs apis ks"
  shows "settles newId (rights a name descr xs apis ks (seed_role org role permission))
     (\<lambda>u. rights_set a name descr xs apis ks org role permission)"
proof -
  have d: "name \<notin> fst ` set apis" "distinct (map fst apis)" "distinct (map fst xs)"
      "distinct (map fst (concat (map api_actions apis)))" "distinct (map fst ks)"
      "fst ` set xs \<inter> fst ` set (concat (map api_actions apis)) = {}"
    using assms by (auto simp: rights_ok_def)
  let ?role = "seed_role org role permission" and ?ks = "for_each (set_permission_key a) ks"
    and ?apis = "for_each (seed_api a) apis" and ?xs = "\<lambda>r. for_each (seed_action r) xs"
  have role: "settles newId (andThen ?ks (\<lambda>u. ?role)) (\<lambda>u db. keys_set a ks db \<and> role_set org role permission db)"
    by (rule settles_weaken [OF settles_andThen [OF settles_keys [OF d(5)] settles_role]])
      (auto simp: keys_set_def [abs_def] intro!: keeps_ball kept_by_role settles_ok [OF settles_role])
  have later: "keeps newId (resource_set n e i) (andThen ?ks (\<lambda>u. ?role))" "keeps newId (actions_set ys) (andThen ?ks (\<lambda>u. ?role))"
      "keeps newId (link_set b r) (andThen ?ks (\<lambda>u. ?role))" "keeps newId (apis_set b zs) (andThen ?ks (\<lambda>u. ?role))" for n e i ys b r zs
    by (rule keeps_resources; auto intro!: keeps_andThen kept_by_keys kept_by_role settles_ok [OF role])+
  have apis: "settles newId (andThen ?apis (\<lambda>u. andThen ?ks (\<lambda>u. ?role)))
      (\<lambda>u db. apis_set a apis db \<and> keys_set a ks db \<and> role_set org role permission db)"
    by (rule settles_weaken [OF settles_andThen [OF settles_apis [OF d(2,4)] role later(4)]]) simp
  have api_d: "distinct (map fst (api_actions x)) \<and> fst ` set (api_actions x) \<inter> fst ` set xs = {}" if "x \<in> set apis" for x
    using d(4,6) that by (auto simp: map_concat distinct_concat_iff)
  have "keeps newId (actions_set xs) (seed_api a x)" if "x \<in> set apis" for x
    using api_d [OF that] by (intro actions_kept_by_api) blast+
  moreover have "keeps newId (resource_set name descr i) (seed_api a x)" if "x \<in> set apis" for x i
    using d(1) that by (intro kept_by_api) blast
  ultimately have by_apis: "keeps newId (resource_set name descr i) ?apis" "keeps newId (actions_set xs) ?apis"
      "keeps newId (link_set b r) ?apis" for i b r
    by (blast intro: keeps_for_each kept_by_api(4))+
  have link: "settles newId (andThen (link_resource a r) (\<lambda>u. andThen ?apis (\<lambda>u. andThen ?ks (\<lambda>u. ?role))))
      (\<lambda>u db. link_set a r db \<and> apis_set a apis db \<and> keys_set a ks db \<and> role_set org role permission db)" for r
    by (rule settles_weaken [OF settles_andThen [OF settles_link apis keeps_andThen [OF by_apis(3) later(3)]]]) simp
  have by_link: "keeps newId (resource_set n e i) (link_resource a r)" "keeps newId (actions_set ys) (link_resource a r)" for n e i ys r
    unfolding resource_set_def actions_set_def [abs_def] action_set_def
    by (auto intro!: kept_by_link keeps_ball settles_ok [OF settles_link] split: prod.split)
  have xs: "settles newId (andThen (?xs r) (\<lambda>u. andThen (link_resource a r) (\<lambda>u. andThen ?apis (\<lambda>u. andThen ?ks (\<lambda>u. ?role)))))
      (\<lambda>u db. actions_set xs db \<and> link_set a r db \<and> apis_set a apis db \<and> keys_set a ks db \<and> role_set org role permission db)" for r
    by (rule settles_weaken [OF settles_andThen [OF settles_actions [OF d(3)] link]])
      (auto intro!: keeps_andThen by_link by_apis later)
  have by_xs: "keeps newId (resource_set name descr i) (?xs r)" for i r
    unfolding resource_set_def by (intro keeps_for_each kept_by_action) simp
  show ?thesis unfolding rights_def
    by (rule settles_weaken [OF settles_andThen [OF settles_resource xs]])
      (auto simp: rights_set_def intro!: keeps_andThen by_xs by_link by_apis later)
qed


subsection \<open>A whole portal\<close>

definition portal_keys :: "portal \<Rightarrow> (string \<times> string) list" where
  "portal_keys p = map (\<lambda>it. (mi_slug it, permKey (mi_slug it))) (leaf_items p)"

definition portal_ok :: "portal \<Rightarrow> bool" where
  "portal_ok p \<longleftrightarrow> distinct (portal_slugs p) \<and>
     rights_ok (pt_resource p) (portal_actions p) (pt_apis p) (portal_keys p)"

definition portal_rights_set :: "portal \<Rightarrow> string \<Rightarrow> string \<Rightarrow> tables \<Rightarrow> bool" where
  "portal_rights_set p a org = rights_set a (pt_resource p) (pt_descr p) (portal_actions p) (pt_apis p) (portal_keys p)
     org (pt_role p) (grants_json (permission_map p))"

definition drgodly_found :: "string option \<Rightarrow> tables \<Rightarrow> bool" where
  "drgodly_found = found ''organization'' [(''slug'', JStr ''drgodly'')]"

definition portal_set :: "portal \<Rightarrow> bool \<Rightarrow> tables \<Rightarrow> bool" where
  "portal_set p ok db \<longleftrightarrow> (\<exists>a. telemedicine_set a db \<and> portal_nodes_set p a db \<and>
     (if ok then \<exists>i. drgodly_found (Some i) db \<and> portal_rights_set p a i db else drgodly_found None db))"

lemma settles_portal_rights:
  "portal_ok p \<Longrightarrow> settles newId (portal_rights p a org) (\<lambda>u. portal_rights_set p a org)"
  using settles_rights [of "pt_resource p" "portal_actions p" "pt_apis p" "portal_keys p"]
  by (simp add: portal_ok_def portal_rights_def rights_def portal_keys_def portal_rights_set_def)

lemma rights_row_kept:
  assumes "T \<notin> {''resource'', ''resourceAction'', ''appResource'', ''organizationRole''}"
    and "T \<noteq> ''appMenuNode'' \<or> ''permissionKeys'' \<notin> keys W \<and> ''permissionKeys'' \<notin> keys up"
  shows "keeps newId (row_set T W up i) (rights a name descr xs apis ks (seed_role org role permission))"
  unfolding rights_def using assms
  by (intro keeps_andThen keeps_for_each kept_by_resource kept_by_action kept_by_link kept_by_api kept_by_key kept_by_role; simp)

lemma portal_rights_spares:
  assumes "portal_ok p"
  shows "spares newId A (portal_rights p a org)"
    and "T \<notin> {''resource'', ''resourceAction'', ''appResource'', ''organizationRole'', ''appMenuNode''} \<Longrightarrow>
      keeps newId (row_set T W up i) (portal_rights p a org)"
proof -
  have r: "portal_rights p a org = rights a (pt_resource p) (pt_descr p) (portal_actions p) (pt_apis p) (portal_keys p)
      (seed_role org (pt_role p) (grants_json (permission_map p)))"
    by (simp add: portal_rights_def rights_def portal_keys_def)
  show "spares newId A (portal_rights p a org)"
    unfolding spares_def using settles_ok [OF settles_portal_rights [OF assms, of newId a org]] rights_row_kept
    by (simp add: r node_key_def)
  show "keeps newId (row_set T W up i) (portal_rights p a org)"
    if "T \<notin> {''resource'', ''resourceAction'', ''appResource'', ''organizationRole'', ''appMenuNode''}"
    unfolding r using that by (intro rights_row_kept) auto
qed

lemma nodes_kept:
  assumes "\<And>A. spares newId A m"
  shows "keeps newId (portal_nodes_set p a) m"
  unfolding portal_nodes_set_def [abs_def]
  by (intro keeps_ex keeps_conj spares_node_set [OF assms [of UNIV]] spares_items_set [OF assms [of UNIV]]
      keeps_groups_set [OF assms [of UNIV]]) auto

lemma spares_find: "dotless T \<Longrightarrow> spares newId A (find_unique T wh)"
  by (simp add: spares_def keeps_find)

lemma spares_ret: "spares newId A (ret x)"
  by (simp add: spares_def keeps_ret)

lemma spares_andThen: "spares newId A m \<Longrightarrow> (\<And>x. spares newId A (f x)) \<Longrightarrow> spares newId A (andThen m f)"
  by (simp add: spares_def keeps_andThen)

lemma settles_drgodly: "settles newId (find_unique ''organization'' [(''slug'', JStr ''drgodly'')]) drgodly_found"
  using settles_find_unique [of "''organization''" _ "[(''slug'', JStr ''drgodly'')]"] by (simp add: drgodly_found_def dotless_def)

lemma settles_portal_access:
  assumes "portal_ok p"
  shows "settles newId (portal_access p a) (\<lambda>ok db. if ok then \<exists>i. drgodly_found (Some i) db \<and> portal_rights_set p a i db
     else drgodly_found None db)"
proof -
  let ?k = "\<lambda>org. case org of None \<Rightarrow> ret False | Some i \<Rightarrow> andThen (portal_rights p a i) (\<lambda>u. ret True)"
  let ?S = "\<lambda>org ok db. case org of None \<Rightarrow> \<not> ok | Some i \<Rightarrow> portal_rights_set p a i db \<and> ok"
  have k: "settles newId (?k org) (?S org)" for org
  proof (cases org)
    case (Some i)
    then show ?thesis
      by (simp, intro settles_weaken [OF settles_andThen [OF settles_portal_rights [OF assms] settles_ret keeps_ret]]) auto
  qed (simp add: settles_weaken [OF settles_ret])
  have "keeps newId (drgodly_found org) (?k org)" for org
    by (cases org) (auto simp: drgodly_found_def found_def [abs_def] intro!: keeps_ret keeps_andThen portal_rights_spares [OF assms])
  from settles_andThen [OF settles_drgodly k this] show ?thesis
    unfolding portal_access_def by (rule settles_weaken) (auto split: option.splits; metis option.exhaust)
qed

lemma settles_portal:
  assumes "portal_ok p"
  shows "settles newId (portal_main p) (portal_set p)"
proof -
  have spares: "spares newId A (portal_access p a)" for A a
    unfolding portal_access_def
    by (intro spares_andThen spares_find) (auto simp: dotless_def split: option.splits intro!: spares_ret spares_andThen portal_rights_spares [OF assms])
  have app: "keeps newId (telemedicine_set a) (portal_access p b)" for a b
    unfolding portal_access_def telemedicine_set_def app_set_def
    by (intro keeps_andThen keeps_find)
      (auto simp: dotless_def split: option.splits intro!: keeps_ret keeps_andThen portal_rights_spares [OF assms])
  have "distinct (portal_slugs p)" using assms by (simp add: portal_ok_def)
  from settles_andThen [OF settles_portal_menu [OF this] settles_portal_access [OF assms] keeps_conj [OF app nodes_kept [OF spares]]]
  show ?thesis unfolding portal_main_def by (rule settles_weaken) (simp add: portal_set_def conj_assoc)
qed


subsection \<open>The administrator's script\<close>

definition put_id_later where
  "put_id_later newId T wh cr up n db = put_id newId T wh cr up (Suc n) db"

definition email_key :: "(string \<times> json) list" where
  "email_key = [(''email'', JStr ADMIN_EMAIL)]"

definition user_data :: "(string \<times> json) list" where
  "user_data = [(''email'', JStr ADMIN_EMAIL), (''name'', JStr ADMIN_NAME)]"

lemma sign_up_new:
  assumes "find (has email_key) rows = None"
  shows "sign_up i (JObj [(''body'', JObj [(''email'', JStr ADMIN_EMAIL), (''password'', p), (''name'', JStr ADMIN_NAME)])]) rows =
    (Returned (JObj [(''user'', JObj ((''id'', JStr i) # user_data))]), rows @ [JObj ((''id'', JStr i) # user_data)])"
  using assms by (auto simp: sign_up_def new_row_def user_data_def email_key_def find_None_iff list_ex_iff Let_def)

lemma acts_admin_user: "acts newId admin_user (put_id_later newId ''user'' email_key user_data [])"
  unfolding acts_def
proof (intro allI impI)
  fix d0 h r h'
  assume ok: "db_ok newId (length h) (db_after newId d0 h)" and m: "admin_user (db_world newId d0) h = (r, h')"
  obtain q h1 where q: "find_unique ''user'' email_key (db_world newId d0) h = (q, h1)" by fastforce
  have "dotless ''user''" by (simp add: dotless_def)
  note F = actsD [OF acts_find_unique [OF this] q ok]
  have find: "q = Inr (map_option (\<lambda>r. text_at r [''id'']) (find (has email_key) (db_after newId d0 h ''user'')))"
    and same: "db_after newId d0 h1 = db_after newId d0 h"
    using F(1) [symmetric] by (simp_all add: find_step_def email_key_def del: text_at_simps)
  have h1: "length h1 = Suc (length h)"
    using q find_run [of "''user''" "''findUnique''" email_key newId d0 h] \<open>dotless ''user''\<close> row_id_run
      found_row [OF db_ok_rows [OF ok], of "has (flat_where (JObj email_key))" "''user''"]
    by (cases "find (has (flat_where (JObj email_key))) (db_after newId d0 h ''user'')")
      (auto simp: find_unique_def io_simps simp del: db_after_snoc text_at_simps)
  show "put_id_later newId ''user'' email_key user_data [] (length h) (db_after newId d0 h) = (r, db_after newId d0 h') \<and>
      db_ok newId (length h') (db_after newId d0 h')"
  proof (cases "find (has email_key) (db_after newId d0 h ''user'')")
    case (Some x)
    obtain os where "x = JObj os" using rows_ok_object [OF db_ok_rows [OF ok]] set_find [OF Some] by blast
    then have "change_first (has email_key) (\<lambda>r. spread r []) (db_after newId d0 h ''user'') = db_after newId d0 h ''user''"
      by (intro change_first_same [OF Some] spread_same [of "[]"]) simp_all
    then show ?thesis using m q find Some same F(2)
      by (auto simp: admin_user_def email_key_def [symmetric] io_simps put_id_later_def put_id_def put_row_def)
  next
    case None
    let ?u = "JObj ((''id'', JStr (newId (Suc (length h)))) # user_data)"
    define e where "e = Call ''auth.signUpEmail'' (JObj [(''body'', JObj [(''email'', JStr ADMIN_EMAIL),
         (''password'', JStr ADMIN_PASSWORD), (''name'', JStr ADMIN_NAME)])])"
    have e: "db_event (newId (length h1)) e (db_after newId d0 h1) = (Returned (JObj [(''user'', ?u)]),
        (db_after newId d0 h)(''user'' := db_after newId d0 h ''user'' @ [?u]))"
      by (simp add: e_def db_call_def in_table_def sign_up_new [OF None] h1 same)
    then have "r = Inr (newId (Suc (length h)))" "h' = h1 @ [e]"
      using m q find None unfolding admin_user_def email_key_def [symmetric] call_def e_def [symmetric]
      by (auto simp: io_simps rd_def row_id_run simp del: db_event.simps)
    then show ?thesis
      using e None put_row_ok [OF db_ok_later [OF ok, of "Suc (length h)"], of "[]" user_data "''user''" email_key]
      by (simp add: put_id_later_def put_id_def put_row_def h1 data_ok_def user_data_def del: db_event.simps)
  qed
qed


lemma step_user: "step_ok email_key user_data []"
  by (simp add: step_simps email_key_def user_data_def)

definition user_set :: "string \<Rightarrow> tables \<Rightarrow> bool" where
  "user_set = row_set ''user'' email_key []"

lemma settles_user: "settles newId admin_user user_set"
  unfolding user_set_def
proof (rule acts_settles [OF acts_admin_user])
  fix n db a
  assume ok: "db_ok newId n db"
  then have ok': "db_ok newId (Suc n) db" by (rule db_ok_later) simp
  show "row_set ''user'' email_key [] a (snd (put_id_later newId ''user'' email_key user_data [] n db))"
    if "fst (put_id_later newId ''user'' email_key user_data [] n db) = Inr a"
    using that put_row_settles [OF ok' step_user prod.collapse [symmetric]]
    by (auto simp: put_id_later_def put_id_split)
  show "put_id_later newId ''user'' email_key user_data [] n db = (Inr a, db)" if "row_set ''user'' email_key [] a db"
    using put_row_same [OF ok' that] by (simp add: put_id_later_def put_id_split)
qed

lemma kept_by_user: "T \<noteq> ''user'' \<Longrightarrow> keeps newId (row_set T W up i) admin_user"
  by (rule acts_keeps [OF acts_admin_user])
    (auto simp: put_id_later_def put_id_split row_set_def first_row_def put_row_other)

definition superuser_set :: "string \<Rightarrow> tables \<Rightarrow> bool" where
  "superuser_set u = row_set ''user'' [(''id'', JStr u)] [(''role'', JStr ''superadmin'')] u"

lemma settles_superuser:
  "settles newId (update_row ''user'' u [(''role'', JStr ''superadmin'')]) (\<lambda>v. superuser_set u)"
  unfolding superuser_set_def by (rule settles_update_row) (simp_all add: step_simps)

definition org_set :: "string \<Rightarrow> string \<Rightarrow> string \<Rightarrow> tables \<Rightarrow> bool" where
  "org_set slug name = row_set ''organization'' [(''slug'', JStr slug)] [(''name'', JStr name)]"

lemma settles_org: "settles newId (seed_organization now slug name) (org_set slug name)"
  unfolding seed_organization_def org_set_def
  using settles_upsert_uuid [of "''organization''" "[(''slug'', JStr slug)]"] by (simp add: step_simps)

definition member_set :: "string \<Rightarrow> string \<Rightarrow> string \<Rightarrow> tables \<Rightarrow> bool" where
  "member_set org user role = some_row ''member'' [(''organizationId'', JStr org), (''userId'', JStr user)] [(''role'', JStr role)]"

lemma settles_member: "settles newId (seed_member now org user role) (\<lambda>u. member_set org user role)"
  unfolding seed_member_def member_set_def
  using settles_find_or_create [of "''member''" "[(''organizationId'', JStr org), (''userId'', JStr user)]"]
  by (simp add: step_simps)

lemma kept_by_superuser:
  "T \<noteq> ''user'' \<Longrightarrow> keeps newId (row_set T W up i) (update_row ''user'' u [(''role'', JStr ''superadmin'')])"
  "keeps newId (user_set i) (update_row ''user'' u [(''role'', JStr ''superadmin'')])"
  unfolding user_set_def email_key_def by (intro keep_rules; simp add: step_simps)+

lemma kept_by_org:
  "T \<noteq> ''organization'' \<Longrightarrow> keeps newId (row_set T W up i) (seed_organization now slug name)"
  "T \<noteq> ''organization'' \<Longrightarrow> keeps newId (some_row T W up) (seed_organization now slug name)"
  "slug \<noteq> slug' \<Longrightarrow> keeps newId (org_set slug' name' i) (seed_organization now slug name)"
  unfolding seed_organization_def org_set_def by (intro keep_rules; simp add: step_simps)+

lemma kept_by_member:
  "T \<noteq> ''member'' \<Longrightarrow> keeps newId (row_set T W up i) (seed_member now org user role)"
  "org \<noteq> org' \<Longrightarrow> keeps newId (member_set org' user' role') (seed_member now org user role)"
  unfolding seed_member_def member_set_def by (intro keep_rules; simp add: step_simps)+

text \<open>Two organizations have two ids; what holds after a step may be used for what follows it.\<close>

lemma ids_differ:
  assumes "db_ok newId n db" and "row_set T W up i db" and "row_set T W' up' j db" and "clash W W'"
  shows "i \<noteq> j"
proof
  assume "i = j"
  obtain r q where r: "find (has W) (db T) = Some r" "text_at r [''id''] = i"
    and q: "find (has W') (db T) = Some q" "text_at q [''id''] = j"
    using assms(2,3) unfolding row_set_def first_row_def by blast
  note rows = db_ok_rows [OF assms(1), of T]
  have "r = q" using row_by_id [OF rows, of r] row_by_id [OF rows, of q] set_find [OF r(1)] set_find [OF q(1)] r(2) q(2) \<open>i = j\<close>
    by (simp del: text_at_simps)
  then show False using clash_has [OF assms(4)] set_find [OF r(1)] set_find [OF q(1)] by blast
qed

lemma keeps_after:
  assumes "keeps newId P m" and "settles newId m S" and f: "\<And>a. keeps newId (\<lambda>db. P db \<and> S a db) (f a)"
  shows "keeps newId P (andThen m f)"
proof (rule keepsI)
  fix d0 h q h2
  assume ok: "db_ok newId (length h) (db_after newId d0 h)" "P (db_after newId d0 h)"
    and mf: "andThen m f (db_world newId d0) h = (q, h2)"
  obtain r h1 where 1: "m (db_world newId d0) h = (r, h1)" by fastforce
  note M = keepsD [OF assms(1) 1 ok] settlesD(2) [OF assms(2) 1 ok(1)]
  show "db_ok newId (length h2) (db_after newId d0 h2) \<and> P (db_after newId d0 h2)"
  proof (cases r)
    case (Inl e)
    then show ?thesis using M(1) 1 mf by (simp add: io_simps)
  next
    case (Inr a)
    then have "f a (db_world newId d0) h1 = (q, h2)" using 1 mf by (simp add: io_simps)
    then show ?thesis using keepsD [OF f] M Inr by blast
  qed
qed

lemma keeps_given:
  assumes "\<And>n db. db_ok newId n db \<Longrightarrow> P db \<Longrightarrow> C" and "C \<Longrightarrow> keeps newId P m"
  shows "keeps newId P m"
proof (cases C)
  case False
  show ?thesis by (rule keepsI) (use assms(1) False in blast)
qed (rule assms(2))


definition first_org_set :: "string \<Rightarrow> string \<Rightarrow> tables \<Rightarrow> bool" where
  "first_org_set u org db \<longleftrightarrow> org_set ''superadmin'' ''Superadmin'' org db \<and> member_set org u ''superadmin'' db"

definition second_org_set :: "string \<Rightarrow> tables \<Rightarrow> bool" where
  "second_org_set u db \<longleftrightarrow> (\<exists>f. org_set ''filenest'' ''FileNest'' f db \<and> member_set f u ''owner'' db)"

definition accounts_set :: "string \<Rightarrow> tables \<Rightarrow> bool" where
  "accounts_set org db \<longleftrightarrow> (\<exists>u. user_set u db \<and> superuser_set u db \<and> first_org_set u org db \<and> second_org_set u db)"

definition first_org :: "json \<Rightarrow> string \<Rightarrow> string svc" where
  "first_org now u = andThen (seed_organization now ''superadmin'' ''Superadmin'') (\<lambda>org.
     andThen (seed_member now org u ''superadmin'') (\<lambda>v. ret org))"

definition second_org :: "json \<Rightarrow> string \<Rightarrow> string \<Rightarrow> string svc" where
  "second_org now u org = andThen (seed_organization now ''filenest'' ''FileNest'') (\<lambda>f.
     andThen (seed_member now f u ''owner'') (\<lambda>v. ret org))"

lemma admin_accounts_split: "admin_accounts now = andThen admin_user (\<lambda>u.
    andThen (update_row ''user'' u [(''role'', JStr ''superadmin'')]) (\<lambda>v. andThen (first_org now u) (second_org now u)))"
  by (simp add: admin_accounts_def first_org_def second_org_def andThen_assoc)

lemma settles_first_org: "settles newId (first_org now u) (first_org_set u)"
  unfolding first_org_def
  by (rule settles_weaken [OF settles_andThen [OF settles_org
        settles_weaken [OF settles_andThen [OF settles_member settles_ret keeps_ret]]]])
    (auto simp: first_org_set_def org_set_def intro!: keeps_andThen keeps_ret kept_by_member)

lemma settles_second_org: "settles newId (second_org now u org) (\<lambda>b db. second_org_set u db \<and> b = org)"
  unfolding second_org_def
  by (rule settles_weaken [OF settles_andThen [OF settles_org
        settles_weaken [OF settles_andThen [OF settles_member settles_ret keeps_ret]]]])
    (auto simp: second_org_set_def org_set_def intro!: keeps_andThen keeps_ret kept_by_member)

lemma first_org_kept: "keeps newId (first_org_set u org) (second_org now u org)"
  unfolding second_org_def
proof (rule keeps_after [OF _ settles_org])
  show "keeps newId (first_org_set u org) (seed_organization now ''filenest'' ''FileNest'')"
    unfolding first_org_set_def [abs_def] member_set_def by (intro keeps_conj kept_by_org) simp_all
  show "keeps newId (\<lambda>db. first_org_set u org db \<and> org_set ''filenest'' ''FileNest'' f db)
      (andThen (seed_member now f u ''owner'') (\<lambda>v. ret org))" for f
  proof (rule keeps_given)
    show "f \<noteq> org" if "db_ok newId n db" "first_org_set u org db \<and> org_set ''filenest'' ''FileNest'' f db" for n db
      using ids_differ [OF that(1), of "''organization''" "[(''slug'', JStr ''filenest'')]" _ f "[(''slug'', JStr ''superadmin'')]"]
        that(2) by (auto simp: first_org_set_def org_set_def clash_def)
    show "keeps newId (\<lambda>db. first_org_set u org db \<and> org_set ''filenest'' ''FileNest'' f db)
        (andThen (seed_member now f u ''owner'') (\<lambda>v. ret org))" if "f \<noteq> org"
      unfolding first_org_set_def org_set_def using that
      by (intro keeps_conj keeps_andThen keeps_ret kept_by_member) simp_all
  qed
qed

lemma user_kept_by_orgs:
  "keeps newId (user_set i) (first_org now u)" "keeps newId (superuser_set i) (first_org now u)"
  "keeps newId (user_set i) (second_org now u org)" "keeps newId (superuser_set i) (second_org now u org)"
  unfolding first_org_def second_org_def user_set_def superuser_set_def
  by (intro keeps_andThen keeps_ret kept_by_org kept_by_member; simp)+

lemma settles_accounts: "settles newId (admin_accounts now) accounts_set"
proof -
  have orgs: "settles newId (andThen (first_org now u) (second_org now u))
      (\<lambda>org db. first_org_set u org db \<and> second_org_set u db)" for u
    by (rule settles_weaken [OF settles_andThen [OF settles_first_org settles_second_org first_org_kept]]) auto
  have role: "settles newId (andThen (update_row ''user'' u [(''role'', JStr ''superadmin'')])
        (\<lambda>v. andThen (first_org now u) (second_org now u)))
      (\<lambda>org db. superuser_set u db \<and> first_org_set u org db \<and> second_org_set u db)" for u
    by (rule settles_weaken [OF settles_andThen [OF settles_superuser orgs]]) (auto intro!: keeps_andThen user_kept_by_orgs)
  show ?thesis unfolding admin_accounts_split
    by (rule settles_weaken [OF settles_andThen [OF settles_user role]])
      (auto simp: accounts_set_def intro!: keeps_andThen user_kept_by_orgs kept_by_superuser)
qed

definition admin_keys :: "(string \<times> string) list" where
  "admin_keys = map (\<lambda>it. (mi_slug it, admin_key (mi_slug it))) admin_items"

definition seeded_actions :: "(string \<times> string \<times> string) list" where
  "seeded_actions = map (\<lambda>it. (admin_key (mi_slug it), mi_label it, ''Access to the '' @ mi_label it @ '' admin page'')) admin_items"

definition admin_ok :: bool where
  "admin_ok \<longleftrightarrow> distinct (concat (map group_slugs ADMIN_MENU)) \<and> rights_ok ''superadmin'' seeded_actions [] admin_keys"

definition admin_rights_set :: "string \<Rightarrow> string \<Rightarrow> tables \<Rightarrow> bool" where
  "admin_rights_set a org = rights_set a ''superadmin'' ''Full access to all admin portal features'' seeded_actions [] admin_keys
     org ''superadmin'' (grants_json [(''superadmin'', map mi_slug admin_items)])"

lemma admin_rights_eq: "admin_rights a org = rights a ''superadmin'' ''Full access to all admin portal features'' seeded_actions []
    admin_keys (seed_role org ''superadmin'' (grants_json [(''superadmin'', map mi_slug admin_items)]))"
  by (simp add: admin_rights_def rights_def seeded_actions_def admin_keys_def)

lemma settles_admin_rights: "admin_ok \<Longrightarrow> settles newId (admin_rights a org) (\<lambda>u. admin_rights_set a org)"
  unfolding admin_rights_eq admin_rights_set_def by (rule settles_rights) (simp add: admin_ok_def)

definition admin_app_set :: "string \<Rightarrow> tables \<Rightarrow> bool" where
  "admin_app_set = app_set ''Admin'' ''admin'' ''Admin portal navigation''"

definition admin_nodes_set :: "string \<Rightarrow> tables \<Rightarrow> bool" where
  "admin_nodes_set a = groups_set group_update a 0 ADMIN_MENU"

definition admin_set :: "bool \<Rightarrow> tables \<Rightarrow> bool" where
  "admin_set ok db \<longleftrightarrow> (\<exists>a org. admin_app_set a db \<and> admin_nodes_set a db \<and> accounts_set org db \<and> admin_rights_set a org db) \<and> ok"

definition admin_menu_set :: "bool \<Rightarrow> tables \<Rightarrow> bool" where
  "admin_menu_set ok db \<longleftrightarrow> (\<exists>a. admin_app_set a db \<and> admin_nodes_set a db) \<and> ok"

lemma admin_menu_main_eq:
  "admin_menu_main = andThen (seed_app ''Admin'' ''admin'' ''Admin portal navigation'') (\<lambda>a.
     andThen (seed_admin_nodes a) (\<lambda>u. ret True))"
  by (simp add: admin_menu_main_def menu_script_menu_def seed_admin_nodes_def)

lemma settles_admin_menu:
  assumes "admin_ok"
  shows "settles newId admin_menu_main admin_menu_set"
proof -
  have nodes: "settles newId (seed_admin_nodes a) (\<lambda>u. admin_nodes_set a)" for a
    using settles_admin_nodes assms by (simp add: admin_nodes_set_def admin_ok_def)
  have "settles newId (andThen (seed_admin_nodes a) (\<lambda>u. ret True)) (\<lambda>ok db. admin_nodes_set a db \<and> ok)" for a
    by (rule settles_weaken [OF settles_andThen [OF nodes settles_ret keeps_ret]]) simp
  from settles_andThen [OF settles_app this] show ?thesis unfolding admin_menu_main_eq
    by (rule settles_weaken) (auto simp: admin_menu_set_def admin_app_set_def app_set_def intro!: keeps_andThen keeps_ret elsewhere_menu)
qed


text \<open>The accounts and the rights leave the menu alone, and the rights the accounts.\<close>

lemma accounts_elsewhere:
  "T \<notin> {''user'', ''organization'', ''member''} \<Longrightarrow> keeps newId (row_set T W up i) (admin_accounts now)"
  unfolding admin_accounts_split first_org_def second_org_def
  by (intro keeps_andThen keeps_ret kept_by_user kept_by_superuser kept_by_org kept_by_member; simp)

lemma accounts_spare: "spares newId A (admin_accounts now)"
  by (simp add: spares_def settles_ok [OF settles_accounts] accounts_elsewhere)

lemma admin_rights_spare:
  assumes "admin_ok"
  shows "spares newId A (admin_rights a org)"
  using settles_ok [OF settles_admin_rights [OF assms], of newId a org] rights_row_kept
  by (simp add: spares_def admin_rights_eq node_key_def)

lemma rights_elsewhere:
  "T \<notin> {''resource'', ''resourceAction'', ''appResource'', ''organizationRole'', ''appMenuNode''} \<Longrightarrow>
   keeps newId (row_set T W up i) (admin_rights a org)"
  unfolding admin_rights_eq by (rule rights_row_kept) auto

lemma accounts_kept: "keeps newId (accounts_set o1) (admin_rights a org)"
proof -
  have "keeps newId (some_row T W up) (admin_rights a org)" if "T = ''member''" for T W up
    using that by (intro keeps_some_row rights_elsewhere) simp
  then show ?thesis
    unfolding accounts_set_def first_org_set_def second_org_set_def user_set_def superuser_set_def org_set_def member_set_def
    by (intro keeps_ex keeps_conj rights_elsewhere) simp_all
qed

lemma settles_admin:
  assumes "admin_ok"
  shows "settles newId (admin_main now) admin_set"
proof -
  have nodes: "settles newId (seed_admin_nodes a) (\<lambda>u. admin_nodes_set a)" for a
    using settles_admin_nodes assms by (simp add: admin_nodes_set_def admin_ok_def)
  have nodes_kept: "keeps newId (admin_nodes_set a) m" if "\<And>A. spares newId A m" for a and m :: "'a svc"
    unfolding admin_nodes_set_def by (rule keeps_groups_set [OF that [of UNIV]]) auto
  have app: "keeps newId (app_set n s e i) (admin_rights a org)" "keeps newId (app_set n s e i) (admin_accounts now)" for n s e i a org
    unfolding app_set_def by (auto intro: rights_elsewhere accounts_elsewhere)
  have app_nodes: "keeps newId (app_set n s e i) (seed_admin_nodes a)" for n s e i a
    unfolding app_set_def by (rule elsewhere_menu) simp
  have rights: "settles newId (andThen (admin_rights a org) (\<lambda>u. ret True)) (\<lambda>ok db. admin_rights_set a org db \<and> ok)" for a org
    by (rule settles_weaken [OF settles_andThen [OF settles_admin_rights [OF assms] settles_ret keeps_ret]]) simp
  have accounts: "settles newId (andThen (admin_accounts now) (\<lambda>org. andThen (admin_rights a org) (\<lambda>u. ret True)))
      (\<lambda>ok db. (\<exists>org. accounts_set org db \<and> admin_rights_set a org db) \<and> ok)" for a
    by (rule settles_weaken [OF settles_andThen [OF settles_accounts rights]])
      (auto intro!: keeps_andThen keeps_ret accounts_kept)
  have "settles newId (andThen (seed_admin_nodes a) (\<lambda>u. andThen (admin_accounts now) (\<lambda>org. andThen (admin_rights a org) (\<lambda>u. ret True))))
      (\<lambda>ok db. admin_nodes_set a db \<and> (\<exists>org. accounts_set org db \<and> admin_rights_set a org db) \<and> ok)" for a
    by (rule settles_weaken [OF settles_andThen [OF nodes accounts]])
      (auto intro!: nodes_kept spares_andThen spares_ret accounts_spare admin_rights_spare [OF assms])
  from settles_andThen [OF settles_app this] show ?thesis unfolding admin_main_def
    by (rule settles_weaken)
      (auto simp: admin_set_def admin_app_set_def intro!: keeps_andThen keeps_ret app app_nodes)
qed


subsection \<open>The data of the scripts\<close>

lemma portals_ok: "portal_ok patient_portal" "portal_ok doctor_portal" "portal_ok app_admin_portal"
  by (simp_all add: portal_ok_def portal_slugs_def rights_ok_def portal_actions_def portal_keys_def leaf_items_def permKey_def
      group_slugs_def api_actions_def crud_def
      patient_portal_def patient_items_def patient_groups_def patient_apis_def
      doctor_portal_def doctor_items_def doctor_groups_def doctor_apis_def
      app_admin_portal_def app_admin_items_def mk_item_def mk_group_def)

lemma admin_ok: admin_ok
  by (simp add: admin_ok_def rights_ok_def seeded_actions_def admin_keys_def admin_items_def admin_key_def
      group_slugs_def ADMIN_MENU_def mk_item_def mk_group_def)

subsection \<open>Every script returns\<close>

definition returns :: "(nat \<Rightarrow> string) \<Rightarrow> 'a svc \<Rightarrow> bool" where
  "returns newId m \<longleftrightarrow> (\<forall>d0 h r h'. db_ok newId (length h) (db_after newId d0 h) \<longrightarrow>
     m (db_world newId d0) h = (r, h') \<longrightarrow> (\<exists>a. r = Inr a) \<and> db_ok newId (length h') (db_after newId d0 h'))"

lemma returnsD:
  assumes "returns newId m" and "m (db_world newId d0) h = (r, h')" and "db_ok newId (length h) (db_after newId d0 h)"
  shows "\<exists>a. r = Inr a" and "db_ok newId (length h') (db_after newId d0 h')"
  using assms unfolding returns_def by blast+

lemma acts_returns:
  assumes "acts newId m f" and "\<And>n db. \<exists>a. fst (f n db) = Inr a"
  shows "returns newId m"
  unfolding returns_def
proof (intro allI impI)
  fix d0 h r h'
  assume ok: "db_ok newId (length h) (db_after newId d0 h)" and m: "m (db_world newId d0) h = (r, h')"
  obtain a where "fst (f (length h) (db_after newId d0 h)) = Inr a" using assms(2) by blast
  then have "r = Inr a" using actsD(1) [OF assms(1) m ok] by simp
  with actsD(2) [OF assms(1) m ok] show "(\<exists>a. r = Inr a) \<and> db_ok newId (length h') (db_after newId d0 h')" by blast
qed

lemma returns_ret: "returns newId (ret a)"
  unfolding returns_def ret_apply by blast

lemma returns_andThen:
  assumes m: "returns newId m" and f: "\<And>a. returns newId (f a)"
  shows "returns newId (andThen m f)"
  unfolding returns_def
proof (intro allI impI)
  fix d0 h q h2
  assume ok: "db_ok newId (length h) (db_after newId d0 h)" and mf: "andThen m f (db_world newId d0) h = (q, h2)"
  obtain r h1 where 1: "m (db_world newId d0) h = (r, h1)" by fastforce
  then obtain a where "r = Inr a" using returnsD(1) [OF m 1 ok] by blast
  then have "f a (db_world newId d0) h1 = (q, h2)" using 1 mf by (simp add: io_simps)
  then show "(\<exists>b. q = Inr b) \<and> db_ok newId (length h2) (db_after newId d0 h2)"
    using returnsD [OF f] returnsD(2) [OF m 1 ok] by blast
qed

lemma returns_for_each: "(\<And>x. x \<in> set xs \<Longrightarrow> returns newId (f x)) \<Longrightarrow> returns newId (for_each f xs)"
  by (induction xs) (auto intro: returns_ret returns_andThen)

lemma put_returns: "\<exists>a. fst (put_id newId T W cr up n db) = Inr a" "\<exists>a. fst (put_unit newId T W cr up n db) = Inr a"
    "\<exists>a. fst (put_later newId T W cr up n db) = Inr a" "\<exists>a. fst (put_id_later newId T W cr up n db) = Inr a"
    "\<exists>a. fst (many_step T W up n db) = Inr a" "\<exists>a. fst (find_step T W n db) = Inr a"
  by (simp_all add: put_later_def put_id_later_def put_id_split put_unit_split many_step_def find_step_def)

lemmas return_rules =
  acts_returns [OF acts_upsert_id put_returns(1)] acts_returns [OF acts_upsert_uuid put_returns(1)]
  acts_returns [OF acts_upsert_row put_returns(2)] acts_returns [OF acts_find_or_create put_returns(3)]
  acts_returns [OF acts_update_many put_returns(5)] acts_returns [OF acts_find_unique put_returns(6)]
  returns_andThen returns_for_each returns_ret

lemma menu_steps_return:
  "returns newId (seed_app name slug descr)"
  "returns newId (seed_top a label slug shows)"
  "returns newId (seed_items a p its)"
  "returns newId (seed_subs a t n gs)"
  "returns newId (seed_admin_nodes a)"
proof -
  have item: "returns newId (seed_item a p x)" for a p x
    unfolding seed_item_def by (cases x) (intro return_rules; simp add: step_simps data_simps)
  then show items: "returns newId (seed_items a p its)" for a p its
    unfolding seed_items_def by (intro returns_for_each)
  show "returns newId (seed_app name slug descr)" "returns newId (seed_top a label slug shows)"
    unfolding seed_app_def seed_top_def by (intro return_rules; simp add: step_simps data_simps)+
  have "step_ok (node_key a (mg_slug (snd y))) (group_create a y) (group_update y)"
      "step_ok (node_key a (mg_slug (snd y))) (sub_create a t y) (sub_update t y)" for y
    by (cases y; simp add: step_simps data_simps)+
  then have "returns newId (seed_group a y)" "returns newId (seed_sub a t y)" for y
    unfolding seed_group_def seed_sub_def by (intro return_rules items; simp add: dotless_def)+
  then show "returns newId (seed_subs a t n gs)" "returns newId (seed_admin_nodes a)"
    unfolding seed_subs_def seed_admin_nodes_def seed_nodes_def by (intro returns_for_each; simp)+
qed

lemma rights_return: "returns newId (rights a name descr xs apis ks (seed_role org role permission))"
proof -
  have 1: "returns newId (seed_resource n e)" for n e
    unfolding seed_resource_def by (intro return_rules; simp add: step_simps)
  have 2: "returns newId (seed_action r x)" for r x
    unfolding seed_action_def by (cases x; simp; intro return_rules; simp add: step_simps)
  have 3: "returns newId (link_resource a r)" for r
    unfolding link_resource_def by (intro return_rules; simp add: step_simps)
  have 4: "returns newId (set_permission_key a x)" for x
    unfolding set_permission_key_def by (cases x; simp; intro return_rules; simp add: step_simps)
  have 5: "returns newId (seed_role org role permission)"
    unfolding seed_role_def by (intro return_rules; simp add: step_simps)
  show ?thesis unfolding rights_def seed_api_def by (intro returns_andThen returns_for_each 1 2 3 4 5)
qed

lemma portal_returns: "returns newId (portal_main p)"
proof -
  have "returns newId (portal_rights p a org)" for a org
    using rights_return by (simp add: portal_rights_def rights_def)
  then have "returns newId (case org of None \<Rightarrow> ret False | Some i \<Rightarrow> andThen (portal_rights p a i) (\<lambda>u. ret True))" for a org
    by (cases org) (auto intro: returns_ret returns_andThen)
  then show ?thesis unfolding portal_main_def portal_menu_def portal_access_def
    by (intro returns_andThen returns_ret menu_steps_return return_rules(6)) (simp_all add: dotless_def)
qed

lemma admin_menu_returns: "returns newId admin_menu_main"
  unfolding admin_menu_main_eq by (intro returns_andThen returns_ret menu_steps_return)

text \<open>The account is there when its role is set.\<close>

lemma account_returns:
  assumes "\<And>u. returns newId (k u)"
  shows "returns newId (andThen admin_user (\<lambda>u. andThen (update_row ''user'' u [(''role'', JStr ''superadmin'')]) (\<lambda>v. k u)))"
  unfolding returns_def
proof (intro allI impI)
  let ?up = "[(''role'', JStr ''superadmin'')]"
  fix d0 h q h3
  assume ok: "db_ok newId (length h) (db_after newId d0 h)" and all: "andThen admin_user (\<lambda>u. andThen (update_row ''user'' u ?up) (\<lambda>v. k u)) (db_world newId d0) h = (q, h3)"
  obtain r h1 where 1: "admin_user (db_world newId d0) h = (r, h1)" by fastforce
  obtain u where u: "r = Inr u" using returnsD(1) [OF acts_returns [OF acts_admin_user put_returns(4)] 1 ok] by blast
  note ok1 = settlesD(1) [OF settles_user 1 ok]
  obtain x where x: "find (has email_key) (db_after newId d0 h1 ''user'') = Some x" "text_at x [''id''] = u"
    using settlesD(2) [OF settles_user 1 ok u] by (auto simp: user_set_def row_set_def first_row_def simp del: text_at_simps)
  obtain s h2 where 2: "update_row ''user'' u ?up (db_world newId d0) h1 = (s, h2)" by fastforce
  have up: "acts newId (update_row ''user'' u ?up) (update_step ''user'' u ?up)"
    by (rule acts_update_row) (simp_all add: step_simps)
  have "find (has [(''id'', JStr u)]) (db_after newId d0 h1 ''user'') = Some x"
    using row_by_id [OF db_ok_rows [OF ok1], of x "''user''"] set_find [OF x(1)] x(2) by simp
  then have "s = Inr ()" using actsD(1) [OF up 2 ok1] by (simp add: update_step_def)
  then have "k u (db_world newId d0) h2 = (q, h3)" using all 1 2 u by (simp add: io_simps)
  then show "(\<exists>a. q = Inr a) \<and> db_ok newId (length h3) (db_after newId d0 h3)"
    using returnsD [OF assms] actsD(2) [OF up 2 ok1] by blast
qed

lemma admin_returns: "returns newId (admin_main now)"
proof -
  have org: "returns newId (seed_organization now slug name)" for slug name
    unfolding seed_organization_def by (intro return_rules; simp add: step_simps)
  have member: "returns newId (seed_member now o1 u role)" for o1 u role
    unfolding seed_member_def by (intro return_rules; simp add: step_simps)
  have rights: "returns newId (admin_rights a o1)" for a o1 unfolding admin_rights_eq by (rule rights_return)
  have accounts: "returns newId (admin_accounts now)"
    unfolding admin_accounts_def by (intro account_returns returns_andThen returns_ret org member)
  show ?thesis unfolding admin_main_def
    by (intro returns_andThen returns_ret menu_steps_return rights accounts)
qed


subsection \<open>Running a script again\<close>

definition portals :: "portal list" where
  "portals = [patient_portal, doctor_portal, app_admin_portal]"

definition seed_scripts :: "json \<Rightarrow> bool svc list" where
  "seed_scripts now = [admin_main now, admin_menu_main, patient_main, doctor_main, app_admin_main]"

lemma mains: "patient_main = portal_main patient_portal" "doctor_main = portal_main doctor_portal"
    "app_admin_main = portal_main app_admin_portal"
  by (simp_all add: patient_main_def patient_menu_def patient_access_def [abs_def] doctor_main_def doctor_menu_def
      doctor_access_def [abs_def] app_admin_main_def app_admin_menu_def app_admin_access_def [abs_def] portal_main_def)

lemma portal_in: "p \<in> set portals \<Longrightarrow> portal_ok p"
  using portals_ok by (auto simp: portals_def)

lemma scripts_settle:
  assumes "main \<in> set (seed_scripts now)"
  shows "\<exists>S. settles newId main S" and "returns newId main"
proof -
  consider "main = admin_main now" | "main = admin_menu_main" | p where "p \<in> set portals" "main = portal_main p"
    using assms unfolding seed_scripts_def mains portals_def by auto
  then have "(\<exists>S. settles newId main S) \<and> returns newId main"
  proof cases
    case 1
    then show ?thesis using settles_admin [OF admin_ok] admin_returns by blast
  next
    case 2
    then show ?thesis using settles_admin_menu [OF admin_ok] admin_menu_returns by blast
  next
    case 3
    then show ?thesis using settles_portal [OF portal_in] portal_returns by blast
  qed
  then show "\<exists>S. settles newId main S" and "returns newId main" by blast+
qed

lemma rerun_same:
  assumes "settles newId m S" and "m (db_world newId d0) h = (Inr a, h1)" and "db_ok newId (length h) (db_after newId d0 h)"
  shows "\<exists>h2. m (db_world newId d0) h1 = (Inr a, h2) \<and> db_after newId d0 h2 = db_after newId d0 h1"
proof -
  obtain q h2 where 2: "m (db_world newId d0) h1 = (q, h2)" by fastforce
  have "S a (db_after newId d0 h1)" by (rule settlesD(2) [OF assms refl])
  then show ?thesis using settlesD(3) [OF assms(1) 2 settlesD(1) [OF assms]] 2 by blast
qed


lemma inj_replicate: "inj (\<lambda>n. replicate n CHR ''x'')"
  by (rule injI) (simp add: replicate_eq_replicate)

lemma empty_ok: "inj newId \<Longrightarrow> db_ok newId n (\<lambda>T. [])"
  by (simp add: db_ok_def rows_ok_def ids_def)

lemma after_nothing [simp]: "db_after newId db [] = db"
  by (simp add: db_after_def)


subsection \<open>The portals need an organization\<close>

lemma absent_kept_by_portal_steps:
  "keeps newId (absent ''organization'' W) (seed_app name slug descr)"
  "keeps newId (absent ''organization'' W) (seed_admin_nodes a)"
  "keeps newId (absent ''organization'' W) (seed_top a label slug shows)"
  "keeps newId (absent ''organization'' W) (seed_items a t its)"
  "keeps newId (absent ''organization'' W) (seed_subs a t n gs)"
  "keeps newId (absent ''organization'' W) (rights a name descr xs apis ks (seed_role org role permission))"
proof -
  have item: "keeps newId (absent ''organization'' W) (seed_item a p x)" for a p x
    unfolding seed_item_def by (cases x) (intro keep_rules; simp add: step_simps data_simps)
  then show items: "keeps newId (absent ''organization'' W) (seed_items a t its)" for a t its
    unfolding seed_items_def by (intro keeps_for_each)
  show "keeps newId (absent ''organization'' W) (seed_app name slug descr)"
    "keeps newId (absent ''organization'' W) (seed_top a label slug shows)"
    unfolding seed_app_def seed_top_def by (intro keep_rules; simp add: step_simps data_simps)+
  have "step_ok (node_key a (mg_slug (snd y))) (group_create a y) (group_update y)"
      "step_ok (node_key a (mg_slug (snd y))) (sub_create a t y) (sub_update t y)" for y
    by (cases y; simp add: step_simps data_simps)+
  then have "keeps newId (absent ''organization'' W) (seed_group a y)" "keeps newId (absent ''organization'' W) (seed_sub a t y)" for y
    unfolding seed_group_def seed_sub_def by (intro keeps_andThen items keep_rules; simp add: dotless_def)+
  then show "keeps newId (absent ''organization'' W) (seed_admin_nodes a)" "keeps newId (absent ''organization'' W) (seed_subs a t n gs)"
    unfolding seed_admin_nodes_def seed_nodes_def seed_subs_def by (intro keeps_for_each; simp)+
  have 1: "keeps newId (absent ''organization'' W) (seed_resource n e)" for n e
    unfolding seed_resource_def by (intro keep_rules; simp add: step_simps)
  have 2: "keeps newId (absent ''organization'' W) (seed_action r x)" for r x
    unfolding seed_action_def by (cases x; simp; intro keep_rules; simp add: step_simps)
  have 3: "keeps newId (absent ''organization'' W) (link_resource a r)" for r
    unfolding link_resource_def by (intro keep_rules; simp add: step_simps)
  have 4: "keeps newId (absent ''organization'' W) (set_permission_key a x)" for x
    unfolding set_permission_key_def by (cases x; simp; intro keep_rules; simp add: step_simps)
  have 5: "keeps newId (absent ''organization'' W) (seed_role org role permission)"
    unfolding seed_role_def by (intro keep_rules; simp add: step_simps)
  show "keeps newId (absent ''organization'' W) (rights a name descr xs apis ks (seed_role org role permission))"
    unfolding rights_def seed_api_def by (intro keeps_andThen keeps_for_each 1 2 3 4 5)
qed

abbreviation no_drgodly :: "tables \<Rightarrow> bool" where
  "no_drgodly \<equiv> absent ''organization'' [(''slug'', JStr ''drgodly'')]"

lemma no_drgodly_after_admin: "keeps newId no_drgodly (admin_main now)"
proof -
  have org: "slug \<noteq> ''drgodly'' \<Longrightarrow> keeps newId no_drgodly (seed_organization now slug name)" for slug name
    unfolding seed_organization_def by (intro keep_rules; simp add: step_simps)
  have member: "keeps newId no_drgodly (seed_member now o1 u role)" for o1 u role
    unfolding seed_member_def by (intro keep_rules; simp add: step_simps)
  have user: "keeps newId no_drgodly admin_user"
    by (rule acts_keeps [OF acts_admin_user]) (auto simp: put_id_later_def put_id_split absent_def first_row_def put_row_other)
  have role: "keeps newId no_drgodly (update_row ''user'' u [(''role'', JStr ''superadmin'')])" for u
    by (intro keep_rules; simp add: step_simps)
  have "keeps newId no_drgodly (admin_accounts now)"
    unfolding admin_accounts_def by (intro keeps_andThen keeps_ret user role org member) simp_all
  then show ?thesis
    unfolding admin_main_def admin_rights_eq by (intro keeps_andThen keeps_ret absent_kept_by_portal_steps)
qed


lemma no_drgodly_after_portal: "keeps newId no_drgodly (portal_main p)"
proof -
  have "keeps newId no_drgodly (portal_rights p a org)" for a org
    using absent_kept_by_portal_steps(6) by (simp add: portal_rights_def rights_def)
  then have "keeps newId no_drgodly (case org of None \<Rightarrow> ret False | Some i \<Rightarrow> andThen (portal_rights p a i) (\<lambda>u. ret True))" for a org
    by (cases org) (auto intro: keeps_ret keeps_andThen)
  then show ?thesis unfolding portal_main_def portal_menu_def portal_access_def
    by (intro keeps_andThen keeps_ret absent_kept_by_portal_steps keeps_find) (simp_all add: dotless_def)
qed

lemma portal_without_org:
  assumes "portal_ok p" and ok: "db_ok newId (length h) (db_after newId d0 h)" and "no_drgodly (db_after newId d0 h)"
  shows "\<exists>h'. portal_main p (db_world newId d0) h = (Inr False, h')"
proof -
  obtain r h' where m: "portal_main p (db_world newId d0) h = (r, h')" by fastforce
  obtain b where b: "r = Inr b" using returnsD(1) [OF portal_returns m ok] by blast
  have "no_drgodly (db_after newId d0 h')" using keepsD [OF no_drgodly_after_portal m ok assms(3)] by blast
  moreover have "portal_set p b (db_after newId d0 h')" by (rule settlesD(2) [OF settles_portal [OF assms(1)] m ok b])
  ultimately have "\<not> b" by (auto simp: portal_set_def drgodly_found_def found_def row_set_def absent_def)
  with m b show ?thesis by simp
qed

lemma disconnect_run: "\<exists>e. call ''prisma.$disconnect'' (JObj []) (db_world newId d0) h = (Inr JNull, h @ [e]) \<and>
    db_after newId d0 (h @ [e]) = db_after newId d0 h"
  by (auto simp: call_def io_simps db_call_def)



end
