(* ===== verification/Iam_Seeds_Rights.thy ===== *)
theory Iam_Seeds_Rights
  imports Iam_Seeds_Rerun
begin

text \<open>
  The rights that the portals' scripts give, read back by the permission query of \<open>Iam_Access\<close> from the tables
  that a script leaves behind.
\<close>

subsection \<open>What the roles of the portals may do\<close>

text \<open>The queries of \<^verbatim>\<open>getUserPermissions\<close> on the tables; a permission column holds the value of its text.\<close>

definition role_rows :: "tables \<Rightarrow> string \<Rightarrow> string list \<Rightarrow> json list" where
  "role_rows db org roles = filter (\<lambda>r. jget r ''organizationId'' = Some (JStr org) \<and>
     (\<exists>x \<in> set roles. jget r ''role'' = Some (JStr x))) (db ''organizationRole'')"

definition db_orgRoles :: "tables \<Rightarrow> string \<Rightarrow> string list \<Rightarrow> json option list" where
  "db_orgRoles db org roles = map (\<lambda>r. jget r ''permission'') (role_rows db org roles)"

definition roles_unique :: "tables \<Rightarrow> bool" where
  "roles_unique db \<longleftrightarrow> (\<forall>r \<in> set (db ''organizationRole''). \<forall>q \<in> set (db ''organizationRole'').
     jget r ''organizationId'' = jget q ''organizationId'' \<and> jget r ''role'' = jget q ''role'' \<longrightarrow> r = q)"

definition granted_keys :: "(string \<times> string list) list \<Rightarrow> string list" where
  "granted_keys gs = concat (map (\<lambda>(r, xs). map (\<lambda>x. r @ '':'' @ x) xs) gs)"

lemma grants_parsed: "orgPermissionJsonToKeys (Some (grants_json gs)) = granted_keys gs"
proof -
  have "entry_keys (map (\<lambda>(r, xs). (r, JArr (map JStr xs))) gs) = Some (granted_keys gs)"
    by (induction gs) (auto simp: granted_keys_def comp_def)
  then show ?thesis by (simp add: orgPermissionJsonToKeys_def grants_json_def)
qed

lemma unmoved_roles_unique: "T \<noteq> ''organizationRole'' \<Longrightarrow> unmoved newId roles_unique T W cr up"
  by (simp add: unmoved_def roles_unique_def put_row_other)

lemma roles_unique_role: "unmoved newId roles_unique ''organizationRole'' [(''organizationId'', JStr org), (''role'', JStr role)]
    [(''organizationId'', JStr org), (''role'', JStr role), (''permission'', j)] [(''permission'', j)]"
  unfolding unmoved_def
proof (intro allI impI)
  let ?W = "[(''organizationId'', JStr org), (''role'', JStr role)]" and ?T = "''organizationRole''"
  let ?cr = "?W @ [(''permission'', j)]" and ?f = "\<lambda>r. spread r [(''permission'', j)]"
  fix n db assume ok: "db_ok newId n db" and u: "roles_unique db"
  note rows = db_ok_rows [OF ok, of ?T]
  show "roles_unique (snd (put_row newId ?T ?W [(''organizationId'', JStr org), (''role'', JStr role), (''permission'', j)] [(''permission'', j)] n db))"
  proof (cases "find (has ?W) (db ?T)")
    case None
    then have new: "\<forall>q \<in> set (db ?T). jget q ''organizationId'' = Some (JStr org) \<longrightarrow> jget q ''role'' \<noteq> Some (JStr role)"
      by (auto simp: find_None_iff)
    show ?thesis using u new unfolding put_row_def None option.case snd_conv roles_unique_def fun_upd_same
      by (simp, metis)
  next
    case (Some x)
    have same: "jget (?f r) ''organizationId'' = jget r ''organizationId'' \<and> jget (?f r) ''role'' = jget r ''role''"
      if "r \<in> set (db ?T)" for r
      using rows_ok_object [OF rows that] by (auto simp: jget_spread_row)
    define g where "g r = (if r = x then ?f r else r)" for r
    have rows': "change_first (has ?W) ?f (db ?T) = map g (db ?T)"
      unfolding change_first_map [OF rows_ok_distinct [OF rows]] Some g_def by (rule map_cong) auto
    have g: "jget (g r) ''organizationId'' = jget r ''organizationId'' \<and> jget (g r) ''role'' = jget r ''role''"
      if "r \<in> set (db ?T)" for r using same [OF that] unfolding g_def by auto
    have "g r = g q" if mem: "r \<in> set (db ?T)" "q \<in> set (db ?T)"
      and cols: "jget (g r) ''organizationId'' = jget (g q) ''organizationId''" "jget (g r) ''role'' = jget (g q) ''role''" for r q
    proof -
      have "r = q" using u mem cols g [OF mem(1)] g [OF mem(2)] unfolding roles_unique_def by simp
      then show ?thesis by simp
    qed
    then have "roles_unique (db(?T := change_first (has ?W) ?f (db ?T)))"
      unfolding roles_unique_def fun_upd_same rows' by simp
    then show ?thesis unfolding put_row_def Some by simp
  qed
qed


lemma roles_unique_kept: "keeps newId roles_unique (portal_main p)"
proof -
  have item: "keeps newId roles_unique (seed_item a t x)" for a t x
    unfolding seed_item_def by (cases x; intro keep_rules unmoved_roles_unique; simp add: step_simps data_simps)
  have items: "keeps newId roles_unique (seed_items a t its)" for a t its
    unfolding seed_items_def by (intro keeps_for_each item)
  have app: "keeps newId roles_unique (seed_app n s e)" "keeps newId roles_unique (seed_top a l s b)" for n s e a l b
    unfolding seed_app_def seed_top_def by (intro keep_rules unmoved_roles_unique; simp add: step_simps data_simps)+
  have "keeps newId roles_unique (seed_sub a t x)" for a t x
    unfolding seed_sub_def by (cases x; intro keeps_andThen items keep_rules unmoved_roles_unique; simp add: step_simps data_simps)
  then have menu: "keeps newId roles_unique (portal_menu p)"
    unfolding portal_menu_def seed_subs_def by (intro keeps_andThen keeps_for_each keeps_ret app items)
  have 1: "keeps newId roles_unique (seed_resource n e)" for n e
    unfolding seed_resource_def by (intro keep_rules unmoved_roles_unique; simp add: step_simps)
  have 2: "keeps newId roles_unique (seed_action r x)" for r x
    unfolding seed_action_def by (cases x; simp; intro keep_rules unmoved_roles_unique; simp add: step_simps)
  have 3: "keeps newId roles_unique (link_resource a r)" for a r
    unfolding link_resource_def by (intro keep_rules unmoved_roles_unique; simp add: step_simps)
  have 4: "keeps newId roles_unique (set_permission_key a x)" for a x
    unfolding set_permission_key_def
    by (cases x; simp; rule acts_keeps [OF acts_update_many]) (simp_all add: dotless_def data_ok_def many_step_def roles_unique_def)
  have 5: "keeps newId roles_unique (seed_role org role j)" for org role j
    unfolding seed_role_def by (rule keeps_put_later [OF acts_find_or_create]) (simp_all add: step_simps roles_unique_role)
  have "keeps newId roles_unique (portal_rights p a org)" for a org
    unfolding portal_rights_def seed_api_def by (intro keeps_andThen keeps_for_each 1 2 3 4 5)
  then have "keeps newId roles_unique (case org of None \<Rightarrow> ret False | Some i \<Rightarrow> andThen (portal_rights p a i) (\<lambda>u. ret True))" for a org
    by (cases org) (auto intro: keeps_ret keeps_andThen)
  then show ?thesis unfolding portal_main_def portal_access_def
    by (intro keeps_andThen menu keeps_find) (simp_all add: dotless_def)
qed

text \<open>With one row per role, what a role is granted is what its row says.\<close>

lemma distinct_single: "distinct xs \<Longrightarrow> set xs = {x} \<Longrightarrow> xs = [x]"
  by (cases xs; cases "tl xs") auto

lemma role_rows_single:
  assumes "db_ok newId n db" and "roles_unique db" and "role_set org role j db"
  shows "db_orgRoles db org [role] = [Some j]"
proof -
  let ?W = "[(''organizationId'', JStr org), (''role'', JStr role)]"
  obtain x where x: "find (has ?W) (db ''organizationRole'') = Some x" "jget x ''permission'' = Some j"
    using assms(3) by (auto simp: role_set_def some_row_def row_set_def first_row_def)
  have d: "distinct (db ''organizationRole'')" by (rule rows_ok_distinct [OF db_ok_rows [OF assms(1)]])
  have W: "(\<lambda>r. jget r ''organizationId'' = Some (JStr org) \<and> (\<exists>x \<in> set [role]. jget r ''role'' = Some (JStr x))) = has ?W"
    by (auto simp: fun_eq_iff)
  have "set (filter (has ?W) (db ''organizationRole'')) = {x}"
    using set_find [OF x(1)] assms(2) by (auto simp: roles_unique_def)
  then have "filter (has ?W) (db ''organizationRole'') = [x]"
    by (rule distinct_single [OF distinct_filter [OF d]])
  then show ?thesis unfolding db_orgRoles_def role_rows_def W by (simp add: x(2))
qed


definition portal_granted :: "portal \<Rightarrow> string set" where
  "portal_granted p = set (granted_keys (permission_map p))"

lemmas portal_data = leaf_items_def permKey_def crud_def
      patient_portal_def patient_items_def patient_groups_def patient_grants_def
      doctor_portal_def doctor_items_def doctor_groups_def doctor_grants_def
      app_admin_portal_def app_admin_items_def mk_item_def mk_group_def

lemma granted_sets:
  "portal_granted patient_portal = set [''patient-dashboard:read'', ''patient-profile:read'', ''patient-appointments:read'',
     ''patient-book-appointment:read'', ''patient-intake-voice:read'', ''patient-intake-chat:read'',
     ''patient-ai-consultation-voice:read'', ''patient-ai-consultation-chat:read'',
     ''patient:create'', ''patient:read'', ''patient:update'', ''patient:delete'',
     ''appointment:create'', ''appointment:read'', ''appointment:update'', ''appointment:delete'',
     ''encounter:create'', ''encounter:read'', ''encounter:update'', ''encounter:delete'',
     ''questionnaire_response:create'', ''questionnaire_response:read'', ''questionnaire_response:update'',
     ''questionnaire_response:delete'', ''consultagent:chat'', ''agent:chat'']"
  "portal_granted doctor_portal = set [''doctor-dashboard:read'', ''doctor-appointments:read'',
     ''doctor-online-consultation:read'', ''doctor-services:read'', ''doctor-availability:read'', ''doctor-profile:read'',
     ''practitioner:create'', ''practitioner:read'', ''practitioner:update'', ''practitioner:delete'',
     ''appointment:create'', ''appointment:read'', ''appointment:update'', ''appointment:delete'',
     ''encounter:create'', ''encounter:read'', ''encounter:update'', ''encounter:delete'',
     ''questionnaire_response:create'', ''questionnaire_response:read'', ''questionnaire_response:update'',
     ''questionnaire_response:delete'']"
  "portal_granted app_admin_portal = set [''app-admin-dashboard:read'', ''app-admin-manage-doctors:read'',
     ''app-admin-manage-doctor-type:read'']"
  by (simp_all add: portal_granted_def granted_keys_def permission_map_def from_entries_def portal_data)

definition leaf_keys :: "portal \<Rightarrow> string list" where
  "leaf_keys q = map (\<lambda>it. permKey (mi_slug it)) (leaf_items q)"

lemma leaf_key_lists:
  "leaf_keys patient_portal = [''patient-dashboard:read'', ''patient-profile:read'',
     ''patient-appointments:read'', ''patient-book-appointment:read'', ''patient-intake-voice:read'', ''patient-intake-chat:read'',
     ''patient-ai-consultation-voice:read'', ''patient-ai-consultation-chat:read'']"
  "leaf_keys doctor_portal = [''doctor-dashboard:read'', ''doctor-appointments:read'',
     ''doctor-online-consultation:read'', ''doctor-services:read'', ''doctor-availability:read'', ''doctor-profile:read'']"
  "leaf_keys app_admin_portal = [''app-admin-dashboard:read'',
     ''app-admin-manage-doctors:read'', ''app-admin-manage-doctor-type:read'']"
  by (simp_all add: leaf_keys_def portal_data)

lemma portal_roles: "pt_role patient_portal = ''patient''" "pt_role doctor_portal = ''doctor''" "pt_role app_admin_portal = ''application-admin''"
  by (simp_all add: portal_data)

lemma leaf_granted:
  assumes "p \<in> set portals" and "q \<in> set portals"
  shows "\<forall>k \<in> set (leaf_keys q). k \<in> portal_granted p \<longleftrightarrow> pt_role q = pt_role p"
  using assms unfolding portals_def by (auto simp: leaf_key_lists granted_sets portal_roles)

lemma role_list_portals: "p \<in> set portals \<Longrightarrow> role_list (pt_role p) = [pt_role p]"
  by (auto simp: portals_def portal_roles role_list_def trim_def js_space_def)

lemma in_enumerate: "x \<in> set xs \<Longrightarrow> \<exists>i. (i, x) \<in> set (enumerate n xs)"
  by (induction xs arbitrary: n) auto

text \<open>Every entry of a portal's menu has its row, with exactly the key of its own.\<close>

lemma leaf_row:
  assumes "portal_nodes_set p a db" and "keys_set a (portal_keys p) db" and "it \<in> set (leaf_items p)"
  shows "some_row ''appMenuNode'' (node_key a (mi_slug it)) [(''permissionKeys'', JArr [JStr (permKey (mi_slug it))])] db"
proof -
  obtain t where t: "items_set a t (pt_items p) db" "groups_set (sub_update t) a (length (pt_items p)) (pt_groups p) db"
    using assms(1) unfolding portal_nodes_set_def by blast
  have in_items: "\<exists>up. some_row ''appMenuNode'' (node_key a (mi_slug it)) up db"
    if rows: "items_set a g its db" and it: "it \<in> set its" for g its
  proof -
    obtain i where "(i, it) \<in> set (enumerate 0 its)" using in_enumerate [OF it] by blast
    then show ?thesis using rows by (fastforce simp: items_set_def item_set_def)
  qed
  have "\<exists>up. some_row ''appMenuNode'' (node_key a (mi_slug it)) up db"
  proof (cases "it \<in> set (pt_items p)")
    case False
    then obtain g where g: "g \<in> set (pt_groups p)" "it \<in> set (mg_items g)" using assms(3) by (auto simp: leaf_items_def)
    then obtain n where "(n, g) \<in> set (enumerate (length (pt_items p)) (pt_groups p))"
      using in_enumerate [OF g(1)] by blast
    then show ?thesis using t(2) g(2) in_items by (fastforce simp: groups_set_def group_set_def)
  qed (rule in_items [OF t(1)])
  then obtain r where r: "find (has (node_key a (mi_slug it))) (db ''appMenuNode'') = Some r"
    by (auto simp: some_row_def row_set_def first_row_def)
  have "(mi_slug it, permKey (mi_slug it)) \<in> set (portal_keys p)" using assms(3) by (simp add: portal_keys_def)
  then have "has [(''permissionKeys'', JArr [JStr (permKey (mi_slug it))])] r"
    using assms(2) set_find [OF r] by (fastforce simp: keys_set_def all_set_def)
  with r show ?thesis unfolding some_row_def row_set_def first_row_def by blast
qed



lemma org_kept_by_portal:
  assumes "portal_ok p"
  shows "keeps newId (row_set ''organization'' W up i) (portal_main p)"
proof -
  have app: "keeps newId (row_set ''organization'' W up i) (seed_app n s e)" for n s e
    unfolding seed_app_def by (intro keep_rules; simp add: step_simps)
  have "keeps newId (row_set ''organization'' W up i) (case org of None \<Rightarrow> ret False
      | Some j \<Rightarrow> andThen (portal_rights p a j) (\<lambda>u. ret True))" for a org
    using portal_rights_spares(2) [OF assms] by (cases org) (auto intro: keeps_ret keeps_andThen)
  then show ?thesis unfolding portal_main_def portal_menu_def portal_access_def
    by (intro keeps_andThen keeps_ret app elsewhere_menu elsewhere_items keeps_find) (simp_all add: dotless_def)
qed

lemma portal_with_org:
  assumes "portal_ok p" and ok: "db_ok newId (length h) (db_after newId d0 h)"
    and org: "row_set ''organization'' [(''slug'', JStr ''drgodly'')] [] i (db_after newId d0 h)"
  shows "\<exists>h'. portal_main p (db_world newId d0) h = (Inr True, h') \<and>
    row_set ''organization'' [(''slug'', JStr ''drgodly'')] [] i (db_after newId d0 h')"
proof -
  obtain r h' where m: "portal_main p (db_world newId d0) h = (r, h')" by fastforce
  obtain b where b: "r = Inr b" using returnsD(1) [OF portal_returns m ok] by blast
  have row: "row_set ''organization'' [(''slug'', JStr ''drgodly'')] [] i (db_after newId d0 h')"
    using keepsD [OF org_kept_by_portal [OF assms(1)] m ok org] by blast
  have "portal_set p b (db_after newId d0 h')" by (rule settlesD(2) [OF settles_portal [OF assms(1)] m ok b])
  then have "b" using row by (auto simp: portal_set_def drgodly_found_def found_def absent_def row_set_def split: if_splits)
  with m b row show ?thesis by simp
qed

definition demo_tables :: tables where
  "demo_tables T = (if T = ''organization'' then [JObj [(''id'', JStr ''o''), (''slug'', JStr ''drgodly'')]] else [])"

lemma demo_tables_ok: "db_ok (\<lambda>n. replicate n CHR ''x'') 0 demo_tables" "roles_unique demo_tables"
    "row_set ''organization'' [(''slug'', JStr ''drgodly'')] [] ''o'' demo_tables"
proof -
  have "replicate k CHR ''x'' \<noteq> ''o''" for k by (cases k) auto
  then show "db_ok (\<lambda>n. replicate n CHR ''x'') 0 demo_tables"
    by (auto simp: db_ok_def rows_ok_def ids_def demo_tables_def inj_replicate)
qed (simp_all add: roles_unique_def demo_tables_def row_set_def first_row_def)


end
