(* ===== verification/React_Components.thy ===== *)
theory React_Components
  imports React_Hooks
begin

text \<open>
  The components of the React SDK (\<^verbatim>\<open>sdks/react/src/components/\<close>): which of the chosen files \<^verbatim>\<open>FileUpload\<close>
  uploads and what it reports, and what \<^verbatim>\<open>FilePreview\<close> shows and downloads. A function that the component
  makes in a render closes over the upload list of that render, which is an argument here.
\<close>

subsection \<open>FileUpload: the choice\<close>

record upload_props =
  up_accept :: "string list option"
  up_maxSize :: "nat option"
  up_maxFiles :: nat
  up_options :: r_upload_options
  up_onComplete :: "json option list \<Rightarrow> r_exn option"

text \<open>The default of a prop that is left out.\<close>

definition maxFiles_prop :: "nat option \<Rightarrow> nat" where
  "maxFiles_prop n = keep_or n 10"

text \<open>\<^verbatim>\<open>a.replace("/*", "/")\<close> replaces the first occurrence.\<close>

fun drop_star :: "string \<Rightarrow> string" where
  "drop_star (c # d # s) = (if c = CHR ''/'' \<and> d = CHR ''*'' then c # s else c # drop_star (d # s))"
| "drop_star s = s"

definition type_matches :: "string \<Rightarrow> string \<Rightarrow> bool" where
  "type_matches t a = (if suffix ''/*'' a then starts_with t (drop_star a) else t = a)"

text \<open>\<^verbatim>\<open>Math.round(n / 1024 / 1024)\<close>.\<close>

definition round_MB :: "nat \<Rightarrow> nat" where
  "round_MB n = (n + 524288) div 1048576"

text \<open>What is wrong with a file, None for a file to upload.\<close>

definition file_error :: "upload_props \<Rightarrow> web_file \<Rightarrow> string option" where
  "file_error pr f =
     (if (case up_maxSize pr of None \<Rightarrow> False | Some m \<Rightarrow> m \<noteq> 0 \<and> m < length (wf_bytes f))
      then Some (wf_name f @ '' exceeds maximum size of '' @ show_nat (round_MB (the (up_maxSize pr))) @ '' MB'')
      else if (case up_accept pr of None \<Rightarrow> False | Some as \<Rightarrow> as \<noteq> [] \<and> \<not> list_ex (type_matches (wf_type f)) as)
      then Some (wf_name f @ '' has unsupported file type'')
      else None)"

definition validate :: "upload_props \<Rightarrow> web_file list \<Rightarrow> web_file list \<times> string list" where
  "validate pr files = (filter (\<lambda>f. file_error pr f = None) files, List.map_filter (file_error pr) files)"

datatype choice_event = ValidationErrors "string list" | UploadStarts "web_file list" | Uploads "web_file list"

definition handleFiles :: "upload_props \<Rightarrow> web_file list \<Rightarrow> choice_event list" where
  "handleFiles pr files = (case validate pr (take (up_maxFiles pr) files) of (valid, errors) \<Rightarrow>
     (if errors \<noteq> [] then [ValidationErrors errors] else []) @
     (if valid = [] then [] else [UploadStarts valid, Uploads valid]))"

text \<open>\<^verbatim>\<open>onDrop\<close> and \<^verbatim>\<open>onChange\<close>; an input without a list of files does nothing.\<close>

datatype drag_event = DragOver | DragLeave | Dropped "web_file list" | Chosen "web_file list option"

fun on_drag :: "upload_props \<Rightarrow> drag_event \<Rightarrow> bool \<Rightarrow> bool \<times> choice_event list" where
  "on_drag pr DragOver dragging = (True, [])"
| "on_drag pr DragLeave dragging = (False, [])"
| "on_drag pr (Dropped files) dragging = (False, handleFiles pr files)"
| "on_drag pr (Chosen files) dragging = (dragging, case files of None \<Rightarrow> [] | Some fs \<Rightarrow> handleFiles pr fs)"

subsection \<open>FileUpload: the report\<close>

text \<open>The callback that the component gives to \<^verbatim>\<open>useUpload\<close> in a render that shows \<open>us\<close>.\<close>

definition completed_files :: "upload_state list \<Rightarrow> json option list" where
  "completed_files us = map us_file (filter (\<lambda>u. us_status u = RSuccess \<and> truthy (us_file u)) us)"

definition on_file_complete :: "upload_state list \<Rightarrow> json option \<Rightarrow> json option list option" where
  "on_file_complete us file = (if length (filter (\<lambda>u. us_status u = RSuccess) us) + 1 = length us
     then Some (completed_files us @ [file]) else None)"

definition widget_options :: "upload_props \<Rightarrow> upload_state list \<Rightarrow> use_upload_options" where
  "widget_options pr us = \<lparr>uo_upload = up_options pr,
     uo_onComplete = (\<lambda>file. case on_file_complete us file of None \<Rightarrow> None | Some fs \<Rightarrow> up_onComplete pr fs)\<rparr>"

text \<open>The records of a batch, and the calls of the component's \<^verbatim>\<open>onComplete\<close> that it makes.\<close>

definition batch_records ::
    "provider \<Rightarrow> upload_props \<Rightarrow> (string \<Rightarrow> (r_event, r_reply) world) \<Rightarrow> r_event list \<Rightarrow>
     string list \<Rightarrow> web_file list \<Rightarrow> json option list" where
  "batch_records p pr w h ids files = concat (map (\<lambda>(k, f).
     case fst (r_upload p f ((up_options pr)\<lparr>ro_onProgress := True\<rparr>) (w k) h) of Inl _ \<Rightarrow> [] | Inr file \<Rightarrow> [file])
     (zip ids files))"

definition batch_reports ::
    "provider \<Rightarrow> upload_props \<Rightarrow> (string \<Rightarrow> (r_event, r_reply) world) \<Rightarrow> r_event list \<Rightarrow>
     upload_state list \<Rightarrow> string list \<Rightarrow> web_file list \<Rightarrow> json option list list" where
  "batch_reports p pr w h us ids files = List.map_filter (on_file_complete us) (batch_records p pr w h ids files)"

subsection \<open>FilePreview\<close>

definition download_request :: "provider \<Rightarrow> string \<Rightarrow> json option \<Rightarrow> request" where
  "download_request p fid tok = \<lparr>rq_method = ''GET'',
     rq_url = api_base p @ ''/v1/projects/'' @ pr_projectId p @ ''/files/'' @ fid @ ''/download'', rq_query = [],
     rq_headers = [(''Authorization'', ''Bearer '' @ interp tok)], rq_body = NoBody\<rparr>"

definition download_url :: "provider \<Rightarrow> string \<Rightarrow> json option rsdk" where
  "download_url p fid = andThen (getToken p) (\<lambda>tok.
     andThen (r_fetch (download_request p fid tok)) (\<lambda>res.
     andThen (r_json res) (\<lambda>v. r_prop (Some v) ''url'')))"

datatype opened = ToCallback "json option" | NewWindow "json option"

definition handleDownload :: "provider \<Rightarrow> string \<Rightarrow> bool \<Rightarrow> opened rsdk" where
  "handleDownload p fid onDownload = andThen (download_url p fid) (\<lambda>u.
     ret (if onDownload then ToCallback u else NewWindow u))"

text \<open>The effect of \<^verbatim>\<open>PreviewContent\<close>: the state after it; errors are dropped.\<close>

definition preview_url :: "provider \<Rightarrow> string \<Rightarrow> json option \<Rightarrow> json option rsdk" where
  "preview_url p fid old = handling (download_url p fid) (\<lambda>e. ret old) ret"

datatype preview = PreviewLoading | PreviewImage "json option" | PreviewFrame "json option" | NoPreview string

definition previewContent :: "string \<Rightarrow> json option \<Rightarrow> preview" where
  "previewContent contentType downloadUrl =
     (if \<not> truthy downloadUrl then PreviewLoading
      else if starts_with contentType ''image/'' then PreviewImage downloadUrl
      else if contentType = ''application/pdf'' then PreviewFrame downloadUrl
      else NoPreview contentType)"

text \<open>
  The effect runs again for another file and keeps the state; its runs end in any order. \<open>us\<close> are the ends,
  None for an error.
\<close>

definition preview_after :: "json option option list \<Rightarrow> json option \<Rightarrow> json option" where
  "preview_after us old = fold (\<lambda>u d. keep_or u d) us old"

subsection \<open>What is uploaded\<close>

definition file_ok :: "upload_props \<Rightarrow> web_file \<Rightarrow> bool" where
  "file_ok pr f \<longleftrightarrow>
     (\<forall>m. up_maxSize pr = Some m \<longrightarrow> 0 < m \<longrightarrow> length (wf_bytes f) \<le> m) \<and>
     (\<forall>as. up_accept pr = Some as \<longrightarrow> as \<noteq> [] \<longrightarrow> (\<exists>a \<in> set as. type_matches (wf_type f) a))"

lemma file_error_none [simp]: "file_error pr f = None \<longleftrightarrow> file_ok pr f"
  by (auto simp: file_error_def file_ok_def list_ex_iff not_less split: option.splits)

lemma file_errors_length: "length (List.map_filter (file_error pr) files) = length (filter (\<lambda>f. \<not> file_ok pr f) files)"
proof (induction files)
  case (Cons f fs)
  then show ?case using file_error_none [of pr f] by (cases "file_error pr f") (simp_all add: map_filter_simps del: file_error_none)
qed (simp add: map_filter_simps)

lemma drop_star_skip: "c \<noteq> CHR ''/'' \<or> d \<noteq> CHR ''*'' \<Longrightarrow> drop_star (c # d # s) = c # drop_star (d # s)"
  by auto

lemma drop_star_ends: "CHR ''*'' \<notin> set m \<Longrightarrow> drop_star (m @ ''/*'') = m @ ''/''"
proof (induction m)
  case (Cons c m)
  then show ?case by (cases m) (auto simp: drop_star_skip)
qed simp

lemma type_matches_family: "CHR ''*'' \<notin> set m \<Longrightarrow> type_matches t (m @ ''/*'') \<longleftrightarrow> prefix (m @ ''/'') t"
  by (simp add: type_matches_def starts_with_def drop_star_ends suffix_def)

lemma handleFiles_uploads:
  "Uploads fs \<in> set (handleFiles pr files) \<longleftrightarrow> fs = filter (file_ok pr) (take (up_maxFiles pr) files) \<and> fs \<noteq> []"
  by (auto simp: handleFiles_def validate_def)

lemma handleFiles_errors:
  "ValidationErrors es \<in> set (handleFiles pr files) \<Longrightarrow>
   length es = length (filter (\<lambda>f. \<not> file_ok pr f) (take (up_maxFiles pr) files)) \<and> es \<noteq> []"
  by (auto simp: handleFiles_def validate_def file_errors_length split: if_splits)

text \<open>The files after the first \<open>maxFiles\<close> are dropped without a message.\<close>

lemma handleFiles_silent:
  "up_maxFiles pr \<le> length files \<Longrightarrow> handleFiles pr (files @ rest) = handleFiles pr files"
  by (simp add: handleFiles_def)

subsection \<open>What is reported\<close>

abbreviation one_unfinished :: "upload_state list \<Rightarrow> bool" where
  "one_unfinished us \<equiv> length (filter (\<lambda>u. us_status u \<noteq> RSuccess) us) = 1"

lemma on_file_complete_eq:
  "on_file_complete us file = (if one_unfinished us then Some (completed_files us @ [file]) else None)"
  using sum_length_filter_compl [of "\<lambda>u. us_status u = RSuccess" us] by (auto simp: on_file_complete_def)

lemma map_filter_some: "List.map_filter (\<lambda>x. if b then Some (g x) else None) xs = (if b then map g xs else [])"
  by (cases b; induction xs) (simp_all add: map_filter_simps)

lemma batch_reports_eq:
  "batch_reports p pr w h us ids files =
     (if one_unfinished us then map (\<lambda>r. completed_files us @ [r]) (batch_records p pr w h ids files) else [])"
  unfolding batch_reports_def on_file_complete_eq by (rule map_filter_some)

lemma widget_upload_end:
  "upload_end p (widget_options pr us) w h f = (case fst (r_upload p f ((up_options pr)\<lparr>ro_onProgress := True\<rparr>) w h) of
     Inl e \<Rightarrow> RFailed
   | Inr file \<Rightarrow> if one_unfinished us \<and> up_onComplete pr (completed_files us @ [file]) \<noteq> None then RFailed else RSuccess)"
  by (auto simp: upload_end_def widget_options_def on_file_complete_eq split: sum.splits)

text \<open>
  C36: the component reports the files of a batch when exactly one of the uploads shown before the batch has
  not succeeded, whatever becomes of the batch: then each of its uploaded files is reported with the earlier
  ones. Otherwise nothing is reported. So a first batch is never reported, even when all its uploads succeed.
\<close>

theorem batch_completion:
  assumes "distinct ids" and "set ids \<inter> us_id ` set us = {}" and "length ids = length files"
    and t: "merges (use_upload p (widget_options pr us) w h ids files) t"
  shows "batch_reports p pr w h us ids files =
      (if one_unfinished us then map (\<lambda>r. completed_files us @ [r]) (batch_records p pr w h ids files) else []) \<and>
    (us = [] \<longrightarrow> batch_reports p pr w h us ids files = [] \<and>
      map us_status (apply_uploads t (add_uploads ids files us)) =
        map (\<lambda>(k, f). case fst (r_upload p f ((up_options pr)\<lparr>ro_onProgress := True\<rparr>) (w k) h) of
          Inl e \<Rightarrow> RFailed | Inr file \<Rightarrow> RSuccess) (zip ids files))"
proof -
  have "map us_status (drop (length us) (apply_uploads t (add_uploads ids files us))) =
      map (\<lambda>(k, f). upload_end p (widget_options pr us) (w k) h f) (zip ids files)"
    using react_uploads_settle [OF assms] by blast
  then show ?thesis by (auto simp: batch_reports_eq widget_upload_end cong: sum.case_cong)
qed

definition demo_props :: upload_props where
  "demo_props = \<lparr>up_accept = None, up_maxSize = None, up_maxFiles = 10, up_options = demo_options False, up_onComplete = (\<lambda>fs. None)\<rparr>"

theorem batch_completion_witness:
  "\<exists>t. map us_status (apply_uploads t (add_uploads [''k''] [demo_file] [])) = [RSuccess] \<and>
     batch_reports demo_provider demo_props (\<lambda>k. demo_api 200) demo_cached [] [''k''] [demo_file] = []"
proof -
  obtain t where t: "merges (use_upload demo_provider (widget_options demo_props []) (\<lambda>k. demo_api 200) demo_cached
      [''k''] [demo_file]) t" using merges_exists by blast
  obtain h' where u: "r_upload demo_provider demo_file (demo_options True) (demo_api 200) demo_cached = (Inr (Some (JObj [])), h')"
    using demo_upload by blast
  have "(up_options demo_props)\<lparr>ro_onProgress := True\<rparr> = demo_options True"
    by (simp add: demo_props_def demo_options_def)
  with batch_completion [OF _ _ _ t] u show ?thesis by (intro exI [of _ t]) simp
qed

subsection \<open>What is downloaded\<close>

text \<open>The status of the answer is not looked at: an error whose body has no address opens an empty window.\<close>

lemma download_ignores_status:
  assumes "getToken p w h = (Inr tok, h1)"
    and "w (h1 @ [RFetch (download_request p fid tok)]) = RResponded res" and "rs_json res = Some (JObj kvs)"
  shows "handleDownload p fid False w h = (Inr (NewWindow (map_of kvs ''url'')), h1 @ [RFetch (download_request p fid tok)])"
  using assms by (simp add: handleDownload_def download_url_def io_simps r_fetch_def r_json_def r_prop_def jget.simps)

text \<open>The preview shows the answer that comes last, not that of the file that was opened last.\<close>

lemma preview_last: "preview_after (us @ [Some u]) old = u"
  by (simp add: preview_after_def keep_or_def)

end
