(* ===== verification/Forest.thy ===== *)
theory Forest
  imports Fn_Prelude
begin

text \<open>
  Rows that name the row above them, as folders in a project: the chain from a row to its root, and that it
  is determined by the row. Code that builds trees from such rows shows a row once, and only rows with a
  chain.
\<close>

text \<open>A chain: each row's upper key is the key of the next row, the last row has none.\<close>

fun chain :: "('n \<Rightarrow> 'k) \<Rightarrow> ('n \<Rightarrow> 'k option) \<Rightarrow> 'n list \<Rightarrow> 'n list \<Rightarrow> bool" where
  "chain key up rows [] = True"
| "chain key up rows [n] = (n \<in> set rows \<and> up n = None)"
| "chain key up rows (n # m # ms) = (n \<in> set rows \<and> up n = Some (key m) \<and> chain key up rows (m # ms))"

definition anchored :: "('n \<Rightarrow> 'k) \<Rightarrow> ('n \<Rightarrow> 'k option) \<Rightarrow> 'n list \<Rightarrow> 'n \<Rightarrow> bool" where
  "anchored key up rows n \<longleftrightarrow> (\<exists>ms. chain key up rows (n # ms))"

lemma chain_set: "chain key up rows ms \<Longrightarrow> set ms \<subseteq> set rows"
  by (induction key up rows ms rule: chain.induct) auto

lemma chain_ConsD: "chain key up rows (n # ms) \<Longrightarrow> n \<in> set rows \<and> chain key up rows ms"
  by (cases ms) auto

lemma chain_suffix: "chain key up rows (ps @ ms) \<Longrightarrow> chain key up rows ms"
  by (induction ps) (auto dest: chain_ConsD)

lemma chain_unique:
  assumes "distinct (map key rows)"
  shows "chain key up rows (n # ms) \<Longrightarrow> chain key up rows (n # ms') \<Longrightarrow> ms = ms'"
proof (induction ms arbitrary: n ms')
  case Nil
  then show ?case by (cases ms') auto
next
  case (Cons m ms)
  then obtain m' ms'' where ms': "ms' = m' # ms''" by (cases ms') auto
  have "m \<in> set rows" "m' \<in> set rows" "key m = key m'"
    using Cons.prems by (auto simp: ms' dest: chain_ConsD)
  then have "m = m'" using assms by (auto simp: distinct_map dest: inj_onD)
  with Cons show ?case by (auto simp: ms')
qed

text \<open>Two chains that begin with the same row are equal.\<close>

lemma chain_same_hd:
  "distinct (map key rows) \<Longrightarrow> chain key up rows xs \<Longrightarrow> chain key up rows ys \<Longrightarrow> xs \<noteq> [] \<Longrightarrow> ys \<noteq> [] \<Longrightarrow> hd xs = hd ys \<Longrightarrow> xs = ys"
  by (cases xs; cases ys) (auto dest: chain_unique)

lemma chain_distinct:
  assumes "distinct (map key rows)"
  shows "chain key up rows ms \<Longrightarrow> distinct ms"
proof (induction ms)
  case (Cons n ms)
  have "n \<notin> set ms"
  proof
    assume "n \<in> set ms"
    then obtain as bs where "ms = as @ n # bs" by (auto dest: split_list)
    moreover from this have "chain key up rows (n # bs)"
      using Cons.prems chain_suffix [of key up rows "n # as" "n # bs"] by simp
    ultimately show False using chain_unique [OF assms Cons.prems] by fastforce
  qed
  with Cons show ?case by (auto dest: chain_ConsD)
qed simp

text \<open>A chain is not longer than the rows.\<close>

lemma chain_length: "distinct (map key rows) \<Longrightarrow> chain key up rows ms \<Longrightarrow> length ms \<le> length rows"
  using chain_distinct chain_set
  by (metis card_length card_mono distinct_card dual_order.trans finite_set)

subsection \<open>Trees\<close>

datatype 'n tree_node = TreeNode (node_row: 'n) (node_children: "'n tree_node list")

fun flat :: "'n tree_node \<Rightarrow> 'n list" where
  "flat (TreeNode n ns) = n # concat (map flat ns)"

definition flats :: "'n tree_node list \<Rightarrow> 'n list" where
  "flats ns = concat (map flat ns)"

lemma flats_simps [simp]: "flats [] = []" "flats (n # ns) = flat n @ flats ns"
  by (simp_all add: flats_def)

text \<open>
  The tree below a list of rows: \<open>ch\<close> are the rows below a row, in the order they are shown. \<open>fuel\<close> bounds the
  depth, None is that it was reached.
\<close>

fun grow :: "nat \<Rightarrow> ('n \<Rightarrow> 'n list) \<Rightarrow> 'n list \<Rightarrow> 'n tree_node list option" where
  "grow fuel ch [] = Some []"
| "grow 0 ch (n # ns) = None"
| "grow (Suc fuel) ch (n # ns) = (case grow fuel ch (ch n) of
     None \<Rightarrow> None
   | Some cs \<Rightarrow> map_option ((#) (TreeNode n cs)) (grow (Suc fuel) ch ns))"

lemma grow_some:
  "grow fuel ch ns = Some ts \<Longrightarrow> map node_row ts = ns"
  by (induction fuel ch ns arbitrary: ts rule: grow.induct) (auto split: option.splits)

text \<open>Every row of a tree has its own rows below it.\<close>

fun well_grown :: "('n \<Rightarrow> 'n list) \<Rightarrow> 'n tree_node \<Rightarrow> bool" where
  "well_grown ch (TreeNode n ns) = (map node_row ns = ch n \<and> list_all (well_grown ch) ns)"

lemma grow_well: "grow fuel ch ns = Some ts \<Longrightarrow> list_all (well_grown ch) ts"
  by (induction fuel ch ns arbitrary: ts rule: grow.induct) (auto split: option.splits dest: grow_some)

lemma row_in_flat: "node_row t \<in> set (flat t)"
  by (cases t) simp

lemma rows_in_flats: "map node_row ts = ns \<Longrightarrow> set ns \<subseteq> set (flats ts)"
proof -
  have "node_row t \<in> set (flats ts)" if "t \<in> set ts" for t
    using that row_in_flat [of t] by (auto simp: flats_def)
  then show "map node_row ts = ns \<Longrightarrow> set ns \<subseteq> set (flats ts)" by auto
qed

lemma flat_flats [simp]: "flat (TreeNode n ns) = n # flats ns"
  by (simp add: flats_def)

declare flat.simps [simp del]

text \<open>What is below a shown row is shown.\<close>

lemma grow_closed: "grow fuel ch ns = Some ts \<Longrightarrow> m \<in> set (flats ts) \<Longrightarrow> set (ch m) \<subseteq> set (flats ts)"
proof (induction fuel ch ns arbitrary: ts rule: grow.induct)
  case (3 fuel ch n ns)
  then obtain cs rs where cs: "grow fuel ch (ch n) = Some cs" and rs: "grow (Suc fuel) ch ns = Some rs" "ts = TreeNode n cs # rs"
    by (auto split: option.splits)
  from 3(4) consider "m = n" | "m \<in> set (flats cs)" | "m \<in> set (flats rs)" by (auto simp: rs)
  then show ?case
    using rows_in_flats [OF grow_some [OF cs]] 3(1) [OF cs] 3(2) [OF cs rs(1)] by cases (auto simp: rs)
qed auto

text \<open>
  The contract of the code that finds the rows below a row and the rows at the top: keys are unique, a row
  is below the row that it names, and no row is listed twice.
\<close>

locale row_tree =
  fixes key :: "'n \<Rightarrow> 'k" and up :: "'n \<Rightarrow> 'k option" and rows :: "'n list" and ch :: "'n \<Rightarrow> 'n list" and roots :: "'n list"
  assumes keys: "distinct (map key rows)"
    and below: "set (ch n) = {m \<in> set rows. up m = Some (key n)}" "distinct (ch n)"
    and top: "set roots = {m \<in> set rows. up m = None}" "distinct roots"
begin

lemma chain_below: "chain key up rows (n # ms) \<Longrightarrow> c \<in> set (ch n) \<Longrightarrow> chain key up rows (c # n # ms)"
  by (simp add: below)

text \<open>The depth of the tree is bounded by the number of rows.\<close>

lemma grow_total:
  "\<forall>n \<in> set ns. chain key up rows (n # pre) \<Longrightarrow> length rows \<le> fuel + length pre \<Longrightarrow> \<exists>ts. grow fuel ch ns = Some ts"
proof (induction fuel arbitrary: ns pre)
  case 0
  then show ?case using chain_length [OF keys, of up "hd ns # pre"] by (cases ns) auto
next
  case (Suc fuel)
  from Suc.prems(1) show ?case
  proof (induction ns)
    case (Cons n ns)
    then have "\<forall>c \<in> set (ch n). chain key up rows (c # n # pre)" by (simp add: below)
    from Suc.IH [OF this] Suc.prems(2) Cons show ?case by fastforce
  qed simp
qed

lemma chain_meet:
  assumes "chain key up rows (q @ a # pre)" and "chain key up rows (q' @ b # pre)" and "hd (q @ [a]) = hd (q' @ [b])"
  shows "q = q' \<and> a = b"
proof -
  have hd: "hd (r @ x # pre) = hd (r @ [x])" for r x by (cases r) auto
  have "q @ a # pre = q' @ b # pre"
    by (rule chain_same_hd [OF keys assms(1,2)]) (simp_all only: hd assms(3), simp_all)
  then show ?thesis by simp
qed

text \<open>A shown row stands on its chain, so it is shown once.\<close>

lemma grow_once:
  "grow fuel ch ns = Some ts \<Longrightarrow> \<forall>n \<in> set ns. chain key up rows (n # pre) \<Longrightarrow> distinct ns \<Longrightarrow>
   distinct (flats ts) \<and> (\<forall>f \<in> set (flats ts). \<exists>q. \<exists>n \<in> set ns. chain key up rows (q @ n # pre) \<and> hd (q @ [n]) = f)"
proof (induction fuel arbitrary: ns ts pre)
  case 0
  then show ?case by (cases ns) auto
next
  case (Suc fuel)
  from Suc.prems show ?case
  proof (induction ns arbitrary: ts)
    case (Cons n ns)
    then obtain cs rs where cs: "grow fuel ch (ch n) = Some cs" and rs: "grow (Suc fuel) ch ns = Some rs" and ts: "ts = TreeNode n cs # rs"
      by (auto split: option.splits)
    have C: "distinct (flats cs)" "\<And>f. f \<in> set (flats cs) \<Longrightarrow> \<exists>q. \<exists>c \<in> set (ch n). chain key up rows (q @ c # n # pre) \<and> hd (q @ [c]) = f"
      using Suc.IH [OF cs, of "n # pre"] Cons.prems(2) below by auto
    have R: "distinct (flats rs)" "\<And>f. f \<in> set (flats rs) \<Longrightarrow> \<exists>q. \<exists>m \<in> set ns. chain key up rows (q @ m # pre) \<and> hd (q @ [m]) = f"
      using Cons.IH [OF rs] Cons.prems(2,3) by auto
    have n: "chain key up rows ([] @ n # pre)" using Cons.prems(2) by simp
    have C': "\<exists>q. q \<noteq> [] \<and> chain key up rows (q @ n # pre) \<and> hd (q @ [n]) = f" if f: "f \<in> set (flats cs)" for f
    proof -
      obtain q c where "chain key up rows ((q @ [c]) @ n # pre)" "hd (q @ [c]) = f" using C(2) [OF f] by auto
      then show ?thesis by (intro exI [of _ "q @ [c]"]) (cases q; simp)
    qed
    have "n \<notin> set (flats cs)" using C' chain_meet [OF n] by fastforce
    moreover have "n \<notin> set (flats rs)" using R(2) chain_meet [OF n] Cons.prems(3) by fastforce
    moreover have "set (flats cs) \<inter> set (flats rs) = {}"
    proof (intro equals0I)
      fix f assume "f \<in> set (flats cs) \<inter> set (flats rs)"
      then obtain q q' m where "chain key up rows (q @ n # pre)" "hd (q @ [n]) = f"
        and "m \<in> set ns" "chain key up rows (q' @ m # pre)" "hd (q' @ [m]) = f" using C' R(2) by blast
      then show False using chain_meet Cons.prems(3) by (metis distinct.simps(2))
    qed
    ultimately have "distinct (flats ts)" using C(1) R(1) by (auto simp: ts)
    moreover have "\<exists>q. \<exists>m \<in> set (n # ns). chain key up rows (q @ m # pre) \<and> hd (q @ [m]) = f" if f: "f \<in> set (flats ts)" for f
    proof -
      from f consider "f = n" | "f \<in> set (flats cs)" | "f \<in> set (flats rs)" by (auto simp: ts)
      then show ?thesis
      proof cases
        case 1
        with n show ?thesis by (intro exI [of _ "[]"] bexI [of _ n]) simp_all
      next
        case 2
        with C' show ?thesis by (metis list.set_intros(1))
      next
        case 3
        with R(2) show ?thesis by (metis list.set_intros(2))
      qed
    qed
    ultimately show ?case by blast
  qed simp
qed

lemma anchored_shown:
  assumes "grow fuel ch roots = Some ts"
  shows "chain key up rows (n # ms) \<Longrightarrow> n \<in> set (flats ts)"
proof (induction ms arbitrary: n)
  case Nil
  then show ?case using rows_in_flats [OF grow_some [OF assms]] top by auto
next
  case (Cons m ms)
  then have "m \<in> set (flats ts)" "n \<in> set (ch m)" by (auto simp: below dest: chain_ConsD)
  then show ?case using grow_closed [OF assms] by blast
qed

text \<open>The tree shows every row with a chain, once, and nothing else.\<close>

theorem tree_exact:
  "\<exists>ts. grow (length rows) ch roots = Some ts \<and> distinct (flats ts) \<and> set (flats ts) = {n. anchored key up rows n} \<and>
     map node_row ts = roots \<and> list_all (well_grown ch) ts"
proof -
  have R: "\<forall>n \<in> set roots. chain key up rows (n # [])" by (simp add: top)
  obtain ts where ts: "grow (length rows) ch roots = Some ts" using grow_total [OF R] by auto
  note once = grow_once [OF ts R top(2)]
  have "anchored key up rows f" if "f \<in> set (flats ts)" for f
  proof -
    obtain q n where q: "chain key up rows (q @ [n])" "hd (q @ [n]) = f"
      using conjunct2 [OF once, rule_format, OF \<open>f \<in> set (flats ts)\<close>] by blast
    then obtain ms where "q @ [n] = f # ms" by (cases q) auto
    with q(1) show ?thesis unfolding anchored_def by metis
  qed
  then have "set (flats ts) = {n. anchored key up rows n}"
    using anchored_shown [OF ts] unfolding anchored_def by (intro equalityI subsetI) auto
  with ts once grow_some [OF ts] grow_well [OF ts] show ?thesis by simp
qed

end

end
