(* ===== verification/Client_Files.thy ===== *)
theory Client_Files
  imports Client_Tables Console_Upload Console_Schemas Forest
begin

text \<open>
  The files page of the console (\<^verbatim>\<open>frontend/web/src/modules/client/files/\<close>): the stores of the open dialog, the
  folder tree of the sidebar and the picker, the options of the upload dialog, and the panel that edits the
  tags and metadata of a file. What a dialog calls is given as the action's name and payload.
\<close>

subsection \<open>Stores\<close>

record 'd modal_store =
  ms_modalType :: "string option"
  ms_data :: "'d option"
  ms_isOpen :: bool
  ms_trigger :: nat

definition store_init :: "'d modal_store" where
  "store_init = \<lparr>ms_modalType = None, ms_data = None, ms_isOpen = False, ms_trigger = 0\<rparr>"

definition onOpen :: "string \<Rightarrow> 'd option \<Rightarrow> 'd modal_store \<Rightarrow> 'd modal_store" where
  "onOpen t d s = s\<lparr>ms_modalType := Some t, ms_isOpen := True, ms_data := d\<rparr>"

definition onClose :: "'d modal_store \<Rightarrow> 'd modal_store" where
  "onClose s = s\<lparr>ms_modalType := None, ms_isOpen := False, ms_data := None\<rparr>"

definition incrementTrigger :: "'d modal_store \<Rightarrow> 'd modal_store" where
  "incrementTrigger s = s\<lparr>ms_trigger := ms_trigger s + 1\<rparr>"

subsection \<open>The folder tree\<close>

record folder =
  fd_id :: string
  fd_name :: string
  fd_parent_folder_id :: "string option"

type_synonym folder_node = "folder tree_node"

text \<open>The values of the map of nodes: the last folder of an id, at the place of the first.\<close>

definition node_map :: "folder list \<Rightarrow> folder list" where
  "node_map fs = map snd (from_entries (map (\<lambda>f. (fd_id f, f)) fs))"

definition has_parent :: "folder list \<Rightarrow> folder \<Rightarrow> bool" where
  "has_parent m f = (case fd_parent_folder_id f of None \<Rightarrow> False | Some p \<Rightarrow> p \<noteq> [] \<and> p \<in> fd_id ` set m)"

text \<open>The second loop: the children arrays of the nodes, by id, and the roots.\<close>

definition link_node :: "folder list \<Rightarrow> folder \<Rightarrow> (string \<Rightarrow> folder list) \<times> folder list \<Rightarrow> (string \<Rightarrow> folder list) \<times> folder list" where
  "link_node m f = (\<lambda>(children, roots).
     if has_parent m f then (let p = the (fd_parent_folder_id f) in (children(p := children p @ [f]), roots))
     else (children, roots @ [f]))"

definition link_all :: "folder list \<Rightarrow> (string \<Rightarrow> folder list) \<times> folder list" where
  "link_all m = fold (link_node m) m (\<lambda>p. [], [])"

text \<open>
  \<open>collate\<close> gives the order of \<^verbatim>\<open>localeCompare\<close>; \<^verbatim>\<open>sort\<close> is stable and sorts every array that it reaches from
  the roots.
\<close>

definition sorted_children :: "(string \<Rightarrow> 'o::linorder) \<Rightarrow> folder list \<Rightarrow> folder \<Rightarrow> folder list" where
  "sorted_children collate m f = sort_key (\<lambda>g. collate (fd_name g)) (fst (link_all m) (fd_id f))"

definition sorted_roots :: "(string \<Rightarrow> 'o::linorder) \<Rightarrow> folder list \<Rightarrow> folder list" where
  "sorted_roots collate m = sort_key (\<lambda>g. collate (fd_name g)) (snd (link_all m))"

definition folderTree :: "(string \<Rightarrow> 'o::linorder) \<Rightarrow> folder list \<Rightarrow> folder_node list option" where
  "folderTree collate fs = (let m = node_map fs in grow (length m) (sorted_children collate m) (sorted_roots collate m))"

text \<open>A row is opened when the active folder is below it.\<close>

definition isAncestorOfActive :: "string option \<Rightarrow> folder_node \<Rightarrow> bool" where
  "isAncestorOfActive active t = (case active of None \<Rightarrow> False | Some a \<Rightarrow> a \<noteq> [] \<and> a \<in> fd_id ` set (flats (node_children t)))"

text \<open>\<^verbatim>\<open>onSelect\<close> of the sidebar and \<^verbatim>\<open>handleSelect\<close> of the picker; the query of the page that the sidebar opens.\<close>

definition select_folder :: "string \<Rightarrow> string option \<Rightarrow> string option" where
  "select_folder i active = (if Some i = active then None else Some i)"

definition folder_params :: "string option \<Rightarrow> (string \<times> string) list \<Rightarrow> (string \<times> string) list" where
  "folder_params f ps = (case f of Some (c # i) \<Rightarrow> put ''folder_id'' (c # i) ps | _ \<Rightarrow> filter (\<lambda>e. fst e \<noteq> ''folder_id'') ps)"

subsection \<open>The options of an upload\<close>

definition commitTagInput :: "string \<Rightarrow> string list \<Rightarrow> string list" where
  "commitTagInput input tags = (let val = filter (\<lambda>c. c \<noteq> CHR '','') (map lower_char (trim input)) in
     if val \<noteq> [] \<and> val \<notin> set tags then tags @ [val] else tags)"

definition removeTag :: "string \<Rightarrow> string list \<Rightarrow> string list" where
  "removeTag tag tags = filter (\<lambda>t. t \<noteq> tag) tags"

datatype entry_field = EntryKey | EntryValue

definition addMetadataRow :: "(string \<times> string) list \<Rightarrow> (string \<times> string) list" where
  "addMetadataRow es = es @ [([], [])]"

definition updateMetadataEntry :: "nat \<Rightarrow> entry_field \<Rightarrow> string \<Rightarrow> (string \<times> string) list \<Rightarrow> (string \<times> string) list" where
  "updateMetadataEntry n fld v es = map (\<lambda>(i, (k, x)). if i = n then (case fld of EntryKey \<Rightarrow> (v, x) | EntryValue \<Rightarrow> (k, v)) else (k, x))
     (enumerate 0 es)"

definition removeMetadataEntry :: "nat \<Rightarrow> (string \<times> string) list \<Rightarrow> (string \<times> string) list" where
  "removeMetadataEntry n es = map snd (filter (\<lambda>(i, e). i \<noteq> n) (enumerate 0 es))"

record upload_dialog =
  ud_uploadMode :: upload_mode
  ud_folderId :: "string option"
  ud_tags :: "string list"
  ud_entries :: "(string \<times> string) list"
  ud_items :: "upload_item list"

text \<open>The effect that runs when the dialog opens.\<close>

definition dialog_opened :: "upload_dialog \<Rightarrow> upload_dialog" where
  "dialog_opened d = \<lparr>ud_uploadMode = Presigned, ud_folderId = None, ud_tags = [], ud_entries = [], ud_items = clearAll (ud_items d)\<rparr>"

definition dialog_metadata :: "(string \<times> string) list \<Rightarrow> (string \<times> string) list" where
  "dialog_metadata es = from_entries (map (\<lambda>(k, v). (trim k, v)) (filter (\<lambda>(k, v). trim k \<noteq> []) es))"

definition handleUpload :: "string \<Rightarrow> upload_dialog \<Rightarrow> upload_config" where
  "handleUpload projectId d = \<lparr>uc_projectId = projectId, uc_uploadMode = ud_uploadMode d, uc_folderId = ud_folderId d,
     uc_tags = Some (ud_tags d), uc_metadata = Some (JObj (map (\<lambda>(k, v). (k, JStr v)) (dialog_metadata (ud_entries d))))\<rparr>"

definition handleClose :: "upload_dialog \<Rightarrow> 'd modal_store \<Rightarrow> 'd modal_store" where
  "handleClose d s = (if isUploading (ud_items d) then s else onClose s)"

definition refresh_after :: "upload_dialog \<Rightarrow> 'd modal_store \<Rightarrow> 'd modal_store" where
  "refresh_after d s = (if allDone (ud_items d) \<and> list_ex (\<lambda>i. it_status i = Done) (ud_items d) then incrementTrigger s else s)"

definition canUpload :: "upload_dialog \<Rightarrow> bool" where
  "canUpload d = (hasQueued (ud_items d) \<and> \<not> isUploading (ud_items d))"

subsection \<open>The panel of a file\<close>

record shown_file =
  sf_id :: string
  sf_project_id :: string
  sf_tags :: "string list option"
  sf_metadata :: "json option"

record panel =
  pn_tags :: "string list"
  pn_tagInput :: string
  pn_editing :: bool
  pn_metadataJson :: string
  pn_metadataError :: string

definition panel_seed :: "(json \<Rightarrow> string) \<Rightarrow> shown_file \<Rightarrow> panel" where
  "panel_seed stringify f = \<lparr>pn_tags = (case sf_tags f of None \<Rightarrow> [] | Some ts \<Rightarrow> ts), pn_tagInput = [], pn_editing = False,
     pn_metadataJson = stringify (nullish_or (sf_metadata f) (JObj [])), pn_metadataError = []\<rparr>"

definition action_call :: "(string \<times> json) list \<Rightarrow> shown_file \<Rightarrow> json" where
  "action_call kvs f = JObj [(''payload'', JObj ([(''projectId'', JStr (sf_project_id f)), (''fileId'', JStr (sf_id f))] @ kvs))]"

definition panel_removeTag :: "shown_file \<Rightarrow> string \<Rightarrow> panel \<Rightarrow> panel \<times> (string \<times> json) option" where
  "panel_removeTag f tag s = (s, Some (''setTagsAction'', action_call [(''tags'', JArr (map JStr (removeTag tag (pn_tags s))))] f))"

definition panel_addTag :: "shown_file \<Rightarrow> panel \<Rightarrow> panel \<times> (string \<times> json) option" where
  "panel_addTag f s = (s\<lparr>pn_tagInput := []\<rparr>,
     let trimmed = trim (pn_tagInput s) in if trimmed = [] \<or> trimmed \<in> set (pn_tags s) then None
       else Some (''addTagsAction'', action_call [(''tags'', JArr [JStr trimmed])] f))"

text \<open>\<open>parse\<close> is \<^verbatim>\<open>JSON.parse\<close>, None when it throws.\<close>

definition saveMetadata :: "(string \<Rightarrow> json option) \<Rightarrow> shown_file \<Rightarrow> panel \<Rightarrow> panel \<times> (string \<times> json) option" where
  "saveMetadata parse f s = (case parse (pn_metadataJson s) of
       Some (JObj kvs) \<Rightarrow> (s\<lparr>pn_metadataError := []\<rparr>, Some (''updateMetadataAction'', action_call [(''metadata'', JObj kvs)] f))
     | _ \<Rightarrow> (s\<lparr>pn_metadataError := ''Must be a valid JSON object''\<rparr>, None))"

text \<open>\<^verbatim>\<open>onSuccess\<close> of the tag actions: the tags of the answer, or those of the render of the call.\<close>

definition tags_saved :: "string list option \<Rightarrow> string list \<Rightarrow> panel \<Rightarrow> panel" where
  "tags_saved answer old s = s\<lparr>pn_tags := (case answer of None \<Rightarrow> old | Some ts \<Rightarrow> ts)\<rparr>"

definition metadata_saved :: "panel \<Rightarrow> panel" where
  "metadata_saved s = s\<lparr>pn_editing := False\<rparr>"

subsection \<open>The tree shows every folder whose chain ends\<close>

lemma entries_ids: "(k, f) \<in> set (from_entries (map (\<lambda>f. (fd_id f, f)) fs)) \<Longrightarrow> k = fd_id f"
  using map_of_is_SomeI [OF from_entries_distinct]
  by (fastforce simp: from_entries_map_of rev_map dest: map_of_SomeD)

lemma node_map_ids: "map fd_id (node_map fs) = map fst (from_entries (map (\<lambda>f. (fd_id f, f)) fs))"
  using entries_ids [of _ _ fs] by (auto simp: node_map_def intro!: map_cong)

lemma node_map_distinct: "distinct (map fd_id (node_map fs))"
  unfolding node_map_ids by (rule from_entries_distinct)

lemma node_map_set: "fd_id ` set (node_map fs) = fd_id ` set fs"
proof -
  have "fd_id ` set (node_map fs) = set (map fd_id (node_map fs))" by simp
  then show ?thesis unfolding node_map_ids using from_entries_keys [of "map (\<lambda>f. (fd_id f, f)) fs"] by (simp add: image_image)
qed

lemma node_map_same: "distinct (map fd_id fs) \<Longrightarrow> node_map fs = fs"
  by (simp add: node_map_def from_entries_id comp_def)

lemma link_node_eq:
  "link_node m f (ch, rs) = (\<lambda>p. ch p @ (if has_parent m f \<and> fd_parent_folder_id f = Some p then [f] else []),
     rs @ (if has_parent m f then [] else [f]))"
proof -
  have "has_parent m f \<Longrightarrow> \<exists>p. fd_parent_folder_id f = Some p" by (auto simp: has_parent_def split: option.splits)
  then show ?thesis by (auto simp: link_node_def Let_def fun_eq_iff)
qed

lemma link_fold:
  "fold (link_node m) xs (ch, rs) =
     (\<lambda>p. ch p @ filter (\<lambda>f. has_parent m f \<and> fd_parent_folder_id f = Some p) xs, rs @ filter (\<lambda>f. \<not> has_parent m f) xs)"
  by (induction xs arbitrary: ch rs) (auto simp: link_node_eq)

lemma link_all_eq:
  "link_all m = (\<lambda>p. filter (\<lambda>f. has_parent m f \<and> fd_parent_folder_id f = Some p) m, filter (\<lambda>f. \<not> has_parent m f) m)"
  by (simp add: link_all_def link_fold)

text \<open>The folder above a folder: one that is in the list.\<close>

definition folder_up :: "folder list \<Rightarrow> folder \<Rightarrow> string option" where
  "folder_up m f = (if has_parent m f then fd_parent_folder_id f else None)"

lemma folder_up_simps: "folder_up m f = Some p \<longleftrightarrow> has_parent m f \<and> fd_parent_folder_id f = Some p" "folder_up m f = None \<longleftrightarrow> \<not> has_parent m f"
  by (auto simp: folder_up_def has_parent_def split: option.splits)

interpretation folders: row_tree fd_id "folder_up (node_map fs)" "node_map fs" "sorted_children collate (node_map fs)" "sorted_roots collate (node_map fs)"
  for collate :: "string \<Rightarrow> 'o::linorder" and fs
  using node_map_distinct [of fs] distinct_map [of fd_id "node_map fs"]
  by unfold_locales (auto simp: sorted_children_def sorted_roots_def link_all_eq folder_up_simps)

text \<open>
  C37: the folder tree shows each folder whose chain of parents ends, once, and no other: a folder whose
  parent is not in the list stands at the top, and folders that are their own ancestors are not shown.
  Below a folder stand the folders that name it, in the order of their names.
\<close>

theorem folder_tree_exact:
  "\<exists>ts. folderTree collate fs = Some ts \<and> distinct (flats ts) \<and>
     set (flats ts) = {f. anchored fd_id (folder_up (node_map fs)) (node_map fs) f} \<and>
     map node_row ts = sort_key (\<lambda>g. collate (fd_name g)) (filter (\<lambda>f. \<not> has_parent (node_map fs) f) (node_map fs)) \<and>
     list_all (well_grown (\<lambda>f. sort_key (\<lambda>g. collate (fd_name g))
       (filter (\<lambda>g. has_parent (node_map fs) g \<and> fd_parent_folder_id g = Some (fd_id f)) (node_map fs)))) ts"
  using folders.tree_exact [of fs collate]
  by (simp add: folderTree_def Let_def sorted_children_def [abs_def] sorted_roots_def link_all_eq)

text \<open>Two folders that name each other are lost.\<close>

lemma cycle_hidden:
  "folderTree (\<lambda>s. length s) [\<lparr>fd_id = ''a'', fd_name = ''A'', fd_parent_folder_id = Some ''b''\<rparr>,
     \<lparr>fd_id = ''b'', fd_name = ''B'', fd_parent_folder_id = Some ''a''\<rparr>] = Some []"
  by (simp add: folderTree_def node_map_def from_entries_def sorted_roots_def link_all_eq has_parent_def)

subsection \<open>Tags and metadata\<close>

definition clean_tag :: "string \<Rightarrow> bool" where
  "clean_tag t \<longleftrightarrow> t \<noteq> [] \<and> CHR '','' \<notin> set t \<and> map lower_char t = t"

lemma commit_clean:
  "distinct tags \<and> list_all clean_tag tags \<Longrightarrow> distinct (commitTagInput s tags) \<and> list_all clean_tag (commitTagInput s tags)"
proof -
  have low: "map lower_char (filter P (map lower_char xs)) = filter P (map lower_char xs)" for P xs
    by (rule map_idI) (auto simp: lower_lower)
  then show "distinct tags \<and> list_all clean_tag tags \<Longrightarrow> distinct (commitTagInput s tags) \<and> list_all clean_tag (commitTagInput s tags)"
    unfolding commitTagInput_def Let_def by (auto simp: clean_tag_def low)
qed

lemma remove_clean:
  "distinct tags \<and> list_all clean_tag tags \<Longrightarrow> distinct (removeTag t tags) \<and> list_all clean_tag (removeTag t tags)"
  by (auto simp: removeTag_def list_all_iff)

text \<open>The commas are taken out after the white space, so that a blank tag can remain.\<close>

lemma blank_tag: "commitTagInput '', ,'' [] = ['' '']"
  by (simp add: commitTagInput_def trim_def js_space_def lower_char_def)

lemma metadata_keys:
  "distinct (map fst (dialog_metadata es)) \<and> fst ` set (dialog_metadata es) = {trim k | k. k \<in> fst ` set es \<and> trim k \<noteq> []}"
  unfolding dialog_metadata_def by (force simp: from_entries_distinct from_entries_keys)

subsection \<open>What the actions are called with\<close>

definition panel_calls :: "(string \<Rightarrow> json option) \<Rightarrow> shown_file \<Rightarrow> string \<Rightarrow> panel \<Rightarrow> (string \<times> json) list" where
  "panel_calls parse f tag s = List.map_filter snd [panel_removeTag f tag s, panel_addTag f s, saveMetadata parse f s]"

definition action_schemas :: "(string \<times> schema) list" where
  "action_schemas = [(''setTagsAction'', SetTagsActionSchema), (''addTagsAction'', AddTagsActionSchema), (''updateMetadataAction'', UpdateMetadataActionSchema)]"

lemmas payload_schemas = SetTagsActionSchema_def SetTagsSchema_def AddTagsActionSchema_def AddTagsSchema_def
  UpdateMetadataActionSchema_def UpdateMetadataSchema_def TransportOptionsSchema_def

lemma panel_conforms:
  assumes "sf_project_id f \<noteq> []" and "sf_id f \<noteq> []" and "(name, payload) \<in> set (panel_calls parse f tag s)"
  shows "\<exists>S. map_of action_schemas name = Some S \<and> conforms S (Some payload)"
proof -
  consider "(name, payload) = (''setTagsAction'', action_call [(''tags'', JArr (map JStr (removeTag tag (pn_tags s))))] f)"
    | "(name, payload) = (''addTagsAction'', action_call [(''tags'', JArr [JStr (trim (pn_tagInput s))])] f)"
    | kvs where "(name, payload) = (''updateMetadataAction'', action_call [(''metadata'', JObj kvs)] f)"
    using assms(3) by (auto simp: panel_calls_def panel_removeTag_def panel_addTag_def saveMetadata_def Let_def map_filter_simps
        split: if_splits option.splits json.splits)
  then show ?thesis
    using assms(1,2) by cases (auto simp: action_schemas_def action_call_def payload_schemas list_all_iff)
qed

lemma init_conforms:
  assumes "projectId \<noteq> []" and "bf_name g \<noteq> []"
  shows "conforms InitiateUploadSchema (Some (init_payload ''size_bytes'' g (handleUpload projectId d))) \<longleftrightarrow> bf_bytes g \<noteq> []"
    and "conforms InitiateMultipartSchema (Some (init_payload ''total_size_bytes'' g (handleUpload projectId d))) \<longleftrightarrow> bf_bytes g \<noteq> []"
proof -
  have ft: "file_type g \<noteq> []" by (simp add: file_type_def)
  have size: "Suc 0 \<le> length (bf_bytes g) \<longleftrightarrow> bf_bytes g \<noteq> []" by (cases "bf_bytes g") auto
  obtain ms where cfg: "uc_projectId (handleUpload projectId d) = projectId" "uc_metadata (handleUpload projectId d) = Some (JObj ms)"
      "tags_json (handleUpload projectId d) = JArr (map JStr (ud_tags d))"
    by (simp add: handleUpload_def tags_json_def)
  show "conforms InitiateUploadSchema (Some (init_payload ''size_bytes'' g (handleUpload projectId d))) \<longleftrightarrow> bf_bytes g \<noteq> []"
    using assms ft by (cases "folder_set (handleUpload projectId d)")
      (simp_all add: init_payload_def jobj_def map_filter_simps cfg InitiateUploadSchema_def in_bounds_def size list_all_iff)
  show "conforms InitiateMultipartSchema (Some (init_payload ''total_size_bytes'' g (handleUpload projectId d))) \<longleftrightarrow> bf_bytes g \<noteq> []"
    using assms ft by (cases "folder_set (handleUpload projectId d)")
      (simp_all add: init_payload_def jobj_def map_filter_simps cfg InitiateMultipartSchema_def in_bounds_def size list_all_iff)
qed

text \<open>
  C38: what the files page sends is what the actions accept. Every call of the panel has a payload of its
  action's schema, whatever is typed; the payload that the upload dialog makes for a file is accepted
  exactly when the file is not empty.
\<close>

theorem files_page_conforms:
  assumes "projectId \<noteq> []" and "sf_project_id f \<noteq> []" and "sf_id f \<noteq> []" and "bf_name g \<noteq> []"
  shows "(\<forall>(name, payload) \<in> set (panel_calls parse f tag s). \<exists>S. map_of action_schemas name = Some S \<and> conforms S (Some payload)) \<and>
    (conforms InitiateUploadSchema (Some (init_payload ''size_bytes'' g (handleUpload projectId d))) \<longleftrightarrow> bf_bytes g \<noteq> []) \<and>
    (conforms InitiateMultipartSchema (Some (init_payload ''total_size_bytes'' g (handleUpload projectId d))) \<longleftrightarrow> bf_bytes g \<noteq> [])"
  using panel_conforms [OF assms(2,3)] init_conforms [OF assms(1,4)] by auto

definition demo_shown :: shown_file where
  "demo_shown = \<lparr>sf_id = ''f'', sf_project_id = ''p'', sf_tags = None, sf_metadata = None\<rparr>"

definition demo_dialog :: upload_dialog where
  "demo_dialog = \<lparr>ud_uploadMode = Presigned, ud_folderId = Some ''d'', ud_tags = [''t''], ud_entries = [('' k '', ''v''), ([], ''w'')], ud_items = []\<rparr>"

theorem files_page_conforms_witness:
  "(\<exists>S. map_of action_schemas ''setTagsAction'' = Some S \<and>
      conforms S (Some (action_call [(''tags'', JArr [])] demo_shown))) \<and>
   conforms InitiateUploadSchema (Some (init_payload ''size_bytes'' \<lparr>bf_name = ''a'', bf_type = [], bf_bytes = [1]\<rparr> (handleUpload ''p'' demo_dialog)))"
  using files_page_conforms [of "''p''" demo_shown "\<lparr>bf_name = ''a'', bf_type = [], bf_bytes = [1]\<rparr>" "\<lambda>s. None" "''t''"
      "\<lparr>pn_tags = [''t''], pn_tagInput = [], pn_editing = False, pn_metadataJson = [], pn_metadataError = []\<rparr>" demo_dialog]
  by (simp add: demo_shown_def panel_calls_def panel_removeTag_def removeTag_def map_filter_simps)

end
