(* ===== verification/Client_Filters.thy ===== *)
theory Client_Filters
  imports Client_Tables Client_Timers
begin

text \<open>
  The filters of the console's tables (\<^verbatim>\<open>frontend/web/src/modules/client/shared/components/tables/\<close>): the filter
  builder with its rules and their meaning for a row, the sort builder, the faceted and the slider filter, and
  the search box with its chosen columns. The table of the library is given by what is set on it.
\<close>

subsection \<open>Rules\<close>

datatype filter_variant = VText | VNumber | VRange | VDate | VDateRange | VSelect | VMultiSelect

text \<open>The value of a rule is a text or a list of texts.\<close>

record filter_item =
  fi_filterId :: string
  fi_columnId :: string
  fi_variant :: filter_variant
  fi_operator :: string
  fi_value :: json
  fi_joinOp :: string

definition TEXT_OPERATORS :: "string list" where
  "TEXT_OPERATORS = [''contains'', ''not_contains'', ''equals'', ''not_equals'', ''starts_with'', ''ends_with'', ''is_empty'', ''is_not_empty'']"

definition NUMBER_OPERATORS :: "string list" where
  "NUMBER_OPERATORS = [''equals'', ''not_equals'', ''gt'', ''gte'', ''lt'', ''lte'', ''is_empty'', ''is_not_empty'']"

definition DATE_OPERATORS :: "string list" where
  "DATE_OPERATORS = [''date_is'', ''date_is_not'', ''date_before'', ''date_after'', ''is_empty'', ''is_not_empty'']"

definition SELECT_OPERATORS :: "string list" where
  "SELECT_OPERATORS = [''equals'', ''not_equals'', ''is_empty'', ''is_not_empty'']"

definition MULTI_SELECT_OPERATORS :: "string list" where
  "MULTI_SELECT_OPERATORS = [''in_array'', ''not_in_array'', ''is_empty'', ''is_not_empty'']"

fun getOperators :: "filter_variant \<Rightarrow> string list" where
  "getOperators VText = TEXT_OPERATORS"
| "getOperators VNumber = NUMBER_OPERATORS"
| "getOperators VRange = NUMBER_OPERATORS"
| "getOperators VDate = DATE_OPERATORS"
| "getOperators VDateRange = DATE_OPERATORS"
| "getOperators VSelect = SELECT_OPERATORS"
| "getOperators VMultiSelect = MULTI_SELECT_OPERATORS"

definition getDefaultOperator :: "filter_variant \<Rightarrow> string" where
  "getDefaultOperator v = (case getOperators v of [] \<Rightarrow> ''contains'' | o1 # os \<Rightarrow> o1)"

text \<open>
  \<^verbatim>\<open>Number\<close>, \<^verbatim>\<open>new Date(v).getTime()\<close> and \<^verbatim>\<open>toDateString\<close> of the time zone of the browser, None for NaN and an
  invalid date; comparisons with NaN are false.
\<close>

record reading =
  rd_number :: "json option \<Rightarrow> int option"
  rd_time :: "json option \<Rightarrow> int option"
  rd_day :: "int option \<Rightarrow> string"

definition less_num :: "int option \<Rightarrow> int option \<Rightarrow> bool" where
  "less_num a b = (case (a, b) of (Some x, Some y) \<Rightarrow> x < y | _ \<Rightarrow> False)"

definition leq_num :: "int option \<Rightarrow> int option \<Rightarrow> bool" where
  "leq_num a b = (case (a, b) of (Some x, Some y) \<Rightarrow> x \<le> y | _ \<Rightarrow> False)"

definition lower_text :: "json option \<Rightarrow> string" where
  "lower_text v = map lower_char (cell_text v)"

definition value_text :: "json \<Rightarrow> string" where
  "value_text v = (case v of JStr s \<Rightarrow> map lower_char s | _ \<Rightarrow> [])"

definition among :: "json \<Rightarrow> string \<Rightarrow> bool" where
  "among v s = (case v of JArr vs \<Rightarrow> JStr s \<in> set vs | _ \<Rightarrow> s = value_text v)"

definition dynamicFilterFn :: "reading \<Rightarrow> json option \<Rightarrow> (string \<times> json) option \<Rightarrow> bool" where
  "dynamicFilterFn rd cell filterValue = (case filterValue of None \<Rightarrow> True | Some (operator, value) \<Rightarrow>
     let empty = (\<not> truthy cell \<and> cell \<noteq> Some (JInt 0)); cellStr = lower_text cell; v = value_text value in
     if operator = ''is_empty'' then empty
     else if operator = ''is_not_empty'' then \<not> empty
     else if operator = ''contains'' then js_includes cellStr v
     else if operator = ''not_contains'' then \<not> js_includes cellStr v
     else if operator = ''equals'' then cellStr = v
     else if operator = ''not_equals'' then cellStr \<noteq> v
     else if operator = ''starts_with'' then starts_with cellStr v
     else if operator = ''ends_with'' then suffix v cellStr
     else if operator = ''gt'' then less_num (rd_number rd (Some value)) (rd_number rd cell)
     else if operator = ''gte'' then leq_num (rd_number rd (Some value)) (rd_number rd cell)
     else if operator = ''lt'' then less_num (rd_number rd cell) (rd_number rd (Some value))
     else if operator = ''lte'' then leq_num (rd_number rd cell) (rd_number rd (Some value))
     else if operator = ''date_is'' then rd_day rd (rd_time rd cell) = rd_day rd (rd_number rd (Some value))
     else if operator = ''date_is_not'' then rd_day rd (rd_time rd cell) \<noteq> rd_day rd (rd_number rd (Some value))
     else if operator = ''date_before'' then less_num (rd_time rd cell) (rd_number rd (Some value))
     else if operator = ''date_after'' then less_num (rd_number rd (Some value)) (rd_time rd cell)
     else if operator = ''in_array'' then among value cellStr
     else if operator = ''not_in_array'' then \<not> among value cellStr
     else True)"

subsection \<open>The filter builder\<close>

text \<open>The columns that can be filtered, with their variant; the rules and the table's column filters.\<close>

type_synonym filter_columns = "(string \<times> filter_variant) list"

record filter_list =
  fl_filters :: "filter_item list"
  fl_table :: "(string \<times> (string \<times> json)) list"

definition active_rule :: "filter_item \<Rightarrow> bool" where
  "active_rule f \<longleftrightarrow> fi_value f \<noteq> JStr [] \<or> fi_operator f = ''is_empty'' \<or> fi_operator f = ''is_not_empty''"

definition applyFiltersToTable :: "filter_item list \<Rightarrow> (string \<times> (string \<times> json)) list" where
  "applyFiltersToTable items = from_entries (map (\<lambda>f. (fi_columnId f, (fi_operator f, fi_value f))) (filter active_rule items))"

definition with_filters :: "filter_item list \<Rightarrow> filter_list" where
  "with_filters items = \<lparr>fl_filters = items, fl_table = applyFiltersToTable items\<rparr>"

text \<open>\<open>newId\<close> is the generated id.\<close>

definition onFilterAdd :: "filter_columns \<Rightarrow> string \<Rightarrow> filter_list \<Rightarrow> filter_list" where
  "onFilterAdd cols newId s = (case cols of [] \<Rightarrow> s | (c, v) # cs \<Rightarrow> with_filters (fl_filters s @
     [\<lparr>fi_filterId = newId, fi_columnId = c, fi_variant = v, fi_operator = getDefaultOperator v, fi_value = JStr [], fi_joinOp = ''and''\<rparr>]))"

record filter_updates =
  fu_columnId :: "string option"
  fu_operator :: "string option"
  fu_value :: "json option"
  fu_joinOp :: "string option"

definition changes :: "string option \<Rightarrow> string \<Rightarrow> bool" where
  "changes u old = (case u of None \<Rightarrow> False | Some x \<Rightarrow> x \<noteq> [] \<and> x \<noteq> old)"

definition given_or :: "'a option \<Rightarrow> 'a \<Rightarrow> 'a" where
  "given_or u old = (case u of None \<Rightarrow> old | Some x \<Rightarrow> x)"

definition spread_updates :: "filter_updates \<Rightarrow> filter_item \<Rightarrow> filter_item" where
  "spread_updates u f = f\<lparr>fi_columnId := given_or (fu_columnId u) (fi_columnId f), fi_operator := given_or (fu_operator u) (fi_operator f),
     fi_value := given_or (fu_value u) (fi_value f), fi_joinOp := given_or (fu_joinOp u) (fi_joinOp f)\<rparr>"

definition update_rule :: "filter_columns \<Rightarrow> filter_updates \<Rightarrow> filter_item \<Rightarrow> filter_item" where
  "update_rule cols u f =
     (if changes (fu_columnId u) (fi_columnId f) then
        (let c = the (fu_columnId u); v = given_or (map_of cols c) VText in
         f\<lparr>fi_columnId := c, fi_variant := v, fi_operator := getDefaultOperator v, fi_value := JStr []\<rparr>)
      else if changes (fu_operator u) (fi_operator f) then (spread_updates u f)\<lparr>fi_value := JStr []\<rparr>
      else spread_updates u f)"

definition onFilterUpdate :: "filter_columns \<Rightarrow> string \<Rightarrow> filter_updates \<Rightarrow> filter_list \<Rightarrow> filter_list" where
  "onFilterUpdate cols i u s = with_filters (map (\<lambda>f. if fi_filterId f \<noteq> i then f else update_rule cols u f) (fl_filters s))"

definition onFilterRemove :: "string \<Rightarrow> filter_list \<Rightarrow> filter_list" where
  "onFilterRemove i s = with_filters (filter (\<lambda>f. fi_filterId f \<noteq> i) (fl_filters s))"

text \<open>\<^verbatim>\<open>resetColumnFilters\<close> sets the filters that the table began with.\<close>

definition onFiltersReset :: "(string \<times> (string \<times> json)) list \<Rightarrow> filter_list \<Rightarrow> filter_list" where
  "onFiltersReset initial s = \<lparr>fl_filters = [], fl_table = initial\<rparr>"

text \<open>The value that the inputs of a rule give it: the text, or the texts between the commas.\<close>

definition select_value :: "string \<Rightarrow> json" where
  "select_value input = JArr (map JStr (filter (\<lambda>s. s \<noteq> []) (map trim (split_on CHR '','' input))))"

text \<open>A row passes when it passes the filter of every column.\<close>

definition row_passes :: "reading \<Rightarrow> (string \<Rightarrow> json option) \<Rightarrow> (string \<times> (string \<times> json)) list \<Rightarrow> bool" where
  "row_passes rd cell fs = list_all (\<lambda>(c, fv). dynamicFilterFn rd (cell c) (Some fv)) fs"

subsection \<open>The sort builder\<close>

record column_sort =
  cs_id :: string
  cs_desc :: bool

definition availableColumns :: "string list \<Rightarrow> column_sort list \<Rightarrow> string list" where
  "availableColumns sortable sorting = filter (\<lambda>c. c \<notin> cs_id ` set sorting) sortable"

definition onSortAdd :: "string list \<Rightarrow> column_sort list \<Rightarrow> column_sort list" where
  "onSortAdd sortable sorting = (case availableColumns sortable sorting of [] \<Rightarrow> sorting
     | c # cs \<Rightarrow> sorting @ [\<lparr>cs_id = c, cs_desc = False\<rparr>])"

definition onSortUpdate :: "string \<Rightarrow> string option \<Rightarrow> bool option \<Rightarrow> column_sort list \<Rightarrow> column_sort list" where
  "onSortUpdate i newId desc sorting = map (\<lambda>s. if cs_id s = i then \<lparr>cs_id = given_or newId (cs_id s), cs_desc = given_or desc (cs_desc s)\<rparr> else s) sorting"

definition onSortRemove :: "string \<Rightarrow> column_sort list \<Rightarrow> column_sort list" where
  "onSortRemove i sorting = filter (\<lambda>s. cs_id s \<noteq> i) sorting"

definition onSortingReset :: "column_sort list \<Rightarrow> column_sort list" where
  "onSortingReset sorting = []"

subsection \<open>Faceted and slider filters\<close>

text \<open>The filter value of the column, a list of options or none.\<close>

definition onItemSelect :: "bool \<Rightarrow> string \<Rightarrow> bool \<Rightarrow> string list option \<Rightarrow> string list option" where
  "onItemSelect multiple opt isSelected chosen =
     (if multiple then
        (let sel = js_set (given_or chosen []); arr = (if isSelected then filter (\<lambda>x. x \<noteq> opt) sel else js_set_add sel opt)
         in if arr = [] then None else Some arr)
      else if isSelected then None else Some [opt])"

definition slider_range :: "(int \<times> int) option \<Rightarrow> int \<Rightarrow> int \<Rightarrow> int \<times> int" where
  "slider_range chosen lo hi = given_or chosen (lo, hi)"

text \<open>\<open>v\<close> is the number typed, None for NaN.\<close>

definition onFromChange :: "int option \<Rightarrow> int \<Rightarrow> int \<Rightarrow> (int \<times> int) option \<Rightarrow> (int \<times> int) option" where
  "onFromChange v lo hi chosen = (case v of None \<Rightarrow> chosen | Some x \<Rightarrow>
     let r = slider_range chosen lo hi in if lo \<le> x \<and> x \<le> snd r then Some (x, snd r) else chosen)"

definition onToChange :: "int option \<Rightarrow> int \<Rightarrow> int \<Rightarrow> (int \<times> int) option \<Rightarrow> (int \<times> int) option" where
  "onToChange v lo hi chosen = (case v of None \<Rightarrow> chosen | Some x \<Rightarrow>
     let r = slider_range chosen lo hi in if x \<le> hi \<and> fst r \<le> x then Some (fst r, x) else chosen)"

subsection \<open>The search box\<close>

definition columnSearchFilterFn :: "string list \<Rightarrow> string \<Rightarrow> json option \<Rightarrow> string \<Rightarrow> bool" where
  "columnSearchFilterFn columnIds columnId cell filterValue =
     (columnIds = [] \<or> columnId \<in> set columnIds \<and> js_includes (lower_text cell) (map lower_char filterValue))"

record search_box =
  sb_term :: string
  sb_filter :: "string option"
  sb_ids :: "string list"
  sb_timer :: "string debounce"

definition or_undefined :: "string \<Rightarrow> string option" where
  "or_undefined s = (if s = [] then None else Some s)"

text \<open>Time passes up to \<open>t\<close>: the debounced call sets the filter of the table when it is due.\<close>

definition box_elapse :: "nat \<Rightarrow> search_box \<Rightarrow> search_box" where
  "box_elapse t s = (case db_pending (sb_timer s) of
       Some (due, v) \<Rightarrow> if due \<le> t then s\<lparr>sb_filter := or_undefined v, sb_timer := elapse t (sb_timer s)\<rparr> else s
     | None \<Rightarrow> s)"

definition onTermChange :: "nat \<Rightarrow> nat \<Rightarrow> string \<Rightarrow> search_box \<Rightarrow> search_box" where
  "onTermChange delay t v s = (let s = box_elapse t s in s\<lparr>sb_term := v, sb_timer := debounced_call delay t v (sb_timer s)\<rparr>)"

definition onClear :: "nat \<Rightarrow> search_box \<Rightarrow> search_box" where
  "onClear t s = (box_elapse t s)\<lparr>sb_term := [], sb_filter := None\<rparr>"

definition onToggleColumn :: "nat \<Rightarrow> string \<Rightarrow> search_box \<Rightarrow> search_box" where
  "onToggleColumn t i s = (let s = box_elapse t s; ids = sb_ids s in
     s\<lparr>sb_ids := (if i \<in> set ids then (if length ids = 1 then ids else filter (\<lambda>c. c \<noteq> i) ids) else ids @ [i]),
       sb_filter := or_undefined (sb_term s)\<rparr>)"

definition onSelectAll :: "nat \<Rightarrow> string list \<Rightarrow> search_box \<Rightarrow> search_box" where
  "onSelectAll t cols s = (let s = box_elapse t s in s\<lparr>sb_ids := cols, sb_filter := or_undefined (sb_term s)\<rparr>)"

subsection \<open>What a list of rules does\<close>

text \<open>The rule of a column that counts: the last one that is active.\<close>

definition ruling :: "filter_item list \<Rightarrow> string \<Rightarrow> filter_item option" where
  "ruling items c = find (\<lambda>f. fi_columnId f = c) (rev (filter active_rule items))"

lemma map_of_find: "map_of (map (\<lambda>f. (k f, g f)) xs) c = map_option g (find (\<lambda>f. k f = c) xs)"
  by (induction xs) auto

lemma applied_rules: "map_of (applyFiltersToTable items) c = map_option (\<lambda>f. (fi_operator f, fi_value f)) (ruling items c)"
  by (simp add: applyFiltersToTable_def from_entries_map_of rev_map map_of_find ruling_def)

lemma row_passes_iff:
  assumes "distinct (map fst fs)"
  shows "row_passes rd cell fs \<longleftrightarrow> (\<forall>c fv. map_of fs c = Some fv \<longrightarrow> dynamicFilterFn rd (cell c) (Some fv))"
  using assms map_of_is_SomeI [OF assms] map_of_SomeD by (fastforce simp: row_passes_def list_all_iff)

lemma applied_distinct: "distinct (map fst (applyFiltersToTable items))"
  by (simp add: applyFiltersToTable_def from_entries_distinct)

lemma select_passes:
  "dynamicFilterFn rd cell (Some (''equals'', select_value input)) \<longleftrightarrow> cell_text cell = []"
  "dynamicFilterFn rd cell (Some (''not_equals'', select_value input)) \<longleftrightarrow> cell_text cell \<noteq> []"
  "dynamicFilterFn rd cell (Some (''in_array'', select_value input)) \<longleftrightarrow>
     lower_text cell \<in> {v. v \<noteq> [] \<and> v \<in> trim ` set (split_on CHR '','' input)}"
  by (auto simp: dynamicFilterFn_def Let_def select_value_def value_text_def lower_text_def among_def)

lemma lower_text_lower: "map lower_char (lower_text v) = lower_text v"
  by (simp add: lower_text_def lower_lower)

text \<open>The operations that the builder offers keep the table's filters those of its rules.\<close>

lemma builder_in_sync:
  "fl_table s = applyFiltersToTable (fl_filters s) \<Longrightarrow> fl_table (onFilterAdd cols i s) = applyFiltersToTable (fl_filters (onFilterAdd cols i s))"
  "fl_table (onFilterUpdate cols i u s) = applyFiltersToTable (fl_filters (onFilterUpdate cols i u s))"
  "fl_table (onFilterRemove i s) = applyFiltersToTable (fl_filters (onFilterRemove i s))"
  by (auto simp: onFilterAdd_def onFilterUpdate_def onFilterRemove_def with_filters_def split: list.splits)


text \<open>A rule on the second column, changed to a select column and given the value Ready.\<close>

definition demo_rule :: filter_item where
  "demo_rule = \<lparr>fi_filterId = ''1'', fi_columnId = ''status'', fi_variant = VSelect, fi_operator = ''equals'', fi_value = JStr [], fi_joinOp = ''or''\<rparr>"

definition demo_reading :: reading where
  "demo_reading = \<lparr>rd_number = (\<lambda>v. None), rd_time = (\<lambda>v. None), rd_day = (\<lambda>t. [])\<rparr>"

definition demo_filters :: filter_list where
  "demo_filters = onFilterUpdate [(''status'', VSelect)] ''1''
     \<lparr>fu_columnId = None, fu_operator = None, fu_value = Some (select_value ''Ready''), fu_joinOp = None\<rparr> (with_filters [demo_rule])"

lemma demo_ruling: "ruling (fl_filters demo_filters) ''status'' = Some (demo_rule\<lparr>fi_value := select_value ''Ready''\<rparr>)"
  by (simp add: demo_filters_def ruling_def onFilterUpdate_def with_filters_def demo_rule_def update_rule_def
      changes_def spread_updates_def given_or_def active_rule_def select_value_def)


subsection \<open>Sorting\<close>

lemma sort_add_distinct: "distinct (map cs_id sorting) \<Longrightarrow> distinct (map cs_id (onSortAdd sortable sorting))"
proof -
  have "c \<notin> cs_id ` set sorting" if "availableColumns sortable sorting = c # cs" for c cs
  proof -
    have "c \<in> set (availableColumns sortable sorting)" unfolding that by simp
    then show ?thesis by (simp add: availableColumns_def)
  qed
  then show "distinct (map cs_id sorting) \<Longrightarrow> distinct (map cs_id (onSortAdd sortable sorting))"
    by (auto simp: onSortAdd_def split: list.splits)
qed

text \<open>The columns in use are offered as well: choosing one leaves two rules for it, which change together.\<close>

lemma sort_update_duplicates:
  "onSortUpdate ''b'' (Some ''a'') None [\<lparr>cs_id = ''a'', cs_desc = False\<rparr>, \<lparr>cs_id = ''b'', cs_desc = True\<rparr>] =
     [\<lparr>cs_id = ''a'', cs_desc = False\<rparr>, \<lparr>cs_id = ''a'', cs_desc = True\<rparr>]"
  "onSortRemove ''a'' [\<lparr>cs_id = ''a'', cs_desc = False\<rparr>, \<lparr>cs_id = ''a'', cs_desc = True\<rparr>] = []"
  by (simp_all add: onSortUpdate_def onSortRemove_def given_or_def)

subsection \<open>The search box\<close>

lemma ids_stay: "distinct (sb_ids s) \<Longrightarrow> sb_ids s \<noteq> [] \<Longrightarrow> sb_ids (onToggleColumn t i s) \<noteq> []"
proof -
  have ids: "sb_ids (box_elapse t s) = sb_ids s" by (auto simp: box_elapse_def split: option.splits)
  assume d: "distinct (sb_ids s)" "sb_ids s \<noteq> []"
  have "\<exists>c \<in> set (sb_ids s). c \<noteq> i" if "length (sb_ids s) \<noteq> 1"
    using d that by (cases "sb_ids s"; cases "tl (sb_ids s)") auto
  then show "sb_ids (onToggleColumn t i s) \<noteq> []"
    using d by (auto simp: onToggleColumn_def Let_def ids filter_empty_conv)
qed

lemma box_after:
  "sb_timer s = \<lparr>db_pending = Some (due, v), db_fired = fs\<rparr> \<Longrightarrow> box_elapse u s =
     (if due \<le> u then s\<lparr>sb_filter := or_undefined v, sb_timer := \<lparr>db_pending = None, db_fired = fs @ [(due, v)]\<rparr>\<rparr> else s)"
  by (simp add: box_elapse_def elapse_def)

lemma box_idle: "db_pending (sb_timer s) = None \<Longrightarrow> box_elapse u s = s"
  by (simp add: box_elapse_def)

text \<open>
  Clearing the search box does not cancel the search that is still to come. A text is typed at \<open>t\<close> and
  the box cleared at \<open>c\<close>: when the timer is done the box is empty, and the table is filtered by the text
  exactly when the box was cleared before the text was due.
\<close>

lemma cleared_search_returns:
  assumes "t \<le> c" and "c \<le> u" and "t + delay \<le> u"
  shows "sb_term (box_elapse u (onClear c (onTermChange delay t v s))) = [] \<and>
    sb_filter (box_elapse u (onClear c (onTermChange delay t v s))) = (if c < t + delay then or_undefined v else None) \<and>
    db_pending (sb_timer (box_elapse u (onClear c (onTermChange delay t v s)))) = None"
proof -
  let ?s = "onTermChange delay t v s"
  obtain fs where timer: "sb_timer ?s = \<lparr>db_pending = Some (t + delay, v), db_fired = fs\<rparr>"
    by (simp add: onTermChange_def Let_def debounced_call_def) (metis debounce.surjective debounce.update_convs(1) old.unit.exhaust)
  show ?thesis
    using assms by (cases "t + delay \<le> c") (simp_all add: onClear_def box_after [OF timer] timer box_idle box_after)
qed

definition demo_box :: search_box where
  "demo_box = \<lparr>sb_term = [], sb_filter = None, sb_ids = [''name''], sb_timer = db_init\<rparr>"

lemma cleared_search_returns_demo:
  "sb_term (box_elapse 200 (onClear 100 (onTermChange 200 0 ''abc'' demo_box))) = [] \<and>
   sb_filter (box_elapse 200 (onClear 100 (onTermChange 200 0 ''abc'' demo_box))) = Some ''abc''"
  using cleared_search_returns [of 0 100 200 200 "''abc''" demo_box] by (simp add: or_undefined_def)

end
