(* ===== verification/Console_Docs.thy ===== *)
theory Console_Docs
  imports Client_Tables
begin

text \<open>
  The documentation site of the console (\<^verbatim>\<open>frontend/web/src/modules/client/docs/\<close>): the navigation, the pages
  made from the files under \<^verbatim>\<open>content/docs\<close>, the headings and excerpts taken from their text, the search
  list, and the sidebar. Texts are characters; the frontmatter is read by a library, an argument.
\<close>

subsection \<open>Navigation\<close>

record nav_entry =
  ni_title :: string
  ni_href :: string

record nav_group =
  ns_title :: string
  ns_items :: "nav_entry list"

definition nav_item :: "string \<Rightarrow> string \<Rightarrow> nav_entry" where
  "nav_item t h = \<lparr>ni_title = t, ni_href = h\<rparr>"

definition nav_section :: "string \<Rightarrow> nav_entry list \<Rightarrow> nav_group" where
  "nav_section t is = \<lparr>ns_title = t, ns_items = is\<rparr>"

definition docsNav :: "nav_group list" where
  "docsNav =
    [nav_section ''Getting Started'' [nav_item ''Overview'' ''/docs'',
       nav_item ''Quickstart'' ''/docs/quickstart''],
     nav_section ''Core Concepts'' [nav_item ''Organizations'' ''/docs/concepts/organizations'',
       nav_item ''Projects'' ''/docs/concepts/projects'',
       nav_item ''Files'' ''/docs/concepts/files'',
       nav_item ''Upload Flow & Processing'' ''/docs/concepts/processing'',
       nav_item ''API Keys'' ''/docs/concepts/api-keys''],
     nav_section ''Storage'' [nav_item ''Overview'' ''/docs/storage/overview'',
       nav_item ''Managed Storage'' ''/docs/storage/managed'',
       nav_item ''Bring Your Own Bucket'' ''/docs/storage/byob'',
       nav_item ''AWS S3'' ''/docs/storage/s3'',
       nav_item ''Azure Blob Storage'' ''/docs/storage/azure'',
       nav_item ''Google Cloud Storage'' ''/docs/storage/gcs'',
       nav_item ''MinIO'' ''/docs/storage/minio'',
       nav_item ''Cloudflare R2'' ''/docs/storage/r2'',
       nav_item ''RustFS'' ''/docs/storage/rustfs'',
       nav_item ''Encryption (SSE)'' ''/docs/storage/encryption''],
     nav_section ''API Reference'' [nav_item ''Authentication'' ''/docs/api/authentication'',
       nav_item ''Projects'' ''/docs/api/projects'',
       nav_item ''Files'' ''/docs/api/files'',
       nav_item ''Folders'' ''/docs/api/folders'',
       nav_item ''Upload Tokens'' ''/docs/api/upload-tokens'',
       nav_item ''Metadata & Tags'' ''/docs/api/metadata'',
       nav_item ''Webhooks'' ''/docs/api/webhooks'',
       nav_item ''Storage Config'' ''/docs/api/storage'',
       nav_item ''Health'' ''/docs/api/health''],
     nav_section ''SDKs'' [nav_item ''Node.js'' ''/docs/sdks/node'',
       nav_item ''React'' ''/docs/sdks/react'',
       nav_item ''Next.js'' ''/docs/sdks/nextjs'',
       nav_item ''Python'' ''/docs/sdks/python''],
     nav_section ''Console Guide'' [nav_item ''Overview'' ''/docs/console/overview'',
       nav_item ''Dashboard'' ''/docs/console/dashboard'',
       nav_item ''Projects'' ''/docs/console/projects'',
       nav_item ''Files'' ''/docs/console/files'',
       nav_item ''Usage'' ''/docs/console/usage'',
       nav_item ''API Keys'' ''/docs/console/api-keys'',
       nav_item ''Webhooks'' ''/docs/console/webhooks'',
       nav_item ''Settings'' ''/docs/console/settings'']]"

definition flatNavItems :: "nav_entry list" where
  "flatNavItems = concat (map ns_items docsNav)"

definition doc_href :: "string list \<Rightarrow> string" where
  "doc_href slug = (if slug = [] then ''/docs'' else ''/docs/'' @ join_with ''/'' slug)"

fun find_index :: "('a \<Rightarrow> bool) \<Rightarrow> 'a list \<Rightarrow> nat option" where
  "find_index P [] = None"
| "find_index P (x # xs) = (if P x then Some 0 else map_option Suc (find_index P xs))"

text \<open>A page that is not in the navigation has index -1.\<close>

definition getAdjacentDocs :: "nav_entry list \<Rightarrow> string list \<Rightarrow> nav_entry option \<times> nav_entry option" where
  "getAdjacentDocs items slug = (case find_index (\<lambda>i. ni_href i = doc_href slug) items of
     None \<Rightarrow> (None, case items of [] \<Rightarrow> None | i # is \<Rightarrow> Some i)
   | Some n \<Rightarrow> (if 0 < n then Some (items ! (n - 1)) else None, if Suc n < length items then Some (items ! Suc n) else None))"

subsection \<open>Pages\<close>

datatype entry = Folder string "entry list" | MdFile string string

fun entry_name :: "entry \<Rightarrow> string" where
  "entry_name (Folder n es) = n"
| "entry_name (MdFile n t) = n"

definition strip_mdx :: "string \<Rightarrow> string" where
  "strip_mdx n = (if suffix ''.mdx'' n then take (length n - 4) n else n)"

text \<open>\<^verbatim>\<open>walk\<close>: the slugs below a folder, which has the slug \<open>parts\<close>.\<close>

fun walk :: "string list \<Rightarrow> entry list \<Rightarrow> string list list" where
  "walk parts [] = []"
| "walk parts (Folder n es # rest) = walk (parts @ [n]) es @ walk parts rest"
| "walk parts (MdFile n t # rest) =
     (if suffix ''.mdx'' n \<and> n \<noteq> ''index.mdx'' then [parts @ [strip_mdx n]] else []) @ walk parts rest"

definition getAllDocSlugs :: "entry list \<Rightarrow> string list list" where
  "getAllDocSlugs dir = [] # walk [] dir"

fun lookup :: "string list \<Rightarrow> entry list \<Rightarrow> entry option" where
  "lookup [] dir = None"
| "lookup [n] dir = find (\<lambda>e. entry_name e = n) dir"
| "lookup (n # m # ns) dir = (case find (\<lambda>e. entry_name e = n) dir of
     Some (Folder k es) \<Rightarrow> lookup (m # ns) es | _ \<Rightarrow> None)"

record doc =
  dc_frontmatter :: json
  dc_content :: string
  dc_slug :: "string list"

definition doc_path :: "string list \<Rightarrow> string list" where
  "doc_path slug = (if slug = [] then [''index.mdx''] else butlast slug @ [last slug @ ''.mdx''])"

text \<open>\<open>matter\<close> reads the frontmatter; the left side is the error of reading a folder.\<close>

definition getDoc :: "(string \<Rightarrow> json \<times> string) \<Rightarrow> entry list \<Rightarrow> string list \<Rightarrow> unit + doc option" where
  "getDoc matter dir slug = (case lookup (doc_path slug) dir of
     None \<Rightarrow> Inr None
   | Some (Folder n es) \<Rightarrow> Inl ()
   | Some (MdFile n t) \<Rightarrow> Inr (Some \<lparr>dc_frontmatter = fst (matter t), dc_content = snd (matter t), dc_slug = slug\<rparr>))"

subsection \<open>Texts\<close>

definition word_char :: "char \<Rightarrow> bool" where
  "word_char c = (let n = of_char c :: nat in
     48 \<le> n \<and> n \<le> 57 \<or> 65 \<le> n \<and> n \<le> 90 \<or> 97 \<le> n \<and> n \<le> 122 \<or> c = CHR ''_'')"

text \<open>Each run of characters of a kind becomes one character.\<close>

fun collapse :: "(char \<Rightarrow> bool) \<Rightarrow> char \<Rightarrow> string \<Rightarrow> string" where
  "collapse P d [] = []"
| "collapse P d [c] = (if P c then [d] else [c])"
| "collapse P d (c # c' # s) = (if P c then (if P c' then collapse P d (c' # s) else d # collapse P d (c' # s))
     else c # collapse P d (c' # s))"

definition slugify :: "string \<Rightarrow> string" where
  "slugify text = trim (collapse (\<lambda>c. c = CHR ''-'') CHR ''-'' (collapse js_space CHR ''-''
     (filter (\<lambda>c. word_char c \<or> js_space c \<or> c = CHR ''-'') (map lower_char text))))"

record heading =
  hd_level :: nat
  hd_text :: string
  hd_id :: string

definition heading_text :: "string \<Rightarrow> string" where
  "heading_text rest = takeWhile (\<lambda>c. c \<noteq> CHR 0x0D) rest"

definition line_heading :: "string \<Rightarrow> heading list" where
  "line_heading line =
     (let h2 = heading_text (drop 3 line); h3 = heading_text (drop 4 line) in
      if starts_with line ''## '' \<and> h2 \<noteq> [] then [\<lparr>hd_level = 2, hd_text = trim h2, hd_id = slugify (trim h2)\<rparr>]
      else if starts_with line ''### '' \<and> h3 \<noteq> [] then [\<lparr>hd_level = 3, hd_text = trim h3, hd_id = slugify (trim h3)\<rparr>]
      else [])"

definition extractHeadings :: "string \<Rightarrow> heading list" where
  "extractHeadings content = concat (map line_heading (split_on CHR 0x0A content))"

text \<open>The text after the fence that closes a block of code.\<close>

definition fence :: string where
  "fence = [CHR 0x60, CHR 0x60, CHR 0x60]"

fun after_fence :: "string \<Rightarrow> string option" where
  "after_fence [] = None"
| "after_fence (c # s) = (if starts_with (c # s) fence then Some (drop 2 s) else after_fence s)"

lemma after_fence_shorter: "after_fence s = Some r \<Longrightarrow> length r < length s"
  by (induction s) (auto split: if_splits)

function strip_code :: "string \<Rightarrow> string" where
  "strip_code [] = []"
| "strip_code (c # s) = (case (if starts_with (c # s) fence then after_fence (drop 2 s) else None) of
     Some r \<Rightarrow> strip_code r | None \<Rightarrow> c # strip_code s)"
  by pat_completeness auto

termination strip_code
  by (relation "measure length") (auto dest!: after_fence_shorter split: if_splits)

definition mark_length :: "string \<Rightarrow> nat" where
  "mark_length s = length (takeWhile (\<lambda>c. c = CHR ''#'') s)"

text \<open>\<^verbatim>\<open>replace(/#{1,6} /g, "")\<close>.\<close>

function strip_marks :: "string \<Rightarrow> string" where
  "strip_marks [] = []"
| "strip_marks (c # s) = (let n = mark_length (c # s) in
     if 1 \<le> n \<and> n \<le> 6 \<and> starts_with (drop n (c # s)) '' '' then strip_marks (drop n s) else c # strip_marks s)"
  by pat_completeness auto

termination strip_marks
  by (relation "measure length") auto

definition plainText :: "string \<Rightarrow> string" where
  "plainText content = trim (collapse (\<lambda>c. c = CHR 0x0A) CHR '' ''
     (filter (\<lambda>c. c \<notin> set [CHR ''*'', CHR ''_'', CHR 0x60, CHR ''['', CHR '']'', CHR ''('', CHR '')'', CHR ''>''])
       (strip_marks (strip_code content))))"

record manifest_entry =
  me_slug :: "string list"
  me_href :: string
  me_title :: "json option"
  me_description :: json
  me_excerpt :: string

definition manifest_of :: "doc \<Rightarrow> manifest_entry" where
  "manifest_of d = \<lparr>me_slug = dc_slug d, me_href = doc_href (dc_slug d), me_title = jget (dc_frontmatter d) ''title'',
     me_description = nullish_or (jget (dc_frontmatter d) ''description'') (JStr []), me_excerpt = take 200 (plainText (dc_content d))\<rparr>"

text \<open>The list of the search: pages without a document are left out; None is the error of reading a folder.\<close>

definition getDocsManifest :: "(string \<Rightarrow> json \<times> string) \<Rightarrow> entry list \<Rightarrow> manifest_entry list option" where
  "getDocsManifest matter dir = (let ds = map (getDoc matter dir) (getAllDocSlugs dir) in
     if Inl () \<in> set ds then None else Some (map manifest_of (List.map_filter (\<lambda>r. case r of Inr d \<Rightarrow> d | Inl e \<Rightarrow> None) ds)))"

subsection \<open>The sidebar\<close>

text \<open>The sections that are open: all at the start, and that of the page after a change of the page.\<close>

definition sidebar_start :: "string list" where
  "sidebar_start = map ns_title docsNav"

definition sidebar_page :: "string \<Rightarrow> string list \<Rightarrow> string list" where
  "sidebar_page pathname shown = fold (\<lambda>s o1. if list_ex (\<lambda>i. ni_href i = pathname) (ns_items s) then js_set_add o1 (ns_title s) else o1) docsNav shown"

definition sidebar_toggle :: "string \<Rightarrow> string list \<Rightarrow> string list" where
  "sidebar_toggle title shown = (if title \<in> set shown then filter (\<lambda>t. t \<noteq> title) shown else shown @ [title])"

subsection \<open>The files\<close>

text \<open>The folder \<^verbatim>\<open>content/docs\<close>; \<open>text\<close> gives the text of a file.\<close>

definition content_dir :: "(string list \<Rightarrow> string) \<Rightarrow> entry list" where
  "content_dir text =
    [Folder ''api'' [MdFile ''authentication.mdx'' (text [''api'', ''authentication.mdx'']), MdFile ''files.mdx'' (text [''api'', ''files.mdx'']), MdFile ''folders.mdx'' (text [''api'', ''folders.mdx'']), MdFile ''health.mdx'' (text [''api'', ''health.mdx'']), MdFile ''metadata.mdx'' (text [''api'', ''metadata.mdx'']), MdFile ''projects.mdx'' (text [''api'', ''projects.mdx'']), MdFile ''storage.mdx'' (text [''api'', ''storage.mdx'']), MdFile ''upload-tokens.mdx'' (text [''api'', ''upload-tokens.mdx'']), MdFile ''webhooks.mdx'' (text [''api'', ''webhooks.mdx''])],
     Folder ''concepts'' [MdFile ''api-keys.mdx'' (text [''concepts'', ''api-keys.mdx'']), MdFile ''files.mdx'' (text [''concepts'', ''files.mdx'']), MdFile ''organizations.mdx'' (text [''concepts'', ''organizations.mdx'']), MdFile ''processing.mdx'' (text [''concepts'', ''processing.mdx'']), MdFile ''projects.mdx'' (text [''concepts'', ''projects.mdx''])],
     Folder ''console'' [MdFile ''api-keys.mdx'' (text [''console'', ''api-keys.mdx'']), MdFile ''dashboard.mdx'' (text [''console'', ''dashboard.mdx'']), MdFile ''files.mdx'' (text [''console'', ''files.mdx'']), MdFile ''overview.mdx'' (text [''console'', ''overview.mdx'']), MdFile ''projects.mdx'' (text [''console'', ''projects.mdx'']), MdFile ''settings.mdx'' (text [''console'', ''settings.mdx'']), MdFile ''usage.mdx'' (text [''console'', ''usage.mdx'']), MdFile ''webhooks.mdx'' (text [''console'', ''webhooks.mdx''])],
     MdFile ''index.mdx'' (text [''index.mdx'']),
     MdFile ''quickstart.mdx'' (text [''quickstart.mdx'']),
     Folder ''sdks'' [MdFile ''nextjs.mdx'' (text [''sdks'', ''nextjs.mdx'']), MdFile ''node.mdx'' (text [''sdks'', ''node.mdx'']), MdFile ''python.mdx'' (text [''sdks'', ''python.mdx'']), MdFile ''react.mdx'' (text [''sdks'', ''react.mdx''])],
     Folder ''storage'' [MdFile ''azure.mdx'' (text [''storage'', ''azure.mdx'']), MdFile ''byob.mdx'' (text [''storage'', ''byob.mdx'']), MdFile ''encryption.mdx'' (text [''storage'', ''encryption.mdx'']), MdFile ''gcs.mdx'' (text [''storage'', ''gcs.mdx'']), MdFile ''managed.mdx'' (text [''storage'', ''managed.mdx'']), MdFile ''minio.mdx'' (text [''storage'', ''minio.mdx'']), MdFile ''overview.mdx'' (text [''storage'', ''overview.mdx'']), MdFile ''r2.mdx'' (text [''storage'', ''r2.mdx'']), MdFile ''rustfs.mdx'' (text [''storage'', ''rustfs.mdx'']), MdFile ''s3.mdx'' (text [''storage'', ''s3.mdx''])]]"

subsection \<open>Every page is linked\<close>

lemma find_index_some: "find_index P xs = Some n \<longleftrightarrow> n < length xs \<and> P (xs ! n) \<and> (\<forall>m < n. \<not> P (xs ! m))"
proof (induction xs arbitrary: n)
  case (Cons x xs)
  then show ?case by (cases n) (auto simp: less_Suc_eq_0_disj)
qed simp

lemma find_index_none: "find_index P xs = None \<longleftrightarrow> (\<forall>x \<in> set xs. \<not> P x)"
  by (induction xs) auto

text \<open>The page after a page has that page before it.\<close>

lemma adjacent_inverse:
  assumes "distinct (map ni_href items)" and "doc_href slug \<in> ni_href ` set items"
    and "snd (getAdjacentDocs items slug) = Some i" and "doc_href slug' = ni_href i"
  shows "map_option ni_href (fst (getAdjacentDocs items slug')) = Some (doc_href slug)"
proof -
  obtain n where n: "find_index (\<lambda>i. ni_href i = doc_href slug) items = Some n"
    using assms(2) find_index_none [of "\<lambda>i. ni_href i = doc_href slug" items] by fastforce
  then have i: "Suc n < length items" "i = items ! Suc n" "ni_href (items ! n) = doc_href slug"
    using assms(3) n by (auto simp: getAdjacentDocs_def n find_index_some [THEN iffD1, OF n] split: if_splits)
  have "ni_href (items ! m) \<noteq> ni_href i" if "m < Suc n" for m
    using assms(1) i that nth_eq_iff_index_eq [OF assms(1), of m "Suc n"] by simp
  then have "find_index (\<lambda>j. ni_href j = doc_href slug') items = Some (Suc n)"
    using i assms(4) by (simp add: find_index_some)
  then show ?thesis using i by (simp add: getAdjacentDocs_def)
qed

lemma adjacent_in: "snd (getAdjacentDocs items slug) = Some i \<Longrightarrow> i \<in> set items"
  by (cases "find_index (\<lambda>i. ni_href i = doc_href slug) items"; cases items) (auto simp: getAdjacentDocs_def split: if_splits)

lemma nav_hrefs_distinct: "distinct (map ni_href flatNavItems)"
  by (simp add: flatNavItems_def docsNav_def nav_section_def nav_item_def)

lemma content_slugs:
  "map doc_href (getAllDocSlugs (content_dir text)) = map doc_href (getAllDocSlugs (content_dir (\<lambda>p. [])))"
  by (simp add: getAllDocSlugs_def content_dir_def strip_mdx_def suffix_def)

lemma pages_are_nav:
  "list_all (\<lambda>h. h \<in> set (map ni_href flatNavItems)) (map doc_href (getAllDocSlugs (content_dir (\<lambda>p. []))))"
  "list_all (\<lambda>h. h \<in> set (map doc_href (getAllDocSlugs (content_dir (\<lambda>p. []))))) (map ni_href flatNavItems)"
  "distinct (map doc_href (getAllDocSlugs (content_dir (\<lambda>p. []))))"
  by code_simp+

lemma pages_exist:
  "list_all (\<lambda>slug. case getDoc matter (content_dir text) slug of Inr (Some d) \<Rightarrow> True | _ \<Rightarrow> False)
     (getAllDocSlugs (content_dir (\<lambda>p. [])))"
  by code_simp

lemma slugs_of_files: "getAllDocSlugs (content_dir text) = getAllDocSlugs (content_dir (\<lambda>p. []))"
  by (simp add: getAllDocSlugs_def content_dir_def)



subsection \<open>Anchors\<close>

definition anchor_char :: "char \<Rightarrow> bool" where
  "anchor_char c \<longleftrightarrow> c = CHR ''-'' \<or> (word_char c \<and> lower_char c = c)"

lemma collapse_set: "set (collapse P d s) \<subseteq> {c \<in> set s. \<not> P c} \<union> {d}"
  by (induction P d s rule: collapse.induct) auto

lemma word_lower: "word_char c \<or> js_space c \<or> c = CHR ''-'' \<Longrightarrow> lower_char c = c \<Longrightarrow> \<not> js_space c \<Longrightarrow> anchor_char c"
  by (auto simp: anchor_char_def)

lemma trim_subset: "set (trim s) \<subseteq> set s"
  unfolding trim_def by (metis set_dropWhileD set_rev subsetI)

text \<open>An anchor consists of lower-case letters, digits, underscores and hyphens.\<close>

lemma slugify_chars: "c \<in> set (slugify s) \<Longrightarrow> anchor_char c"
proof -
  let ?f = "filter (\<lambda>c. word_char c \<or> js_space c \<or> c = CHR ''-'') (map lower_char s)"
  assume "c \<in> set (slugify s)"
  then have "c \<in> set (collapse (\<lambda>c. c = CHR ''-'') CHR ''-'' (collapse js_space CHR ''-'' ?f))"
    unfolding slugify_def using trim_subset by blast
  then have "c \<in> set (collapse js_space CHR ''-'' ?f) \<or> c = CHR ''-''" using collapse_set by fastforce
  then have "c \<in> set ?f \<and> \<not> js_space c \<or> c = CHR ''-''" using collapse_set by fastforce
  then show "anchor_char c" by (auto simp: anchor_char_def lower_lower)
qed

text \<open>A removed character between two spaces leaves one hyphen; the trim at the end comes too late.\<close>

lemma slugify_ampersand: "slugify ''Audit & Compliance'' = ''audit-compliance''" "slugify '' a'' = ''-a''"
  by code_simp+

text \<open>Lines of code that begin with two number signs are taken as headings.\<close>

lemma headings_in_code:
  "map hd_text (extractHeadings (fence @ [CHR 0x0A] @ ''## not a heading'' @ [CHR 0x0A] @ fence)) = [''not a heading'']"
  by code_simp

lemma excerpt_bounded: "length (me_excerpt (manifest_of d)) \<le> 200"
  by (simp add: manifest_of_def)

end
