(* ===== verification/Spec2Isabelle.thy ===== *)
theory Spec2Isabelle
  imports Sdk_Namespaces Sdk_Signatures Console_Upload React_Hooks Iam_Nav Iam_Errors Iam_Cache Console_Resources Console_Routes
    Iam_Actions Iam_Agents Iam_Typed Client_Tables Client_Feedback Client_Timers Upload_Through_Server
    Iam_Seeds_Rights React_Components Client_Files Client_Filters Console_Docs
begin

text \<open>
  Verification library of FileNest. All paths are under \<^verbatim>\<open>src/\<close>.

  \<^bold>\<open>The program.\<close> FileNest stores files for applications. A Python backend owns files, folders and projects and
  hands out presigned URLs of an object store. Around it stand TypeScript programs, which this library is
  about: the SDKs that applications use (\<^verbatim>\<open>sdks/core\<close>, \<^verbatim>\<open>sdks/node\<close>, \<^verbatim>\<open>sdks/nextjs\<close>, \<^verbatim>\<open>sdks/react\<close>); the console
  (\<^verbatim>\<open>frontend/web\<close>), a Next.js application whose server actions and route handlers call the backend and the
  identity service for the signed-in user; and the identity service (\<^verbatim>\<open>iam\<close>), which keeps users, organizations,
  roles, OAuth clients and agents over Better Auth and a database, and tells the others who is asking and
  what they may do. A request of a browser reaches a server action, which checks the session, parses the
  payload, runs a controller, a use case and a service, and maps what was thrown to an error that the
  browser may see; an upload runs in the browser, which asks for a URL, sends bytes to it, and confirms.

  \<^bold>\<open>How it is modelled.\<close> Code without effects is a function. Code with effects is a function of a world that
  answers its events (\<open>io\<close> in \<open>Fn_Prelude\<close>): a request, a database call, a call of Better Auth, a log line, a
  sleep, a progress report. The world is arbitrary, so theorems hold for every answer, failures included; the
  history of events is part of the result, and theorems speak about what was sent, in which order, as well
  as about what was returned. A throw is the left side of a sum; an uncaught error is not hidden. Concurrency
  is explicit: React state under any interleaving of its updates (\<open>Item_Store\<close>, \<open>Console_Upload\<close>,
  \<open>React_Hooks\<close>), caches under any sequence of requests and refreshes (\<open>Iam_Cache\<close>), tables under any sequence of
  operations (\<open>Iam_Roles\<close>, \<open>Iam_Menu\<close>, \<open>Iam_Templates\<close>), timers (\<open>Client_Timers\<close>).

  \<^bold>\<open>The theories.\<close>
  \<^item> Shared: \<open>Fn_Prelude\<close> (JSON and JavaScript values, strings, effects and the rules for what a computation
    yields), \<open>Item_Store\<close> (lists of keyed items in React state; a locale), \<open>Chunking\<close> (cutting a file into parts),
    \<open>Zod_Schema\<close> (schemas as data, and what data conforms to them), \<open>Forest\<close> (trees made from rows that name a
    parent; a locale).
  \<^item> SDKs: \<open>Sdk_Errors\<close> (\<^verbatim>\<open>core/src/errors\<close>), \<open>Sdk_Http\<close> (\<^verbatim>\<open>core/src/http/client.ts\<close>: retries, error mapping),
    \<open>Sdk_Files\<close> and \<open>Sdk_Namespaces\<close> (\<^verbatim>\<open>node/src/namespaces\<close>, \<^verbatim>\<open>nextjs/src/server\<close>), \<open>Sdk_Signatures\<close> (webhook signatures in
    the SDKs and the console), \<open>React_Sdk\<close> (the provider), \<open>React_Hooks\<close> and \<open>React_Components\<close> (\<^verbatim>\<open>react/src\<close>).
  \<^item> Console: \<open>Console_Upload\<close> (\<^verbatim>\<open>useFileUpload.ts\<close>), \<open>Error_Boundary\<close> (the contract of an action's boundary; a locale
    that both services interpret), \<open>Console_Schemas\<close>, \<open>Console_Actions\<close> (clients, session, the file operations from
    service to server action), \<open>Console_Resource_Schemas\<close>, \<open>Console_Resources\<close> (the same for projects,
    configuration, storage, webhooks, usage, dashboard, folders, API keys), \<open>Console_Routes\<close> (\<^verbatim>\<open>app/api\<close>),
    \<open>Upload_Through_Server\<close> (the hook through the upload route),
    and of its user interface the parts with rules of their own: \<open>Client_Tables\<close> (exports, simple filters),
    \<open>Client_Filters\<close> (filter and sort builders, search box), \<open>Client_Files\<close> (the files page: folder tree, options of
    an upload, file panel), \<open>Client_Feedback\<close>, \<open>Client_Timers\<close>, \<open>Console_Docs\<close> (the documentation site).
  \<^item> Identity service: \<open>Iam_Access\<close> (permissions, internal routes), \<open>Iam_Nav\<close> (menus of a user), \<open>Iam_Context\<close>,
    \<open>Iam_Hooks\<close> (\<^verbatim>\<open>auth.config.ts\<close>: tokens, sessions, hooks, mails), \<open>Iam_Agents\<close> (agent capabilities, page gate),
    \<open>Iam_Cache\<close> (\<^verbatim>\<open>proxy.ts\<close>), \<open>Iam_Errors\<close> (error classes and mappings), \<open>Iam_Frame\<close> (the frame of services: one
    start and one end line around calls), \<open>Iam_Orgs\<close>, \<open>Iam_Services\<close>, \<open>Iam_SignIn\<close>, \<open>Iam_Catalog\<close> (the services),
    \<open>Iam_Roles\<close>, \<open>Iam_Menu\<close>, \<open>Iam_Templates\<close> (what their calls do to tables), \<open>Iam_Procedures\<close>, \<open>Iam_Controllers\<close>,
    \<open>Iam_Actions\<close> (from use case to server action), \<open>Iam_Schemas\<close>, \<open>Iam_Typed\<close>; the scripts that set the service up
    (\<^verbatim>\<open>iam/scripts\<close>): \<open>Iam_Seeds\<close> (the five scripts with their data, without the lines they print), \<open>Iam_Database\<close>
    (tables, the documented meaning of the calls of the database client that the scripts use, and rules for what
    their steps leave behind), \<open>Iam_Seeds_Rerun\<close>, \<open>Iam_Seeds_Rights\<close>.
  Definitions keep the names of the code; a prefix is added where two components use one name.

  \<^bold>\<open>What the lemmas show.\<close>
  \<^item> Uploads: the parts cut from a file reassemble to it; whatever the network does, an upload ends with its item
    completed, failed or cancelled, sends every byte before it is called done, and aborts what it does not
    finish; uploads side by side do not disturb each other; the server-side upload confirms only what
    storage has accepted.
  \<^item> Calls: a retry loop refines its specification; a refreshed token is tried once; every server action of
    the console sends at most one request to its service and returns only data of its schema.
  \<^item> Access: no server action runs for a caller without a session, and no administration action for anybody but
    a superadmin; payloads reach the services only through their schemas; permission checks, menus and the
    context in tokens grant exactly what the rows of the active organization grant; the active organization
    changes only to one of the user's own, through the console as well; redirects stay on the site; agents
    see the rows of their user; client registration and CORS grants are bounded.
  \<^item> Services: every operation of the identity service writes one start and one end line and fails only with
    application errors, and what it validates conforms to its response schema; role updates, menu moves and
    the rule of one global template hold of the tables.
  \<^item> Scripts: from any well-formed database each comes to its end, and a second run changes no table; a role of a
    portal has exactly the permissions that its script lists; without the organization drgodly, which no
    script creates, the scripts of the portals exit with an error. The columns \<^verbatim>\<open>createdAt\<close> and \<^verbatim>\<open>updatedAt\<close> that the
    database fills in are left out, and a permission column holds the value of its JSON text.
  \<^item> Pages: what the files page sends conforms to the schemas of the actions, but for empty files; the folder tree
    shows each folder that hangs below a top folder, once; of the rules of a column in the filter builder the
    last counts; the upload component reports a batch to its caller only in the renders that the theorem names;
    the documentation has a page for each entry of its navigation and no other.
  \<^item> Round trips, bounds, time: permission keys and CSV exports are read back; generated usernames are free,
    well formed and within bounds; the debounced search ends with the last query; the countdown ends.

  \<^bold>\<open>Bounds and fuel.\<close> The retry loop recurses on the attempts that are left, which the configuration bounds.
  Paging loops have fuel for the number of pages: more fuel than rows is enough (\<open>iterate_yields_all\<close>), and
  with a limit of zero none is (\<open>iterate_limit_zero_diverges\<close>). The menu tree has fuel for its depth, and one more
  than the number of rows is enough (\<open>nav_tree_exact\<close>); the folder tree takes the number of folders, which is
  enough (\<open>folder_tree_exact\<close>). All other recursion is structural or has a measure.
  Numbers of the code are integers within the exact range of doubles, or the text of a decimal; bytes are
  8-bit words; characters outside ASCII appear as their bytes in UTF-8.

  \<^bold>\<open>What is an argument.\<close> The backend, the object store, the database, Better Auth, Zod's parser, HMAC-SHA256,
  \<^verbatim>\<open>JSON.parse\<close> and \<^verbatim>\<open>JSON.stringify\<close>, JWT verification, codecs, clocks and random draws. Hypotheses about them are
  their documented behaviour, named, and each is shown to be satisfiable (\<open>sound_parser\<close>, \<open>sound_schemas\<close>: what a
  parser returns conforms to its schema; \<open>database\<close>: the calls of the scripts are answered from tables).

  \<^bold>\<open>Not modelled.\<close> The Python backend and SDK (another language). Pages, forms, the other dialogs and their
  stores, styles and translations, most of the lines of the console and of the identity service: they render
  through React, TanStack and Radix, and their rules are those of the modelled hooks and actions. Types,
  interfaces and dependency injection, which choose the one implementation that the models call. The query
  cache of TanStack Query, the plugins of Better Auth, and the framework's caches. Logger and mail transport
  configuration, mail texts, the database schema, the texts of the documentation, examples and deployment.
\<close>

end
